(* ===== verification/Prelude.thy ===== *)
theory Prelude
  imports Main "HOL-Library.Word" "HOL-Library.Multiset"
begin

text \<open>
  The shared prelude of the Switchback development: the collections of simplification rules
  the components fill, the names of the machine types the Rust sources use, text rendering
  (decimal numbers, joins, ASCII case folding, trimming) as the standard library does it, and
  the model of \<open>slice::sort_by\<close> with the generic facts about stable sorting that the router
  and the scorecard rest on.
\<close>

section \<open>Collections\<close>

text \<open>
  \<open>sort_facts\<close>: what a stable sort keeps (members, length, multiset).
  \<open>loop_facts\<close>: what one pass over a candidate list leaves in its accumulators.
\<close>

named_theorems sort_facts
named_theorems loop_facts

section \<open>Machine types\<close>

text \<open>
  Counters keep their width as words. Lengths and indices of in-memory vectors
  (\<open>usize\<close>) are natural numbers: a vector never holds \<open>2 ^ 64\<close> elements. A monotonic
  \<open>Instant\<close> and a \<open>Duration\<close> are counted in milliseconds, which every duration of the
  modelled code is a multiple of.
\<close>

type_synonym u8 = "8 word"
type_synonym u16 = "16 word"
type_synonym u32 = "32 word"
type_synonym u64 = "64 word"
type_synonym i64 = int
type_synonym usize = nat
type_synonym instant = nat
type_synonym duration = nat

definition duration_secs :: "nat \<Rightarrow> duration" where
  "duration_secs s = 1000 * s"

text \<open>\<open>saturating_add\<close> and \<open>checked_add\<close> on unsigned words.\<close>

definition sat_add :: "'a::len word \<Rightarrow> 'a word \<Rightarrow> 'a word" where
  "sat_add a b = (if unat a + unat b < 2 ^ LENGTH('a) then a + b else - 1)"

definition checked_add :: "'a::len word \<Rightarrow> 'a word \<Rightarrow> 'a word option" where
  "checked_add a b = (if unat a + unat b < 2 ^ LENGTH('a) then Some (a + b) else None)"

lemma unat_sat_add: "unat (sat_add a b) = min (unat a + unat b) (2 ^ LENGTH('a) - 1)"
  for a b :: "'a::len word"
  by (auto simp: sat_add_def unat_word_ariths unsigned_minus_1_eq_mask mask_eq_exp_minus_1)

lemma checked_add_Some:
  "checked_add a b = Some c \<Longrightarrow> unat c = unat a + unat b"
  by (auto simp: checked_add_def unat_word_ariths split: if_splits)

lemma unat_Suc_word: "unat w < 2 ^ LENGTH('a) - 1 \<Longrightarrow> unat (w + 1) = Suc (unat w)"
  for w :: "'a::len word"
  by (simp add: unat_word_ariths)

lemma unat_word_of_nat: "n < 2 ^ LENGTH('a) \<Longrightarrow> unat (word_of_nat n :: 'a::len word) = n"
  by (simp add: unsigned_of_nat take_bit_nat_eq_self)

section \<open>Rendering\<close>

text \<open>Decimal rendering of natural numbers, as \<open>Display\<close> for the unsigned integers does.\<close>

definition digit_char :: "nat \<Rightarrow> char" where
  "digit_char d = char_of (48 + d)"

fun show_nat :: "nat \<Rightarrow> string" where
  "show_nat n = (if n < 10 then [digit_char n] else show_nat (n div 10) @ [digit_char (n mod 10)])"

declare show_nat.simps [simp del]

definition show_bool :: "bool \<Rightarrow> string" where
  "show_bool b = (if b then ''true'' else ''false'')"

text \<open>\<open>[a, b, c].join(sep)\<close>\<close>

fun join_with :: "string \<Rightarrow> string list \<Rightarrow> string" where
  "join_with sep [] = []"
| "join_with sep [x] = x"
| "join_with sep (x # y # ys) = x @ sep @ join_with sep (y # ys)"

text \<open>\<open>str::to_ascii_lowercase\<close>, \<open>str::contains\<close>, \<open>str::starts_with\<close>.\<close>

definition ascii_lower_char :: "char \<Rightarrow> char" where
  "ascii_lower_char c =
     (let n = (of_char c :: nat) in if 65 \<le> n \<and> n \<le> 90 then char_of (n + 32) else c)"

definition to_ascii_lowercase :: "string \<Rightarrow> string" where
  "to_ascii_lowercase s = map ascii_lower_char s"

definition starts_with :: "string \<Rightarrow> string \<Rightarrow> bool" where
  "starts_with s p \<longleftrightarrow> take (length p) s = p"

fun str_contains :: "string \<Rightarrow> string \<Rightarrow> bool" where
  "str_contains [] p = (p = [])"
| "str_contains (c # cs) p = (starts_with (c # cs) p \<or> str_contains cs p)"

text \<open>\<open>str::strip_prefix\<close> and \<open>str::split_once\<close> (the first occurrence of the separator).\<close>

definition strip_prefix :: "string \<Rightarrow> string \<Rightarrow> string option" where
  "strip_prefix p s = (if starts_with s p then Some (drop (length p) s) else None)"

fun split_once :: "string \<Rightarrow> string \<Rightarrow> (string \<times> string) option" where
  "split_once sep [] = (if sep = [] then Some ([], []) else None)"
| "split_once sep (c # cs) =
     (if starts_with (c # cs) sep then Some ([], drop (length sep) (c # cs))
      else map_option (\<lambda>(a, b). (c # a, b)) (split_once sep cs))"

text \<open>\<open>str::trim().is_empty()\<close> on ASCII text: only white space is left.\<close>

definition ascii_space :: "char \<Rightarrow> bool" where
  "ascii_space c \<longleftrightarrow> (let n = (of_char c :: nat) in n = 32 \<or> (9 \<le> n \<and> n \<le> 13))"

definition trim_is_empty :: "string \<Rightarrow> bool" where
  "trim_is_empty s = list_all ascii_space s"

lemma show_nat_digit: "n < 10 \<Longrightarrow> show_nat n = [digit_char n]"
  by (simp add: show_nat.simps)

lemma show_nat_nonempty: "show_nat n \<noteq> []"
  by (subst show_nat.simps) simp

lemma strip_prefix_append [simp]: "strip_prefix p (p @ s) = Some s"
  by (simp add: strip_prefix_def starts_with_def)

lemma strip_prefix_Some: "strip_prefix p s = Some t \<longleftrightarrow> s = p @ t"
  by (auto simp: strip_prefix_def starts_with_def) (metis append_take_drop_id)

lemma split_once_Some: "split_once sep s = Some (a, b) \<Longrightarrow> s = a @ sep @ b"
proof (induction s arbitrary: a b)
  case Nil
  then show ?case by (simp split: if_splits)
next
  case (Cons c cs)
  show ?case
  proof (cases "starts_with (c # cs) sep")
    case True
    then show ?thesis
      using Cons.prems by (metis append_Nil append_take_drop_id option.inject prod.inject
          split_once.simps(2) starts_with_def)
  next
    case False
    then show ?thesis using Cons by auto
  qed
qed

text \<open>The separator is found where it first starts.\<close>

lemma split_once_first:
  assumes "sep \<noteq> []" and "\<And>i. i < length a \<Longrightarrow> \<not> starts_with (drop i (a @ sep @ b)) sep"
  shows "split_once sep (a @ sep @ b) = Some (a, b)"
  using assms(2)
proof (induction a)
  case Nil
  show ?case
    using assms(1) by (cases sep) (auto simp: starts_with_def)
next
  case (Cons c cs)
  have "\<not> starts_with (c # cs @ sep @ b) sep"
    using Cons.prems [of 0] by simp
  moreover have "split_once sep (cs @ sep @ b) = Some (cs, b)"
    using Cons.prems [of "Suc i" for i] by (intro Cons.IH) auto
  ultimately show ?case by simp
qed

section \<open>Chains of checks\<close>

text \<open>A sequence of \<open>if c { reject; continue }\<close> statements: the first check that fires decides.\<close>

fun first_some :: "'a option list \<Rightarrow> 'a option" where
  "first_some [] = None"
| "first_some (x # xs) = (case x of None \<Rightarrow> first_some xs | Some v \<Rightarrow> Some v)"

lemma first_some_None: "first_some xs = None \<longleftrightarrow> list_all (\<lambda>x. x = None) xs"
  by (induction xs) (auto split: option.splits)

definition find_map :: "('a \<Rightarrow> 'b option) \<Rightarrow> 'a list \<Rightarrow> 'b option" where
  "find_map f xs = first_some (map f xs)"

lemma find_map_None: "find_map f xs = None \<longleftrightarrow> (\<forall>x \<in> set xs. f x = None)"
  by (simp add: find_map_def first_some_None list_all_iff)

lemma find_None_all: "find P xs = None \<longleftrightarrow> (\<forall>x \<in> set xs. \<not> P x)"
  by (auto simp: find_None_iff)

text \<open>\<open>Option::or_else\<close>\<close>

definition or_else :: "'a option \<Rightarrow> 'a option \<Rightarrow> 'a option" where
  "or_else x y = (case x of Some v \<Rightarrow> Some v | None \<Rightarrow> y)"

text \<open>The \<open>?\<close> operator: an error is returned, a value is passed on.\<close>

definition try_with :: "'e + 'a \<Rightarrow> ('a \<Rightarrow> 'e + 'b) \<Rightarrow> 'e + 'b" where
  "try_with r f = (case r of Inl e \<Rightarrow> Inl e | Inr a \<Rightarrow> f a)"

lemma try_with_simps [simp]: "try_with (Inl e) f = Inl e" "try_with (Inr a) f = f a"
  by (simp_all add: try_with_def)

lemma try_with_Inr: "try_with r f = Inr b \<longleftrightarrow> (\<exists>a. r = Inr a \<and> f a = Inr b)"
  by (cases r) auto

lemma try_with_Inl: "try_with r f = Inl e \<longleftrightarrow> r = Inl e \<or> (\<exists>a. r = Inr a \<and> f a = Inl e)"
  by (cases r) auto

text \<open>\<open>slice::partition_point\<close>, on a slice partitioned by the predicate.\<close>

definition partition_point :: "('a \<Rightarrow> bool) \<Rightarrow> 'a list \<Rightarrow> usize" where
  "partition_point P xs = length (takeWhile P xs)"

lemma take_partition_point: "take (partition_point P xs) xs = takeWhile P xs"
  by (metis append_eq_conv_conj partition_point_def takeWhile_dropWhile_id)

lemma drop_partition_point: "drop (partition_point P xs) xs = dropWhile P xs"
  by (metis append_eq_conv_conj partition_point_def takeWhile_dropWhile_id)

section \<open>Stable sorting\<close>

text \<open>
  \<open>std::cmp::Ordering\<close> and \<open>slice::sort_by\<close>. The standard library specifies a stable sort
  whenever the comparison is a total preorder; that sort is unique, and insertion from the
  right computes it. Where the comparison is not one (a NaN among the keys) the library leaves
  the order unspecified: no order property below is stated for such keys.
\<close>

datatype ordering = Less | Equal | Greater

fun ordering_rev :: "ordering \<Rightarrow> ordering" where
  "ordering_rev Less = Greater"
| "ordering_rev Equal = Equal"
| "ordering_rev Greater = Less"

definition cmp_ord :: "'a::linorder \<Rightarrow> 'a \<Rightarrow> ordering" where
  "cmp_ord a b = (if a < b then Less else if a = b then Equal else Greater)"

text \<open>\<open>Ordering::then_with\<close>\<close>

definition then_with :: "ordering \<Rightarrow> ordering \<Rightarrow> ordering" where
  "then_with a b = (if a = Equal then b else a)"

fun insert_by :: "('a \<Rightarrow> 'a \<Rightarrow> ordering) \<Rightarrow> 'a \<Rightarrow> 'a list \<Rightarrow> 'a list" where
  "insert_by cmp x [] = [x]"
| "insert_by cmp x (y # ys) =
     (if cmp x y = Greater then y # insert_by cmp x ys else x # y # ys)"

definition sort_by :: "('a \<Rightarrow> 'a \<Rightarrow> ordering) \<Rightarrow> 'a list \<Rightarrow> 'a list" where
  "sort_by cmp xs = foldr (insert_by cmp) xs []"

definition cmp_sorted :: "('a \<Rightarrow> 'a \<Rightarrow> ordering) \<Rightarrow> 'a list \<Rightarrow> bool" where
  "cmp_sorted cmp xs = sorted_wrt (\<lambda>a b. cmp a b \<noteq> Greater) xs"

lemma mset_insert_by: "mset (insert_by cmp x xs) = add_mset x (mset xs)"
  by (induction xs) auto

lemma mset_sort_by [sort_facts]: "mset (sort_by cmp xs) = mset xs"
  unfolding sort_by_def by (induction xs) (auto simp: mset_insert_by)

lemma set_insert_by: "set (insert_by cmp x xs) = insert x (set xs)"
  by (induction xs) auto

lemma set_sort_by [sort_facts]: "set (sort_by cmp xs) = set xs"
  by (metis mset_sort_by set_mset_mset)

lemma length_sort_by [sort_facts]: "length (sort_by cmp xs) = length xs"
  by (metis mset_sort_by size_mset)

lemma sort_by_Nil [simp]: "sort_by cmp [] = []"
  by (simp add: sort_by_def)

lemma sort_by_Cons: "sort_by cmp (x # xs) = insert_by cmp x (sort_by cmp xs)"
  by (simp add: sort_by_def)

lemma sort_by_single [simp]: "sort_by cmp [x] = [x]"
  by (simp add: sort_by_def)

lemma cmp_ord_simps [simp]:
  "cmp_ord a b = Less \<longleftrightarrow> a < b"
  "cmp_ord a b = Equal \<longleftrightarrow> a = b"
  "cmp_ord a b = Greater \<longleftrightarrow> b < a"
  by (auto simp: cmp_ord_def)

text \<open>
  The interface of a comparison function: on the elements \<open>ok\<close> admits it is a total preorder.
  Everything the router needs of \<open>sort_by\<close> is proved here once.
\<close>

locale preorder_cmp =
  fixes cmp :: "'a \<Rightarrow> 'a \<Rightarrow> ordering"
    and ok :: "'a \<Rightarrow> bool"
  assumes cmp_refl: "ok a \<Longrightarrow> cmp a a = Equal"
    and cmp_swap: "ok a \<Longrightarrow> ok b \<Longrightarrow> cmp b a = ordering_rev (cmp a b)"
    and cmp_trans: "ok a \<Longrightarrow> ok b \<Longrightarrow> ok c \<Longrightarrow> cmp a b \<noteq> Greater \<Longrightarrow>
      cmp b c \<noteq> Greater \<Longrightarrow> cmp a c \<noteq> Greater"
begin

lemma not_greater_total:
  assumes "ok a" and "ok b" and "cmp a b = Greater"
  shows "cmp b a \<noteq> Greater"
  using cmp_swap [OF assms(1,2)] assms(3) by simp

lemma insert_by_sorted:
  assumes "list_all ok (x # xs)" and "cmp_sorted cmp xs"
  shows "cmp_sorted cmp (insert_by cmp x xs)"
  using assms
proof (induction xs)
  case Nil
  then show ?case by (simp add: cmp_sorted_def)
next
  case (Cons y ys)
  have oks: "ok x" "ok y" "\<And>z. z \<in> set ys \<Longrightarrow> ok z"
    using Cons.prems(1) by (auto simp: list_all_iff)
  show ?case
  proof (cases "cmp x y = Greater")
    case True
    have "cmp_sorted cmp (insert_by cmp x ys)"
      using Cons by (simp add: cmp_sorted_def)
    moreover have "\<forall>z \<in> set (insert_by cmp x ys). cmp y z \<noteq> Greater"
      using Cons.prems(2) not_greater_total [OF oks(1,2) True]
      by (auto simp: set_insert_by cmp_sorted_def)
    ultimately show ?thesis
      using True by (simp add: cmp_sorted_def)
  next
    case False
    have "\<forall>z \<in> set ys. cmp x z \<noteq> Greater"
      using Cons.prems(2) cmp_trans [OF oks(1,2) _ False] oks(3)
      by (auto simp: cmp_sorted_def)
    then show ?thesis
      using Cons.prems(2) False by (simp add: cmp_sorted_def)
  qed
qed

lemma sort_by_sorted: "list_all ok xs \<Longrightarrow> cmp_sorted cmp (sort_by cmp xs)"
proof (induction xs)
  case Nil
  then show ?case by (simp add: cmp_sorted_def)
next
  case (Cons x xs)
  have "list_all ok (x # sort_by cmp xs)"
    using Cons.prems by (auto simp: list_all_iff set_sort_by)
  then show ?case
    using Cons by (auto simp: sort_by_Cons intro: insert_by_sorted)
qed

lemma insert_by_front:
  "\<forall>y \<in> set ys. cmp x y \<noteq> Greater \<Longrightarrow> insert_by cmp x ys = x # ys"
  by (cases ys) auto

lemma sort_by_id: "cmp_sorted cmp xs \<Longrightarrow> sort_by cmp xs = xs"
  by (induction xs) (auto simp: cmp_sorted_def sort_by_Cons insert_by_front)

end

text \<open>Comparing a key in a linear order always is a preorder.\<close>

interpretation key_cmp: preorder_cmp "\<lambda>a b. cmp_ord (f a) (f b)" "\<lambda>_. True"
  for f :: "'a \<Rightarrow> 'b::linorder"
  by unfold_locales (auto simp: cmp_ord_def split: if_splits)

end
