(* ===== verification/Binary_Float.thy ===== *)
theory Binary_Float
  imports Complex_Main Prelude "HOL-Library.Log_Nat"
begin

text \<open>
  The \<open>f32\<close> and \<open>f64\<close> of the Rust sources: IEEE 754 binary floating point with
  round-to-nearest-even, written over exact rationals. A finite value is the rational it
  denotes; arithmetic computes the exact result and rounds it once to the format, so
  \<open>f64_add\<close>, \<open>f64_mul\<close> and \<open>f64_div\<close> agree with the hardware operation bit for bit up
  to the sign of a zero. That sign is never observed by the modelled code: comparisons ignore
  it, and a divisor that can be zero is the conversion of an unsigned integer.
\<close>

section \<open>Values and rounding\<close>

datatype flt = FNaN | FInf bool | FFin rat

type_synonym f64 = flt
type_synonym f32 = flt

text \<open>Round half to even, and the binary exponent of a positive rational.\<close>

definition round_half_even :: "rat \<Rightarrow> int" where
  "round_half_even q =
     (let f = \<lfloor>q\<rfloor>; r = q - of_int f
      in if r < 1 / 2 then f else if 1 / 2 < r then f + 1 else if even f then f else f + 1)"

definition ilog2_rat :: "rat \<Rightarrow> int" where
  "ilog2_rat q =
     (let (n, d) = quotient_of q; k = bitlen n - bitlen d
      in if 2 powi k \<le> q then k else k - 1)"

text \<open>\<open>round_flt p emin emax q\<close>: precision \<open>p\<close>, smallest unit \<open>2 powi emin\<close>, overflow at
  \<open>2 ^ emax\<close>.\<close>

definition round_flt :: "nat \<Rightarrow> int \<Rightarrow> nat \<Rightarrow> rat \<Rightarrow> flt" where
  "round_flt p emin emax q =
     (if q = 0 then FFin 0
      else let e = max (ilog2_rat \<bar>q\<bar> - (int p - 1)) emin;
               v = of_int (round_half_even (q / 2 powi e)) * 2 powi e
           in if 2 ^ emax \<le> \<bar>v\<bar> then FInf (q < 0) else FFin v)"

definition round_f64 :: "rat \<Rightarrow> f64" where
  "round_f64 q = round_flt 53 (-1074) 1024 q"

definition round_f32 :: "rat \<Rightarrow> f32" where
  "round_f32 q = round_flt 24 (-149) 128 q"

section \<open>Operations\<close>

fun flt_neg :: "flt \<Rightarrow> flt" where
  "flt_neg FNaN = FNaN"
| "flt_neg (FInf s) = FInf (\<not> s)"
| "flt_neg (FFin q) = FFin (- q)"

fun flt_abs :: "flt \<Rightarrow> flt" where
  "flt_abs FNaN = FNaN"
| "flt_abs (FInf s) = FInf False"
| "flt_abs (FFin q) = FFin \<bar>q\<bar>"

fun add_with :: "(rat \<Rightarrow> flt) \<Rightarrow> flt \<Rightarrow> flt \<Rightarrow> flt" where
  "add_with rnd FNaN y = FNaN"
| "add_with rnd x FNaN = FNaN"
| "add_with rnd (FInf s) (FInf t) = (if s = t then FInf s else FNaN)"
| "add_with rnd (FInf s) (FFin y) = FInf s"
| "add_with rnd (FFin x) (FInf t) = FInf t"
| "add_with rnd (FFin x) (FFin y) = rnd (x + y)"

fun mul_with :: "(rat \<Rightarrow> flt) \<Rightarrow> flt \<Rightarrow> flt \<Rightarrow> flt" where
  "mul_with rnd FNaN y = FNaN"
| "mul_with rnd x FNaN = FNaN"
| "mul_with rnd (FInf s) (FInf t) = FInf (s \<noteq> t)"
| "mul_with rnd (FInf s) (FFin y) = (if y = 0 then FNaN else FInf (s \<noteq> (y < 0)))"
| "mul_with rnd (FFin x) (FInf t) = (if x = 0 then FNaN else FInf (t \<noteq> (x < 0)))"
| "mul_with rnd (FFin x) (FFin y) = rnd (x * y)"

fun div_with :: "(rat \<Rightarrow> flt) \<Rightarrow> flt \<Rightarrow> flt \<Rightarrow> flt" where
  "div_with rnd FNaN y = FNaN"
| "div_with rnd x FNaN = FNaN"
| "div_with rnd (FInf s) (FInf t) = FNaN"
| "div_with rnd (FInf s) (FFin y) = FInf (s \<noteq> (y < 0))"
| "div_with rnd (FFin x) (FInf t) = FFin 0"
| "div_with rnd (FFin x) (FFin y) =
     (if y = 0 then (if x = 0 then FNaN else FInf (x < 0)) else rnd (x / y))"

definition f64_add :: "f64 \<Rightarrow> f64 \<Rightarrow> f64" where
  "f64_add x y = add_with round_f64 x y"

definition f64_sub :: "f64 \<Rightarrow> f64 \<Rightarrow> f64" where
  "f64_sub x y = add_with round_f64 x (flt_neg y)"

definition f64_mul :: "f64 \<Rightarrow> f64 \<Rightarrow> f64" where
  "f64_mul x y = mul_with round_f64 x y"

definition f64_div :: "f64 \<Rightarrow> f64 \<Rightarrow> f64" where
  "f64_div x y = div_with round_f64 x y"

definition f32_mul :: "f32 \<Rightarrow> f32 \<Rightarrow> f32" where
  "f32_mul x y = mul_with round_f32 x y"

text \<open>Literals and the conversions \<open>n as f64\<close>, \<open>x as f32\<close>; \<open>f32 as f64\<close> is exact.\<close>

definition f64_lit :: "rat \<Rightarrow> f64" where
  "f64_lit q = round_f64 q"

definition f32_lit :: "rat \<Rightarrow> f32" where
  "f32_lit q = round_f32 q"

definition nat_as_f64 :: "nat \<Rightarrow> f64" where
  "nat_as_f64 n = round_f64 (of_nat n)"

fun f64_as_f32 :: "f64 \<Rightarrow> f32" where
  "f64_as_f32 FNaN = FNaN"
| "f64_as_f32 (FInf s) = FInf s"
| "f64_as_f32 (FFin q) = round_f32 q"

definition f32_as_f64 :: "f32 \<Rightarrow> f64" where
  "f32_as_f64 x = x"

definition f64_epsilon :: f64 where
  "f64_epsilon = FFin (1 / 2 ^ 52)"

text \<open>\<open>f64::round\<close> (half away from zero) and the saturating cast \<open>x as u64\<close>.\<close>

fun f64_round :: "f64 \<Rightarrow> f64" where
  "f64_round (FFin q) = FFin (of_int (if 0 \<le> q then \<lfloor>q + 1 / 2\<rfloor> else - \<lfloor>1 / 2 - q\<rfloor>))"
| "f64_round x = x"

fun f64_as_u64 :: "f64 \<Rightarrow> u64" where
  "f64_as_u64 FNaN = 0"
| "f64_as_u64 (FInf neg) = (if neg then 0 else - 1)"
| "f64_as_u64 (FFin q) =
     (let n = nat (if 0 \<le> q then \<lfloor>q\<rfloor> else 0) in if n < 2 ^ 64 then word_of_nat n else - 1)"

section \<open>Comparisons\<close>

fun flt_less :: "flt \<Rightarrow> flt \<Rightarrow> bool" where
  "flt_less FNaN y = False"
| "flt_less x FNaN = False"
| "flt_less (FInf s) (FInf t) = (s \<and> \<not> t)"
| "flt_less (FInf s) (FFin y) = s"
| "flt_less (FFin x) (FInf t) = (\<not> t)"
| "flt_less (FFin x) (FFin y) = (x < y)"

definition is_nan :: "flt \<Rightarrow> bool" where
  "is_nan x \<longleftrightarrow> x = FNaN"

fun is_finite :: "flt \<Rightarrow> bool" where
  "is_finite (FFin q) = True"
| "is_finite _ = False"

definition flt_eq :: "flt \<Rightarrow> flt \<Rightarrow> bool" where
  "flt_eq x y \<longleftrightarrow> \<not> is_nan x \<and> x = y"

definition flt_le :: "flt \<Rightarrow> flt \<Rightarrow> bool" where
  "flt_le x y \<longleftrightarrow> flt_less x y \<or> flt_eq x y"

text \<open>\<open>f64::partial_cmp\<close>, \<open>f64::min\<close>, \<open>f64::max\<close>, \<open>f64::clamp\<close>\<close>

definition partial_cmp :: "flt \<Rightarrow> flt \<Rightarrow> ordering option" where
  "partial_cmp x y =
     (if is_nan x \<or> is_nan y then None
      else if flt_less x y then Some Less else if x = y then Some Equal else Some Greater)"

definition cmp_or_equal :: "flt \<Rightarrow> flt \<Rightarrow> ordering" where
  "cmp_or_equal x y = (case partial_cmp x y of None \<Rightarrow> Equal | Some c \<Rightarrow> c)"

definition flt_min :: "flt \<Rightarrow> flt \<Rightarrow> flt" where
  "flt_min x y = (if is_nan x then y else if is_nan y then x else if flt_less y x then y else x)"

definition flt_max :: "flt \<Rightarrow> flt \<Rightarrow> flt" where
  "flt_max x y = (if is_nan x then y else if is_nan y then x else if flt_less x y then y else x)"

definition flt_clamp :: "flt \<Rightarrow> flt \<Rightarrow> flt \<Rightarrow> flt" where
  "flt_clamp lo hi x =
     (let x1 = (if flt_less x lo then lo else x) in if flt_less hi x1 then hi else x1)"

section \<open>Fixed-point rendering\<close>

text \<open>\<open>format!("{:.k}", x)\<close>: the exact value rounded half to even at \<open>k\<close> decimals.\<close>

fun pad_left :: "nat \<Rightarrow> string \<Rightarrow> string" where
  "pad_left n s = replicate (n - length s) (CHR ''0'') @ s"

fun fmt_fixed :: "nat \<Rightarrow> flt \<Rightarrow> string" where
  "fmt_fixed k FNaN = ''NaN''"
| "fmt_fixed k (FInf s) = (if s then ''-inf'' else ''inf'')"
| "fmt_fixed k (FFin q) =
     (let m = nat (round_half_even (\<bar>q\<bar> * 10 ^ k))
      in (if q < 0 then ''-'' else []) @ show_nat (m div 10 ^ k)
         @ (if k = 0 then [] else ''.'' @ pad_left k (show_nat (m mod 10 ^ k))))"

section \<open>Order facts\<close>

lemma not_nan_less_total:
  "\<not> is_nan x \<Longrightarrow> \<not> is_nan y \<Longrightarrow> flt_less x y \<or> x = y \<or> flt_less y x"
  by (cases x; cases y) (auto simp: is_nan_def)

lemma flt_less_irrefl [simp]: "\<not> flt_less x x"
  by (cases x) auto

lemma flt_less_asym: "flt_less x y \<Longrightarrow> \<not> flt_less y x"
  by (cases x; cases y) auto

lemma flt_less_trans: "flt_less x y \<Longrightarrow> flt_less y z \<Longrightarrow> flt_less x z"
  by (cases x; cases y; cases z) auto

lemma flt_less_not_nan: "flt_less x y \<Longrightarrow> \<not> is_nan x \<and> \<not> is_nan y"
  by (cases x; cases y) (auto simp: is_nan_def)

lemma flt_le_trans: "flt_le x y \<Longrightarrow> flt_le y z \<Longrightarrow> flt_le x z"
  unfolding flt_le_def flt_eq_def using flt_less_trans by blast

lemma cmp_or_equal_refl [simp]: "cmp_or_equal x x = Equal"
  by (simp add: cmp_or_equal_def partial_cmp_def)

lemma cmp_or_equal_Greater: "cmp_or_equal x y = Greater \<longleftrightarrow> flt_less y x"
  using not_nan_less_total [of x y] flt_less_asym [of x y] flt_less_not_nan [of y x]
  by (auto simp: cmp_or_equal_def partial_cmp_def)

lemma cmp_or_equal_Less: "cmp_or_equal x y = Less \<longleftrightarrow> flt_less x y"
  using flt_less_not_nan [of x y] by (auto simp: cmp_or_equal_def partial_cmp_def)

text \<open>Comparing a float-valued key is a total preorder wherever no key is NaN.\<close>

lemma cmp_or_equal_swap: "cmp_or_equal y x = ordering_rev (cmp_or_equal x y)"
  using not_nan_less_total [of x y] flt_less_asym [of x y] flt_less_asym [of y x]
  by (auto simp: cmp_or_equal_def partial_cmp_def)

lemma cmp_or_equal_trans:
  assumes "\<not> is_nan x" and "\<not> is_nan y" and "\<not> is_nan z"
    and "cmp_or_equal x y \<noteq> Greater" and "cmp_or_equal y z \<noteq> Greater"
  shows "cmp_or_equal x z \<noteq> Greater"
proof -
  have "flt_less x y \<or> x = y" and "flt_less y z \<or> y = z"
    using assms not_nan_less_total by (auto simp: cmp_or_equal_Greater)
  then have "flt_less x z \<or> x = z"
    by (auto dest: flt_less_trans)
  then show ?thesis
    by (auto simp: cmp_or_equal_Greater dest: flt_less_asym)
qed

interpretation float_cmp: preorder_cmp "\<lambda>a b. cmp_or_equal (f a) (f b)" "\<lambda>a. \<not> is_nan (f a)"
  for f :: "'a \<Rightarrow> flt"
  by unfold_locales (auto simp: cmp_or_equal_swap [symmetric] dest: cmp_or_equal_trans)

text \<open>The score orders sort descending: the comparison with its arguments exchanged.\<close>

interpretation float_desc_cmp:
  preorder_cmp "\<lambda>a b. cmp_or_equal (f b) (f a)" "\<lambda>a. \<not> is_nan (f a)"
  for f :: "'a \<Rightarrow> flt"
  by unfold_locales (auto simp: cmp_or_equal_swap [symmetric] dest: cmp_or_equal_trans)

section \<open>Range facts\<close>

definition in_unit :: "flt \<Rightarrow> bool" where
  "in_unit x \<longleftrightarrow> (\<exists>q. x = FFin q \<and> 0 \<le> q \<and> q \<le> 1)"

lemma clamp_unit: "\<not> is_nan x \<Longrightarrow> in_unit (flt_clamp (FFin 0) (FFin 1) x)"
  by (cases x) (auto simp: flt_clamp_def in_unit_def is_nan_def)

lemma clamp_nan: "is_nan x \<Longrightarrow> flt_clamp lo hi x = FNaN"
  by (cases lo; cases hi; simp add: flt_clamp_def is_nan_def)

section \<open>Rounding is monotone\<close>

lemma round_half_even_le:
  assumes "q \<le> of_int n"
  shows "round_half_even q \<le> n"
proof (cases "\<lfloor>q\<rfloor> < n")
  case True
  then show ?thesis by (auto simp: round_half_even_def Let_def)
next
  case False
  then have "q = of_int \<lfloor>q\<rfloor>" and "\<lfloor>q\<rfloor> = n"
    using assms of_int_floor_le [of q] floor_mono [OF assms] by (auto simp: order.antisym)
  then show ?thesis by (simp add: round_half_even_def Let_def)
qed

lemma round_half_even_ge:
  assumes "of_int n \<le> q"
  shows "n \<le> round_half_even q"
proof -
  have "n \<le> \<lfloor>q\<rfloor>" using assms by (simp add: le_floor_iff)
  then show ?thesis by (auto simp: round_half_even_def Let_def)
qed

text \<open>The exponent is exact, so rounding is monotone.\<close>

lemma bitlen_powi:
  assumes "0 < n"
  shows "2 powi (bitlen n - 1) \<le> (of_int n :: rat)" and "(of_int n :: rat) < 2 powi bitlen n"
proof -
  have b: "0 < bitlen n"
    using bitlen_bounds [OF assms] assms by (cases "bitlen n \<le> 0") auto
  have "2 ^ nat (bitlen n - 1) \<le> n" and "n < 2 ^ nat (bitlen n)"
    using bitlen_bounds [OF assms] by auto
  then have "rat_of_int (2 ^ nat (bitlen n - 1)) \<le> of_int n" "rat_of_int n < of_int (2 ^ nat (bitlen n))"
    by (simp_all only: of_int_le_iff of_int_less_iff)
  with b show "2 powi (bitlen n - 1) \<le> (of_int n :: rat)" "(of_int n :: rat) < 2 powi bitlen n"
    by (simp_all add: power_int_def)
qed

lemma ilog2_rat_bounds:
  assumes "0 < q"
  shows "2 powi ilog2_rat q \<le> q" and "q < 2 powi (ilog2_rat q + 1)"
proof -
  obtain n d where nd: "quotient_of q = (n, d)" by (cases "quotient_of q")
  then have d: "0 < d" by (simp add: quotient_of_denom_pos)
  have q: "q = of_int n / of_int d" using nd by (rule quotient_of_div)
  have n: "0 < n" using assms d unfolding q by (simp add: zero_less_divide_iff)
  define k where "k = bitlen n - bitlen d"
  note bn = bitlen_powi [OF n] and bd = bitlen_powi [OF d]
  have "q < 2 powi bitlen n / 2 powi (bitlen d - 1)"
    unfolding q by (intro frac_less) (use bn bd n d in auto)
  also have "\<dots> = 2 powi (k + 1)"
    by (simp add: k_def power_int_diff [symmetric] algebra_simps)
  finally have up: "q < 2 powi (k + 1)" .
  have "2 powi (k - 1) = 2 powi (bitlen n - 1) / (2 powi bitlen d :: rat)"
    by (simp add: k_def power_int_diff [symmetric] algebra_simps)
  also have "\<dots> \<le> q"
    unfolding q by (intro frac_le) (use bn bd n d in auto)
  finally have "2 powi (k - 1) \<le> q" .
  with up show "2 powi ilog2_rat q \<le> q" "q < 2 powi (ilog2_rat q + 1)"
    by (auto simp: ilog2_rat_def nd k_def [symmetric] Let_def)
qed

lemma ilog2_rat_mono:
  assumes "0 < x" and "x \<le> y"
  shows "ilog2_rat x \<le> ilog2_rat y"
proof -
  have "(2::rat) powi ilog2_rat x < 2 powi (ilog2_rat y + 1)"
    using ilog2_rat_bounds [of x] ilog2_rat_bounds [of y] assms by linarith
  then show ?thesis
    using power_int_increasing [of "ilog2_rat y + 1" "ilog2_rat x" "2 :: rat"] by fastforce
qed

lemma round_half_even_mono: "x \<le> y \<Longrightarrow> round_half_even x \<le> round_half_even y"
proof (cases "\<lfloor>x\<rfloor> = \<lfloor>y\<rfloor>")
  case False
  assume "x \<le> y"
  with False have "\<lfloor>x\<rfloor> + 1 \<le> \<lfloor>y\<rfloor>" using floor_mono [of x y] by linarith
  then have "x \<le> of_int \<lfloor>y\<rfloor>" by linarith
  then show ?thesis
    using round_half_even_le [of x "\<lfloor>y\<rfloor>"] round_half_even_ge [of "\<lfloor>y\<rfloor>" y] by simp
qed (auto simp: round_half_even_def Let_def)


text \<open>The unit in the last place at \<open>q\<close>, and the rounded value before the overflow test.\<close>

definition round_unit :: "nat \<Rightarrow> int \<Rightarrow> rat \<Rightarrow> int" where
  "round_unit p emin q = max (ilog2_rat \<bar>q\<bar> - (int p - 1)) emin"

definition round_val :: "nat \<Rightarrow> int \<Rightarrow> rat \<Rightarrow> rat" where
  "round_val p emin q = of_int (round_half_even (q / 2 powi round_unit p emin q)) * 2 powi round_unit p emin q"

lemma round_flt_alt:
  "round_flt p emin emax q =
     (if q = 0 then FFin 0
      else if 2 ^ emax \<le> \<bar>round_val p emin q\<bar> then FInf (q < 0) else FFin (round_val p emin q))"
  by (simp add: round_flt_def round_val_def round_unit_def Let_def)

lemma round_val_mono:
  assumes "0 < x" and "x \<le> y" and "1 \<le> p"
  shows "round_val p emin x \<le> round_val p emin y"
proof -
  let ?ex = "round_unit p emin x" and ?ey = "round_unit p emin y"
  have le: "?ex \<le> ?ey"
    using ilog2_rat_mono [OF assms(1,2)] assms by (auto simp: round_unit_def)
  show ?thesis
  proof (cases "?ex = ?ey")
    case True
    then show ?thesis
      using assms by (simp add: round_val_def round_half_even_mono divide_right_mono)
  next
    case False
    have "x / 2 powi ?ex \<le> of_int (2 ^ p)"
    proof -
      have "x < 2 powi (ilog2_rat x + 1)" using ilog2_rat_bounds assms by simp
      also have "\<dots> \<le> 2 powi (int p + ?ex)"
        using assms by (intro power_int_increasing) (auto simp: round_unit_def)
      finally show ?thesis by (simp add: power_int_add divide_le_eq)
    qed
    then have "of_int (round_half_even (x / 2 powi ?ex)) \<le> rat_of_int (2 ^ p)"
      by (intro of_int_le_iff [THEN iffD2] round_half_even_le)
    then have "round_val p emin x \<le> 2 powi (int p + ?ex)"
      by (simp add: round_val_def power_int_add)
    also have "\<dots> \<le> 2 powi (int (p - 1) + ?ey)"
      using le False assms by (intro power_int_increasing) auto
    also have "\<dots> \<le> round_val p emin y"
    proof -
      have ey: "?ey = ilog2_rat y - (int p - 1)"
        using le False assms by (auto simp: round_unit_def)
      have "of_int (2 ^ (p - 1)) \<le> y / 2 powi ?ey"
        using ilog2_rat_bounds(1) [of y] assms
        by (simp add: ey le_divide_eq power_int_add [symmetric] power_int_of_nat [symmetric] of_nat_diff)
      then have "rat_of_int (2 ^ (p - 1)) \<le> of_int (round_half_even (y / 2 powi ?ey))"
        by (intro of_int_le_iff [THEN iffD2] round_half_even_ge)
      then show ?thesis by (simp add: round_val_def power_int_add)
    qed
    finally show ?thesis .
  qed
qed

lemma round_val_nonneg: "0 \<le> q \<Longrightarrow> 0 \<le> round_val p emin q"
  using round_half_even_ge [of 0 "q / 2 powi round_unit p emin q"] by (simp add: round_val_def)

lemma round_flt_mono:
  assumes "0 \<le> x" and "x \<le> y" and "1 \<le> p"
  shows "flt_le (round_flt p emin emax x) (round_flt p emin emax y)"
proof (cases "x = 0")
  case True
  then show ?thesis
    using round_val_nonneg [of y p emin] assms
    by (auto simp: round_flt_alt flt_le_def flt_eq_def is_nan_def)
next
  case False
  then show ?thesis
    using round_val_mono [of x y p emin] round_val_nonneg [of x p emin] assms
    by (auto simp: round_flt_alt flt_le_def flt_eq_def is_nan_def)
qed


lemma round_f64_mono: "0 \<le> x \<Longrightarrow> x \<le> y \<Longrightarrow> flt_le (round_f64 x) (round_f64 y)"
  by (simp add: round_f64_def round_flt_mono)

lemma round_f32_mono: "0 \<le> x \<Longrightarrow> x \<le> y \<Longrightarrow> flt_le (round_f32 x) (round_f32 y)"
  by (simp add: round_f32_def round_flt_mono)

lemma round_units: "round_f64 0 = FFin 0" "round_f64 1 = FFin 1" "round_f32 0 = FFin 0" "round_f32 1 = FFin 1"
  by code_simp+

lemma unit_f64_lit [simp]: "f64_lit 0 = FFin 0" "f64_lit 1 = FFin 1"
  by (simp_all add: f64_lit_def round_units)

lemma round_f64_nonneg: "0 \<le> q \<Longrightarrow> flt_le (FFin 0) (round_f64 q)"
  using round_f64_mono [of 0 q] by (simp add: round_units)

lemma between_unit: "flt_le (FFin 0) x \<Longrightarrow> flt_le x (FFin 1) \<Longrightarrow> in_unit x"
  by (cases x) (auto simp: flt_le_def flt_eq_def in_unit_def)

lemma round_f64_unit: "0 \<le> q \<Longrightarrow> q \<le> 1 \<Longrightarrow> in_unit (round_f64 q)"
  using round_f64_mono [of q 1] by (intro between_unit) (simp_all add: round_units round_f64_nonneg)

lemma round_f32_unit: "0 \<le> q \<Longrightarrow> q \<le> 1 \<Longrightarrow> in_unit (round_f32 q)"
  using round_f32_mono [of q 1] round_f32_mono [of 0 q] by (intro between_unit) (simp_all add: round_units)

definition unit_or_nan :: "flt \<Rightarrow> bool" where
  "unit_or_nan x \<longleftrightarrow> is_nan x \<or> in_unit x"

lemma ratio_unit:
  assumes "0 \<le> x" and "x \<le> y"
  shows "unit_or_nan (f64_div (round_f64 x) (round_f64 y))"
  using round_f64_mono [OF assms] round_f64_nonneg [OF assms(1)] 
  by (cases "round_f64 x"; cases "round_f64 y")
    (auto simp: f64_div_def unit_or_nan_def is_nan_def in_unit_def flt_le_def flt_eq_def
      intro: round_f64_unit [unfolded in_unit_def])

lemma one_minus_unit: "unit_or_nan x \<Longrightarrow> unit_or_nan (f64_sub (FFin 1) x)"
  using round_f64_unit by (cases x) (auto simp: f64_sub_def unit_or_nan_def is_nan_def in_unit_def)

lemma clamp_unit_or_nan: "unit_or_nan (flt_clamp (FFin 0) (FFin 1) x)"
  using clamp_unit clamp_nan by (cases "is_nan x") (auto simp: unit_or_nan_def is_nan_def)

end
