(* ===== verification/Ordered_Map.thy ===== *)
theory Ordered_Map
  imports Prelude "HOL-Library.List_Lexorder" "HOL-Library.Char_ord"
begin

text \<open>
  The ordered containers of the standard library. A \<open>BTreeMap\<close> is the association list its
  iteration yields: strictly increasing in its keys (strings in byte order). A \<open>BTreeSet\<close> is
  the strictly increasing list of its members. The locale \<open>kv_map\<close> is the contract the
  clients rely on; the sorted association list is interpreted in it, and so is the plain
  partial map that stands for a \<open>HashMap\<close> whose iteration order is never used.
\<close>

section \<open>The contract of a key-value map\<close>

locale kv_map =
  fixes mt :: "'m"
    and upd :: "'k \<Rightarrow> 'v \<Rightarrow> 'm \<Rightarrow> 'm"
    and get :: "'m \<Rightarrow> 'k \<Rightarrow> 'v option"
    and wf :: "'m \<Rightarrow> bool"
  assumes wf_mt: "wf mt"
    and wf_upd: "wf m \<Longrightarrow> wf (upd k v m)"
    and get_mt: "get mt k = None"
    and get_upd: "wf m \<Longrightarrow> get (upd k v m) k' = (if k' = k then Some v else get m k')"
begin

text \<open>Collecting an iterator of pairs inserts them one after another.\<close>

lemma wf_collect: "wf m \<Longrightarrow> wf (fold (\<lambda>(k, v). upd k v) kvs m)"
  by (induction kvs arbitrary: m) (auto simp: wf_upd)

lemma get_collect:
  "wf m \<Longrightarrow> get (fold (\<lambda>(k, v). upd k v) kvs m) k =
     (case map_of (rev kvs) k of None \<Rightarrow> get m k | Some v \<Rightarrow> Some v)"
  by (induction kvs arbitrary: m)
    (auto simp: wf_upd get_upd map_of_append map_add_def split: option.splits)

lemma get_collect_mt: "get (fold (\<lambda>(k, v). upd k v) kvs mt) k = map_of (rev kvs) k"
  by (simp add: get_collect wf_mt get_mt split: option.splits)

end

interpretation hash_map: kv_map "Map.empty" "\<lambda>k v m. m(k \<mapsto> v)" "\<lambda>m k. m k" "\<lambda>_. True"
  by unfold_locales auto

section \<open>BTreeMap\<close>

type_synonym ('k, 'v) btree_map = "('k \<times> 'v) list"

fun bt_insert :: "'k::linorder \<Rightarrow> 'v \<Rightarrow> ('k, 'v) btree_map \<Rightarrow> ('k, 'v) btree_map" where
  "bt_insert k v [] = [(k, v)]"
| "bt_insert k v ((k', v') # m) =
     (if k < k' then (k, v) # (k', v') # m
      else if k = k' then (k, v) # m
      else (k', v') # bt_insert k v m)"

definition bt_get :: "('k, 'v) btree_map \<Rightarrow> 'k \<Rightarrow> 'v option" where
  "bt_get m k = map_of m k"

definition bt_collect :: "('k::linorder \<times> 'v) list \<Rightarrow> ('k, 'v) btree_map" where
  "bt_collect kvs = fold (\<lambda>(k, v). bt_insert k v) kvs []"

definition bt_wf :: "('k::linorder, 'v) btree_map \<Rightarrow> bool" where
  "bt_wf m = sorted_wrt (<) (map fst m)"

lemma fst_set_bt_insert: "fst ` set (bt_insert k v m) = insert k (fst ` set m)"
  by (induction k v m rule: bt_insert.induct) (simp_all add: insert_commute)

lemma bt_wf_insert: "bt_wf m \<Longrightarrow> bt_wf (bt_insert k v m)"
proof (induction m)
  case Nil
  then show ?case by (simp add: bt_wf_def)
next
  case (Cons kv m)
  obtain k' v' where kv: "kv = (k', v')" by (cases kv)
  have keys: "\<forall>x \<in> fst ` set m. k' < x" and "bt_wf m"
    using Cons.prems by (auto simp: bt_wf_def kv)
  then show ?case
    using Cons fst_set_bt_insert [of k v m] by (auto simp: bt_wf_def kv)
qed

lemma bt_get_insert:
  "bt_wf m \<Longrightarrow> bt_get (bt_insert k v m) k' = (if k' = k then Some v else bt_get m k')"
proof (induction m)
  case Nil
  then show ?case by (simp add: bt_get_def)
next
  case (Cons kv m)
  obtain k1 v1 where kv: "kv = (k1, v1)" by (cases kv)
  have "bt_wf m" using Cons.prems by (simp add: bt_wf_def)
  then show ?case
    using Cons.IH by (auto simp: bt_get_def kv)
qed

interpretation btree: kv_map "[]" "bt_insert :: 'k::linorder \<Rightarrow> 'v \<Rightarrow> _" bt_get bt_wf
  by unfold_locales (simp_all add: bt_wf_insert bt_get_insert, simp_all add: bt_wf_def bt_get_def)

lemma bt_wf_collect: "bt_wf (bt_collect kvs)"
  unfolding bt_collect_def by (rule btree.wf_collect) (rule btree.wf_mt)

lemma bt_get_collect: "bt_get (bt_collect kvs) k = map_of (rev kvs) k"
  unfolding bt_collect_def by (rule btree.get_collect_mt)

section \<open>BTreeSet\<close>

type_synonym 'a btree_set = "'a list"

definition bs_collect :: "'a::linorder list \<Rightarrow> 'a btree_set" where
  "bs_collect xs = sort (remdups xs)"

lemma set_bs_collect [simp]: "set (bs_collect xs) = set xs"
  by (simp add: bs_collect_def)

lemma bs_collect_Nil [simp]: "bs_collect [] = []"
  by (simp add: bs_collect_def)

lemma bs_collect_empty_iff [simp]: "bs_collect xs = [] \<longleftrightarrow> xs = []"
  by (metis set_bs_collect set_empty)

end
