(* ===== verification/Error_Class.thy ===== *)
theory Error_Class
  imports Prelude
begin

text \<open>
  The error taxonomy of \<open>sb-core/src/error.rs\<close>: the classes adapters map upstream failures
  to, which drive fallback, cooldown and scoring everywhere else.
\<close>

datatype error_class =
    Authentication
  | Authorization
  | RateLimited
  | QuotaExceeded
  | ProviderOverloaded
  | Timeout
  | Network
  | InvalidRequest
  | ContextTooLong
  | UnsupportedCapability
  | SafetyBlocked
  | ServerError
  | StreamInterrupted
  | Unknown

definition should_fallback :: "error_class \<Rightarrow> bool" where
  "should_fallback c \<longleftrightarrow> \<not> (case c of InvalidRequest \<Rightarrow> True | SafetyBlocked \<Rightarrow> True | _ \<Rightarrow> False)"

definition is_client_error :: "error_class \<Rightarrow> bool" where
  "is_client_error c \<longleftrightarrow>
     (case c of InvalidRequest \<Rightarrow> True | ContextTooLong \<Rightarrow> True | UnsupportedCapability \<Rightarrow> True
      | _ \<Rightarrow> False)"

fun error_class_as_str :: "error_class \<Rightarrow> string" where
  "error_class_as_str Authentication = ''authentication''"
| "error_class_as_str Authorization = ''authorization''"
| "error_class_as_str RateLimited = ''rate_limited''"
| "error_class_as_str QuotaExceeded = ''quota_exceeded''"
| "error_class_as_str ProviderOverloaded = ''provider_overloaded''"
| "error_class_as_str Timeout = ''timeout''"
| "error_class_as_str Network = ''network''"
| "error_class_as_str InvalidRequest = ''invalid_request''"
| "error_class_as_str ContextTooLong = ''context_too_long''"
| "error_class_as_str UnsupportedCapability = ''unsupported_capability''"
| "error_class_as_str SafetyBlocked = ''safety_blocked''"
| "error_class_as_str ServerError = ''server_error''"
| "error_class_as_str StreamInterrupted = ''stream_interrupted''"
| "error_class_as_str Unknown = ''unknown''"

fun http_status :: "error_class \<Rightarrow> u16" where
  "http_status Authentication = 401"
| "http_status Authorization = 403"
| "http_status RateLimited = 429"
| "http_status QuotaExceeded = 429"
| "http_status ProviderOverloaded = 429"
| "http_status Timeout = 504"
| "http_status Network = 502"
| "http_status ServerError = 502"
| "http_status StreamInterrupted = 502"
| "http_status Unknown = 502"
| "http_status InvalidRequest = 400"
| "http_status ContextTooLong = 413"
| "http_status UnsupportedCapability = 422"
| "http_status SafetyBlocked = 451"

lemma error_class_as_str_inj: "error_class_as_str a = error_class_as_str b \<longleftrightarrow> a = b"
  by (cases a; cases b) simp_all

end
