(* ===== verification/Canonical_IR.thy ===== *)
theory Canonical_IR
  imports Binary_Float Ordered_Map Error_Class
begin

text \<open>
  The canonical request of \<open>sb-core/src/ir.rs\<close>: content parts, messages, tools and the
  request itself, with the operations the router and the runtime call on it (capability
  inference, validation, image stripping). Opaque JSON (\<open>serde_json::Value\<close>) is the type
  parameter \<open>'j\<close>.
\<close>

section \<open>Images\<close>

datatype role = System | User | Assistant | Tool

datatype image_detail = DetailLow | DetailHigh | DetailAuto | DetailOriginal

definition image_detail_parse :: "string \<Rightarrow> string + image_detail" where
  "image_detail_parse s =
     (if s = ''low'' then Inr DetailLow
      else if s = ''high'' then Inr DetailHigh
      else if s = ''auto'' then Inr DetailAuto
      else if s = ''original'' then Inr DetailOriginal
      else Inl (''unsupported image detail `'' @ s @ ''`''))"

fun image_detail_as_str :: "image_detail \<Rightarrow> string" where
  "image_detail_as_str DetailLow = ''low''"
| "image_detail_as_str DetailHigh = ''high''"
| "image_detail_as_str DetailAuto = ''auto''"
| "image_detail_as_str DetailOriginal = ''original''"

datatype image_source_kind = InlineBase64Kind | RemoteUrlKind | ProviderFileRefKind

fun image_source_kind_as_str :: "image_source_kind \<Rightarrow> string" where
  "image_source_kind_as_str InlineBase64Kind = ''inline_base64''"
| "image_source_kind_as_str RemoteUrlKind = ''remote_url''"
| "image_source_kind_as_str ProviderFileRefKind = ''provider_file_ref''"

text \<open>The derived \<open>Ord\<close> follows the order of declaration.\<close>

fun image_source_kind_index :: "image_source_kind \<Rightarrow> nat" where
  "image_source_kind_index InlineBase64Kind = 0"
| "image_source_kind_index RemoteUrlKind = 1"
| "image_source_kind_index ProviderFileRefKind = 2"

lemma image_source_kind_index_inj [simp]:
  "image_source_kind_index a = image_source_kind_index b \<longleftrightarrow> a = b"
  by (cases a; cases b) simp_all

instantiation image_source_kind :: linorder
begin

definition less_eq_image_source_kind :: "image_source_kind \<Rightarrow> image_source_kind \<Rightarrow> bool" where
  "less_eq_image_source_kind a b \<longleftrightarrow> image_source_kind_index a \<le> image_source_kind_index b"

definition less_image_source_kind :: "image_source_kind \<Rightarrow> image_source_kind \<Rightarrow> bool" where
  "less_image_source_kind a b \<longleftrightarrow> image_source_kind_index a < image_source_kind_index b"

instance
  by standard (auto simp: less_eq_image_source_kind_def less_image_source_kind_def)

end

datatype image_source =
    InlineBase64 (media_type: string) (b64_data: string)
  | RemoteUrl (remote_url: string)
  | ProviderFileRef (file_provider: "string option") (file_id: string)

fun image_source_kind_of :: "image_source \<Rightarrow> image_source_kind" where
  "image_source_kind_of (InlineBase64 m d) = InlineBase64Kind"
| "image_source_kind_of (RemoteUrl u) = RemoteUrlKind"
| "image_source_kind_of (ProviderFileRef p i) = ProviderFileRefKind"

fun image_source_validate :: "image_source \<Rightarrow> string + unit" where
  "image_source_validate (InlineBase64 m d) =
     (if trim_is_empty m then Inl ''inline image missing media_type''
      else if \<not> starts_with m ''image/''
        then Inl (''inline image media_type `'' @ m @ ''` is not image/*'')
      else if trim_is_empty d then Inl ''inline image missing base64 data''
      else Inr ())"
| "image_source_validate (RemoteUrl u) =
     (if trim_is_empty u then Inl ''remote image URL is empty'' else Inr ())"
| "image_source_validate (ProviderFileRef p i) =
     (if p = Some [] then Inl ''provider file image has empty provider scope''
      else if trim_is_empty i then Inl ''provider file image missing id''
      else Inr ())"

fun scoped_for :: "image_source \<Rightarrow> string \<Rightarrow> bool" where
  "scoped_for (ProviderFileRef (Some owner) i) provider = (owner = provider)"
| "scoped_for (ProviderFileRef None i) provider = True"
| "scoped_for _ provider = False"

definition split_base64_data_url :: "string \<Rightarrow> (string \<times> string) option" where
  "split_base64_data_url url =
     (case strip_prefix ''data:'' url of
        None \<Rightarrow> None
      | Some rest \<Rightarrow>
          (case split_once '';base64,'' rest of
             None \<Rightarrow> None
           | Some (media, dat) \<Rightarrow>
               if media = [] \<or> dat = [] then None else Some (media, dat)))"

section \<open>Content parts and messages\<close>

datatype tool_result_part =
    TrText string
  | TrImage image_source "image_detail option"

fun tool_result_part_validate :: "tool_result_part \<Rightarrow> string + unit" where
  "tool_result_part_validate (TrImage src d) = image_source_validate src"
| "tool_result_part_validate (TrText t) = Inr ()"

datatype 'j content_part =
    CpText string
  | CpImage image_source "image_detail option"
  | CpToolUse string string 'j
  | CpToolResult string string "tool_result_part list" bool
  | CpReasoning string "string option"
  | CpCitation string "string option" "string option"
  | CpServerToolUse string string 'j
  | CpServerToolResult string string string

definition image_url :: "string \<Rightarrow> image_detail option \<Rightarrow> 'j content_part" where
  "image_url url detail =
     (let source = (case split_base64_data_url url of
                      Some (m, d) \<Rightarrow> InlineBase64 m d
                    | None \<Rightarrow> RemoteUrl url)
      in CpImage source detail)"

fun part_image_source_kind :: "'j content_part \<Rightarrow> image_source_kind option" where
  "part_image_source_kind (CpImage src d) = Some (image_source_kind_of src)"
| "part_image_source_kind _ = None"

text \<open>A loop whose body ends in \<open>?\<close>: the first error is returned.\<close>

fun validate_all :: "('a \<Rightarrow> string + unit) \<Rightarrow> 'a list \<Rightarrow> string + unit" where
  "validate_all f [] = Inr ()"
| "validate_all f (x # xs) = (case f x of Inl e \<Rightarrow> Inl e | Inr _ \<Rightarrow> validate_all f xs)"

fun content_part_validate :: "'j content_part \<Rightarrow> string + unit" where
  "content_part_validate (CpImage src d) = image_source_validate src"
| "content_part_validate (CpToolResult i c parts err) = validate_all tool_result_part_validate parts"
| "content_part_validate _ = Inr ()"

fun is_image :: "'j content_part \<Rightarrow> bool" where
  "is_image (CpImage src d) = True"
| "is_image _ = False"

record cache_hint =
  ttl_seconds :: "u32 option"

record 'j message =
  msg_role :: role
  msg_content :: "'j content_part list"
  msg_cache_hint :: "cache_hint option"

fun part_text :: "'j content_part \<Rightarrow> string" where
  "part_text (CpText t) = t"
| "part_text _ = []"

definition message_text :: "'j message \<Rightarrow> string" where
  "message_text m = concat (map part_text (msg_content m))"

text \<open>Why the model stopped.\<close>

datatype finish_reason = FinishStop | FinishLength | FinishToolCalls | FinishContentFilter | FinishError

section \<open>Tools and the request\<close>

record 'j tool_spec =
  tool_name :: string
  tool_description :: "string option"
  tool_parameters :: 'j
  tool_defer_loading :: bool

datatype server_tool_protocol = OpenAiResponses | AnthropicProtocol

fun server_tool_protocol_as_str :: "server_tool_protocol \<Rightarrow> string" where
  "server_tool_protocol_as_str OpenAiResponses = ''openai_responses''"
| "server_tool_protocol_as_str AnthropicProtocol = ''anthropic''"

instantiation server_tool_protocol :: linorder
begin

definition less_eq_server_tool_protocol :: "server_tool_protocol \<Rightarrow> server_tool_protocol \<Rightarrow> bool"
  where "less_eq_server_tool_protocol a b \<longleftrightarrow> a = OpenAiResponses \<or> b = AnthropicProtocol"

definition less_server_tool_protocol :: "server_tool_protocol \<Rightarrow> server_tool_protocol \<Rightarrow> bool"
  where "less_server_tool_protocol a b \<longleftrightarrow> a = OpenAiResponses \<and> b = AnthropicProtocol"

instance
  by standard (auto simp: less_eq_server_tool_protocol_def less_server_tool_protocol_def
      intro: server_tool_protocol.exhaust)

end

record 'j server_tool_spec =
  st_protocol :: server_tool_protocol
  st_kind :: string
  st_config :: 'j

datatype 'j response_format =
    FormatText
  | FormatJsonObject
  | FormatJsonSchema string 'j bool

datatype priority = PriorityLow | PriorityNormal | PriorityHigh

datatype privacy_class = Standard | Sensitive | Confidential

record 'j ai_request =
  req_id :: string
  req_model :: string
  req_system :: "string option"
  req_messages :: "'j message list"
  req_tools :: "'j tool_spec list"
  req_server_tools :: "'j server_tool_spec list"
  req_response_format :: "'j response_format option"
  req_stream :: bool
  req_max_output_tokens :: "u32 option"
  req_temperature :: "f32 option"
  req_priority :: priority
  req_privacy_class :: privacy_class
  req_metadata :: "(string, string) btree_map"
  req_tenant :: "string option"
  req_project :: "string option"
  req_passthrough :: "(string \<times> 'j) list"
  req_protocol_passthrough :: "(string, (string \<times> 'j) list) btree_map"
  req_system_cache_hint :: "cache_hint option"
  req_tools_cache_hint :: "cache_hint option"

text \<open>\<open>AiRequest::new\<close>; the fresh id is an argument.\<close>

definition new_request :: "string \<Rightarrow> string \<Rightarrow> 'j message list \<Rightarrow> 'j ai_request" where
  "new_request fresh model msgs =
     \<lparr>req_id = fresh, req_model = model, req_system = None, req_messages = msgs,
      req_tools = [], req_server_tools = [], req_response_format = None, req_stream = False,
      req_max_output_tokens = None, req_temperature = None, req_priority = PriorityNormal,
      req_privacy_class = Standard, req_metadata = [], req_tenant = None, req_project = None,
      req_passthrough = [], req_protocol_passthrough = [], req_system_cache_hint = None,
      req_tools_cache_hint = None\<rparr>"

definition requires_tools :: "'j ai_request \<Rightarrow> bool" where
  "requires_tools req \<longleftrightarrow> req_tools req \<noteq> []"

definition requires_server_tools :: "'j ai_request \<Rightarrow> bool" where
  "requires_server_tools req \<longleftrightarrow> req_server_tools req \<noteq> []"

definition required_server_tool_protocols :: "'j ai_request \<Rightarrow> server_tool_protocol btree_set" where
  "required_server_tool_protocols req = bs_collect (map st_protocol (req_server_tools req))"

text \<open>\<open>messages.iter().flat_map(|m| &m.content)\<close>\<close>

definition all_parts :: "'j ai_request \<Rightarrow> 'j content_part list" where
  "all_parts req = concat (map msg_content (req_messages req))"

definition image_count :: "'j ai_request \<Rightarrow> usize" where
  "image_count req = length (filter is_image (all_parts req))"

definition requires_vision :: "'j ai_request \<Rightarrow> bool" where
  "requires_vision req \<longleftrightarrow> 0 < image_count req"

definition required_image_sources :: "'j ai_request \<Rightarrow> image_source_kind btree_set" where
  "required_image_sources req = bs_collect (List.map_filter part_image_source_kind (all_parts req))"

text \<open>The two nested loops of \<open>strip_image_parts\<close>, threading the counter \<open>dropped\<close>.\<close>

fun strip_parts :: "string \<Rightarrow> 'j content_part list \<Rightarrow> nat \<Rightarrow> 'j content_part list \<times> nat" where
  "strip_parts marker [] dropped = ([], dropped)"
| "strip_parts marker (p # ps) dropped =
     (let (p', d) = (if is_image p then (CpText marker, dropped + 1) else (p, dropped));
          (ps', d') = strip_parts marker ps d
      in (p' # ps', d'))"

fun strip_messages :: "string \<Rightarrow> 'j message list \<Rightarrow> nat \<Rightarrow> 'j message list \<times> nat" where
  "strip_messages marker [] dropped = ([], dropped)"
| "strip_messages marker (m # ms) dropped =
     (let (c, d) = strip_parts marker (msg_content m) dropped;
          (ms', d') = strip_messages marker ms d
      in (m\<lparr>msg_content := c\<rparr> # ms', d'))"

definition strip_image_parts :: "string \<Rightarrow> 'j ai_request \<Rightarrow> 'j ai_request \<times> nat" where
  "strip_image_parts marker req =
     (let (ms, d) = strip_messages marker (req_messages req) 0
      in (req\<lparr>req_messages := ms\<rparr>, d))"

definition validate_canonical :: "'j ai_request \<Rightarrow> string + unit" where
  "validate_canonical req =
     validate_all (\<lambda>m. validate_all content_part_validate (msg_content m)) (req_messages req)"

definition last_user_text :: "'j ai_request \<Rightarrow> string option" where
  "last_user_text req =
     map_option message_text (find (\<lambda>m. msg_role m = User) (rev (req_messages req)))"

section \<open>Facts\<close>

lemma validate_all_Inr: "validate_all f xs = Inr () \<longleftrightarrow> (\<forall>x \<in> set xs. f x = Inr ())"
  by (induction xs) (auto split: sum.splits)

definition mark_image :: "string \<Rightarrow> 'j content_part \<Rightarrow> 'j content_part" where
  "mark_image marker p = (if is_image p then CpText marker else p)"

lemma not_is_image_mark [simp]: "\<not> is_image (mark_image marker p)"
  by (simp add: mark_image_def)

lemma strip_parts_eq:
  "strip_parts marker ps d = (map (mark_image marker) ps, d + length (filter is_image ps))"
  by (induction ps arbitrary: d) (auto simp: mark_image_def)

lemma strip_messages_eq:
  "strip_messages marker ms d =
     (map (\<lambda>m. m\<lparr>msg_content := map (mark_image marker) (msg_content m)\<rparr>) ms,
      d + length (filter is_image (concat (map msg_content ms))))"
  by (induction ms arbitrary: d) (auto simp: strip_parts_eq)

lemma strip_image_parts_eq:
  "strip_image_parts marker req =
     (req\<lparr>req_messages := map (\<lambda>m. m\<lparr>msg_content := map (mark_image marker) (msg_content m)\<rparr>)
        (req_messages req)\<rparr>, image_count req)"
  by (simp add: strip_image_parts_def strip_messages_eq image_count_def all_parts_def)

lemma all_parts_strip:
  "all_parts (fst (strip_image_parts marker req)) = map (mark_image marker) (all_parts req)"
  by (simp add: strip_image_parts_eq all_parts_def map_concat comp_def)

lemma image_count_strip: "image_count (fst (strip_image_parts marker req)) = 0"
  by (simp add: image_count_def all_parts_strip filter_empty_conv)

lemma validate_canonical_parts:
  "validate_canonical req = Inr () \<longleftrightarrow> (\<forall>p \<in> set (all_parts req). content_part_validate p = Inr ())"
  by (auto simp: validate_canonical_def validate_all_Inr all_parts_def)

lemma mark_image_valid:
  "content_part_validate p = Inr () \<Longrightarrow> content_part_validate (mark_image marker p) = Inr ()"
  by (simp add: mark_image_def)

lemma part_image_source_kind_None: "part_image_source_kind p = None \<longleftrightarrow> \<not> is_image p"
  by (cases p) auto

lemma required_image_sources_Nil:
  "image_count req = 0 \<Longrightarrow> required_image_sources req = []"
  by (auto simp: required_image_sources_def image_count_def List.map_filter_def filter_empty_conv
      part_image_source_kind_None)

section \<open>Properties\<close>

text \<open>
  Stripping the images leaves a request without any image that differs from the original
  only in its messages, keeps every other part where it was, puts the marker in the place of
  each image, and reports how many were dropped.
\<close>

theorem strip_image_parts_only_images:
  "let (req', dropped) = strip_image_parts marker req
   in req' = req\<lparr>req_messages := req_messages req'\<rparr>
      \<and> all_parts req' = map (\<lambda>p. if is_image p then CpText marker else p) (all_parts req)
      \<and> map msg_role (req_messages req') = map msg_role (req_messages req)
      \<and> \<not> requires_vision req' \<and> dropped = image_count req"
  using image_count_strip [of marker req] all_parts_strip [of marker req]
  by (simp add: strip_image_parts_eq mark_image_def [abs_def] requires_vision_def comp_def)

text \<open>
  A base64 data URL put together from a media type that does not contain the separator and
  a payload, neither of them empty, is split into the same two parts again.
\<close>

theorem split_base64_data_url_roundtrip:
  assumes "media \<noteq> []" and "payload \<noteq> []"
    and "list_all (\<lambda>i. \<not> starts_with (drop i (media @ '';base64,'' @ payload)) '';base64,'') [0..<length media]"
  shows "split_base64_data_url (''data:'' @ media @ '';base64,'' @ payload) = Some (media, payload)"
proof -
  have "split_once '';base64,'' (media @ '';base64,'' @ payload) = Some (media, payload)"
    by (rule split_once_first) (use assms(3) in \<open>auto simp: list_all_iff\<close>)
  then show ?thesis
    using assms(1,2) by (simp only: split_base64_data_url_def strip_prefix_append option.case prod.case simp_thms if_False)
qed

theorem split_base64_data_url_roundtrip_witness:
  "split_base64_data_url ''data:image/png;base64,AAAA'' = Some (''image/png'', ''AAAA'')"
  using split_base64_data_url_roundtrip [of "''image/png''" "''AAAA''"]
  by (simp add: starts_with_def upt_conv_Cons)

end
