(* ===== verification/Exec_Target.thy ===== *)
theory Exec_Target
  imports Canonical_IR
begin

text \<open>
  Execution targets and capability profiles (\<open>sb-core/src/target.rs\<close>): what a target can
  do, what it costs, and the live evidence (health, account pool, outcome scorecard, judged
  quality) stamped onto it at routing time.
\<close>

datatype execution_target_kind =
    ModelApi
  | OpenAiCompatibleApi
  | LocalRuntime
  | CodingAgent
  | McpTool
  | RemoteAgent
  | Gateway
  | FallbackGroup

record capability_profile =
  cap_text_in :: bool
  cap_text_out :: bool
  cap_vision_in :: bool
  cap_vision_sources :: "image_source_kind list"
  cap_streaming :: bool
  cap_tool_calling :: bool
  cap_parallel_tool_calls :: bool
  cap_server_tools :: bool
  cap_server_tool_protocols :: "server_tool_protocol list"
  cap_audio_in :: bool
  cap_file_in :: bool
  cap_image_out :: bool
  cap_reasoning_summary :: bool
  cap_json_schema :: bool
  cap_max_context_tokens :: "u32 option"
  cap_max_output_tokens :: "u32 option"

definition default_capabilities :: capability_profile where
  "default_capabilities =
     \<lparr>cap_text_in = True, cap_text_out = True, cap_vision_in = False, cap_vision_sources = [],
      cap_streaming = True, cap_tool_calling = True, cap_parallel_tool_calls = False,
      cap_server_tools = False, cap_server_tool_protocols = [], cap_audio_in = False,
      cap_file_in = False, cap_image_out = False, cap_reasoning_summary = False,
      cap_json_schema = False, cap_max_context_tokens = None, cap_max_output_tokens = None\<rparr>"

definition basic_text :: capability_profile where
  "basic_text = default_capabilities\<lparr>cap_tool_calling := False\<rparr>"

definition supports_image_source :: "capability_profile \<Rightarrow> image_source_kind \<Rightarrow> bool" where
  "supports_image_source c source \<longleftrightarrow>
     cap_vision_in c \<and> (cap_vision_sources c = [] \<or> source \<in> set (cap_vision_sources c))"

definition supports_server_tool_protocol :: "capability_profile \<Rightarrow> server_tool_protocol \<Rightarrow> bool" where
  "supports_server_tool_protocol c protocol \<longleftrightarrow>
     cap_server_tools c \<and>
     (cap_server_tool_protocols c = [] \<or> protocol \<in> set (cap_server_tool_protocols c))"

record cost_profile =
  input_per_mtok :: f64
  output_per_mtok :: f64

definition blended_per_mtok :: "cost_profile \<Rightarrow> f64" where
  "blended_per_mtok c = f64_add (input_per_mtok c) (output_per_mtok c)"

datatype health_state = HealthHealthy | HealthDegraded | HealthDown

datatype outcome_tier = TierHealthy | TierDemoted

datatype demote_trigger = TriggerSuccess | TriggerTruncation | TriggerStreak

record outcome_signal =
  os_samples :: u32
  os_success_rate :: f32
  os_p50_latency_ms :: u32
  os_p95_latency_ms :: u32
  os_cost_per_success_micros :: u64
  os_truncation_rate :: f32
  os_dominant_error :: "error_class option"
  os_tier :: outcome_tier
  os_health_factor :: f32
  os_demote_trigger :: "demote_trigger option"
  os_consecutive_failures :: u32

record quality_signal =
  qs_ewma :: f64
  qs_samples :: u32
  qs_age_secs :: u64
  qs_evaluator_id :: string

record execution_target =
  et_id :: string
  et_kind :: execution_target_kind
  et_provider_id :: string
  et_model :: string
  et_capabilities :: capability_profile
  et_cost :: "cost_profile option"
  et_latency_ewma_ms :: "f64 option"
  et_ttft_ewma_ms :: "f64 option"
  et_policy_tags :: "string list"
  et_task_tags :: "string list"
  et_health :: health_state
  et_healthy_accounts :: "usize option"
  et_unverified :: bool
  et_outcome :: "outcome_signal option"
  et_quality :: "quality_signal option"

definition new_target :: "string \<Rightarrow> string \<Rightarrow> execution_target_kind \<Rightarrow> execution_target" where
  "new_target provider_id model kind =
     \<lparr>et_id = provider_id @ ''/'' @ model, et_kind = kind, et_provider_id = provider_id,
      et_model = model, et_capabilities = default_capabilities, et_cost = None,
      et_latency_ewma_ms = None, et_ttft_ewma_ms = None, et_policy_tags = [], et_task_tags = [],
      et_health = HealthHealthy, et_healthy_accounts = None, et_unverified = False,
      et_outcome = None, et_quality = None\<rparr>"

abbreviation blended :: "execution_target \<Rightarrow> f64 option" where
  "blended t \<equiv> map_option blended_per_mtok (et_cost t)"

end
