(* ===== verification/Routing_Types.thy ===== *)
theory Routing_Types
  imports Exec_Target
begin

text \<open>
  The routing policy and the explainable route decision (\<open>sb-core/src/routing.rs\<close>), with
  the parts of \<open>sb-core/src/config.rs\<close> they embed: the route requirements, the outcome
  scorecard knobs and the response-quality knobs.
\<close>

section \<open>Configuration records\<close>

record route_require =
  rr_streaming :: "bool option"
  rr_tool_calling :: "bool option"
  rr_server_tools :: "bool option"
  rr_server_tool_protocols :: "server_tool_protocol list"
  rr_vision_in :: "bool option"
  rr_vision_sources :: "image_source_kind list"
  rr_audio_in :: "bool option"
  rr_file_in :: "bool option"
  rr_image_out :: "bool option"
  rr_reasoning_summary :: "bool option"
  rr_min_context_tokens :: "u32 option"
  rr_json_schema :: "bool option"

definition default_require :: route_require where
  "default_require =
     \<lparr>rr_streaming = None, rr_tool_calling = None, rr_server_tools = None,
      rr_server_tool_protocols = [], rr_vision_in = None, rr_vision_sources = [],
      rr_audio_in = None, rr_file_in = None, rr_image_out = None, rr_reasoning_summary = None,
      rr_min_context_tokens = None, rr_json_schema = None\<rparr>"

record scorecard_window_config =
  win_max_samples :: usize
  win_ttl_secs :: u64

record scorecard_demotion_config =
  dem_min_samples :: u32
  dem_demote_success_rate :: f64
  dem_recover_success_rate :: f64
  dem_trunc_demote_rate :: f64
  dem_fast_demote_streak :: u32
  dem_fast_recover_streak :: u32

record scorecard_prior_config =
  prior_cfg_weight :: f64
  prior_cfg_default_success_rate :: f64

record scorecard_persist_config =
  persist_flush_secs :: u64
  persist_stale_hydrate_secs :: u64

record scorecard_config =
  sc_enabled :: bool
  sc_window :: scorecard_window_config
  sc_demotion :: scorecard_demotion_config
  sc_prior :: scorecard_prior_config
  sc_score_weight :: f64
  sc_persist :: scorecard_persist_config

definition default_scorecard_config :: scorecard_config where
  "default_scorecard_config =
     \<lparr>sc_enabled = True,
      sc_window = \<lparr>win_max_samples = 200, win_ttl_secs = 86400\<rparr>,
      sc_demotion =
        \<lparr>dem_min_samples = 8, dem_demote_success_rate = f64_lit (60 / 100),
         dem_recover_success_rate = f64_lit (85 / 100),
         dem_trunc_demote_rate = f64_lit (25 / 100),
         dem_fast_demote_streak = 3, dem_fast_recover_streak = 3\<rparr>,
      sc_prior = \<lparr>prior_cfg_weight = f64_lit 5, prior_cfg_default_success_rate = f64_lit (95 / 100)\<rparr>,
      sc_score_weight = f64_lit (15 / 100),
      sc_persist = \<lparr>persist_flush_secs = 30, persist_stale_hydrate_secs = 172800\<rparr>\<rparr>"

record quality_eval_config =
  qe_enabled :: bool
  qe_judge_route :: string
  qe_body_allowed_targets :: "string list"
  qe_max_judgments_per_24h :: u32
  qe_max_cost_micros_per_24h :: u64
  qe_min_input_chars :: usize
  qe_min_output_chars :: usize
  qe_max_input_bytes :: usize
  qe_max_output_bytes :: usize
  qe_capture_slots :: usize
  qe_queue_capacity :: usize
  qe_judge_timeout_ms :: u64
  qe_judge_max_output_tokens :: u32
  qe_failure_backoff_after :: u32
  qe_failure_backoff_secs :: u64
  qe_ewma_alpha :: f64
  qe_routing_min_samples :: u32
  qe_routing_full_confidence_samples :: u32
  qe_routing_weight :: f64

definition default_quality_eval_config :: quality_eval_config where
  "default_quality_eval_config =
     \<lparr>qe_enabled = False, qe_judge_route = ''auto/judge'', qe_body_allowed_targets = [],
      qe_max_judgments_per_24h = 60, qe_max_cost_micros_per_24h = 500000,
      qe_min_input_chars = 32, qe_min_output_chars = 64, qe_max_input_bytes = 32768,
      qe_max_output_bytes = 32768, qe_capture_slots = 8, qe_queue_capacity = 8,
      qe_judge_timeout_ms = 60000, qe_judge_max_output_tokens = 128,
      qe_failure_backoff_after = 3, qe_failure_backoff_secs = 3600,
      qe_ewma_alpha = f64_lit (20 / 100), qe_routing_min_samples = 5,
      qe_routing_full_confidence_samples = 10, qe_routing_weight = f64_lit 0\<rparr>"

section \<open>Execution profiles\<close>

datatype execution_profile =
    ProfileAuto
  | ProfileCheap
  | ProfileFast
  | ProfileCoding
  | ProfilePrivate
  | ProfileLargeContext
  | ProfileJudge
  | ProfileExtract

definition profile_from_model :: "string \<Rightarrow> execution_profile option" where
  "profile_from_model model =
     (if model = ''auto'' then Some ProfileAuto
      else if model = ''auto/cheap'' then Some ProfileCheap
      else if model = ''auto/fast'' then Some ProfileFast
      else if model = ''auto/coding'' then Some ProfileCoding
      else if model = ''auto/private'' then Some ProfilePrivate
      else if model = ''auto/large-context'' \<or> model = ''auto/large_context''
        then Some ProfileLargeContext
      else if model = ''auto/judge'' \<or> model = ''auto/critique'' then Some ProfileJudge
      else if model = ''auto/extract'' \<or> model = ''auto/classify'' then Some ProfileExtract
      else None)"

fun profile_id :: "execution_profile \<Rightarrow> string" where
  "profile_id ProfileAuto = ''auto''"
| "profile_id ProfileCheap = ''auto/cheap''"
| "profile_id ProfileFast = ''auto/fast''"
| "profile_id ProfileCoding = ''auto/coding''"
| "profile_id ProfilePrivate = ''auto/private''"
| "profile_id ProfileLargeContext = ''auto/large-context''"
| "profile_id ProfileJudge = ''auto/judge''"
| "profile_id ProfileExtract = ''auto/extract''"

section \<open>Routing policy\<close>

datatype unknown_cost_policy = UnknownCostAllow | UnknownCostPenalize | UnknownCostReject

datatype unknown_context_policy = UnknownContextAllow | UnknownContextReject

record scoring_policy =
  sp_selection_rank :: f64
  sp_health :: f64
  sp_account_availability :: f64
  sp_cost :: f64
  sp_latency :: f64
  sp_ttft :: f64
  sp_task_fit :: f64
  sp_context_fit :: f64

abbreviation hundredths :: "rat \<Rightarrow> f64" where
  "hundredths n \<equiv> f64_lit (n / 100)"

definition scoring_balanced :: scoring_policy where
  "scoring_balanced =
     \<lparr>sp_selection_rank = hundredths 10, sp_health = hundredths 25,
      sp_account_availability = hundredths 15, sp_cost = hundredths 15, sp_latency = hundredths 15,
      sp_ttft = f64_lit 0, sp_task_fit = f64_lit 0, sp_context_fit = hundredths 20\<rparr>"

definition scoring_cheap :: scoring_policy where
  "scoring_cheap =
     \<lparr>sp_selection_rank = hundredths 5, sp_health = hundredths 20,
      sp_account_availability = hundredths 10, sp_cost = hundredths 60, sp_latency = hundredths 5,
      sp_ttft = f64_lit 0, sp_task_fit = f64_lit 0, sp_context_fit = f64_lit 0\<rparr>"

definition scoring_fast :: scoring_policy where
  "scoring_fast =
     \<lparr>sp_selection_rank = hundredths 5, sp_health = hundredths 20,
      sp_account_availability = hundredths 15, sp_cost = hundredths 5, sp_latency = hundredths 25,
      sp_ttft = hundredths 30, sp_task_fit = f64_lit 0, sp_context_fit = f64_lit 0\<rparr>"

definition scoring_coding :: scoring_policy where
  "scoring_coding =
     \<lparr>sp_selection_rank = hundredths 5, sp_health = hundredths 20,
      sp_account_availability = hundredths 15, sp_cost = hundredths 10, sp_latency = hundredths 10,
      sp_ttft = f64_lit 0, sp_task_fit = hundredths 30, sp_context_fit = hundredths 10\<rparr>"

definition scoring_large_context :: scoring_policy where
  "scoring_large_context =
     \<lparr>sp_selection_rank = hundredths 5, sp_health = hundredths 15,
      sp_account_availability = hundredths 10, sp_cost = hundredths 5, sp_latency = hundredths 5,
      sp_ttft = f64_lit 0, sp_task_fit = f64_lit 0, sp_context_fit = hundredths 60\<rparr>"

definition scoring_judge :: scoring_policy where
  "scoring_judge =
     \<lparr>sp_selection_rank = hundredths 35, sp_health = hundredths 25,
      sp_account_availability = hundredths 15, sp_cost = hundredths 5, sp_latency = hundredths 5,
      sp_ttft = f64_lit 0, sp_task_fit = f64_lit 0, sp_context_fit = hundredths 15\<rparr>"

definition scoring_extract :: scoring_policy where
  "scoring_extract =
     \<lparr>sp_selection_rank = hundredths 10, sp_health = hundredths 20,
      sp_account_availability = hundredths 15, sp_cost = hundredths 35, sp_latency = hundredths 10,
      sp_ttft = f64_lit 0, sp_task_fit = f64_lit 0, sp_context_fit = hundredths 10\<rparr>"

definition weight_for :: "scoring_policy \<Rightarrow> string \<Rightarrow> f64" where
  "weight_for s factor =
     (if factor = ''selection_rank'' then sp_selection_rank s
      else if factor = ''health'' then sp_health s
      else if factor = ''account_availability'' then sp_account_availability s
      else if factor = ''cost'' then sp_cost s
      else if factor = ''latency'' then sp_latency s
      else if factor = ''ttft'' then sp_ttft s
      else if factor = ''task_fit'' then sp_task_fit s
      else if factor = ''context_fit'' then sp_context_fit s
      else f64_lit 0)"

record routing_policy =
  pol_profile :: "execution_profile option"
  pol_scoring :: "scoring_policy option"
  pol_cost_aware :: bool
  pol_max_price_per_mtok :: "f64 option"
  pol_latency_aware :: bool
  pol_allow_free :: bool
  pol_allow_promo :: bool
  pol_allow_aggregator :: bool
  pol_enforce_lane_policy :: bool
  pol_vision_degrade :: bool
  pol_unknown_cost :: unknown_cost_policy
  pol_unknown_context :: unknown_context_policy
  pol_scorecard :: scorecard_config
  pol_quality_eval :: quality_eval_config

definition default_policy :: routing_policy where
  "default_policy =
     \<lparr>pol_profile = None, pol_scoring = None, pol_cost_aware = False,
      pol_max_price_per_mtok = None, pol_latency_aware = False, pol_allow_free = True,
      pol_allow_promo = True, pol_allow_aggregator = True, pol_enforce_lane_policy = False,
      pol_vision_degrade = True, pol_unknown_cost = UnknownCostAllow,
      pol_unknown_context = UnknownContextAllow, pol_scorecard = default_scorecard_config,
      pol_quality_eval = default_quality_eval_config\<rparr>"

section \<open>The route decision\<close>

record target_ref =
  tr_target_id :: string
  tr_account_id :: "string option"

definition new_target_ref :: "string \<Rightarrow> target_ref" where
  "new_target_ref i = \<lparr>tr_target_id = i, tr_account_id = None\<rparr>"

record rejected_candidate =
  rj_target_id :: string
  rj_reason :: string

record route_score =
  rs_target_id :: string
  rs_score :: f64
  rs_factors :: "(string, f64) btree_map"

record capability_fallback =
  cf_capability :: string
  cf_action :: string
  cf_detail :: string

text \<open>The execution receipt a later stage attaches is the type parameter \<open>'rc\<close>.\<close>

record 'rc route_decision =
  rd_request_id :: string
  rd_strategy :: string
  rd_profile :: "string option"
  rd_receipt :: "'rc option"
  rd_selected :: "target_ref option"
  rd_fallbacks :: "target_ref list"
  rd_reason :: "string list"
  rd_rejected :: "rejected_candidate list"
  rd_scores :: "route_score list"
  rd_capability_fallback :: "capability_fallback list"
  rd_unverified :: bool

definition new_decision :: "string \<Rightarrow> string \<Rightarrow> 'rc route_decision" where
  "new_decision request_id strategy =
     \<lparr>rd_request_id = request_id, rd_strategy = strategy, rd_profile = None, rd_receipt = None,
      rd_selected = None, rd_fallbacks = [], rd_reason = [], rd_rejected = [], rd_scores = [],
      rd_capability_fallback = [], rd_unverified = False\<rparr>"

definition add_capability_fallback :: "capability_fallback \<Rightarrow> 'rc route_decision \<Rightarrow> 'rc route_decision"
  where "add_capability_fallback f d =
     d\<lparr>rd_capability_fallback := rd_capability_fallback d @ [f]\<rparr>"

definition degraded :: "'rc route_decision \<Rightarrow> string \<Rightarrow> bool" where
  "degraded d capability \<longleftrightarrow>
     (\<exists>f \<in> set (rd_capability_fallback d). cf_capability f = capability)"

definition add_reason :: "string \<Rightarrow> 'rc route_decision \<Rightarrow> 'rc route_decision" where
  "add_reason r d = d\<lparr>rd_reason := rd_reason d @ [r]\<rparr>"

definition reject :: "string \<Rightarrow> string \<Rightarrow> 'rc route_decision \<Rightarrow> 'rc route_decision" where
  "reject target_id why d =
     d\<lparr>rd_rejected := rd_rejected d @ [\<lparr>rj_target_id = target_id, rj_reason = why\<rparr>]\<rparr>"

definition decision_summary :: "'rc route_decision \<Rightarrow> string" where
  "decision_summary d =
     (let sel = (case rd_selected d of None \<Rightarrow> ''none'' | Some t \<Rightarrow> tr_target_id t);
          fb = map tr_target_id (rd_fallbacks d);
          degr = (if rd_capability_fallback d = [] then []
                  else '' capability_fallback=['' @
                    join_with '','' (map (\<lambda>f. cf_capability f @ '':'' @ cf_action f)
                      (rd_capability_fallback d)) @ '']'')
      in ''strategy='' @ rd_strategy d @ '' selected='' @ sel @ '' fallbacks=['' @
         join_with '','' fb @ ''] rejected='' @ show_nat (length (rd_rejected d)) @ degr)"

section \<open>Frame facts of the decision's builders\<close>

named_theorems decision_frame

lemma add_reason_frame [decision_frame]:
  "rd_request_id (add_reason r d) = rd_request_id d"
  "rd_strategy (add_reason r d) = rd_strategy d"
  "rd_selected (add_reason r d) = rd_selected d"
  "rd_fallbacks (add_reason r d) = rd_fallbacks d"
  "rd_rejected (add_reason r d) = rd_rejected d"
  "rd_scores (add_reason r d) = rd_scores d"
  "rd_capability_fallback (add_reason r d) = rd_capability_fallback d"
  "rd_unverified (add_reason r d) = rd_unverified d"
  by (simp_all add: add_reason_def)

lemma reject_frame [decision_frame]:
  "rd_selected (reject i r d) = rd_selected d"
  "rd_fallbacks (reject i r d) = rd_fallbacks d"
  "rd_capability_fallback (reject i r d) = rd_capability_fallback d"
  "rd_unverified (reject i r d) = rd_unverified d"
  "rd_rejected (reject i r d) = rd_rejected d @ [\<lparr>rj_target_id = i, rj_reason = r\<rparr>]"
  by (simp_all add: reject_def)

lemma profile_from_model_id: "profile_from_model (profile_id p) = Some p"
  by (cases p) (simp_all add: profile_from_model_def)

end
