(* ===== verification/Scorecard_Entry.thy ===== *)
theory Scorecard_Entry
  imports Routing_Types
begin

text \<open>
  The outcome taxonomy and the per-target state of the outcome scorecard
  (\<open>sb-runtime/src/scorecard/class.rs\<close> and \<open>entry.rs\<close>): samples, the bounded rings, the
  window statistics with the shrinkage posterior, the demotion hysteresis, and the validation
  of a persisted row. A \<open>VecDeque\<close> is the list from front to back. The counters wrap as the
  release build's do.
\<close>

section \<open>The taxonomy\<close>

datatype attempt_outcome = AttemptOk finish_reason | AttemptFailed error_class | AttemptCancelled

datatype outcome_class =
    OcSuccess
  | OcTruncated
  | OcRefusal
  | OcTargetFailure
  | OcClientOrAccountFault
  | OcCancelled

definition is_scoreable :: "outcome_class \<Rightarrow> bool" where
  "is_scoreable k \<longleftrightarrow> k \<in> {OcSuccess, OcTruncated, OcTargetFailure}"

fun classify :: "attempt_outcome \<Rightarrow> outcome_class" where
  "classify (AttemptOk reason) =
     (case reason of
        FinishLength \<Rightarrow> OcTruncated
      | FinishContentFilter \<Rightarrow> OcRefusal
      | FinishError \<Rightarrow> OcTargetFailure
      | FinishStop \<Rightarrow> OcSuccess
      | FinishToolCalls \<Rightarrow> OcSuccess)"
| "classify (AttemptFailed err) =
     (if err \<in> {Authentication, Authorization, QuotaExceeded, InvalidRequest, ContextTooLong,
                UnsupportedCapability} then OcClientOrAccountFault
      else if err = SafetyBlocked then OcRefusal
      else OcTargetFailure)"
| "classify AttemptCancelled = OcCancelled"

section \<open>Samples and entries\<close>

record sample =
  sm_ts :: instant
  sm_class :: outcome_class
  sm_latency_ms :: u32
  sm_cost_micros :: "u64 option"
  sm_err :: "error_class option"

record quality_sample =
  qsm_judgment_id :: string
  qsm_ts :: instant
  qsm_created_at_ms :: i64
  qsm_score_norm :: f64

record prior =
  pr_success_rate :: f64
  pr_weight :: f64

definition prior_from_config :: "scorecard_config \<Rightarrow> prior" where
  "prior_from_config cfg =
     \<lparr>pr_success_rate = prior_cfg_default_success_rate (sc_prior cfg),
      pr_weight = prior_cfg_weight (sc_prior cfg)\<rparr>"

record entry =
  en_ring :: "sample list"
  en_quality_ring :: "quality_sample list"
  en_quality_evaluator_id :: "string option"
  en_consecutive_failures :: u32
  en_consecutive_successes :: u32
  en_tier :: outcome_tier
  en_demoted_since :: "instant option"
  en_demote_trigger :: "demote_trigger option"
  en_prior :: prior
  en_hydrated :: bool
  en_dirty :: bool

definition new_entry :: "prior \<Rightarrow> entry" where
  "new_entry p =
     \<lparr>en_ring = [], en_quality_ring = [], en_quality_evaluator_id = None,
      en_consecutive_failures = 0, en_consecutive_successes = 0, en_tier = TierHealthy,
      en_demoted_since = None, en_demote_trigger = None, en_prior = p, en_hydrated = False,
      en_dirty = False\<rparr>"

text \<open>The \<open>while len >= max(max_samples, 1) { pop_front }\<close> loop of \<open>push\<close>, then \<open>push_back\<close>.\<close>

fun pop_while_ge :: "nat \<Rightarrow> 'a list \<Rightarrow> 'a list" where
  "pop_while_ge n [] = []"
| "pop_while_ge n (x # xs) = (if n \<le> length (x # xs) then pop_while_ge n xs else x # xs)"

definition push_sample :: "sample \<Rightarrow> usize \<Rightarrow> entry \<Rightarrow> entry" where
  "push_sample s max_samples e = e\<lparr>en_ring := pop_while_ge (max max_samples 1) (en_ring e) @ [s]\<rparr>"

definition quality_cmp :: "quality_sample \<Rightarrow> quality_sample \<Rightarrow> ordering" where
  "quality_cmp a b =
     then_with (cmp_ord (qsm_created_at_ms a) (qsm_created_at_ms b))
       (cmp_ord (qsm_judgment_id a) (qsm_judgment_id b))"

text \<open>Replace the first sample with the same judgment id, or append.\<close>

fun replace_or_append :: "quality_sample \<Rightarrow> quality_sample list \<Rightarrow> quality_sample list" where
  "replace_or_append s [] = [s]"
| "replace_or_append s (x # xs) =
     (if qsm_judgment_id x = qsm_judgment_id s then s # xs else x # replace_or_append s xs)"

definition push_quality :: "quality_sample \<Rightarrow> usize \<Rightarrow> entry \<Rightarrow> entry" where
  "push_quality s max_samples e =
     (let ring = sort_by quality_cmp (replace_or_append s (en_quality_ring e))
      in e\<lparr>en_quality_ring := drop (length ring - max max_samples 1) ring\<rparr>)"

section \<open>Quality statistics\<close>

definition is_live :: "instant \<Rightarrow> instant \<Rightarrow> duration \<Rightarrow> bool" where
  "is_live ts now ttl \<longleftrightarrow> (if ts \<le> now then now - ts \<le> ttl else True)"

record quality_statistics =
  qst_ewma :: f64
  qst_samples :: u32
  qst_age_secs :: u64
  qst_updated_at_ms :: i64

definition prune_quality :: "quality_sample list \<Rightarrow> instant \<Rightarrow> duration \<Rightarrow> bool \<times> quality_sample list" where
  "prune_quality ring now ttl =
     (let kept = filter (\<lambda>s. is_live (qsm_ts s) now ttl) ring
      in (length kept \<noteq> length ring, kept))"

definition score_in_range :: "f64 \<Rightarrow> bool" where
  "score_in_range x \<longleftrightarrow> is_finite x \<and> flt_le (FFin 0) x \<and> flt_le x (FFin 1)"

definition ewma_step :: "f64 \<Rightarrow> f64 \<Rightarrow> quality_sample \<Rightarrow> f64" where
  "ewma_step alpha ewma s =
     f64_add (f64_mul alpha (qsm_score_norm s)) (f64_mul (f64_sub (f64_lit 1) alpha) ewma)"

definition quality_stats ::
  "quality_sample list \<Rightarrow> instant \<Rightarrow> duration \<Rightarrow> f64 \<Rightarrow> quality_statistics option" where
  "quality_stats ring now ttl alpha =
     (if \<not> (is_finite alpha \<and> flt_less (FFin 0) alpha \<and> flt_le alpha (FFin 1)) then None
      else let live = sort_by quality_cmp
                 (filter (\<lambda>s. is_live (qsm_ts s) now ttl \<and> score_in_range (qsm_score_norm s)) ring)
           in case live of
                [] \<Rightarrow> None
              | first # rest \<Rightarrow>
                  if 2 ^ 32 \<le> length live then None
                  else let newest = last live
                       in Some \<lparr>qst_ewma = foldl (ewma_step alpha) (qsm_score_norm first) rest,
                            qst_samples = word_of_nat (length live),
                            qst_age_secs = word_of_nat ((if qsm_ts newest \<le> now then now - qsm_ts newest else 0) div 1000),
                            qst_updated_at_ms = qsm_created_at_ms newest\<rparr>)"

section \<open>Window statistics\<close>

record window_statistics =
  ws_n_scoreable :: u32
  ws_success_count :: u32
  ws_truncated_count :: u32
  ws_target_fail_count :: u32
  ws_p_hat :: f64
  ws_trunc_rate :: f64
  ws_health_factor :: f32
  ws_p50_latency_ms :: u32
  ws_p95_latency_ms :: u32
  ws_cost_per_success_micros :: u64
  ws_dominant_error :: "error_class option"

fun bump_error :: "error_class \<Rightarrow> (error_class \<times> u32) list \<Rightarrow> (error_class \<times> u32) list" where
  "bump_error err [] = [(err, 1)]"
| "bump_error err ((e, n) # counts) =
     (if e = err then (e, n + 1) # counts else (e, n) # bump_error err counts)"

text \<open>\<open>x.ceil() as usize\<close>: a saturating cast.\<close>

fun ceil_as_usize :: "f64 \<Rightarrow> usize" where
  "ceil_as_usize FNaN = 0"
| "ceil_as_usize (FInf neg) = (if neg then 0 else 2 ^ 64 - 1)"
| "ceil_as_usize (FFin q) = min (nat \<lceil>q\<rceil>) (2 ^ 64 - 1)"

definition percentile :: "u32 list \<Rightarrow> f64 \<Rightarrow> u32" where
  "percentile srt p =
     (if srt = [] then 0
      else let rank = ceil_as_usize (f64_mul (f64_div p (f64_lit 100)) (nat_as_f64 (length srt)));
               idx = min (rank - 1) (length srt - 1)
           in srt ! idx)"

text \<open>The accumulators of the loop over the live window.\<close>

record window_acc =
  wa_success :: u32
  wa_truncated :: u32
  wa_failed :: u32
  wa_errors :: "(error_class \<times> u32) list"
  wa_latencies :: "u32 list"
  wa_cost :: u64

definition window_acc0 :: window_acc where
  "window_acc0 = \<lparr>wa_success = 0, wa_truncated = 0, wa_failed = 0, wa_errors = [], wa_latencies = [],
     wa_cost = 0\<rparr>"

definition window_sample :: "sample \<Rightarrow> window_acc \<Rightarrow> window_acc" where
  "window_sample s acc =
     (case sm_class s of
        OcSuccess \<Rightarrow>
          acc\<lparr>wa_success := wa_success acc + 1,
              wa_latencies := wa_latencies acc @ [sm_latency_ms s],
              wa_cost := (case sm_cost_micros s of Some c \<Rightarrow> wa_cost acc + c | None \<Rightarrow> wa_cost acc)\<rparr>
      | OcTruncated \<Rightarrow>
          acc\<lparr>wa_truncated := wa_truncated acc + 1,
              wa_latencies := wa_latencies acc @ [sm_latency_ms s]\<rparr>
      | OcTargetFailure \<Rightarrow>
          acc\<lparr>wa_failed := wa_failed acc + 1,
              wa_errors := (case sm_err s of Some e \<Rightarrow> bump_error e (wa_errors acc) | None \<Rightarrow> wa_errors acc)\<rparr>
      | OcRefusal \<Rightarrow> acc
      | OcClientOrAccountFault \<Rightarrow> acc
      | OcCancelled \<Rightarrow> acc)"

text \<open>\<open>max_by_key\<close> keeps the last of equal maxima.\<close>

definition max_by_count :: "(error_class \<times> u32) list \<Rightarrow> (error_class \<times> u32) option" where
  "max_by_count counts =
     fold (\<lambda>x best. case best of None \<Rightarrow> Some x | Some b \<Rightarrow> if snd b \<le> snd x then Some x else Some b)
       counts None"

definition live_samples :: "sample list \<Rightarrow> instant \<Rightarrow> duration \<Rightarrow> sample list" where
  "live_samples ring now ttl = filter (\<lambda>s. is_live (sm_ts s) now ttl) ring"

definition window_stats :: "sample list \<Rightarrow> prior \<Rightarrow> instant \<Rightarrow> duration \<Rightarrow> window_statistics" where
  "window_stats ring p now ttl =
     (let acc = fold window_sample (live_samples ring now ttl) window_acc0;
          n_scoreable = wa_success acc + wa_truncated acc + wa_failed acc;
          p_hat = f64_div
            (f64_add (f64_mul (pr_weight p) (pr_success_rate p)) (nat_as_f64 (unat (wa_success acc))))
            (f64_add (pr_weight p) (nat_as_f64 (unat n_scoreable)));
          trunc_rate = (if n_scoreable = 0 then f64_lit 0
            else f64_div (nat_as_f64 (unat (wa_truncated acc))) (nat_as_f64 (unat n_scoreable)));
          health_factor = f64_as_f32 (flt_clamp (f64_lit 0) (f64_lit 1)
            (f64_mul p_hat (f64_sub (f64_lit 1) (f64_mul (f64_lit (1 / 2)) trunc_rate))));
          latencies = sort (wa_latencies acc);
          (p50, p95) = (if 2 \<le> length latencies
            then (percentile latencies (f64_lit 50), percentile latencies (f64_lit 95)) else (0, 0));
          cost_per_success = (if wa_success acc = 0 then 0 else wa_cost acc div ucast (wa_success acc))
      in \<lparr>ws_n_scoreable = n_scoreable, ws_success_count = wa_success acc,
          ws_truncated_count = wa_truncated acc, ws_target_fail_count = wa_failed acc,
          ws_p_hat = p_hat, ws_trunc_rate = trunc_rate, ws_health_factor = health_factor,
          ws_p50_latency_ms = p50, ws_p95_latency_ms = p95,
          ws_cost_per_success_micros = cost_per_success,
          ws_dominant_error = map_option fst (max_by_count (wa_errors acc))\<rparr>)"

text \<open>
  The error histogram for persistence; the rendering of a JSON object is the serializer's
  (\<open>to_json\<close>).
\<close>

definition error_histogram_json ::
  "((string \<times> u32) list \<Rightarrow> string) \<Rightarrow> sample list \<Rightarrow> instant \<Rightarrow> duration \<Rightarrow> string" where
  "error_histogram_json to_json ring now ttl =
     to_json (map (\<lambda>(e, n). (error_class_as_str e, n))
       (fold (\<lambda>s counts. case sm_err s of Some e \<Rightarrow> bump_error e counts | None \<Rightarrow> counts)
          (live_samples ring now ttl) []))"

section \<open>Hysteresis\<close>

definition fast_path :: "entry \<Rightarrow> scorecard_demotion_config \<Rightarrow> bool" where
  "fast_path e cfg \<longleftrightarrow> dem_fast_demote_streak cfg \<le> en_consecutive_failures e"

definition trunc_triggered :: "window_statistics \<Rightarrow> scorecard_demotion_config \<Rightarrow> bool" where
  "trunc_triggered stats cfg \<longleftrightarrow>
     dem_min_samples cfg \<le> ws_n_scoreable stats \<and> flt_le (dem_trunc_demote_rate cfg) (ws_trunc_rate stats)"

definition success_rate_triggered :: "window_statistics \<Rightarrow> scorecard_demotion_config \<Rightarrow> bool" where
  "success_rate_triggered stats cfg \<longleftrightarrow>
     dem_min_samples cfg \<le> ws_n_scoreable stats \<and> flt_le (ws_p_hat stats) (dem_demote_success_rate cfg)"

definition recovers :: "entry \<Rightarrow> window_statistics \<Rightarrow> scorecard_demotion_config \<Rightarrow> bool" where
  "recovers e stats cfg \<longleftrightarrow>
     dem_fast_recover_streak cfg \<le> en_consecutive_successes e
     \<or> (dem_min_samples cfg \<le> ws_n_scoreable stats \<and> flt_le (dem_recover_success_rate cfg) (ws_p_hat stats)
        \<and> en_consecutive_failures e = 0)"

definition apply_hysteresis ::
  "window_statistics \<Rightarrow> scorecard_demotion_config \<Rightarrow> instant \<Rightarrow> outcome_class \<Rightarrow> entry \<Rightarrow> entry" where
  "apply_hysteresis stats cfg now k e =
     (case en_tier e of
        TierHealthy \<Rightarrow>
          if k \<notin> {OcTargetFailure, OcTruncated} then e
          else if fast_path e cfg \<or> trunc_triggered stats cfg \<or> success_rate_triggered stats cfg
          then e\<lparr>en_tier := TierDemoted, en_demoted_since := Some now,
                 en_demote_trigger := Some (if trunc_triggered stats cfg then TriggerTruncation
                   else if fast_path e cfg then TriggerStreak else TriggerSuccess)\<rparr>
          else e
      | TierDemoted \<Rightarrow>
          if recovers e stats cfg
          then e\<lparr>en_tier := TierHealthy, en_demoted_since := None, en_demote_trigger := None\<rparr>
          else e)"

definition reset_if_ttl_lapsed :: "window_statistics \<Rightarrow> entry \<Rightarrow> bool \<times> entry" where
  "reset_if_ttl_lapsed stats e =
     (if ws_n_scoreable stats \<noteq> 0 then (False, e)
      else (en_tier e \<noteq> TierHealthy \<or> en_demoted_since e \<noteq> None \<or> en_demote_trigger e \<noteq> None
              \<or> en_consecutive_failures e \<noteq> 0 \<or> en_consecutive_successes e \<noteq> 0,
            e\<lparr>en_tier := TierHealthy, en_demoted_since := None, en_demote_trigger := None,
              en_consecutive_failures := 0, en_consecutive_successes := 0\<rparr>))"

section \<open>Persisted rows\<close>

record scorecard_row =
  row_target_id :: string
  row_class :: string
  row_scoreable_samples :: u32
  row_success_count :: u32
  row_truncated_count :: u32
  row_target_fail_count :: u32
  row_p50_latency_ms :: u32
  row_p95_latency_ms :: u32
  row_cost_per_success_micros :: u64
  row_error_histogram :: string
  row_consecutive_failures :: u32
  row_tier :: u8
  row_demoted_since_ms :: "i64 option"
  row_quality_ewma :: "f64 option"
  row_quality_samples :: u32
  row_quality_updated_at_ms :: "i64 option"
  row_quality_evaluator_id :: "string option"
  row_updated_at_ms :: i64
  row_schema_ver :: u32

text \<open>\<open>i64\<close> arithmetic: saturating subtraction and product, and the wrapping cast.\<close>

definition i64_max :: int where "i64_max = 2 ^ 63 - 1"

definition i64_min :: int where "i64_min = - (2 ^ 63)"

definition sat_i64 :: "int \<Rightarrow> i64" where
  "sat_i64 x = max i64_min (min i64_max x)"

definition wrap_i64 :: "int \<Rightarrow> i64" where
  "wrap_i64 x = signed_take_bit 63 x"

definition u64_as_i64 :: "u64 \<Rightarrow> i64" where
  "u64_as_i64 w = sint w"

definition hydrate_row :: "scorecard_row \<Rightarrow> scorecard_config \<Rightarrow> i64 \<Rightarrow> (prior \<times> outcome_tier) option" where
  "hydrate_row row cfg now_epoch_ms =
     Option.bind (checked_add (row_success_count row) (row_truncated_count row)) (\<lambda>s1.
     Option.bind (checked_add s1 (row_target_fail_count row)) (\<lambda>sum.
       if sum \<noteq> row_scoreable_samples row then None
       else if row_scoreable_samples row = 0 then None
       else Option.bind (if row_tier row = 0 then Some TierHealthy
                         else if row_tier row = 1 then Some TierDemoted else None) (\<lambda>tier.
         let age_ms = sat_i64 (now_epoch_ms - row_updated_at_ms row);
             stale_ms = sat_i64 (u64_as_i64 (persist_stale_hydrate_secs (sc_persist cfg)) * 1000)
         in if stale_ms < age_ms then None
            else Some (\<lparr>pr_success_rate = f64_div (nat_as_f64 (unat (row_success_count row)))
                          (nat_as_f64 (unat (row_scoreable_samples row))),
                        pr_weight = nat_as_f64 (unat (min (row_scoreable_samples row) 50))\<rparr>, tier))))"

end
