(* ===== verification/Scorecard.thy ===== *)
theory Scorecard
  imports Scorecard_Entry "HOL-Library.AList"
begin

text \<open>
  The scorecard itself (\<open>sb-runtime/src/scorecard/mod.rs\<close>): the map from (target, class) to
  entries with its operations \<open>record\<close>, \<open>project\<close>, \<open>record_quality\<close>,
  \<open>project_quality\<close>, \<open>replay_quality\<close>, \<open>hydrate\<close>, \<open>dirty_snapshot\<close> and
  \<open>mark_dirty\<close>. Entries are never removed, and the work on an entry runs under its own lock,
  so every operation on one key is one atomic step; the map is an association list with
  distinct keys, in the map's iteration order. A poisoned lock (a panic inside the lock) is not
  modelled.
\<close>

section \<open>The map\<close>

type_synonym score_key = "string \<times> string"

type_synonym scorecard = "(score_key \<times> entry) list"

definition new_scorecard :: scorecard where
  "new_scorecard = []"

definition get_entry :: "scorecard \<Rightarrow> string \<Rightarrow> string \<Rightarrow> entry option" where
  "get_entry sc target_id k = map_of sc (target_id, k)"

definition get_or_create :: "string \<Rightarrow> string \<Rightarrow> prior \<Rightarrow> scorecard \<Rightarrow> entry \<times> scorecard" where
  "get_or_create target_id k seed_prior sc =
     (case map_of sc (target_id, k) of
        Some e \<Rightarrow> (e, sc)
      | None \<Rightarrow> (new_entry seed_prior, AList.update (target_id, k) (new_entry seed_prior) sc))"

definition put_entry :: "string \<Rightarrow> string \<Rightarrow> entry \<Rightarrow> scorecard \<Rightarrow> scorecard" where
  "put_entry target_id k e sc = AList.update (target_id, k) e sc"

definition ttl_of :: "scorecard_config \<Rightarrow> duration" where
  "ttl_of cfg = duration_secs (unat (win_ttl_secs (sc_window cfg)))"

section \<open>Recording an attempt\<close>

text \<open>The critical section of \<open>record\<close> on one entry.\<close>

definition bump_streaks :: "outcome_class \<Rightarrow> entry \<Rightarrow> entry" where
  "bump_streaks k e =
     (case k of
        OcTargetFailure \<Rightarrow>
          e\<lparr>en_consecutive_failures := en_consecutive_failures e + 1, en_consecutive_successes := 0\<rparr>
      | OcSuccess \<Rightarrow>
          e\<lparr>en_consecutive_failures := 0, en_consecutive_successes := en_consecutive_successes e + 1\<rparr>
      | _ \<Rightarrow> e)"

definition reset_stale :: "window_statistics \<Rightarrow> entry \<Rightarrow> entry" where
  "reset_stale stats e =
     (let (changed, e1) = reset_if_ttl_lapsed stats e
      in if changed then e1\<lparr>en_dirty := True\<rparr> else e1)"

definition record_entry :: "scorecard_config \<Rightarrow> sample \<Rightarrow> entry \<Rightarrow> entry" where
  "record_entry cfg s e =
     (let now = sm_ts s;
          ttl = ttl_of cfg;
          e1 = reset_stale (window_stats (en_ring e) (en_prior e) now ttl) e;
          e2 = push_sample s (win_max_samples (sc_window cfg)) e1;
          e3 = bump_streaks (sm_class s) e2;
          stats = window_stats (en_ring e3) (en_prior e3) now ttl;
          e4 = apply_hysteresis stats (sc_demotion cfg) now (sm_class s) e3
      in e4\<lparr>en_dirty := True\<rparr>)"

definition sc_record ::
  "string \<Rightarrow> string \<Rightarrow> prior \<Rightarrow> scorecard_config \<Rightarrow> sample \<Rightarrow> scorecard \<Rightarrow> scorecard" where
  "sc_record target_id k seed_prior cfg s sc =
     (if \<not> sc_enabled cfg then sc
      else let (e, sc1) = get_or_create target_id k seed_prior sc
           in put_entry target_id k (record_entry cfg s e) sc1)"

section \<open>Projection for the router\<close>

definition project_entry :: "scorecard_config \<Rightarrow> instant \<Rightarrow> entry \<Rightarrow> outcome_signal option \<times> entry" where
  "project_entry cfg now e =
     (let stats = window_stats (en_ring e) (en_prior e) now (ttl_of cfg);
          e1 = reset_stale stats e
      in if ws_n_scoreable stats = 0 \<and> \<not> en_hydrated e1 then (None, e1)
         else if \<not> is_finite (ws_p_hat stats) \<or> \<not> is_finite (ws_health_factor stats) then (None, e1)
         else (Some \<lparr>os_samples = ws_n_scoreable stats, os_success_rate = f64_as_f32 (ws_p_hat stats),
                     os_p50_latency_ms = ws_p50_latency_ms stats, os_p95_latency_ms = ws_p95_latency_ms stats,
                     os_cost_per_success_micros = ws_cost_per_success_micros stats,
                     os_truncation_rate = f64_as_f32 (ws_trunc_rate stats),
                     os_dominant_error = ws_dominant_error stats, os_tier = en_tier e1,
                     os_health_factor = ws_health_factor stats,
                     os_demote_trigger = (if en_tier e1 = TierDemoted then en_demote_trigger e1 else None),
                     os_consecutive_failures = en_consecutive_failures e1\<rparr>, e1))"

definition sc_project ::
  "string \<Rightarrow> string \<Rightarrow> scorecard_config \<Rightarrow> instant \<Rightarrow> scorecard \<Rightarrow> outcome_signal option \<times> scorecard" where
  "sc_project target_id k cfg now sc =
     (if \<not> sc_enabled cfg then (None, sc)
      else case get_entry sc target_id k of
        None \<Rightarrow> (None, sc)
      | Some e \<Rightarrow>
          let (signal, e1) = project_entry cfg now e
          in (signal, put_entry target_id k e1 sc))"

section \<open>Quality evidence\<close>

definition sc_record_quality ::
  "string \<Rightarrow> string \<Rightarrow> string \<Rightarrow> scorecard_config \<Rightarrow> quality_eval_config \<Rightarrow> quality_sample
    \<Rightarrow> scorecard \<Rightarrow> scorecard" where
  "sc_record_quality target_id k evaluator_id cfg qcfg s sc =
     (if \<not> sc_enabled cfg \<or> \<not> qe_enabled qcfg \<or> trim_is_empty evaluator_id
         \<or> trim_is_empty (qsm_judgment_id s) \<or> qsm_created_at_ms s < 0 \<or> \<not> score_in_range (qsm_score_norm s)
      then sc
      else let (e, sc1) = get_or_create target_id k (prior_from_config cfg) sc;
               e1 = (if en_quality_evaluator_id e \<noteq> Some evaluator_id
                     then e\<lparr>en_quality_ring := [], en_quality_evaluator_id := Some evaluator_id\<rparr>
                     else e);
               e2 = push_quality s (win_max_samples (sc_window cfg)) e1
           in put_entry target_id k (e2\<lparr>en_dirty := True\<rparr>) sc1)"

definition sc_project_quality ::
  "string \<Rightarrow> string \<Rightarrow> string \<Rightarrow> scorecard_config \<Rightarrow> quality_eval_config \<Rightarrow> instant
    \<Rightarrow> scorecard \<Rightarrow> quality_signal option \<times> scorecard" where
  "sc_project_quality target_id k evaluator_id cfg qcfg now sc =
     (if \<not> sc_enabled cfg \<or> \<not> qe_enabled qcfg then (None, sc)
      else case get_entry sc target_id k of
        None \<Rightarrow> (None, sc)
      | Some e \<Rightarrow>
          if en_quality_evaluator_id e \<noteq> Some evaluator_id then (None, sc)
          else let (pruned, ring) = prune_quality (en_quality_ring e) now (ttl_of cfg);
                   e1 = e\<lparr>en_quality_ring := ring\<rparr>;
                   e2 = (if pruned then e1\<lparr>en_dirty := True\<rparr> else e1)
               in (map_option (\<lambda>stats. \<lparr>qs_ewma = qst_ewma stats, qs_samples = qst_samples stats,
                        qs_age_secs = qst_age_secs stats, qs_evaluator_id = evaluator_id\<rparr>)
                     (quality_stats ring now (ttl_of cfg) (qe_ewma_alpha qcfg)),
                   put_entry target_id k e2 sc))"

text \<open>Every target with fresh quality evidence for one capability class, as a \<open>BTreeMap\<close>.\<close>

fun project_each_quality ::
  "string list \<Rightarrow> string \<Rightarrow> string \<Rightarrow> scorecard_config \<Rightarrow> quality_eval_config \<Rightarrow> instant
    \<Rightarrow> scorecard \<Rightarrow> (string \<times> quality_signal) list \<times> scorecard" where
  "project_each_quality [] k evaluator_id cfg qcfg now sc = ([], sc)"
| "project_each_quality (target_id # ids) k evaluator_id cfg qcfg now sc =
     (let (signal, sc1) = sc_project_quality target_id k evaluator_id cfg qcfg now sc;
          (rest, sc2) = project_each_quality ids k evaluator_id cfg qcfg now sc1
      in (case signal of Some q \<Rightarrow> ((target_id, q) # rest, sc2) | None \<Rightarrow> (rest, sc2)))"

definition sc_project_all_quality ::
  "string \<Rightarrow> string \<Rightarrow> scorecard_config \<Rightarrow> quality_eval_config \<Rightarrow> instant
    \<Rightarrow> scorecard \<Rightarrow> (string, quality_signal) btree_map \<times> scorecard" where
  "sc_project_all_quality k evaluator_id cfg qcfg now sc =
     (let ids = map fst (filter (\<lambda>(_, entry_class). entry_class = k) (map fst sc));
          (signals, sc1) = project_each_quality ids k evaluator_id cfg qcfg now sc
      in (bt_collect signals, sc1))"

text \<open>Replaying the judgment log: replacement, not append.\<close>

record quality_judgment_record =
  qj_judgment_id :: string
  qj_served_target_id :: string
  qj_class :: string
  qj_evaluator_id :: string
  qj_status :: string
  qj_score_norm :: "f64 option"
  qj_created_at_ms :: i64

definition clear_quality :: "string \<Rightarrow> entry \<Rightarrow> entry" where
  "clear_quality evaluator_id e =
     (if en_quality_ring e \<noteq> [] \<or> en_quality_evaluator_id e \<noteq> Some evaluator_id
      then e\<lparr>en_quality_ring := [], en_quality_evaluator_id := Some evaluator_id, en_dirty := True\<rparr>
      else e)"

definition replay_row ::
  "string \<Rightarrow> scorecard_config \<Rightarrow> quality_eval_config \<Rightarrow> instant \<Rightarrow> i64 \<Rightarrow> quality_judgment_record
    \<Rightarrow> scorecard \<Rightarrow> scorecard" where
  "replay_row evaluator_id cfg qcfg now now_epoch_ms row sc =
     (let ttl_ms = sat_i64 (u64_as_i64 (win_ttl_secs (sc_window cfg)) * 1000)
      in if qj_status row \<noteq> ''scored'' \<or> qj_evaluator_id row \<noteq> evaluator_id
            \<or> qj_created_at_ms row < sat_i64 (now_epoch_ms - ttl_ms)
         then sc
         else case qj_score_norm row of
           None \<Rightarrow> sc
         | Some score_norm \<Rightarrow>
             let age_ms = nat (max (sat_i64 (now_epoch_ms - qj_created_at_ms row)) 0);
                 ts = (if age_ms \<le> now then now - age_ms else now)
             in sc_record_quality (qj_served_target_id row) (qj_class row) evaluator_id cfg qcfg
                  \<lparr>qsm_judgment_id = qj_judgment_id row, qsm_ts = ts,
                   qsm_created_at_ms = qj_created_at_ms row, qsm_score_norm = score_norm\<rparr> sc)"

definition sc_replay_quality ::
  "quality_judgment_record list \<Rightarrow> string \<Rightarrow> scorecard_config \<Rightarrow> quality_eval_config \<Rightarrow> instant \<Rightarrow> i64
    \<Rightarrow> scorecard \<Rightarrow> scorecard" where
  "sc_replay_quality rows evaluator_id cfg qcfg now now_epoch_ms sc =
     (if \<not> sc_enabled cfg \<or> \<not> qe_enabled qcfg \<or> trim_is_empty evaluator_id then sc
      else fold (replay_row evaluator_id cfg qcfg now now_epoch_ms) rows
             (map (\<lambda>(key, e). (key, clear_quality evaluator_id e)) sc))"

section \<open>Persistence\<close>

definition hydrate_one :: "scorecard_config \<Rightarrow> instant \<Rightarrow> i64 \<Rightarrow> scorecard_row \<Rightarrow> scorecard \<Rightarrow> scorecard" where
  "hydrate_one cfg now now_epoch_ms row sc =
     (case hydrate_row row cfg now_epoch_ms of
        None \<Rightarrow> sc
      | Some (p, tier) \<Rightarrow>
          let (e, sc1) = get_or_create (row_target_id row) (row_class row) p sc
          in put_entry (row_target_id row) (row_class row)
               (e\<lparr>en_prior := p, en_tier := tier, en_hydrated := True,
                  en_demoted_since := (if tier = TierDemoted
                    then Option.bind (row_demoted_since_ms row) (\<lambda>ms.
                      let age_ms = nat (max (sat_i64 (now_epoch_ms - ms)) 0)
                      in if age_ms \<le> now then Some (now - age_ms) else None)
                    else None)\<rparr>) sc1)"

definition sc_hydrate :: "scorecard_row list \<Rightarrow> scorecard_config \<Rightarrow> instant \<Rightarrow> i64 \<Rightarrow> scorecard \<Rightarrow> scorecard" where
  "sc_hydrate rows cfg now now_epoch_ms sc = fold (hydrate_one cfg now now_epoch_ms) rows sc"

definition snapshot_row ::
  "((string \<times> u32) list \<Rightarrow> string) \<Rightarrow> scorecard_config \<Rightarrow> quality_eval_config \<Rightarrow> instant \<Rightarrow> i64
    \<Rightarrow> score_key \<Rightarrow> entry \<Rightarrow> scorecard_row \<times> entry" where
  "snapshot_row to_json cfg qcfg now now_epoch_ms key e =
     (let ttl = ttl_of cfg;
          stats = window_stats (en_ring e) (en_prior e) now ttl;
          ring = snd (prune_quality (en_quality_ring e) now ttl);
          quality = (if qe_enabled qcfg then quality_stats ring now ttl (qe_ewma_alpha qcfg) else None);
          demoted_since_ms = Option.bind (en_demoted_since e) (\<lambda>t.
            if t \<le> now then Some (wrap_i64 (now_epoch_ms - wrap_i64 (int (now - t)))) else None)
      in (\<lparr>row_target_id = fst key, row_class = snd key, row_scoreable_samples = ws_n_scoreable stats,
           row_success_count = ws_success_count stats, row_truncated_count = ws_truncated_count stats,
           row_target_fail_count = ws_target_fail_count stats, row_p50_latency_ms = ws_p50_latency_ms stats,
           row_p95_latency_ms = ws_p95_latency_ms stats,
           row_cost_per_success_micros = ws_cost_per_success_micros stats,
           row_error_histogram = error_histogram_json to_json (en_ring e) now ttl,
           row_consecutive_failures = en_consecutive_failures e,
           row_tier = (case en_tier e of TierHealthy \<Rightarrow> 0 | TierDemoted \<Rightarrow> 1),
           row_demoted_since_ms = demoted_since_ms, row_quality_ewma = map_option qst_ewma quality,
           row_quality_samples = (case quality of Some q \<Rightarrow> qst_samples q | None \<Rightarrow> 0),
           row_quality_updated_at_ms = map_option qst_updated_at_ms quality,
           row_quality_evaluator_id = (if quality \<noteq> None then en_quality_evaluator_id e else None),
           row_updated_at_ms = now_epoch_ms, row_schema_ver = 1\<rparr>,
          e\<lparr>en_quality_ring := ring, en_dirty := False\<rparr>))"

fun dirty_snapshot_inner ::
  "((string \<times> u32) list \<Rightarrow> string) \<Rightarrow> scorecard_config \<Rightarrow> quality_eval_config \<Rightarrow> instant \<Rightarrow> i64
    \<Rightarrow> scorecard \<Rightarrow> scorecard_row list \<times> scorecard" where
  "dirty_snapshot_inner to_json cfg qcfg now now_epoch_ms [] = ([], [])"
| "dirty_snapshot_inner to_json cfg qcfg now now_epoch_ms ((key, e) # sc) =
     (let (rows, sc1) = dirty_snapshot_inner to_json cfg qcfg now now_epoch_ms sc
      in if \<not> en_dirty e then (rows, (key, e) # sc1)
         else let (row, e1) = snapshot_row to_json cfg qcfg now now_epoch_ms key e
              in (row # rows, (key, e1) # sc1))"

definition dirty_snapshot where
  "dirty_snapshot to_json cfg now now_epoch_ms sc =
     dirty_snapshot_inner to_json cfg default_quality_eval_config now now_epoch_ms sc"

definition mark_dirty :: "score_key list \<Rightarrow> scorecard \<Rightarrow> scorecard" where
  "mark_dirty keys sc =
     fold (\<lambda>key sc. case map_of sc key of
         Some e \<Rightarrow> AList.update key (e\<lparr>en_dirty := True\<rparr>) sc | None \<Rightarrow> sc) keys sc"

end
