(* ===== verification/Scorecard_Facts.thy ===== *)
theory Scorecard_Facts
  imports Scorecard
begin

text \<open>
  What the scorecard guarantees: the window statistics count the live scoreable samples and
  nothing else, neutral outcomes never demote, demotion and recovery follow the streaks, a
  demotion lapses with its evidence, projected health is a probability, the judgment log can be
  replayed any number of times, and what is persisted is accepted back.
\<close>

section \<open>Window statistics\<close>

definition count_class :: "outcome_class \<Rightarrow> sample list \<Rightarrow> nat" where
  "count_class k ss = length (filter (\<lambda>s. sm_class s = k) ss)"

definition count_scoreable :: "sample list \<Rightarrow> nat" where
  "count_scoreable ss = length (filter (is_scoreable \<circ> sm_class) ss)"

lemma window_sample_counts:
  "wa_success (fold window_sample ss acc) = wa_success acc + of_nat (count_class OcSuccess ss)"
  "wa_truncated (fold window_sample ss acc) = wa_truncated acc + of_nat (count_class OcTruncated ss)"
  "wa_failed (fold window_sample ss acc) = wa_failed acc + of_nat (count_class OcTargetFailure ss)"
  by (induction ss arbitrary: acc)
    (auto simp: count_class_def window_sample_def split: outcome_class.splits)

lemma count_classes:
  "count_class OcSuccess ss + count_class OcTruncated ss + count_class OcTargetFailure ss = count_scoreable ss"
  unfolding count_class_def count_scoreable_def is_scoreable_def comp_def
  by (induction ss) auto

lemma window_stats_counts:
  "ws_success_count (window_stats ring p now ttl) = of_nat (count_class OcSuccess (live_samples ring now ttl))"
  "ws_truncated_count (window_stats ring p now ttl) = of_nat (count_class OcTruncated (live_samples ring now ttl))"
  "ws_target_fail_count (window_stats ring p now ttl) =
     of_nat (count_class OcTargetFailure (live_samples ring now ttl))"
  "ws_n_scoreable (window_stats ring p now ttl) = of_nat (count_scoreable (live_samples ring now ttl))"
  by (simp_all add: window_stats_def Let_def split_beta window_sample_counts window_acc0_def
      flip: count_classes)

lemma count_scoreable_le: "count_scoreable (live_samples ring now ttl) \<le> length ring"
  unfolding count_scoreable_def live_samples_def
  by (meson le_trans length_filter_le)

lemma unat_n_scoreable:
  "length ring < 2 ^ 32 \<Longrightarrow>
     unat (ws_n_scoreable (window_stats ring p now ttl)) = count_scoreable (live_samples ring now ttl)"
  using count_scoreable_le [of ring now ttl]
  by (simp add: window_stats_counts unat_word_of_nat)

lemma window_health_unit: "unit_or_nan (ws_health_factor (window_stats ring p now ttl))"
proof -
  have "unit_or_nan (f64_as_f32 (flt_clamp (FFin 0) (FFin 1) x))" for x
    using clamp_unit_or_nan [of x] round_f32_unit
    by (auto simp: unit_or_nan_def is_nan_def in_unit_def)
  then show ?thesis
    by (simp add: window_stats_def Let_def split_beta)
qed

section \<open>One entry\<close>

definition entry_ok :: "usize \<Rightarrow> entry \<Rightarrow> bool" where
  "entry_ok mx e \<longleftrightarrow>
     length (en_ring e) \<le> max mx 1 \<and> length (en_quality_ring e) \<le> max mx 1
     \<and> list_all (\<lambda>s. score_in_range (qsm_score_norm s)) (en_quality_ring e)
     \<and> (en_tier e = TierHealthy \<longrightarrow> en_demoted_since e = None \<and> en_demote_trigger e = None)"

lemma length_pop_while_ge: "length (pop_while_ge n xs) < n \<or> pop_while_ge n xs = []"
  by (induction n xs rule: pop_while_ge.induct) auto

lemma reset_stale_fields:
  "en_ring (reset_stale stats e) = en_ring e" "en_prior (reset_stale stats e) = en_prior e"
  "en_quality_ring (reset_stale stats e) = en_quality_ring e"
  "en_hydrated (reset_stale stats e) = en_hydrated e"
  "en_tier (reset_stale stats e) = (if ws_n_scoreable stats = 0 then TierHealthy else en_tier e)"
  "en_demoted_since (reset_stale stats e) = (if ws_n_scoreable stats = 0 then None else en_demoted_since e)"
  "en_demote_trigger (reset_stale stats e) = (if ws_n_scoreable stats = 0 then None else en_demote_trigger e)"
  "en_consecutive_failures (reset_stale stats e) =
     (if ws_n_scoreable stats = 0 then 0 else en_consecutive_failures e)"
  "en_consecutive_successes (reset_stale stats e) =
     (if ws_n_scoreable stats = 0 then 0 else en_consecutive_successes e)"
  by (simp_all add: reset_stale_def reset_if_ttl_lapsed_def)

lemma bump_streaks_fields:
  "en_ring (bump_streaks k e) = en_ring e" "en_prior (bump_streaks k e) = en_prior e"
  "en_quality_ring (bump_streaks k e) = en_quality_ring e"
  "en_tier (bump_streaks k e) = en_tier e" "en_demoted_since (bump_streaks k e) = en_demoted_since e"
  "en_demote_trigger (bump_streaks k e) = en_demote_trigger e"
  "en_hydrated (bump_streaks k e) = en_hydrated e"
  by (simp_all add: bump_streaks_def split: outcome_class.splits)

lemma push_sample_fields:
  "en_ring (push_sample s mx e) = pop_while_ge (max mx 1) (en_ring e) @ [s]"
  "en_prior (push_sample s mx e) = en_prior e" "en_quality_ring (push_sample s mx e) = en_quality_ring e"
  "en_tier (push_sample s mx e) = en_tier e" "en_demoted_since (push_sample s mx e) = en_demoted_since e"
  "en_demote_trigger (push_sample s mx e) = en_demote_trigger e"
  "en_consecutive_failures (push_sample s mx e) = en_consecutive_failures e"
  "en_consecutive_successes (push_sample s mx e) = en_consecutive_successes e"
  "en_hydrated (push_sample s mx e) = en_hydrated e"
  by (simp_all add: push_sample_def)

lemma hysteresis_fields:
  "en_ring (apply_hysteresis stats cfg now k e) = en_ring e"
  "en_quality_ring (apply_hysteresis stats cfg now k e) = en_quality_ring e"
  "en_consecutive_failures (apply_hysteresis stats cfg now k e) = en_consecutive_failures e"
  "en_consecutive_successes (apply_hysteresis stats cfg now k e) = en_consecutive_successes e"
  "en_hydrated (apply_hysteresis stats cfg now k e) = en_hydrated e"
  by (simp_all add: apply_hysteresis_def split: outcome_tier.splits)

lemmas entry_fields = reset_stale_fields bump_streaks_fields push_sample_fields hysteresis_fields

lemma push_ring_bound: "Suc (length (pop_while_ge (max mx (Suc 0)) ring)) \<le> max mx (Suc 0)"
  using length_pop_while_ge [of "max mx (Suc 0)" ring] by auto

lemma hysteresis_sync:
  "(en_tier e = TierHealthy \<longrightarrow> en_demoted_since e = None \<and> en_demote_trigger e = None) \<Longrightarrow>
   en_tier (apply_hysteresis stats cfg now k e) = TierHealthy \<Longrightarrow>
   en_demoted_since (apply_hysteresis stats cfg now k e) = None
     \<and> en_demote_trigger (apply_hysteresis stats cfg now k e) = None"
  by (auto simp: apply_hysteresis_def split: outcome_tier.splits if_splits)

lemma record_entry_ring: "length (en_ring (record_entry cfg s e)) \<le> max (win_max_samples (sc_window cfg)) 1"
  by (simp add: record_entry_def Let_def entry_fields push_ring_bound)

lemma record_entry_ok:
  assumes "entry_ok mx e" and "win_max_samples (sc_window cfg) \<le> mx"
  shows "entry_ok mx (record_entry cfg s e)"
proof -
  have "length (en_ring (record_entry cfg s e)) \<le> max mx 1"
    using record_entry_ring [of cfg s e] assms(2) by linarith
  with assms(1) show ?thesis
    unfolding entry_ok_def by (auto simp: record_entry_def Let_def entry_fields intro!: hysteresis_sync split: if_splits)
qed

lemma replace_or_append_set: "set (replace_or_append s ring) \<subseteq> insert s (set ring)"
  by (induction s ring rule: replace_or_append.induct) auto

lemma push_quality_fields:
  "en_ring (push_quality s mx e) = en_ring e" "en_tier (push_quality s mx e) = en_tier e"
  "en_demoted_since (push_quality s mx e) = en_demoted_since e"
  "en_demote_trigger (push_quality s mx e) = en_demote_trigger e"
  by (simp_all add: push_quality_def Let_def)

lemma push_quality_ok:
  assumes "entry_ok mx e" and "score_in_range (qsm_score_norm s)" and "n \<le> mx"
  shows "entry_ok mx (push_quality s n e)"
proof -
  have "set (en_quality_ring (push_quality s n e)) \<subseteq> insert s (set (en_quality_ring e))"
    using replace_or_append_set [of s "en_quality_ring e"]
    by (auto simp: push_quality_def Let_def sort_facts dest!: in_set_dropD)
  then have "list_all (\<lambda>s. score_in_range (qsm_score_norm s)) (en_quality_ring (push_quality s n e))"
    using assms by (auto simp: entry_ok_def list_all_iff)
  moreover have "length (en_quality_ring (push_quality s n e)) \<le> max n 1"
    by (simp add: push_quality_def Let_def)
  with assms(3) have "length (en_quality_ring (push_quality s n e)) \<le> max mx 1"
    by linarith
  ultimately show ?thesis
    using assms(1) by (simp add: entry_ok_def push_quality_fields)
qed

lemma entry_ok_dirty [simp]: "entry_ok mx (e\<lparr>en_dirty := b\<rparr>) = entry_ok mx e"
  by (simp add: entry_ok_def)

section \<open>Reachable scorecards\<close>

interpretation entry_map: kv_map new_scorecard "AList.update" "map_of" "\<lambda>m. distinct (map fst m)"
  by unfold_locales (auto simp: new_scorecard_def distinct_update update_conv)

definition entries_ok :: "usize \<Rightarrow> scorecard \<Rightarrow> bool" where
  "entries_ok mx sc \<longleftrightarrow> distinct (map fst sc) \<and> (\<forall>k e. map_of sc k = Some e \<longrightarrow> entry_ok mx e)"

lemma entries_ok_update: "entries_ok mx sc \<Longrightarrow> entry_ok mx e \<Longrightarrow> entries_ok mx (AList.update k e sc)"
  by (auto simp: entries_ok_def entry_map.wf_upd entry_map.get_upd split: if_splits)

lemma entries_ok_put: "entries_ok mx sc \<Longrightarrow> entry_ok mx e \<Longrightarrow> entries_ok mx (put_entry t k e sc)"
  by (simp add: put_entry_def entries_ok_update)

lemma new_entry_ok: "entry_ok mx (new_entry p)"
  by (simp add: entry_ok_def new_entry_def)

lemma get_or_create_ok:
  assumes "entries_ok mx sc"
  shows "entry_ok mx (fst (get_or_create t k p sc))" and "entries_ok mx (snd (get_or_create t k p sc))"
  using assms by (auto simp: get_or_create_def new_entry_ok entries_ok_update entries_ok_def [of mx sc]
      split: option.splits intro!: entries_ok_update)

text \<open>
  One step of the running server, under the configuration that is in force at the time: the scorecard
  survives a reload, and every call passes the configuration of its own snapshot.
\<close>

inductive sc_step :: "scorecard_config \<Rightarrow> quality_eval_config \<Rightarrow> scorecard \<Rightarrow> scorecard \<Rightarrow> bool"
  for cfg qcfg where
  sc_step_record: "sc_step cfg qcfg sc (sc_record t k p cfg s sc)"
| sc_step_project: "sc_step cfg qcfg sc (snd (sc_project t k cfg now sc))"
| sc_step_record_quality: "sc_step cfg qcfg sc (sc_record_quality t k ev cfg qcfg q sc)"
| sc_step_project_quality: "sc_step cfg qcfg sc (snd (sc_project_quality t k ev cfg qcfg now sc))"
| sc_step_replay: "sc_step cfg qcfg sc (sc_replay_quality rows ev cfg qcfg now epoch sc)"
| sc_step_snapshot: "sc_step cfg qcfg sc (snd (dirty_snapshot_inner to_json cfg qcfg now epoch sc))"
| sc_step_mark: "sc_step cfg qcfg sc (mark_dirty keys sc)"

inductive sc_reachable :: "(scorecard_config \<times> quality_eval_config) set \<Rightarrow> scorecard \<Rightarrow> bool"
  for cfgs where
  sc_boot: "(cfg, qcfg) \<in> cfgs \<Longrightarrow> sc_reachable cfgs (sc_hydrate rows cfg now epoch new_scorecard)"
| sc_next: "sc_reachable cfgs sc \<Longrightarrow> (cfg, qcfg) \<in> cfgs \<Longrightarrow> sc_step cfg qcfg sc sc' \<Longrightarrow> sc_reachable cfgs sc'"

abbreviation cfg_max :: "scorecard_config \<Rightarrow> usize" where
  "cfg_max cfg \<equiv> win_max_samples (sc_window cfg)"

lemma sc_record_ok: "entries_ok mx sc \<Longrightarrow> cfg_max cfg \<le> mx \<Longrightarrow> entries_ok mx (sc_record t k p cfg s sc)"
  using get_or_create_ok [of mx sc t k p]
  by (simp add: sc_record_def split_beta entries_ok_put record_entry_ok)

lemma project_entry_ok: "entry_ok mx e \<Longrightarrow> entry_ok mx (snd (project_entry cfg now e))"
  by (auto simp: project_entry_def Let_def entry_ok_def reset_stale_fields split: if_splits)

lemma sc_project_ok: "entries_ok mx sc \<Longrightarrow> entries_ok mx (snd (sc_project t k cfg now sc))"
  by (auto simp: sc_project_def get_entry_def split_beta Let_def entries_ok_def [of mx sc]
      intro!: entries_ok_put project_entry_ok split: option.splits)

lemma sc_record_quality_ok:
  assumes "entries_ok mx sc" and "cfg_max cfg \<le> mx"
  shows "entries_ok mx (sc_record_quality t k ev cfg qcfg q sc)"
proof -
  obtain e sc1 where g: "get_or_create t k (prior_from_config cfg) sc = (e, sc1)"
    by (cases "get_or_create t k (prior_from_config cfg) sc")
  have e: "entry_ok mx e" and sc1: "entries_ok mx sc1"
    using get_or_create_ok [OF assms(1), of t k "prior_from_config cfg"] g by simp_all
  let ?e1 = "if en_quality_evaluator_id e \<noteq> Some ev
     then e\<lparr>en_quality_ring := [], en_quality_evaluator_id := Some ev\<rparr> else e"
  have "entry_ok mx ?e1"
    using e by (simp add: entry_ok_def)
  then show ?thesis
    using assms sc1 by (simp add: sc_record_quality_def g Let_def entries_ok_put push_quality_ok)
qed

lemma entries_okD: "entries_ok mx sc \<Longrightarrow> map_of sc k = Some e \<Longrightarrow> entry_ok mx e"
  unfolding entries_ok_def by blast

lemma entry_ok_filter: "entry_ok mx e \<Longrightarrow> entry_ok mx (e\<lparr>en_quality_ring := filter P (en_quality_ring e)\<rparr>)"
  by (auto simp: entry_ok_def list_all_iff intro: order_trans [OF length_filter_le])

lemma sc_project_quality_ok:
  "entries_ok mx sc \<Longrightarrow> entries_ok mx (snd (sc_project_quality t k ev cfg qcfg now sc))"
  by (auto simp: sc_project_quality_def get_entry_def prune_quality_def split_beta Let_def
      intro!: entries_ok_put entry_ok_filter dest: entries_okD split: option.splits)

lemma map_of_map_entries: "map_of (map (\<lambda>(k, e). (k, f k e)) sc) k = map_option (f k) (map_of sc k)"
  by (induction sc) auto

lemma entries_ok_map:
  assumes "entries_ok mx sc" and "\<And>k e. entry_ok mx e \<Longrightarrow> entry_ok mx (f k e)"
  shows "entries_ok mx (map (\<lambda>(k, e). (k, f k e)) sc)"
  using assms unfolding entries_ok_def map_of_map_entries by (auto simp: comp_def split_beta')

lemma fold_ok: "P s \<Longrightarrow> (\<And>x s. P s \<Longrightarrow> P (f x s)) \<Longrightarrow> P (fold f xs s)"
  by (induction xs arbitrary: s) auto

lemma sc_replay_quality_ok:
  assumes "entries_ok mx sc" and "cfg_max cfg \<le> mx"
  shows "entries_ok mx (sc_replay_quality rows ev cfg qcfg now epoch sc)"
proof -
  have "entries_ok mx (map (\<lambda>(key, e). (key, clear_quality ev e)) sc)"
    using assms(1) by (rule entries_ok_map) (simp add: clear_quality_def entry_ok_def)
  then have "entries_ok mx
      (fold (replay_row ev cfg qcfg now epoch) rows (map (\<lambda>(key, e). (key, clear_quality ev e)) sc))"
    by (rule fold_ok) (simp add: replay_row_def Let_def sc_record_quality_ok assms(2) split: option.splits)
  with assms show ?thesis
    by (simp add: sc_replay_quality_def)
qed

lemma snapshot_map:
  "snd (dirty_snapshot_inner to_json cfg qcfg now epoch sc) =
     map (\<lambda>(k, e). (k, if en_dirty e then snd (snapshot_row to_json cfg qcfg now epoch k e) else e)) sc"
  by (induction sc) (auto simp: split_beta Let_def)

lemma snapshot_ok:
  assumes "entries_ok mx sc"
  shows "entries_ok mx (snd (dirty_snapshot_inner to_json cfg qcfg now epoch sc))"
  unfolding snapshot_map using assms
  by (rule entries_ok_map) (simp add: snapshot_row_def prune_quality_def Let_def, auto simp: entry_ok_def
      list_all_iff intro: order_trans [OF length_filter_le])

lemma mark_dirty_ok: "entries_ok mx sc \<Longrightarrow> entries_ok mx (mark_dirty keys sc)"
  unfolding mark_dirty_def
  by (erule fold_ok) (auto intro!: entries_ok_update dest: entries_okD split: option.splits)

text \<open>Hydration starts from entries that carry no trigger, so it may set any tier.\<close>

definition untriggered :: "scorecard \<Rightarrow> bool" where
  "untriggered sc \<longleftrightarrow> (\<forall>k e. map_of sc k = Some e \<longrightarrow> en_demote_trigger e = None)"

lemma untriggered_update: "untriggered sc \<Longrightarrow> en_demote_trigger e = None \<Longrightarrow> untriggered (AList.update k e sc)"
  unfolding untriggered_def by (simp add: update_conv')

lemma hydrate_one_ok:
  assumes "entries_ok mx sc" and "untriggered sc"
  shows "entries_ok mx (hydrate_one cfg now epoch row sc)" and "untriggered (hydrate_one cfg now epoch row sc)"
proof -
  have new: "en_demote_trigger (fst (get_or_create t k p sc)) = None"
      "untriggered (snd (get_or_create t k p sc))" for t k p
    using assms(2) by (auto simp: get_or_create_def new_entry_def untriggered_update
        untriggered_def [of sc] split: option.splits intro!: untriggered_update)
  then show "untriggered (hydrate_one cfg now epoch row sc)"
    using assms(2) by (auto simp: hydrate_one_def put_entry_def split_beta Let_def intro!: untriggered_update
        split: option.splits)
  show "entries_ok mx (hydrate_one cfg now epoch row sc)"
    using assms get_or_create_ok [OF assms(1)] new(1)
    by (auto simp: hydrate_one_def split_beta Let_def entry_ok_def intro!: entries_ok_put split: option.splits)
qed

lemma hydrate_ok: "entries_ok mx (sc_hydrate rows cfg now epoch new_scorecard)"
proof -
  have "entries_ok mx (sc_hydrate rows cfg now epoch new_scorecard)
      \<and> untriggered (sc_hydrate rows cfg now epoch new_scorecard)"
    unfolding sc_hydrate_def
    by (rule fold_ok) (simp add: entries_ok_def untriggered_def new_scorecard_def, blast intro: hydrate_one_ok)
  then show ?thesis ..
qed

lemma sc_step_ok:
  assumes "sc_step cfg qcfg sc sc'" and "entries_ok mx sc" and "cfg_max cfg \<le> mx"
  shows "entries_ok mx sc'"
  using assms
  by (cases rule: sc_step.cases) (simp_all add: sc_record_ok sc_project_ok sc_record_quality_ok
      sc_project_quality_ok sc_replay_quality_ok snapshot_ok mark_dirty_ok)

lemma sc_reachable_ok:
  assumes "sc_reachable cfgs sc" and "\<forall>(cfg, qcfg) \<in> cfgs. cfg_max cfg \<le> mx"
  shows "entries_ok mx sc"
  using assms(1)
proof (induction rule: sc_reachable.induct)
  case (sc_next sc cfg qcfg sc')
  with assms(2) have "cfg_max cfg \<le> mx" by auto
  with sc_next.IH show ?case by (rule sc_step_ok [OF sc_next.hyps(3)])
qed (rule hydrate_ok)

lemma entries_ok_mono: "entries_ok mx sc \<Longrightarrow> mx \<le> mx' \<Longrightarrow> entries_ok mx' sc"
  unfolding entries_ok_def entry_ok_def by fastforce

text \<open>Only finitely many configurations have been in force, so some bound always holds.\<close>

lemma sc_reachable_bounded: "sc_reachable cfgs sc \<Longrightarrow> \<exists>mx. entries_ok mx sc"
proof (induction rule: sc_reachable.induct)
  case (sc_next sc cfg qcfg sc')
  then obtain mx where "entries_ok mx sc" by blast
  then have "entries_ok (max mx (cfg_max cfg)) sc" by (rule entries_ok_mono) (rule max.cobounded1)
  then have "entries_ok (max mx (cfg_max cfg)) sc'" by (rule sc_step_ok [OF sc_next.hyps(3)]) (rule max.cobounded2)
  then show ?case ..
qed (blast intro: hydrate_ok)


section \<open>What demotes and what does not\<close>

lemma outcome_demotes:
  "classify outcome \<in> {OcTargetFailure, OcTruncated} \<Longrightarrow>
   outcome \<in> {AttemptOk FinishLength, AttemptOk FinishError}
    \<or> outcome \<in> AttemptFailed ` {RateLimited, ProviderOverloaded, Timeout, Network, ServerError, StreamInterrupted, Unknown}"
proof (cases outcome)
  case (AttemptOk r)
  assume "classify outcome \<in> {OcTargetFailure, OcTruncated}"
  with AttemptOk show ?thesis by (cases r) auto
next
  case (AttemptFailed c)
  assume "classify outcome \<in> {OcTargetFailure, OcTruncated}"
  with AttemptFailed show ?thesis by (cases c) (auto simp: is_client_error_def)
qed auto

text \<open>
  C34: only evidence against the target can demote it. Recording an attempt that was answered in
  full, refused for safety, cancelled, or failed through the client's or the account's fault never
  turns a healthy target into a demoted one, whatever its window looks like. What can demote is an
  answer that was cut off at the length limit or ended in an error, and a failure that is the
  target's: it was overloaded, limited the rate, timed out, could not be reached, failed, broke the
  stream off, or failed in a way that is not known.
\<close>

theorem only_target_faults_demote:
  assumes "sm_class s = classify outcome" and "en_tier e = TierHealthy"
    and "en_tier (record_entry cfg s e) = TierDemoted"
  shows "outcome \<in> {AttemptOk FinishLength, AttemptOk FinishError}
    \<or> outcome \<in> AttemptFailed ` {RateLimited, ProviderOverloaded, Timeout, Network, ServerError, StreamInterrupted, Unknown}"
proof -
  have "sm_class s \<in> {OcTargetFailure, OcTruncated}"
    using assms(2,3) by (auto simp: record_entry_def Let_def apply_hysteresis_def entry_fields split: if_splits)
  then show ?thesis
    using assms(1) outcome_demotes by simp
qed

text \<open>
  A target that only ever saw neutral outcomes is invisible to the router: without scoreable
  evidence in the live window and without a persisted aggregate, \<open>project\<close> answers exactly as
  for a target it never heard of.
\<close>

theorem neutral_only_invisible:
  assumes "list_all (\<lambda>s. \<not> is_scoreable (sm_class s)) (en_ring e)" and "\<not> en_hydrated e"
    and "get_entry sc t k = Some e"
  shows "fst (sc_project t k cfg now sc) = None"
proof -
  have "count_scoreable (live_samples (en_ring e) now (ttl_of cfg)) = 0"
    using assms(1) by (auto simp: count_scoreable_def live_samples_def list_all_iff filter_empty_conv)
  then have "fst (project_entry cfg now e) = None"
    using assms(2) by (simp add: project_entry_def Let_def window_stats_counts reset_stale_fields)
  then show ?thesis
    using assms(3) by (simp add: sc_project_def split_beta)
qed

text \<open>
  A demotion lapses with its evidence: once no scoreable sample is live, reading the target
  reports it healthy and clears the stored tier, trigger and streaks, so that the next sample
  starts from a clean slate.
\<close>

theorem demotion_lapses:
  assumes "count_scoreable (live_samples (en_ring e) now (ttl_of cfg)) = 0"
    and "get_entry sc t k = Some e" and "sc_enabled cfg"
  shows "case sc_project t k cfg now sc of (signal, sc') \<Rightarrow>
      pred_option (\<lambda>o'. os_tier o' = TierHealthy) signal
      \<and> get_entry sc' t k = Some (snd (project_entry cfg now e))
      \<and> en_tier (snd (project_entry cfg now e)) = TierHealthy
      \<and> en_demote_trigger (snd (project_entry cfg now e)) = None
      \<and> en_consecutive_failures (snd (project_entry cfg now e)) = 0"
  using assms
  by (simp add: sc_project_def split_beta Let_def get_entry_def put_entry_def update_conv')
    (simp add: project_entry_def Let_def window_stats_counts reset_stale_fields)

section \<open>Streaks\<close>

lemma success_step:
  assumes "sm_class s = OcSuccess" and "unat (en_consecutive_successes e) + 1 < 2 ^ 32"
  shows "en_tier (record_entry cfg s e) = TierHealthy
    \<or> en_tier e = TierDemoted
      \<and> unat (en_consecutive_successes (record_entry cfg s e)) = unat (en_consecutive_successes e) + 1
      \<and> en_consecutive_successes (record_entry cfg s e) < dem_fast_recover_streak (sc_demotion cfg)"
  using assms unat_Suc_word [of "en_consecutive_successes e"]
  by (auto simp: record_entry_def Let_def apply_hysteresis_def entry_fields bump_streaks_def recovers_def
      not_le split: outcome_tier.splits if_splits)

lemma success_streak:
  assumes "list_all (\<lambda>s. sm_class s = OcSuccess) ss"
    and "unat (en_consecutive_successes e) + length ss < 2 ^ 32"
  shows "en_tier (fold (record_entry cfg) ss e) = TierHealthy
    \<or> unat (en_consecutive_successes (fold (record_entry cfg) ss e)) = unat (en_consecutive_successes e) + length ss
      \<and> (ss = [] \<or> en_consecutive_successes (fold (record_entry cfg) ss e) < dem_fast_recover_streak (sc_demotion cfg))"
  using assms
proof (induction ss rule: rev_induct)
  case (snoc s ss)
  let ?e = "fold (record_entry cfg) ss e"
  have "sm_class s = OcSuccess"
    using snoc.prems(1) by simp
  then have keep: "en_tier ?e = TierHealthy \<Longrightarrow> en_tier (record_entry cfg s ?e) = TierHealthy"
    by (simp add: record_entry_def Let_def apply_hysteresis_def entry_fields)
  show ?case
    using snoc success_step [of s ?e cfg] keep by auto
qed simp

text \<open>
  A target recovers on a streak alone: after \<open>fast_recover_streak\<close> successes in a row it is
  healthy, however few samples its window holds and however poor they are.
\<close>

theorem success_streak_recovers:
  assumes "list_all (\<lambda>s. sm_class s = OcSuccess) ss" and "ss \<noteq> []"
    and "unat (dem_fast_recover_streak (sc_demotion cfg)) \<le> length ss"
    and "unat (en_consecutive_successes e) + length ss < 2 ^ 32"
  shows "en_tier (fold (record_entry cfg) ss e) = TierHealthy"
  using success_streak [OF assms(1,4), of cfg] assms(2,3) by (auto simp: word_less_nat_alt)

lemma live_scoreable_nonzero:
  assumes "s \<in> set ring" and "is_scoreable (sm_class s)" and "is_live (sm_ts s) now ttl" and "length ring < 2 ^ 32"
  shows "ws_n_scoreable (window_stats ring p now ttl) \<noteq> 0"
proof -
  have "s \<in> set (filter (is_scoreable \<circ> sm_class) (live_samples ring now ttl))"
    using assms(1-3) by (simp add: live_samples_def)
  then have "0 < count_scoreable (live_samples ring now ttl)"
    unfolding count_scoreable_def by (metis length_pos_if_in_set)
  then show ?thesis
    using unat_n_scoreable [OF assms(4), of p now ttl] by (metis less_irrefl unsigned_0)
qed

lemma failure_step:
  assumes "sm_class s = OcTargetFailure" and "unat (en_consecutive_failures e) + 1 < 2 ^ 32"
    and "0 < dem_fast_recover_streak (sc_demotion cfg)"
  defines "e' \<equiv> record_entry cfg s e"
  shows "1 \<le> unat (en_consecutive_failures e') \<and> unat (en_consecutive_failures e') \<le> unat (en_consecutive_failures e) + 1
    \<and> last (en_ring e') = s \<and> en_ring e' \<noteq> []
    \<and> (ws_n_scoreable (window_stats (en_ring e) (en_prior e) (sm_ts s) (ttl_of cfg)) \<noteq> 0 \<longrightarrow>
         unat (en_consecutive_failures e') = unat (en_consecutive_failures e) + 1)
    \<and> (dem_fast_demote_streak (sc_demotion cfg) \<le> en_consecutive_failures e' \<longrightarrow> en_tier e' = TierDemoted)"
proof -
  have suc: "unat (en_consecutive_failures e + 1) = unat (en_consecutive_failures e) + 1"
    using assms(2) unat_Suc_word [of "en_consecutive_failures e"] by simp
  then have "en_consecutive_failures e + 1 \<noteq> 0"
    by (metis add_is_0 one_neq_zero unsigned_0)
  then show ?thesis
    using assms(1,3) suc unfolding e'_def
    by (auto simp: record_entry_def Let_def apply_hysteresis_def entry_fields bump_streaks_def recovers_def
        fast_path_def split: outcome_tier.splits)
qed

lemma record_entry_ring_bound: "length (en_ring (record_entry cfg s e)) \<le> max (cfg_max cfg) 1"
  by (simp add: record_entry_def Let_def entry_fields push_ring_bound)

lemma hd_le_last: "sorted (map f xs) \<Longrightarrow> xs \<noteq> [] \<Longrightarrow> f (hd xs) \<le> f (last xs)"
  by (cases xs) auto

lemma failure_streak:
  assumes "list_all (\<lambda>s. sm_class s = OcTargetFailure) ss" and "ss \<noteq> []"
    and "sorted (map sm_ts ss)" and "sm_ts (last ss) \<le> sm_ts (hd ss) + ttl_of cfg"
    and "unat (en_consecutive_failures e) + length ss < 2 ^ 32"
    and "max (cfg_max cfg) 1 < 2 ^ 32" and "0 < dem_fast_recover_streak (sc_demotion cfg)"
  defines "e' \<equiv> fold (record_entry cfg) ss e"
  shows "length ss \<le> unat (en_consecutive_failures e')
    \<and> unat (en_consecutive_failures e') \<le> unat (en_consecutive_failures e) + length ss
    \<and> last (en_ring e') = last ss \<and> en_ring e' \<noteq> [] \<and> length (en_ring e') < 2 ^ 32
    \<and> (dem_fast_demote_streak (sc_demotion cfg) \<le> en_consecutive_failures e' \<longrightarrow> en_tier e' = TierDemoted)"
  using assms(1-5) unfolding e'_def
proof (induction ss rule: rev_induct)
  case (snoc s ss)
  let ?e = "fold (record_entry cfg) ss e"
  have k: "sm_class s = OcTargetFailure"
    using snoc.prems(1) by simp
  have bound: "length (en_ring (record_entry cfg s ?e)) < 2 ^ 32"
    using record_entry_ring_bound [of cfg s ?e] assms(6) by linarith
  show ?case
  proof (cases "ss = []")
    case True
    then show ?thesis
      using failure_step [OF k _ assms(7), of e] snoc.prems(5) bound by simp
  next
    case False
    have srt: "sorted (map sm_ts ss)" "\<forall>x \<in> set ss. sm_ts x \<le> sm_ts s"
      using snoc.prems(3) by (simp_all add: sorted_append)
    have le: "sm_ts (last ss) \<le> sm_ts s" "sm_ts (hd ss) \<le> sm_ts (last ss)"
      using srt False hd_le_last [of sm_ts ss] by simp_all
    have cap: "sm_ts s \<le> sm_ts (hd ss) + ttl_of cfg"
      using snoc.prems(4) False by simp
    have IH: "length ss \<le> unat (en_consecutive_failures ?e)"
        "unat (en_consecutive_failures ?e) \<le> unat (en_consecutive_failures e) + length ss"
        "last (en_ring ?e) = last ss" "en_ring ?e \<noteq> []" "length (en_ring ?e) < 2 ^ 32"
      using snoc.IH snoc.prems False srt(1) le cap by auto
    have "ws_n_scoreable (window_stats (en_ring ?e) (en_prior ?e) (sm_ts s) (ttl_of cfg)) \<noteq> 0"
    proof (rule live_scoreable_nonzero [of "last ss"])
      show "last ss \<in> set (en_ring ?e)"
        using IH(3,4) by (metis last_in_set)
      show "is_scoreable (sm_class (last ss))"
        using snoc.prems(1) False by (simp add: list_all_iff is_scoreable_def)
      show "is_live (sm_ts (last ss)) (sm_ts s) (ttl_of cfg)"
        using le cap by (simp add: is_live_def)
    qed (rule IH(5))
    then show ?thesis
      using failure_step [OF k _ assms(7), of ?e] IH snoc.prems(5) bound by simp
  qed
qed simp

text \<open>
  A dead target is demoted before the sample gate: \<open>fast_demote_streak\<close> target failures in a
  row within the window's life demote it, however few samples there are.
\<close>

theorem failure_streak_demotes:
  assumes "list_all (\<lambda>s. sm_class s = OcTargetFailure) ss" and "ss \<noteq> []"
    and "sorted (map sm_ts ss)" and "sm_ts (last ss) \<le> sm_ts (hd ss) + ttl_of cfg"
    and "unat (dem_fast_demote_streak (sc_demotion cfg)) \<le> length ss"
    and "unat (en_consecutive_failures e) + length ss < 2 ^ 32"
    and "max (win_max_samples (sc_window cfg)) 1 < 2 ^ 32" and "0 < dem_fast_recover_streak (sc_demotion cfg)"
  shows "en_tier (fold (record_entry cfg) ss e) = TierDemoted"
  using failure_streak [OF assms(1-4,6,7,8)] assms(5) by (simp add: word_le_nat_alt)

text \<open>
  Every signal the router reads carries a health between 0 and 1 (it is never NaN), and the
  number of samples it reports is the number of live scoreable samples, not of all samples.
\<close>

theorem projected_health_unit:
  assumes "length (en_ring e) < 2 ^ 32"
  shows "pred_option (\<lambda>o'. in_unit (os_health_factor o')
      \<and> unat (os_samples o') = count_scoreable (live_samples (en_ring e) now (ttl_of cfg)))
    (fst (project_entry cfg now e))"
proof -
  let ?st = "window_stats (en_ring e) (en_prior e) now (ttl_of cfg)"
  have "is_finite (ws_health_factor ?st) \<Longrightarrow> in_unit (ws_health_factor ?st)"
    using window_health_unit [of "en_ring e" "en_prior e" now "ttl_of cfg"]
    by (auto simp: unit_or_nan_def is_nan_def)
  then show ?thesis
    using unat_n_scoreable [OF assms, of "en_prior e" now "ttl_of cfg"]
    by (simp add: project_entry_def Let_def)
qed

section \<open>Worked examples\<close>

definition sample_at :: "instant \<Rightarrow> outcome_class \<Rightarrow> sample" where
  "sample_at t k = \<lparr>sm_ts = t, sm_class = k, sm_latency_ms = 40, sm_cost_micros = None, sm_err = None\<rparr>"

definition seed :: prior where
  "seed = \<lparr>pr_success_rate = FFin 1, pr_weight = FFin 1\<rparr>"

text \<open>The default configuration, tightened to demote on the first failure.\<close>

definition eager :: scorecard_config where
  "eager = default_scorecard_config
     \<lparr>sc_demotion := (sc_demotion default_scorecard_config)\<lparr>dem_fast_demote_streak := 1\<rparr>\<rparr>"

lemma eager_fields:
  "sc_enabled eager" "win_max_samples (sc_window eager) = 200" "ttl_of eager = 86400000"
  "dem_fast_demote_streak (sc_demotion eager) = 1" "dem_fast_recover_streak (sc_demotion eager) = 3"
  by (simp_all add: eager_def default_scorecard_config_def ttl_of_def duration_secs_def)

lemma sample_at_fields: "sm_ts (sample_at t k) = t" "sm_class (sample_at t k) = k"
  by (simp_all add: sample_at_def)

lemma new_entry_fields:
  "en_ring (new_entry p) = []" "en_tier (new_entry p) = TierHealthy" "\<not> en_hydrated (new_entry p)"
  "en_consecutive_failures (new_entry p) = 0" "en_consecutive_successes (new_entry p) = 0"
  by (simp_all add: new_entry_def)

lemmas example_fields = eager_fields sample_at_fields new_entry_fields

lemma demoted_once: "en_tier (record_entry eager (sample_at 5 OcTargetFailure) (new_entry seed)) = TierDemoted"
  using failure_streak [of "[sample_at 5 OcTargetFailure]" eager "new_entry seed"]
  by (simp add: example_fields word_le_nat_alt)

definition one_failure :: scorecard where
  "one_failure = sc_record ''t'' ''any'' seed eager (sample_at 5 OcTargetFailure) new_scorecard"

lemma one_failure_get:
  "get_entry one_failure ''t'' ''any'' = Some (record_entry eager (sample_at 5 OcTargetFailure) (new_entry seed))"
  by (simp add: one_failure_def sc_record_def get_or_create_def new_scorecard_def put_entry_def get_entry_def
      eager_fields update_conv')

lemma one_failure_reachable: "sc_reachable {(eager, qcfg)} one_failure"
proof -
  have "sc_reachable {(eager, qcfg)} new_scorecard"
    using sc_boot [of eager qcfg "{(eager, qcfg)}" "[]" 0 0] by (simp add: sc_hydrate_def)
  then show ?thesis
    unfolding one_failure_def by (rule sc_next) (rule insertI1, rule sc_step_record)
qed


theorem only_target_faults_demote_witness:
  "en_tier (record_entry eager (sample_at 5 OcTargetFailure) (new_entry seed)) = TierDemoted
   \<and> classify (AttemptFailed Timeout) = OcTargetFailure"
  using only_target_faults_demote [of "sample_at 5 OcTargetFailure" "AttemptFailed Timeout" "new_entry seed" eager]
  by (simp add: demoted_once example_fields)

theorem neutral_only_invisible_witness:
  "fst (sc_project ''t'' ''any'' eager 9
     [((''t'', ''any''), (new_entry seed)\<lparr>en_ring := [sample_at 5 OcRefusal]\<rparr>)]) = None"
  by (rule neutral_only_invisible [of "(new_entry seed)\<lparr>en_ring := [sample_at 5 OcRefusal]\<rparr>"])
    (simp_all add: example_fields is_scoreable_def get_entry_def)

theorem demotion_lapses_witness:
  "en_tier (snd (project_entry eager 90000000 (record_entry eager (sample_at 5 OcTargetFailure) (new_entry seed)))) =
     TierHealthy"
proof -
  have "count_scoreable (live_samples (en_ring (record_entry eager (sample_at 5 OcTargetFailure) (new_entry seed)))
      90000000 (ttl_of eager)) = 0"
    by (simp add: record_entry_def Let_def entry_fields example_fields live_samples_def is_live_def count_scoreable_def)
  from demotion_lapses [OF this one_failure_get eager_fields(1)] show ?thesis
    by (simp add: split_beta)
qed

theorem success_streak_recovers_witness:
  "en_tier (fold (record_entry eager) [sample_at 6 OcSuccess, sample_at 7 OcSuccess, sample_at 8 OcSuccess]
     ((new_entry seed)\<lparr>en_tier := TierDemoted\<rparr>)) = TierHealthy"
  by (rule success_streak_recovers) (simp_all add: example_fields)

theorem failure_streak_demotes_witness:
  "en_tier (fold (record_entry eager) [sample_at 6 OcTargetFailure, sample_at 7 OcTargetFailure] (new_entry seed)) =
     TierDemoted"
  by (rule failure_streak_demotes) (simp_all add: example_fields)

theorem projected_health_unit_witness:
  "pred_option (\<lambda>o'. in_unit (os_health_factor o'))
     (fst (project_entry eager 9 ((new_entry seed)\<lparr>en_ring := [sample_at 5 OcSuccess]\<rparr>)))"
  using projected_health_unit [of "(new_entry seed)\<lparr>en_ring := [sample_at 5 OcSuccess]\<rparr>" 9 eager]
  by (auto simp: example_fields elim: option.pred_mono_strong)

end
