(* ===== verification/Scorecard_Replay.thy ===== *)
theory Scorecard_Replay
  imports Scorecard_Facts
begin

text \<open>
  Recovery of the scorecard: replaying the judgment log is idempotent, the rows a snapshot
  writes are accepted by the next startup, and a failed flush loses nothing. The keyed folds
  both rest on are treated once, for association lists in general.
\<close>

section \<open>Keyed folds\<close>

definition keyed_fold ::
  "('s \<Rightarrow> 'e \<Rightarrow> 'e) \<Rightarrow> 'e \<Rightarrow> ('k \<times> 's) list \<Rightarrow> ('k \<times> 'e) list \<Rightarrow> ('k \<times> 'e) list" where
  "keyed_fold g d ps m =
     fold (\<lambda>(k, s) m. AList.update k (g s (case map_of m k of Some e \<Rightarrow> e | None \<Rightarrow> d)) m) ps m"

lemma keyed_fold_Cons:
  "keyed_fold g d ((k, s) # ps) m =
     keyed_fold g d ps (AList.update k (g s (case map_of m k of Some e \<Rightarrow> e | None \<Rightarrow> d)) m)"
  by (simp add: keyed_fold_def)

lemma keyed_fold_keys:
  "set (map fst (keyed_fold g d ps m)) = set (map fst m) \<union> fst ` set ps"
  "fst ` set ps \<subseteq> set (map fst m) \<Longrightarrow> map fst (keyed_fold g d ps m) = map fst m"
  "distinct (map fst m) \<Longrightarrow> distinct (map fst (keyed_fold g d ps m))"
proof (induction ps arbitrary: m)
  case (Cons p ps)
  obtain k s where p: "p = (k, s)" by (cases p)
  {
    case 1
    show ?case using Cons.IH(1) by (simp add: p keyed_fold_Cons dom_update)
  next
    case 2
    then have keys: "map fst (AList.update k v m) = map fst m" for v
      by (simp add: p update_keys)
    have sub: "fst ` set ps \<subseteq> set (map fst (AList.update k v m))" for v
      unfolding keys using 2 by (simp add: p)
    show ?case unfolding p keyed_fold_Cons Cons.IH(2) [OF sub] by (rule keys)
  next
    case 3
    then show ?case using Cons.IH(3) by (simp add: p keyed_fold_Cons distinct_update)
  }
qed (simp_all add: keyed_fold_def)

lemma keyed_fold_get:
  "map_of (keyed_fold g d ps m) k =
     (if k \<in> fst ` set ps
      then Some (fold g (map snd (filter (\<lambda>p. fst p = k) ps)) (case map_of m k of Some e \<Rightarrow> e | None \<Rightarrow> d))
      else map_of m k)"
proof (induction ps arbitrary: m)
  case (Cons p ps)
  obtain k' s where p: "p = (k', s)" by (cases p)
  have none: "filter (\<lambda>p. fst p = k) ps = []" if "k \<notin> fst ` set ps"
    using that by (force simp: filter_empty_conv)
  show ?case
    unfolding p keyed_fold_Cons Cons.IH by (auto simp: update_conv' none)
qed (simp add: keyed_fold_def)

lemma alist_eqI:
  assumes "map fst xs = map fst ys" and "distinct (map fst xs)" and "map_of xs = map_of ys"
  shows "xs = ys"
  using assms
proof (induction xs arbitrary: ys)
  case (Cons x xs)
  then obtain y ys' where ys: "ys = y # ys'" and fst: "fst y = fst x" and keys: "map fst xs = map fst ys'"
    by (cases ys) auto
  obtain k v where x: "x = (k, v)" by (cases x)
  obtain w where y: "y = (k, w)" using fst x by (cases y) auto
  have "v = w"
    using fun_cong [OF Cons.prems(3), of k] by (simp add: x y ys)
  have k: "map_of xs k = None" "map_of ys' k = None"
    using Cons.prems(2) keys x by (simp_all add: map_of_eq_None_iff) (metis list.set_map)
  have "map_of xs = map_of ys'"
  proof
    fix j
    show "map_of xs j = map_of ys' j"
      using fun_cong [OF Cons.prems(3), of j] k by (cases "j = k") (simp_all add: x y ys)
  qed
  with Cons keys \<open>v = w\<close> show ?case by (simp add: x y ys)
qed simp

section \<open>Replay\<close>

definition touch_quality :: "string \<Rightarrow> usize \<Rightarrow> quality_sample \<Rightarrow> entry \<Rightarrow> entry" where
  "touch_quality ev mx s e =
     (push_quality s mx (if en_quality_evaluator_id e \<noteq> Some ev
        then e\<lparr>en_quality_ring := [], en_quality_evaluator_id := Some ev\<rparr> else e))\<lparr>en_dirty := True\<rparr>"

definition push_ring :: "usize \<Rightarrow> quality_sample \<Rightarrow> quality_sample list \<Rightarrow> quality_sample list" where
  "push_ring mx s ring =
     (let r = sort_by quality_cmp (replace_or_append s ring) in drop (length r - max mx 1) r)"

lemma push_quality_ring: "push_quality s mx e = e\<lparr>en_quality_ring := push_ring mx s (en_quality_ring e)\<rparr>"
  by (simp add: push_quality_def push_ring_def Let_def)

lemma touch_quality_eq:
  "touch_quality ev mx s e = e\<lparr>en_quality_ring :=
       push_ring mx s (if en_quality_evaluator_id e = Some ev then en_quality_ring e else []),
     en_quality_evaluator_id := Some ev, en_dirty := True\<rparr>"
  by (cases e) (simp add: touch_quality_def push_quality_ring)

lemma touches_eq:
  "qs \<noteq> [] \<Longrightarrow> fold (touch_quality ev mx) qs e = e\<lparr>en_quality_ring :=
       fold (push_ring mx) qs (if en_quality_evaluator_id e = Some ev then en_quality_ring e else []),
     en_quality_evaluator_id := Some ev, en_dirty := True\<rparr>"
proof (induction qs rule: rev_induct)
  case (snoc q qs)
  show ?case
  proof (cases "qs = []")
    case True
    then show ?thesis by (simp add: touch_quality_eq)
  next
    case False
    then show ?thesis using snoc.IH by (simp add: touch_quality_eq)
  qed
qed simp

text \<open>The judgment a row of the log contributes, if any.\<close>

definition replayed ::
  "string \<Rightarrow> scorecard_config \<Rightarrow> instant \<Rightarrow> i64 \<Rightarrow> quality_judgment_record \<Rightarrow> (score_key \<times> quality_sample) option"
  where
  "replayed ev cfg now epoch row =
     (if qj_status row \<noteq> ''scored'' \<or> qj_evaluator_id row \<noteq> ev
         \<or> qj_created_at_ms row < sat_i64 (epoch - sat_i64 (u64_as_i64 (win_ttl_secs (sc_window cfg)) * 1000))
      then None
      else Option.bind (qj_score_norm row) (\<lambda>score.
        if trim_is_empty (qj_judgment_id row) \<or> qj_created_at_ms row < 0 \<or> \<not> score_in_range score then None
        else let age = nat (max (sat_i64 (epoch - qj_created_at_ms row)) 0)
             in Some ((qj_served_target_id row, qj_class row),
                \<lparr>qsm_judgment_id = qj_judgment_id row, qsm_ts = (if age \<le> now then now - age else now),
                 qsm_created_at_ms = qj_created_at_ms row, qsm_score_norm = score\<rparr>)))"

lemma record_quality_update:
  assumes "sc_enabled cfg" and "qe_enabled qcfg" and "\<not> trim_is_empty ev"
    and "\<not> trim_is_empty (qsm_judgment_id s)" and "\<not> qsm_created_at_ms s < 0" and "score_in_range (qsm_score_norm s)"
  shows "sc_record_quality t k ev cfg qcfg s sc =
    AList.update (t, k) (touch_quality ev (cfg_max cfg) s
      (case map_of sc (t, k) of Some e \<Rightarrow> e | None \<Rightarrow> new_entry (prior_from_config cfg))) sc"
  using assms
  by (simp add: sc_record_quality_def get_or_create_def put_entry_def touch_quality_def Let_def split: option.splits)

lemma replay_row_eq:
  assumes "sc_enabled cfg" and "qe_enabled qcfg" and "\<not> trim_is_empty ev"
  shows "replay_row ev cfg qcfg now epoch row sc =
    (case replayed ev cfg now epoch row of
       None \<Rightarrow> sc
     | Some p \<Rightarrow> keyed_fold (touch_quality ev (cfg_max cfg)) (new_entry (prior_from_config cfg)) [p] sc)"
proof -
  have skip: "sc_record_quality t k ev cfg qcfg s sc = sc"
    if "trim_is_empty (qsm_judgment_id s) \<or> qsm_created_at_ms s < 0 \<or> \<not> score_in_range (qsm_score_norm s)" for t k s
    using that by (auto simp: sc_record_quality_def)
  show ?thesis
    by (auto simp: replay_row_def replayed_def Let_def keyed_fold_def skip record_quality_update [OF assms]
        split: option.splits)
qed

lemma replay_rows_eq:
  assumes "sc_enabled cfg" and "qe_enabled qcfg" and "\<not> trim_is_empty ev"
  shows "fold (replay_row ev cfg qcfg now epoch) rows sc =
    keyed_fold (touch_quality ev (cfg_max cfg)) (new_entry (prior_from_config cfg))
      (List.map_filter (replayed ev cfg now epoch) rows) sc"
proof (induction rows arbitrary: sc)
  case Nil
  show ?case by (simp add: keyed_fold_def List.map_filter_simps)
next
  case (Cons row rows)
  show ?case
  proof (cases "replayed ev cfg now epoch row")
    case None
    then have "replay_row ev cfg qcfg now epoch row sc = sc"
      by (simp add: replay_row_eq [OF assms])
    with None show ?thesis by (simp add: Cons.IH List.map_filter_simps)
  next
    case (Some p)
    then have "replay_row ev cfg qcfg now epoch row sc =
        keyed_fold (touch_quality ev (cfg_max cfg)) (new_entry (prior_from_config cfg)) [p] sc"
      by (simp add: replay_row_eq [OF assms])
    with Some show ?thesis by (simp add: Cons.IH List.map_filter_simps keyed_fold_def)
  qed
qed

lemma clear_quality_idem: "clear_quality ev (clear_quality ev e) = clear_quality ev e"
  by (simp add: clear_quality_def)

lemma clear_quality_touched:
  "en_quality_evaluator_id e = Some ev \<Longrightarrow> en_dirty e \<Longrightarrow> clear_quality ev e = e\<lparr>en_quality_ring := []\<rparr>"
  by (cases e) (auto simp: clear_quality_def)

text \<open>Touching a cleared (or fresh) entry, clearing it and touching it again gives the same entry.\<close>

lemma retouch:
  assumes "qs \<noteq> []" and "en_quality_evaluator_id e = Some ev \<Longrightarrow> en_quality_ring e = []"
  shows "fold (touch_quality ev mx) qs (clear_quality ev (fold (touch_quality ev mx) qs e)) =
    fold (touch_quality ev mx) qs e"
  using assms by (simp add: touches_eq clear_quality_touched)

lemma keyed_replay_idem:
  fixes ev mx d ps
  defines "replay \<equiv> \<lambda>sc. keyed_fold (touch_quality ev mx) d ps (map (\<lambda>(k, e). (k, clear_quality ev e)) sc)"
  assumes "distinct (map fst sc)" and "en_quality_evaluator_id d = None"
  shows "replay (replay sc) = replay sc"
proof -
  let ?c = "\<lambda>sc. map (\<lambda>(k, e). (k, clear_quality ev e)) sc"
  have keys: "map fst (?c m) = map fst m" for m :: "('a \<times> entry) list"
    by (simp add: comp_def split_beta')
  have sub: "fst ` set ps \<subseteq> set (map fst (?c (replay sc)))"
    unfolding keys unfolding replay_def keyed_fold_keys(1) by blast
  show ?thesis
  proof (rule alist_eqI)
    show "map fst (replay (replay sc)) = map fst (replay sc)"
      using keyed_fold_keys(2) [OF sub] keys by (simp add: replay_def)
    show "distinct (map fst (replay (replay sc)))"
      unfolding replay_def by (intro keyed_fold_keys(3)) (simp only: keys keyed_fold_keys(3) assms(2))
    show "map_of (replay (replay sc)) = map_of (replay sc)"
    proof
      fix k
      let ?qs = "map snd (filter (\<lambda>p. fst p = k) ps)"
      let ?e = "\<lambda>sc. case map_of (?c sc) k of Some e \<Rightarrow> e | None \<Rightarrow> d"
      have get: "map_of (replay sc) k =
          (if k \<in> fst ` set ps then Some (fold (touch_quality ev mx) ?qs (?e sc)) else map_of (?c sc) k)" for sc
        unfolding replay_def keyed_fold_get ..
      show "map_of (replay (replay sc)) k = map_of (replay sc) k"
      proof (cases "k \<in> fst ` set ps")
        case True
        then have qs: "?qs \<noteq> []"
          by (auto simp: filter_empty_conv)
        have fresh: "en_quality_ring (?e sc) = []" if "en_quality_evaluator_id (?e sc) = Some ev"
          using that assms(3) by (auto simp: map_of_map_entries clear_quality_def split: option.splits if_splits)
        show ?thesis
          using True retouch [OF qs fresh] by (simp add: get map_of_map_entries)
      next
        case False
        then show ?thesis
          by (simp add: get map_of_map_entries option.map_comp comp_def clear_quality_idem)
      qed
    qed
  qed
qed

text \<open>
  Replaying the judgment log at startup is idempotent: recovering twice gives the same
  scorecard as recovering once, so no judgment is counted double.
\<close>

theorem replay_quality_idempotent:
  assumes "sc_reachable cfgs sc"
  shows "sc_replay_quality rows ev cfg qcfg now epoch (sc_replay_quality rows ev cfg qcfg now epoch sc) =
    sc_replay_quality rows ev cfg qcfg now epoch sc"
proof (cases "sc_enabled cfg \<and> qe_enabled qcfg \<and> \<not> trim_is_empty ev")
  case True
  have "distinct (map fst sc)"
    using sc_reachable_bounded [OF assms] by (auto simp: entries_ok_def)
  then show ?thesis
    using True keyed_replay_idem [of sc "new_entry (prior_from_config cfg)" ev "cfg_max cfg"]
    by (simp add: sc_replay_quality_def replay_rows_eq new_entry_def)
next
  case False
  then show ?thesis by (auto simp: sc_replay_quality_def)
qed

section \<open>Persistence\<close>

lemma nat_as_f64_range:
  assumes "1 \<le> n" and "n \<le> m" and "m \<le> 2 ^ 32"
  shows "flt_le (FFin 1) (nat_as_f64 n)" and "flt_le (nat_as_f64 n) (nat_as_f64 m)"
    and "\<exists>q. nat_as_f64 m = FFin q \<and> 1 \<le> q"
proof -
  have "round_f64 4294967296 = FFin 4294967296"
    by code_simp
  then have top: "nat_as_f64 (2 ^ 32) = FFin 4294967296"
    by (simp add: nat_as_f64_def)
  have mono: "flt_le (nat_as_f64 i) (nat_as_f64 j)" if "i \<le> j" for i j
    using that by (simp add: nat_as_f64_def round_f64_mono)
  show "flt_le (FFin 1) (nat_as_f64 n)" and "flt_le (nat_as_f64 n) (nat_as_f64 m)"
    using mono [OF assms(1)] mono [OF assms(2)] by (simp_all add: nat_as_f64_def round_units)
  have "flt_le (FFin 1) (nat_as_f64 m)"
    using mono [of 1 m] assms by (simp add: nat_as_f64_def round_units)
  then show "\<exists>q. nat_as_f64 m = FFin q \<and> 1 \<le> q"
    using mono [OF assms(3)] unfolding top by (cases "nat_as_f64 m") (auto simp: flt_le_def flt_eq_def is_nan_def)
qed

lemma ratio_in_unit:
  assumes "i \<le> n" and "1 \<le> n" and "n \<le> 2 ^ 32"
  shows "in_unit (f64_div (nat_as_f64 i) (nat_as_f64 n))"
proof -
  have "unit_or_nan (f64_div (nat_as_f64 i) (nat_as_f64 n))"
    unfolding nat_as_f64_def using assms by (intro ratio_unit) simp_all
  moreover obtain q where "nat_as_f64 n = FFin q" "1 \<le> q"
    using nat_as_f64_range(3) [of n n] assms by auto
  moreover obtain r where "nat_as_f64 i = FFin r"
  proof (cases "i = 0")
    case True
    then show ?thesis by (intro that [of 0]) (simp add: nat_as_f64_def round_units)
  next
    case False
    then show ?thesis using nat_as_f64_range(3) [of i i] assms that by auto
  qed
  moreover have "\<not> is_nan (round_f64 x)" for x
    by (simp add: round_f64_def round_flt_alt is_nan_def)
  ultimately show ?thesis
    by (auto simp: f64_div_def unit_or_nan_def)
qed

text \<open>
  Whatever a persisted row contains, a prior is taken from it only if the row is internally
  consistent, and then it is sane: its success rate is a number between 0 and 1 and its weight
  lies between 1 and 50, so that the posterior never divides zero by zero.
\<close>

theorem hydrated_prior_sane:
  assumes "hydrate_row row cfg epoch = Some (p, tier)"
  shows "in_unit (pr_success_rate p) \<and> flt_le (FFin 1) (pr_weight p) \<and> flt_le (pr_weight p) (nat_as_f64 50)
    \<and> unat (row_success_count row) + unat (row_truncated_count row) + unat (row_target_fail_count row)
        = unat (row_scoreable_samples row)"
proof -
  obtain s1 where s1: "checked_add (row_success_count row) (row_truncated_count row) = Some s1"
      "checked_add s1 (row_target_fail_count row) = Some (row_scoreable_samples row)"
      "row_scoreable_samples row \<noteq> 0"
      "pr_success_rate p = f64_div (nat_as_f64 (unat (row_success_count row))) (nat_as_f64 (unat (row_scoreable_samples row)))"
      "pr_weight p = nat_as_f64 (unat (min (row_scoreable_samples row) 50))"
    using assms by (auto simp: hydrate_row_def bind_eq_Some_conv Let_def split: if_splits)
  let ?n = "unat (row_scoreable_samples row)"
  have sum: "unat (row_success_count row) + unat (row_truncated_count row) + unat (row_target_fail_count row) = ?n"
    using checked_add_Some [OF s1(1)] checked_add_Some [OF s1(2)] by simp
  have n: "1 \<le> ?n" "?n \<le> 2 ^ 32"
    using s1(3) unsigned_less [of "row_scoreable_samples row", where 'a = nat]
    by (simp_all add: unat_gt_0 Suc_le_eq)
  have w: "unat (min (row_scoreable_samples row) 50) = min ?n 50"
    by (simp add: min_def word_le_nat_alt)
  have "flt_le (FFin 1) (nat_as_f64 (min ?n 50))" "flt_le (nat_as_f64 (min ?n 50)) (nat_as_f64 50)"
    using nat_as_f64_range(1,2) [of "min ?n 50" 50] n by simp_all
  then show ?thesis
    using ratio_in_unit [of "unat (row_success_count row)" ?n] sum n s1(4,5) w by simp
qed

lemma checked_add_of_nat:
  "a + b < 2 ^ 32 \<Longrightarrow> checked_add (word_of_nat a :: u32) (word_of_nat b) = Some (word_of_nat (a + b))"
  by (simp add: checked_add_def unat_word_of_nat)

lemma snapshot_row_fields:
  fixes to_json cfg qcfg now epoch key e
  defines "row \<equiv> fst (snapshot_row to_json cfg qcfg now epoch key e)"
    and "live \<equiv> live_samples (en_ring e) now (ttl_of cfg)"
  shows "row_success_count row = word_of_nat (count_class OcSuccess live)"
    "row_truncated_count row = word_of_nat (count_class OcTruncated live)"
    "row_target_fail_count row = word_of_nat (count_class OcTargetFailure live)"
    "row_scoreable_samples row = word_of_nat (count_scoreable live)"
    "row_tier row = (case en_tier e of TierHealthy \<Rightarrow> 0 | TierDemoted \<Rightarrow> 1)"
    "row_updated_at_ms row = epoch"
  by (simp_all add: row_def live_def snapshot_row_def Let_def window_stats_counts)

text \<open>
  What the flusher writes, the next startup accepts: the row of an entry with live evidence
  hydrates to the tier the entry had and to the success rate and (capped) weight of its window,
  as long as it is not stale.
\<close>

theorem snapshot_hydrates:
  assumes "length (en_ring e) < 2 ^ 32"
    and "0 < count_scoreable (live_samples (en_ring e) now (ttl_of cfg))"
    and "sat_i64 (epoch' - epoch) \<le> sat_i64 (u64_as_i64 (persist_stale_hydrate_secs (sc_persist cfg')) * 1000)"
  shows "let live = live_samples (en_ring e) now (ttl_of cfg)
    in hydrate_row (fst (snapshot_row to_json cfg qcfg now epoch key e)) cfg' epoch' =
      Some (\<lparr>pr_success_rate = f64_div (nat_as_f64 (count_class OcSuccess live)) (nat_as_f64 (count_scoreable live)),
             pr_weight = nat_as_f64 (min (count_scoreable live) 50)\<rparr>, en_tier e)"
proof -
  let ?live = "live_samples (en_ring e) now (ttl_of cfg)"
  let ?n = "count_scoreable ?live"
  have n: "?n < 2 ^ 32"
    using count_scoreable_le [of "en_ring e" now "ttl_of cfg"] assms(1) by linarith
  note parts = count_classes [of ?live]
  have sum: "checked_add (word_of_nat (count_class OcSuccess ?live) :: u32) (word_of_nat (count_class OcTruncated ?live)) =
        Some (word_of_nat (count_class OcSuccess ?live + count_class OcTruncated ?live))"
      "checked_add (word_of_nat (count_class OcSuccess ?live + count_class OcTruncated ?live) :: u32)
        (word_of_nat (count_class OcTargetFailure ?live)) = Some (word_of_nat ?n)"
    using parts n checked_add_of_nat by (simp_all del: of_nat_add)
  have u: "unat (word_of_nat (count_class OcSuccess ?live) :: u32) = count_class OcSuccess ?live"
      "unat (word_of_nat ?n :: u32) = ?n"
    using parts n by (simp_all add: unat_word_of_nat)
  have nz: "(word_of_nat ?n :: u32) \<noteq> 0"
    using u(2) assms(2) by (metis less_irrefl unsigned_0)
  have mn: "unat (min (word_of_nat ?n :: u32) 50) = min ?n 50"
    using u(2) by (simp add: min_def word_le_nat_alt)
  show ?thesis
    using assms(3) unfolding hydrate_row_def snapshot_row_fields Let_def sum Option.bind.simps
    by (cases "en_tier e") (simp_all add: nz mn u)
qed

text \<open>Which keys the next flush will write.\<close>

definition dirty_key :: "scorecard \<Rightarrow> score_key \<Rightarrow> bool" where
  "dirty_key sc k = (case map_of sc k of Some e \<Rightarrow> en_dirty e | None \<Rightarrow> False)"

lemma mark_dirty_get:
  "map_of (mark_dirty keys sc) k =
     (if k \<in> set keys then map_option (\<lambda>e. e\<lparr>en_dirty := True\<rparr>) (map_of sc k) else map_of sc k)"
proof (induction keys arbitrary: sc)
  case (Cons key keys)
  let ?sc = "case map_of sc key of Some e \<Rightarrow> AList.update key (e\<lparr>en_dirty := True\<rparr>) sc | None \<Rightarrow> sc"
  have "mark_dirty (key # keys) sc = mark_dirty keys ?sc"
    by (simp add: mark_dirty_def)
  then show ?case
    using Cons.IH [of ?sc] by (auto simp: update_conv' split: option.splits)
qed (simp add: mark_dirty_def)

lemma snapshot_keys:
  "map (\<lambda>r. (row_target_id r, row_class r)) (fst (dirty_snapshot_inner to_json cfg qcfg now epoch sc)) =
     map fst (filter (en_dirty \<circ> snd) sc)"
  by (induction sc) (auto simp: split_beta Let_def snapshot_row_def)

lemma snapshot_clean: "\<not> en_dirty (snd (snapshot_row to_json cfg qcfg now epoch key e))"
  by (simp add: snapshot_row_def Let_def)

text \<open>
  A flush writes one row for every dirty key and leaves none dirty; when the write fails,
  marking the written keys again makes exactly the same keys dirty, so that nothing is lost and
  nothing else is written.
\<close>

theorem failed_flush_retries:
  assumes "sc_reachable cfgs sc"
  shows "case dirty_snapshot_inner to_json cfg qcfg now epoch sc of (rows, sc') \<Rightarrow>
      set (map (\<lambda>r. (row_target_id r, row_class r)) rows) = {k. dirty_key sc k}
      \<and> distinct (map (\<lambda>r. (row_target_id r, row_class r)) rows)
      \<and> dirty_key sc' = (\<lambda>_. False)
      \<and> dirty_key (mark_dirty (map (\<lambda>r. (row_target_id r, row_class r)) rows) sc') = dirty_key sc"
proof -
  let ?out = "dirty_snapshot_inner to_json cfg qcfg now epoch sc"
  let ?keys = "map (\<lambda>r. (row_target_id r, row_class r)) (fst ?out)"
  have dist: "distinct (map fst sc)"
    using sc_reachable_bounded [OF assms] by (auto simp: entries_ok_def)
  have "dirty_key sc k \<longleftrightarrow> (\<exists>e. (k, e) \<in> set sc \<and> en_dirty e)" for k
    unfolding dirty_key_def map_of_eq_Some_iff [OF dist, symmetric] by (auto split: option.splits)
  then have keys: "set ?keys = {k. dirty_key sc k}"
    unfolding snapshot_keys by force
  have "distinct ?keys"
    unfolding snapshot_keys using dist by (rule distinct_map_filter)
  moreover have clean: "dirty_key (snd ?out) = (\<lambda>_. False)"
    unfolding snapshot_map dirty_key_def map_of_map_entries
    by (auto simp: fun_eq_iff snapshot_clean split: option.splits)
  moreover have "dirty_key (mark_dirty ?keys (snd ?out)) = dirty_key sc"
  proof
    fix k
    show "dirty_key (mark_dirty ?keys (snd ?out)) k = dirty_key sc k"
      using keys fun_cong [OF clean, of k] unfolding dirty_key_def mark_dirty_get snapshot_map map_of_map_entries
      by (auto split: option.splits)
  qed
  ultimately show ?thesis
    using keys by (simp add: split_beta)
qed

section \<open>Worked examples\<close>

definition judged_row :: quality_judgment_record where
  "judged_row = \<lparr>qj_judgment_id = ''j1'', qj_served_target_id = ''t'', qj_class = ''any'', qj_evaluator_id = ''e'',
     qj_status = ''scored'', qj_score_norm = Some (FFin 1), qj_created_at_ms = 1000\<rparr>"

theorem replay_quality_idempotent_witness:
  "let qcfg = default_quality_eval_config\<lparr>qe_enabled := True\<rparr>;
       sc = sc_replay_quality [judged_row] ''e'' eager qcfg 5000 2000 one_failure
   in sc_replay_quality [judged_row] ''e'' eager qcfg 5000 2000 sc = sc"
  unfolding Let_def by (rule replay_quality_idempotent [OF one_failure_reachable])

definition good_entry :: entry where
  "good_entry = (new_entry seed)\<lparr>en_ring := [sample_at 5 OcSuccess]\<rparr>"

lemma good_entry_fields:
  "length (en_ring good_entry) = 1" "en_tier good_entry = TierHealthy"
  "live_samples (en_ring good_entry) 9 (ttl_of eager) = [sample_at 5 OcSuccess]"
  "count_scoreable [sample_at 5 OcSuccess] = 1" "count_class OcSuccess [sample_at 5 OcSuccess] = 1"
  "count_class OcTruncated [sample_at 5 OcSuccess] = 0" "count_class OcTargetFailure [sample_at 5 OcSuccess] = 0"
  by (simp_all add: good_entry_def live_samples_def is_live_def example_fields count_scoreable_def count_class_def
      is_scoreable_def)

lemma fresh_row:
  "sat_i64 (3000 - 2000) \<le> sat_i64 (u64_as_i64 (persist_stale_hydrate_secs (sc_persist eager)) * 1000)"
  by (simp add: sat_i64_def i64_min_def i64_max_def u64_as_i64_def eager_def default_scorecard_config_def)

definition persisted :: scorecard_row where
  "persisted = fst (snapshot_row (\<lambda>_. ''{}'') eager default_quality_eval_config 9 2000 (''t'', ''any'') good_entry)"

theorem snapshot_hydrates_witness:
  "hydrate_row persisted eager 3000 =
     Some (\<lparr>pr_success_rate = f64_div (nat_as_f64 1) (nat_as_f64 1), pr_weight = nat_as_f64 1\<rparr>, TierHealthy)"
  using snapshot_hydrates [of good_entry 9 eager 3000 2000 eager
      "\<lambda>_. ''{}''" default_quality_eval_config "(''t'', ''any'')", OF _ _ fresh_row]
  by (simp add: good_entry_fields persisted_def)

lemma persisted_accepted: "hydrate_row persisted eager 3000 \<noteq> None"
  using fresh_row unfolding persisted_def hydrate_row_def snapshot_row_fields good_entry_fields
  by (simp add: checked_add_def Let_def)

theorem hydrated_prior_sane_witness:
  "\<exists>p tier. hydrate_row persisted eager 3000 = Some (p, tier) \<and> in_unit (pr_success_rate p)"
proof -
  obtain p tier where h: "hydrate_row persisted eager 3000 = Some (p, tier)"
    using persisted_accepted by auto
  with hydrated_prior_sane [OF h] show ?thesis by blast
qed

theorem failed_flush_retries_witness:
  "case dirty_snapshot_inner (\<lambda>_. ''{}'') eager default_quality_eval_config 9 2000 one_failure of (rows, sc') \<Rightarrow>
     dirty_key (mark_dirty (map (\<lambda>r. (row_target_id r, row_class r)) rows) sc') (''t'', ''any'')"
proof -
  have "dirty_key one_failure (''t'', ''any'')"
    using one_failure_get by (simp add: dirty_key_def get_entry_def record_entry_def Let_def)
  then show ?thesis
    using failed_flush_retries [OF one_failure_reachable [of default_quality_eval_config], of "\<lambda>_. ''{}''" eager default_quality_eval_config 9 2000]
    by (simp add: split_beta)
qed

end
