(* ===== verification/Stream_Events.thy ===== *)
theory Stream_Events
  imports Canonical_IR
begin

text \<open>
  The normalized event stream: the event and response types of \<open>sb-core/src/ir.rs\<close>, the
  adapter error and \<open>response_to_events\<close> of \<open>sb-adapter\<close>, and what the runtime does with a
  stream (\<open>sb-runtime/src/collect.rs\<close> and \<open>stream.rs\<close>): collecting it into one response,
  peeking its first event before it is committed, and metering it while the client drains it.
  A stream that ends is the list of the items it yields. The JSON functions of \<open>serde_json\<close>
  are the fields of \<open>json_api\<close>.
\<close>

section \<open>Events, responses and errors\<close>

record energy_usage =
  eu_energy_joules :: "f64 option"
  eu_energy_kwh :: "f64 option"
  eu_duration_seconds :: "f64 option"
  eu_measurement_available :: "bool option"
  eu_attribution_method :: "string option"
  eu_energy_kwh_consumed :: "f64 option"
  eu_energy_kwh_charged :: "f64 option"
  eu_accounting_method :: "string option"
  eu_total_cost_usd :: "f64 option"

definition has_measured_energy :: "energy_usage \<Rightarrow> bool" where
  "has_measured_energy e \<longleftrightarrow>
     eu_measurement_available e \<noteq> Some False
     \<and> (eu_energy_joules e \<noteq> None \<or> eu_energy_kwh e \<noteq> None
        \<or> eu_energy_kwh_consumed e \<noteq> None \<or> eu_energy_kwh_charged e \<noteq> None)"

record usage =
  us_input_tokens :: u64
  us_output_tokens :: u64
  us_cached_input_tokens :: u64
  us_reasoning_tokens :: u64
  us_energy :: "energy_usage option"

definition default_usage :: usage where
  "default_usage = \<lparr>us_input_tokens = 0, us_output_tokens = 0, us_cached_input_tokens = 0,
     us_reasoning_tokens = 0, us_energy = None\<rparr>"

definition usage_total :: "usage \<Rightarrow> u64" where
  "usage_total u = us_input_tokens u + us_output_tokens u"

record 'j ai_response =
  resp_id :: string
  resp_model :: string
  resp_message :: "'j message"
  resp_finish_reason :: finish_reason
  resp_usage :: usage

record tool_call_start =
  tcs_index :: u32
  tcs_id :: string
  tcs_name :: string

datatype stream_event =
    EvMessageStart string string
  | EvTextDelta string
  | EvReasoningDelta string
  | EvToolCallStart tool_call_start
  | EvToolCallArgsDelta u32 string
  | EvToolCallEnd u32
  | EvOutputImage string string
  | EvCitation string "string option"
  | EvServerToolCall string string string
  | EvUsageDelta usage
  | EvMessageEnd finish_reason
  | EvError string error_class

record adapter_error =
  ae_class :: error_class
  ae_message :: string
  ae_status :: "u16 option"
  ae_retry_after_ms :: "u64 option"

definition new_adapter_error :: "error_class \<Rightarrow> string \<Rightarrow> adapter_error" where
  "new_adapter_error c message =
     \<lparr>ae_class = c, ae_message = message, ae_status = None, ae_retry_after_ms = None\<rparr>"

definition adapter_should_fallback :: "adapter_error \<Rightarrow> bool" where
  "adapter_should_fallback e = should_fallback (ae_class e)"

type_synonym event_item = "adapter_error + stream_event"
type_synonym event_stream = "event_item list"

text \<open>What the code calls of \<open>serde_json\<close>.\<close>

record 'j json_api =
  js_null :: 'j
  js_string :: "string \<Rightarrow> 'j"
  js_from_str :: "string \<Rightarrow> 'j option"
  js_to_string :: "'j \<Rightarrow> string"
  js_as_str :: "'j \<Rightarrow> string option"
  js_as_object :: "'j \<Rightarrow> (string \<times> 'j) list option"

section \<open>Collecting\<close>

record 'j collected =
  co_content :: string
  co_reasoning :: string
  co_images :: "'j content_part list"
  co_citations :: "'j content_part list"
  co_server_tools :: "'j content_part list"
  co_tool_uses :: "(u32, string \<times> string \<times> string) btree_map"
  co_finish_reason :: "finish_reason option"
  co_usage :: usage
  co_assembled :: u64

definition empty_collected :: "'j collected" where
  "empty_collected = \<lparr>co_content = [], co_reasoning = [], co_images = [], co_citations = [],
     co_server_tools = [], co_tool_uses = [], co_finish_reason = None, co_usage = default_usage,
     co_assembled = 0\<rparr>"

definition over_cap :: "u64 option \<Rightarrow> u64 \<Rightarrow> adapter_error option" where
  "over_cap max_bytes assembled =
     (case max_bytes of
        Some mx \<Rightarrow>
          if mx < assembled
          then Some (new_adapter_error ServerError
                 (''response exceeded max_response_bytes ('' @ show_nat (unat mx) @ '')''))
          else None
      | None \<Rightarrow> None)"

text \<open>Count the bytes of a delta and check the ceiling before it is kept.\<close>

definition count_bytes :: "u64 option \<Rightarrow> string \<Rightarrow> 'j collected \<Rightarrow> adapter_error + 'j collected" where
  "count_bytes max_bytes delta c =
     (let assembled = co_assembled c + word_of_nat (length delta)
      in case over_cap max_bytes assembled of
           Some err \<Rightarrow> Inl err
         | None \<Rightarrow> Inr (c\<lparr>co_assembled := assembled\<rparr>))"

fun collect_event :: "'j json_api \<Rightarrow> u64 option \<Rightarrow> stream_event \<Rightarrow> 'j collected \<Rightarrow> adapter_error + 'j collected"
  where
  "collect_event js mx (EvTextDelta text) c =
     try_with (count_bytes mx text c) (\<lambda>c. Inr (c\<lparr>co_content := co_content c @ text\<rparr>))"
| "collect_event js mx (EvToolCallStart start) c =
     Inr (c\<lparr>co_tool_uses := bt_insert (tcs_index start) (tcs_id start, tcs_name start, []) (co_tool_uses c)\<rparr>)"
| "collect_event js mx (EvToolCallArgsDelta index json) c =
     try_with (count_bytes mx json c)
       (\<lambda>c. Inr (case bt_get (co_tool_uses c) index of
            Some (i, n, args) \<Rightarrow> c\<lparr>co_tool_uses := bt_insert index (i, n, args @ json) (co_tool_uses c)\<rparr>
          | None \<Rightarrow> c))"
| "collect_event js mx (EvToolCallEnd index) c = Inr c"
| "collect_event js mx (EvUsageDelta delta) c = Inr (c\<lparr>co_usage := delta\<rparr>)"
| "collect_event js mx (EvMessageEnd finish) c = Inr (c\<lparr>co_finish_reason := Some finish\<rparr>)"
| "collect_event js mx (EvError message k) c = Inl (new_adapter_error k message)"
| "collect_event js mx (EvReasoningDelta text) c =
     try_with (count_bytes mx text c) (\<lambda>c. Inr (c\<lparr>co_reasoning := co_reasoning c @ text\<rparr>))"
| "collect_event js mx (EvOutputImage media dat) c =
     try_with (count_bytes mx dat c)
       (\<lambda>c. Inr (c\<lparr>co_images := co_images c @ [CpImage (InlineBase64 media dat) None]\<rparr>))"
| "collect_event js mx (EvCitation url title) c =
     Inr (c\<lparr>co_citations := co_citations c @ [CpCitation url title None]\<rparr>)"
| "collect_event js mx (EvServerToolCall i name status) c =
     Inr (if status = ''completed''
          then c\<lparr>co_server_tools := co_server_tools c @ [CpServerToolUse i name (js_null js)]\<rparr>
          else c)"
| "collect_event js mx (EvMessageStart i m) c = Inr c"

fun collect_loop :: "'j json_api \<Rightarrow> u64 option \<Rightarrow> event_stream \<Rightarrow> 'j collected \<Rightarrow> adapter_error + 'j collected"
  where
  "collect_loop js mx [] c = Inr c"
| "collect_loop js mx (Inl e # items) c = Inl e"
| "collect_loop js mx (Inr ev # items) c =
     try_with (collect_event js mx ev c) (collect_loop js mx items)"

definition tool_use_part :: "'j json_api \<Rightarrow> string \<times> string \<times> string \<Rightarrow> 'j content_part" where
  "tool_use_part js = (\<lambda>(i, name, args). CpToolUse i name
     (case js_from_str js args of Some j \<Rightarrow> j | None \<Rightarrow> js_string js args))"

definition collected_parts :: "'j json_api \<Rightarrow> 'j collected \<Rightarrow> 'j content_part list" where
  "collected_parts js c =
     (if co_reasoning c \<noteq> [] then [CpReasoning (co_reasoning c) None] else [])
     @ (if co_content c \<noteq> [] then [CpText (co_content c)] else [])
     @ co_images c @ co_citations c @ co_server_tools c
     @ map (\<lambda>(_, t). tool_use_part js t) (co_tool_uses c)"

definition collect_response ::
  "'j json_api \<Rightarrow> event_stream \<Rightarrow> string \<Rightarrow> string \<Rightarrow> u64 option \<Rightarrow> adapter_error + 'j ai_response" where
  "collect_response js stream rid model max_bytes =
     try_with (collect_loop js max_bytes stream empty_collected)
       (\<lambda>c. Inr \<lparr>resp_id = rid, resp_model = model,
          resp_message = \<lparr>msg_role = Assistant, msg_content = collected_parts js c, msg_cache_hint = None\<rparr>,
          resp_finish_reason = (case co_finish_reason c of Some f \<Rightarrow> f | None \<Rightarrow> FinishStop),
          resp_usage = co_usage c\<rparr>)"

section \<open>Peeking the first event\<close>

definition precommit_stream :: "event_stream \<Rightarrow> adapter_error + event_stream" where
  "precommit_stream stream =
     (case stream of
        Inr (EvError message k) # rest \<Rightarrow> Inl (new_adapter_error k message)
      | Inr first # rest \<Rightarrow> Inr (Inr first # rest)
      | Inl error # rest \<Rightarrow> Inl error
      | [] \<Rightarrow> Inl (new_adapter_error StreamInterrupted ''upstream stream ended before first event''))"

section \<open>Replaying a response\<close>

text \<open>The body of the loop over the parts: \<open>tool_index\<close> counts the tool uses seen so far.\<close>

fun tool_events :: "'j json_api \<Rightarrow> u32 \<Rightarrow> 'j content_part list \<Rightarrow> stream_event list" where
  "tool_events js k [] = []"
| "tool_events js k (CpToolUse i name args # ps) =
     EvToolCallStart \<lparr>tcs_index = k, tcs_id = i, tcs_name = name\<rparr>
     # EvToolCallArgsDelta k (js_to_string js args) # EvToolCallEnd k # tool_events js (k + 1) ps"
| "tool_events js k (_ # ps) = tool_events js k ps"

definition response_to_events :: "'j json_api \<Rightarrow> 'j ai_response \<Rightarrow> stream_event list" where
  "response_to_events js resp =
     EvMessageStart (resp_id resp) (resp_model resp)
     # (let text = message_text (resp_message resp) in if text \<noteq> [] then [EvTextDelta text] else [])
     @ tool_events js 0 (msg_content (resp_message resp))
     @ [EvUsageDelta (resp_usage resp), EvMessageEnd (resp_finish_reason resp)]"

section \<open>Metering\<close>

datatype stream_finish = FinishClean | FinishUpstreamError error_class | FinishAborted

text \<open>
  The state that \<open>futures::stream::unfold\<close> threads, with the calls of the two callbacks it
  has made so far. \<open>me_armed\<close>: the guard still holds \<open>on_finish\<close>.
\<close>

record meter =
  me_stream :: event_stream
  me_usage :: usage
  me_finish_reason :: "finish_reason option"
  me_armed :: bool
  me_first_pending :: bool
  me_started :: instant
  me_first_calls :: "f64 list"
  me_finish_calls :: "(usage \<times> finish_reason option \<times> stream_finish) list"

definition meter_stream :: "event_stream \<Rightarrow> instant \<Rightarrow> meter" where
  "meter_stream stream started =
     \<lparr>me_stream = stream, me_usage = default_usage, me_finish_reason = None, me_armed = True,
      me_first_pending = True, me_started = started, me_first_calls = [], me_finish_calls = []\<rparr>"

text \<open>\<open>on_finish.take()\<close> and the call, shared by \<open>complete\<close>, \<open>error\<close> and \<open>drop\<close>.\<close>

definition fire :: "stream_finish \<Rightarrow> meter \<Rightarrow> meter" where
  "fire finish m =
     (if me_armed m
      then m\<lparr>me_armed := False, me_usage := default_usage, me_finish_reason := None,
             me_finish_calls := me_finish_calls m @ [(me_usage m, me_finish_reason m, finish)]\<rparr>
      else m)"

fun note_item :: "event_item \<Rightarrow> meter \<Rightarrow> meter" where
  "note_item (Inr (EvUsageDelta latest)) m = m\<lparr>me_usage := latest\<rparr>"
| "note_item (Inr (EvMessageEnd reason)) m = m\<lparr>me_finish_reason := Some reason\<rparr>"
| "note_item _ m = m"

fun item_error :: "event_item \<Rightarrow> error_class option" where
  "item_error (Inl e) = Some (ae_class e)"
| "item_error (Inr (EvError message k)) = Some k"
| "item_error _ = None"

text \<open>One poll of the metered stream: the item it yields, if it has not ended.\<close>

definition meter_poll :: "instant \<Rightarrow> meter \<Rightarrow> event_item option \<times> meter" where
  "meter_poll now m =
     (case me_stream m of
        [] \<Rightarrow> (None, fire FinishClean m)
      | item # rest \<Rightarrow>
          let m1 = m\<lparr>me_stream := rest\<rparr>;
              m2 = (if me_first_pending m1
                    then m1\<lparr>me_first_pending := False,
                            me_first_calls := me_first_calls m1 @ [nat_as_f64 (now - me_started m1)]\<rparr>
                    else m1);
              m3 = note_item item m2;
              m4 = (case item_error item of Some k \<Rightarrow> fire (FinishUpstreamError k) m3 | None \<Rightarrow> m3)
          in (Some item, m4))"

definition meter_drop :: "meter \<Rightarrow> meter" where
  "meter_drop m = fire FinishAborted m"

text \<open>
  A client that polls at the given times, stops at the end of the stream or when it has polled
  often enough, and then drops the stream: the items it received and the final state.
\<close>

fun meter_run :: "instant list \<Rightarrow> meter \<Rightarrow> event_item list \<times> meter" where
  "meter_run [] m = ([], meter_drop m)"
| "meter_run (now # nows) m =
     (case meter_poll now m of
        (None, m') \<Rightarrow> ([], meter_drop m')
      | (Some item, m') \<Rightarrow> let (items, m'') = meter_run nows m' in (item # items, m''))"

end
