(* ===== verification/Stream_Facts.thy ===== *)
theory Stream_Facts
  imports Stream_Events
begin

text \<open>
  What the runtime guarantees about an event stream: collecting keeps everything the stream
  said and fails with the first error in it, replaying a response and collecting it again is
  the identity on what a stream can carry, the pre-commit peek changes nothing, and a metered
  stream reports its end exactly once.
\<close>

section \<open>Metering reports once\<close>

fun usage_of :: "event_item \<Rightarrow> usage option" where
  "usage_of (Inr (EvUsageDelta u)) = Some u"
| "usage_of _ = None"

fun reason_of :: "event_item \<Rightarrow> finish_reason option" where
  "reason_of (Inr (EvMessageEnd r)) = Some r"
| "reason_of _ = None"

text \<open>The last value an item of the stream carries.\<close>

definition last_of :: "('a \<Rightarrow> 'b option) \<Rightarrow> 'a list \<Rightarrow> 'b option" where
  "last_of f items = find_map f (rev items)"

definition heard :: "nat \<Rightarrow> event_stream \<Rightarrow> event_stream" where
  "heard n stream = takeWhile (\<lambda>i. item_error i = None) (take n stream)"

fun verdict :: "nat \<Rightarrow> event_stream \<Rightarrow> stream_finish" where
  "verdict 0 stream = FinishAborted"
| "verdict (Suc n) [] = FinishClean"
| "verdict (Suc n) (i # is) = (case item_error i of Some k \<Rightarrow> FinishUpstreamError k | None \<Rightarrow> verdict n is)"

lemma last_of_Nil [simp]: "last_of f [] = None"
  by (simp add: last_of_def find_map_def)

lemma first_some_append: "first_some (xs @ ys) = (case first_some xs of None \<Rightarrow> first_some ys | Some v \<Rightarrow> Some v)"
  by (induction xs) (auto split: option.splits)

lemma last_of_Cons: "last_of f (x # xs) = (case last_of f xs of None \<Rightarrow> f x | Some v \<Rightarrow> Some v)"
  by (auto simp: last_of_def find_map_def first_some_append split: option.splits)

lemma heard_simps [simp]:
  "heard 0 stream = []"
  "heard n [] = []"
  "heard (Suc n) (i # is) = (if item_error i = None then i # heard n is else [])"
  by (simp_all add: heard_def)

lemma note_item_fields:
  "note_item i m = m\<lparr>me_usage := (case usage_of i of Some u \<Rightarrow> u | None \<Rightarrow> me_usage m),
     me_finish_reason := (case reason_of i of Some r \<Rightarrow> Some r | None \<Rightarrow> me_finish_reason m)\<rparr>"
  by (cases "(i, m)" rule: note_item.cases) simp_all

lemma error_items_silent: "item_error i = Some k \<Longrightarrow> usage_of i = None \<and> reason_of i = None"
  by (cases i rule: item_error.cases) auto

lemma meter_poll_stream: "me_stream (snd (meter_poll now m)) = tl (me_stream m)"
  by (cases "me_stream m") (auto simp: meter_poll_def Let_def fire_def note_item_fields split: option.splits)

lemma meter_run_Cons:
  assumes "me_stream m = i # rest"
  shows "fst (meter_run (now # nows) m) = i # fst (meter_run nows (snd (meter_poll now m)))"
    and "snd (meter_run (now # nows) m) = snd (meter_run nows (snd (meter_poll now m)))"
proof -
  have "meter_poll now m = (Some i, snd (meter_poll now m))"
    using assms by (simp add: meter_poll_def Let_def)
  then show "fst (meter_run (now # nows) m) = i # fst (meter_run nows (snd (meter_poll now m)))"
    and "snd (meter_run (now # nows) m) = snd (meter_run nows (snd (meter_poll now m)))"
    by (auto split: prod.splits option.splits)
qed

lemma meter_run_disarmed:
  assumes "\<not> me_armed m"
  shows "me_finish_calls (snd (meter_run nows m)) = me_finish_calls m"
  using assms
proof (induction nows arbitrary: m)
  case Nil
  then show ?case by (simp add: meter_drop_def fire_def)
next
  case (Cons now nows)
  have "\<not> me_armed (snd (meter_poll now m))"
    and "me_finish_calls (snd (meter_poll now m)) = me_finish_calls m"
    using Cons.prems by (auto simp: meter_poll_def Let_def fire_def note_item_fields split: list.splits option.splits)
  then show ?case
    using Cons.IH [of "snd (meter_poll now m)"]
    by (auto simp: meter_drop_def fire_def split: prod.splits option.splits)
qed

lemma meter_run_items: "fst (meter_run nows m) = take (length nows) (me_stream m)"
proof (induction nows arbitrary: m)
  case Nil
  show ?case by simp
next
  case (Cons now nows)
  show ?case
  proof (cases "me_stream m")
    case Nil
    then show ?thesis by (simp add: meter_poll_def)
  next
    case (Cons i rest)
    then show ?thesis
      using meter_run_Cons(1) [OF Cons] Cons.IH [of "snd (meter_poll now m)"]
      by (simp add: meter_poll_stream)
  qed
qed

lemma meter_run_finish:
  assumes "me_armed m"
  shows "me_finish_calls (snd (meter_run nows m)) = me_finish_calls m @
    [(case last_of usage_of (heard (length nows) (me_stream m)) of Some u \<Rightarrow> u | None \<Rightarrow> me_usage m,
      case last_of reason_of (heard (length nows) (me_stream m)) of Some r \<Rightarrow> Some r | None \<Rightarrow> me_finish_reason m,
      verdict (length nows) (me_stream m))]"
  using assms
proof (induction nows arbitrary: m)
  case Nil
  then show ?case by (simp add: meter_drop_def fire_def)
next
  case (Cons now nows)
  show ?case
  proof (cases "me_stream m")
    case Nil
    then show ?thesis
      using Cons.prems by (simp add: meter_poll_def meter_drop_def fire_def)
  next
    case (Cons i rest)
    let ?m = "snd (meter_poll now m)"
    note run = meter_run_Cons(2) [OF Cons]
    show ?thesis
    proof (cases "item_error i")
      case None
      have "me_armed ?m" and "me_stream ?m = rest" and "me_finish_calls ?m = me_finish_calls m"
        and "me_usage ?m = (case usage_of i of Some u \<Rightarrow> u | None \<Rightarrow> me_usage m)"
        and "me_finish_reason ?m = (case reason_of i of Some r \<Rightarrow> Some r | None \<Rightarrow> me_finish_reason m)"
        using Cons None Cons.prems by (simp_all add: meter_poll_def Let_def note_item_fields split: option.splits)
      then show ?thesis
        unfolding run using Cons.IH [of ?m] None Cons
        by (auto simp: last_of_Cons split: option.splits)
    next
      case (Some k)
      have "\<not> me_armed ?m"
        and "me_finish_calls ?m = me_finish_calls m @ [(me_usage m, me_finish_reason m, FinishUpstreamError k)]"
        using Cons Some Cons.prems error_items_silent [OF Some]
        by (simp_all add: meter_poll_def Let_def note_item_fields fire_def)
      then show ?thesis
        unfolding run using meter_run_disarmed [of ?m nows] Some Cons by simp
    qed
  qed
qed

lemma meter_run_no_first:
  assumes "\<not> me_first_pending m"
  shows "me_first_calls (snd (meter_run nows m)) = me_first_calls m"
  using assms
proof (induction nows arbitrary: m)
  case Nil
  then show ?case by (simp add: meter_drop_def fire_def)
next
  case (Cons now nows)
  have "\<not> me_first_pending (snd (meter_poll now m))"
    and "me_first_calls (snd (meter_poll now m)) = me_first_calls m"
    using Cons.prems by (auto simp: meter_poll_def Let_def fire_def note_item_fields split: list.splits option.splits)
  then show ?case
    using Cons.IH [of "snd (meter_poll now m)"]
    by (auto simp: meter_drop_def fire_def split: prod.splits option.splits)
qed

lemma meter_run_first:
  assumes "me_first_pending m" and "nows \<noteq> []" and "me_stream m \<noteq> []"
  shows "me_first_calls (snd (meter_run nows m)) =
    me_first_calls m @ [nat_as_f64 (hd nows - me_started m)]"
proof -
  obtain now nows' i rest where eqs: "nows = now # nows'" "me_stream m = i # rest"
    using assms(2,3) by (meson neq_Nil_conv)
  let ?m = "snd (meter_poll now m)"
  have "snd (meter_run nows m) = snd (meter_run nows' ?m)"
    unfolding eqs(1) by (rule meter_run_Cons(2) [OF eqs(2)])
  moreover have "\<not> me_first_pending ?m"
    and "me_first_calls ?m = me_first_calls m @ [nat_as_f64 (now - me_started m)]"
    using eqs assms(1) by (auto simp: meter_poll_def Let_def fire_def note_item_fields split: option.splits)
  ultimately show ?thesis
    using meter_run_no_first [of ?m nows'] eqs by simp
qed

lemma meter_run_unpolled:
  assumes "nows = [] \<or> me_stream m = []"
  shows "me_first_calls (snd (meter_run nows m)) = me_first_calls m"
  using assms by (cases nows) (auto simp: meter_poll_def meter_drop_def fire_def)

text \<open>
  C33: a metered stream passes every item on unchanged and reports its end exactly once,
  whatever the client does. The report is an upstream error when an error (of the transport or
  in band) was seen before anything else ended the stream, a clean end when the client drained
  it, and an abort otherwise; it carries the last usage and the last finish reason heard before
  that. The first event is timed once, and not at all when none was polled.
\<close>

theorem meter_reports_once:
  "let (items, m) = meter_run nows (meter_stream stream started);
       before = heard (length nows) stream
   in items = take (length nows) stream
      \<and> me_finish_calls m =
          [(case last_of usage_of before of Some u \<Rightarrow> u | None \<Rightarrow> default_usage,
            last_of reason_of before, verdict (length nows) stream)]
      \<and> me_first_calls m = (if nows = [] \<or> stream = [] then [] else [nat_as_f64 (hd nows - started)])"
proof -
  let ?m = "meter_stream stream started"
  have "fst (meter_run nows ?m) = take (length nows) stream"
    by (simp add: meter_run_items meter_stream_def)
  moreover have "me_finish_calls (snd (meter_run nows ?m)) =
      [(case last_of usage_of (heard (length nows) stream) of Some u \<Rightarrow> u | None \<Rightarrow> default_usage,
        last_of reason_of (heard (length nows) stream), verdict (length nows) stream)]"
    using meter_run_finish [of ?m nows] by (simp add: meter_stream_def split: option.splits)
  moreover have "me_first_calls (snd (meter_run nows ?m)) =
      (if nows = [] \<or> stream = [] then [] else [nat_as_f64 (hd nows - started)])"
    using meter_run_unpolled [of nows ?m] meter_run_first [of ?m nows] by (simp add: meter_stream_def)
  ultimately show ?thesis
    by (simp add: split_beta Let_def)
qed

section \<open>Collecting keeps what was said\<close>

fun first_error :: "event_stream \<Rightarrow> adapter_error option" where
  "first_error [] = None"
| "first_error (Inl e # items) = Some e"
| "first_error (Inr (EvError message k) # items) = Some (new_adapter_error k message)"
| "first_error (Inr _ # items) = first_error items"

fun item_text :: "event_item \<Rightarrow> string" where
  "item_text (Inr (EvTextDelta t)) = t"
| "item_text _ = []"

text \<open>The bytes of an item that count towards the ceiling.\<close>

fun item_bytes :: "event_item \<Rightarrow> nat" where
  "item_bytes (Inr (EvTextDelta t)) = length t"
| "item_bytes (Inr (EvReasoningDelta t)) = length t"
| "item_bytes (Inr (EvToolCallArgsDelta i j)) = length j"
| "item_bytes (Inr (EvOutputImage m d)) = length d"
| "item_bytes _ = 0"

definition silent :: "'j content_part list \<Rightarrow> bool" where
  "silent ps \<longleftrightarrow> concat (map part_text ps) = []"

definition quiet_parts :: "'j collected \<Rightarrow> bool" where
  "quiet_parts c \<longleftrightarrow> silent (co_images c) \<and> silent (co_citations c) \<and> silent (co_server_tools c)"

lemma count_bytes_Inr:
  "count_bytes mx d c = Inr c' \<longleftrightarrow>
     c' = c\<lparr>co_assembled := co_assembled c + word_of_nat (length d)\<rparr> \<and> over_cap mx (co_assembled c') = None"
  by (auto simp: count_bytes_def Let_def split: option.splits)

lemma count_bytes_uncapped: "count_bytes None d c = Inr (c\<lparr>co_assembled := co_assembled c + word_of_nat (length d)\<rparr>)"
  by (simp add: count_bytes_def over_cap_def)

lemma over_cap_None: "over_cap mx a = None \<longleftrightarrow> (\<forall>cap. mx = Some cap \<longrightarrow> a \<le> cap)"
  by (auto simp: over_cap_def not_less split: option.splits if_splits)

text \<open>What one event adds to each accumulator.\<close>

lemma collect_event_adds:
  assumes "collect_event js mx ev c = Inr c'"
  shows "co_content c' = co_content c @ item_text (Inr ev)"
    and "co_usage c' = (case usage_of (Inr ev) of Some u \<Rightarrow> u | None \<Rightarrow> co_usage c)"
    and "co_finish_reason c' = (case reason_of (Inr ev) of Some r \<Rightarrow> Some r | None \<Rightarrow> co_finish_reason c)"
    and "co_assembled c' = co_assembled c + word_of_nat (item_bytes (Inr ev))"
    and "quiet_parts c \<Longrightarrow> quiet_parts c'"
    and "over_cap mx (co_assembled c) = None \<Longrightarrow> over_cap mx (co_assembled c') = None"
    and "first_error (Inr ev # items) = first_error items"
proof -
  note step = try_with_Inr count_bytes_Inr
  show "co_content c' = co_content c @ item_text (Inr ev)"
    and "co_usage c' = (case usage_of (Inr ev) of Some u \<Rightarrow> u | None \<Rightarrow> co_usage c)"
    and "co_finish_reason c' = (case reason_of (Inr ev) of Some r \<Rightarrow> Some r | None \<Rightarrow> co_finish_reason c)"
    and "co_assembled c' = co_assembled c + word_of_nat (item_bytes (Inr ev))"
    using assms by (cases ev; clarsimp simp: step split: option.splits)+
  show "first_error (Inr ev # items) = first_error items"
    using assms by (cases ev) simp_all
  show "quiet_parts c'" if "quiet_parts c"
    using assms that by (cases ev; clarsimp simp: step quiet_parts_def silent_def split: option.splits if_splits)
  show "over_cap mx (co_assembled c') = None" if "over_cap mx (co_assembled c) = None"
    using assms that by (cases ev; clarsimp simp: step split: option.splits)
qed

lemma collect_loop_adds:
  assumes "collect_loop js mx items c = Inr c'"
  shows "co_content c' = co_content c @ concat (map item_text items)
    \<and> co_usage c' = (case last_of usage_of items of Some u \<Rightarrow> u | None \<Rightarrow> co_usage c)
    \<and> co_finish_reason c' = (case last_of reason_of items of Some r \<Rightarrow> Some r | None \<Rightarrow> co_finish_reason c)
    \<and> co_assembled c' = co_assembled c + word_of_nat (sum_list (map item_bytes items))
    \<and> (quiet_parts c \<longrightarrow> quiet_parts c')
    \<and> (over_cap mx (co_assembled c) = None \<longrightarrow> over_cap mx (co_assembled c') = None)
    \<and> first_error items = None"
  using assms
proof (induction js mx items c rule: collect_loop.induct)
  case (3 js mx ev items c)
  then obtain c1 where c1: "collect_event js mx ev c = Inr c1" and rest: "collect_loop js mx items c1 = Inr c'"
    by (auto simp: try_with_Inr)
  show ?case
    using 3(1) [OF rest] collect_event_adds [OF c1]
    by (intro conjI impI) (simp_all add: last_of_Cons split: option.splits)
qed simp_all

lemma message_text_parts:
  "quiet_parts c \<Longrightarrow> concat (map part_text (collected_parts js c)) = co_content c"
  by (auto simp: collected_parts_def quiet_parts_def silent_def tool_use_part_def split_beta)

text \<open>
  C39: a collected response says exactly what its stream said: the concatenation of the text
  deltas, the last usage and the last finish reason (\<open>Stop\<close> when there is none), from a
  stream without any error; and when there is a ceiling, the bytes the stream carried are
  within it.
\<close>

theorem collect_response_faithful:
  assumes "collect_response js items rid model mx = Inr r"
  shows "first_error items = None
    \<and> message_text (resp_message r) = concat (map item_text items)
    \<and> resp_usage r = (case last_of usage_of items of Some u \<Rightarrow> u | None \<Rightarrow> default_usage)
    \<and> resp_finish_reason r = (case last_of reason_of items of Some f \<Rightarrow> f | None \<Rightarrow> FinishStop)
    \<and> (\<forall>cap. mx = Some cap \<longrightarrow> sum_list (map item_bytes items) < 2 ^ 64 \<longrightarrow>
          sum_list (map item_bytes items) \<le> unat cap)"
proof -
  obtain c where loop: "collect_loop js mx items empty_collected = Inr c"
    and r: "r = \<lparr>resp_id = rid, resp_model = model,
          resp_message = \<lparr>msg_role = Assistant, msg_content = collected_parts js c, msg_cache_hint = None\<rparr>,
          resp_finish_reason = (case co_finish_reason c of Some f \<Rightarrow> f | None \<Rightarrow> FinishStop),
          resp_usage = co_usage c\<rparr>"
    using assms by (auto simp: collect_response_def try_with_Inr)
  note adds = collect_loop_adds [OF loop]
  have quiet: "quiet_parts c"
    using adds by (simp add: empty_collected_def quiet_parts_def silent_def)
  have "message_text (resp_message r) = concat (map item_text items)"
    using adds message_text_parts [OF quiet, of js] by (simp add: r message_text_def empty_collected_def)
  moreover have "resp_usage r = (case last_of usage_of items of Some u \<Rightarrow> u | None \<Rightarrow> default_usage)"
    using adds by (simp add: r empty_collected_def split: option.splits)
  moreover have "resp_finish_reason r = (case last_of reason_of items of Some f \<Rightarrow> f | None \<Rightarrow> FinishStop)"
    using adds by (simp add: r empty_collected_def split: option.splits)
  moreover have "sum_list (map item_bytes items) \<le> unat cap"
    if "mx = Some cap" and "sum_list (map item_bytes items) < 2 ^ 64" for cap
    using that adds unat_word_of_nat [of "sum_list (map item_bytes items)", where 'a = 64]
    by (auto simp: empty_collected_def over_cap_None word_le_nat_alt)
  ultimately show ?thesis
    using adds by blast
qed

lemma collect_event_uncapped:
  "(\<exists>c'. collect_event js None ev c = Inr c') \<or>
   (\<exists>message k. ev = EvError message k \<and> collect_event js None ev c = Inl (new_adapter_error k message))"
  by (cases ev) (auto simp: count_bytes_uncapped)

lemma collect_loop_uncapped:
  "collect_loop js None items c = Inl e \<longleftrightarrow> first_error items = Some e"
proof (induction js "None :: u64 option" items c rule: collect_loop.induct)
  case (3 js ev items c)
  show ?case
  proof (cases "\<exists>message k. ev = EvError message k")
    case True
    then show ?thesis by auto
  next
    case False
    then obtain c' where c': "collect_event js None ev c = Inr c'"
      using collect_event_uncapped [of js ev c] by auto
    then show ?thesis
      using 3 collect_event_adds(7) [OF c'] by simp
  qed
qed simp_all

text \<open>
  Without a ceiling, collecting fails exactly when the stream carries an error, of the
  transport or in band, and then with the first of them: nothing is swallowed and nothing
  else fails.
\<close>

theorem collect_fails_with_first_error:
  "collect_response js items rid model None = Inl e \<longleftrightarrow> first_error items = Some e"
  unfolding collect_response_def collect_loop_uncapped [of js items empty_collected, symmetric]
  by (cases "collect_loop js None items empty_collected") simp_all

section \<open>Replaying and collecting\<close>

fun is_tool_use :: "'j content_part \<Rightarrow> bool" where
  "is_tool_use (CpToolUse i n a) = True"
| "is_tool_use _ = False"

fun tool_entry :: "'j json_api \<Rightarrow> 'j content_part \<Rightarrow> string \<times> string \<times> string" where
  "tool_entry js (CpToolUse i n a) = (i, n, js_to_string js a)"
| "tool_entry js _ = ([], [], [])"

text \<open>The tool calls of a response under consecutive indices.\<close>

fun indexed :: "nat \<Rightarrow> 'a list \<Rightarrow> (u32 \<times> 'a) list" where
  "indexed k [] = []"
| "indexed k (x # xs) = (word_of_nat k, x) # indexed (Suc k) xs"

lemma map_snd_indexed: "map (\<lambda>(_, t). f t) (indexed k xs) = map f xs"
  by (induction xs arbitrary: k) auto

lemma bt_insert_last: "\<forall>k' \<in> fst ` set m. k' < k \<Longrightarrow> bt_insert k v m = m @ [(k, v)]"
  by (induction m) (auto simp: less_not_sym)

lemma bt_replace_last: "\<forall>k' \<in> fst ` set m. k' < k \<Longrightarrow> bt_insert k v (m @ [(k, w)]) = m @ [(k, v)]"
  by (induction m) (auto simp: less_not_sym)

lemma bt_get_last: "\<forall>k' \<in> fst ` set m. k' < k \<Longrightarrow> bt_get (m @ [(k, v)]) k = Some v"
  for k :: "'k::linorder"
  by (induction m) (auto simp: bt_get_def)

lemma collect_loop_append:
  "collect_loop js mx (map Inr evs @ items) c =
     try_with (collect_loop js mx (map Inr evs) c) (collect_loop js mx items)"
  by (induction evs arbitrary: c) (simp_all add: try_with_def split: sum.splits)

lemma word_of_nat_less:
  "i < j \<Longrightarrow> j < 2 ^ LENGTH('a) \<Longrightarrow> (word_of_nat i :: 'a::len word) < word_of_nat j"
  by (simp add: word_less_nat_alt unat_word_of_nat)

lemma collect_tool_events:
  assumes "\<forall>k' \<in> fst ` set (co_tool_uses c). k' < word_of_nat k"
    and "k + length (filter is_tool_use ps) < 2 ^ 32"
  shows "\<exists>w. collect_loop js None (map Inr (tool_events js (word_of_nat k) ps)) c =
    Inr (c\<lparr>co_tool_uses := co_tool_uses c @ indexed k (map (tool_entry js) (filter is_tool_use ps)),
           co_assembled := w\<rparr>)"
  using assms
proof (induction ps arbitrary: k c)
  case Nil
  have "c = c\<lparr>co_assembled := co_assembled c\<rparr>" by simp
  then show ?case by (metis append_Nil2 collect_loop.simps(1) collected.surjective collected.update_convs(6)
        filter.simps(1) indexed.simps(1) list.simps(8) tool_events.simps(1))
next
  case (Cons p ps)
  show ?case
  proof (cases "is_tool_use p")
    case False
    then have "tool_events js (word_of_nat k) (p # ps) = tool_events js (word_of_nat k) ps"
      by (cases p) simp_all
    then show ?thesis
      using Cons.IH [OF Cons.prems(1)] Cons.prems(2) False by simp
  next
    case True
    then obtain i n a where p: "p = CpToolUse i n a" by (cases p) simp_all
    let ?k = "word_of_nat k :: u32"
    let ?e = "(i, n, js_to_string js a)"
    let ?w = "co_assembled c + word_of_nat (length (js_to_string js a))"
    let ?c = "c\<lparr>co_tool_uses := co_tool_uses c @ [(?k, ?e)], co_assembled := ?w\<rparr>"
    have suc: "word_of_nat (Suc k) = ?k + 1" by (simp add: add.commute)
    have upd: "c\<lparr>co_assembled := v, co_tool_uses := m\<rparr> = c\<lparr>co_tool_uses := m, co_assembled := v\<rparr>" for v m
      by simp
    have "\<forall>k' \<in> fst ` set (co_tool_uses ?c). k' < word_of_nat (Suc k)"
      using Cons.prems True word_of_nat_less [of k "Suc k", where 'a = 32]
      by (auto simp: suc intro: less_trans)
    then obtain w where "collect_loop js None (map Inr (tool_events js (word_of_nat (Suc k)) ps)) ?c =
        Inr (?c\<lparr>co_tool_uses := co_tool_uses ?c @ indexed (Suc k) (map (tool_entry js) (filter is_tool_use ps)),
               co_assembled := w\<rparr>)"
      using Cons.IH [of ?c "Suc k"] Cons.prems(2) True by auto
    then show ?thesis
      using Cons.prems(1)
      by (auto simp: p add.commute [of 1] upd count_bytes_uncapped bt_insert_last bt_replace_last bt_get_last)
  qed
qed

lemma tool_use_entry:
  assumes "\<And>j. js_from_str js (js_to_string js j) = Some j" and "is_tool_use p"
  shows "tool_use_part js (tool_entry js p) = p"
  using assms by (cases p) (simp_all add: tool_use_part_def)

text \<open>
  A complete upstream response that is replayed as events and collected again comes back
  with its usage, its finish reason, its text (joined into one part) and its tool uses in
  order, provided that JSON survives printing and parsing. Every other part (reasoning, images,
  citations, server tools) is lost on the way.
\<close>

theorem replay_collect_roundtrip:
  assumes "\<And>j. js_from_str js (js_to_string js j) = Some j"
    and "length (filter is_tool_use (msg_content (resp_message r))) < 2 ^ 32"
  shows "collect_response js (map Inr (response_to_events js r)) (resp_id r) (resp_model r) None =
    Inr (r\<lparr>resp_message := \<lparr>msg_role = Assistant,
      msg_content = (if message_text (resp_message r) \<noteq> [] then [CpText (message_text (resp_message r))] else [])
        @ filter is_tool_use (msg_content (resp_message r)),
      msg_cache_hint = None\<rparr>\<rparr>)"
proof -
  let ?t = "message_text (resp_message r)" and ?ps = "msg_content (resp_message r)"
  let ?c = "empty_collected\<lparr>co_content := ?t, co_assembled := word_of_nat (length ?t)\<rparr> :: 'a collected"
  have front: "collect_loop js None (map Inr (EvMessageStart (resp_id r) (resp_model r)
      # (if ?t \<noteq> [] then [EvTextDelta ?t] else []))) empty_collected = Inr ?c"
    by (simp add: count_bytes_uncapped) (simp add: empty_collected_def)
  obtain w where "collect_loop js None (map Inr (tool_events js (word_of_nat 0) ?ps)) ?c =
      Inr (?c\<lparr>co_tool_uses := co_tool_uses ?c @ indexed 0 (map (tool_entry js) (filter is_tool_use ?ps)),
             co_assembled := w\<rparr>)"
    using collect_tool_events [of ?c 0 ?ps js] assms(2) by (auto simp: empty_collected_def)
  then have tools: "collect_loop js None (map Inr (tool_events js 0 ?ps)) ?c =
      Inr (?c\<lparr>co_tool_uses := indexed 0 (map (tool_entry js) (filter is_tool_use ?ps)), co_assembled := w\<rparr>)"
    by (simp add: empty_collected_def)
  have entries: "map (tool_use_part js) (map (tool_entry js) (filter is_tool_use ?ps)) = filter is_tool_use ?ps"
    by (auto simp: o_def tool_use_entry [OF assms(1)] intro: map_idI)
  have events: "map Inr (response_to_events js r) =
      map Inr (EvMessageStart (resp_id r) (resp_model r) # (if ?t \<noteq> [] then [EvTextDelta ?t] else []))
      @ map Inr (tool_events js 0 ?ps) @ [Inr (EvUsageDelta (resp_usage r)), Inr (EvMessageEnd (resp_finish_reason r))]"
    by (simp add: response_to_events_def Let_def)
  show ?thesis
    unfolding collect_response_def events collect_loop_append front tools try_with_simps
    using entries by (simp add: collected_parts_def map_snd_indexed empty_collected_def)
qed

section \<open>Witnesses\<close>

text \<open>JSON kept as its own text.\<close>

definition text_json :: "string json_api" where
  "text_json = \<lparr>js_null = ''null'', js_string = id, js_from_str = Some, js_to_string = id,
     js_as_str = Some, js_as_object = (\<lambda>_. None)\<rparr>"

definition sample_response :: "string ai_response" where
  "sample_response = \<lparr>resp_id = ''r'', resp_model = ''m'',
     resp_message = \<lparr>msg_role = Assistant, msg_content = [CpReasoning ''why'' None, CpText ''hi'', CpToolUse ''t'' ''f'' ''{}''],
       msg_cache_hint = None\<rparr>,
     resp_finish_reason = FinishToolCalls, resp_usage = default_usage\<rparr>"

theorem replay_collect_roundtrip_witness:
  "collect_response text_json (map Inr (response_to_events text_json sample_response)) ''r'' ''m'' None =
     Inr (sample_response\<lparr>resp_message := \<lparr>msg_role = Assistant,
       msg_content = [CpText ''hi'', CpToolUse ''t'' ''f'' ''{}''], msg_cache_hint = None\<rparr>\<rparr>)"
  using replay_collect_roundtrip [of text_json sample_response]
  by (simp add: text_json_def sample_response_def message_text_def)

definition two_deltas :: event_stream where
  "two_deltas = [Inr (EvTextDelta ''h''), Inr (EvTextDelta ''i'')]"

theorem collect_response_faithful_witness:
  "\<exists>r. collect_response text_json two_deltas ''r'' ''m'' (Some 10) = Inr r \<and> message_text (resp_message r) = ''hi''"
proof -
  have "collect_response text_json two_deltas ''r'' ''m'' (Some 10) =
      Inr \<lparr>resp_id = ''r'', resp_model = ''m'',
        resp_message = \<lparr>msg_role = Assistant, msg_content = [CpText ''hi''], msg_cache_hint = None\<rparr>,
        resp_finish_reason = FinishStop, resp_usage = default_usage\<rparr>"
    by (simp add: two_deltas_def collect_response_def empty_collected_def count_bytes_def over_cap_def
        collected_parts_def)
  with collect_response_faithful [OF this] show ?thesis
    by (simp add: two_deltas_def)
qed

end
