(* ===== verification/Accounts.thy ===== *)
theory Accounts
  imports Ordered_Map
begin

text \<open>
  Accounts and their credentials: the leases of \<open>sb-core/src/credential.rs\<close>, the \<open>auth:\<close>
  declarations of \<open>sb-core/src/config.rs\<close>, and \<open>sb-credentials/src/account.rs\<close>, which turns
  a declaration into concrete secrets and an account into a lease. The process around the code
  (environment variables, files, the clock) and the parsers of third-party crates it calls are
  the fields of the record \<open>host\<close>.
\<close>

section \<open>Leases\<close>

type_synonym secret = string

datatype auth_kind = AkNone | AkApiKey | AkBearer | AkAwsSigV4

record aws_sigv4_lease =
  aws_access_key_id :: secret
  aws_secret_access_key :: secret
  aws_session_token :: "secret option"

record credential_lease =
  cl_provider_account_id :: string
  cl_auth_kind :: auth_kind
  cl_secret :: secret
  cl_aws_sigv4 :: "aws_sigv4_lease option"
  cl_chatgpt_account_id :: "secret option"

definition lease_bearer :: "string \<Rightarrow> secret \<Rightarrow> credential_lease" where
  "lease_bearer account key =
     \<lparr>cl_provider_account_id = account, cl_auth_kind = AkBearer, cl_secret = key, cl_aws_sigv4 = None,
      cl_chatgpt_account_id = None\<rparr>"

definition lease_bearer_with_chatgpt_account :: "string \<Rightarrow> secret \<Rightarrow> secret \<Rightarrow> credential_lease" where
  "lease_bearer_with_chatgpt_account account key chatgpt_account_id =
     \<lparr>cl_provider_account_id = account, cl_auth_kind = AkBearer, cl_secret = key, cl_aws_sigv4 = None,
      cl_chatgpt_account_id = Some chatgpt_account_id\<rparr>"

definition lease_none :: "string \<Rightarrow> credential_lease" where
  "lease_none account =
     \<lparr>cl_provider_account_id = account, cl_auth_kind = AkNone, cl_secret = [], cl_aws_sigv4 = None,
      cl_chatgpt_account_id = None\<rparr>"

definition lease_aws_sigv4 :: "string \<Rightarrow> secret \<Rightarrow> secret \<Rightarrow> secret option \<Rightarrow> credential_lease" where
  "lease_aws_sigv4 account access_key_id secret_access_key session_token =
     \<lparr>cl_provider_account_id = account, cl_auth_kind = AkAwsSigV4, cl_secret = [],
      cl_aws_sigv4 = Some \<lparr>aws_access_key_id = access_key_id, aws_secret_access_key = secret_access_key,
        aws_session_token = session_token\<rparr>,
      cl_chatgpt_account_id = None\<rparr>"

section \<open>Declarations\<close>

record oauth_fields =
  oa_token_env :: "string option"
  oa_token :: "string option"
  oa_token_vault :: "string option"
  oa_refresh_env :: "string option"
  oa_refresh :: "string option"
  oa_refresh_vault :: "string option"
  oa_token_url :: "string option"
  oa_client_id :: "string option"
  oa_client_secret_env :: "string option"
  oa_client_secret :: "string option"
  oa_client_secret_vault :: "string option"

record native_oauth_fields =
  no_token_env :: "string option"
  no_token_vault :: "string option"
  no_token_file :: "string option"
  no_access_token_pointer :: string

record sigv4_fields =
  sv_access_key_env :: string
  sv_access_key :: "string option"
  sv_secret_key_env :: string
  sv_secret_key :: "string option"
  sv_session_token_env :: "string option"
  sv_session_token :: "string option"

datatype auth_config =
    AuthNone
  | AuthApiKey (ak_env: "string option") (ak_inline: "string option") (ak_vault: "string option")
  | AuthJsonToken string string
  | AuthKimiCodeOauth "string option"
  | AuthOauth oauth_fields
  | AuthCodexOauth native_oauth_fields
  | AuthClaudeCodeOauth native_oauth_fields
  | AuthServiceAccount "string option" "string option" "string option"
  | AuthAwsSigV4 sigv4_fields

section \<open>Resolved credentials\<close>

datatype native_oauth_kind = NokCodex | NokClaudeCode

record native_oauth_source =
  ns_kind :: native_oauth_kind
  ns_token :: "secret option"
  ns_token_env :: "string option"
  ns_token_file :: "string option"
  ns_access_token_pointer :: string

record json_token_source =
  jt_token_file :: string
  jt_access_token_pointer :: string

record resolved_oauth =
  ro_token :: "secret option"
  ro_refresh :: "secret option"
  ro_refresh_vault :: "string option"
  ro_token_url :: "string option"
  ro_client_id :: "string option"
  ro_client_secret :: "secret option"

datatype 'k resolved_auth =
    RaNone
  | RaApiKey secret
  | RaOauth resolved_oauth
  | RaNativeOauth native_oauth_source
  | RaJsonToken json_token_source
  | RaKimiCodeOauth string
  | RaServiceAccount 'k "string option"
  | RaAwsSigV4 secret secret "secret option"

record 'k account =
  ac_id :: string
  ac_provider_id :: string
  ac_auth :: "'k resolved_auth"
  ac_priority :: int
  ac_policy_tags :: "string list"

definition account_lease :: "'k account \<Rightarrow> credential_lease" where
  "account_lease a =
     (case ac_auth a of
        RaNone \<Rightarrow> lease_none (ac_id a)
      | RaApiKey s \<Rightarrow> lease_bearer (ac_id a) s
      | RaOauth o' \<Rightarrow> lease_bearer (ac_id a) (case ro_token o' of Some t \<Rightarrow> t | None \<Rightarrow> [])
      | RaNativeOauth _ \<Rightarrow> lease_bearer (ac_id a) []
      | RaJsonToken _ \<Rightarrow> lease_bearer (ac_id a) []
      | RaKimiCodeOauth _ \<Rightarrow> lease_bearer (ac_id a) []
      | RaServiceAccount _ _ \<Rightarrow> lease_bearer (ac_id a) []
      | RaAwsSigV4 key sec token \<Rightarrow> lease_aws_sigv4 (ac_id a) key sec token)"

section \<open>The host\<close>

text \<open>
  \<open>ho_json_str body pointer\<close> parses \<open>body\<close> and reads the string at the JSON pointer;
  \<open>ho_jwt_exp token\<close> is the \<open>exp\<close> claim of the token's payload, if it can be read;
  \<open>ho_parse_key\<close> parses a service-account key. An unreadable file or an unparsable text gives
  the error's message. A vault is the map of its secrets.
\<close>

record 'k host =
  ho_env :: "string \<Rightarrow> string option"
  ho_read_file :: "string \<Rightarrow> string + string"
  ho_json_str :: "string \<Rightarrow> string \<Rightarrow> string + string option"
  ho_jwt_exp :: "string \<Rightarrow> i64 option"
  ho_now_unix :: i64
  ho_parse_key :: "string \<Rightarrow> string + 'k"

type_synonym vault = "string \<rightharpoonup> secret"

section \<open>Secrets\<close>

text \<open>\<open>{:?}\<close> of a string.\<close>

definition hex_digit :: "nat \<Rightarrow> char" where
  "hex_digit d = (if d < 10 then char_of (48 + d) else char_of (87 + d))"

definition debug_char :: "char \<Rightarrow> string" where
  "debug_char c =
     (let n = (of_char c :: nat)
      in if n = 34 then [char_of (92 :: nat), char_of (34 :: nat)]
         else if n = 92 then [char_of (92 :: nat), char_of (92 :: nat)]
         else if n = 9 then [char_of (92 :: nat), CHR ''t'']
         else if n = 10 then [char_of (92 :: nat), CHR ''n'']
         else if n = 13 then [char_of (92 :: nat), CHR ''r'']
         else if n = 0 then [char_of (92 :: nat), CHR ''0'']
         else if n < 16 then char_of (92 :: nat) # ''u{'' @ [hex_digit n] @ ''}''
         else if n < 32 \<or> n = 127 then char_of (92 :: nat) # ''u{'' @ [hex_digit (n div 16), hex_digit (n mod 16)] @ ''}''
         else [c])"

definition debug_str :: "string \<Rightarrow> string" where
  "debug_str s = char_of (34 :: nat) # concat (map debug_char s) @ [char_of (34 :: nat)]"

text \<open>The em dash of the message, in UTF-8.\<close>

definition no_secret_message :: "string \<Rightarrow> string option \<Rightarrow> string" where
  "no_secret_message what env =
     ''no '' @ what @ '': set vault, env '' @ debug_str (case env of Some e \<Rightarrow> e | None \<Rightarrow> ''<none>'')
     @ '', or inline '' @ [CHR 0xE2, CHR 0x80, CHR 0x94] @ '' got none''"

definition nonempty_str :: "string option \<Rightarrow> string option" where
  "nonempty_str v = (case v of Some s \<Rightarrow> if s \<noteq> [] then Some s else None | None \<Rightarrow> None)"

definition resolve_secret ::
  "'k host \<Rightarrow> string option \<Rightarrow> string option \<Rightarrow> string option \<Rightarrow> vault option \<Rightarrow> string \<Rightarrow> string + secret" where
  "resolve_secret h vault_key env inline vault what =
     (case vault_key of
        Some name \<Rightarrow>
          (case vault of
             None \<Rightarrow> Inl (what @ '': vault secret `'' @ name @ ''` referenced but no vault is configured'')
           | Some v \<Rightarrow>
               (case v name of
                  None \<Rightarrow> Inl (what @ '': secret `'' @ name @ ''` not found in vault'')
                | Some s \<Rightarrow> Inr s))
      | None \<Rightarrow>
          (case nonempty_str (case env of Some name \<Rightarrow> ho_env h name | None \<Rightarrow> None) of
             Some v \<Rightarrow> Inr v
           | None \<Rightarrow>
               (case nonempty_str inline of
                  Some v \<Rightarrow> Inr v
                | None \<Rightarrow> Inl (no_secret_message what env))))"

definition has_text :: "string option \<Rightarrow> bool" where
  "has_text v = (case v of Some s \<Rightarrow> \<not> trim_is_empty s | None \<Rightarrow> False)"

definition resolve_optional_secret ::
  "'k host \<Rightarrow> string option \<Rightarrow> string option \<Rightarrow> string option \<Rightarrow> vault option \<Rightarrow> string
    \<Rightarrow> string + secret option" where
  "resolve_optional_secret h vault_key env inline vault what =
     (if has_text vault_key \<or> has_text env \<or> has_text inline
      then (case resolve_secret h vault_key env inline vault what of Inl e \<Rightarrow> Inl e | Inr s \<Rightarrow> Inr (Some s))
      else Inr None)"

section \<open>Paths and token files\<close>

definition expand_path_with_home :: "string \<Rightarrow> string + string \<Rightarrow> string + string" where
  "expand_path_with_home path resolve_home =
     (if path \<noteq> ''~'' \<and> \<not> starts_with path ''~/'' \<and> \<not> starts_with path ''${HOME}''
         \<and> \<not> starts_with path ''$HOME''
      then Inr path
      else case resolve_home of
        Inl e \<Rightarrow> Inl e
      | Inr home \<Rightarrow>
          Inr (if path = ''~'' then home
               else case strip_prefix ''~/'' path of
                 Some rest \<Rightarrow> home @ ''/'' @ rest
               | None \<Rightarrow>
                   (case strip_prefix ''${HOME}'' path of
                      Some rest \<Rightarrow> home @ rest
                    | None \<Rightarrow>
                        (case strip_prefix ''$HOME'' path of Some rest \<Rightarrow> home @ rest | None \<Rightarrow> path))))"

definition expand_path :: "'k host \<Rightarrow> string \<Rightarrow> string + string" where
  "expand_path h path =
     expand_path_with_home path
       (case ho_env h ''HOME'' of Some home \<Rightarrow> Inr home | None \<Rightarrow> Inl ''HOME is not set'')"

text \<open>\<open>PathBuf::join\<close> with a relative path.\<close>

definition path_join :: "string \<Rightarrow> string \<Rightarrow> string" where
  "path_join base rel = (if base = [] \<or> last base = CHR ''/'' then base @ rel else base @ ''/'' @ rel)"

definition resolve_kimi_home :: "'k host \<Rightarrow> string option \<Rightarrow> string + string" where
  "resolve_kimi_home h explicit =
     (case explicit of
        Some home \<Rightarrow> expand_path h home
      | None \<Rightarrow>
          (case nonempty_str (ho_env h ''KIMI_CODE_HOME'') of
             Some home \<Rightarrow> Inr home
           | None \<Rightarrow>
               (case ho_env h ''HOME'' of
                  None \<Rightarrow> Inl ''kimi_code_oauth: neither home, KIMI_CODE_HOME, nor HOME is set''
                | Some home \<Rightarrow> Inr (path_join home ''.kimi-code''))))"

definition read_json_secret :: "'k host \<Rightarrow> string \<Rightarrow> string \<Rightarrow> string \<Rightarrow> string + secret" where
  "read_json_secret h file pointer label =
     (case expand_path h file of
        Inl e \<Rightarrow> Inl e
      | Inr path \<Rightarrow>
          (case ho_read_file h path of
             Inl e \<Rightarrow> Inl (label @ '': read JSON token file `'' @ path @ ''`: '' @ e)
           | Inr body \<Rightarrow>
               (case ho_json_str h body pointer of
                  Inl e \<Rightarrow> Inl (label @ '': parse JSON token file: '' @ e)
                | Inr found \<Rightarrow>
                    (case found of
                       Some token \<Rightarrow>
                         if \<not> trim_is_empty token then Inr token
                         else Inl (label @ '': JSON token file `'' @ path @ ''` missing string at `'' @ pointer @ ''`'')
                     | None \<Rightarrow>
                         Inl (label @ '': JSON token file `'' @ path @ ''` missing string at `'' @ pointer @ ''`'')))))"

fun native_label :: "native_oauth_kind \<Rightarrow> string" where
  "native_label NokCodex = ''codex_oauth''"
| "native_label NokClaudeCode = ''claude_code_oauth''"

fun refresh_hint :: "native_oauth_kind \<Rightarrow> string" where
  "refresh_hint NokCodex = ''run `codex` (or `codex login`) to refresh ~/.codex/auth.json''"
| "refresh_hint NokClaudeCode = ''run `claude setup-token` or relaunch Claude Code to refresh the token''"

definition read_json_token :: "'k host \<Rightarrow> string \<Rightarrow> string \<Rightarrow> native_oauth_kind \<Rightarrow> string + secret" where
  "read_json_token h file pointer kind = read_json_secret h file pointer (native_label kind)"

definition json_token_lease :: "'k host \<Rightarrow> json_token_source \<Rightarrow> string \<Rightarrow> string + credential_lease" where
  "json_token_lease h src account_id =
     (case read_json_secret h (jt_token_file src) (jt_access_token_pointer src) ''json_token'' of
        Inl e \<Rightarrow> Inl e
      | Inr access_token \<Rightarrow> Inr (lease_bearer account_id access_token))"

definition text_of :: "string option \<Rightarrow> string option" where
  "text_of v = (if has_text v then v else None)"

definition native_access_token :: "'k host \<Rightarrow> native_oauth_source \<Rightarrow> string + secret" where
  "native_access_token h src =
     (case nonempty_str (ns_token src) of
        Some token \<Rightarrow> Inr token
      | None \<Rightarrow>
          (case text_of (case text_of (ns_token_env src) of Some name \<Rightarrow> ho_env h name | None \<Rightarrow> None) of
             Some v \<Rightarrow> Inr v
           | None \<Rightarrow>
               (case text_of (ns_token_file src) of
                  Some file \<Rightarrow> read_json_token h file (ns_access_token_pointer src) (ns_kind src)
                | None \<Rightarrow> Inl (native_label (ns_kind src) @ '': no native OAuth access token source configured''))))"

definition codex_chatgpt_account_id :: "'k host \<Rightarrow> native_oauth_source \<Rightarrow> string + secret option" where
  "codex_chatgpt_account_id h src =
     (case text_of (ho_env h ''CODEX_ACCOUNT_ID'') of
        Some v \<Rightarrow> Inr (Some v)
      | None \<Rightarrow>
          (case text_of (ns_token_file src) of
             None \<Rightarrow> Inr None
           | Some file \<Rightarrow>
               (case read_json_token h file ''/tokens/account_id'' (ns_kind src) of
                  Inr v \<Rightarrow> Inr (Some v)
                | Inl err \<Rightarrow>
                    if str_contains err ''missing string at `/tokens/account_id`'' then Inr None else Inl err)))"

text \<open>Decimal rendering of a signed integer.\<close>

definition show_int :: "int \<Rightarrow> string" where
  "show_int i = (if i < 0 then CHR ''-'' # show_nat (nat (- i)) else show_nat (nat i))"

definition native_lease :: "'k host \<Rightarrow> native_oauth_source \<Rightarrow> string \<Rightarrow> string + credential_lease" where
  "native_lease h src account_id =
     (case native_access_token h src of
        Inl e \<Rightarrow> Inl e
      | Inr access_token \<Rightarrow>
          (case (case ho_jwt_exp h access_token of
                   Some exp \<Rightarrow> if exp \<le> ho_now_unix h then Some exp else None
                 | None \<Rightarrow> None) of
             Some exp \<Rightarrow>
               Inl (native_label (ns_kind src) @ '': native OAuth access token expired (exp '' @ show_int exp
                 @ ''); '' @ refresh_hint (ns_kind src))
           | None \<Rightarrow>
               if ns_kind src = NokCodex
               then (case codex_chatgpt_account_id h src of
                       Inl e \<Rightarrow> Inl e
                     | Inr (Some chatgpt) \<Rightarrow> Inr (lease_bearer_with_chatgpt_account account_id access_token chatgpt)
                     | Inr None \<Rightarrow> Inr (lease_bearer account_id access_token))
               else Inr (lease_bearer account_id access_token)))"

section \<open>Resolving a declaration\<close>

definition sa_key_from_json :: "'k host \<Rightarrow> string \<Rightarrow> string + 'k" where
  "sa_key_from_json h json =
     (case ho_parse_key h json of Inl e \<Rightarrow> Inl (''parse service-account key: '' @ e) | Inr k \<Rightarrow> Inr k)"

definition resolve_native ::
  "'k host \<Rightarrow> native_oauth_kind \<Rightarrow> native_oauth_fields \<Rightarrow> vault option \<Rightarrow> string \<Rightarrow> string + 'k resolved_auth" where
  "resolve_native h kind f vault what =
     try_with (resolve_optional_secret h (no_token_vault f) None None vault what)
       (\<lambda>token. Inr (RaNativeOauth \<lparr>ns_kind = kind, ns_token = token, ns_token_env = no_token_env f,
          ns_token_file = no_token_file f, ns_access_token_pointer = no_access_token_pointer f\<rparr>))"

fun resolve_auth :: "'k host \<Rightarrow> auth_config \<Rightarrow> vault option \<Rightarrow> string + 'k resolved_auth" where
  "resolve_auth h AuthNone vault = Inr RaNone"
| "resolve_auth h (AuthApiKey env inline vault_key) vault =
     try_with (resolve_secret h vault_key env inline vault ''api_key'') (\<lambda>s. Inr (RaApiKey s))"
| "resolve_auth h (AuthJsonToken token_file pointer) vault =
     Inr (RaJsonToken \<lparr>jt_token_file = token_file, jt_access_token_pointer = pointer\<rparr>)"
| "resolve_auth h (AuthKimiCodeOauth home) vault =
     try_with (resolve_kimi_home h home) (\<lambda>home. Inr (RaKimiCodeOauth home))"
| "resolve_auth h (AuthOauth f) vault =
     try_with (resolve_optional_secret h (oa_token_vault f) (oa_token_env f) (oa_token f) vault ''oauth access token'')
       (\<lambda>token. try_with (resolve_optional_secret h (oa_refresh_vault f) (oa_refresh_env f) (oa_refresh f) vault
            ''oauth refresh token'')
       (\<lambda>refresh. try_with (resolve_optional_secret h (oa_client_secret_vault f) (oa_client_secret_env f)
            (oa_client_secret f) vault ''oauth client secret'')
       (\<lambda>client_secret. Inr (RaOauth \<lparr>ro_token = token, ro_refresh = refresh, ro_refresh_vault = oa_refresh_vault f,
            ro_token_url = oa_token_url f, ro_client_id = oa_client_id f, ro_client_secret = client_secret\<rparr>))))"
| "resolve_auth h (AuthCodexOauth f) vault = resolve_native h NokCodex f vault ''codex oauth access token''"
| "resolve_auth h (AuthClaudeCodeOauth f) vault =
     resolve_native h NokClaudeCode f vault ''claude code oauth access token''"
| "resolve_auth h (AuthServiceAccount key_file key_env scope) vault =
     try_with (case (key_env, key_file) of
          (Some name, _) \<Rightarrow>
            (case ho_env h name of
               Some json \<Rightarrow> Inr json
             | None \<Rightarrow> Inl (''service_account: env `'' @ name @ ''` not set for key JSON''))
        | (None, Some path) \<Rightarrow>
            (case ho_read_file h path of
               Inr json \<Rightarrow> Inr json
             | Inl e \<Rightarrow> Inl (''service_account: read key file `'' @ path @ ''`: '' @ e))
        | (None, None) \<Rightarrow> Inl ''service_account: provide key_file or key_env'')
       (\<lambda>json. try_with (sa_key_from_json h json) (\<lambda>key. Inr (RaServiceAccount key scope)))"
| "resolve_auth h (AuthAwsSigV4 f) vault =
     try_with (resolve_secret h None (Some (sv_access_key_env f)) (sv_access_key f) vault ''aws_access_key_id'')
       (\<lambda>key. try_with (resolve_secret h None (Some (sv_secret_key_env f)) (sv_secret_key f) vault
            ''aws_secret_access_key'')
       (\<lambda>sec. try_with (resolve_optional_secret h None (sv_session_token_env f) (sv_session_token f) vault
            ''aws session token'')
       (\<lambda>token. Inr (RaAwsSigV4 key sec token))))"

end
