(* ===== verification/Provider_Config.thy ===== *)
theory Provider_Config
  imports Accounts Exec_Target
begin

text \<open>
  Provider declarations (\<open>sb-core/src/config.rs\<close>) and how the resolver reads them
  (\<open>sb-credentials/src/resolver.rs\<close>): the checks of \<open>validate_config\<close>, the account a
  provider without an \<open>accounts:\<close> list gets, and the pool that \<open>from_config\<close> builds for
  each provider. ComfyUI workflows are opaque (\<open>'w\<close>).
\<close>

section \<open>Declarations\<close>

datatype auth_scheme = SchemeNone | SchemeBearer | SchemeHeader string | SchemeQuery string

datatype open_ai_wire = WireChat | WireResponses

datatype 'w provider_kind =
    KindMock
  | KindOpenaiCompatible string "string option" "string option" "auth_scheme option" open_ai_wire
  | KindAnthropic string "string option" "string option" "auth_scheme option"
  | KindGemini string "string option" "string option"
  | KindVertex string string "string option" "string option" "string option"
  | KindBedrock string string string "string option" "string option"
  | KindComfyUi string "'w list"
  | KindFal string string "string option" "string option" f64
  | KindCodexNativeRelay "string option"
  | KindClaudeCodeNativeRelay "string option"

record account_config =
  acc_id :: string
  acc_auth :: auth_config
  acc_priority :: int
  acc_policy_tags :: "string list"
  acc_egress :: "string option"

datatype selection_strategy = FillFirst | RoundRobin

record capability_overrides =
  ov_vision_in :: "bool option"
  ov_vision_sources :: "image_source_kind list"
  ov_server_tools :: "bool option"
  ov_json_schema :: "bool option"
  ov_tool_calling :: "bool option"
  ov_parallel_tool_calls :: "bool option"
  ov_streaming :: "bool option"
  ov_audio_in :: "bool option"
  ov_file_in :: "bool option"
  ov_image_out :: "bool option"
  ov_reasoning_summary :: "bool option"
  ov_max_context_tokens :: "u32 option"
  ov_max_output_tokens :: "u32 option"

record 'w provider_config =
  pc_id :: string
  pc_kind :: "'w provider_kind"
  pc_model_hint :: "string option"
  pc_accounts :: "account_config list"
  pc_selection :: selection_strategy
  pc_sticky :: "u32 option"
  pc_egress :: "string option"
  pc_capabilities :: capability_overrides

definition no_overrides :: capability_overrides where
  "no_overrides = \<lparr>ov_vision_in = None, ov_vision_sources = [], ov_server_tools = None, ov_json_schema = None,
     ov_tool_calling = None, ov_parallel_tool_calls = None, ov_streaming = None, ov_audio_in = None,
     ov_file_in = None, ov_image_out = None, ov_reasoning_summary = None, ov_max_context_tokens = None,
     ov_max_output_tokens = None\<rparr>"

definition overrides_is_empty :: "capability_overrides \<Rightarrow> bool" where
  "overrides_is_empty o' \<longleftrightarrow> o' = no_overrides"

definition set_or :: "'a option \<Rightarrow> 'a \<Rightarrow> 'a" where
  "set_or o' d = (case o' of Some v \<Rightarrow> v | None \<Rightarrow> d)"

definition overrides_apply_to :: "capability_overrides \<Rightarrow> capability_profile \<Rightarrow> capability_profile" where
  "overrides_apply_to o' caps =
     caps\<lparr>cap_vision_in := set_or (ov_vision_in o') (cap_vision_in caps),
          cap_vision_sources := (if ov_vision_sources o' \<noteq> [] then ov_vision_sources o' else cap_vision_sources caps),
          cap_server_tools := set_or (ov_server_tools o') (cap_server_tools caps),
          cap_json_schema := set_or (ov_json_schema o') (cap_json_schema caps),
          cap_tool_calling := set_or (ov_tool_calling o') (cap_tool_calling caps),
          cap_parallel_tool_calls := set_or (ov_parallel_tool_calls o') (cap_parallel_tool_calls caps),
          cap_streaming := set_or (ov_streaming o') (cap_streaming caps),
          cap_audio_in := set_or (ov_audio_in o') (cap_audio_in caps),
          cap_file_in := set_or (ov_file_in o') (cap_file_in caps),
          cap_image_out := set_or (ov_image_out o') (cap_image_out caps),
          cap_reasoning_summary := set_or (ov_reasoning_summary o') (cap_reasoning_summary caps),
          cap_max_context_tokens :=
            (if ov_max_context_tokens o' \<noteq> None then ov_max_context_tokens o' else cap_max_context_tokens caps),
          cap_max_output_tokens :=
            (if ov_max_output_tokens o' \<noteq> None then ov_max_output_tokens o' else cap_max_output_tokens caps)\<rparr>"

section \<open>The synthesized account\<close>

definition api_key_auth :: "string option \<Rightarrow> string option \<Rightarrow> auth_config" where
  "api_key_auth api_key_env api_key =
     (if api_key \<noteq> None \<or> api_key_env \<noteq> None then AuthApiKey api_key_env api_key None else AuthNone)"

fun default_auth_for_kind :: "'w provider_kind \<Rightarrow> auth_config" where
  "default_auth_for_kind KindMock = AuthNone"
| "default_auth_for_kind (KindComfyUi base_url workflows) = AuthNone"
| "default_auth_for_kind (KindOpenaiCompatible base_url api_key_env api_key scheme wire) =
     api_key_auth api_key_env api_key"
| "default_auth_for_kind (KindAnthropic base_url api_key_env api_key scheme) = api_key_auth api_key_env api_key"
| "default_auth_for_kind (KindGemini base_url api_key_env api_key) = api_key_auth api_key_env api_key"
| "default_auth_for_kind (KindVertex project region base_url api_key_env api_key) = api_key_auth api_key_env api_key"
| "default_auth_for_kind (KindFal base_url platform api_key_env api_key threshold) = api_key_auth api_key_env api_key"
| "default_auth_for_kind (KindBedrock region access_key_env secret_key_env session_token_env base_url) =
     AuthAwsSigV4 \<lparr>sv_access_key_env = access_key_env, sv_access_key = None, sv_secret_key_env = secret_key_env,
       sv_secret_key = None, sv_session_token_env = session_token_env, sv_session_token = None\<rparr>"
| "default_auth_for_kind (KindCodexNativeRelay base_url) =
     AuthCodexOauth \<lparr>no_token_env = Some ''CODEX_ACCESS_TOKEN'', no_token_vault = None,
       no_token_file = Some ''${HOME}/.codex/auth.json'', no_access_token_pointer = ''/tokens/access_token''\<rparr>"
| "default_auth_for_kind (KindClaudeCodeNativeRelay base_url) =
     AuthClaudeCodeOauth \<lparr>no_token_env = Some ''CLAUDE_CODE_OAUTH_TOKEN'', no_token_vault = None,
       no_token_file = Some ''${HOME}/.claude/.credentials.json'',
       no_access_token_pointer = ''/claudeAiOauth/accessToken''\<rparr>"

section \<open>Validation\<close>

definition validate_optional_declaration :: "string option \<Rightarrow> string \<Rightarrow> string \<Rightarrow> string list \<Rightarrow> string list" where
  "validate_optional_declaration v path field problems =
     (if v \<noteq> None \<and> \<not> has_text v then problems @ [path @ ''.'' @ field @ '' is empty''] else problems)"

definition push_if :: "bool \<Rightarrow> string \<Rightarrow> string list \<Rightarrow> string list" where
  "push_if c problem problems = (if c then problems @ [problem] else problems)"

definition validate_native :: "native_oauth_fields \<Rightarrow> bool \<Rightarrow> string \<Rightarrow> string list \<Rightarrow> string list" where
  "validate_native f vault_configured path problems =
     (let p1 = validate_optional_declaration (no_token_env f) path ''token_env'' problems;
          p2 = validate_optional_declaration (no_token_vault f) path ''token_vault'' p1;
          p3 = validate_optional_declaration (no_token_file f) path ''token_file'' p2;
          p4 = push_if (no_access_token_pointer f = [] \<or> \<not> starts_with (no_access_token_pointer f) ''/'')
                 (path @ ''.access_token_pointer must be a JSON pointer'') p3
      in push_if (no_token_vault f \<noteq> None \<and> \<not> vault_configured)
           (path @ ''.token_vault requires top-level vault config'') p4)"

fun validate_auth_declaration :: "auth_config \<Rightarrow> bool \<Rightarrow> string \<Rightarrow> string list \<Rightarrow> string list" where
  "validate_auth_declaration AuthNone vault_configured path problems = problems"
| "validate_auth_declaration (AuthApiKey env inline vault) vault_configured path problems =
     (let p1 = validate_optional_declaration env path ''env'' problems;
          p2 = validate_optional_declaration inline path ''inline'' p1;
          p3 = validate_optional_declaration vault path ''vault'' p2
      in push_if (vault \<noteq> None \<and> \<not> vault_configured) (path @ ''.vault requires top-level vault config'') p3)"
| "validate_auth_declaration (AuthJsonToken token_file pointer) vault_configured path problems =
     push_if (pointer = [] \<or> \<not> starts_with pointer ''/'') (path @ ''.access_token_pointer must be a JSON pointer'')
       (push_if (trim_is_empty token_file) (path @ ''.token_file is empty'') problems)"
| "validate_auth_declaration (AuthKimiCodeOauth home) vault_configured path problems =
     validate_optional_declaration home path ''home'' problems"
| "validate_auth_declaration (AuthOauth f) vault_configured path problems =
     (let p1 = fold (\<lambda>(field, v). validate_optional_declaration v path field)
            [(''token_env'', oa_token_env f), (''token'', oa_token f), (''token_vault'', oa_token_vault f),
             (''refresh_env'', oa_refresh_env f), (''refresh'', oa_refresh f), (''refresh_vault'', oa_refresh_vault f),
             (''token_url'', oa_token_url f), (''client_id'', oa_client_id f),
             (''client_secret_env'', oa_client_secret_env f), (''client_secret'', oa_client_secret f),
             (''client_secret_vault'', oa_client_secret_vault f)] problems
      in push_if ((oa_token_vault f \<noteq> None \<or> oa_refresh_vault f \<noteq> None \<or> oa_client_secret_vault f \<noteq> None)
             \<and> \<not> vault_configured)
           (path @ '' has vault references without top-level vault config'') p1)"
| "validate_auth_declaration (AuthCodexOauth f) vault_configured path problems =
     validate_native f vault_configured path problems"
| "validate_auth_declaration (AuthClaudeCodeOauth f) vault_configured path problems =
     validate_native f vault_configured path problems"
| "validate_auth_declaration (AuthServiceAccount key_file key_env scope) vault_configured path problems =
     (let p1 = validate_optional_declaration key_file path ''key_file'' problems;
          p2 = validate_optional_declaration key_env path ''key_env'' p1;
          p3 = validate_optional_declaration scope path ''scope'' p2
      in push_if (\<not> has_text key_file \<and> \<not> has_text key_env) (path @ '' requires key_file or key_env'') p3)"
| "validate_auth_declaration (AuthAwsSigV4 f) vault_configured path problems =
     (let p1 = push_if (trim_is_empty (sv_access_key_env f) \<and> \<not> has_text (sv_access_key f))
                 (path @ '' requires access_key_env or access_key'') problems;
          p2 = push_if (trim_is_empty (sv_secret_key_env f) \<and> \<not> has_text (sv_secret_key f))
                 (path @ '' requires secret_key_env or secret_key'') p1;
          p3 = validate_optional_declaration (sv_session_token_env f) path ''session_token_env'' p2
      in validate_optional_declaration (sv_session_token f) path ''session_token'' p3)"

fun validate_accounts :: "bool \<Rightarrow> string \<Rightarrow> nat \<Rightarrow> account_config list \<Rightarrow> string list \<Rightarrow> string list" where
  "validate_accounts vault_configured prefix k [] problems = problems"
| "validate_accounts vault_configured prefix k (a # as) problems =
     validate_accounts vault_configured prefix (Suc k) as
       (validate_auth_declaration (acc_auth a) vault_configured (prefix @ show_nat k @ ''].auth'') problems)"

fun validate_providers :: "bool \<Rightarrow> nat \<Rightarrow> 'w provider_config list \<Rightarrow> string list \<Rightarrow> string list" where
  "validate_providers vault_configured k [] problems = problems"
| "validate_providers vault_configured k (p # ps) problems =
     validate_providers vault_configured (Suc k) ps
       (if pc_accounts p = []
        then validate_auth_declaration (default_auth_for_kind (pc_kind p)) vault_configured
               (''providers['' @ show_nat k @ ''] default auth'') problems
        else validate_accounts vault_configured (''providers['' @ show_nat k @ ''].accounts['') 0
               (pc_accounts p) problems)"

definition validate_config :: "bool \<Rightarrow> 'w provider_config list \<Rightarrow> string + unit" where
  "validate_config vault_configured providers =
     (let problems = validate_providers vault_configured 0 providers []
      in if problems = [] then Inr () else Inl (join_with ''; '' problems))"

section \<open>Building the pools\<close>

record 'k provider_accounts =
  pa_accounts :: "'k account list"
  pa_strategy :: selection_strategy
  pa_sticky :: u32

fun is_missing_runtime_api_key :: "auth_config \<Rightarrow> string \<Rightarrow> bool" where
  "is_missing_runtime_api_key (AuthApiKey env inline None) err = starts_with err ''no api_key:''"
| "is_missing_runtime_api_key _ err = False"

definition resolve_account_auth :: "'k host \<Rightarrow> auth_config \<Rightarrow> vault option \<Rightarrow> string + 'k resolved_auth option" where
  "resolve_account_auth h auth vault =
     (case resolve_auth h auth vault of
        Inr resolved \<Rightarrow> Inr (Some resolved)
      | Inl err \<Rightarrow> if is_missing_runtime_api_key auth err then Inr None else Inl err)"

fun build_accounts ::
  "'k host \<Rightarrow> vault option \<Rightarrow> string \<Rightarrow> account_config list \<Rightarrow> string + 'k account list" where
  "build_accounts h vault provider_id [] = Inr []"
| "build_accounts h vault provider_id (ac # acs) =
     (case resolve_account_auth h (acc_auth ac) vault of
        Inl e \<Rightarrow> Inl (''provider '' @ provider_id @ '' account '' @ acc_id ac @ '': '' @ e)
      | Inr resolved \<Rightarrow>
          try_with (build_accounts h vault provider_id acs)
            (\<lambda>accounts. Inr (case resolved of
                 None \<Rightarrow> accounts
               | Some auth \<Rightarrow> \<lparr>ac_id = acc_id ac, ac_provider_id = provider_id, ac_auth = auth,
                    ac_priority = acc_priority ac, ac_policy_tags = acc_policy_tags ac\<rparr> # accounts)))"

definition build_provider_accounts ::
  "'k host \<Rightarrow> 'w provider_config \<Rightarrow> vault option \<Rightarrow> string + 'k provider_accounts" where
  "build_provider_accounts h provider vault =
     try_with
       (if pc_accounts provider = []
        then (case resolve_account_auth h (default_auth_for_kind (pc_kind provider)) vault of
                Inl e \<Rightarrow> Inl (''provider '' @ pc_id provider @ '' default account: '' @ e)
              | Inr None \<Rightarrow> Inr []
              | Inr (Some auth) \<Rightarrow>
                  Inr [\<lparr>ac_id = ''default'', ac_provider_id = pc_id provider, ac_auth = auth, ac_priority = 0,
                        ac_policy_tags = []\<rparr>])
        else build_accounts h vault (pc_id provider) (pc_accounts provider))
       (\<lambda>accounts. Inr \<lparr>pa_accounts = sort_key ac_priority accounts, pa_strategy = pc_selection provider,
          pa_sticky = max (case pc_sticky provider of Some s \<Rightarrow> s | None \<Rightarrow> 1) 1\<rparr>)"

end
