(* ===== verification/Provider_Facts.thy ===== *)
theory Provider_Facts
  imports Provider_Config
begin

text \<open>
  What validation and pool construction guarantee: a configuration accepted without a vault
  never needs one, and every pool is sorted by priority, belongs to its provider and has a
  positive stickiness.
\<close>

section \<open>Validation collects problems\<close>

lemma validate_optional_Nil:
  "validate_optional_declaration v path field problems = [] \<longleftrightarrow> problems = [] \<and> (v = None \<or> has_text v)"
  by (simp add: validate_optional_declaration_def)

lemma push_if_Nil: "push_if c problem problems = [] \<longleftrightarrow> problems = [] \<and> \<not> c"
  by (simp add: push_if_def)

lemma validate_fields_Nil:
  "fold (\<lambda>(field, v). validate_optional_declaration v path field) fs problems = [] \<longleftrightarrow>
     problems = [] \<and> (\<forall>(field, v) \<in> set fs. v = None \<or> has_text v)"
  by (induction fs arbitrary: problems) (auto simp: validate_optional_Nil)

lemmas no_problems = validate_optional_Nil push_if_Nil validate_fields_Nil

lemma validate_auth_Nil: "validate_auth_declaration a vc path problems = [] \<Longrightarrow> problems = []"
  by (cases a) (simp_all add: Let_def no_problems validate_native_def del: fold_simps)

text \<open>The vault references of a declaration.\<close>

fun vault_refs :: "auth_config \<Rightarrow> string option list" where
  "vault_refs (AuthApiKey env inline vault) = [vault]"
| "vault_refs (AuthOauth f) = [oa_token_vault f, oa_refresh_vault f, oa_client_secret_vault f]"
| "vault_refs (AuthCodexOauth f) = [no_token_vault f]"
| "vault_refs (AuthClaudeCodeOauth f) = [no_token_vault f]"
| "vault_refs _ = []"

lemma validated_without_vault:
  assumes "validate_auth_declaration a False path problems = []"
  shows "\<forall>v \<in> set (vault_refs a). v = None"
  using assms by (cases a) (simp_all add: Let_def no_problems validate_native_def del: fold_simps)

lemma resolve_secret_vault_free:
  "resolve_secret h None env inline (Some v) what = resolve_secret h None env inline None what"
  by (simp only: resolve_secret_def option.case)

lemma resolve_optional_vault_free:
  "resolve_optional_secret h None env inline (Some v) what = resolve_optional_secret h None env inline None what"
  by (simp only: resolve_optional_secret_def resolve_secret_vault_free)

lemma resolve_auth_vault_free:
  assumes "\<forall>v \<in> set (vault_refs a). v = None"
  shows "resolve_auth h a vault = resolve_auth h a None"
proof (cases vault)
  case (Some v)
  then show ?thesis
    using assms
    by (cases a) (simp_all add: resolve_secret_vault_free resolve_optional_vault_free resolve_native_def)
qed simp

lemma resolve_account_vault_free:
  assumes "\<forall>v \<in> set (vault_refs a). v = None"
  shows "resolve_account_auth h a vault = resolve_account_auth h a None"
  using resolve_auth_vault_free [OF assms, of h vault] by (simp add: resolve_account_auth_def)

lemma validate_accounts_Nil:
  assumes "validate_accounts False prefix k as problems = []"
  shows "problems = [] \<and> (\<forall>a \<in> set as. \<forall>v \<in> set (vault_refs (acc_auth a)). v = None)"
  using assms
proof (induction as arbitrary: k problems)
  case Nil
  then show ?case by simp
next
  case (Cons a as)
  then have ok: "validate_auth_declaration (acc_auth a) False (prefix @ show_nat k @ ''].auth'') problems = []"
    and rest: "\<forall>a \<in> set as. \<forall>v \<in> set (vault_refs (acc_auth a)). v = None"
    using Cons.IH [of "Suc k" "validate_auth_declaration (acc_auth a) False (prefix @ show_nat k @ ''].auth'') problems"]
    by simp_all
  show ?case
    using validate_auth_Nil [OF ok] validated_without_vault [OF ok] rest by simp
qed

lemma build_accounts_vault_free:
  assumes "\<forall>a \<in> set as. \<forall>v \<in> set (vault_refs (acc_auth a)). v = None"
  shows "build_accounts h vault p as = build_accounts h None p as"
  using assms
proof (induction as)
  case (Cons a as)
  then show ?case
    using resolve_account_vault_free [of "acc_auth a" h vault] by (simp split: sum.splits)
qed simp

lemma validate_providers_Nil:
  assumes "validate_providers False k ps problems = []"
  shows "problems = [] \<and> (\<forall>p \<in> set ps. build_provider_accounts h p vault = build_provider_accounts h p None)"
  using assms
proof (induction ps arbitrary: k problems)
  case Nil
  then show ?case by simp
next
  case (Cons p ps)
  let ?next = "if pc_accounts p = []
     then validate_auth_declaration (default_auth_for_kind (pc_kind p)) False (''providers['' @ show_nat k @ ''] default auth'') problems
     else validate_accounts False (''providers['' @ show_nat k @ ''].accounts['') 0 (pc_accounts p) problems"
  have rest: "?next = []" "\<forall>p \<in> set ps. build_provider_accounts h p vault = build_provider_accounts h p None"
    using Cons.IH [of "Suc k" ?next] Cons.prems by simp_all
  have "problems = [] \<and> build_provider_accounts h p vault = build_provider_accounts h p None"
  proof (cases "pc_accounts p = []")
    case True
    then have ok: "validate_auth_declaration (default_auth_for_kind (pc_kind p)) False
        (''providers['' @ show_nat k @ ''] default auth'') problems = []"
      using rest(1) by (simp del: append_Cons append_Nil)
    show ?thesis
      using True validate_auth_Nil [OF ok] resolve_account_vault_free [OF validated_without_vault [OF ok], of h vault]
      by (simp add: build_provider_accounts_def)
  next
    case False
    then show ?thesis
      using rest(1) validate_accounts_Nil [of "''providers['' @ show_nat k @ ''].accounts[''" 0 "pc_accounts p" problems]
        build_accounts_vault_free [of "pc_accounts p" h vault "pc_id p"]
      by (simp add: build_provider_accounts_def)
  qed
  then show ?case
    using rest(2) by simp
qed

text \<open>
  A configuration that validates without a top-level vault never reads one: whatever vault
  were supplied, every provider's pool would be the same, success or failure.
\<close>

theorem validated_config_needs_no_vault:
  assumes "validate_config False providers = Inr ()" and "p \<in> set providers"
  shows "build_provider_accounts h p vault = build_provider_accounts h p None"
  using assms validate_providers_Nil [of 0 providers "[]" h vault]
  by (simp add: validate_config_def Let_def split: if_splits)

section \<open>Pools\<close>

lemma build_accounts_owner:
  "build_accounts h vault p as = Inr acs \<Longrightarrow>
     \<forall>a \<in> set acs. ac_provider_id a = p \<and> (\<exists>c \<in> set as. ac_id a = acc_id c \<and> ac_priority a = acc_priority c)"
proof (induction as arbitrary: acs)
  case Nil
  then show ?case by simp
next
  case (Cons c as)
  obtain resolved rest where res: "resolve_account_auth h (acc_auth c) vault = Inr resolved"
    and rest: "build_accounts h vault p as = Inr rest"
    using Cons.prems by (auto simp: try_with_Inr split: sum.splits)
  then show ?case
    using Cons.prems Cons.IH [OF rest] by (auto split: option.splits)
qed

text \<open>
  Every pool the configuration gives is well formed: its accounts are sorted by priority and
  belong to the provider, the declared ones under their declared ids (or the one account
  \<open>default\<close> when none is declared), and its stickiness is at least one.
\<close>

theorem built_pool_well_formed:
  assumes "build_provider_accounts h provider vault = Inr pa"
  shows "sorted (map ac_priority (pa_accounts pa)) \<and> 0 < pa_sticky pa \<and> pa_strategy pa = pc_selection provider
    \<and> (\<forall>a. a \<in> set (pa_accounts pa) \<longrightarrow> ac_provider_id a = pc_id provider
        \<and> ac_id a \<in> (if pc_accounts provider = [] then {''default''} else set (map acc_id (pc_accounts provider))))"
proof -
  obtain acs where acs: "(if pc_accounts provider = []
        then (case resolve_account_auth h (default_auth_for_kind (pc_kind provider)) vault of
                Inl e \<Rightarrow> Inl (''provider '' @ pc_id provider @ '' default account: '' @ e)
              | Inr None \<Rightarrow> Inr []
              | Inr (Some auth) \<Rightarrow>
                  Inr [\<lparr>ac_id = ''default'', ac_provider_id = pc_id provider, ac_auth = auth, ac_priority = 0,
                        ac_policy_tags = []\<rparr>])
        else build_accounts h vault (pc_id provider) (pc_accounts provider)) = Inr acs"
    and pa: "pa = \<lparr>pa_accounts = sort_key ac_priority acs, pa_strategy = pc_selection provider,
          pa_sticky = max (case pc_sticky provider of Some s \<Rightarrow> s | None \<Rightarrow> 1) 1\<rparr>"
    using assms by (auto simp: build_provider_accounts_def try_with_Inr)
  have "0 < max s 1" for s :: u32
    by (simp add: less_max_iff_disj)
  moreover have "\<forall>a \<in> set acs. ac_provider_id a = pc_id provider
      \<and> ac_id a \<in> (if pc_accounts provider = [] then {''default''} else set (map acc_id (pc_accounts provider)))"
    using acs build_accounts_owner [of h vault "pc_id provider" "pc_accounts provider" acs]
    by (auto split: if_splits sum.splits option.splits)
  ultimately show ?thesis
    by (simp add: pa)
qed

section \<open>Witnesses\<close>

text \<open>A host that knows one environment variable.\<close>

definition key_host :: "unit host" where
  "key_host = \<lparr>ho_env = [''KEY'' \<mapsto> ''sk''], ho_read_file = (\<lambda>_. Inl ''not found''), ho_json_str = (\<lambda>_ _. Inr None),
     ho_jwt_exp = (\<lambda>_. None), ho_now_unix = 0, ho_parse_key = (\<lambda>_. Inl ''bad key'')\<rparr>"

definition keyed_provider :: "unit provider_config" where
  "keyed_provider = \<lparr>pc_id = ''p'', pc_kind = KindAnthropic ''https://a'' None None None, pc_model_hint = None,
     pc_accounts = [\<lparr>acc_id = ''two'', acc_auth = AuthApiKey (Some ''KEY'') None None, acc_priority = 2,
         acc_policy_tags = [], acc_egress = None\<rparr>,
       \<lparr>acc_id = ''one'', acc_auth = AuthApiKey (Some ''KEY'') None None, acc_priority = 1, acc_policy_tags = [],
         acc_egress = None\<rparr>],
     pc_selection = RoundRobin, pc_sticky = None, pc_egress = None, pc_capabilities = no_overrides\<rparr>"

lemmas keyed_defs = keyed_provider_def key_host_def build_provider_accounts_def resolve_account_auth_def
  resolve_secret_def nonempty_str_def

theorem validated_config_needs_no_vault_witness:
  "build_provider_accounts key_host keyed_provider (Some [''KEY'' \<mapsto> ''other'']) =
     build_provider_accounts key_host keyed_provider None"
  by (rule validated_config_needs_no_vault [of "[keyed_provider]"])
    (simp_all add: validate_config_def keyed_provider_def Let_def push_if_def validate_optional_declaration_def
      has_text_def trim_is_empty_def ascii_space_def)

definition keyed_pool :: "unit provider_accounts" where
  "keyed_pool = \<lparr>pa_accounts = [
       \<lparr>ac_id = ''one'', ac_provider_id = ''p'', ac_auth = RaApiKey ''sk'', ac_priority = 1, ac_policy_tags = []\<rparr>,
       \<lparr>ac_id = ''two'', ac_provider_id = ''p'', ac_auth = RaApiKey ''sk'', ac_priority = 2, ac_policy_tags = []\<rparr>],
     pa_strategy = RoundRobin, pa_sticky = 1\<rparr>"

theorem built_pool_well_formed_witness:
  "build_provider_accounts key_host keyed_provider None = Inr keyed_pool \<and> sorted (map ac_priority (pa_accounts keyed_pool))"
proof -
  have built: "build_provider_accounts key_host keyed_provider None = Inr keyed_pool"
    by (simp add: keyed_defs keyed_pool_def)
  with built_pool_well_formed [OF built] show ?thesis by simp
qed

end
