(* ===== verification/Availability.thy ===== *)
theory Availability
  imports Ordered_Map Error_Class "HOL-Library.AList"
begin

text \<open>
  Per-(account, model) availability with cooldowns
  (\<open>sb-credentials/src/availability.rs\<close>): the locks each account holds, the exponential
  backoff level, and the six operations on the shared map, each one atomic under its mutex.
  The outer map is never iterated and is a partial map; the locks of one account are iterated
  by \<open>locks_for\<close> and are an association list with distinct keys, in some iteration order.
\<close>

section \<open>State\<close>

definition MODEL_ALL :: string where
  "MODEL_ALL = ''__all__''"

record lock_entry =
  lk_unlock_at :: instant
  lk_class :: error_class

record account_state =
  as_locks :: "(string \<times> lock_entry) list"
  as_backoff_level :: u32

definition default_account_state :: account_state where
  "default_account_state = \<lparr>as_locks = [], as_backoff_level = 0\<rparr>"

record lock_snapshot =
  ls_model :: "string option"
  ls_retry_after :: duration
  ls_error_class :: error_class

type_synonym availability = "string \<times> string \<rightharpoonup> account_state"

definition new_availability :: availability where
  "new_availability = Map.empty"

section \<open>Cooldown policy\<close>

definition is_locked :: "account_state \<Rightarrow> string \<Rightarrow> instant \<Rightarrow> bool" where
  "is_locked state model_key now =
     (case map_of (as_locks state) model_key of Some lock \<Rightarrow> now < lk_unlock_at lock | None \<Rightarrow> False)"

definition account_wide :: "error_class \<Rightarrow> bool" where
  "account_wide c \<longleftrightarrow> c \<in> {Authentication, Authorization}"

definition is_backoff :: "error_class \<Rightarrow> bool" where
  "is_backoff c \<longleftrightarrow> c \<in> {RateLimited, QuotaExceeded, ProviderOverloaded}"

text \<open>\<open>2000u64.saturating_mul(1u64 << level.min(8)).min(300_000)\<close>\<close>

definition sat_mul :: "'a::len word \<Rightarrow> 'a word \<Rightarrow> 'a word" where
  "sat_mul a b = (if unat a * unat b < 2 ^ LENGTH('a) then a * b else - 1)"

definition backoff_ms :: "u32 \<Rightarrow> u64" where
  "backoff_ms level = min (sat_mul 2000 (push_bit (unat (min level 8)) 1)) 300000"

definition cooldown_for :: "error_class \<Rightarrow> u32 \<Rightarrow> duration" where
  "cooldown_for c backoff_level =
     (if c \<in> {RateLimited, QuotaExceeded, ProviderOverloaded} then unat (backoff_ms backoff_level)
      else if c \<in> {Authentication, Authorization} then duration_secs 120
      else duration_secs 30)"

section \<open>Operations\<close>

definition is_available :: "availability \<Rightarrow> string \<Rightarrow> string \<Rightarrow> string \<Rightarrow> instant \<Rightarrow> bool" where
  "is_available av provider account model now =
     (case av (provider, account) of
        None \<Rightarrow> True
      | Some state \<Rightarrow> \<not> is_locked state MODEL_ALL now \<and> \<not> is_locked state model now)"

definition report_failure ::
  "string \<Rightarrow> string \<Rightarrow> string \<Rightarrow> error_class \<Rightarrow> instant \<Rightarrow> availability \<Rightarrow> duration \<times> availability" where
  "report_failure provider account model c now av =
     (if is_client_error c \<or> c = SafetyBlocked then (0, av)
      else let state = (case av (provider, account) of Some s \<Rightarrow> s | None \<Rightarrow> default_account_state);
               cooldown = cooldown_for c (as_backoff_level state);
               model_key = (if account_wide c then MODEL_ALL else model);
               state1 = state\<lparr>as_locks := AList.update model_key
                          \<lparr>lk_unlock_at = now + cooldown, lk_class = c\<rparr> (as_locks state)\<rparr>;
               state2 = (if is_backoff c
                         then state1\<lparr>as_backoff_level := sat_add (as_backoff_level state1) 1\<rparr>
                         else state1)
           in (cooldown, av((provider, account) \<mapsto> state2)))"

definition report_success :: "string \<Rightarrow> string \<Rightarrow> availability \<Rightarrow> availability" where
  "report_success provider account av =
     (case av (provider, account) of
        Some state \<Rightarrow> av((provider, account) \<mapsto> state\<lparr>as_locks := [], as_backoff_level := 0\<rparr>)
      | None \<Rightarrow> av)"

definition opt_list_min :: "instant list \<Rightarrow> instant option" where
  "opt_list_min xs = (case xs of [] \<Rightarrow> None | y # ys \<Rightarrow> Some (foldl min y ys))"

definition earliest_unlock :: "availability \<Rightarrow> string \<Rightarrow> string list \<Rightarrow> string \<Rightarrow> instant \<Rightarrow> instant option" where
  "earliest_unlock av provider accounts model now =
     opt_list_min (filter (\<lambda>unlock. now < unlock)
       (concat (map (\<lambda>state. map lk_unlock_at (List.map_filter id
            [map_of (as_locks state) MODEL_ALL, map_of (as_locks state) model]))
          (List.map_filter (\<lambda>account. av (provider, account)) accounts))))"

definition locks_for :: "availability \<Rightarrow> string \<Rightarrow> string \<Rightarrow> string \<Rightarrow> instant \<Rightarrow> lock_snapshot list" where
  "locks_for av provider account model now =
     (case av (provider, account) of
        None \<Rightarrow> []
      | Some state \<Rightarrow>
          sort_key ls_retry_after
            (map (\<lambda>(model_key, lock).
                \<lparr>ls_model = (if model_key \<noteq> MODEL_ALL then Some model_key else None),
                 ls_retry_after = lk_unlock_at lock - now, ls_error_class = lk_class lock\<rparr>)
              (filter (\<lambda>(model_key, lock). now < lk_unlock_at lock
                  \<and> (model = [] \<or> model_key = MODEL_ALL \<or> model_key = model)) (as_locks state))))"

definition reset_lockout :: "string \<Rightarrow> string \<Rightarrow> string option \<Rightarrow> availability \<Rightarrow> bool \<times> availability" where
  "reset_lockout provider account model av =
     (case av (provider, account) of
        None \<Rightarrow> (False, av)
      | Some state \<Rightarrow>
          let (cleared, locks) =
            (case model of
               Some m \<Rightarrow> (map_of (as_locks state) m \<noteq> None, AList.delete m (as_locks state))
             | None \<Rightarrow> (as_locks state \<noteq> [], []))
          in if locks = [] then (cleared, av((provider, account) := None))
             else (cleared, av((provider, account) \<mapsto> state\<lparr>as_locks := locks\<rparr>)))"

section \<open>Reachable states\<close>

inductive avail_step :: "availability \<Rightarrow> availability \<Rightarrow> bool" where
  step_failure: "avail_step av (snd (report_failure p a m c now av))"
| step_success: "avail_step av (report_success p a av)"
| step_reset: "avail_step av (snd (reset_lockout p a mo av))"

inductive avail_reachable :: "availability \<Rightarrow> bool" where
  avail_new: "avail_reachable new_availability"
| avail_next: "avail_reachable av \<Longrightarrow> avail_step av av' \<Longrightarrow> avail_reachable av'"

inductive_cases avail_stepE: "avail_step av av'"

definition avail_ok :: "availability \<Rightarrow> bool" where
  "avail_ok av \<longleftrightarrow> (\<forall>k s. av k = Some s \<longrightarrow> distinct (map fst (as_locks s)))"

lemma avail_ok_upd: "avail_ok av \<Longrightarrow> distinct (map fst (as_locks s)) \<Longrightarrow> avail_ok (av(k \<mapsto> s))"
  by (simp add: avail_ok_def)

lemma avail_ok_clear: "avail_ok av \<Longrightarrow> avail_ok (av(k := None))"
  by (simp add: avail_ok_def)

lemma avail_step_ok:
  assumes "avail_step av av'" and "avail_ok av"
  shows "avail_ok av'"
  using assms
proof (cases rule: avail_step.cases)
  case (step_failure p a m c now)
  then show ?thesis
    using assms(2) by (auto simp: report_failure_def Let_def avail_ok_def default_account_state_def
        distinct_update split: option.splits)
next
  case (step_success p a)
  then show ?thesis
    using assms(2) by (auto simp: report_success_def intro!: avail_ok_upd split: option.splits)
next
  case (step_reset p a mo)
  then show ?thesis
    using assms(2) by (auto simp: reset_lockout_def Let_def avail_ok_def distinct_delete split: option.splits)
qed

lemma avail_reachable_ok: "avail_reachable av \<Longrightarrow> avail_ok av"
proof (induction rule: avail_reachable.induct)
  case avail_new
  show ?case by (simp add: avail_ok_def new_availability_def)
next
  case (avail_next av av')
  then show ?case by (simp add: avail_step_ok)
qed

section \<open>The lock table it implements\<close>

text \<open>
  The abstract view: one unlock time per (provider, account, model key), in the past when
  there is no lock.
\<close>

type_synonym lock_times = "string \<times> string \<times> string \<Rightarrow> instant"

definition lock_table :: "availability \<Rightarrow> lock_times" where
  "lock_table av = (\<lambda>(p, a, k). case av (p, a) of
      None \<Rightarrow> 0 | Some s \<Rightarrow> (case map_of (as_locks s) k of Some l \<Rightarrow> lk_unlock_at l | None \<Rightarrow> 0))"

definition backoff_of :: "availability \<Rightarrow> string \<Rightarrow> string \<Rightarrow> u32" where
  "backoff_of av p a = (case av (p, a) of Some s \<Rightarrow> as_backoff_level s | None \<Rightarrow> 0)"

definition lock_key :: "error_class \<Rightarrow> string \<Rightarrow> string" where
  "lock_key c model = (if account_wide c then MODEL_ALL else model)"

lemma is_available_table:
  "is_available av p a m now \<longleftrightarrow> lock_table av (p, a, MODEL_ALL) \<le> now \<and> lock_table av (p, a, m) \<le> now"
  by (auto simp: is_available_def lock_table_def is_locked_def not_less split: option.splits)

lemma report_failure_table:
  assumes "\<not> is_client_error c" and "c \<noteq> SafetyBlocked"
  shows "lock_table (snd (report_failure p a m c now av)) =
      (lock_table av)((p, a, lock_key c m) := now + fst (report_failure p a m c now av))"
    and "fst (report_failure p a m c now av) = cooldown_for c (backoff_of av p a)"
    and "backoff_of (snd (report_failure p a m c now av)) p a =
      (if is_backoff c then sat_add (backoff_of av p a) 1 else backoff_of av p a)"
  using assms
  by (auto simp: report_failure_def lock_table_def backoff_of_def lock_key_def Let_def fun_eq_iff update_conv
      default_account_state_def split: option.splits)

section \<open>Backoff\<close>

lemma push_bit_one_word: "k \<le> 8 \<Longrightarrow> unat (push_bit k 1 :: u64) = 2 ^ k"
proof -
  assume "k \<le> 8"
  then have "(2::nat) ^ k \<le> 2 ^ 8" by (intro power_increasing) simp_all
  then have "unat (word_of_nat (2 ^ k) :: u64) = 2 ^ k"
    by (intro unat_word_of_nat) simp
  then show ?thesis
    by (simp add: push_bit_eq_mult)
qed

lemma min_unat: "unat (min a b) = min (unat a) (unat b)"
  by (simp add: min_def word_le_nat_alt)

lemma backoff_ms_value: "unat (backoff_ms level) = min (2000 * 2 ^ min (unat level) 8) 300000"
proof -
  let ?k = "min (unat level) 8"
  have pw: "unat (push_bit ?k 1 :: u64) = 2 ^ ?k"
    by (rule push_bit_one_word) simp
  have "(2::nat) ^ ?k \<le> 2 ^ 8"
    by (intro power_increasing) simp_all
  then have small: "2000 * 2 ^ ?k < (2::nat) ^ 64"
    by simp
  have "unat (sat_mul 2000 (push_bit ?k 1) :: u64) = 2000 * 2 ^ ?k"
    using small pw by (simp add: sat_mul_def unat_word_ariths)
  then show ?thesis
    by (simp add: backoff_ms_def min_unat)
qed

lemma backoff_ms_cap: "unat (backoff_ms level) = min (2000 * 2 ^ unat level) 300000"
proof (cases "unat level \<le> 8")
  case True
  then show ?thesis by (simp add: backoff_ms_value)
next
  case False
  then have "(2::nat) ^ 8 \<le> 2 ^ unat level"
    by (intro power_increasing) simp_all
  with False show ?thesis by (simp add: backoff_ms_value)
qed

definition rate_limit :: "string \<Rightarrow> string \<Rightarrow> string \<times> instant \<Rightarrow> availability \<Rightarrow> availability" where
  "rate_limit p a = (\<lambda>(m, now) av. snd (report_failure p a m RateLimited now av))"

lemma rate_limit_backoff: "backoff_of (rate_limit p a f av) p a = sat_add (backoff_of av p a) 1"
  by (cases f) (simp add: rate_limit_def report_failure_table is_client_error_def is_backoff_def)

lemma rate_limits_backoff:
  "backoff_of av p a = 0 \<Longrightarrow> unat (backoff_of (fold (rate_limit p a) fs av) p a) = min (length fs) (2 ^ 32 - 1)"
proof (induction fs rule: rev_induct)
  case (snoc f fs)
  then show ?case by (simp add: rate_limit_backoff unat_sat_add)
qed simp

lemma report_success_backoff: "backoff_of (report_success p a av) p a = 0"
  by (simp add: report_success_def backoff_of_def split: option.splits)

lemma report_success_table:
  "lock_table (report_success p a av) = (\<lambda>(q, b, k). if (q, b) = (p, a) then 0 else lock_table av (q, b, k))"
  by (auto simp: report_success_def lock_table_def fun_eq_iff split: option.splits)

text \<open>
  The \<open>n\<close>-th rate-limit failure of an account since its last success (counted from 0,
  whichever models it hits) is answered with a cooldown of \<open>2000 * 2 ^ n\<close> milliseconds capped
  at five minutes: neither the shift, the product nor the level overflows.
\<close>

theorem backoff_doubles_to_cap:
  "fst (report_failure p a m RateLimited now (fold (rate_limit p a) fs (report_success p a av))) =
     min (2000 * 2 ^ length fs) 300000"
proof -
  let ?level = "backoff_of (fold (rate_limit p a) fs (report_success p a av)) p a"
  have level: "unat ?level = min (length fs) (2 ^ 32 - 1)"
    by (rule rate_limits_backoff) (rule report_success_backoff)
  have "fst (report_failure p a m RateLimited now (fold (rate_limit p a) fs (report_success p a av))) =
      min (2000 * 2 ^ unat ?level) 300000"
    by (simp add: report_failure_table is_client_error_def cooldown_for_def backoff_ms_cap)
  also have "\<dots> = min (2000 * 2 ^ length fs) 300000"
  proof (cases "length fs \<le> 2 ^ 32 - 1")
    case False
    then have "(2::nat) ^ 8 \<le> 2 ^ length fs" and "8 \<le> unat ?level"
      by (simp_all only: level, intro power_increasing, simp_all)
    moreover from this(2) have "(2::nat) ^ 8 \<le> 2 ^ unat ?level"
      by (intro power_increasing) simp_all
    ultimately show ?thesis by simp
  qed (simp add: level)
  finally show ?thesis .
qed

text \<open>A history of failures of one account, whichever models and classes they have.\<close>

definition account_failure :: "string \<Rightarrow> string \<Rightarrow> string \<times> error_class \<times> instant \<Rightarrow> availability \<Rightarrow> availability" where
  "account_failure p a = (\<lambda>(m, c, now) av. snd (report_failure p a m c now av))"

lemma failure_backoff:
  "backoff_of (account_failure p a (m, c, now) av) p a = (if is_backoff c then sat_add (backoff_of av p a) 1 else backoff_of av p a)"
proof (cases "is_client_error c \<or> c = SafetyBlocked")
  case True
  then show ?thesis
    by (cases c) (simp_all add: account_failure_def report_failure_def is_backoff_def is_client_error_def)
next
  case False
  then show ?thesis by (simp add: account_failure_def report_failure_table)
qed

lemma failures_backoff:
  "backoff_of av p a = 0 \<Longrightarrow> unat (backoff_of (fold (account_failure p a) fs av) p a) =
     min (length (filter (\<lambda>(m, c, now). is_backoff c) fs)) (2 ^ 32 - 1)"
proof (induction fs rule: rev_induct)
  case (snoc f fs)
  obtain m c now where f: "f = (m, c, now)" by (cases f)
  show ?case
  proof (cases "is_backoff c")
    case True
    with snoc show ?thesis by (simp add: f failure_backoff unat_sat_add)
  next
    case False
    with snoc show ?thesis by (simp add: f failure_backoff)
  qed
qed simp

lemma capped_level:
  assumes "8 \<le> cap"
  shows "min (2000 * 2 ^ min n cap) (300000 :: nat) = min (2000 * 2 ^ n) 300000"
proof (cases "n \<le> cap")
  case False
  have "(2 :: nat) ^ 8 \<le> 2 ^ n" "(2 :: nat) ^ 8 \<le> 2 ^ cap"
    using assms False by (simp_all only: power_increasing one_le_numeral)
  then have "300000 \<le> 2000 * (2 :: nat) ^ n" "300000 \<le> 2000 * (2 :: nat) ^ cap" by simp_all
  with False show ?thesis by simp
qed simp


text \<open>
  After a success every model of the account is available, at every time, and the other
  accounts are as they were.
\<close>

theorem report_success_unlocks:
  "is_available (report_success p a av) q b m t \<longleftrightarrow> (q, b) = (p, a) \<or> is_available av q b m t"
  by (auto simp: is_available_table report_success_table)

section \<open>Reading the locks\<close>

lemma opt_list_min_eq: "opt_list_min xs = (if xs = [] then None else Some (Min (set xs)))"
  by (cases xs) (simp_all add: opt_list_min_def foldl_conv_fold Min.set_eq_fold [symmetric] min.commute
      flip: Min.set_eq_fold)

lemma opt_list_min_set: "set xs = S \<Longrightarrow> opt_list_min xs = (if S = {} then None else Some (Min S))"
  by (auto simp: opt_list_min_eq)

text \<open>The unlock times \<open>earliest_unlock\<close> collects: both running locks of every account.\<close>

definition running_locks :: "availability \<Rightarrow> string \<Rightarrow> string list \<Rightarrow> string \<Rightarrow> instant \<Rightarrow> instant set" where
  "running_locks av p accounts m now =
     {u. now < u \<and> (\<exists>a \<in> set accounts. u = lock_table av (p, a, MODEL_ALL) \<or> u = lock_table av (p, a, m))}"

lemma set_concat_map_filter:
  "set (concat (map f (List.map_filter g xs))) = (\<Union>x \<in> set xs. case g x of None \<Rightarrow> {} | Some y \<Rightarrow> set (f y))"
  by (induction xs) (auto simp: List.map_filter_simps split: option.splits)

lemma Collect_UN_filter: "{u \<in> (\<Union>a \<in> A. B a). P u} = (\<Union>a \<in> A. {u \<in> B a. P u})"
  by blast

lemma sort_key_Nil_iff: "sort_key f xs = [] \<longleftrightarrow> xs = []"
  by (metis length_0_conv length_sort)

lemma earliest_unlock_eq:
  "earliest_unlock av p accounts m now =
     (if running_locks av p accounts m now = {} then None else Some (Min (running_locks av p accounts m now)))"
proof -
  let ?xs = "filter (\<lambda>unlock. now < unlock)
       (concat (map (\<lambda>state. map lk_unlock_at (List.map_filter id
            [map_of (as_locks state) MODEL_ALL, map_of (as_locks state) m]))
          (List.map_filter (\<lambda>account. av (p, account)) accounts)))"
  let ?of = "\<lambda>a. case av (p, a) of None \<Rightarrow> {} | Some state \<Rightarrow>
      lk_unlock_at ` set (List.map_filter id [map_of (as_locks state) MODEL_ALL, map_of (as_locks state) m])"
  have one: "{u \<in> ?of a. now < u} =
      {u. now < u \<and> (u = lock_table av (p, a, MODEL_ALL) \<or> u = lock_table av (p, a, m))}" for a
    by (cases "av (p, a)"; cases "map_of (as_locks (the (av (p, a)))) MODEL_ALL";
        cases "map_of (as_locks (the (av (p, a)))) m") (auto simp: lock_table_def List.map_filter_def)
  have "set ?xs = {u \<in> (\<Union>a \<in> set accounts. ?of a). now < u}"
    by (simp only: set_filter set_concat_map_filter set_map)
  also have "\<dots> = (\<Union>a \<in> set accounts. {u \<in> ?of a. now < u})"
    by (rule Collect_UN_filter)
  finally have "set ?xs = running_locks av p accounts m now"
    unfolding one by (auto simp: running_locks_def)
  then show ?thesis
    unfolding earliest_unlock_def by (rule opt_list_min_set)
qed

text \<open>
  When every account is locked for the model there is a \<open>Retry-After\<close> moment, it lies in the
  future, and no account becomes available before it.
\<close>

theorem earliest_unlock_sound:
  assumes "accounts \<noteq> []" and "list_all (\<lambda>a. \<not> is_available av p a m now) accounts"
  shows "\<exists>u. earliest_unlock av p accounts m now = Some u \<and> now < u
    \<and> list_all (\<lambda>a. \<forall>t \<in> {now..<u}. \<not> is_available av p a m t) accounts"
proof -
  let ?R = "running_locks av p accounts m now"
  have lock: "lock_table av (p, a, MODEL_ALL) \<in> ?R \<or> lock_table av (p, a, m) \<in> ?R" if "a \<in> set accounts" for a
    using that assms(2) by (auto simp: list_all_iff is_available_table running_locks_def not_le)
  then have ne: "?R \<noteq> {}"
    using assms(1) by (metis empty_iff list.set_sel(1))
  have fin: "finite ?R"
  proof (rule finite_subset)
    show "?R \<subseteq> (\<lambda>a. lock_table av (p, a, MODEL_ALL)) ` set accounts \<union> (\<lambda>a. lock_table av (p, a, m)) ` set accounts"
      by (auto simp: running_locks_def)
  qed simp
  have "\<not> is_available av p a m t" if "a \<in> set accounts" "t < Min ?R" for a t
    using lock [OF that(1)] Min_le [OF fin] that(2) by (fastforce simp: is_available_table)
  moreover have "now < Min ?R"
    using Min_in [OF fin ne] by (simp add: running_locks_def)
  ultimately show ?thesis
    by (auto simp: earliest_unlock_eq ne list_all_iff)
qed

text \<open>
  The locks the operators see explain the availability: for a named model the list is empty
  exactly when the account serves the model, it is sorted by the remaining time, and every entry
  is still running.
\<close>

theorem locks_for_explains:
  assumes "avail_reachable av" and "m \<noteq> []"
  shows "(locks_for av p a m now = [] \<longleftrightarrow> is_available av p a m now)
    \<and> sorted (map ls_retry_after (locks_for av p a m now))
    \<and> list_all (\<lambda>l. 0 < ls_retry_after l) (locks_for av p a m now)"
proof (cases "av (p, a)")
  case None
  then show ?thesis by (simp add: locks_for_def is_available_def)
next
  case (Some s)
  then have dist: "distinct (map fst (as_locks s))"
    using avail_reachable_ok [OF assms(1)] by (auto simp: avail_ok_def)
  have "is_locked s k now \<longleftrightarrow> (\<exists>l. (k, l) \<in> set (as_locks s) \<and> now < lk_unlock_at l)" for k
    unfolding is_locked_def map_of_eq_Some_iff [OF dist, symmetric] by (auto split: option.splits)
  then have "locks_for av p a m now = [] \<longleftrightarrow> is_available av p a m now"
    using Some assms(2) by (auto simp: locks_for_def is_available_def filter_empty_conv sort_key_Nil_iff)
  moreover have "sorted (map ls_retry_after (locks_for av p a m now))"
    using Some by (simp add: locks_for_def)
  moreover have "list_all (\<lambda>l. 0 < ls_retry_after l) (locks_for av p a m now)"
    using Some by (auto simp: locks_for_def list_all_iff)
  ultimately show ?thesis by blast
qed

text \<open>
  An operator's reset without a model unlocks the whole account and starts its backoff over;
  with a model it removes that lock alone.
\<close>

theorem reset_lockout_effect:
  "lock_table (snd (reset_lockout p a mo av)) =
      (\<lambda>(q, b, k). if (q, b) = (p, a) \<and> (mo = None \<or> mo = Some k) then 0 else lock_table av (q, b, k))
    \<and> (case mo of None \<Rightarrow> backoff_of (snd (reset_lockout p a mo av)) p a = 0 | Some _ \<Rightarrow> True)"
proof (cases "av (p, a)")
  case None
  then show ?thesis
    by (auto simp: reset_lockout_def lock_table_def backoff_of_def fun_eq_iff split: option.splits)
next
  case (Some s)
  have gone: "AList.delete m (as_locks s) = [] \<Longrightarrow> k \<noteq> m \<Longrightarrow> map_of (as_locks s) k = None" for m k
    by (metis delete_conv' fun_upd_apply map_of.simps(1))
  show ?thesis
    by (cases mo) (use Some gone in \<open>auto simp: reset_lockout_def lock_table_def backoff_of_def fun_eq_iff Let_def
        delete_conv' split: option.splits\<close>)
qed

section \<open>Worked examples\<close>

text \<open>
  One account whose credential was refused and whose model hit a network error, both at time 0
  by requests in flight together: two locks, of 120 and 30 seconds.
\<close>

definition twice_locked :: availability where
  "twice_locked = snd (report_failure ''p'' ''a'' ''m'' Network 0
     (snd (report_failure ''p'' ''a'' ''m'' Authentication 0 new_availability)))"

lemma twice_locked_reachable: "avail_reachable twice_locked"
  unfolding twice_locked_def by (rule avail_next [OF avail_next [OF avail_new step_failure] step_failure])

lemma twice_locked_table:
  "lock_table twice_locked (''p'', ''a'', MODEL_ALL) = 120000"
  "lock_table twice_locked (''p'', ''a'', ''m'') = 30000"
  unfolding twice_locked_def
  by (simp_all add: report_failure_table is_client_error_def lock_key_def account_wide_def MODEL_ALL_def
      cooldown_for_def duration_secs_def)

lemma twice_locked_available:
  "is_available twice_locked ''p'' ''a'' ''m'' t \<longleftrightarrow> 120000 \<le> t"
  by (auto simp: is_available_table twice_locked_table)


theorem earliest_unlock_sound_witness:
  "\<exists>u. earliest_unlock twice_locked ''p'' [''a''] ''m'' 0 = Some u \<and> 0 < u"
  using earliest_unlock_sound [of "[''a'']" twice_locked "''p''" "''m''" 0]
  by (auto simp: twice_locked_available)

theorem locks_for_explains_witness: "locks_for twice_locked ''p'' ''a'' ''m'' 0 \<noteq> []"
  using locks_for_explains [OF twice_locked_reachable, of "''m''" "''p''" "''a''" 0]
  by (simp add: twice_locked_available)

text \<open>
  The minimum is taken over both locks of an account, so the moment reported can be one at which
  the account is still locked: here 30 seconds, while the account is out for 120.
\<close>

theorem earliest_unlock_too_early:
  "earliest_unlock twice_locked ''p'' [''a''] ''m'' 0 = Some 30000
   \<and> \<not> is_available twice_locked ''p'' ''a'' ''m'' 30000"
proof -
  have "running_locks twice_locked ''p'' [''a''] ''m'' 0 = {120000, 30000}"
    by (auto simp: running_locks_def twice_locked_table)
  then show ?thesis
    by (simp add: earliest_unlock_eq twice_locked_available)
qed

end
