(* ===== verification/Circuit_Breaker.thy ===== *)
theory Circuit_Breaker
  imports Ordered_Map
begin

text \<open>
  The provider-level circuit breaker (\<open>sb-credentials/src/breaker.rs\<close>): its per-provider
  state, \<open>allows\<close>, \<open>view\<close> and \<open>record\<close> as functions on the whole breaker, each one
  atomic under the breaker's mutex. The lemmas show the counter invariant of every reachable
  breaker, when it trips, how it recovers, and that the view is faithful and read-only.
\<close>

section \<open>State and operations\<close>

record breaker_config =
  bc_enabled :: bool
  bc_failure_threshold :: u32
  bc_open_secs :: u64

definition default_breaker_config :: breaker_config where
  "default_breaker_config = \<lparr>bc_enabled = False, bc_failure_threshold = 5, bc_open_secs = 30\<rparr>"

record breaker_state =
  bs_failures :: u32
  bs_opened_until :: "instant option"
  bs_half_open :: bool

definition default_breaker_state :: breaker_state where
  "default_breaker_state = \<lparr>bs_failures = 0, bs_opened_until = None, bs_half_open = False\<rparr>"

record circuit_breaker =
  cb_enabled :: bool
  cb_threshold :: u32
  cb_open :: duration
  cb_states :: "string \<rightharpoonup> breaker_state"

datatype circuit_state = CircuitClosed | CircuitOpen | CircuitHalfOpen

record circuit_view =
  cv_state :: circuit_state
  cv_consecutive_failures :: u32
  cv_open_remaining_ms :: "u64 option"

definition circuit_view_closed :: "u32 \<Rightarrow> circuit_view" where
  "circuit_view_closed consecutive_failures =
     \<lparr>cv_state = CircuitClosed, cv_consecutive_failures = consecutive_failures,
      cv_open_remaining_ms = None\<rparr>"

definition new_breaker :: "breaker_config \<Rightarrow> circuit_breaker" where
  "new_breaker cfg =
     \<lparr>cb_enabled = bc_enabled cfg, cb_threshold = max (bc_failure_threshold cfg) 1,
      cb_open = duration_secs (unat (bc_open_secs cfg)), cb_states = Map.empty\<rparr>"

text \<open>\<open>guard.entry(provider).or_default()\<close>\<close>

definition state_of :: "circuit_breaker \<Rightarrow> string \<Rightarrow> breaker_state" where
  "state_of b provider =
     (case cb_states b provider of Some s \<Rightarrow> s | None \<Rightarrow> default_breaker_state)"

definition set_state :: "string \<Rightarrow> breaker_state \<Rightarrow> circuit_breaker \<Rightarrow> circuit_breaker" where
  "set_state provider s b = b\<lparr>cb_states := (cb_states b)(provider \<mapsto> s)\<rparr>"

definition breaker_allows :: "string \<Rightarrow> instant \<Rightarrow> circuit_breaker \<Rightarrow> bool \<times> circuit_breaker" where
  "breaker_allows provider now b =
     (if \<not> cb_enabled b then (True, b)
      else let s = state_of b provider
           in case bs_opened_until s of
                Some until \<Rightarrow>
                  if now < until then (False, set_state provider s b)
                  else (True, set_state provider (s\<lparr>bs_opened_until := None, bs_half_open := True\<rparr>) b)
              | None \<Rightarrow> (True, set_state provider s b))"

definition breaker_view :: "circuit_breaker \<Rightarrow> string \<Rightarrow> instant \<Rightarrow> circuit_view" where
  "breaker_view b provider now =
     (if \<not> cb_enabled b then circuit_view_closed 0
      else case cb_states b provider of
        None \<Rightarrow> circuit_view_closed 0
      | Some s \<Rightarrow>
          (case bs_opened_until s of
             Some until \<Rightarrow>
               if now < until
               then \<lparr>cv_state = CircuitOpen, cv_consecutive_failures = 0,
                     cv_open_remaining_ms = Some (word_of_nat (until - now))\<rparr>
               else \<lparr>cv_state = CircuitHalfOpen, cv_consecutive_failures = 0,
                     cv_open_remaining_ms = None\<rparr>
           | None \<Rightarrow>
               if bs_half_open s
               then \<lparr>cv_state = CircuitHalfOpen, cv_consecutive_failures = 0,
                     cv_open_remaining_ms = None\<rparr>
               else circuit_view_closed (bs_failures s)))"

definition breaker_record :: "string \<Rightarrow> bool \<Rightarrow> instant \<Rightarrow> circuit_breaker \<Rightarrow> circuit_breaker" where
  "breaker_record provider ok now b =
     (if \<not> cb_enabled b then b
      else let s = state_of b provider
           in set_state provider
                (if ok then s\<lparr>bs_failures := 0, bs_opened_until := None, bs_half_open := False\<rparr>
                 else if bs_half_open s
                 then s\<lparr>bs_opened_until := Some (now + cb_open b), bs_half_open := False, bs_failures := 0\<rparr>
                 else let s1 = s\<lparr>bs_failures := bs_failures s + 1\<rparr>
                      in if cb_threshold b \<le> bs_failures s1
                         then s1\<lparr>bs_opened_until := Some (now + cb_open b), bs_failures := 0\<rparr>
                         else s1) b)"

section \<open>Reachable breakers\<close>

text \<open>Every interleaving of the two state-changing operations, from a fresh breaker.\<close>

inductive breaker_step :: "circuit_breaker \<Rightarrow> circuit_breaker \<Rightarrow> bool" where
  step_allows: "breaker_step b (snd (breaker_allows provider now b))"
| step_record: "breaker_step b (breaker_record provider ok now b)"

inductive breaker_reachable :: "breaker_config \<Rightarrow> circuit_breaker \<Rightarrow> bool" for cfg where
  reach_new: "breaker_reachable cfg (new_breaker cfg)"
| reach_step: "breaker_reachable cfg b \<Longrightarrow> breaker_step b b' \<Longrightarrow> breaker_reachable cfg b'"

inductive_cases breaker_stepE: "breaker_step b b'"

definition breaker_state_ok :: "circuit_breaker \<Rightarrow> breaker_state \<Rightarrow> bool" where
  "breaker_state_ok b s \<longleftrightarrow>
     bs_failures s < cb_threshold b \<and> \<not> (bs_half_open s \<and> bs_opened_until s \<noteq> None)"

definition breaker_ok :: "circuit_breaker \<Rightarrow> bool" where
  "breaker_ok b \<longleftrightarrow> 0 < cb_threshold b \<and> (\<forall>s \<in> ran (cb_states b). breaker_state_ok b s)"

lemma set_state_simps [simp]:
  "cb_enabled (set_state p s b) = cb_enabled b" "cb_threshold (set_state p s b) = cb_threshold b"
  "cb_open (set_state p s b) = cb_open b"
  "state_of (set_state p s b) q = (if q = p then s else state_of b q)"
  "cb_states (set_state p s b) = (cb_states b)(p \<mapsto> s)"
  by (simp_all add: set_state_def state_of_def)

lemma breaker_config_frame:
  "cb_threshold (snd (breaker_allows p now b)) = cb_threshold b"
  "cb_threshold (breaker_record p ok now b) = cb_threshold b"
  "cb_enabled (snd (breaker_allows p now b)) = cb_enabled b"
  "cb_enabled (breaker_record p ok now b) = cb_enabled b"
  "cb_open (snd (breaker_allows p now b)) = cb_open b"
  "cb_open (breaker_record p ok now b) = cb_open b"
  by (auto simp: breaker_allows_def breaker_record_def Let_def split: option.splits)

lemma breaker_state_ok_cong:
  "cb_threshold b = cb_threshold b' \<Longrightarrow> breaker_state_ok b s = breaker_state_ok b' s"
  by (simp add: breaker_state_ok_def)

lemma breaker_ok_state_of: "breaker_ok b \<Longrightarrow> breaker_state_ok b (state_of b p)"
  by (auto simp: breaker_ok_def state_of_def default_breaker_state_def breaker_state_ok_def ranI
      split: option.splits)

lemma breaker_ok_set_state: "breaker_ok b \<Longrightarrow> breaker_state_ok b s \<Longrightarrow> breaker_ok (set_state p s b)"
  by (auto simp: breaker_ok_def breaker_state_ok_def ran_def)

lemma allows_ok: "breaker_ok b \<Longrightarrow> breaker_ok (snd (breaker_allows p now b))"
  using breaker_ok_state_of [of b p]
  by (auto simp: breaker_allows_def Let_def breaker_state_ok_def intro!: breaker_ok_set_state
      split: option.splits)

lemma record_ok: "breaker_ok b \<Longrightarrow> breaker_ok (breaker_record p ok now b)"
  using breaker_ok_state_of [of b p]
  by (auto simp: breaker_record_def Let_def breaker_state_ok_def breaker_ok_def [of b] not_le
      intro!: breaker_ok_set_state)

lemma reachable_ok: "breaker_reachable cfg b \<Longrightarrow> breaker_ok b"
proof (induction rule: breaker_reachable.induct)
  case reach_new
  show ?case by (simp add: breaker_ok_def new_breaker_def less_max_iff_disj word_neq_0_conv)
next
  case (reach_step b b')
  then show ?case by (auto elim!: breaker_stepE simp: allows_ok record_ok)
qed

section \<open>The circuit it implements\<close>

text \<open>
  The abstract circuit of one provider: a failure counter that opens the circuit at the
  threshold, an open circuit that still counts the failures of requests in flight, and a probe.
\<close>

datatype circuit = Closed nat | Opened instant nat | Probing

definition circuit_of_state :: "breaker_state \<Rightarrow> circuit" where
  "circuit_of_state s =
     (if bs_half_open s then Probing
      else case bs_opened_until s of
        Some until \<Rightarrow> Opened until (unat (bs_failures s))
      | None \<Rightarrow> Closed (unat (bs_failures s)))"

definition circuit_of :: "circuit_breaker \<Rightarrow> string \<Rightarrow> circuit" where
  "circuit_of b provider = circuit_of_state (state_of b provider)"

fun spec_allows :: "instant \<Rightarrow> circuit \<Rightarrow> bool \<times> circuit" where
  "spec_allows now (Opened until n) = (if now < until then (False, Opened until n) else (True, Probing))"
| "spec_allows now c = (True, c)"

fun spec_record :: "nat \<Rightarrow> duration \<Rightarrow> bool \<Rightarrow> instant \<Rightarrow> circuit \<Rightarrow> circuit" where
  "spec_record threshold window True now c = Closed 0"
| "spec_record threshold window False now Probing = Opened (now + window) 0"
| "spec_record threshold window False now (Closed n) =
     (if threshold \<le> n + 1 then Opened (now + window) 0 else Closed (n + 1))"
| "spec_record threshold window False now (Opened until n) =
     (if threshold \<le> n + 1 then Opened (now + window) 0 else Opened until (n + 1))"

lemma counter_step:
  assumes "breaker_state_ok b s"
  shows "unat (bs_failures s + 1) = unat (bs_failures s) + 1"
    and "cb_threshold b \<le> bs_failures s + 1 \<longleftrightarrow> unat (cb_threshold b) \<le> unat (bs_failures s) + 1"
proof -
  have "unat (bs_failures s) < unat (cb_threshold b)"
    using assms by (simp add: breaker_state_ok_def word_less_nat_alt)
  then have "unat (bs_failures s) < 2 ^ LENGTH(32) - 1"
    using unsigned_less [of "cb_threshold b", where 'a = nat] by simp
  then show "unat (bs_failures s + 1) = unat (bs_failures s) + 1"
    using unat_Suc_word [of "bs_failures s"] by simp
  then show "cb_threshold b \<le> bs_failures s + 1 \<longleftrightarrow> unat (cb_threshold b) \<le> unat (bs_failures s) + 1"
    by (simp add: word_le_nat_alt)
qed

lemma allows_refines:
  assumes "breaker_ok b" and "cb_enabled b"
  shows "fst (breaker_allows p now b) = fst (spec_allows now (circuit_of b p))"
    and "circuit_of (snd (breaker_allows p now b)) q =
      (if q = p then snd (spec_allows now (circuit_of b p)) else circuit_of b q)"
  using assms(2) breaker_ok_state_of [OF assms(1), of p]
  by (auto simp: breaker_allows_def circuit_of_def circuit_of_state_def breaker_state_ok_def Let_def
      split: option.splits)

lemma record_refines:
  assumes "breaker_ok b" and "cb_enabled b"
  shows "circuit_of (breaker_record p ok now b) q =
      (if q = p then spec_record (unat (cb_threshold b)) (cb_open b) ok now (circuit_of b p)
       else circuit_of b q)"
  using assms(2) counter_step [OF breaker_ok_state_of [OF assms(1), of p]]
  by (cases ok) (auto simp: breaker_record_def circuit_of_def circuit_of_state_def Let_def
      split: option.splits)

text \<open>
  In every reachable breaker the failure counter of each provider stays below the threshold,
  so that the unchecked \<open>failures += 1\<close> never overflows, and a provider is never open and
  half-open at once.
\<close>

theorem breaker_counter_bounded:
  assumes "breaker_reachable cfg b"
  shows "bs_failures (state_of b p) < cb_threshold b
    \<and> unat (bs_failures (state_of b p) + 1) = unat (bs_failures (state_of b p)) + 1
    \<and> \<not> (bs_half_open (state_of b p) \<and> bs_opened_until (state_of b p) \<noteq> None)"
  using breaker_ok_state_of [OF reachable_ok [OF assms], of p] counter_step(1)
  by (simp add: breaker_state_ok_def)

section \<open>Tripping and recovery\<close>

text \<open>A history of calls: the breaker is asked, or an outcome is recorded, for any provider.\<close>

datatype breaker_call = Asked string instant | Recorded string bool instant

fun breaker_calls :: "breaker_call list \<Rightarrow> circuit_breaker \<Rightarrow> circuit_breaker" where
  "breaker_calls [] b = b"
| "breaker_calls (Asked p now # cs) b = breaker_calls cs (snd (breaker_allows p now b))"
| "breaker_calls (Recorded p ok now # cs) b = breaker_calls cs (breaker_record p ok now b)"

fun failed_at :: "string \<Rightarrow> breaker_call \<Rightarrow> bool" where
  "failed_at p (Recorded q ok now) \<longleftrightarrow> q = p \<and> \<not> ok"
| "failed_at p (Asked q now) \<longleftrightarrow> False"

fun recorded_ok :: "string \<Rightarrow> breaker_call \<Rightarrow> bool" where
  "recorded_ok p (Recorded q ok now) \<longleftrightarrow> q = p \<and> ok"
| "recorded_ok p (Asked q now) \<longleftrightarrow> False"

text \<open>Calls that leave an open circuit open: nothing is recorded for the provider, and it is asked for in time only.\<close>

fun only_asks :: "string \<Rightarrow> instant \<Rightarrow> breaker_call \<Rightarrow> bool" where
  "only_asks p until (Asked q now) \<longleftrightarrow> q = p \<longrightarrow> now < until"
| "only_asks p until (Recorded q ok now) \<longleftrightarrow> q \<noteq> p"

lemma calls_frame:
  "cb_enabled (breaker_calls cs b) = cb_enabled b"
  "cb_threshold (breaker_calls cs b) = cb_threshold b"
  "cb_open (breaker_calls cs b) = cb_open b"
  by (induction cs b rule: breaker_calls.induct) (simp_all add: breaker_config_frame)

lemma calls_ok: "breaker_ok b \<Longrightarrow> breaker_ok (breaker_calls cs b)"
  by (induction cs b rule: breaker_calls.induct) (simp_all add: record_ok allows_ok)

lemma calls_append: "breaker_calls (cs @ ds) b = breaker_calls ds (breaker_calls cs b)"
  by (induction cs b rule: breaker_calls.induct) simp_all

lemma failures_count:
  assumes "breaker_ok b" and "cb_enabled b" and "circuit_of b p = Closed n"
    and "\<not> list_ex (recorded_ok p) cs" and "n + length (filter (failed_at p) cs) < unat (cb_threshold b)"
  shows "circuit_of (breaker_calls cs b) p = Closed (n + length (filter (failed_at p) cs))"
  using assms
proof (induction cs b arbitrary: n rule: breaker_calls.induct)
  case (2 q now cs b)
  then show ?case by (cases "p = q") (simp_all add: allows_ok allows_refines breaker_config_frame)
next
  case (3 q ok now cs b)
  show ?case
  proof (cases "q = p")
    case True
    with 3 have "circuit_of (breaker_record q ok now b) p = Closed (Suc n)"
      by (simp add: record_refines)
    with True 3 show ?thesis by (simp add: record_ok breaker_config_frame)
  next
    case False
    with 3 show ?thesis by (simp add: record_ok breaker_config_frame record_refines)
  qed
qed simp

lemma stays_open:
  assumes "breaker_ok b" and "cb_enabled b" and "circuit_of b p = Opened until n" and "list_all (only_asks p until) cs"
  shows "circuit_of (breaker_calls cs b) p = Opened until n"
  using assms
proof (induction cs b rule: breaker_calls.induct)
  case (2 q now cs b)
  then show ?case by (cases "p = q") (simp_all add: allows_ok allows_refines breaker_config_frame)
next
  case (3 q ok now cs b)
  then show ?case by (cases "p = q") (simp_all add: record_ok record_refines breaker_config_frame)
qed simp

text \<open>
  C16: the breaker takes a provider out exactly when it has failed often enough in a row, and for
  exactly the configured time. Take any history of calls, for this and for other providers, in which
  no success of the provider is recorded, starting with its circuit closed and no failure counted.
  As long as fewer failures than the threshold were recorded it is admitted at any time. Once the
  failure that reaches the threshold is recorded, it is refused until the open time has passed since
  that failure, whatever else is asked and recorded for others meanwhile, and is then admitted;
  after that a recorded success closes the circuit with no failure counted, and a recorded failure
  opens it again for the open time at once. How many requests pass between the first admission and
  the next recorded outcome is not limited (see \<open>half_open_admits_all\<close>).
\<close>

theorem breaker_trips_at_threshold:
  assumes "breaker_reachable cfg b" and "cb_enabled b" and "circuit_of b p = Closed 0" and "\<not> list_ex (recorded_ok p) cs"
  shows "(length (filter (failed_at p) cs) < unat (cb_threshold b) \<longrightarrow> fst (breaker_allows p now (breaker_calls cs b)))
    \<and> (Suc (length (filter (failed_at p) cs)) = unat (cb_threshold b) \<and> list_all (only_asks p (t + cb_open b)) later \<longrightarrow>
        (let tripped = breaker_calls (cs @ Recorded p False t # later) b in
          (fst (breaker_allows p now tripped) \<longleftrightarrow> t + cb_open b \<le> now)
          \<and> (t + cb_open b \<le> now \<longrightarrow>
               circuit_of (breaker_calls [Asked p now, Recorded p True t'] tripped) p = Closed 0
               \<and> (\<forall>now'. fst (breaker_allows p now' (breaker_calls [Asked p now, Recorded p False t'] tripped))
                    \<longleftrightarrow> t' + cb_open b \<le> now'))))"
proof -
  note ok = reachable_ok [OF assms(1)]
  have count: "circuit_of (breaker_calls cs b) p = Closed (length (filter (failed_at p) cs))"
    if "length (filter (failed_at p) cs) < unat (cb_threshold b)"
    using failures_count [OF ok assms(2,3,4)] that by simp
  have one: "fst (breaker_allows p now (breaker_calls cs b))" if "length (filter (failed_at p) cs) < unat (cb_threshold b)"
    using count [OF that] by (simp add: allows_refines calls_ok calls_frame ok assms(2))
  have "let tripped = breaker_calls (cs @ Recorded p False t # later) b in
          (fst (breaker_allows p now tripped) \<longleftrightarrow> t + cb_open b \<le> now)
          \<and> (t + cb_open b \<le> now \<longrightarrow>
               circuit_of (breaker_calls [Asked p now, Recorded p True t'] tripped) p = Closed 0
               \<and> (\<forall>now'. fst (breaker_allows p now' (breaker_calls [Asked p now, Recorded p False t'] tripped))
                    \<longleftrightarrow> t' + cb_open b \<le> now'))"
    if full: "Suc (length (filter (failed_at p) cs)) = unat (cb_threshold b)" and later: "list_all (only_asks p (t + cb_open b)) later"
  proof -
    define trip where "trip = breaker_record p False t (breaker_calls cs b)"
    define tripped where "tripped = breaker_calls later trip"
    have frame: "cb_enabled trip" "cb_threshold trip = cb_threshold b" "cb_open trip = cb_open b" "breaker_ok trip"
      by (simp_all add: trip_def breaker_config_frame calls_frame assms(2) record_ok calls_ok ok)
    have "circuit_of trip p = Opened (t + cb_open b) 0"
      using count full by (simp add: trip_def record_refines calls_ok calls_frame ok assms(2))
    then have opened: "circuit_of tripped p = Opened (t + cb_open b) 0"
      unfolding tripped_def by (rule stays_open [OF frame(4,1) _ later])
    have tframe: "cb_enabled tripped" "cb_open tripped = cb_open b" "breaker_ok tripped"
      by (simp_all add: tripped_def calls_frame calls_ok frame)
    have "breaker_calls (cs @ Recorded p False t # later) b = tripped"
      by (simp add: calls_append tripped_def trip_def)
    then show ?thesis
      using opened tframe
      by (auto simp: allows_refines record_refines allows_ok record_ok breaker_config_frame)
  qed
  with one show ?thesis by blast
qed

text \<open>
  Once the window has elapsed the next request is let through as a probe, the failure of
  that probe opens the circuit again at once (not after another \<open>threshold\<close> failures), and
  its success closes it with a fresh counter.
\<close>

theorem breaker_probe_decides:
  assumes "breaker_reachable cfg b" and "cb_enabled b"
    and "circuit_of b p = Opened until n" and "until \<le> now"
  shows "let (admitted, b') = breaker_allows p now b
    in admitted \<and> circuit_of (breaker_record p False t b') p = Opened (t + cb_open b) 0
       \<and> circuit_of (breaker_record p True t b') p = Closed 0"
proof -
  note ok = reachable_ok [OF assms(1)]
  show ?thesis
    using assms(2-4) ok allows_refines [OF ok assms(2), of p now]
    by (simp add: split_beta record_refines allows_ok breaker_config_frame)
qed

text \<open>
  The operators' view agrees with what \<open>allows\<close> will answer, and the remaining cooldown
  it reports is exact: the provider is blocked until then and admitted from then on.
\<close>

theorem breaker_view_faithful:
  assumes "pred_option (\<lambda>until. until - now < 2 ^ 64) (bs_opened_until (state_of b p))"
  shows "fst (breaker_allows p now b) = (cv_state (breaker_view b p now) \<noteq> CircuitOpen)
    \<and> (case cv_open_remaining_ms (breaker_view b p now) of
         None \<Rightarrow> cv_state (breaker_view b p now) \<noteq> CircuitOpen
       | Some r \<Rightarrow> (\<forall>d. fst (breaker_allows p (now + d) b) = (unat r \<le> d)))"
  using assms
  by (auto simp: breaker_allows_def breaker_view_def state_of_def circuit_view_closed_def Let_def
      default_breaker_state_def unat_word_of_nat simp del: of_nat_diff split: option.splits)

text \<open>
  While a provider is half-open every request is admitted, not one: asking does not take
  the probe, and only a recorded outcome leaves the half-open state.
\<close>

theorem half_open_admits_all:
  assumes "breaker_reachable cfg b" and "cb_enabled b" and "circuit_of b p = Probing"
  shows "fst (breaker_allows p now b) \<and> circuit_of (snd (breaker_allows p now b)) p = Probing"
  using allows_refines [OF reachable_ok [OF assms(1)] assms(2), of p now] assms(3) by simp

section \<open>Worked examples\<close>

text \<open>A breaker with a threshold of one failure and a window of ten seconds, tripped at time 5 (in ms).\<close>

definition strict_config :: breaker_config where
  "strict_config = \<lparr>bc_enabled = True, bc_failure_threshold = 1, bc_open_secs = 10\<rparr>"

definition tripped :: circuit_breaker where
  "tripped = breaker_record ''p'' False 5 (new_breaker strict_config)"

lemma tripped_eq:
  "tripped = \<lparr>cb_enabled = True, cb_threshold = 1, cb_open = 10000, cb_states =
     [''p'' \<mapsto> \<lparr>bs_failures = 0, bs_opened_until = Some 10005, bs_half_open = False\<rparr>]\<rparr>"
  by (simp add: tripped_def breaker_record_def new_breaker_def strict_config_def duration_secs_def Let_def
      set_state_def state_of_def default_breaker_state_def)

lemma tripped_circuit: "cb_enabled tripped" "cb_open tripped = 10000" "circuit_of tripped ''p'' = Opened 10005 0"
  by (simp_all add: tripped_eq circuit_of_def state_of_def circuit_of_state_def)

lemma tripped_reachable: "breaker_reachable strict_config tripped"
  unfolding tripped_def by (intro reach_step [OF reach_new] step_record)

lemma probing_reachable: "breaker_reachable strict_config (snd (breaker_allows ''p'' 10005 tripped))"
  by (intro reach_step [OF tripped_reachable] step_allows)

theorem breaker_counter_bounded_witness: "bs_failures (state_of tripped ''p'') < 1"
  using breaker_counter_bounded [OF tripped_reachable, of "''p''"] by (simp add: tripped_eq)

theorem breaker_trips_at_threshold_witness:
  "\<not> fst (breaker_allows ''p'' 9 (breaker_calls [Recorded ''q'' False 1, Recorded ''p'' False 5, Asked ''p'' 6] (new_breaker strict_config)))"
  using breaker_trips_at_threshold [OF reach_new [of strict_config], of "''p''" "[Recorded ''q'' False 1]" 9 5 "[Asked ''p'' 6]"]
  by (simp add: new_breaker_def strict_config_def circuit_of_def state_of_def default_breaker_state_def
      circuit_of_state_def duration_secs_def Let_def)

theorem breaker_probe_decides_witness:
  "circuit_of (breaker_record ''p'' False 20000 (snd (breaker_allows ''p'' 10005 tripped))) ''p'' = Opened 30000 0"
  using breaker_probe_decides [OF tripped_reachable tripped_circuit(1,3), of 10005 20000]
  by (simp add: split_beta tripped_circuit)

theorem breaker_view_faithful_witness: "cv_state (breaker_view tripped ''p'' 5) = CircuitOpen"
  using breaker_view_faithful [of 5 tripped "''p''"]
  by (simp add: tripped_eq state_of_def breaker_allows_def Let_def)

theorem half_open_admits_all_witness:
  "let b = snd (breaker_allows ''p'' 10005 tripped)
   in fst (breaker_allows ''p'' 10006 b) \<and> fst (breaker_allows ''p'' 10006 (snd (breaker_allows ''p'' 10006 b)))"
proof -
  let ?b = "snd (breaker_allows ''p'' 10005 tripped)"
  have en: "cb_enabled ?b" and pr: "circuit_of ?b ''p'' = Probing"
    using allows_refines [OF reachable_ok [OF tripped_reachable], of "''p''" 10005]
    by (simp_all add: tripped_circuit breaker_config_frame)
  note step = half_open_admits_all [OF probing_reachable en pr, of 10006]
  have "breaker_reachable strict_config (snd (breaker_allows ''p'' 10006 ?b))"
    by (intro reach_step [OF probing_reachable] step_allows)
  from half_open_admits_all [OF this, of "''p''" 10006] step en show ?thesis
    by (simp add: breaker_config_frame)
qed

end
