(* ===== verification/Resolver.thy ===== *)
theory Resolver
  imports Provider_Config Availability Circuit_Breaker
begin

text \<open>
  The credential resolver (\<open>sb-credentials/src/resolver.rs\<close>): the account pools with the
  availability table, the round-robin cursors, the session affinity and the breaker, and the
  operations the runtime calls. Every operation that reads the clock takes the instant it reads.
  A method runs as one step: the resolver's mutexes are taken one after another inside it, and
  no invariant spans two of them.
\<close>

section \<open>State\<close>

record rr_state =
  rr_cursor :: usize
  rr_count :: u32

definition default_rr_state :: rr_state where
  "default_rr_state = \<lparr>rr_cursor = 0, rr_count = 0\<rparr>"

record 'k resolver =
  rs_providers :: "string \<rightharpoonup> 'k provider_accounts"
  rs_availability :: availability
  rs_rr :: "string \<rightharpoonup> rr_state"
  rs_session_affinity :: "string \<times> string \<rightharpoonup> string"
  rs_breaker :: circuit_breaker

record pool_health =
  ph_total :: usize
  ph_healthy :: usize
  ph_circuit_open :: bool

record account_lock_health =
  alh_scope :: string
  alh_model :: "string option"
  alh_error_class :: error_class
  alh_retry_after_ms :: u64

record account_health =
  ah_id :: string
  ah_healthy :: bool
  ah_locks :: "account_lock_health list"

datatype resolve_outcome =
    Selected string credential_lease
  | AllUnavailable "duration option"
  | NoAccounts

definition resolver_with_parts :: "(string \<rightharpoonup> 'k provider_accounts) \<Rightarrow> circuit_breaker \<Rightarrow> 'k resolver" where
  "resolver_with_parts providers breaker =
     \<lparr>rs_providers = providers, rs_availability = new_availability, rs_rr = Map.empty,
      rs_session_affinity = Map.empty, rs_breaker = breaker\<rparr>"

definition new_resolver :: "(string \<rightharpoonup> 'k provider_accounts) \<Rightarrow> 'k resolver" where
  "new_resolver providers = resolver_with_parts providers (new_breaker default_breaker_config)"

fun build_pools ::
  "'k host \<Rightarrow> vault option \<Rightarrow> 'w provider_config list \<Rightarrow> (string \<rightharpoonup> 'k provider_accounts)
    \<Rightarrow> string + (string \<rightharpoonup> 'k provider_accounts)" where
  "build_pools h vault [] providers = Inr providers"
| "build_pools h vault (p # ps) providers =
     try_with (build_provider_accounts h p vault) (\<lambda>pa. build_pools h vault ps (providers(pc_id p \<mapsto> pa)))"

definition resolver_from_config ::
  "'k host \<Rightarrow> vault option \<Rightarrow> 'w provider_config list \<Rightarrow> breaker_config \<Rightarrow> string + 'k resolver" where
  "resolver_from_config h vault providers breaker =
     try_with (build_pools h vault providers Map.empty)
       (\<lambda>pools. Inr (resolver_with_parts pools (new_breaker breaker)))"

section \<open>Circuit and availability\<close>

definition circuit_allows :: "string \<Rightarrow> instant \<Rightarrow> 'k resolver \<Rightarrow> bool \<times> 'k resolver" where
  "circuit_allows provider_id now r =
     (let (ok, b) = breaker_allows provider_id now (rs_breaker r) in (ok, r\<lparr>rs_breaker := b\<rparr>))"

definition circuit_record :: "string \<Rightarrow> bool \<Rightarrow> instant \<Rightarrow> 'k resolver \<Rightarrow> 'k resolver" where
  "circuit_record provider_id ok now r = r\<lparr>rs_breaker := breaker_record provider_id ok now (rs_breaker r)\<rparr>"

definition resolver_circuit_view :: "'k resolver \<Rightarrow> string \<Rightarrow> instant \<Rightarrow> circuit_view" where
  "resolver_circuit_view r provider_id now = breaker_view (rs_breaker r) provider_id now"

definition resolver_report_failure ::
  "string \<Rightarrow> string \<Rightarrow> string \<Rightarrow> error_class \<Rightarrow> instant \<Rightarrow> 'k resolver \<Rightarrow> duration \<times> 'k resolver" where
  "resolver_report_failure provider_id account_id model c now r =
     (let (d, av) = report_failure provider_id account_id model c now (rs_availability r)
      in (d, r\<lparr>rs_availability := av\<rparr>))"

definition resolver_report_success :: "string \<Rightarrow> string \<Rightarrow> 'k resolver \<Rightarrow> 'k resolver" where
  "resolver_report_success provider_id account_id r =
     r\<lparr>rs_availability := report_success provider_id account_id (rs_availability r)\<rparr>"

definition resolver_reset_lockout ::
  "string \<Rightarrow> string \<Rightarrow> string option \<Rightarrow> 'k resolver \<Rightarrow> bool option \<times> 'k resolver" where
  "resolver_reset_lockout provider_id account_id model r =
     (case rs_providers r provider_id of
        None \<Rightarrow> (None, r)
      | Some pa \<Rightarrow>
          if \<not> list_ex (\<lambda>a. ac_id a = account_id) (pa_accounts pa) then (None, r)
          else let (cleared, av) = reset_lockout provider_id account_id model (rs_availability r)
               in (Some cleared, r\<lparr>rs_availability := av\<rparr>))"

section \<open>Views\<close>

definition has_provider :: "'k resolver \<Rightarrow> string \<Rightarrow> bool" where
  "has_provider r provider_id \<longleftrightarrow> rs_providers r provider_id \<noteq> None"

definition account_ids :: "'k resolver \<Rightarrow> string \<Rightarrow> string list" where
  "account_ids r provider_id =
     (case rs_providers r provider_id of Some p \<Rightarrow> map ac_id (pa_accounts p) | None \<Rightarrow> [])"

definition pool_health_of :: "'k resolver \<Rightarrow> string \<Rightarrow> string \<Rightarrow> instant \<Rightarrow> pool_health" where
  "pool_health_of r provider_id model now =
     (case rs_providers r provider_id of
        Some pa \<Rightarrow>
          \<lparr>ph_total = length (pa_accounts pa),
           ph_healthy = length (filter (\<lambda>a. is_available (rs_availability r) provider_id (ac_id a) model now)
             (pa_accounts pa)),
           ph_circuit_open = (cv_state (breaker_view (rs_breaker r) provider_id now) = CircuitOpen)\<rparr>
      | None \<Rightarrow> \<lparr>ph_total = 0, ph_healthy = 0, ph_circuit_open = False\<rparr>)"

definition account_health_of :: "'k resolver \<Rightarrow> string \<Rightarrow> string \<Rightarrow> instant \<Rightarrow> account_health list" where
  "account_health_of r provider_id model now =
     (case rs_providers r provider_id of
        None \<Rightarrow> []
      | Some pa \<Rightarrow>
          map (\<lambda>a. \<lparr>ah_id = ac_id a,
                 ah_healthy = is_available (rs_availability r) provider_id (ac_id a) model now,
                 ah_locks = map (\<lambda>lock. \<lparr>alh_scope = (if ls_model lock \<noteq> None then ''model'' else ''account''),
                       alh_model = ls_model lock, alh_error_class = ls_error_class lock,
                       alh_retry_after_ms = word_of_nat (ls_retry_after lock)\<rparr>)
                   (locks_for (rs_availability r) provider_id (ac_id a) model now)\<rparr>)
            (pa_accounts pa))"

section \<open>Selection\<close>

text \<open>The allow-list of the tenant and the client profile, when there is one.\<close>

definition in_allowed :: "string set option \<Rightarrow> string \<Rightarrow> bool" where
  "in_allowed allowed account_id = (case allowed of Some s \<Rightarrow> account_id \<in> s | None \<Rightarrow> True)"

definition available_indices ::
  "'k resolver \<Rightarrow> string \<Rightarrow> string \<Rightarrow> 'k provider_accounts \<Rightarrow> string set \<Rightarrow> string set option \<Rightarrow> instant \<Rightarrow> usize list"
  where
  "available_indices r provider_id model pa exclude allowed now =
     filter (\<lambda>i. let a = pa_accounts pa ! i
         in ac_id a \<notin> exclude \<and> in_allowed allowed (ac_id a)
            \<and> is_available (rs_availability r) provider_id (ac_id a) model now)
       [0..<length (pa_accounts pa)]"

definition rr_entry :: "'k resolver \<Rightarrow> string \<Rightarrow> rr_state" where
  "rr_entry r provider_id = (case rs_rr r provider_id of Some st \<Rightarrow> st | None \<Rightarrow> default_rr_state)"

definition rr_rotate :: "u32 \<Rightarrow> rr_state \<Rightarrow> rr_state" where
  "rr_rotate sticky st =
     (if max sticky 1 \<le> rr_count st then \<lparr>rr_cursor = (rr_cursor st + 1) mod 2 ^ 64, rr_count = 0\<rparr> else st)"

definition pick_round_robin :: "string \<Rightarrow> usize \<Rightarrow> usize list \<Rightarrow> u32 \<Rightarrow> 'k resolver \<Rightarrow> usize \<times> 'k resolver" where
  "pick_round_robin provider_id n available sticky r =
     (let st = rr_rotate sticky (rr_entry r provider_id);
          start = rr_cursor st mod n
      in case find (\<lambda>off. (start + off) mod n \<in> set available) [0..<n] of
           Some off \<Rightarrow>
             let idx = (start + off) mod n;
                 count = (if off \<noteq> 0 then 0 else rr_count st)
             in (idx, r\<lparr>rs_rr := (rs_rr r)(provider_id \<mapsto> \<lparr>rr_cursor = idx, rr_count = count + 1\<rparr>)\<rparr>)
         | None \<Rightarrow> (available ! 0, r\<lparr>rs_rr := (rs_rr r)(provider_id \<mapsto> st)\<rparr>))"

definition session_key :: "string option \<Rightarrow> string option" where
  "session_key session_id = nonempty_str session_id"

definition sticky_index ::
  "'k resolver \<Rightarrow> string \<Rightarrow> 'k provider_accounts \<Rightarrow> usize list \<Rightarrow> string set \<Rightarrow> string option \<Rightarrow> usize option" where
  "sticky_index r provider_id pa available exclude session =
     (case session of
        None \<Rightarrow> None
      | Some s \<Rightarrow>
          (case rs_session_affinity r (provider_id, s) of
             None \<Rightarrow> None
           | Some account_id \<Rightarrow>
               find (\<lambda>i. ac_id (pa_accounts pa ! i) = account_id \<and> account_id \<notin> exclude) available))"

definition resolve_with_session_allowed ::
  "string \<Rightarrow> string \<Rightarrow> string set \<Rightarrow> string option \<Rightarrow> string set option \<Rightarrow> instant \<Rightarrow> 'k resolver
    \<Rightarrow> resolve_outcome \<times> 'k resolver" where
  "resolve_with_session_allowed provider_id model exclude session_id allowed now r =
     (case rs_providers r provider_id of
        None \<Rightarrow> (NoAccounts, r)
      | Some pa \<Rightarrow>
          if pa_accounts pa = [] then (NoAccounts, r)
          else let available = available_indices r provider_id model pa exclude allowed now
               in if available = []
                  then let ids = map ac_id (filter (\<lambda>a. in_allowed allowed (ac_id a)) (pa_accounts pa))
                       in (AllUnavailable (map_option (\<lambda>unlock. unlock - now)
                             (earliest_unlock (rs_availability r) provider_id ids model now)), r)
                  else let session = session_key session_id
                       in case sticky_index r provider_id pa available exclude session of
                            Some i \<Rightarrow>
                              let a = pa_accounts pa ! i in (Selected (ac_id a) (account_lease a), r)
                          | None \<Rightarrow>
                              let (i, r1) = (case pa_strategy pa of
                                     FillFirst \<Rightarrow> (arg_min_list (\<lambda>i. ac_priority (pa_accounts pa ! i)) available, r)
                                   | RoundRobin \<Rightarrow>
                                       pick_round_robin provider_id (length (pa_accounts pa)) available (pa_sticky pa) r);
                                  a = pa_accounts pa ! i;
                                  r2 = (case session of
                                          Some s \<Rightarrow> r1\<lparr>rs_session_affinity :=
                                              (rs_session_affinity r1)((provider_id, s) \<mapsto> ac_id a)\<rparr>
                                        | None \<Rightarrow> r1)
                              in (Selected (ac_id a) (account_lease a), r2))"

definition resolve_with_session ::
  "string \<Rightarrow> string \<Rightarrow> string set \<Rightarrow> string option \<Rightarrow> instant \<Rightarrow> 'k resolver \<Rightarrow> resolve_outcome \<times> 'k resolver" where
  "resolve_with_session provider_id model exclude session_id now r =
     resolve_with_session_allowed provider_id model exclude session_id None now r"

definition resolve_account ::
  "string \<Rightarrow> string \<Rightarrow> string set \<Rightarrow> instant \<Rightarrow> 'k resolver \<Rightarrow> resolve_outcome \<times> 'k resolver" where
  "resolve_account provider_id model exclude now r = resolve_with_session provider_id model exclude None now r"

section \<open>Live credentials\<close>

text \<open>
  The three token services (\<open>kimi_oauth\<close>, \<open>refresh\<close>, \<open>sa_minter\<close>) talk to the network; what
  each answers for an account is a field: nothing when the account is not registered with it.
\<close>

record live_tokens =
  lt_kimi :: "string \<Rightarrow> string \<Rightarrow> (string + secret) option"
  lt_refresh :: "string \<Rightarrow> string \<Rightarrow> (string + secret) option"
  lt_service_account :: "string \<Rightarrow> string \<Rightarrow> (string + secret) option"

definition file_backed_lease :: "'k host \<Rightarrow> 'k resolver \<Rightarrow> string \<Rightarrow> string \<Rightarrow> string + credential_lease option" where
  "file_backed_lease h r provider_id account_id =
     (case rs_providers r provider_id of
        None \<Rightarrow> Inr None
      | Some pa \<Rightarrow>
          (case find (\<lambda>a. ac_id a = account_id) (pa_accounts pa) of
             None \<Rightarrow> Inr None
           | Some a \<Rightarrow>
               (case ac_auth a of
                  RaNativeOauth src \<Rightarrow> try_with (native_lease h src account_id) (\<lambda>l. Inr (Some l))
                | RaJsonToken src \<Rightarrow> try_with (json_token_lease h src account_id) (\<lambda>l. Inr (Some l))
                | _ \<Rightarrow> Inr None)))"

definition bearer_result :: "string \<Rightarrow> string + secret \<Rightarrow> string + credential_lease" where
  "bearer_result account_id res = try_with res (\<lambda>token. Inr (lease_bearer account_id token))"

definition fresh_lease ::
  "'k host \<Rightarrow> live_tokens \<Rightarrow> 'k resolver \<Rightarrow> string \<Rightarrow> string \<Rightarrow> credential_lease \<Rightarrow> string + credential_lease" where
  "fresh_lease h lt r provider_id account_id lease =
     (case lt_kimi lt provider_id account_id of
        Some res \<Rightarrow> bearer_result account_id res
      | None \<Rightarrow>
          (case lt_refresh lt provider_id account_id of
             Some res \<Rightarrow> bearer_result account_id res
           | None \<Rightarrow>
               try_with (file_backed_lease h r provider_id account_id)
                 (\<lambda>found. case found of
                    Some l \<Rightarrow> Inr l
                  | None \<Rightarrow>
                      (case lt_service_account lt provider_id account_id of
                         Some res \<Rightarrow> bearer_result account_id res
                       | None \<Rightarrow> Inr lease))))"

end
