(* ===== verification/Resolver_Facts.thy ===== *)
theory Resolver_Facts
  imports Resolver
begin

text \<open>
  What the resolver promises the runtime: an account is selected exactly when one is permitted
  and the selected one is, \<open>fill_first\<close> takes the most preferred, \<open>round_robin\<close> rotates with
  the configured stickiness, a session stays on its account, and the pool health the router
  sees agrees with what a request will get.
\<close>

section \<open>Permitted accounts\<close>

definition permitted ::
  "'k resolver \<Rightarrow> string \<Rightarrow> string \<Rightarrow> string set \<Rightarrow> string set option \<Rightarrow> instant \<Rightarrow> 'k account \<Rightarrow> bool" where
  "permitted r provider_id model exclude allowed now a \<longleftrightarrow>
     (\<exists>pa. rs_providers r provider_id = Some pa \<and> a \<in> set (pa_accounts pa))
     \<and> ac_id a \<notin> exclude \<and> in_allowed allowed (ac_id a)
     \<and> is_available (rs_availability r) provider_id (ac_id a) model now"

lemma available_indices_permitted:
  assumes "rs_providers r p = Some pa"
  shows "i \<in> set (available_indices r p m pa ex al now) \<longleftrightarrow>
    i < length (pa_accounts pa) \<and> permitted r p m ex al now (pa_accounts pa ! i)"
  using assms by (auto simp: available_indices_def permitted_def Let_def)

lemma available_indices_empty:
  assumes "rs_providers r p = Some pa"
  shows "available_indices r p m pa ex al now = [] \<longleftrightarrow> (\<forall>a. \<not> permitted r p m ex al now a)"
proof
  assume "available_indices r p m pa ex al now = []"
  then have "\<not> permitted r p m ex al now (pa_accounts pa ! i)" if "i < length (pa_accounts pa)" for i
    using that available_indices_permitted [OF assms, of i m ex al now] by simp
  moreover have "a \<in> set (pa_accounts pa)" if "permitted r p m ex al now a" for a
    using that assms by (auto simp: permitted_def)
  ultimately show "\<forall>a. \<not> permitted r p m ex al now a"
    by (metis in_set_conv_nth)
next
  assume "\<forall>a. \<not> permitted r p m ex al now a"
  then show "available_indices r p m pa ex al now = []"
    using available_indices_permitted [OF assms] by (metis list.set_intros(1) neq_Nil_conv)
qed

lemma pick_round_robin_available:
  assumes "available \<noteq> []"
  shows "fst (pick_round_robin p n available sticky r) \<in> set available"
  using assms by (auto simp: pick_round_robin_def Let_def find_Some_iff split: option.splits)

lemma pick_round_robin_frame:
  "rs_providers (snd (pick_round_robin p n available sticky r)) = rs_providers r"
  "rs_availability (snd (pick_round_robin p n available sticky r)) = rs_availability r"
  "rs_session_affinity (snd (pick_round_robin p n available sticky r)) = rs_session_affinity r"
  "rs_breaker (snd (pick_round_robin p n available sticky r)) = rs_breaker r"
  by (auto simp: pick_round_robin_def Let_def split: option.splits)

text \<open>The index the strategy picks among the available ones.\<close>

definition strategy_pick :: "string \<Rightarrow> 'k provider_accounts \<Rightarrow> usize list \<Rightarrow> 'k resolver \<Rightarrow> usize \<times> 'k resolver" where
  "strategy_pick p pa available r =
     (case pa_strategy pa of
        FillFirst \<Rightarrow> (arg_min_list (\<lambda>i. ac_priority (pa_accounts pa ! i)) available, r)
      | RoundRobin \<Rightarrow> pick_round_robin p (length (pa_accounts pa)) available (pa_sticky pa) r)"

lemma strategy_pick_available:
  assumes "available \<noteq> []"
  shows "fst (strategy_pick p pa available r) \<in> set available"
  using assms pick_round_robin_available [OF assms] arg_min_list_in [OF assms]
  by (auto simp: strategy_pick_def split: selection_strategy.splits)

lemma strategy_pick_frame:
  "rs_providers (snd (strategy_pick p pa available r)) = rs_providers r"
  "rs_availability (snd (strategy_pick p pa available r)) = rs_availability r"
  "rs_session_affinity (snd (strategy_pick p pa available r)) = rs_session_affinity r"
  "rs_breaker (snd (strategy_pick p pa available r)) = rs_breaker r"
  by (auto simp: strategy_pick_def pick_round_robin_frame split: selection_strategy.splits)

text \<open>The three ways out of a selection.\<close>

lemma resolve_unknown:
  "rs_providers r p = None \<Longrightarrow> resolve_with_session_allowed p m ex s al now r = (NoAccounts, r)"
  "rs_providers r p = Some pa \<Longrightarrow> pa_accounts pa = [] \<Longrightarrow>
     resolve_with_session_allowed p m ex s al now r = (NoAccounts, r)"
  by (simp_all add: resolve_with_session_allowed_def)

lemma resolve_unavailable:
  assumes "rs_providers r p = Some pa" and "pa_accounts pa \<noteq> []" and "\<forall>a. \<not> permitted r p m ex al now a"
  shows "resolve_with_session_allowed p m ex s al now r =
    (AllUnavailable (map_option (\<lambda>unlock. unlock - now) (earliest_unlock (rs_availability r) p
       (map ac_id (filter (\<lambda>a. in_allowed al (ac_id a)) (pa_accounts pa))) m now)), r)"
  using assms available_indices_empty [OF assms(1), of m ex al now]
  by (simp add: resolve_with_session_allowed_def)

lemma resolve_available:
  assumes "rs_providers r p = Some pa" and "permitted r p m ex al now a0"
  defines "available \<equiv> available_indices r p m pa ex al now"
  shows "resolve_with_session_allowed p m ex s al now r =
    (case sticky_index r p pa available ex (session_key s) of
       Some i \<Rightarrow> (Selected (ac_id (pa_accounts pa ! i)) (account_lease (pa_accounts pa ! i)), r)
     | None \<Rightarrow>
         (let (i, r1) = strategy_pick p pa available r; a = pa_accounts pa ! i
          in (Selected (ac_id a) (account_lease a),
              case session_key s of
                Some k \<Rightarrow> r1\<lparr>rs_session_affinity := (rs_session_affinity r1)((p, k) \<mapsto> ac_id a)\<rparr>
              | None \<Rightarrow> r1)))"
proof -
  have "pa_accounts pa \<noteq> []" and "available \<noteq> []"
    using assms available_indices_empty [OF assms(1), of m ex al now] by (auto simp: permitted_def)
  then show ?thesis
    using assms(1) by (simp add: resolve_with_session_allowed_def strategy_pick_def available_def Let_def
        split: option.splits)
qed

lemma sticky_index_available:
  assumes "sticky_index r p pa available ex s = Some i"
  shows "i \<in> set available"
  using assms by (auto simp: sticky_index_def find_Some_iff split: option.splits)

lemma resolve_outcome_cases:
  "case fst (resolve_with_session_allowed p m ex s al now r) of
     Selected i lease \<Rightarrow> (\<exists>a. permitted r p m ex al now a \<and> i = ac_id a \<and> lease = account_lease a)
   | AllUnavailable _ \<Rightarrow> (\<forall>a. \<not> permitted r p m ex al now a) \<and> account_ids r p \<noteq> []
   | NoAccounts \<Rightarrow> account_ids r p = []"
proof (cases "\<exists>a. permitted r p m ex al now a")
  case True
  then obtain a pa where a: "permitted r p m ex al now a" and pa: "rs_providers r p = Some pa"
    by (auto simp: permitted_def)
  let ?av = "available_indices r p m pa ex al now"
  have ne: "?av \<noteq> []"
    using a available_indices_empty [OF pa, of m ex al now] by auto
  have "fst (strategy_pick p pa ?av r) \<in> set ?av"
    by (rule strategy_pick_available [OF ne])
  then show ?thesis
    using resolve_available [OF pa a, of s] available_indices_permitted [OF pa]
      sticky_index_available [of r p pa ?av ex "session_key s"]
    by (auto simp: split_beta Let_def split: option.splits)
next
  case False
  then show ?thesis
    by (cases "rs_providers r p"; cases "pa_accounts (the (rs_providers r p)) = []")
      (simp_all add: resolve_unknown resolve_unavailable account_ids_def)
qed

text \<open>
  A request gets an account exactly when one is permitted: configured for the provider, not
  yet tried, on the allow-list and not locked for the model. The selected account is a permitted
  one with its own lease; otherwise the answer tells an empty pool from a locked one.
\<close>

theorem resolve_selects_permitted:
  "case fst (resolve_with_session_allowed p m ex s al now r) of
     Selected i lease \<Rightarrow> (\<exists>a. permitted r p m ex al now a \<and> i = ac_id a \<and> lease = account_lease a)
   | AllUnavailable _ \<Rightarrow> (\<forall>a. \<not> permitted r p m ex al now a) \<and> account_ids r p \<noteq> []
   | NoAccounts \<Rightarrow> account_ids r p = []"
  by (rule resolve_outcome_cases)

section \<open>The contract of an account selector\<close>

text \<open>
  What a fallback loop relies on: a selector hands out an identity of a fixed pool that is not
  excluded. Excluding what was handed out leaves fewer to hand out, so such a loop ends.
\<close>

locale selector =
  fixes ids :: "'st \<Rightarrow> 'i list"
    and sel :: "'q \<Rightarrow> 'i set \<Rightarrow> 'st \<Rightarrow> 'i option \<times> 'st"
  assumes sel_fresh: "sel q ex st = (Some i, st') \<Longrightarrow> i \<in> set (ids st) \<and> i \<notin> ex"
    and sel_ids: "ids (snd (sel q ex st)) = ids st"
begin

definition left :: "'st \<Rightarrow> 'i set \<Rightarrow> nat" where
  "left st ex = length (filter (\<lambda>i. i \<notin> ex) (ids st))"

lemma sel_leaves_fewer:
  assumes "sel q ex st = (Some i, st')" and "ids st'' = ids st'"
  shows "left st'' (insert i ex) < left st ex"
proof -
  have i: "i \<in> set (ids st)" "i \<notin> ex"
    using sel_fresh [OF assms(1)] by simp_all
  have ids: "ids st'' = ids st"
    using assms sel_ids [of q ex st] by simp
  obtain xs ys where split: "ids st = xs @ i # ys"
    using i(1) by (meson split_list)
  have "length (filter (\<lambda>j. j \<noteq> i \<and> j \<notin> ex) zs) \<le> length (filter (\<lambda>j. j \<notin> ex) zs)" for zs
    by (induction zs) auto
  from this [of xs] this [of ys] show ?thesis
    using i(2) by (simp add: left_def ids split)
qed

end

definition select_account ::
  "string \<Rightarrow> string \<times> string option \<times> string set option \<times> instant \<Rightarrow> string set \<Rightarrow> 'k resolver
    \<Rightarrow> string option \<times> 'k resolver" where
  "select_account provider_id q exclude r =
     (case q of (model, session_id, allowed, now) \<Rightarrow>
        (case resolve_with_session_allowed provider_id model exclude session_id allowed now r of
           (Selected i lease, r') \<Rightarrow> (Some i, r')
         | (_, r') \<Rightarrow> (None, r')))"

lemma resolve_providers: "rs_providers (snd (resolve_with_session_allowed p m ex s al now r)) = rs_providers r"
  by (auto simp: resolve_with_session_allowed_def Let_def split_beta pick_round_robin_frame
      split: option.splits selection_strategy.splits)

lemma select_account_Some:
  assumes "select_account p (m, s, al, now) ex r = (Some i, r')"
  shows "\<exists>lease. resolve_with_session_allowed p m ex s al now r = (Selected i lease, r')"
  using assms by (auto simp: select_account_def split: prod.splits resolve_outcome.splits)

lemma resolve_selected:
  assumes "resolve_with_session_allowed p m ex s al now r = (Selected i lease, r')"
  shows "\<exists>a. permitted r p m ex al now a \<and> i = ac_id a \<and> lease = account_lease a"
  using resolve_outcome_cases [where p = p and m = m and ex = ex and s = s and al = al and now = now and r = r] assms
  by simp

lemma permitted_member:
  "permitted r p m ex al now a \<Longrightarrow> ac_id a \<in> set (account_ids r p) \<and> ac_id a \<notin> ex"
  by (auto simp: permitted_def account_ids_def)

interpretation resolver: selector "\<lambda>r. account_ids r p" "select_account p" for p :: string
proof
  fix q :: "string \<times> string option \<times> string set option \<times> instant" and ex i and r r' :: "'a resolver"
  assume sel: "select_account p q ex r = (Some i, r')"
  obtain m s al now where "q = (m, s, al, now)" by (cases q)
  with sel show "i \<in> set (account_ids r p) \<and> i \<notin> ex"
    using select_account_Some resolve_selected permitted_member by metis
next
  fix q :: "string \<times> string option \<times> string set option \<times> instant" and ex and r :: "'a resolver"
  obtain m s al now where q: "q = (m, s, al, now)" by (cases q)
  have "snd (select_account p q ex r) = snd (resolve_with_session_allowed p m ex s al now r)"
    by (simp add: q select_account_def split: prod.splits resolve_outcome.splits)
  then show "account_ids (snd (select_account p q ex r)) p = account_ids r p"
    by (simp add: account_ids_def resolve_providers)
qed

section \<open>Strategies\<close>

text \<open>
  Without a session, \<open>fill_first\<close> selects a permitted account of the lowest priority value,
  whatever the order in which the accounts are stored.
\<close>

theorem fill_first_most_preferred:
  assumes "rs_providers r p = Some pa" and "pa_strategy pa = FillFirst"
    and "permitted r p m ex al now b"
  shows "\<exists>a. fst (resolve_with_session_allowed p m ex None al now r) = Selected (ac_id a) (account_lease a)
    \<and> permitted r p m ex al now a \<and> ac_priority a \<le> ac_priority b"
proof -
  let ?av = "available_indices r p m pa ex al now"
  let ?i = "arg_min_list (\<lambda>i. ac_priority (pa_accounts pa ! i)) ?av"
  have ne: "?av \<noteq> []"
    using assms(3) available_indices_empty [OF assms(1), of m ex al now] by auto
  obtain j where j: "j < length (pa_accounts pa)" "pa_accounts pa ! j = b"
    using assms(1,3) by (auto simp: permitted_def in_set_conv_nth)
  then have "j \<in> set ?av"
    using available_indices_permitted [OF assms(1)] assms(3) by simp
  then have "ac_priority (pa_accounts pa ! ?i) \<le> ac_priority b"
    using f_arg_min_list_f [OF ne, of "\<lambda>i. ac_priority (pa_accounts pa ! i)"] j(2) by auto
  moreover have "permitted r p m ex al now (pa_accounts pa ! ?i)"
    using arg_min_list_in [OF ne] available_indices_permitted [OF assms(1)] by blast
  moreover have "fst (resolve_with_session_allowed p m ex None al now r) =
      Selected (ac_id (pa_accounts pa ! ?i)) (account_lease (pa_accounts pa ! ?i))"
    using resolve_available [OF assms(1,3), of None] assms(2)
    by (simp add: session_key_def nonempty_str_def sticky_index_def strategy_pick_def Let_def)
  ultimately show ?thesis by blast
qed

text \<open>The answers to a sequence of session-less requests at the given times.\<close>

fun resolve_many :: "string \<Rightarrow> string \<Rightarrow> instant list \<Rightarrow> 'k resolver \<Rightarrow> resolve_outcome list" where
  "resolve_many p m [] r = []"
| "resolve_many p m (now # nows) r =
     (let (out, r') = resolve_account p m {} now r in out # resolve_many p m nows r')"

text \<open>The cursor after \<open>j\<close> picks from a full pool of \<open>n\<close> accounts with stickiness \<open>s\<close>.\<close>

definition rr_after :: "nat \<Rightarrow> nat \<Rightarrow> nat \<Rightarrow> rr_state" where
  "rr_after n s j =
     (if j = 0 then default_rr_state
      else \<lparr>rr_cursor = ((j - 1) div s) mod n, rr_count = word_of_nat ((j - 1) mod s + 1)\<rparr>)"

lemma div_mod_Suc:
  assumes "0 < s"
  shows "Suc k div s = (if Suc (k mod s) = s then Suc (k div s) else k div s)"
    and "Suc k mod s = (if Suc (k mod s) = s then 0 else Suc (k mod s))"
  using assms by (simp_all add: div_Suc mod_Suc)

lemma rr_rotate_after:
  assumes "0 < n" and "n < 2 ^ 64" and "0 < sticky"
  shows "rr_cursor (rr_rotate sticky (rr_after n (unat sticky) j)) mod n = (j div unat sticky) mod n"
    and "rr_count (rr_rotate sticky (rr_after n (unat sticky) j)) = word_of_nat (j mod unat sticky)"
proof -
  let ?s = "unat sticky"
  have s: "0 < ?s" "?s < 2 ^ 32"
    using assms(3) unsigned_less [of sticky, where 'a = nat] by (simp_all add: unat_gt_0)
  have max: "max sticky 1 = sticky"
  proof -
    have "(1 :: u32) \<le> sticky"
      using s(1) by (simp add: word_le_nat_alt)
    then show ?thesis by (simp add: max_def)
  qed
  have "rr_cursor (rr_rotate sticky (rr_after n ?s j)) mod n = (j div ?s) mod n
    \<and> rr_count (rr_rotate sticky (rr_after n ?s j)) = word_of_nat (j mod ?s)"
  proof (cases j)
    case 0
    have "\<not> sticky \<le> 0" using assms(3) by simp
    with 0 show ?thesis by (simp add: rr_rotate_def max rr_after_def default_rr_state_def)
  next
    case (Suc k)
    have small: "k mod ?s + 1 < 2 ^ 32"
      using s mod_less_divisor [of ?s k] by linarith
    have "sticky \<le> word_of_nat (k mod ?s + 1) \<longleftrightarrow> Suc (k mod ?s) = ?s"
      using s unat_word_of_nat [of "k mod ?s + 1", where 'a = 32] small
      by (simp add: word_le_nat_alt) (use mod_less_divisor [OF s(1), of k] in linarith)
    moreover have "(k div ?s) mod n + 1 < 2 ^ 64"
      using assms(1,2) mod_less_divisor [of n "k div ?s"] by linarith
    ultimately show ?thesis
      using s(1) by (simp add: rr_rotate_def Suc max rr_after_def div_mod_Suc mod_Suc_eq)
  qed
  then show "rr_cursor (rr_rotate sticky (rr_after n ?s j)) mod n = (j div ?s) mod n"
    and "rr_count (rr_rotate sticky (rr_after n ?s j)) = word_of_nat (j mod ?s)" by simp_all
qed

lemma pick_full:
  assumes "0 < n" and "n < 2 ^ 64" and "0 < sticky" and "rr_entry r p = rr_after n (unat sticky) j"
  shows "fst (pick_round_robin p n [0..<n] sticky r) = (j div unat sticky) mod n"
    and "rr_entry (snd (pick_round_robin p n [0..<n] sticky r)) p = rr_after n (unat sticky) (Suc j)"
proof -
  have find: "find (\<lambda>off. (start + off) mod n \<in> set [0..<n]) [0..<n] = Some 0" for start
    using assms(1) by (subst (2) upt_conv_Cons) simp_all
  note st = rr_rotate_after [OF assms(1-3), of j]
  show "fst (pick_round_robin p n [0..<n] sticky r) = (j div unat sticky) mod n"
    unfolding pick_round_robin_def assms(4) Let_def find using st by simp
  show "rr_entry (snd (pick_round_robin p n [0..<n] sticky r)) p = rr_after n (unat sticky) (Suc j)"
    unfolding pick_round_robin_def assms(4) Let_def find using st
    by (simp add: rr_entry_def rr_after_def add.commute)
qed

lemma resolve_full:
  assumes "rs_providers r p = Some pa" and "pa_strategy pa = RoundRobin" and "pa_accounts pa \<noteq> []"
    and "\<And>a. a \<in> set (pa_accounts pa) \<Longrightarrow> is_available (rs_availability r) p (ac_id a) m now"
  defines "n \<equiv> length (pa_accounts pa)"
  shows "resolve_account p m {} now r =
    (let (i, r') = pick_round_robin p n [0..<n] (pa_sticky pa) r; a = pa_accounts pa ! i
     in (Selected (ac_id a) (account_lease a), r'))"
proof -
  have "available_indices r p m pa {} None now = [0..<n]"
    using assms(4) by (simp add: available_indices_def in_allowed_def Let_def n_def filter_id_conv)
  moreover have "permitted r p m {} None now (hd (pa_accounts pa))"
    using assms(1,3,4) by (auto simp: permitted_def in_allowed_def)
  ultimately show ?thesis
    using resolve_available [OF assms(1), of m "{}" None now "hd (pa_accounts pa)" None] assms(2)
    by (simp add: resolve_account_def resolve_with_session_def session_key_def nonempty_str_def
        sticky_index_def strategy_pick_def n_def)
qed

lemma resolve_many_full:
  assumes "rs_providers r p = Some pa" and "pa_strategy pa = RoundRobin" and "pa_accounts pa \<noteq> []"
    and "length (pa_accounts pa) < 2 ^ 64" and "0 < pa_sticky pa"
    and "\<And>a now. a \<in> set (pa_accounts pa) \<Longrightarrow> now \<in> set nows \<Longrightarrow> is_available (rs_availability r) p (ac_id a) m now"
    and "rr_entry r p = rr_after (length (pa_accounts pa)) (unat (pa_sticky pa)) j"
  shows "resolve_many p m nows r =
    map (\<lambda>i. let a = pa_accounts pa ! ((i div unat (pa_sticky pa)) mod length (pa_accounts pa))
         in Selected (ac_id a) (account_lease a)) [j..<j + length nows]"
  using assms(1,6,7)
proof (induction nows arbitrary: r j)
  case Nil
  show ?case by simp
next
  case (Cons now nows)
  let ?n = "length (pa_accounts pa)"
  let ?pick = "pick_round_robin p ?n [0..<?n] (pa_sticky pa) r"
  have n: "0 < ?n" using assms(3) by simp
  note pick = pick_full [OF n assms(4,5) Cons.prems(3)]
  have "resolve_many p m nows (snd ?pick) =
      map (\<lambda>i. let a = pa_accounts pa ! ((i div unat (pa_sticky pa)) mod ?n)
         in Selected (ac_id a) (account_lease a)) [Suc j..<Suc j + length nows]"
    by (rule Cons.IH) (use Cons.prems(1,2) pick(2) in \<open>simp_all add: pick_round_robin_frame\<close>)
  moreover have "resolve_account p m {} now r =
      (let (i, r') = ?pick; a = pa_accounts pa ! i in (Selected (ac_id a) (account_lease a), r'))"
    by (rule resolve_full) (use Cons.prems(1,2) assms(2,3) in auto)
  ultimately show ?case
    using pick(1) by (simp add: split_beta Let_def upt_conv_Cons del: upt_Suc)
qed

text \<open>
  On a fresh resolver \<open>round_robin\<close> serves each account of a pool that stays available
  for \<open>sticky\<close> requests in a row and then moves on to the next, wrapping around: the \<open>i\<close>-th
  request gets account \<open>(i div sticky) mod n\<close>.
\<close>

theorem round_robin_rotates:
  assumes "rs_providers r p = Some pa" and "pa_strategy pa = RoundRobin" and "pa_accounts pa \<noteq> []"
    and "length (pa_accounts pa) < 2 ^ 64" and "0 < pa_sticky pa" and "rs_rr r p = None"
    and "\<And>a now. a \<in> set (pa_accounts pa) \<Longrightarrow> now \<in> set nows \<Longrightarrow> is_available (rs_availability r) p (ac_id a) m now"
  shows "resolve_many p m nows r =
    map (\<lambda>i. let a = pa_accounts pa ! ((i div unat (pa_sticky pa)) mod length (pa_accounts pa))
         in Selected (ac_id a) (account_lease a)) [0..<length nows]"
  using resolve_many_full [OF assms(1-5,7), where j = 0] assms(6)
  by (simp add: rr_entry_def rr_after_def)

section \<open>Sessions and health\<close>

text \<open>
  A session stays on its account: once a request of a session was given an account, every
  later request of that session to the provider, for any model and with any exclusions, gets
  the same account as long as it is permitted.
\<close>

theorem session_sticks:
  assumes "resolve_with_session_allowed p m ex (Some k) al now r = (Selected i lease, r')"
    and "k \<noteq> []" and "permitted r' p m' ex' al' now' a" and "ac_id a = i"
  shows "\<exists>lease'. fst (resolve_with_session_allowed p m' ex' (Some k) al' now' r') = Selected i lease'"
proof -
  have key: "session_key (Some k) = Some k"
    using assms(2) by (simp add: session_key_def nonempty_str_def)
  have perm: "\<exists>a. permitted r p m ex al now a"
    using resolve_outcome_cases [where p = p and m = m and ex = ex and s = "Some k" and al = al and now = now
      and r = r] assms(1) by auto
  then obtain pa where pa: "rs_providers r p = Some pa"
    by (auto simp: permitted_def)
  from perm obtain a0 where a0: "permitted r p m ex al now a0" ..
  have aff: "rs_session_affinity r' (p, k) = Some i" and pa': "rs_providers r' p = Some pa"
    using resolve_available [OF pa a0, of "Some k"] assms(1) pa
    by (auto simp: key sticky_index_def find_Some_iff split_beta Let_def strategy_pick_frame split: option.splits)
  let ?av = "available_indices r' p m' pa ex' al' now'"
  obtain j where "j < length (pa_accounts pa)" "pa_accounts pa ! j = a"
    using assms(3) pa' by (auto simp: permitted_def in_set_conv_nth)
  then have "j \<in> set ?av"
    using available_indices_permitted [OF pa'] assms(3) by simp
  moreover have "i \<notin> ex'"
    using assms(3,4) by (simp add: permitted_def)
  ultimately have "sticky_index r' p pa ?av ex' (Some k) \<noteq> None"
    using aff assms(4) \<open>pa_accounts pa ! j = a\<close> by (auto simp: sticky_index_def find_None_iff)
  then obtain q where q: "sticky_index r' p pa ?av ex' (Some k) = Some q"
    by blast
  then have "ac_id (pa_accounts pa ! q) = i"
    using aff by (auto simp: sticky_index_def find_Some_iff)
  then show ?thesis
    using resolve_available [OF pa' assms(3), of "Some k"] q by (simp add: key)
qed

text \<open>
  The pool health that the router ranks targets by is what a request will find: the count
  of healthy accounts is positive exactly when a request without exclusions and restrictions
  is given an account.
\<close>

theorem pool_health_agrees:
  "0 < ph_healthy (pool_health_of r p m now) \<longleftrightarrow>
     (\<exists>i lease. fst (resolve_account p m {} now r) = Selected i lease)"
proof -
  have "0 < ph_healthy (pool_health_of r p m now) \<longleftrightarrow> (\<exists>a. permitted r p m {} None now a)"
    by (auto simp: pool_health_of_def permitted_def in_allowed_def filter_empty_conv split: option.splits)
  then show ?thesis
    using resolve_outcome_cases [where p = p and m = m and ex = "{}" and s = None and al = None and now = now
      and r = r]
    by (auto simp: resolve_account_def resolve_with_session_def permitted_def account_ids_def
        split: resolve_outcome.splits option.splits)
qed

section \<open>Witnesses\<close>

definition key_account :: "string \<Rightarrow> int \<Rightarrow> unit account" where
  "key_account i priority = \<lparr>ac_id = i, ac_provider_id = ''p'', ac_auth = RaApiKey ''k'', ac_priority = priority,
     ac_policy_tags = []\<rparr>"

definition two_accounts :: "selection_strategy \<Rightarrow> unit resolver" where
  "two_accounts strategy = new_resolver [''p'' \<mapsto> \<lparr>pa_accounts = [key_account ''b'' 2, key_account ''a'' 1],
     pa_strategy = strategy, pa_sticky = 2\<rparr>]"

lemmas two_accounts_defs = two_accounts_def new_resolver_def resolver_with_parts_def new_availability_def
  key_account_def is_available_def permitted_def in_allowed_def

theorem fill_first_most_preferred_witness:
  "\<exists>a. fst (resolve_with_session_allowed ''p'' ''m'' {} None None 0 (two_accounts FillFirst)) =
      Selected (ac_id a) (account_lease a)
    \<and> permitted (two_accounts FillFirst) ''p'' ''m'' {} None 0 a \<and> ac_priority a \<le> ac_priority (key_account ''a'' 1)"
  by (rule fill_first_most_preferred [where pa = "\<lparr>pa_accounts = [key_account ''b'' 2, key_account ''a'' 1],
        pa_strategy = FillFirst, pa_sticky = 2\<rparr>"]) (simp_all add: two_accounts_defs)

theorem round_robin_rotates_witness:
  "map (\<lambda>out. case out of Selected i lease \<Rightarrow> i | _ \<Rightarrow> []) (resolve_many ''p'' ''m'' [0, 1, 2, 3, 4] (two_accounts RoundRobin)) =
     [''b'', ''b'', ''a'', ''a'', ''b'']"
  by (subst round_robin_rotates [where pa = "\<lparr>pa_accounts = [key_account ''b'' 2, key_account ''a'' 1],
        pa_strategy = RoundRobin, pa_sticky = 2\<rparr>"]) (simp_all add: two_accounts_defs upt_rec Let_def)

definition session_on_b :: "unit resolver" where
  "session_on_b = (two_accounts FillFirst)\<lparr>rs_session_affinity := [(''p'', ''s'') \<mapsto> ''b'']\<rparr>"

lemma session_on_b:
  "resolve_with_session_allowed ''p'' ''m'' {''a''} (Some ''s'') None 0 (two_accounts FillFirst) =
     (Selected ''b'' (account_lease (key_account ''b'' 2)), session_on_b)"
  by (simp add: resolve_with_session_allowed_def available_indices_def sticky_index_def session_key_def
      nonempty_str_def session_on_b_def two_accounts_defs)

theorem session_sticks_witness:
  "\<exists>lease. fst (resolve_with_session_allowed ''p'' ''other'' {} (Some ''s'') None 7 session_on_b) = Selected ''b'' lease"
  by (rule session_sticks [OF session_on_b, where a = "key_account ''b'' 2"])
    (simp_all add: session_on_b_def two_accounts_defs)

end
