(* ===== verification/Text_Lines.thy ===== *)
theory Text_Lines
  imports Ordered_Map
begin

text \<open>
  Text as the list of its UTF-8 bytes, and the functions of \<open>str\<close> that the text filters use:
  \<open>lines\<close>, the trimming and splitting functions with Unicode white space, prefix removal and the
  searches from the right. A character beyond ASCII is its byte sequence; UTF-8 is
  self-synchronising, so matching the bytes of a character finds the character.
\<close>

section \<open>White space\<close>

definition bytes :: "nat list \<Rightarrow> string" where
  "bytes ns = map char_of ns"

text \<open>The encodings of the characters with the property \<open>White_Space\<close>.\<close>

definition white_spaces :: "string list" where
  "white_spaces = map bytes
     ([[32], [9], [10], [11], [12], [13], [194, 133], [194, 160], [225, 154, 128]]
      @ map (\<lambda>b. [226, 128, b]) [128, 129, 130, 131, 132, 133, 134, 135, 136, 137, 138, 168, 169, 175]
      @ [[226, 129, 159], [227, 128, 128]])"

definition ascii_whitespace :: "char \<Rightarrow> bool" where
  "ascii_whitespace c \<longleftrightarrow> (of_char c :: nat) \<in> {32, 9, 10, 12, 13}"

definition str_ends_with :: "string \<Rightarrow> string \<Rightarrow> bool" where
  "str_ends_with s p \<longleftrightarrow> starts_with (rev s) (rev p)"

definition strip_suffix :: "string \<Rightarrow> string \<Rightarrow> string option" where
  "strip_suffix p s = (if str_ends_with s p then Some (take (length s - length p) s) else None)"

text \<open>\<open>trim_start_matches\<close> and \<open>trim_end_matches\<close> for a non-empty pattern out of a list.\<close>

function trim_start_matches :: "string list \<Rightarrow> string \<Rightarrow> string" where
  "trim_start_matches ps s =
     (case find (\<lambda>p. p \<noteq> [] \<and> starts_with s p) ps of
        Some p \<Rightarrow> trim_start_matches ps (drop (length p) s)
      | None \<Rightarrow> s)"
  by pat_completeness auto

lemma starts_with_length: "starts_with s p \<Longrightarrow> length p \<le> length s"
  by (metis linorder_le_cases starts_with_def take_all)

lemma found_shorter:
  "find (\<lambda>p. p \<noteq> [] \<and> starts_with s p) ps = Some p \<Longrightarrow> length (drop (length p) s) < length s"
proof -
  assume "find (\<lambda>p. p \<noteq> [] \<and> starts_with s p) ps = Some p"
  then have "p \<noteq> []" and "length p \<le> length s"
    by (auto simp: find_Some_iff dest: starts_with_length)
  moreover have "0 < length p"
    using \<open>p \<noteq> []\<close> by simp
  ultimately show ?thesis
    unfolding length_drop by linarith
qed

termination trim_start_matches
  by (relation "measure (\<lambda>(ps, s). length s)") (simp, auto dest: found_shorter)

declare trim_start_matches.simps [simp del]

definition trim_end_matches :: "string list \<Rightarrow> string \<Rightarrow> string" where
  "trim_end_matches ps s = rev (trim_start_matches (map rev ps) (rev s))"

definition trim_start :: "string \<Rightarrow> string" where
  "trim_start s = trim_start_matches white_spaces s"

definition str_trim :: "string \<Rightarrow> string" where
  "str_trim s = trim_end_matches white_spaces (trim_start s)"

definition contains_whitespace :: "string \<Rightarrow> bool" where
  "contains_whitespace s \<longleftrightarrow> list_ex (str_contains s) white_spaces"

text \<open>\<open>split_whitespace\<close>: the words, with the word under construction first.\<close>

definition close_word :: "string \<Rightarrow> string list \<Rightarrow> string list" where
  "close_word word rest = (if word = [] then rest else word # rest)"

function split_words :: "string \<Rightarrow> string \<Rightarrow> string list" where
  "split_words word [] = close_word word []"
| "split_words word (c # cs) =
     (case find (\<lambda>p. p \<noteq> [] \<and> starts_with (c # cs) p) white_spaces of
        Some p \<Rightarrow> close_word word (split_words [] (drop (length p) (c # cs)))
      | None \<Rightarrow> split_words (word @ [c]) cs)"
  by pat_completeness auto

termination split_words
proof (relation "measure (\<lambda>(w, s). length s)")
  fix word c cs p
  assume "find (\<lambda>p. p \<noteq> [] \<and> starts_with (c # cs) p) white_spaces = Some p"
  from found_shorter [OF this] show "(([], drop (length p) (c # cs)), (word, c # cs)) \<in> measure (\<lambda>(w, s). length s)"
    by simp
qed simp_all

declare split_words.simps [simp del]

definition split_whitespace :: "string \<Rightarrow> string list" where
  "split_whitespace s = split_words [] s"

section \<open>Lines\<close>

text \<open>
  \<open>str::lines\<close>: pieces ended by a line feed lose it and a carriage return before it; a last
  piece without a line feed is kept as it is, unless it is empty.
\<close>

definition line_end :: "string \<Rightarrow> string" where
  "line_end l = (case strip_suffix (bytes [13]) l of Some l' \<Rightarrow> l' | None \<Rightarrow> l)"

fun lines_from :: "string \<Rightarrow> string \<Rightarrow> string list" where
  "lines_from cur [] = (if cur = [] then [] else [cur])"
| "lines_from cur (c # cs) =
     (if c = char_of (10 :: nat) then line_end cur # lines_from [] cs else lines_from (cur @ [c]) cs)"

definition str_lines :: "string \<Rightarrow> string list" where
  "str_lines s = lines_from [] s"

section \<open>Searches from the right\<close>

text \<open>\<open>rsplit_once\<close> and the piece before the first separator, for a one-byte separator.\<close>

definition rsplit_once :: "char \<Rightarrow> string \<Rightarrow> (string \<times> string) option" where
  "rsplit_once c s =
     (if c \<in> set s
      then Some (rev (tl (dropWhile (\<lambda>x. x \<noteq> c) (rev s))), rev (takeWhile (\<lambda>x. x \<noteq> c) (rev s)))
      else None)"

definition before_char :: "char \<Rightarrow> string \<Rightarrow> string" where
  "before_char c s = takeWhile (\<lambda>x. x \<noteq> c) s"

lemma rsplit_once_Some: "rsplit_once c s = Some (a, b) \<Longrightarrow> s = a @ c # b"
proof -
  assume h: "rsplit_once c s = Some (a, b)"
  then have "c \<in> set (rev s)"
    by (auto simp: rsplit_once_def split: if_splits)
  then have "dropWhile (\<lambda>x. x \<noteq> c) (rev s) \<noteq> []"
    by (auto simp: dropWhile_eq_Nil_conv)
  then have "dropWhile (\<lambda>x. x \<noteq> c) (rev s) = c # tl (dropWhile (\<lambda>x. x \<noteq> c) (rev s))"
    using hd_dropWhile [of "\<lambda>x. x \<noteq> c" "rev s"] by (metis list.collapse)
  then have "rev s = takeWhile (\<lambda>x. x \<noteq> c) (rev s) @ c # tl (dropWhile (\<lambda>x. x \<noteq> c) (rev s))"
    by (metis takeWhile_dropWhile_id)
  then have "s = rev (tl (dropWhile (\<lambda>x. x \<noteq> c) (rev s))) @ c # rev (takeWhile (\<lambda>x. x \<noteq> c) (rev s))"
    by (metis append.assoc append_Cons append_Nil rev.simps(2) rev_append rev_rev_ident)
  with h show ?thesis
    by (auto simp: rsplit_once_def split: if_splits)
qed

section \<open>Entries of an ordered map\<close>

text \<open>\<open>*m.entry(k).or_insert(d)\<close> updated by a function.\<close>

definition bt_entry :: "'k::linorder \<Rightarrow> 'v \<Rightarrow> ('v \<Rightarrow> 'v) \<Rightarrow> ('k, 'v) btree_map \<Rightarrow> ('k, 'v) btree_map" where
  "bt_entry k d f m = bt_insert k (f (case bt_get m k of Some v \<Rightarrow> v | None \<Rightarrow> d)) m"

lemma bt_wf_entry: "bt_wf m \<Longrightarrow> bt_wf (bt_entry k d f m)"
  by (simp add: bt_entry_def bt_wf_insert)

lemma bt_get_entry:
  "bt_wf m \<Longrightarrow> bt_get (bt_entry k d f m) k' =
     (if k' = k then Some (f (case bt_get m k of Some v \<Rightarrow> v | None \<Rightarrow> d)) else bt_get m k')"
  by (simp add: bt_entry_def bt_get_insert)

text \<open>Grouping a list by a key into such a map: the value of a key folds over its members.\<close>

definition group_by :: "('a \<Rightarrow> 'k::linorder option) \<Rightarrow> 'v \<Rightarrow> ('a \<Rightarrow> 'v \<Rightarrow> 'v) \<Rightarrow> 'a list \<Rightarrow> ('k, 'v) btree_map \<Rightarrow> ('k, 'v) btree_map" where
  "group_by key d f xs m = fold (\<lambda>x. case key x of Some k \<Rightarrow> bt_entry k d (f x) | None \<Rightarrow> id) xs m"

lemma group_by_wf: "bt_wf m \<Longrightarrow> bt_wf (group_by key d f xs m)"
  unfolding group_by_def by (induction xs arbitrary: m) (auto simp: bt_wf_entry split: option.split)

lemma group_by_get:
  assumes "bt_wf m"
  shows "bt_get (group_by key d f xs m) k =
    (if (\<exists>x \<in> set xs. key x = Some k)
     then Some (fold f (filter (\<lambda>x. key x = Some k) xs) (case bt_get m k of Some v \<Rightarrow> v | None \<Rightarrow> d))
     else bt_get m k)"
  using assms
proof (induction xs arbitrary: m)
  case Nil
  then show ?case by (simp add: group_by_def)
next
  case (Cons x xs)
  let ?m = "case key x of Some k' \<Rightarrow> bt_entry k' d (f x) m | None \<Rightarrow> m"
  have "bt_wf ?m"
    using Cons.prems by (auto simp: bt_wf_entry split: option.split)
  moreover have "group_by key d f (x # xs) m = group_by key d f xs ?m"
    by (simp add: group_by_def split: option.split)
  ultimately show ?case
    using Cons by (auto simp: bt_get_entry split: option.splits)
qed

end
