(* ===== verification/Compress.thy ===== *)
theory Compress
  imports Text_Lines Canonical_IR
begin

text \<open>
  Compression of tool results (\<open>sb-compress/src/lib.rs\<close>): the line-shape detection, the eight
  text filters, the guards around them and the pass over a request. Text is its UTF-8 bytes, so
  lengths are those the byte gates measure. A filter that panics is one that yields no text; none
  of the filters of the cascade does.
\<close>

section \<open>Line shapes\<close>

definition newline :: string where "newline = bytes [10]"
definition ellipsis :: string where "ellipsis = bytes [226, 128, 166]"
definition em_dash :: string where "em_dash = bytes [226, 128, 148]"
definition times_sign :: string where "times_sign = bytes [195, 151]"
definition tree_bar :: string where "tree_bar = bytes [226, 148, 130]"
definition tree_tee :: string where "tree_tee = bytes [226, 148, 156, 226, 148, 128, 226, 148, 128]"
definition tree_corner :: string where "tree_corner = bytes [226, 148, 148, 226, 148, 128, 226, 148, 128]"

definition is_path_like :: "string \<Rightarrow> bool" where
  "is_path_like line =
     (let t = str_trim line
      in t \<noteq> [] \<and> \<not> contains_whitespace t \<and> (str_contains t ''/'' \<or> str_contains t ''.''))"

definition is_tree_line :: "string \<Rightarrow> bool" where
  "is_tree_line line =
     (let t = trim_start line
      in str_contains t tree_tee \<or> str_contains t tree_corner \<or> str_contains t tree_bar
         \<or> starts_with t ''|-- '' \<or> starts_with t ''`-- '')"

definition is_ls_long_line :: "string \<Rightarrow> bool" where
  "is_ls_long_line line =
     (let t = trim_start line
      in if starts_with t ''total '' then False
         else case t of
             [] \<Rightarrow> False
           | first # _ \<Rightarrow>
               first \<in> set ''-dl'' \<and> 10 < length t \<and> ascii_whitespace (t ! 10) \<and> 8 \<le> length (split_whitespace t))"

definition is_stack_trace_line :: "string \<Rightarrow> bool" where
  "is_stack_trace_line line =
     (let t = trim_start line
      in starts_with t ''at '' \<or> starts_with t (''at'' @ bytes [9]) \<or> starts_with t ''at async ''
         \<or> starts_with t ''0:'' \<or> starts_with t ''1:'' \<or> str_contains t '' panicked at ''
         \<or> (str_contains t ''.rs:'' \<and> str_contains t ''::''))"

definition ascii_digit :: "char \<Rightarrow> bool" where
  "ascii_digit c \<longleftrightarrow> 48 \<le> (of_char c :: nat) \<and> (of_char c :: nat) \<le> 57"

definition parse_grep_line :: "string \<Rightarrow> (string \<times> string) option" where
  "parse_grep_line line =
     (case split_once '':'' line of
        None \<Rightarrow> None
      | Some (file, rest) \<Rightarrow>
          (case split_once '':'' rest of
             None \<Rightarrow> None
           | Some (num, content) \<Rightarrow>
               if file = [] \<or> num = [] \<or> \<not> list_all ascii_digit num then None
               else Some (file, num @ '': '' @ str_trim content)))"

section \<open>Filters\<close>

text \<open>The line that reports how many items a listing left out.\<close>

definition more_line :: "nat \<Rightarrow> nat \<Rightarrow> string \<Rightarrow> string" where
  "more_line shown n what =
     (if shown < n then newline @ ''  '' @ ellipsis @ '' '' @ show_nat (n - shown) @ what else [])"

definition indented :: "string \<Rightarrow> string" where
  "indented s = newline @ ''  '' @ s"

subsection \<open>Diffs\<close>

type_synonym diff_file = "string \<times> nat \<times> nat"

definition diff_path :: "string \<Rightarrow> string" where
  "diff_path rest =
     trim_start_matches [''a/''] (case split_whitespace rest of w # _ \<Rightarrow> w | [] \<Rightarrow> ''?'')"

definition diff_header :: "string \<Rightarrow> bool" where
  "diff_header line \<longleftrightarrow>
     starts_with line ''+++'' \<or> starts_with line ''---'' \<or> starts_with line ''@@'' \<or> starts_with line ''index ''"

definition diff_line :: "string \<Rightarrow> diff_file list \<times> diff_file option \<Rightarrow> diff_file list \<times> diff_file option" where
  "diff_line line st =
     (let (files, cur) = st
      in case strip_prefix ''diff --git '' line of
           Some rest \<Rightarrow> (case cur of Some done \<Rightarrow> files @ [done] | None \<Rightarrow> files, Some (diff_path rest, 0, 0))
         | None \<Rightarrow>
             if diff_header line then (files, cur)
             else case cur of
                 Some (path, added, removed) \<Rightarrow>
                   (files, Some (if starts_with line ''+'' then (path, added + 1, removed)
                                 else if starts_with line ''-'' then (path, added, removed + 1)
                                 else (path, added, removed)))
               | None \<Rightarrow> (files, None))"

definition diff_files :: "string \<Rightarrow> diff_file list" where
  "diff_files text =
     (let (files, cur) = fold diff_line (str_lines text) ([], None)
      in case cur of Some done \<Rightarrow> files @ [done] | None \<Rightarrow> files)"

definition filter_git_diff :: "string \<Rightarrow> string" where
  "filter_git_diff text =
     (let files = diff_files text
      in if files = [] then text
         else ''[git diff summary]''
           @ concat (map (\<lambda>(path, added, removed).
               indented (path @ '': +'' @ show_nat added @ '' -'' @ show_nat removed)) files))"

subsection \<open>Matches\<close>

definition grep_groups :: "string \<Rightarrow> (string, string list) btree_map" where
  "grep_groups text =
     group_by (\<lambda>line. map_option fst (parse_grep_line line)) []
       (\<lambda>line ms. case parse_grep_line line of Some (file, rest) \<Rightarrow> ms @ [rest] | None \<Rightarrow> ms) (str_lines text) []"

definition filter_grep :: "string \<Rightarrow> string" where
  "filter_grep text =
     (let by_file = grep_groups text
      in if by_file = [] then text
         else ''[grep matches by file]''
           @ concat (map (\<lambda>(file, ms).
               newline @ file @ '' ('' @ show_nat (length ms) @ '' matches)''
               @ concat (map indented (take 10 ms)) @ more_line 10 (length ms) '' more'') by_file))"

subsection \<open>Trees\<close>

definition tree_entry :: "string \<Rightarrow> string option" where
  "tree_entry line =
     (let trimmed = str_trim line
      in if trimmed = [] \<or> trimmed = ''.'' then None
         else let entry = str_trim (trim_start_matches [''`--''] (trim_start_matches [''|--'']
                    (trim_start_matches [tree_corner] (trim_start_matches [tree_tee]
                      (trim_start (trim_start_matches [tree_bar] trimmed))))))
              in if entry = [] then None else Some entry)"

definition filter_tree :: "string \<Rightarrow> string" where
  "filter_tree text =
     (let entries = List.map_filter tree_entry (str_lines text);
          files = length (filter (\<lambda>e. str_contains e ''.'') entries);
          dirs = length (filter (\<lambda>e. \<not> str_contains e ''.'') entries);
          top = group_by (\<lambda>e. Some (before_char (CHR ''/'') e)) 0 (\<lambda>e n. n + 1) entries []
      in ''[tree summary]'' @ indented (show_nat files @ '' files, '' @ show_nat dirs @ '' dirs'')
         @ concat (map (\<lambda>(name, count). indented (name @ '': '' @ show_nat count @ '' entries'')) (take 20 top))
         @ more_line 20 (length top) '' more entries'')"

subsection \<open>Listings\<close>

definition filter_ls :: "string \<Rightarrow> string" where
  "filter_ls text =
     (let ts = filter is_ls_long_line (map trim_start (str_lines text));
          dirs = length (filter (\<lambda>t. starts_with t ''d'') ts);
          links = length (filter (\<lambda>t. starts_with t ''l'') ts);
          files = length (filter (\<lambda>t. \<not> starts_with t ''d'' \<and> \<not> starts_with t ''l'') ts);
          names = List.map_filter (\<lambda>t. let ws = split_whitespace t in if ws = [] then None else Some (last ws)) ts;
          entries = files + dirs + links
      in ''[ls summary]''
         @ indented (show_nat entries @ '' entries: '' @ show_nat files @ '' files, '' @ show_nat dirs @ '' dirs, ''
             @ show_nat links @ '' links'')
         @ concat (map indented (take 20 names)) @ more_line 20 (length names) '' more'')"

subsection \<open>Stack traces\<close>

definition compact_stack_frame :: "string \<Rightarrow> string" where
  "compact_stack_frame frame =
     (let trimmed = str_trim (trim_start_matches [''at ''] frame)
      in case rsplit_once (CHR ''('') trimmed of
           Some (before, location) \<Rightarrow> trim_end_matches ['')''] location
         | None \<Rightarrow> trimmed)"

definition stack_line :: "string \<Rightarrow> string option \<times> string list \<Rightarrow> string option \<times> string list" where
  "stack_line line st =
     (let (header, frames) = st; t = str_trim line
      in if header = None \<and> t \<noteq> [] \<and> \<not> is_stack_trace_line t then (Some t, frames)
         else if is_stack_trace_line t then (header, frames @ [compact_stack_frame t])
         else (header, frames))"

definition filter_stack_trace :: "string \<Rightarrow> string" where
  "filter_stack_trace text =
     (let (header, frames) = fold stack_line (str_lines text) (None, [])
      in ''[stack trace summary]'' @ (case header of Some h \<Rightarrow> indented h | None \<Rightarrow> [])
         @ indented (show_nat (length frames) @ '' frames'')
         @ concat (map indented (take 20 frames)) @ more_line 20 (length frames) '' more frames'')"

subsection \<open>Paths\<close>

definition path_dir :: "string \<Rightarrow> string option" where
  "path_dir line =
     (let path = str_trim line
      in if path = [] then None
         else Some (case rsplit_once (CHR ''/'') path of Some (d, _) \<Rightarrow> d | None \<Rightarrow> ''.''))"

definition dir_counts :: "string \<Rightarrow> (string, nat) btree_map" where
  "dir_counts text = group_by path_dir 0 (\<lambda>line n. n + 1) (str_lines text) []"

definition filter_find :: "string \<Rightarrow> string" where
  "filter_find text =
     (let by_dir = dir_counts text
      in if by_dir = [] then text
         else ''[paths grouped by directory]''
           @ concat (map (\<lambda>(dir, count).
               indented (dir @ ''/ '' @ em_dash @ '' '' @ show_nat count @ '' entries'')) (take 40 by_dir))
           @ more_line 40 (length by_dir) '' more dirs'')"

subsection \<open>Build output\<close>

definition is_progress :: "string \<Rightarrow> bool" where
  "is_progress t \<longleftrightarrow> list_ex (starts_with t) [''Compiling '', ''Downloading '', ''Downloaded '', ''Checking '']"

definition filter_build_output :: "string \<Rightarrow> string" where
  "filter_build_output text =
     (let ls = str_lines text;
          rest = filter (\<lambda>l. \<not> is_progress (trim_start l)) ls;
          progress = length (filter (\<lambda>l. is_progress (trim_start l)) ls);
          errors = filter (\<lambda>l. starts_with (trim_start l) ''error'') rest;
          warnings = filter (\<lambda>l. \<not> starts_with (trim_start l) ''error'' \<and> starts_with (trim_start l) ''warning'') rest
      in ''[build output summary]''
         @ (if 0 < progress then indented (show_nat progress @ '' progress lines collapsed'') else [])
         @ concat (map (\<lambda>e. newline @ e) (take 20 errors)) @ more_line 20 (length errors) '' more errors''
         @ concat (map (\<lambda>w. newline @ w) (take 5 warnings)) @ more_line 5 (length warnings) '' more warnings'')"

subsection \<open>Everything else\<close>

definition collapse_line :: "string \<Rightarrow> (string \<times> nat) list \<Rightarrow> (string \<times> nat) list" where
  "collapse_line line collapsed =
     (if collapsed \<noteq> [] \<and> fst (last collapsed) = line
      then butlast collapsed @ [(line, snd (last collapsed) + 1)]
      else collapsed @ [(line, 1)])"

definition collapsed_line :: "string \<times> nat \<Rightarrow> string" where
  "collapsed_line lc =
     (let (line, count) = lc in if 1 < count then line @ ''  ('' @ times_sign @ show_nat count @ '')'' else line)"

definition head_tail :: "string list \<Rightarrow> string list" where
  "head_tail ls =
     (if 120 + 60 + 1 < length ls
      then take 120 ls @ [''  '' @ ellipsis @ '' '' @ show_nat (length ls - 120 - 60) @ '' lines omitted '' @ ellipsis]
        @ drop (length ls - 60) ls
      else ls)"

definition filter_dedup_truncate :: "string \<Rightarrow> string" where
  "filter_dedup_truncate text =
     join_with newline (head_tail (map collapsed_line (fold collapse_line (str_lines text) [])))"

section \<open>Detection and guards\<close>

text \<open>A filter either yields its text or panics (no text).\<close>

type_synonym text_filter = "string \<Rightarrow> string option"

definition autodetect :: "string \<Rightarrow> (string \<times> text_filter) option" where
  "autodetect text =
     (let nonempty = filter (\<lambda>l. str_trim l \<noteq> []) (str_lines text);
          head = take 8 nonempty;
          count = (\<lambda>P. length (filter P head))
      in if head = [] then None
         else if list_ex (\<lambda>l. starts_with l ''diff --git '' \<or> starts_with l ''@@ '' \<or> starts_with l ''--- a/'') head
           then Some (''git_diff'', Some \<circ> filter_git_diff)
         else if 2 \<le> count is_tree_line then Some (''tree'', Some \<circ> filter_tree)
         else if 2 \<le> count is_stack_trace_line \<or> list_ex (\<lambda>l. str_trim l = ''stack backtrace:'') head
           then Some (''stack_trace'', Some \<circ> filter_stack_trace)
         else if list_ex (\<lambda>l. list_ex (starts_with (trim_start l))
                  [''Compiling '', ''error['', ''error:'', ''warning:'', ''Finished '']) head
           then Some (''build_output'', Some \<circ> filter_build_output)
         else let grep_like = count (\<lambda>l. parse_grep_line l \<noteq> None) in
              if 2 \<le> grep_like \<and> length head \<le> grep_like * 2 then Some (''grep'', Some \<circ> filter_grep)
         else let ls_like = count is_ls_long_line in
              if 2 \<le> ls_like \<or> (starts_with (hd head) ''total '' \<and> 1 \<le> ls_like) then Some (''ls'', Some \<circ> filter_ls)
         else if 3 \<le> length nonempty \<and> list_all is_path_like nonempty then Some (''find'', Some \<circ> filter_find)
         else if 8 \<le> length nonempty then Some (''dedup_truncate'', Some \<circ> filter_dedup_truncate)
         else None)"

definition safe_apply :: "string \<Rightarrow> text_filter \<Rightarrow> string option" where
  "safe_apply text f =
     (case f text of
        Some out \<Rightarrow> if out \<noteq> [] \<and> length out < length text then Some out else None
      | None \<Rightarrow> None)"

definition compress_text :: "string \<Rightarrow> string \<times> string option" where
  "compress_text text =
     (case autodetect text of
        Some (name, f) \<Rightarrow> (case safe_apply text f of Some out \<Rightarrow> (out, Some name) | None \<Rightarrow> (text, None))
      | None \<Rightarrow> (text, None))"

section \<open>Requests\<close>

record compression_stats =
  cs_bytes_before :: usize
  cs_bytes_after :: usize
  cs_filters_applied :: "string list"

definition default_compression_stats :: compression_stats where
  "default_compression_stats = \<lparr>cs_bytes_before = 0, cs_bytes_after = 0, cs_filters_applied = []\<rparr>"

definition stats_saved :: "compression_stats \<Rightarrow> usize" where
  "stats_saved s = cs_bytes_before s - cs_bytes_after s"

definition MIN_COMPRESS_BYTES :: usize where "MIN_COMPRESS_BYTES = 500"
definition MAX_COMPRESS_BYTES :: usize where "MAX_COMPRESS_BYTES = 10 * 1024 * 1024"

definition compressible :: "string \<Rightarrow> tool_result_part list \<Rightarrow> bool \<Rightarrow> bool" where
  "compressible content parts is_error \<longleftrightarrow>
     \<not> is_error \<and> (parts = [] \<or> parts = [TrText content])
     \<and> MIN_COMPRESS_BYTES \<le> length content \<and> length content \<le> MAX_COMPRESS_BYTES"

fun compress_part :: "'j content_part \<Rightarrow> compression_stats \<Rightarrow> 'j content_part \<times> compression_stats" where
  "compress_part (CpToolResult i content parts is_error) stats =
     (if \<not> compressible content parts is_error then (CpToolResult i content parts is_error, stats)
      else let (compressed, f) = compress_text content
           in (CpToolResult i compressed (case parts of [TrText _] \<Rightarrow> [TrText compressed] | _ \<Rightarrow> parts) is_error,
               \<lparr>cs_bytes_before = cs_bytes_before stats + length content,
                cs_bytes_after = cs_bytes_after stats + length compressed,
                cs_filters_applied = cs_filters_applied stats @ (case f of Some name \<Rightarrow> [name] | None \<Rightarrow> [])\<rparr>))"
| "compress_part part stats = (part, stats)"

fun compress_parts :: "'j content_part list \<Rightarrow> compression_stats \<Rightarrow> 'j content_part list \<times> compression_stats" where
  "compress_parts [] stats = ([], stats)"
| "compress_parts (p # ps) stats =
     (let (p', s1) = compress_part p stats; (ps', s2) = compress_parts ps s1 in (p' # ps', s2))"

fun compress_messages :: "'j message list \<Rightarrow> compression_stats \<Rightarrow> 'j message list \<times> compression_stats" where
  "compress_messages [] stats = ([], stats)"
| "compress_messages (msg # ms) stats =
     (let (content, s1) = compress_parts (msg_content msg) stats; (ms', s2) = compress_messages ms s1
      in (msg\<lparr>msg_content := content\<rparr> # ms', s2))"

definition compress_request :: "'j ai_request \<Rightarrow> 'j ai_request \<times> compression_stats" where
  "compress_request req =
     (let (ms, stats) = compress_messages (req_messages req) default_compression_stats
      in (req\<lparr>req_messages := ms\<rparr>, stats))"

end
