(* ===== verification/Plugins.thy ===== *)
theory Plugins
  imports Text_Lines Canonical_IR
begin

text \<open>
  Plugins (\<open>sb-plugin/src/lib.rs\<close>, the host side of \<open>wasm.rs\<close>): the hooks as a record of
  functions, the built-in plugins, the host that runs them in order, and its construction from
  the configuration. A hook that panics is one without an outcome. Compiling and running a
  WebAssembly guest is a parameter: a loader that yields the guest's label and its \<open>pre_route\<close>,
  or no loader in a build without the feature.
\<close>

section \<open>Hooks\<close>

datatype plugin_outcome = PluginContinue | PluginReject u16 string

record 'j plugin =
  pg_name :: string
  pg_pre_route :: "'j ai_request \<Rightarrow> plugin_outcome option \<times> 'j ai_request"
  pg_select_egress :: "'j ai_request \<Rightarrow> string \<Rightarrow> string option option"

type_synonym 'j plugin_host = "'j plugin list"

text \<open>\<open>catch_hook(..).unwrap_or(Continue)\<close> and the chain: the first rejection stops it.\<close>

fun host_pre_route :: "'j plugin_host \<Rightarrow> 'j ai_request \<Rightarrow> plugin_outcome \<times> 'j ai_request" where
  "host_pre_route [] req = (PluginContinue, req)"
| "host_pre_route (p # ps) req =
     (case pg_pre_route p req of
        (Some (PluginReject status message), req') \<Rightarrow> (PluginReject status message, req')
      | (_, req') \<Rightarrow> host_pre_route ps req')"

definition host_select_egress :: "'j plugin_host \<Rightarrow> 'j ai_request \<Rightarrow> string \<Rightarrow> string option" where
  "host_select_egress ps req target_id =
     find_map (\<lambda>p. case pg_select_egress p req target_id of Some r \<Rightarrow> r | None \<Rightarrow> None) ps"

section \<open>Built-in plugins\<close>

definition glob_match :: "string \<Rightarrow> string \<Rightarrow> bool" where
  "glob_match pattern v =
     (case strip_suffix ''*'' pattern of
        Some prefix \<Rightarrow> starts_with v prefix
      | None \<Rightarrow> pattern = v)"

definition no_hooks :: "string \<Rightarrow> 'j plugin" where
  "no_hooks name =
     \<lparr>pg_name = name, pg_pre_route = (\<lambda>req. (Some PluginContinue, req)), pg_select_egress = (\<lambda>req t. Some None)\<rparr>"

definition null_plugin :: "string \<Rightarrow> 'j plugin" where
  "null_plugin name = no_hooks name"

definition model_blocklist :: "string list \<Rightarrow> 'j plugin" where
  "model_blocklist models =
     (no_hooks ''model_blocklist'')\<lparr>pg_pre_route := (\<lambda>req.
        (Some (if list_ex (\<lambda>p. glob_match p (req_model req)) models
               then PluginReject 403 (''model `'' @ req_model req @ ''` is blocked by policy'')
               else PluginContinue), req))\<rparr>"

definition or_insert :: "string \<Rightarrow> string \<Rightarrow> (string, string) btree_map \<Rightarrow> (string, string) btree_map" where
  "or_insert k v m = (if bt_get m k = None then bt_insert k v m else m)"

definition request_tag :: "(string, string) btree_map \<Rightarrow> 'j plugin" where
  "request_tag tags =
     (no_hooks ''request_tag'')\<lparr>pg_pre_route := (\<lambda>req.
        (Some PluginContinue, req\<lparr>req_metadata := fold (\<lambda>(k, v). or_insert k v) tags (req_metadata req)\<rparr>))\<rparr>"

definition egress_pin :: "string \<Rightarrow> string list \<Rightarrow> 'j plugin" where
  "egress_pin egress models =
     (no_hooks ''egress_pin'')\<lparr>pg_select_egress := (\<lambda>req t.
        Some (if models = [] \<or> list_ex (\<lambda>p. glob_match p (req_model req)) models then Some egress else None))\<rparr>"

datatype plugin_failure_mode = FailOpen | FailClosed

text \<open>The guest's status code is an \<open>i32\<close>: zero allows, anything else is clamped to an HTTP error.\<close>

definition wasm_plugin :: "string \<Rightarrow> plugin_failure_mode \<Rightarrow> (string \<Rightarrow> string + int) \<Rightarrow> 'j plugin" where
  "wasm_plugin label mode run =
     (no_hooks label)\<lparr>pg_pre_route := (\<lambda>req.
        (Some (case run (req_model req) of
                 Inr code \<Rightarrow>
                   if code = 0 then PluginContinue
                   else PluginReject (word_of_int (max 400 (min code 599))) (''rejected by wasm plugin `'' @ label @ ''`'')
               | Inl e \<Rightarrow>
                   if mode = FailClosed then PluginReject 503 (''wasm plugin `'' @ label @ ''` failed closed'')
                   else PluginContinue), req))\<rparr>"

section \<open>The host of a configuration\<close>

datatype plugin_config =
    PcModelBlocklist "string list"
  | PcRequestTag "(string, string) btree_map"
  | PcEgressPin string "string list"
  | PcWasm string plugin_failure_mode u64 u64

type_synonym wasm_loader = "string \<Rightarrow> u64 \<Rightarrow> u64 \<Rightarrow> string + (string \<times> (string \<Rightarrow> string + int))"

definition wasm_load :: "wasm_loader \<Rightarrow> string \<Rightarrow> plugin_failure_mode \<Rightarrow> u64 \<Rightarrow> u64 \<Rightarrow> string + 'j plugin" where
  "wasm_load loader path mode timeout_ms fuel =
     (if timeout_ms = 0 then Inl ''timeout_ms must be greater than 0''
      else if fuel = 0 then Inl ''fuel must be greater than 0''
      else case loader path timeout_ms fuel of
          Inl e \<Rightarrow> Inl e
        | Inr (stem, run) \<Rightarrow> Inr (wasm_plugin (''wasm:'' @ stem) mode run))"

definition build_wasm ::
  "wasm_loader option \<Rightarrow> usize \<Rightarrow> string \<Rightarrow> plugin_failure_mode \<Rightarrow> u64 \<Rightarrow> u64 \<Rightarrow> string + 'j plugin" where
  "build_wasm feature i path mode timeout_ms fuel =
     (case feature of
        Some loader \<Rightarrow>
          (case wasm_load loader path mode timeout_ms fuel of
             Inr plugin \<Rightarrow> Inr plugin
           | Inl e \<Rightarrow>
               if mode = FailClosed then Inl (''plugins['' @ show_nat i @ ''] wasm plugin failed closed: '' @ e)
               else Inr (null_plugin ''wasm_load_failed''))
      | None \<Rightarrow>
          if mode = FailClosed
          then Inl (''plugins['' @ show_nat i @ ''] wasm plugin `'' @ path @ ''` requires the `wasm` feature'')
          else Inr (null_plugin ''wasm_disabled''))"

fun build_plugin :: "wasm_loader option \<Rightarrow> usize \<Rightarrow> plugin_config \<Rightarrow> string + 'j plugin" where
  "build_plugin feature i (PcModelBlocklist models) = Inr (model_blocklist models)"
| "build_plugin feature i (PcRequestTag tags) = Inr (request_tag tags)"
| "build_plugin feature i (PcEgressPin egress models) = Inr (egress_pin egress models)"
| "build_plugin feature i (PcWasm path mode timeout_ms fuel) = build_wasm feature i path mode timeout_ms fuel"

fun build_plugins :: "wasm_loader option \<Rightarrow> usize \<Rightarrow> plugin_config list \<Rightarrow> string + 'j plugin_host" where
  "build_plugins feature i [] = Inr []"
| "build_plugins feature i (c # cs) =
     try_with (build_plugin feature i c) (\<lambda>p. try_with (build_plugins feature (i + 1) cs) (\<lambda>ps. Inr (p # ps)))"

definition try_from_config :: "wasm_loader option \<Rightarrow> plugin_config list \<Rightarrow> string + 'j plugin_host" where
  "try_from_config feature configs = build_plugins feature 0 configs"

definition host_from_config :: "wasm_loader option \<Rightarrow> plugin_config list \<Rightarrow> 'j plugin_host" where
  "host_from_config feature configs =
     (case try_from_config feature configs of
        Inr host \<Rightarrow> host
      | Inl e \<Rightarrow> [null_plugin ''plugin_config_failed''])"

section \<open>What configured plugins may do\<close>

text \<open>
  The contract of a configured plugin: its \<open>pre_route\<close> does not panic, only adds metadata keys
  the request does not have, and rejects with an HTTP error status.
\<close>

definition extends_map :: "(string, string) btree_map \<Rightarrow> (string, string) btree_map \<Rightarrow> bool" where
  "extends_map m m' \<longleftrightarrow> bt_wf m' \<and> (\<forall>k v. bt_get m k = Some v \<longrightarrow> bt_get m' k = Some v)"

definition only_tags :: "'j ai_request \<Rightarrow> 'j ai_request \<Rightarrow> bool" where
  "only_tags req req' \<longleftrightarrow>
     req' = req\<lparr>req_metadata := req_metadata req'\<rparr> \<and> extends_map (req_metadata req) (req_metadata req')"

definition error_status :: "plugin_outcome \<Rightarrow> bool" where
  "error_status o' = (case o' of PluginReject status m \<Rightarrow> 400 \<le> status \<and> status \<le> 599 | PluginContinue \<Rightarrow> True)"

locale tame_plugin =
  fixes pre :: "'j ai_request \<Rightarrow> plugin_outcome option \<times> 'j ai_request"
  assumes pre_total: "\<exists>o' req'. pre req = (Some o', req') \<and> error_status o'"
    and pre_tags: "bt_wf (req_metadata req) \<Longrightarrow> only_tags req (snd (pre req))"
begin

text \<open>One step of the host's chain.\<close>

lemma pre_step:
  assumes "bt_wf (req_metadata req)"
  obtains o' req' where "pre req = (Some o', req')" "error_status o'" "only_tags req req'"
    "bt_wf (req_metadata req')" "req_model req' = req_model req"
proof -
  obtain o' req' where hook: "pre req = (Some o', req')" "error_status o'"
    using pre_total by blast
  with pre_tags [OF assms] have tags: "only_tags req req'"
    by simp
  then have "req' = req\<lparr>req_metadata := req_metadata req'\<rparr>" and "bt_wf (req_metadata req')"
    by (simp_all add: only_tags_def extends_map_def)
  moreover from this(1) have "req_model req' = req_model req"
    by (metis ai_request.select_convs(2) ai_request.surjective ai_request.update_convs(13))
  ultimately show thesis
    using that hook tags by blast
qed

end

lemma only_tags_refl [simp]: "bt_wf (req_metadata req) \<Longrightarrow> only_tags req req"
  by (simp add: only_tags_def extends_map_def)

lemma only_tags_trans: "only_tags a b \<Longrightarrow> only_tags b c \<Longrightarrow> only_tags a c"
  unfolding only_tags_def extends_map_def
  by (metis (no_types, lifting) ai_request.surjective ai_request.update_convs(13))

lemma tags_extend: "bt_wf m \<Longrightarrow> extends_map m (fold (\<lambda>(k, v). or_insert k v) tags m)"
proof (induction tags arbitrary: m)
  case Nil
  then show ?case by (simp add: extends_map_def)
next
  case (Cons kv tags)
  obtain k v where kv: "kv = (k, v)" by (cases kv)
  have "bt_wf (or_insert k v m)" and "extends_map m (or_insert k v m)"
    using Cons.prems by (auto simp: or_insert_def extends_map_def bt_wf_insert bt_get_insert)
  with Cons.IH show ?case
    by (auto simp: extends_map_def kv)
qed

interpretation null: tame_plugin "pg_pre_route (null_plugin name)" for name
  by unfold_locales (simp_all add: null_plugin_def no_hooks_def error_status_def)

interpretation blocklist: tame_plugin "pg_pre_route (model_blocklist models)" for models
  by unfold_locales (simp_all add: model_blocklist_def error_status_def)

interpretation tagger: tame_plugin "pg_pre_route (request_tag tags)" for tags
  by unfold_locales (simp_all add: request_tag_def error_status_def only_tags_def tags_extend)

interpretation pinner: tame_plugin "pg_pre_route (egress_pin egress models)" for egress models
  by unfold_locales (simp_all add: egress_pin_def no_hooks_def error_status_def)

lemma clamp_status: "error_status (PluginReject (word_of_int (max 400 (min code 599))) m)"
proof -
  have "word_of_int 400 \<le> (word_of_int (max 400 (min code 599)) :: u16)"
    "(word_of_int (max 400 (min code 599)) :: u16) \<le> word_of_int 599"
    by (simp_all add: word_le_def uint_word_of_int take_bit_int_eq_self)
  then show ?thesis
    by (simp add: error_status_def)
qed

interpretation guest: tame_plugin "pg_pre_route (wasm_plugin label mode run)" for label mode run
proof unfold_locales
  fix req :: "'j ai_request"
  show "\<exists>o' req'. pg_pre_route (wasm_plugin label mode run) req = (Some o', req') \<and> error_status o'"
    using clamp_status by (auto simp: wasm_plugin_def error_status_def split: sum.split)
qed (simp add: wasm_plugin_def)

lemma built_tame:
  assumes "build_plugin feature i c = Inr p"
  shows "tame_plugin (pg_pre_route p)"
proof (cases c)
  case (PcWasm path mode timeout_ms fuel)
  then show ?thesis
    using assms guest.tame_plugin_axioms null.tame_plugin_axioms
    by (auto simp: build_wasm_def wasm_load_def split: option.splits sum.splits if_splits)
qed (use assms blocklist.tame_plugin_axioms tagger.tame_plugin_axioms pinner.tame_plugin_axioms in auto)

lemma build_plugins_built:
  "build_plugins feature i cs = Inr ps \<Longrightarrow>
     (\<forall>p \<in> set ps. tame_plugin (pg_pre_route p)) \<and> (\<forall>m. PcModelBlocklist m \<in> set cs \<longrightarrow> model_blocklist m \<in> set ps)"
  by (induction cs arbitrary: i ps) (auto simp: try_with_Inr built_tame)

lemma host_pre_route_tame:
  assumes "\<forall>p \<in> set ps. tame_plugin (pg_pre_route p)" and "bt_wf (req_metadata req)"
  shows "only_tags req (snd (host_pre_route ps req)) \<and> error_status (fst (host_pre_route ps req))"
  using assms
proof (induction ps arbitrary: req)
  case Nil
  then show ?case by (simp add: error_status_def)
next
  case (Cons p ps)
  then obtain o' req' where hook: "pg_pre_route p req = (Some o', req')" "error_status o'" and tags: "only_tags req req'"
    and "bt_wf (req_metadata req')"
    by (auto elim: tame_plugin.pre_step [of "pg_pre_route p" req])
  then have "only_tags req' (snd (host_pre_route ps req')) \<and> error_status (fst (host_pre_route ps req'))"
    using Cons.IH Cons.prems(1) by simp
  with hook tags show ?case
    by (cases o') (auto intro: only_tags_trans)
qed

text \<open>
  Configured plugins cannot alter a request except by adding metadata keys it does not have, and
  whatever status a guest returns, a rejection reaches the client as an HTTP error (400 to 599).
\<close>

theorem configured_plugins_tame:
  assumes "try_from_config feature configs = Inr host" and "bt_wf (req_metadata req)"
  shows "only_tags req (snd (host_pre_route host req)) \<and> error_status (fst (host_pre_route host req))"
  using host_pre_route_tame build_plugins_built assms unfolding try_from_config_def by blast

lemma blocklist_stops:
  assumes "\<forall>p \<in> set ps. tame_plugin (pg_pre_route p)" and "bt_wf (req_metadata req)"
    and "model_blocklist models \<in> set ps" and "list_ex (\<lambda>p. glob_match p (req_model req)) models"
  shows "\<exists>status message. fst (host_pre_route ps req) = PluginReject status message"
  using assms
proof (induction ps arbitrary: req)
  case Nil
  then show ?case by simp
next
  case (Cons p ps)
  have "tame_plugin (pg_pre_route p)" and "bt_wf (req_metadata req)"
    using Cons.prems by simp_all
  then obtain o' req' where hook: "pg_pre_route p req = (Some o', req')" and "bt_wf (req_metadata req')"
    and "req_model req' = req_model req"
    by (rule tame_plugin.pre_step)
  show ?case
  proof (cases "p = model_blocklist models")
    case True
    then show ?thesis
      using Cons.prems(4) by (simp add: model_blocklist_def)
  next
    case False
    then have "\<exists>status message. fst (host_pre_route ps req') = PluginReject status message"
      using Cons \<open>bt_wf (req_metadata req')\<close> \<open>req_model req' = req_model req\<close> by simp
    with hook show ?thesis
      by (cases o') auto
  qed
qed

text \<open>
  A blocklist is enforced: wherever it stands among the configured plugins, a request whose model
  matches one of its patterns is rejected before it is routed.
\<close>

theorem blocklist_enforced:
  assumes "try_from_config feature configs = Inr host" and "bt_wf (req_metadata req)"
    and "PcModelBlocklist models \<in> set configs" and "list_ex (\<lambda>p. glob_match p (req_model req)) models"
  shows "\<exists>status message. fst (host_pre_route host req) = PluginReject status message"
  using blocklist_stops build_plugins_built assms unfolding try_from_config_def by blast

section \<open>Witnesses\<close>

theorem configured_plugins_tame_witness:
  "only_tags (new_request ''r'' ''m'' []) (snd (host_pre_route [request_tag [(''k'', ''v'')]] (new_request ''r'' ''m'' [] :: unit ai_request)))
   \<and> req_metadata (snd (host_pre_route [request_tag [(''k'', ''v'')]] (new_request ''r'' ''m'' [] :: unit ai_request))) = [(''k'', ''v'')]"
proof -
  have "try_from_config None [PcRequestTag [(''k'', ''v'')]] = Inr [request_tag [(''k'', ''v'')] :: unit plugin]"
    by (simp add: try_from_config_def)
  from configured_plugins_tame [OF this, of "new_request ''r'' ''m'' []"] show ?thesis
    by (simp add: new_request_def bt_wf_def request_tag_def or_insert_def bt_get_def)
qed

theorem blocklist_enforced_witness:
  "\<exists>status message. fst (host_pre_route [request_tag [], model_blocklist [''dear/*'']]
     (new_request ''r'' ''dear/opus'' [] :: unit ai_request)) = PluginReject status message"
proof -
  have "try_from_config None [PcRequestTag [], PcModelBlocklist [''dear/*'']] =
      Inr [request_tag [], model_blocklist [''dear/*''] :: unit plugin]"
    by (simp add: try_from_config_def)
  then show ?thesis
    by (rule blocklist_enforced [where models = "[''dear/*'']"])
      (simp_all add: new_request_def bt_wf_def glob_match_def strip_suffix_def str_ends_with_def starts_with_def)
qed

end
