(* ===== verification/Router.thy ===== *)
theory Router
  imports Routing_Types
begin

text \<open>
  The router (\<open>sb-router/src/lib.rs\<close>): the hard filters, the vision-relaxing second pass, the
  scoring factors, the demotion partition with its per-rank ordering and the qualified
  tie-break, and \<open>plan_route\<close>, which composes them into an explained plan. The definitions
  follow the order of the source file.
\<close>

section \<open>Small helpers\<close>

definition blocked_lane :: "execution_target \<Rightarrow> routing_policy \<Rightarrow> string option" where
  "blocked_lane target policy =
     (let has = (\<lambda>tag. tag \<in> set (et_policy_tags target))
      in if \<not> pol_allow_free policy \<and> has ''free'' then Some ''free''
         else if \<not> pol_allow_promo policy \<and> has ''promo'' then Some ''promo''
         else if \<not> pol_allow_aggregator policy \<and> has ''aggregator'' then Some ''aggregator''
         else None)"

definition strategy_name :: "routing_policy \<Rightarrow> string" where
  "strategy_name policy =
     (case pol_profile policy of
        Some ProfileAuto \<Rightarrow> ''auto''
      | Some ProfileCheap \<Rightarrow> ''auto/cheap''
      | Some ProfileFast \<Rightarrow> ''auto/fast''
      | Some ProfileCoding \<Rightarrow> ''auto/coding''
      | Some ProfilePrivate \<Rightarrow> ''auto/private''
      | Some ProfileLargeContext \<Rightarrow> ''auto/large-context''
      | Some ProfileJudge \<Rightarrow> ''auto/judge''
      | Some ProfileExtract \<Rightarrow> ''auto/extract''
      | None \<Rightarrow>
          if pol_scoring policy \<noteq> None then ''score''
          else if pol_cost_aware policy then ''cost_aware''
          else if pol_latency_aware policy then ''latency_aware''
          else ''ordered_fallback'')"

definition is_coding_target :: "execution_target \<Rightarrow> bool" where
  "is_coding_target target \<longleftrightarrow>
     (if \<exists>tag \<in> set (et_task_tags target @ et_policy_tags target).
           to_ascii_lowercase tag \<in> {''coding'', ''code'', ''coder''}
      then True
      else let i = to_ascii_lowercase (et_id target)
           in str_contains i ''coding'' \<or> str_contains i ''coder'' \<or> str_contains i ''code'')"

definition rank_factor :: "usize \<Rightarrow> usize \<Rightarrow> f64" where
  "rank_factor index len =
     (if len \<le> 1 then f64_lit 1
      else f64_sub (f64_lit 1) (f64_div (nat_as_f64 index) (nat_as_f64 (len - 1))))"

definition account_availability_factor :: "execution_target \<Rightarrow> f64" where
  "account_availability_factor target =
     (case et_healthy_accounts target of
        Some n \<Rightarrow> if n = 0 then f64_lit 0
                  else flt_min (f64_div (nat_as_f64 n) (f64_lit 4)) (f64_lit 1)
      | None \<Rightarrow> f64_lit (1 / 2))"

fun health_factor :: "health_state \<Rightarrow> f64" where
  "health_factor HealthHealthy = f64_lit 1"
| "health_factor HealthDegraded = f64_lit (1 / 2)"
| "health_factor HealthDown = f64_lit 0"

definition demote_rank :: "execution_target \<Rightarrow> u8" where
  "demote_rank target =
     (if et_healthy_accounts target = Some 0 then 2
      else if (case et_outcome target of Some outcome \<Rightarrow> os_tier outcome = TierDemoted | None \<Rightarrow> False)
        then 1
      else 0)"

section \<open>Evidence lines\<close>

definition format_pct :: "f32 \<Rightarrow> string" where
  "format_pct rate = fmt_fixed 1 (f32_mul rate (f32_lit 100)) @ ''%''"

definition format_latency_humanized :: "u32 \<Rightarrow> string" where
  "format_latency_humanized ms =
     (if 1000 \<le> ms then fmt_fixed 1 (f64_div (nat_as_f64 (unat ms)) (f64_lit 1000)) @ ''s''
      else show_nat (unat ms) @ ''ms'')"

definition format_cps_dollars :: "u64 \<Rightarrow> string" where
  "format_cps_dollars micros =
     ''$'' @ fmt_fixed 4 (f64_div (nat_as_f64 (unat micros)) (f64_lit 1000000))"

definition format_outcome_select :: "string \<Rightarrow> outcome_signal \<Rightarrow> string" where
  "format_outcome_select target_id outcome =
     ''outcome/select target='' @ target_id @ '' ok='' @ format_pct (os_success_rate outcome)
     @ '' p50='' @ format_latency_humanized (os_p50_latency_ms outcome)
     @ '' p95='' @ format_latency_humanized (os_p95_latency_ms outcome)
     @ '' n='' @ show_nat (unat (os_samples outcome))
     @ (if 0 < os_cost_per_success_micros outcome
        then '' cps='' @ format_cps_dollars (os_cost_per_success_micros outcome) else [])"

definition demote_reason_code :: "outcome_signal \<Rightarrow> string" where
  "demote_reason_code outcome =
     (case os_demote_trigger outcome of
        Some TriggerTruncation \<Rightarrow> ''truncation''
      | Some TriggerStreak \<Rightarrow> ''streak''
      | Some TriggerSuccess \<Rightarrow> ''success''
      | None \<Rightarrow> ''success'')"

definition format_outcome_demote :: "string \<Rightarrow> outcome_signal \<Rightarrow> string" where
  "format_outcome_demote target_id outcome =
     ''outcome/demote target='' @ target_id @ '' reason='' @ demote_reason_code outcome
     @ '' ok='' @ format_pct (os_success_rate outcome)
     @ '' trunc='' @ format_pct (os_truncation_rate outcome)
     @ '' n='' @ show_nat (unat (os_samples outcome)) @ '' tier=demoted''
     @ (if os_demote_trigger outcome = Some TriggerStreak
        then '' fails='' @ show_nat (unat (os_consecutive_failures outcome)) else [])
     @ (case os_dominant_error outcome of
          Some err \<Rightarrow> '' err='' @ error_class_as_str err | None \<Rightarrow> [])"

section \<open>The qualified tie-break\<close>

definition outcome_health :: "execution_target \<Rightarrow> f32" where
  "outcome_health t = (case et_outcome t of Some o' \<Rightarrow> os_health_factor o' | None \<Rightarrow> f32_lit 0)"

definition qualified_evidence :: "u32 \<Rightarrow> execution_target \<Rightarrow> bool" where
  "qualified_evidence min_samples t =
     (case et_outcome t of Some outcome \<Rightarrow> min_samples \<le> os_samples outcome | None \<Rightarrow> False)"

text \<open>One maximal run \<open>survivors[i..j]\<close> of the loop body.\<close>

definition tiebreak_run ::
  "u32 \<Rightarrow> execution_target list \<Rightarrow> 'rc route_decision \<Rightarrow> execution_target list \<times> 'rc route_decision"
  where
  "tiebreak_run min_samples run d =
     (if 1 < length run \<and> (\<forall>t \<in> set run. qualified_evidence min_samples t)
      then let after = sort_by (\<lambda>a b. cmp_or_equal (outcome_health b) (outcome_health a)) run
           in if map et_id run \<noteq> map et_id after
              then (after, add_reason (''outcome/tiebreak target='' @ et_id (hd after)
                      @ '' health='' @ fmt_fixed 3 (outcome_health (hd after))
                      @ '' over='' @ join_with '','' (map et_id (tl after))) d)
              else (after, d)
      else (run, d))"

function apply_outcome_tiebreak ::
  "u32 \<Rightarrow> (execution_target \<Rightarrow> execution_target \<Rightarrow> bool) \<Rightarrow> execution_target list
    \<Rightarrow> 'rc route_decision \<Rightarrow> execution_target list \<times> 'rc route_decision" where
  "apply_outcome_tiebreak min_samples same_group [] d = ([], d)"
| "apply_outcome_tiebreak min_samples same_group (t # ts) d =
     (let (run, d1) = tiebreak_run min_samples (t # takeWhile (same_group t) ts) d;
          (rest, d2) = apply_outcome_tiebreak min_samples same_group (dropWhile (same_group t) ts) d1
      in (run @ rest, d2))"
  by pat_completeness auto
termination
  by (relation "measure (\<lambda>(_, _, ts, _). length ts)") (auto simp: length_dropWhile_le le_imp_less_Suc)

section \<open>Scores\<close>

definition inverse_range_factor :: "f64 option \<Rightarrow> f64 option \<Rightarrow> f64 option \<Rightarrow> f64" where
  "inverse_range_factor v mn mx =
     (case v of
        None \<Rightarrow> f64_lit 0
      | Some x \<Rightarrow>
          (case (mn, mx) of
             (Some lo, Some hi) \<Rightarrow>
               if flt_less (flt_abs (f64_sub hi lo)) f64_epsilon then f64_lit 1
               else flt_clamp (f64_lit 0) (f64_lit 1) (f64_div (f64_sub hi x) (f64_sub hi lo))
           | _ \<Rightarrow> f64_lit 1))"

definition range_bounds :: "f64 option list \<Rightarrow> f64 option \<times> f64 option" where
  "range_bounds vs =
     foldl (\<lambda>(mn, mx) v.
         (Some (case mn of None \<Rightarrow> v | Some cur \<Rightarrow> flt_min cur v),
          Some (case mx of None \<Rightarrow> v | Some cur \<Rightarrow> flt_max cur v)))
       (None, None) (List.map_filter id vs)"

record quality_context =
  qc_baseline :: f64
  qc_qualified_factors :: "(string, f64) btree_map"

definition qualified_quality :: "routing_policy \<Rightarrow> execution_target \<Rightarrow> (execution_target \<times> quality_signal) option"
  where
  "qualified_quality policy target =
     (case et_quality target of
        None \<Rightarrow> None
      | Some quality \<Rightarrow>
          if qs_age_secs quality \<le> win_ttl_secs (sc_window (pol_scorecard policy))
             \<and> qe_routing_min_samples (pol_quality_eval policy) \<le> qs_samples quality
          then Some (target, quality) else None)"

definition new_quality_context :: "execution_target list \<Rightarrow> routing_policy \<Rightarrow> quality_context option" where
  "new_quality_context candidates policy =
     (let config = pol_quality_eval policy
      in if pol_scoring policy = None \<or> \<not> qe_enabled config \<or> flt_le (qe_routing_weight config) (f64_lit 0)
         then None
         else let qualified = List.map_filter (qualified_quality policy) candidates
              in if length qualified < 2 then None
                 else let baseline = f64_div (foldl f64_add (f64_lit 0) (map (qs_ewma \<circ> snd) qualified))
                                       (nat_as_f64 (length qualified));
                          factors = map (\<lambda>(target, quality).
                            let confidence = flt_min (f64_div (nat_as_f64 (unat (qs_samples quality)))
                                    (nat_as_f64 (unat (qe_routing_full_confidence_samples config)))) (f64_lit 1)
                            in (et_id target,
                                f64_add baseline (f64_mul confidence (f64_sub (qs_ewma quality) baseline))))
                            qualified
                      in Some \<lparr>qc_baseline = baseline, qc_qualified_factors = bt_collect factors\<rparr>)"

definition quality_factor :: "quality_context \<Rightarrow> string \<Rightarrow> f64" where
  "quality_factor ctx target_id =
     (case bt_get (qc_qualified_factors ctx) target_id of Some f \<Rightarrow> f | None \<Rightarrow> qc_baseline ctx)"

definition format_quality_reason ::
  "execution_target \<Rightarrow> routing_policy \<Rightarrow> quality_context option \<Rightarrow> string option" where
  "format_quality_reason target policy ctx =
     (if \<not> qe_enabled (pol_quality_eval policy) then None
      else case et_quality target of
        None \<Rightarrow> None
      | Some quality \<Rightarrow>
          if win_ttl_secs (sc_window (pol_scorecard policy)) < qs_age_secs quality then None
          else let line = ''outcome/quality target='' @ et_id target
                     @ '' q='' @ fmt_fixed 3 (qs_ewma quality)
                     @ '' n='' @ show_nat (unat (qs_samples quality))
                     @ '' age='' @ show_nat (unat (qs_age_secs quality))
                     @ ''s rubric=quality-v1 mode=''
               in case ctx of
                    Some c \<Rightarrow> Some (line @ ''score factor='' @ fmt_fixed 3 (quality_factor c (et_id target))
                      @ '' weight='' @ fmt_fixed 3 (qe_routing_weight (pol_quality_eval policy)))
                  | None \<Rightarrow> Some (line @ ''observe''))"

text \<open>The arm of the \<open>find_map\<close> closure: the owner of an image reference scoped to another provider.\<close>

fun foreign_file_owner :: "string \<Rightarrow> 'j content_part \<Rightarrow> string option" where
  "foreign_file_owner pid (CpImage (ProviderFileRef (Some provider) i) detail) =
     (if provider \<noteq> pid then Some provider else None)"
| "foreign_file_owner pid _ = None"

definition provider_file_ref_scope_mismatch :: "'j ai_request \<Rightarrow> execution_target \<Rightarrow> string option" where
  "provider_file_ref_scope_mismatch req candidate =
     find_map (foreign_file_owner (et_provider_id candidate)) (all_parts req)"

definition weighted_score :: "(string, f64) btree_map \<Rightarrow> scoring_policy \<Rightarrow> f64 \<Rightarrow> f64 \<Rightarrow> f64" where
  "weighted_score factors scoring outcome_weight quality_weight =
     (let (weighted, total) =
        foldl (\<lambda>(weighted, total) (factor, x).
            let weight = (if factor = ''outcome_health'' then outcome_weight
                          else if factor = ''response_quality'' then quality_weight
                          else weight_for scoring factor)
            in if flt_le weight (f64_lit 0) then (weighted, total)
               else (f64_add weighted (f64_mul weight x), f64_add total weight))
          (f64_lit 0, f64_lit 0) factors
      in if flt_le total f64_epsilon then f64_lit 0
         else flt_clamp (f64_lit 0) (f64_lit 1) (f64_div weighted total))"

text \<open>The signal a latency-aware order ranks on.\<close>

definition opt_or :: "'a option \<Rightarrow> 'a option \<Rightarrow> 'a option" where
  "opt_or a b = (case a of Some x \<Rightarrow> Some x | None \<Rightarrow> b)"

definition latency_signal :: "bool \<Rightarrow> execution_target \<Rightarrow> f64 option" where
  "latency_signal streaming_required target =
     (if streaming_required then opt_or (et_ttft_ewma_ms target) (et_latency_ewma_ms target)
      else et_latency_ewma_ms target)"

definition opt_max :: "u32 list \<Rightarrow> u32 option" where
  "opt_max xs = (case xs of [] \<Rightarrow> None | y # ys \<Rightarrow> Some (foldl max y ys))"

definition score_factors ::
  "execution_target list \<Rightarrow> routing_policy \<Rightarrow> bool \<Rightarrow> quality_context option \<Rightarrow> nat
    \<Rightarrow> execution_target \<Rightarrow> (string, f64) btree_map" where
  "score_factors candidates policy streaming_required ctx index target =
     (let cost_bounds = range_bounds (map blended candidates);
          latency_bounds = range_bounds (map (latency_signal streaming_required) candidates);
          max_context = opt_max (List.map_filter (\<lambda>t. cap_max_context_tokens (et_capabilities t)) candidates);
          any_outcome_evidence = (sc_enabled (pol_scorecard policy)
                                  \<and> (\<exists>t \<in> set candidates. et_outcome t \<noteq> None));
          f1 = bt_insert ''selection_rank'' (rank_factor index (length candidates)) [];
          f2 = bt_insert ''health'' (health_factor (et_health target)) f1;
          f3 = bt_insert ''account_availability'' (account_availability_factor target) f2;
          f4 = bt_insert ''cost'' (case blended target of
                 Some c \<Rightarrow> inverse_range_factor (Some c) (fst cost_bounds) (snd cost_bounds)
               | None \<Rightarrow> f64_lit 0) f3;
          f5 = bt_insert ''latency'' (inverse_range_factor (et_latency_ewma_ms target)
                 (fst latency_bounds) (snd latency_bounds)) f4;
          f6 = bt_insert ''ttft'' (inverse_range_factor
                 (opt_or (et_ttft_ewma_ms target) (et_latency_ewma_ms target))
                 (fst latency_bounds) (snd latency_bounds)) f5;
          f7 = bt_insert ''task_fit'' (if is_coding_target target then f64_lit 1 else f64_lit 0) f6;
          f8 = bt_insert ''context_fit'' (case max_context of
                 Some mc \<Rightarrow> (case cap_max_context_tokens (et_capabilities target) of
                     Some c \<Rightarrow> f64_div (nat_as_f64 (unat c)) (nat_as_f64 (unat mc))
                   | None \<Rightarrow> f64_lit 0)
               | None \<Rightarrow> f64_lit 0) f7;
          f9 = (if any_outcome_evidence
                then bt_insert ''outcome_health'' (case et_outcome target of
                       Some o' \<Rightarrow> f32_as_f64 (os_health_factor o') | None \<Rightarrow> f64_lit 1) f8
                else f8)
      in case ctx of
           Some c \<Rightarrow> bt_insert ''response_quality'' (quality_factor c (et_id target)) f9
         | None \<Rightarrow> f9)"

definition route_scores ::
  "execution_target list \<Rightarrow> routing_policy \<Rightarrow> bool \<Rightarrow> quality_context option \<Rightarrow> route_score list" where
  "route_scores candidates policy streaming_required ctx =
     map (\<lambda>(index, target).
        let factors = score_factors candidates policy streaming_required ctx index target
        in \<lparr>rs_target_id = et_id target,
            rs_score = (case pol_scoring policy of
                Some scoring \<Rightarrow> weighted_score factors scoring (sc_score_weight (pol_scorecard policy))
                    (qe_routing_weight (pol_quality_eval policy))
              | None \<Rightarrow> rank_factor index (length candidates)),
            rs_factors = factors\<rparr>)
       (enumerate 0 candidates)"

section \<open>Ordering one demotion rank\<close>

definition score_of :: "(string, f64) btree_map \<Rightarrow> execution_target \<Rightarrow> f64" where
  "score_of score_by_target t =
     (case bt_get score_by_target (et_id t) of Some s \<Rightarrow> s | None \<Rightarrow> f64_lit 0)"

definition context_of :: "execution_target \<Rightarrow> u32" where
  "context_of t = (case cap_max_context_tokens (et_capabilities t) of Some n \<Rightarrow> n | None \<Rightarrow> 0)"

definition cost_cmp :: "execution_target \<Rightarrow> execution_target \<Rightarrow> ordering" where
  "cost_cmp a b =
     (case (blended a, blended b) of
        (Some x, Some y) \<Rightarrow> cmp_or_equal x y
      | (Some _, None) \<Rightarrow> Less
      | (None, Some _) \<Rightarrow> Greater
      | (None, None) \<Rightarrow> Equal)"

definition latency_cmp :: "bool \<Rightarrow> execution_target \<Rightarrow> execution_target \<Rightarrow> ordering" where
  "latency_cmp interactive a b =
     (case (latency_signal interactive a, latency_signal interactive b) of
        (Some x, Some y) \<Rightarrow> cmp_or_equal x y
      | (None, Some _) \<Rightarrow> Less
      | (Some _, None) \<Rightarrow> Greater
      | (None, None) \<Rightarrow> Equal)"

definition order_partition ::
  "execution_target list \<Rightarrow> routing_policy \<Rightarrow> bool \<Rightarrow> (string, f64) btree_map option
    \<Rightarrow> 'rc route_decision \<Rightarrow> execution_target list \<times> 'rc route_decision" where
  "order_partition part policy streaming_required score_by_target d =
     (let min_samples = dem_min_samples (sc_demotion (pol_scorecard policy))
      in case score_by_target of
        Some scores \<Rightarrow>
          (sort_by (\<lambda>a b. cmp_or_equal (score_of scores b) (score_of scores a)) part, d)
      | None \<Rightarrow>
          if pol_profile policy = Some ProfileCoding then
            apply_outcome_tiebreak min_samples (\<lambda>a b. is_coding_target a = is_coding_target b)
              (sort_by (\<lambda>a b. cmp_ord (\<not> is_coding_target a) (\<not> is_coding_target b)) part) d
          else if pol_profile policy = Some ProfileLargeContext then
            apply_outcome_tiebreak min_samples (\<lambda>a b. context_of a = context_of b)
              (sort_by (\<lambda>a b. cmp_ord (context_of b) (context_of a)) part) d
          else if pol_cost_aware policy then
            apply_outcome_tiebreak min_samples (\<lambda>a b. cost_cmp a b = Equal)
              (sort_by cost_cmp part) d
          else if pol_latency_aware policy then
            apply_outcome_tiebreak min_samples (\<lambda>a b. latency_cmp streaming_required a b = Equal)
              (sort_by (latency_cmp streaming_required) part) d
          else apply_outcome_tiebreak min_samples (\<lambda>_ _. True) part d)"

definition strategy_summary_reason ::
  "routing_policy \<Rightarrow> execution_target option \<Rightarrow> bool \<Rightarrow> (string, f64) btree_map option \<Rightarrow> string option"
  where
  "strategy_summary_reason policy selected streaming_required score_by_target =
     (case selected of
        None \<Rightarrow> None
      | Some sel \<Rightarrow>
          (case score_by_target of
             Some scores \<Rightarrow> Some (''score: selected='' @ et_id sel @ '' score='' @ fmt_fixed 3 (score_of scores sel))
           | None \<Rightarrow>
               if pol_profile policy = Some ProfileCoding then
                 Some (''auto/coding: selected='' @ et_id sel @ '' fit=''
                   @ (if is_coding_target sel then ''coding'' else ''unclassified''))
               else if pol_profile policy = Some ProfileLargeContext then
                 Some (''auto/large-context: widest='' @ et_id sel @ '' context=''
                   @ (case cap_max_context_tokens (et_capabilities sel) of
                        Some n \<Rightarrow> show_nat (unat n) | None \<Rightarrow> ''unknown''))
               else if pol_cost_aware policy then
                 Some (''cost_aware: cheapest='' @ et_id sel @ '' blended=''
                   @ (case blended sel of Some c \<Rightarrow> fmt_fixed 2 c @ ''/Mtok'' | None \<Rightarrow> ''unpriced''))
               else if pol_latency_aware policy then
                 Some (''latency_aware: fastest='' @ et_id sel @ '' ''
                   @ (if streaming_required then ''ttft'' else ''latency'') @ ''=''
                   @ (case latency_signal streaming_required sel of
                        Some ms \<Rightarrow> fmt_fixed 0 ms @ ''ms'' | None \<Rightarrow> ''unmeasured''))
               else None))"

section \<open>Hard filters\<close>

text \<open>The requirements \<open>plan_route\<close> derives from the request and the route.\<close>

record route_needs =
  need_streaming :: bool
  need_tools :: bool
  need_server_tools :: bool
  need_server_tool_protocols :: "server_tool_protocol btree_set"
  need_vision :: bool
  need_audio :: bool
  need_file :: bool
  need_image_out :: bool
  need_reasoning :: bool
  need_image_sources :: "image_source_kind btree_set"
  need_json_schema :: bool

definition route_needs_of :: "'j ai_request \<Rightarrow> route_require \<Rightarrow> route_needs" where
  "route_needs_of req require =
     \<lparr>need_streaming = (rr_streaming require = Some True \<or> req_stream req),
      need_tools = (rr_tool_calling require = Some True \<or> requires_tools req),
      need_server_tools = (rr_server_tools require = Some True \<or> requires_server_tools req),
      need_server_tool_protocols =
        bs_collect (required_server_tool_protocols req @ rr_server_tool_protocols require),
      need_vision = (rr_vision_in require = Some True \<or> rr_vision_sources require \<noteq> []
        \<or> requires_vision req),
      need_audio = (rr_audio_in require = Some True),
      need_file = (rr_file_in require = Some True),
      need_image_out = (rr_image_out require = Some True),
      need_reasoning = (rr_reasoning_summary require = Some True),
      need_image_sources = bs_collect (required_image_sources req @ rr_vision_sources require),
      need_json_schema = (rr_json_schema require = Some True
        \<or> (case req_response_format req of Some (FormatJsonSchema _ _ _) \<Rightarrow> True | _ \<Rightarrow> False))\<rparr>"

definition opening_reasons ::
  "'j ai_request \<Rightarrow> string \<Rightarrow> route_needs \<Rightarrow> 'rc route_decision \<Rightarrow> 'rc route_decision" where
  "opening_reasons req route_name n d =
     (let d1 = add_reason (''route='' @ route_name) d;
          d2 = add_reason (''stream_required='' @ show_bool (need_streaming n)) d1;
          d3 = add_reason (''tools_required='' @ show_bool (need_tools n)) d2;
          d4 = add_reason (''server_tools_required='' @ show_bool (need_server_tools n)) d3;
          d5 = (if need_server_tools n \<and> need_server_tool_protocols n \<noteq> []
                then add_reason (''server_tool_protocols='' @ join_with '',''
                       (map server_tool_protocol_as_str (need_server_tool_protocols n))) d4
                else d4);
          d6 = add_reason (''vision_required='' @ show_bool (need_vision n)) d5;
          d7 = (if need_vision n
                then let d' = add_reason (''image_count='' @ show_nat (image_count req)) d6
                     in if need_image_sources n \<noteq> []
                        then add_reason (''image_sources='' @ join_with '',''
                               (map image_source_kind_as_str (need_image_sources n))) d'
                        else d'
                else d6)
      in add_reason (''json_schema_required='' @ show_bool (need_json_schema n)) d7)"

text \<open>
  The body of the filter loop: \<open>None\<close> admits the candidate, \<open>Some (reason, v)\<close> rejects it,
  \<open>v\<close> telling that the check is one of the vision class (and is recorded in
  \<open>vision_blocked\<close>).
\<close>

definition guard :: "bool \<Rightarrow> string \<Rightarrow> (string \<times> bool) option" where
  "guard b why = (if b then Some (why, False) else None)"

definition vision_guard :: "bool \<Rightarrow> string \<Rightarrow> (string \<times> bool) option" where
  "vision_guard b why = (if b then Some (why, True) else None)"

definition hard_filter ::
  "'j ai_request \<Rightarrow> route_require \<Rightarrow> route_needs \<Rightarrow> routing_policy \<Rightarrow> bool \<Rightarrow> execution_target
    \<Rightarrow> (string \<times> bool) option" where
  "hard_filter req require n policy relax_vision c =
     (let caps = et_capabilities c
      in first_some
       [guard (need_streaming n \<and> \<not> cap_streaming caps)
          ''streaming required but target does not support it'',
        guard (need_tools n \<and> \<not> cap_tool_calling caps)
          ''tool calling required but target does not support it'',
        guard (need_server_tools n \<and> \<not> cap_server_tools caps)
          ''server tools required but target does not support them'',
        (if need_server_tools n
         then map_option (\<lambda>p. (''server tool protocol '' @ server_tool_protocol_as_str p
                @ '' required but target does not support it'', False))
              (find (\<lambda>p. \<not> supports_server_tool_protocol caps p) (need_server_tool_protocols n))
         else None),
        vision_guard (need_vision n \<and> \<not> relax_vision \<and> \<not> cap_vision_in caps)
          ''vision input required but target does not support it'',
        guard (need_audio n \<and> \<not> cap_audio_in caps)
          ''audio input required but target does not support it'',
        guard (need_file n \<and> \<not> cap_file_in caps)
          ''file input required but target does not support it'',
        guard (need_image_out n \<and> \<not> cap_image_out caps)
          ''image output required but target does not support it'',
        guard (need_reasoning n \<and> \<not> cap_reasoning_summary caps)
          ''reasoning summary required but target does not support it'',
        (if need_vision n \<and> \<not> relax_vision
         then map_option (\<lambda>k. (''image source '' @ image_source_kind_as_str k
                @ '' required but target does not support it'', True))
              (find (\<lambda>k. \<not> supports_image_source caps k) (need_image_sources n))
         else None),
        (if need_vision n \<and> \<not> relax_vision
         then map_option (\<lambda>owner. (''provider file image ref belongs to `'' @ owner
                @ ''` but target provider is `'' @ et_provider_id c @ ''`'', True))
              (provider_file_ref_scope_mismatch req c)
         else None),
        guard (need_json_schema n \<and> \<not> cap_json_schema caps)
          ''structured output (json_schema) required but target does not support it'',
        (case rr_min_context_tokens require of
           None \<Rightarrow> None
         | Some required \<Rightarrow>
             (case cap_max_context_tokens caps of
                Some max_context \<Rightarrow>
                  guard (max_context < required) (''context window '' @ show_nat (unat max_context)
                    @ '' < required '' @ show_nat (unat required))
              | None \<Rightarrow>
                  guard (pol_unknown_context policy = UnknownContextReject)
                    (''context window unknown for required '' @ show_nat (unat required)))),
        guard (et_health c = HealthDown) ''target health is down'',
        (case blocked_lane c policy of
           Some blocked \<Rightarrow> Some (''policy: `'' @ blocked @ ''` lane not allowed'', False)
         | None \<Rightarrow> None),
        (case pol_max_price_per_mtok policy of
           Some mx \<Rightarrow>
             (case blended c of
                Some price \<Rightarrow>
                  guard (flt_less mx price) (''blended price '' @ fmt_fixed 2 price
                    @ ''/Mtok > max '' @ fmt_fixed 2 mx @ ''/Mtok'')
              | None \<Rightarrow>
                  guard (pol_unknown_cost policy = UnknownCostReject)
                    (''price unknown for max '' @ fmt_fixed 2 mx @ ''/Mtok policy''))
         | None \<Rightarrow>
             guard (pol_unknown_cost policy = UnknownCostReject \<and> et_cost c = None)
               ''price unknown and policy rejects unknown cost'')])"

text \<open>One run of the \<open>for\<close> loop over the candidates: decision, survivors, vision-blocked ids.\<close>

fun filter_pass ::
  "(execution_target \<Rightarrow> (string \<times> bool) option) \<Rightarrow> execution_target list
    \<Rightarrow> 'rc route_decision \<times> execution_target list \<times> string list
    \<Rightarrow> 'rc route_decision \<times> execution_target list \<times> string list" where
  "filter_pass f [] acc = acc"
| "filter_pass f (c # cs) (d, survivors, vision_blocked) =
     filter_pass f cs
       (case f c of
          None \<Rightarrow> (d, survivors @ [c], vision_blocked)
        | Some (why, vision) \<Rightarrow>
            (reject (et_id c) why d, survivors,
             if vision then vision_blocked @ [et_id c] else vision_blocked))"

definition vision_degradable :: "'j ai_request \<Rightarrow> route_require \<Rightarrow> route_needs \<Rightarrow> routing_policy \<Rightarrow> bool" where
  "vision_degradable req require n policy \<longleftrightarrow>
     need_vision n \<and> pol_vision_degrade policy \<and> requires_vision req
     \<and> rr_vision_in require \<noteq> Some True \<and> rr_vision_sources require = []"

text \<open>
  The \<open>loop\<close>: the strict pass, and the relaxed pass when the strict one left nothing although
  some candidate failed only on vision, followed by the bookkeeping of the degradation.
\<close>

definition filter_candidates ::
  "'j ai_request \<Rightarrow> string \<Rightarrow> route_require \<Rightarrow> route_needs \<Rightarrow> routing_policy \<Rightarrow> execution_target list
    \<Rightarrow> 'rc route_decision \<Rightarrow> execution_target list \<times> 'rc route_decision" where
  "filter_candidates req route_name require n policy candidates d =
     (let (d1, survivors, vision_blocked) =
        filter_pass (hard_filter req require n policy False) candidates (d, [], [])
      in if survivors \<noteq> [] \<or> \<not> vision_degradable req require n policy \<or> vision_blocked = []
         then (survivors, d1)
         else let strict_rejected_len = length (rd_rejected d1);
                  (d2, survivors2, blocked2) =
                    filter_pass (hard_filter req require n policy True) candidates (d1, [], vision_blocked)
              in if survivors2 = [] then (survivors2, d2)
                 else let d3 = d2\<lparr>rd_rejected := take strict_rejected_len (rd_rejected d2)\<rparr>;
                          dropped = image_count req;
                          detail = ''no target on route `'' @ route_name
                            @ ''` accepts this request's image input; '' @ show_nat dropped
                            @ '' image part(s) dropped and served as text (blocked: ''
                            @ join_with '','' blocked2 @ '')'';
                          d4 = add_capability_fallback \<lparr>cf_capability = ''vision_in'',
                                 cf_action = ''stripped_image_parts'', cf_detail = detail\<rparr> d3
                      in (survivors2, add_reason (''capability_fallback=vision_in:'' @ show_nat dropped
                            @ ''_images_dropped'') d4))"

section \<open>Demotion and the plan\<close>

definition scorecard_demoted_of :: "execution_target list \<Rightarrow> (string \<times> outcome_signal) list" where
  "scorecard_demoted_of survivors =
     List.map_filter (\<lambda>c. case et_outcome c of
          Some outcome \<Rightarrow> if os_tier outcome = TierDemoted then Some (et_id c, outcome) else None
        | None \<Rightarrow> None)
       (filter (\<lambda>c. et_healthy_accounts c \<noteq> Some 0) survivors)"

definition demote_partition ::
  "execution_target list \<Rightarrow> execution_target list \<times> execution_target list \<times> execution_target list" where
  "demote_partition survivors =
     (let no_account_demoted = length (filter (\<lambda>c. et_healthy_accounts c = Some 0) survivors);
          sv = (if 0 < no_account_demoted \<or> scorecard_demoted_of survivors \<noteq> []
                then sort_key demote_rank survivors else survivors);
          end0 = partition_point (\<lambda>t. demote_rank t = 0) sv;
          end1 = end0 + partition_point (\<lambda>t. demote_rank t = 1) (drop end0 sv)
      in (take end0 sv, take (end1 - end0) (drop end0 sv), drop end1 sv))"

record 'rc route_plan =
  plan_candidates :: "execution_target list"
  plan_decision :: "'rc route_decision"

text \<open>The closing part of \<open>plan_route\<close>: what is recorded for the head of the ordered survivors.\<close>

definition record_selection ::
  "execution_target list \<Rightarrow> routing_policy \<Rightarrow> quality_context option \<Rightarrow> 'rc route_decision
    \<Rightarrow> 'rc route_decision" where
  "record_selection survivors policy ctx d =
     (case survivors of
        [] \<Rightarrow> d
      | sel # rest \<Rightarrow>
          let d1 = d\<lparr>rd_selected := Some (new_target_ref (et_id sel))\<rparr>;
              d2 = (case et_outcome sel of
                      Some outcome \<Rightarrow> add_reason (format_outcome_select (et_id sel) outcome) d1
                    | None \<Rightarrow> d1);
              d3 = (case format_quality_reason sel policy ctx of
                      Some why \<Rightarrow> add_reason why d2 | None \<Rightarrow> d2);
              d4 = (if et_unverified sel
                    then add_reason ''unverified passthrough: capabilities + price not catalog-verified''
                           (d3\<lparr>rd_unverified := True\<rparr>)
                    else d3)
          in d4\<lparr>rd_fallbacks := rd_fallbacks d4 @ map (new_target_ref \<circ> et_id) rest\<rparr>)"

definition opening_decision :: "'j ai_request \<Rightarrow> routing_policy \<Rightarrow> 'rc route_decision" where
  "opening_decision req policy =
     (let d = new_decision (req_id req) (strategy_name policy)
      in case pol_profile policy of
           Some profile \<Rightarrow> add_reason (''profile='' @ profile_id profile)
                            (d\<lparr>rd_profile := Some (profile_id profile)\<rparr>)
         | None \<Rightarrow> d)"

text \<open>The shared score map of the \<open>score\<close> strategy; \<open>None\<close> for every other one.\<close>

definition score_map ::
  "routing_policy \<Rightarrow> bool \<Rightarrow> quality_context option \<Rightarrow> execution_target list \<Rightarrow> (string, f64) btree_map option"
  where
  "score_map policy streaming_required ctx survivors =
     map_option (\<lambda>_. bt_collect (map (\<lambda>s. (rs_target_id s, rs_score s))
       (route_scores survivors policy streaming_required ctx))) (pol_scoring policy)"

text \<open>Strategy order and tie-break inside each of the three rank slices.\<close>

definition order_ranks ::
  "routing_policy \<Rightarrow> bool \<Rightarrow> (string, f64) btree_map option \<Rightarrow> execution_target list
    \<Rightarrow> 'rc route_decision \<Rightarrow> execution_target list \<times> 'rc route_decision" where
  "order_ranks policy streaming_required score_by_target survivors d =
     (let (part0, part1, part2) = demote_partition survivors;
          (o0, d0) = order_partition part0 policy streaming_required score_by_target d;
          (o1, d1) = order_partition part1 policy streaming_required score_by_target d0;
          (o2, d2) = order_partition part2 policy streaming_required score_by_target d1
      in (o0 @ o1 @ o2, d2))"

text \<open>The demotion lines and the strategy's summary of the final winner.\<close>

definition ordering_evidence ::
  "routing_policy \<Rightarrow> bool \<Rightarrow> (string, f64) btree_map option \<Rightarrow> execution_target list
    \<Rightarrow> execution_target list \<Rightarrow> 'rc route_decision \<Rightarrow> 'rc route_decision" where
  "ordering_evidence policy streaming_required score_by_target survivors ordered d =
     (let no_account_demoted = length (filter (\<lambda>c. et_healthy_accounts c = Some 0) survivors);
          d1 = (if 0 < no_account_demoted
                then add_reason (''demoted '' @ show_nat no_account_demoted
                       @ '' target(s) with no healthy accounts'') d
                else d);
          d2 = foldl (\<lambda>d (target_id, outcome). add_reason (format_outcome_demote target_id outcome) d)
                 d1 (scorecard_demoted_of survivors)
      in case strategy_summary_reason policy (case ordered of [] \<Rightarrow> None | x # _ \<Rightarrow> Some x)
                streaming_required score_by_target of
           Some why \<Rightarrow> add_reason why d2
         | None \<Rightarrow> d2)"

definition order_survivors ::
  "routing_policy \<Rightarrow> bool \<Rightarrow> execution_target list \<Rightarrow> 'rc route_decision
    \<Rightarrow> execution_target list \<times> 'rc route_decision" where
  "order_survivors policy streaming_required survivors d =
     (let ctx = new_quality_context survivors policy;
          score_by_target = score_map policy streaming_required ctx survivors;
          (ordered, d1) = order_ranks policy streaming_required score_by_target survivors d;
          d2 = ordering_evidence policy streaming_required score_by_target survivors ordered d1;
          d3 = d2\<lparr>rd_scores := route_scores ordered policy streaming_required ctx\<rparr>
      in (ordered, record_selection ordered policy ctx d3))"

definition plan_route ::
  "'j ai_request \<Rightarrow> string \<Rightarrow> route_require \<Rightarrow> execution_target list \<Rightarrow> routing_policy \<Rightarrow> 'rc route_plan"
  where
  "plan_route req route_name require candidates policy =
     (let n = route_needs_of req require;
          d = opening_reasons req route_name n (opening_decision req policy);
          (survivors, d1) = filter_candidates req route_name require n policy candidates d;
          (ordered, d2) = order_survivors policy (need_streaming n) survivors d1
      in \<lparr>plan_candidates = ordered, plan_decision = d2\<rparr>)"

end
