(* ===== verification/Execution_Meta.thy ===== *)
theory Execution_Meta
  imports Text_Lines Router
begin

text \<open>
  Execution metadata (\<open>sb-core/src/execution.rs\<close>, \<open>sb-runtime/src/execution_meta.rs\<close>): the job
  that summarises a request, the exact-request cache with its policy, and the receipt a route
  decision carries. The digest of a fingerprint (its JSON hashed with SHA-256) is the parameter
  \<open>digest\<close>.
\<close>

section \<open>Jobs\<close>

definition EXECUTION_POLICY_VERSION :: string where
  "EXECUTION_POLICY_VERSION = ''execution-policy/v1''"

definition CACHE_KEY_VERSION :: string where
  "CACHE_KEY_VERSION = ''execution-cache-key/v1''"

datatype execution_task_type =
  TaskChat | TaskCoding | TaskExtraction | TaskJudge | TaskToolAgent | TaskEmbeddings | TaskUnknown

definition task_type_parse :: "string \<Rightarrow> execution_task_type" where
  "task_type_parse v =
     (if v = ''chat'' then TaskChat
      else if v \<in> {''coding'', ''code'', ''code_patch''} then TaskCoding
      else if v \<in> {''extract'', ''extraction'', ''classify'', ''classification''} then TaskExtraction
      else if v \<in> {''judge'', ''critique'', ''review''} then TaskJudge
      else if v \<in> {''tool_agent'', ''agent''} then TaskToolAgent
      else if v \<in> {''embedding'', ''embeddings''} then TaskEmbeddings
      else TaskUnknown)"

definition task_type_infer :: "'j ai_request \<Rightarrow> execution_task_type" where
  "task_type_infer req =
     (case bt_get (req_metadata req) ''task_type'' of
        Some task \<Rightarrow> task_type_parse task
      | None \<Rightarrow>
          if requires_tools req then TaskToolAgent
          else if req_model req \<in> {''auto/coding'', ''coding''} then TaskCoding
          else if req_model req \<in> {''auto/extract'', ''auto/classify''} then TaskExtraction
          else if req_model req \<in> {''auto/judge'', ''auto/critique''} then TaskJudge
          else TaskChat)"

datatype execution_source = SrcApi | SrcCodex | SrcClaudeCode | SrcOpencode | SrcTap | SrcHarness | SrcUnknown

definition source_parse :: "string \<Rightarrow> execution_source" where
  "source_parse v =
     (if v \<in> {''api'', ''openai_chat'', ''openai_responses'', ''anthropic_messages''} then SrcApi
      else if v = ''codex'' then SrcCodex
      else if v \<in> {''claude'', ''claude-code'', ''claude_code''} then SrcClaudeCode
      else if v = ''opencode'' then SrcOpencode
      else if v \<in> {''tap'', ''native_tap''} then SrcTap
      else if v = ''harness'' then SrcHarness
      else SrcUnknown)"

definition source_infer :: "'j ai_request \<Rightarrow> execution_source" where
  "source_infer req =
     (case bt_get (req_metadata req) ''execution_source'' of
        Some s \<Rightarrow> source_parse s
      | None \<Rightarrow>
          (case bt_get (req_metadata req) ''client_profile'' of
             Some profile \<Rightarrow> source_parse profile
           | None \<Rightarrow> SrcApi))"

datatype latency_preference = Interactive | Balanced | Batch

definition latency_preference_infer :: "'j ai_request \<Rightarrow> latency_preference" where
  "latency_preference_infer req =
     (case bt_get (req_metadata req) ''latency_preference'' of
        Some v \<Rightarrow>
          if v \<in> {''interactive'', ''fast'', ''low_latency''} then Interactive
          else if v \<in> {''batch'', ''cheap'', ''throughput''} then Batch
          else Balanced
      | None \<Rightarrow> if req_stream req then Interactive else Balanced)"

record requested_capabilities =
  rc_streaming :: bool
  rc_tool_calling :: bool
  rc_vision_in :: bool
  rc_json_schema :: bool

definition requested_capabilities_of :: "'j ai_request \<Rightarrow> requested_capabilities" where
  "requested_capabilities_of req =
     \<lparr>rc_streaming = req_stream req, rc_tool_calling = requires_tools req, rc_vision_in = requires_vision req,
      rc_json_schema = (case req_response_format req of Some (FormatJsonSchema _ _ _) \<Rightarrow> True | _ \<Rightarrow> False)\<rparr>"

record input_size =
  is_message_count :: usize
  is_tool_count :: usize
  is_approx_input_chars :: usize

definition input_size_of :: "'j ai_request \<Rightarrow> input_size" where
  "input_size_of req =
     \<lparr>is_message_count = length (req_messages req), is_tool_count = length (req_tools req),
      is_approx_input_chars = sum_list (map (\<lambda>m. length (message_text m)) (req_messages req))
        + (case req_system req of Some s \<Rightarrow> length s | None \<Rightarrow> 0)\<rparr>"

text \<open>\<open>str::parse::<u64>\<close>: an optional plus sign and decimal digits, within the width.\<close>

definition digits_value :: "string \<Rightarrow> nat" where
  "digits_value s = foldl (\<lambda>n c. 10 * n + (of_char c - 48)) 0 s"

definition parse_u64 :: "string \<Rightarrow> u64 option" where
  "parse_u64 s =
     (let ds = (case s of c # cs \<Rightarrow> if c = CHR ''+'' then cs else s | [] \<Rightarrow> [])
      in if ds = [] \<or> \<not> list_all (\<lambda>c. 48 \<le> (of_char c :: nat) \<and> (of_char c :: nat) \<le> 57) ds
            \<or> 2 ^ 64 \<le> digits_value ds
         then None else Some (word_of_nat (digits_value ds)))"

record execution_job =
  job_id :: string
  job_task_type :: execution_task_type
  job_source :: execution_source
  job_privacy_level :: privacy_class
  job_latency_preference :: latency_preference
  job_cost_ceiling_micros :: "u64 option"
  job_context_fingerprint :: string
  job_requested_capabilities :: requested_capabilities
  job_input_size :: input_size
  job_tenant :: "string option"
  job_project :: "string option"
  job_workspace_id :: "string option"

section \<open>Cache keys\<close>

datatype cache_layer =
  ExactRequest | ContextArtifact | ToolResultLayer | ProviderResponse | HarnessExecution | NegativeFailure

record cache_key =
  ck_version :: string
  ck_layer :: cache_layer
  ck_key :: string

record 'j exact_fingerprint =
  fp_model :: string
  fp_system :: "string option"
  fp_messages :: "(role \<times> 'j content_part list) list"
  fp_tools :: "'j tool_spec list"
  fp_response_format :: "'j response_format option"
  fp_stream :: bool
  fp_max_output_tokens :: "u32 option"
  fp_temperature :: "f32 option"
  fp_priority :: priority
  fp_privacy_class :: privacy_class
  fp_metadata :: "(string, string) btree_map"
  fp_tenant :: "string option"
  fp_project :: "string option"
  fp_passthrough :: "(string \<times> 'j) list"

definition fingerprint_of :: "'j ai_request \<Rightarrow> 'j exact_fingerprint" where
  "fingerprint_of req =
     \<lparr>fp_model = req_model req, fp_system = req_system req,
      fp_messages = map (\<lambda>m. (msg_role m, msg_content m)) (req_messages req), fp_tools = req_tools req,
      fp_response_format = req_response_format req, fp_stream = req_stream req,
      fp_max_output_tokens = req_max_output_tokens req, fp_temperature = req_temperature req,
      fp_priority = req_priority req, fp_privacy_class = req_privacy_class req, fp_metadata = req_metadata req,
      fp_tenant = req_tenant req, fp_project = req_project req, fp_passthrough = req_passthrough req\<rparr>"

definition exact_request_key :: "('j exact_fingerprint \<Rightarrow> string) \<Rightarrow> 'j ai_request \<Rightarrow> cache_key" where
  "exact_request_key digest req =
     \<lparr>ck_version = CACHE_KEY_VERSION, ck_layer = ExactRequest, ck_key = digest (fingerprint_of req)\<rparr>"

definition job_of_request :: "('j exact_fingerprint \<Rightarrow> string) \<Rightarrow> 'j ai_request \<Rightarrow> execution_job" where
  "job_of_request digest req =
     \<lparr>job_id = req_id req, job_task_type = task_type_infer req, job_source = source_infer req,
      job_privacy_level = req_privacy_class req, job_latency_preference = latency_preference_infer req,
      job_cost_ceiling_micros = Option.bind (bt_get (req_metadata req) ''cost_ceiling_micros'') parse_u64,
      job_context_fingerprint = ck_key (exact_request_key digest req),
      job_requested_capabilities = requested_capabilities_of req, job_input_size = input_size_of req,
      job_tenant = req_tenant req, job_project = req_project req,
      job_workspace_id = bt_get (req_metadata req) ''workspace_id''\<rparr>"

section \<open>The exact-request cache\<close>

record cache_policy =
  cp_version :: string
  cp_layer :: cache_layer
  cp_enabled :: bool
  cp_ttl_seconds :: "u64 option"
  cp_allow_sensitive :: bool
  cp_allow_confidential :: bool

definition default_cache_policy :: cache_policy where
  "default_cache_policy =
     \<lparr>cp_version = CACHE_KEY_VERSION, cp_layer = ExactRequest, cp_enabled = True, cp_ttl_seconds = Some 3600,
      cp_allow_sensitive = False, cp_allow_confidential = False\<rparr>"

record execution_cache_config =
  ecc_enabled :: bool
  ecc_ttl_seconds :: "u64 option"
  ecc_allow_sensitive :: bool
  ecc_allow_confidential :: bool

definition policy_of_config :: "execution_cache_config \<Rightarrow> cache_policy" where
  "policy_of_config c =
     \<lparr>cp_version = CACHE_KEY_VERSION, cp_layer = ExactRequest, cp_enabled = ecc_enabled c,
      cp_ttl_seconds = ecc_ttl_seconds c, cp_allow_sensitive = ecc_allow_sensitive c,
      cp_allow_confidential = ecc_allow_confidential c\<rparr>"

datatype cache_eligibility = CacheEligible | CacheBypass string

definition cache_eligibility_of :: "cache_policy \<Rightarrow> 'j ai_request \<Rightarrow> cache_eligibility" where
  "cache_eligibility_of policy req =
     (if \<not> cp_enabled policy then CacheBypass ''cache_policy=disabled''
      else case req_privacy_class req of
          Standard \<Rightarrow> CacheEligible
        | Sensitive \<Rightarrow> if cp_allow_sensitive policy then CacheEligible else CacheBypass ''privacy_class=sensitive''
        | Confidential \<Rightarrow>
            if cp_allow_confidential policy then CacheEligible else CacheBypass ''privacy_class=confidential'')"

datatype cache_status = CacheHit | CacheMiss | CacheBypassed

record cache_lookup_receipt =
  cl_layer :: cache_layer
  cl_status :: cache_status
  cl_key :: "string option"
  cl_reason :: "string option"
  cl_policy_version :: string
  cl_ttl_seconds :: "u64 option"

type_synonym exact_request_cache = "(string, u64) btree_map"

definition sat_sub :: "'a::len word \<Rightarrow> 'a word \<Rightarrow> 'a word" where
  "sat_sub a b = (if b \<le> a then a - b else 0)"

definition cache_contains_at :: "exact_request_cache \<Rightarrow> cache_key \<Rightarrow> u64 \<Rightarrow> u64 option \<Rightarrow> bool" where
  "cache_contains_at cache key now_unix ttl =
     (case bt_get cache (ck_key key) of
        None \<Rightarrow> False
      | Some seen_at \<Rightarrow> (case ttl of Some t \<Rightarrow> sat_sub now_unix seen_at \<le> t | None \<Rightarrow> True))"

definition cache_remember_at :: "cache_key \<Rightarrow> u64 \<Rightarrow> exact_request_cache \<Rightarrow> exact_request_cache" where
  "cache_remember_at key now_unix cache = bt_insert (ck_key key) now_unix cache"

definition receipt_for_request ::
  "('j exact_fingerprint \<Rightarrow> string) \<Rightarrow> 'j ai_request \<Rightarrow> cache_policy \<Rightarrow> exact_request_cache \<Rightarrow> u64 \<Rightarrow> cache_lookup_receipt" where
  "receipt_for_request digest req policy cache now_unix =
     (case cache_eligibility_of policy req of
        CacheEligible \<Rightarrow>
          let key = exact_request_key digest req
          in \<lparr>cl_layer = ck_layer key,
              cl_status = (if cache_contains_at cache key now_unix (cp_ttl_seconds policy) then CacheHit else CacheMiss),
              cl_key = Some (ck_key key), cl_reason = None, cl_policy_version = cp_version policy,
              cl_ttl_seconds = cp_ttl_seconds policy\<rparr>
      | CacheBypass why \<Rightarrow>
          \<lparr>cl_layer = cp_layer policy, cl_status = CacheBypassed, cl_key = None, cl_reason = Some why,
           cl_policy_version = cp_version policy, cl_ttl_seconds = cp_ttl_seconds policy\<rparr>)"

definition body_redacted_cache_bypass :: "cache_policy \<Rightarrow> cache_lookup_receipt" where
  "body_redacted_cache_bypass policy =
     \<lparr>cl_layer = cp_layer policy, cl_status = CacheBypassed, cl_key = None, cl_reason = Some ''scoped_body_redacted'',
      cl_policy_version = cp_version policy, cl_ttl_seconds = cp_ttl_seconds policy\<rparr>"

definition lookup_exact_cache ::
  "('j exact_fingerprint \<Rightarrow> string) \<Rightarrow> 'j ai_request \<Rightarrow> cache_policy \<Rightarrow> bool \<Rightarrow> u64 \<Rightarrow> exact_request_cache
    \<Rightarrow> cache_lookup_receipt \<times> exact_request_cache" where
  "lookup_exact_cache digest req policy body_redacted now_unix cache =
     (if body_redacted then (body_redacted_cache_bypass policy, cache)
      else let receipt = receipt_for_request digest req policy cache now_unix
           in (receipt,
               if cl_status receipt = CacheMiss then cache_remember_at (exact_request_key digest req) now_unix cache
               else cache))"

definition preview_cache_receipt ::
  "('j exact_fingerprint \<Rightarrow> string) \<Rightarrow> 'j ai_request \<Rightarrow> cache_policy \<Rightarrow> u64 \<Rightarrow> cache_lookup_receipt" where
  "preview_cache_receipt digest req policy now_unix = receipt_for_request digest req policy [] now_unix"

section \<open>Receipts\<close>

definition redacted_input_chars :: "'j ai_request \<Rightarrow> usize" where
  "redacted_input_chars req =
     (case req_system req of Some s \<Rightarrow> length s | None \<Rightarrow> 0)
     + sum_list (map (\<lambda>p. case p of CpText t \<Rightarrow> length t | _ \<Rightarrow> 0) (all_parts req))"

definition execution_job_for_receipt ::
  "('j exact_fingerprint \<Rightarrow> string) \<Rightarrow> 'j ai_request \<Rightarrow> bool \<Rightarrow> execution_job" where
  "execution_job_for_receipt digest req body_redacted =
     (if \<not> body_redacted then job_of_request digest req
      else \<lparr>job_id = req_id req, job_task_type = task_type_infer req, job_source = source_infer req,
        job_privacy_level = req_privacy_class req, job_latency_preference = latency_preference_infer req,
        job_cost_ceiling_micros = Option.bind (bt_get (req_metadata req) ''cost_ceiling_micros'') parse_u64,
        job_context_fingerprint = ''redacted:quality_eval'',
        job_requested_capabilities = requested_capabilities_of req,
        job_input_size = \<lparr>is_message_count = length (req_messages req), is_tool_count = length (req_tools req),
          is_approx_input_chars = redacted_input_chars req\<rparr>,
        job_tenant = req_tenant req, job_project = req_project req,
        job_workspace_id = bt_get (req_metadata req) ''workspace_id''\<rparr>)"

record execution_receipt =
  er_policy_version :: string
  er_job :: execution_job
  er_candidates :: "string list"
  er_selected_route :: "string option"
  er_fallback_path :: "string list"
  er_reasons :: "string list"
  er_estimated_cost_micros :: "u64 option"
  er_estimated_latency_ms :: "f64 option"
  er_cache :: cache_lookup_receipt

definition estimated_latency :: "'j ai_request \<Rightarrow> execution_target list \<Rightarrow> string \<Rightarrow> f64 option" where
  "estimated_latency req candidates selected =
     Option.bind (find (\<lambda>t. et_id t = selected) candidates)
       (\<lambda>t. if req_stream req
            then (case et_ttft_ewma_ms t of Some v \<Rightarrow> Some v | None \<Rightarrow> et_latency_ewma_ms t)
            else et_latency_ewma_ms t)"

definition attach_execution_receipt ::
  "('j exact_fingerprint \<Rightarrow> string) \<Rightarrow> 'j ai_request \<Rightarrow> cache_lookup_receipt \<Rightarrow> bool \<Rightarrow> execution_receipt route_plan
    \<Rightarrow> execution_receipt route_plan" where
  "attach_execution_receipt digest req cache body_redacted plan =
     (let d = plan_decision plan;
          selected_route = map_option tr_target_id (rd_selected d)
      in plan\<lparr>plan_decision := d\<lparr>rd_receipt := Some
           \<lparr>er_policy_version = EXECUTION_POLICY_VERSION, er_job = execution_job_for_receipt digest req body_redacted,
            er_candidates = map et_id (plan_candidates plan), er_selected_route = selected_route,
            er_fallback_path = map tr_target_id (rd_fallbacks d), er_reasons = rd_reason d,
            er_estimated_cost_micros = None,
            er_estimated_latency_ms = Option.bind selected_route (estimated_latency req (plan_candidates plan)),
            er_cache = cache\<rparr>\<rparr>\<rparr>)"

datatype evaluation_event_kind =
  RunStarted | RouteSelected | CacheLookup | ProviderCallStarted | ProviderCallFinished
  | HarnessCallStarted | HarnessCallFinished | FallbackTriggered | FinalStatus

record evaluation_event =
  ev_kind :: evaluation_event_kind
  ev_policy_version :: string
  ev_target_id :: "string option"
  ev_cache :: "cache_lookup_receipt option"
  ev_status :: "string option"
  ev_latency_ms :: "u64 option"
  ev_cost_micros :: "u64 option"
  ev_metadata :: "(string, string) btree_map"

definition new_event :: "evaluation_event_kind \<Rightarrow> evaluation_event" where
  "new_event kind =
     \<lparr>ev_kind = kind, ev_policy_version = EXECUTION_POLICY_VERSION, ev_target_id = None, ev_cache = None,
      ev_status = None, ev_latency_ms = None, ev_cost_micros = None, ev_metadata = []\<rparr>"

definition cache_lookup_event :: "cache_lookup_receipt \<Rightarrow> evaluation_event" where
  "cache_lookup_event receipt = (new_event CacheLookup)\<lparr>ev_cache := Some receipt\<rparr>"

definition route_selected_event :: "'rc route_decision \<Rightarrow> evaluation_event" where
  "route_selected_event d =
     (new_event RouteSelected)\<lparr>ev_target_id := map_option tr_target_id (rd_selected d),
        ev_metadata := bt_insert ''rejected_count'' (show_nat (length (rd_rejected d)))
          (bt_insert ''fallback_count'' (show_nat (length (rd_fallbacks d)))
            (bt_insert ''strategy'' (rd_strategy d) []))\<rparr>"

section \<open>Harnesses\<close>

record harness_descriptor =
  hd_name :: string
  hd_version :: string
  hd_supported_task_types :: "execution_task_type list"
  hd_required_tools :: "string list"
  hd_input_contract :: string
  hd_output_contract :: string

definition harness_candidates_for_task :: "harness_descriptor list \<Rightarrow> execution_task_type \<Rightarrow> harness_descriptor list" where
  "harness_candidates_for_task harnesses t =
     filter (\<lambda>h. hd_supported_task_types h = [] \<or> t \<in> set (hd_supported_task_types h)) harnesses"

definition harness_candidates_for_plan ::
  "harness_descriptor list \<Rightarrow> execution_receipt route_plan \<Rightarrow> harness_descriptor list" where
  "harness_candidates_for_plan harnesses plan =
     harness_candidates_for_task harnesses
       (case rd_receipt (plan_decision plan) of Some r \<Rightarrow> job_task_type (er_job r) | None \<Rightarrow> TaskUnknown)"

section \<open>Native execution\<close>

record native_execution_observation =
  ne_lane_id :: "string option"
  ne_lane_revision :: "string option"
  ne_launch_profile :: "string option"
  ne_conformance_revision :: "string option"
  ne_harness :: "string option"
  ne_requested_effort :: "string option"
  ne_observed_effort :: "string option"
  ne_observed_effort_path :: "string option"

definition native_is_empty :: "native_execution_observation \<Rightarrow> bool" where
  "native_is_empty n \<longleftrightarrow>
     ne_lane_id n = None \<and> ne_lane_revision n = None \<and> ne_launch_profile n = None \<and> ne_conformance_revision n = None
     \<and> ne_harness n = None \<and> ne_requested_effort n = None \<and> ne_observed_effort n = None \<and> ne_observed_effort_path n = None"

definition native_execution_observation_of :: "'j ai_request \<Rightarrow> native_execution_observation option" where
  "native_execution_observation_of req =
     (let get = bt_get (req_metadata req);
          n = \<lparr>ne_lane_id = get ''switchback_lane_id'', ne_lane_revision = get ''switchback_lane_revision'',
               ne_launch_profile = get ''native_execution.launch_profile'',
               ne_conformance_revision = get ''native_execution.conformance_revision'',
               ne_harness = get ''native_execution.harness'', ne_requested_effort = get ''requested_native_effort'',
               ne_observed_effort = get ''observed_native_effort'',
               ne_observed_effort_path = get ''observed_native_effort_path''\<rparr>
      in if native_is_empty n then None else Some n)"

section \<open>Facts\<close>

text \<open>The size a redacted receipt reports is the size a plain one reports.\<close>

lemma text_chars:
  "sum_list (map (\<lambda>p. case p of CpText t \<Rightarrow> length t | _ \<Rightarrow> 0) ps) = length (concat (map part_text ps))"
proof (induction ps)
  case (Cons p ps)
  then show ?case by (cases p) simp_all
qed simp

lemma messages_chars: "length (concat (map part_text (concat (map msg_content ms)))) = sum_list (map (\<lambda>m. length (message_text m)) ms)"
  by (induction ms) (simp_all add: message_text_def)

lemma redacted_size: "redacted_input_chars req = is_approx_input_chars (input_size_of req)"
proof -
  have "sum_list (map (\<lambda>p. case p of CpText t \<Rightarrow> length t | _ \<Rightarrow> 0) (all_parts req)) =
      sum_list (map (\<lambda>m. length (message_text m)) (req_messages req))"
    unfolding text_chars all_parts_def messages_chars ..
  then show ?thesis
    by (simp add: redacted_input_chars_def input_size_of_def)
qed

lemma infer_without_messages:
  "task_type_infer (req\<lparr>req_messages := ms\<rparr>) = task_type_infer req"
  "source_infer (req\<lparr>req_messages := ms\<rparr>) = source_infer req"
  "latency_preference_infer (req\<lparr>req_messages := ms\<rparr>) = latency_preference_infer req"
  by (auto simp: task_type_infer_def source_infer_def latency_preference_infer_def requires_tools_def split: option.split)

text \<open>
  A redacted receipt reveals sizes only: two requests with the same metadata and capabilities
  whose bodies have the same number of messages and of characters get the same job and the
  same cache record, which leave the cache as it was; and it differs from the plain job in the
  fingerprint alone.
\<close>

theorem redacted_receipt_hides_body:
  assumes "req_system req' = req_system req" and "length (req_messages req') = length (req_messages req)"
    and "requires_vision req' = requires_vision req"
    and "is_approx_input_chars (input_size_of req') = is_approx_input_chars (input_size_of req)"
    and "req' = req\<lparr>req_messages := req_messages req'\<rparr>"
  shows "execution_job_for_receipt digest req' True = execution_job_for_receipt digest req True
    \<and> lookup_exact_cache digest req' policy True now cache = lookup_exact_cache digest req policy True now cache
    \<and> snd (lookup_exact_cache digest req policy True now cache) = cache
    \<and> execution_job_for_receipt digest req True =
        (job_of_request digest req)\<lparr>job_context_fingerprint := ''redacted:quality_eval''\<rparr>"
proof -
  obtain ms where req': "req' = req\<lparr>req_messages := ms\<rparr>"
    using assms(5) by blast
  show ?thesis
    using assms unfolding req'
    by (simp add: execution_job_for_receipt_def redacted_size requested_capabilities_of_def infer_without_messages
        requires_tools_def lookup_exact_cache_def job_of_request_def input_size_of_def)
qed

text \<open>
  A request the policy keeps out of the cache leaves no trace there: the lookup is a bypass
  without a key, and the cache is unchanged. Sensitive and confidential requests are kept out
  unless the operator allows them.
\<close>

theorem private_requests_uncached:
  assumes "\<not> cp_enabled policy \<or> req_privacy_class req = Sensitive \<and> \<not> cp_allow_sensitive policy
      \<or> req_privacy_class req = Confidential \<and> \<not> cp_allow_confidential policy"
  shows "snd (lookup_exact_cache digest req policy redacted now cache) = cache
    \<and> cl_status (fst (lookup_exact_cache digest req policy redacted now cache)) = CacheBypassed
    \<and> cl_key (fst (lookup_exact_cache digest req policy redacted now cache)) = None"
  using assms
  by (auto simp: lookup_exact_cache_def body_redacted_cache_bypass_def receipt_for_request_def cache_eligibility_of_def
      Let_def split: privacy_class.splits)

text \<open>The cache after a run of lookups, with the statuses they reported.\<close>

fun lookups ::
  "('j exact_fingerprint \<Rightarrow> string) \<Rightarrow> cache_policy \<Rightarrow> ('j ai_request \<times> u64) list \<Rightarrow> exact_request_cache
    \<Rightarrow> (string option \<times> cache_status \<times> u64) list \<times> exact_request_cache" where
  "lookups digest policy [] cache = ([], cache)"
| "lookups digest policy ((req, now) # rs) cache =
     (let (receipt, c1) = lookup_exact_cache digest req policy False now cache;
          (hist, c2) = lookups digest policy rs c1
      in ((cl_key receipt, cl_status receipt, now) # hist, c2))"

definition last_miss :: "string \<Rightarrow> (string option \<times> cache_status \<times> u64) list \<Rightarrow> u64 option" where
  "last_miss k hist = map_option (snd \<circ> snd) (find (\<lambda>(k', st, now). k' = Some k \<and> st = CacheMiss) (rev hist))"

lemma find_append: "find P (xs @ ys) = (case find P xs of Some x \<Rightarrow> Some x | None \<Rightarrow> find P ys)"
  by (induction xs) auto

lemma last_miss_Cons:
  "last_miss k ((k', st, now) # hist) =
     (case last_miss k hist of Some t \<Rightarrow> Some t | None \<Rightarrow> if k' = Some k \<and> st = CacheMiss then Some now else None)"
  by (simp add: last_miss_def find_append split: option.split)

lemma lookup_cache_wf: "bt_wf cache \<Longrightarrow> bt_wf (snd (lookup_exact_cache digest req policy r now cache))"
  by (simp add: lookup_exact_cache_def Let_def cache_remember_at_def bt_wf_insert)

lemma lookup_cache_get:
  assumes "bt_wf cache"
  shows "bt_get (snd (lookup_exact_cache digest req policy False now cache)) k =
    (let receipt = fst (lookup_exact_cache digest req policy False now cache)
     in if cl_key receipt = Some k \<and> cl_status receipt = CacheMiss then Some now else bt_get cache k)"
  using assms
  by (auto simp: lookup_exact_cache_def receipt_for_request_def Let_def cache_remember_at_def bt_get_insert
      split: cache_eligibility.splits)

lemma lookups_get:
  assumes "bt_wf cache"
  shows "bt_get (snd (lookups digest policy rs cache)) k =
    (case last_miss k (fst (lookups digest policy rs cache)) of Some t \<Rightarrow> Some t | None \<Rightarrow> bt_get cache k)"
  using assms
proof (induction rs arbitrary: cache)
  case Nil
  then show ?case by (simp add: last_miss_def)
next
  case (Cons r rs)
  obtain req now where r: "r = (req, now)" by (cases r)
  let ?l = "lookup_exact_cache digest req policy False now cache"
  have "bt_get (snd (lookups digest policy rs (snd ?l))) k =
      (case last_miss k (fst (lookups digest policy rs (snd ?l))) of Some t \<Rightarrow> Some t | None \<Rightarrow> bt_get (snd ?l) k)"
    by (rule Cons.IH) (rule lookup_cache_wf [OF Cons.prems])
  then show ?case
    by (simp add: r split_beta Let_def last_miss_Cons lookup_cache_get [OF Cons.prems] split: option.split)
qed

text \<open>
  C38: What a hit means: after any run of lookups from an empty cache, an eligible request is reported
  as a hit exactly if its key was missed before and the latest such miss is no older than the
  time to live (of any age, without one).
\<close>

theorem cache_hit_iff:
  assumes "cache_eligibility_of policy req = CacheEligible"
  shows "cl_status (fst (lookup_exact_cache digest req policy False now (snd (lookups digest policy rs [])))) = CacheHit
    \<longleftrightarrow> (case last_miss (digest (fingerprint_of req)) (fst (lookups digest policy rs [])) of
           Some seen \<Rightarrow> (case cp_ttl_seconds policy of Some ttl \<Rightarrow> sat_sub now seen \<le> ttl | None \<Rightarrow> True)
         | None \<Rightarrow> False)"
  using assms lookups_get [OF btree.wf_mt, of digest policy rs "digest (fingerprint_of req)"]
  by (simp add: lookup_exact_cache_def receipt_for_request_def Let_def cache_contains_at_def exact_request_key_def
      btree.get_mt split: option.splits)

text \<open>
  The fingerprint leaves out more than the transport metadata it means to: two requests that
  differ only in their server tools or in the protocol passthrough have the same exact key.
\<close>

theorem server_tools_share_key:
  "exact_request_key digest (req\<lparr>req_server_tools := st, req_protocol_passthrough := pp\<rparr>) = exact_request_key digest req"
  by (simp add: exact_request_key_def fingerprint_of_def)

section \<open>Witnesses\<close>

definition said :: "string \<Rightarrow> unit ai_request" where
  "said t = new_request ''r'' ''m'' [\<lparr>msg_role = User, msg_content = [CpText t], msg_cache_hint = None\<rparr>]"

abbreviation flat_digest :: "unit exact_fingerprint \<Rightarrow> string" where
  "flat_digest \<equiv> \<lambda>f. ''k''"

lemma said_eligible: "cache_eligibility_of default_cache_policy (said t) = CacheEligible"
  by (simp add: cache_eligibility_of_def default_cache_policy_def said_def new_request_def)

theorem cache_hit_iff_witness:
  "cl_status (fst (lookup_exact_cache flat_digest (said ''x'') default_cache_policy False 3610
     (snd (lookups flat_digest default_cache_policy [(said ''x'', 10)] [])))) = CacheHit
   \<and> cl_status (fst (lookup_exact_cache flat_digest (said ''x'') default_cache_policy False 3611
     (snd (lookups flat_digest default_cache_policy [(said ''x'', 10)] [])))) \<noteq> CacheHit"
proof -
  have "fst (lookups flat_digest default_cache_policy [(said ''x'', 10)] []) = [(Some ''k'', CacheMiss, 10)]"
    by (simp add: Let_def split_beta lookup_exact_cache_def receipt_for_request_def said_eligible exact_request_key_def
        cache_contains_at_def bt_get_def)
  then show ?thesis
    using cache_hit_iff [OF said_eligible, of flat_digest "''x''" 3610 "[(said ''x'', 10)]"]
      cache_hit_iff [OF said_eligible, of flat_digest "''x''" 3611 "[(said ''x'', 10)]"]
    by (simp add: last_miss_def default_cache_policy_def sat_sub_def)
qed

theorem private_requests_uncached_witness:
  "snd (lookup_exact_cache flat_digest ((said ''x'')\<lparr>req_privacy_class := Confidential\<rparr>) default_cache_policy False 5 []) = []"
proof -
  have "req_privacy_class ((said ''x'')\<lparr>req_privacy_class := Confidential\<rparr>) = Confidential"
    and "\<not> cp_allow_confidential default_cache_policy"
    by (simp_all add: default_cache_policy_def)
  then show ?thesis
    using private_requests_uncached [of default_cache_policy "(said ''x'')\<lparr>req_privacy_class := Confidential\<rparr>" flat_digest False 5 "[]"]
    by blast
qed

theorem redacted_receipt_hides_body_witness:
  "execution_job_for_receipt flat_digest (said ''abc'') True = execution_job_for_receipt flat_digest (said ''xyz'') True"
  by (rule redacted_receipt_hides_body [THEN conjunct1])
    (simp_all add: said_def new_request_def requires_vision_def image_count_def all_parts_def input_size_of_def
      message_text_def)

end
