(* ===== verification/Attempt.thy ===== *)
theory Attempt
  imports Resolver Scorecard Stream_Events
begin

text \<open>
  One attempt of the runtime: the engine's mutable parts, the exactly-once terminal seam
  \<open>finish_attempt\<close> (\<open>sb-runtime/src/finish_attempt.rs\<close>), the helpers of
  \<open>sb-runtime/src/helpers.rs\<close>, the account scopes of tenants and client profiles
  (\<open>sb-runtime/src/profiles.rs\<close>) and the committed errors (\<open>outcome.rs\<close>). Calls into parts
  that are not modelled (traces, plugins, the ledger, the latency registry) are recorded in
  \<open>eg_effects\<close>, in order.
\<close>

section \<open>The engine's state\<close>

record attempt_info =
  ai_request_id :: string
  ai_target_id :: string
  ai_provider_id :: string
  ai_account_id :: string
  ai_egress :: string
  ai_ok :: bool
  ai_error_class :: "string option"
  ai_latency_ms :: u64

datatype trace_outcome = TraceSuccess | TraceFailed string bool

record trace_attempt =
  ta_target_id :: string
  ta_provider_id :: string
  ta_model :: string
  ta_account_id :: string
  ta_egress :: string
  ta_latency_ms :: u64
  ta_outcome :: trace_outcome

datatype finish_outcome = FoOk finish_reason "u64 option" | FoFailed error_class | FoCancelled

text \<open>
  \<open>FxDispatch\<close> is a call of \<open>adapter.execute\<close> (target, account, lease, egress), \<open>FxFinished\<close>
  the call of \<open>finish_attempt\<close> that consumes the attempt's token; the others are the calls
  into the components named. A trace is finished into the store and the ring (\<open>FxTraceFinish\<close>)
  or into the ring alone (\<open>FxTraceRing\<close>).
\<close>

datatype effect =
    FxDispatch string string credential_lease "string option"
  | FxFinished string string finish_outcome
  | FxPostAttempt attempt_info
  | FxTraceAttempt trace_attempt
  | FxTraceWarning string
  | FxTraceUsage usage u64
  | FxTraceFinish u16 u64 bool
  | FxTraceRing u16 u64 bool
  | FxDenied u16 string string
  | FxLatency string string f64
  | FxTtft string string f64
  | FxUsage string string string usage bool
  | FxUsageCheckedPostCommit string string string usage
  | FxSleep duration
  | FxScopeSuccess string u64
  | FxQualityTee string
  | FxQualityResponse string
  | FxQualityComplete "finish_reason option"

record 'k engine =
  eg_resolver :: "'k resolver"
  eg_scorecard :: scorecard
  eg_combo_rr :: "string \<rightharpoonup> usize"
  eg_tick :: nat
  eg_calls :: nat
  eg_quality_capture :: bool
  eg_effects :: "effect list"

definition emit :: "effect \<Rightarrow> 'k engine \<Rightarrow> 'k engine" where
  "emit fx eg = eg\<lparr>eg_effects := eg_effects eg @ [fx]\<rparr>"

text \<open>\<open>Instant::now()\<close>: the reading of the clock with this number.\<close>

definition read_clock :: "(nat \<Rightarrow> instant) \<Rightarrow> 'k engine \<Rightarrow> instant \<times> 'k engine" where
  "read_clock clock eg = (clock (eg_tick eg), eg\<lparr>eg_tick := Suc (eg_tick eg)\<rparr>)"

definition elapsed_ms :: "(nat \<Rightarrow> instant) \<Rightarrow> instant \<Rightarrow> 'k engine \<Rightarrow> u64 \<times> 'k engine" where
  "elapsed_ms clock started eg = (let (now, eg1) = read_clock clock eg in (word_of_nat (now - started), eg1))"

section \<open>Finishing an attempt\<close>

record attempt_ctx =
  cx_request_id :: string
  cx_target_id :: string
  cx_provider_id :: string
  cx_account_id :: string
  cx_egress :: string
  cx_latency_ms :: u64

fun circuit_verdict :: "finish_outcome \<Rightarrow> bool option" where
  "circuit_verdict (FoOk reason cost) = Some True"
| "circuit_verdict (FoFailed c) = Some False"
| "circuit_verdict FoCancelled = None"

fun outcome_label :: "finish_outcome \<Rightarrow> bool \<times> string option" where
  "outcome_label (FoOk reason cost) = (True, None)"
| "outcome_label (FoFailed c) = (False, Some (error_class_as_str c))"
| "outcome_label FoCancelled = (False, Some ''client_aborted'')"

fun outcome_cost :: "finish_outcome \<Rightarrow> u64 option" where
  "outcome_cost (FoOk reason cost) = cost"
| "outcome_cost _ = None"

fun attempt_outcome_of :: "finish_outcome \<Rightarrow> attempt_outcome" where
  "attempt_outcome_of (FoOk reason cost) = AttemptOk reason"
| "attempt_outcome_of (FoFailed c) = AttemptFailed c"
| "attempt_outcome_of FoCancelled = AttemptCancelled"

fun attempt_error :: "attempt_outcome \<Rightarrow> error_class option" where
  "attempt_error (AttemptFailed e) = Some e"
| "attempt_error _ = None"

text \<open>\<open>u32::try_from(latency_ms).unwrap_or(u32::MAX)\<close>\<close>

definition latency_u32 :: "u64 \<Rightarrow> u32" where
  "latency_u32 ms = (if unat ms < 2 ^ 32 then word_of_nat (unat ms) else - 1)"

definition finish_attempt ::
  "(nat \<Rightarrow> instant) \<Rightarrow> scorecard_config \<Rightarrow> attempt_ctx \<Rightarrow> finish_outcome \<Rightarrow> 'k engine \<Rightarrow> 'k engine" where
  "finish_attempt clock cfg cx outcome eg =
     (let eg0 = emit (FxFinished (cx_target_id cx) (cx_account_id cx) outcome) eg;
          eg1 = (case circuit_verdict outcome of
                   Some ok \<Rightarrow>
                     let (now, eg') = read_clock clock eg0
                     in eg'\<lparr>eg_resolver := circuit_record (cx_provider_id cx) ok now (eg_resolver eg')\<rparr>
                 | None \<Rightarrow> eg0);
          (ok, error_class_str) = outcome_label outcome;
          eg2 = emit (FxPostAttempt \<lparr>ai_request_id = cx_request_id cx, ai_target_id = cx_target_id cx,
                  ai_provider_id = cx_provider_id cx, ai_account_id = cx_account_id cx, ai_egress = cx_egress cx,
                  ai_ok = ok, ai_error_class = error_class_str, ai_latency_ms = cx_latency_ms cx\<rparr>) eg1;
          attempt_outcome = attempt_outcome_of outcome;
          (now, eg3) = read_clock clock eg2;
          sample = \<lparr>sm_ts = now, sm_class = classify attempt_outcome, sm_latency_ms = latency_u32 (cx_latency_ms cx),
                    sm_cost_micros = outcome_cost outcome, sm_err = attempt_error attempt_outcome\<rparr>
      in eg3\<lparr>eg_scorecard := sc_record (cx_target_id cx) ''any'' (prior_from_config cfg) cfg sample (eg_scorecard eg3)\<rparr>)"

section \<open>Helpers\<close>

definition resolve_egress ::
  "'w provider_config list \<Rightarrow> string option \<Rightarrow> string \<Rightarrow> string \<Rightarrow> string option" where
  "resolve_egress providers default_egress provider_id account_id =
     (case find (\<lambda>p. pc_id p = provider_id) providers of
        None \<Rightarrow> default_egress
      | Some provider \<Rightarrow>
          (case (case find (\<lambda>a. acc_id a = account_id) (pc_accounts provider) of
                   Some a \<Rightarrow> acc_egress a
                 | None \<Rightarrow> None) of
             Some e \<Rightarrow> Some e
           | None \<Rightarrow> (case pc_egress provider of Some e \<Rightarrow> Some e | None \<Rightarrow> default_egress)))"

definition retryable :: "error_class \<Rightarrow> bool" where
  "retryable c \<longleftrightarrow> c \<in> {Timeout, Network, ServerError}"

record retry_config =
  rc_max_retries :: u32
  rc_base_delay_ms :: u64
  rc_max_delay_ms :: u64

definition default_retry_config :: retry_config where
  "default_retry_config = \<lparr>rc_max_retries = 0, rc_base_delay_ms = 100, rc_max_delay_ms = 2000\<rparr>"

text \<open>\<open>2u64.saturating_pow(n)\<close>\<close>

definition sat_pow2 :: "nat \<Rightarrow> u64" where
  "sat_pow2 n = (if n < 64 then word_of_nat (2 ^ n) else - 1)"

definition retry_backoff :: "retry_config \<Rightarrow> u32 \<Rightarrow> duration" where
  "retry_backoff retry attempt =
     unat (min (sat_mul (rc_base_delay_ms retry) (sat_pow2 (unat attempt - 1))) (rc_max_delay_ms retry))"

definition affinity_keys :: "string list" where
  "affinity_keys = [''session_id'', ''switchback_session_id'', ''codex_session_id'']"

definition session_affinity_key :: "'j json_api \<Rightarrow> 'j ai_request \<Rightarrow> string option" where
  "session_affinity_key js req =
     (case find_map (\<lambda>key. nonempty_str (bt_get (req_metadata req) key)) affinity_keys of
        Some v \<Rightarrow> Some v
      | None \<Rightarrow>
          (case map_of (req_passthrough req) ''metadata'' of
             None \<Rightarrow> None
           | Some v \<Rightarrow>
               (case js_as_object js v of
                  None \<Rightarrow> None
                | Some metadata \<Rightarrow>
                    find_map (\<lambda>key. nonempty_str (case map_of metadata key of
                        Some v \<Rightarrow> js_as_str js v | None \<Rightarrow> None)) affinity_keys)))"

definition high_lossiness_schema_warning :: "string list \<Rightarrow> string option" where
  "high_lossiness_schema_warning warnings =
     find_map (\<lambda>warning.
         case (case strip_prefix ''schema_downlevel:'' warning of
                 Some payload \<Rightarrow> Some payload
               | None \<Rightarrow> map_option snd (split_once '': schema_downlevel:'' warning)) of
           Some payload \<Rightarrow> if starts_with payload ''high:'' then Some warning else None
         | None \<Rightarrow> None) warnings"

section \<open>Account scopes\<close>

record tenant_config =
  tc_id :: string
  tc_allowed_routes :: "string list"
  tc_allowed_providers :: "string list"
  tc_allowed_accounts :: "string list"
  tc_budget_usd :: "f64 option"
  tc_max_concurrency :: "u32 option"

datatype client_profile_kind = CpkCodex | CpkClaudeCode

datatype client_profile_mode = CpmSwitchbackIngress | CpmNativeRelay | CpmTap | CpmScoutApi

record client_profile_config =
  cpc_id :: string
  cpc_kind :: client_profile_kind
  cpc_enabled :: bool
  cpc_mode :: client_profile_mode
  cpc_models :: "string list"
  cpc_accounts :: "string list"
  cpc_description :: "string option"

text \<open>\<open>provider/account\<close> references that name this provider.\<close>

definition accounts_for_provider :: "string list \<Rightarrow> string \<Rightarrow> string set" where
  "accounts_for_provider refs provider_id =
     set (List.map_filter (\<lambda>account_ref. case split_once ''/'' account_ref of
         None \<Rightarrow> None
       | Some (provider, account) \<Rightarrow> if provider = provider_id then Some account else None) refs)"

definition tenant_allowed_accounts :: "tenant_config \<Rightarrow> string \<Rightarrow> string set" where
  "tenant_allowed_accounts tenant provider_id = accounts_for_provider (tc_allowed_accounts tenant) provider_id"

definition profile_accounts_for_provider :: "client_profile_config \<Rightarrow> string \<Rightarrow> string set" where
  "profile_accounts_for_provider profile provider_id = accounts_for_provider (cpc_accounts profile) provider_id"

definition client_profile_allowed_accounts :: "client_profile_config option \<Rightarrow> string \<Rightarrow> string set option" where
  "client_profile_allowed_accounts profile provider_id =
     (case profile of
        None \<Rightarrow> None
      | Some p \<Rightarrow> if cpc_accounts p = [] then None else Some (profile_accounts_for_provider p provider_id))"

fun combine_allowed_accounts :: "string set option \<Rightarrow> string set option \<Rightarrow> string set option" where
  "combine_allowed_accounts None None = None"
| "combine_allowed_accounts (Some accounts) None = Some accounts"
| "combine_allowed_accounts None (Some accounts) = Some accounts"
| "combine_allowed_accounts (Some l) (Some r) = Some (l \<inter> r)"

definition request_allowed_accounts ::
  "tenant_config list \<Rightarrow> 'j ai_request \<Rightarrow> client_profile_config option \<Rightarrow> string \<Rightarrow> string set option" where
  "request_allowed_accounts tenants req profile provider_id =
     combine_allowed_accounts
       (case req_tenant req of
          None \<Rightarrow> None
        | Some tenant_id \<Rightarrow>
            (case find (\<lambda>t. tc_id t = tenant_id) tenants of
               None \<Rightarrow> None
             | Some tenant \<Rightarrow>
                 if tc_allowed_accounts tenant = [] then None
                 else Some (tenant_allowed_accounts tenant provider_id)))
       (client_profile_allowed_accounts profile provider_id)"

section \<open>Committed errors\<close>

record exec_error =
  xe_status :: u16
  xe_error_type :: string
  xe_message :: string
  xe_summary :: "string option"
  xe_retry_after :: "duration option"

definition new_exec_error :: "u16 \<Rightarrow> string \<Rightarrow> string \<Rightarrow> string option \<Rightarrow> exec_error" where
  "new_exec_error status error_type message summary =
     \<lparr>xe_status = status, xe_error_type = error_type, xe_message = message, xe_summary = summary,
      xe_retry_after = None\<rparr>"

definition with_retry_after :: "duration \<Rightarrow> exec_error \<Rightarrow> exec_error" where
  "with_retry_after d e = e\<lparr>xe_retry_after := Some d\<rparr>"

definition upstream_error :: "adapter_error \<Rightarrow> string \<Rightarrow> exec_error" where
  "upstream_error error summary =
     \<lparr>xe_status = http_status (ae_class error), xe_error_type = ''upstream_error'', xe_message = ae_message error,
      xe_summary = Some summary, xe_retry_after = None\<rparr>"

end
