(* ===== verification/Catalog.thy ===== *)
theory Catalog
  imports Exec_Target Ordered_Map
begin

text \<open>
  The typed catalog of \<open>sb-core/src/catalog.rs\<close>: providers, models, accounts, credentials and
  the price ledger, its referential check and the two ways of reading a price. Instants are the
  RFC 3339 strings of the source, compared byte by byte.
\<close>

section \<open>Entities\<close>

datatype api_kind = ApiOpenAiCompatible | ApiAnthropic | ApiGemini | ApiMock

fun api_default_capabilities :: "api_kind \<Rightarrow> capability_profile" where
  "api_default_capabilities ApiMock = default_capabilities"
| "api_default_capabilities ApiOpenAiCompatible =
     default_capabilities\<lparr>cap_json_schema := True, cap_parallel_tool_calls := True\<rparr>"
| "api_default_capabilities ApiAnthropic = default_capabilities\<lparr>cap_json_schema := True, cap_vision_in := True\<rparr>"
| "api_default_capabilities ApiGemini = default_capabilities\<lparr>cap_json_schema := True, cap_vision_in := True\<rparr>"

datatype entity_status = EntityActive | EntityDisabled | EntityDeprecated

record provider =
  pv_id :: string
  pv_tenant_id :: u64
  pv_name :: string
  pv_api_kind :: api_kind
  pv_base_url :: "string option"
  pv_status :: entity_status

datatype modality = TextIn | TextOut | VisionIn | AudioIn | ImageOut | Embeddings

record catalog_model =
  md_id :: string
  md_tenant_id :: u64
  md_provider_id :: string
  md_display_name :: "string option"
  md_context_window :: "u32 option"
  md_modalities :: "modality list"
  md_capabilities :: capability_profile
  md_tags :: "string list"
  md_status :: entity_status
  md_deprecated_at :: "string option"

definition model_capability_profile :: "catalog_model \<Rightarrow> capability_profile" where
  "model_capability_profile m =
     (let caps = md_capabilities m;
          caps1 = (case md_context_window m of
                     Some context \<Rightarrow> caps\<lparr>cap_max_context_tokens := Some context\<rparr>
                   | None \<Rightarrow> caps)
      in if md_modalities m \<noteq> [] then caps1\<lparr>cap_vision_in := VisionIn \<in> set (md_modalities m)\<rparr> else caps1)"

record catalog_account =
  ca_id :: string
  ca_tenant_id :: u64
  ca_provider_id :: string
  ca_owner_id :: "string option"
  ca_display_name :: "string option"
  ca_priority :: int
  ca_active :: bool

datatype credential_kind = CredApiKey | CredOauth | CredNone

record credential =
  cr_id :: string
  cr_tenant_id :: u64
  cr_account_id :: string
  cr_kind :: credential_kind
  cr_source_ref :: "string option"
  cr_expires_at :: "string option"

datatype token_kind = TokenInput | TokenOutput | TokenCachedInput | TokenReasoning

record price =
  pr_tenant_id :: u64
  pr_model_id :: string
  pr_token_kind :: token_kind
  pr_unit_price_micros_per_mtok :: u64
  pr_effective_from :: string
  pr_effective_to :: "string option"

record catalog =
  ct_providers :: "provider list"
  ct_models :: "catalog_model list"
  ct_accounts :: "catalog_account list"
  ct_credentials :: "credential list"
  ct_prices :: "price list"

section \<open>Lookups\<close>

definition catalog_provider :: "catalog \<Rightarrow> string \<Rightarrow> provider option" where
  "catalog_provider c i = find (\<lambda>p. pv_id p = i) (ct_providers c)"

definition catalog_model_of :: "catalog \<Rightarrow> string \<Rightarrow> catalog_model option" where
  "catalog_model_of c i = find (\<lambda>m. md_id m = i) (ct_models c)"

definition models_for_provider :: "catalog \<Rightarrow> string \<Rightarrow> catalog_model list" where
  "models_for_provider c i = filter (\<lambda>m. md_provider_id m = i) (ct_models c)"

definition catalog_accounts_for_provider :: "catalog \<Rightarrow> string \<Rightarrow> catalog_account list" where
  "catalog_accounts_for_provider c i = filter (\<lambda>a. ca_provider_id a = i) (ct_accounts c)"

definition credentials_for_account :: "catalog \<Rightarrow> string \<Rightarrow> credential list" where
  "credentials_for_account c i = filter (\<lambda>k. cr_account_id k = i) (ct_credentials c)"

section \<open>Prices\<close>

text \<open>\<open>Iterator::max_by\<close> on the start of validity: the last of the latest rows.\<close>

fun latest_price :: "price list \<Rightarrow> price option" where
  "latest_price [] = None"
| "latest_price (p # ps) =
     (case latest_price ps of
        None \<Rightarrow> Some p
      | Some q \<Rightarrow> if pr_effective_from p \<le> pr_effective_from q then Some q else Some p)"

definition effective_price :: "catalog \<Rightarrow> string \<Rightarrow> token_kind \<Rightarrow> string \<Rightarrow> price option" where
  "effective_price c model_id kind t =
     latest_price
       (filter (\<lambda>p. case pr_effective_to p of Some until \<Rightarrow> t < until | None \<Rightarrow> True)
         (filter (\<lambda>p. pr_effective_from p \<le> t)
           (filter (\<lambda>p. pr_model_id p = model_id \<and> pr_token_kind p = kind) (ct_prices c))))"

definition current_price :: "catalog \<Rightarrow> string \<Rightarrow> token_kind \<Rightarrow> price option" where
  "current_price c model_id kind =
     latest_price
       (filter (\<lambda>p. pr_model_id p = model_id \<and> pr_token_kind p = kind \<and> pr_effective_to p = None) (ct_prices c))"

section \<open>Referential integrity\<close>

definition unknown_provider :: "catalog \<Rightarrow> string \<Rightarrow> bool" where
  "unknown_provider c i \<longleftrightarrow> \<not> list_ex (\<lambda>p. pv_id p = i) (ct_providers c)"

fun price_problems :: "catalog \<Rightarrow> nat \<Rightarrow> price list \<Rightarrow> string list" where
  "price_problems c i [] = []"
| "price_problems c i (p # ps) =
     (if list_ex (\<lambda>m. md_id m = pr_model_id p) (ct_models c) then []
      else [''price['' @ show_nat i @ ''] -> unknown model `'' @ pr_model_id p @ ''`'']) @ price_problems c (Suc i) ps"

definition catalog_validate :: "catalog \<Rightarrow> string list" where
  "catalog_validate c =
     map (\<lambda>m. ''model `'' @ md_id m @ ''` -> unknown provider `'' @ md_provider_id m @ ''`'')
       (filter (\<lambda>m. unknown_provider c (md_provider_id m)) (ct_models c))
     @ map (\<lambda>a. ''account `'' @ ca_id a @ ''` -> unknown provider `'' @ ca_provider_id a @ ''`'')
         (filter (\<lambda>a. unknown_provider c (ca_provider_id a)) (ct_accounts c))
     @ map (\<lambda>k. ''credential `'' @ cr_id k @ ''` -> unknown account `'' @ cr_account_id k @ ''`'')
         (filter (\<lambda>k. \<not> list_ex (\<lambda>a. ca_id a = cr_account_id k) (ct_accounts c)) (ct_credentials c))
     @ price_problems c 0 (ct_prices c)"

section \<open>Facts\<close>

lemma latest_price_None [simp]: "latest_price ps = None \<longleftrightarrow> ps = []"
  by (cases ps) (auto split: option.splits)

lemma latest_price_max:
  "latest_price ps = Some p \<Longrightarrow> p \<in> set ps \<and> (\<forall>q \<in> set ps. pr_effective_from q \<le> pr_effective_from p)"
  by (induction ps arbitrary: p) (auto split: option.splits if_splits)

text \<open>
  The price a request is billed at is the price an audit finds. Once no row of the model and
  token kind starts later and every closed row has ended, the price of the ledger's history at
  that moment is the current price.
\<close>

theorem current_price_is_effective:
  assumes "list_all (\<lambda>p. pr_model_id p = model_id \<and> pr_token_kind p = kind \<longrightarrow>
      pr_effective_from p \<le> t \<and> (case pr_effective_to p of Some until \<Rightarrow> until \<le> t | None \<Rightarrow> True)) (ct_prices c)"
  shows "effective_price c model_id kind t = current_price c model_id kind"
  unfolding effective_price_def current_price_def filter_filter
  by (rule arg_cong [where f = latest_price], rule filter_cong [OF refl])
    (use assms in \<open>auto simp: list_all_iff split: option.split\<close>)

text \<open>
  What \<open>effective_price\<close> answers: a row of the ledger that is valid at the moment, such that
  no valid row starts later; nothing only if no row is valid.
\<close>

definition valid_row :: "string \<Rightarrow> token_kind \<Rightarrow> string \<Rightarrow> price \<Rightarrow> bool" where
  "valid_row model_id kind t p \<longleftrightarrow> pr_model_id p = model_id \<and> pr_token_kind p = kind \<and> pr_effective_from p \<le> t
     \<and> (case pr_effective_to p of Some until \<Rightarrow> t < until | None \<Rightarrow> True)"

theorem effective_price_spec:
  "case effective_price c model_id kind t of
     Some p \<Rightarrow> p \<in> set (ct_prices c) \<and> valid_row model_id kind t p
       \<and> list_all (\<lambda>q. valid_row model_id kind t q \<longrightarrow> pr_effective_from q \<le> pr_effective_from p) (ct_prices c)
   | None \<Rightarrow> list_all (\<lambda>q. \<not> valid_row model_id kind t q) (ct_prices c)"
proof -
  let ?rows = "filter (valid_row model_id kind t) (ct_prices c)"
  have "effective_price c model_id kind t = latest_price ?rows"
    unfolding effective_price_def filter_filter
    by (rule arg_cong [where f = latest_price], rule filter_cong [OF refl]) (auto simp: valid_row_def split: option.split)
  then show ?thesis
    using latest_price_max [of ?rows]
    by (cases "latest_price ?rows") (simp_all add: list_all_iff filter_empty_conv)
qed

lemma price_problems_empty:
  "price_problems c i ps = [] \<longleftrightarrow> list_all (\<lambda>p. list_ex (\<lambda>m. md_id m = pr_model_id p) (ct_models c)) ps"
  by (induction ps arbitrary: i) auto

text \<open>The check reports nothing exactly when every reference of the catalog resolves.\<close>

theorem catalog_validate_clean:
  "catalog_validate c = [] \<longleftrightarrow>
     list_all (\<lambda>m. catalog_provider c (md_provider_id m) \<noteq> None) (ct_models c)
     \<and> list_all (\<lambda>a. catalog_provider c (ca_provider_id a) \<noteq> None) (ct_accounts c)
     \<and> list_all (\<lambda>k. list_ex (\<lambda>a. ca_id a = cr_account_id k) (ct_accounts c)) (ct_credentials c)
     \<and> list_all (\<lambda>p. catalog_model_of c (pr_model_id p) \<noteq> None) (ct_prices c)"
proof -
  have ex: "list_ex P xs \<longleftrightarrow> find P xs \<noteq> None" for P and xs :: "'a list"
    by (auto simp: list_ex_iff find_None_iff)
  show ?thesis
    by (auto simp: catalog_validate_def price_problems_empty filter_empty_conv list_all_iff ex unknown_provider_def
        catalog_provider_def catalog_model_of_def)
qed

section \<open>Witness\<close>

definition price_row :: "u64 \<Rightarrow> string \<Rightarrow> string option \<Rightarrow> price" where
  "price_row micros from' until = \<lparr>pr_tenant_id = 1, pr_model_id = ''m'', pr_token_kind = TokenInput,
     pr_unit_price_micros_per_mtok = micros, pr_effective_from = from', pr_effective_to = until\<rparr>"

definition two_prices :: catalog where
  "two_prices = \<lparr>ct_providers = [], ct_models = [], ct_accounts = [], ct_credentials = [],
     ct_prices = [price_row 5 ''2024'' (Some ''2025''), price_row 3 ''2025'' None]\<rparr>"

theorem current_price_is_effective_witness:
  "effective_price two_prices ''m'' TokenInput ''2026'' = Some (price_row 3 ''2025'' None)"
proof -
  have "effective_price two_prices ''m'' TokenInput ''2026'' = current_price two_prices ''m'' TokenInput"
    by (rule current_price_is_effective) (simp add: two_prices_def price_row_def less_eq_list_code Char_ord.less_eq_char_simp)
  also have "\<dots> = Some (price_row 3 ''2025'' None)"
    by (simp add: current_price_def two_prices_def price_row_def)
  finally show ?thesis .
qed

end
