(* ===== verification/Registry.thy ===== *)
theory Registry
  imports Catalog Provider_Config Stream_Events Availability
begin

text \<open>
  The adapter registry (\<open>sb-adapters/src/registry.rs\<close>) without its HTTP clients: the
  capabilities a configured provider declares, the price index of the cost map, the latency
  averages (\<open>latency.rs\<close>), the targets built from them, and the one cost function that the
  router, the ledger and the traces share.
\<close>

section \<open>Latency averages\<close>

definition ewma_alpha :: f64 where
  "ewma_alpha = f64_lit (3 / 10)"

record latency_tracker =
  la_ewma_ms :: "string \<rightharpoonup> f64"
  la_ttft_ms :: "string \<rightharpoonup> f64"

definition new_latency_tracker :: latency_tracker where
  "new_latency_tracker = \<lparr>la_ewma_ms = Map.empty, la_ttft_ms = Map.empty\<rparr>"

definition target_key :: "string \<Rightarrow> string \<Rightarrow> string" where
  "target_key provider_id model = provider_id @ ''/'' @ model"

definition ewma_fold :: "string \<Rightarrow> string \<Rightarrow> f64 \<Rightarrow> (string \<rightharpoonup> f64) \<Rightarrow> (string \<rightharpoonup> f64)" where
  "ewma_fold provider_id model smp m =
     (let key = target_key provider_id model;
          entry = (case m key of Some v \<Rightarrow> v | None \<Rightarrow> smp)
      in m(key \<mapsto> f64_add (f64_mul ewma_alpha smp) (f64_mul (f64_sub (FFin 1) ewma_alpha) entry)))"

definition record_latency :: "string \<Rightarrow> string \<Rightarrow> f64 \<Rightarrow> latency_tracker \<Rightarrow> latency_tracker" where
  "record_latency provider_id model latency_ms t =
     t\<lparr>la_ewma_ms := ewma_fold provider_id model latency_ms (la_ewma_ms t)\<rparr>"

definition record_ttft :: "string \<Rightarrow> string \<Rightarrow> f64 \<Rightarrow> latency_tracker \<Rightarrow> latency_tracker" where
  "record_ttft provider_id model ttft_ms t =
     t\<lparr>la_ttft_ms := ewma_fold provider_id model ttft_ms (la_ttft_ms t)\<rparr>"

definition latency_get :: "latency_tracker \<Rightarrow> string \<Rightarrow> string \<Rightarrow> f64 option" where
  "latency_get t provider_id model = la_ewma_ms t (target_key provider_id model)"

definition ttft_get :: "latency_tracker \<Rightarrow> string \<Rightarrow> string \<Rightarrow> f64 option" where
  "ttft_get t provider_id model = la_ttft_ms t (target_key provider_id model)"

section \<open>The cost map\<close>

datatype pricing_unit = PerImage | PerMegapixel | PerSecond | PerVideo | TokenMetered | Credits | Quota

fun pricing_unit_debug :: "pricing_unit \<Rightarrow> string" where
  "pricing_unit_debug PerImage = ''PerImage''"
| "pricing_unit_debug PerMegapixel = ''PerMegapixel''"
| "pricing_unit_debug PerSecond = ''PerSecond''"
| "pricing_unit_debug PerVideo = ''PerVideo''"
| "pricing_unit_debug TokenMetered = ''TokenMetered''"
| "pricing_unit_debug Credits = ''Credits''"
| "pricing_unit_debug Quota = ''Quota''"

record unit_price =
  up_pricing_unit :: pricing_unit
  up_unit_price_micros :: u64

record cost_entry =
  ce_cost :: "cost_profile option"
  ce_unit_price :: "unit_price option"
  ce_tags :: "string list"

record cost_map_entry =
  cme_provider_id :: string
  cme_model_id :: string
  cme_input_micros_per_mtok :: "u64 option"
  cme_output_micros_per_mtok :: "u64 option"
  cme_pricing_unit :: pricing_unit
  cme_unit_price_micros :: "u64 option"
  cme_effective_to :: "string option"

record cost_map_host =
  cmh_provider_id :: string
  cmh_input_micros_per_mtok :: "u64 option"
  cmh_output_micros_per_mtok :: "u64 option"
  cmh_note :: "string option"

record cost_map_file =
  cmf_schema :: "string option"
  cmf_providers :: "(string \<times> bool) list"
  cmf_models :: "cost_map_entry list"
  cmf_spread :: "(string \<times> cost_map_host list) list"

definition policy_tags :: "u64 \<Rightarrow> u64 \<Rightarrow> bool \<Rightarrow> bool \<Rightarrow> string list" where
  "policy_tags inp outp promo aggregator =
     (if inp = 0 \<and> outp = 0 then [''free''] else []) @ (if promo then [''promo''] else [])
     @ (if aggregator then [''aggregator''] else [])"

definition to_usd :: "u64 \<Rightarrow> f64" where
  "to_usd micros = f64_div (nat_as_f64 (unat micros)) (FFin 1000000)"

definition token_entry :: "u64 \<Rightarrow> u64 \<Rightarrow> bool \<Rightarrow> bool \<Rightarrow> cost_entry" where
  "token_entry inp outp promo aggregator =
     \<lparr>ce_cost = Some \<lparr>input_per_mtok = to_usd inp, output_per_mtok = to_usd outp\<rparr>, ce_unit_price = None,
      ce_tags = policy_tags inp outp promo aggregator\<rparr>"

definition is_aggregator :: "cost_map_file \<Rightarrow> string \<Rightarrow> bool" where
  "is_aggregator f provider_id \<longleftrightarrow> (provider_id, True) \<in> set (cmf_providers f)"

text \<open>The rows of \<open>models\<close>: a later row replaces an earlier one; a unit-priced row needs its price.\<close>

fun index_models ::
  "string \<Rightarrow> cost_map_file \<Rightarrow> cost_map_entry list \<Rightarrow> (string \<rightharpoonup> cost_entry) \<Rightarrow> string + (string \<rightharpoonup> cost_entry)" where
  "index_models path f [] index = Inr index"
| "index_models path f (e # es) index =
     (let key = target_key (cme_provider_id e) (cme_model_id e);
          promo = cme_effective_to e \<noteq> None;
          aggregator = is_aggregator f (cme_provider_id e)
      in case (cme_input_micros_per_mtok e, cme_output_micros_per_mtok e) of
           (Some inp, Some outp) \<Rightarrow> index_models path f es (index(key \<mapsto> token_entry inp outp promo aggregator))
         | _ \<Rightarrow>
             if cme_pricing_unit e = TokenMetered then index_models path f es index
             else case cme_unit_price_micros e of
                    None \<Rightarrow> Inl (''cost_map `'' @ path @ ''` row '' @ key @ '' uses ''
                              @ pricing_unit_debug (cme_pricing_unit e) @ '' without unit_price_micros'')
                  | Some micros \<Rightarrow> index_models path f es (index(key \<mapsto>
                      \<lparr>ce_cost = None,
                       ce_unit_price = Some \<lparr>up_pricing_unit = cme_pricing_unit e, up_unit_price_micros = micros\<rparr>,
                       ce_tags = policy_tags micros micros promo aggregator\<rparr>)))"

text \<open>The rows of \<open>spread\<close> fill in what \<open>models\<close> left open.\<close>

definition index_host :: "cost_map_file \<Rightarrow> string \<Rightarrow> cost_map_host \<Rightarrow> (string \<rightharpoonup> cost_entry) \<Rightarrow> (string \<rightharpoonup> cost_entry)" where
  "index_host f model host index =
     (case (cmh_input_micros_per_mtok host, cmh_output_micros_per_mtok host) of
        (Some inp, Some outp) \<Rightarrow>
          let key = target_key (cmh_provider_id host) model;
              promo = (case cmh_note host of Some n \<Rightarrow> str_contains (to_ascii_lowercase n) ''promo'' | None \<Rightarrow> False)
          in if index key = None
             then index(key \<mapsto> token_entry inp outp promo (is_aggregator f (cmh_provider_id host)))
             else index
      | _ \<Rightarrow> index)"

definition index_spread :: "cost_map_file \<Rightarrow> (string \<rightharpoonup> cost_entry) \<Rightarrow> (string \<rightharpoonup> cost_entry)" where
  "index_spread f = fold (\<lambda>(model, hosts). fold (index_host f model) hosts) (cmf_spread f)"

definition load_cost_index :: "string \<Rightarrow> cost_map_file \<Rightarrow> string + (string \<rightharpoonup> cost_entry)" where
  "load_cost_index path f =
     (case cmf_schema f of
        Some schema \<Rightarrow>
          if schema \<in> {''switchback/provider-registry@2'', ''switchback/provider-registry@3''}
          then try_with (index_models path f (cmf_models f) Map.empty) (\<lambda>index. Inr (index_spread f index))
          else Inl (''unsupported cost_map schema `'' @ schema @ ''` in `'' @ path
                 @ ''`; expected switchback/provider-registry@2 or @3'')
      | None \<Rightarrow> try_with (index_models path f (cmf_models f) Map.empty) (\<lambda>index. Inr (index_spread f index)))"

section \<open>Capabilities of a configured provider\<close>

fun api_kind_of :: "'w provider_kind \<Rightarrow> api_kind" where
  "api_kind_of (KindOpenaiCompatible url env key scheme wire) = ApiOpenAiCompatible"
| "api_kind_of (KindCodexNativeRelay url) = ApiOpenAiCompatible"
| "api_kind_of (KindAnthropic url env key scheme) = ApiAnthropic"
| "api_kind_of (KindBedrock region access secret session url) = ApiAnthropic"
| "api_kind_of (KindClaudeCodeNativeRelay url) = ApiAnthropic"
| "api_kind_of (KindGemini url env key) = ApiGemini"
| "api_kind_of (KindVertex project region url env key) = ApiGemini"
| "api_kind_of _ = ApiMock"

fun relay_capabilities :: "'w provider_kind \<Rightarrow> capability_profile \<Rightarrow> capability_profile" where
  "relay_capabilities (KindCodexNativeRelay url) caps =
     caps\<lparr>cap_vision_in := True, cap_server_tools := True,
       cap_server_tool_protocols := cap_server_tool_protocols caps @ [OpenAiResponses, AnthropicProtocol],
       cap_image_out := True, cap_reasoning_summary := True\<rparr>"
| "relay_capabilities (KindClaudeCodeNativeRelay url) caps =
     caps\<lparr>cap_vision_in := True, cap_server_tools := True,
       cap_server_tool_protocols := cap_server_tool_protocols caps @ [AnthropicProtocol], cap_reasoning_summary := True\<rparr>"
| "relay_capabilities (KindAnthropic url env key scheme) caps =
     caps\<lparr>cap_server_tools := True, cap_server_tool_protocols := cap_server_tool_protocols caps @ [AnthropicProtocol],
       cap_reasoning_summary := True\<rparr>"
| "relay_capabilities _ caps = caps"

definition mock_capabilities :: capability_profile where
  "mock_capabilities =
     default_capabilities\<lparr>cap_vision_in := True, cap_parallel_tool_calls := True, cap_json_schema := True\<rparr>"

text \<open>
  What the adapter of a provider answers for its capabilities: a composed adapter those it was
  built with, the mock its own; media providers get no adapter.
\<close>

record provider_entry =
  pe_capabilities :: capability_profile
  pe_kind :: execution_target_kind

definition provider_entry_of :: "'w provider_config \<Rightarrow> provider_entry option" where
  "provider_entry_of p =
     (let caps = overrides_apply_to (pc_capabilities p)
                   (relay_capabilities (pc_kind p) (api_default_capabilities (api_kind_of (pc_kind p))))
      in case pc_kind p of
           KindMock \<Rightarrow> Some \<lparr>pe_capabilities = mock_capabilities, pe_kind = ModelApi\<rparr>
         | KindComfyUi url workflows \<Rightarrow> None
         | KindFal url platform env key threshold \<Rightarrow> None
         | KindOpenaiCompatible url env key scheme wire \<Rightarrow>
             Some \<lparr>pe_capabilities = caps, pe_kind = OpenAiCompatibleApi\<rparr>
         | _ \<Rightarrow> Some \<lparr>pe_capabilities = caps, pe_kind = ModelApi\<rparr>)"

record registry =
  rg_providers :: "string \<rightharpoonup> provider_entry"
  rg_order :: "string list"
  rg_catalog :: catalog
  rg_cost_index :: "string \<rightharpoonup> cost_entry"
  rg_latency :: latency_tracker

fun register_providers ::
  "'w provider_config list \<Rightarrow> (string \<rightharpoonup> provider_entry) \<Rightarrow> string list
    \<Rightarrow> string + (string \<rightharpoonup> provider_entry) \<times> string list" where
  "register_providers [] entries order = Inr (entries, order)"
| "register_providers (p # ps) entries order =
     (if entries (pc_id p) \<noteq> None then Inl (''duplicate provider id '' @ pc_id p)
      else case provider_entry_of p of
             None \<Rightarrow> register_providers ps entries order
           | Some e \<Rightarrow> register_providers ps (entries(pc_id p \<mapsto> e)) (order @ [pc_id p]))"

definition empty_catalog :: catalog where
  "empty_catalog = \<lparr>ct_providers = [], ct_models = [], ct_accounts = [], ct_credentials = [], ct_prices = []\<rparr>"

text \<open>
  \<open>egress\<close> is the result of \<open>EgressPool::from_config\<close> on the same configuration, whose error ends the
  construction; the pool itself goes to the adapters. \<open>cost_map\<close> is the cost map as parsed from its
  file, if one is configured.
\<close>

definition registry_from_config ::
  "string + 'p \<Rightarrow> 'w provider_config list \<Rightarrow> catalog option \<Rightarrow> (string \<times> (string + cost_map_file)) option \<Rightarrow> string + registry" where
  "registry_from_config egress providers cat cost_map =
     try_with egress
       (\<lambda>pool. try_with (case cost_map of
           None \<Rightarrow> Inr Map.empty
         | Some (path, parsed) \<Rightarrow> try_with parsed (load_cost_index path))
         (\<lambda>index. try_with (register_providers providers Map.empty [])
           (\<lambda>(entries, order). Inr \<lparr>rg_providers = entries, rg_order = order,
              rg_catalog = (case cat of Some c \<Rightarrow> c | None \<Rightarrow> empty_catalog), rg_cost_index = index,
              rg_latency = new_latency_tracker\<rparr>)))"

section \<open>Targets\<close>

definition target_for_provider_model :: "registry \<Rightarrow> string \<Rightarrow> string \<Rightarrow> execution_target option" where
  "target_for_provider_model rg provider_id model =
     (case rg_providers rg provider_id of
        None \<Rightarrow> None
      | Some entry \<Rightarrow>
          let catalog_model = find (\<lambda>m. md_id m = model \<and> md_provider_id m = provider_id) (ct_models (rg_catalog rg));
              key = target_key provider_id model
          in Some \<lparr>et_id = key, et_kind = pe_kind entry, et_provider_id = provider_id, et_model = model,
               et_capabilities = (case catalog_model of Some m \<Rightarrow> model_capability_profile m | None \<Rightarrow> pe_capabilities entry),
               et_cost = (case rg_cost_index rg key of Some e \<Rightarrow> ce_cost e | None \<Rightarrow> None),
               et_latency_ewma_ms = latency_get (rg_latency rg) provider_id model,
               et_ttft_ewma_ms = ttft_get (rg_latency rg) provider_id model,
               et_policy_tags = (case rg_cost_index rg key of Some e \<Rightarrow> ce_tags e | None \<Rightarrow> []),
               et_task_tags = (case catalog_model of Some m \<Rightarrow> md_tags m | None \<Rightarrow> []),
               et_health = HealthHealthy, et_healthy_accounts = None, et_unverified = False, et_outcome = None,
               et_quality = None\<rparr>)"

definition target_for :: "registry \<Rightarrow> string \<Rightarrow> execution_target option" where
  "target_for rg target_id =
     (case split_once ''/'' target_id of
        None \<Rightarrow> None
      | Some (provider_id, model) \<Rightarrow> target_for_provider_model rg provider_id model)"

section \<open>Costs\<close>

definition catalog_cost :: "catalog \<Rightarrow> string \<Rightarrow> token_kind \<Rightarrow> u64 \<Rightarrow> u64" where
  "catalog_cost c model kind tokens =
     (case current_price c model kind of
        Some p \<Rightarrow> sat_mul (pr_unit_price_micros_per_mtok p) tokens div 1000000
      | None \<Rightarrow> 0)"

definition index_cost :: "cost_profile \<Rightarrow> usage \<Rightarrow> u64" where
  "index_cost cost u =
     (let inp = f64_mul (nat_as_f64 (unat (us_input_tokens u + us_cached_input_tokens u))) (input_per_mtok cost);
          outp = f64_mul (nat_as_f64 (unat (us_output_tokens u + us_reasoning_tokens u))) (output_per_mtok cost)
      in f64_as_u64 (flt_max (f64_round (f64_add inp outp)) (FFin 0)))"

definition cost_micros :: "registry \<Rightarrow> string \<Rightarrow> string \<Rightarrow> usage \<Rightarrow> u64" where
  "cost_micros rg provider_id model u =
     (case (case rg_cost_index rg (target_key provider_id model) of Some e \<Rightarrow> ce_cost e | None \<Rightarrow> None) of
        Some cost \<Rightarrow> index_cost cost u
      | None \<Rightarrow>
          let per = catalog_cost (rg_catalog rg) model
          in sat_add (sat_add (sat_add (per TokenInput (us_input_tokens u)) (per TokenOutput (us_output_tokens u)))
               (per TokenCachedInput (us_cached_input_tokens u))) (per TokenReasoning (us_reasoning_tokens u)))"

definition cache_savings_micros :: "registry \<Rightarrow> string \<Rightarrow> string \<Rightarrow> usage \<Rightarrow> u64" where
  "cache_savings_micros rg provider_id model u =
     (if (case rg_cost_index rg (target_key provider_id model) of Some e \<Rightarrow> ce_cost e \<noteq> None | None \<Rightarrow> False) then 0
      else if us_cached_input_tokens u = 0 then 0
      else let rate = (\<lambda>kind. map_option pr_unit_price_micros_per_mtok (current_price (rg_catalog rg) model kind))
           in case (rate TokenInput, rate TokenCachedInput) of
                (Some inp, Some cached_rate) \<Rightarrow>
                  if cached_rate < inp then sat_mul (inp - cached_rate) (us_cached_input_tokens u) div 1000000 else 0
              | _ \<Rightarrow> 0)"

definition registry_cost_profile :: "registry \<Rightarrow> string \<Rightarrow> string \<Rightarrow> cost_profile option" where
  "registry_cost_profile rg provider_id model =
     (case rg_cost_index rg (target_key provider_id model) of
        Some e \<Rightarrow> ce_cost e
      | None \<Rightarrow>
          if \<not> list_ex (\<lambda>m. md_provider_id m = provider_id \<and> md_id m = model) (ct_models (rg_catalog rg)) then None
          else case (current_price (rg_catalog rg) model TokenInput, current_price (rg_catalog rg) model TokenOutput) of
                 (Some inp, Some outp) \<Rightarrow>
                   Some \<lparr>input_per_mtok = to_usd (pr_unit_price_micros_per_mtok inp),
                         output_per_mtok = to_usd (pr_unit_price_micros_per_mtok outp)\<rparr>
               | _ \<Rightarrow> None)"

definition registry_unit_price :: "registry \<Rightarrow> string \<Rightarrow> string \<Rightarrow> unit_price option" where
  "registry_unit_price rg provider_id model =
     (case rg_cost_index rg (target_key provider_id model) of Some e \<Rightarrow> ce_unit_price e | None \<Rightarrow> None)"

end
