(* ===== verification/Profiles.thy ===== *)
theory Profiles
  imports Attempt Registry Router
begin

text \<open>
  From the requested model to a plan (\<open>sb-runtime/src/profiles.rs\<close>): the client profile of a
  request, the candidates a model resolves to, the tenant's and the client profile's scopes on
  them, the combo rotation, and the call of the router. The lookups of routes, combos and
  tenants are those of \<open>Config\<close>.
\<close>

section \<open>Configuration\<close>

record route_config =
  rt_name :: string
  rt_match_model :: "string option"
  rt_require :: route_require
  rt_targets :: "string list"

datatype combo_strategy = ComboFallback | ComboRoundRobin

fun combo_strategy_as_str :: "combo_strategy \<Rightarrow> string" where
  "combo_strategy_as_str ComboFallback = ''fallback''"
| "combo_strategy_as_str ComboRoundRobin = ''round_robin''"

record combo_config =
  cm_strategy :: combo_strategy
  cm_require :: route_require
  cm_models :: "string list"

text \<open>
  The pinned snapshot, as far as routing reads it; \<open>sn_evaluator_id\<close> is the digest that
  identifies the quality evaluator of the configured targets.
\<close>

record snapshot =
  sn_routes :: "route_config list"
  sn_combos :: "(string, combo_config) btree_map"
  sn_tenants :: "tenant_config list"
  sn_client_profiles :: "client_profile_config list"
  sn_default_provider :: "string option"
  sn_registry :: registry
  sn_cost_aware :: bool
  sn_latency_aware :: bool
  sn_cost_max_per_mtok :: "f64 option"
  sn_cost_allow_free :: bool
  sn_cost_allow_promo :: bool
  sn_cost_allow_aggregator :: bool
  sn_vision_degrade :: bool
  sn_cost_unknown :: unknown_cost_policy
  sn_context_unknown :: unknown_context_policy
  sn_scorecard :: scorecard_config
  sn_quality_eval :: quality_eval_config
  sn_evaluator_id :: "string list \<Rightarrow> string"

definition config_tenant :: "snapshot \<Rightarrow> string \<Rightarrow> tenant_config option" where
  "config_tenant snap i = find (\<lambda>t. tc_id t = i) (sn_tenants snap)"

definition exact_route_for :: "snapshot \<Rightarrow> string \<Rightarrow> route_config option" where
  "exact_route_for snap model = find (\<lambda>r. rt_match_model r = Some model) (sn_routes snap)"

definition wildcard_route :: "snapshot \<Rightarrow> route_config option" where
  "wildcard_route snap = find (\<lambda>r. rt_match_model r = Some ''*'') (sn_routes snap)"

definition combo_for :: "snapshot \<Rightarrow> string \<Rightarrow> combo_config option" where
  "combo_for snap model = bt_get (sn_combos snap) model"

definition route_for :: "snapshot \<Rightarrow> string \<Rightarrow> route_config option" where
  "route_for snap model = or_else (exact_route_for snap model) (wildcard_route snap)"

fun client_profile_protocol :: "client_profile_kind \<Rightarrow> string" where
  "client_profile_protocol CpkCodex = ''openai_responses''"
| "client_profile_protocol CpkClaudeCode = ''anthropic_messages''"

fun client_profile_mode_as_str :: "client_profile_mode \<Rightarrow> string" where
  "client_profile_mode_as_str CpmSwitchbackIngress = ''switchback_ingress''"
| "client_profile_mode_as_str CpmNativeRelay = ''native_relay''"
| "client_profile_mode_as_str CpmTap = ''tap''"
| "client_profile_mode_as_str CpmScoutApi = ''scout_api''"

section \<open>Policy\<close>

definition routing_policy_for :: "snapshot \<Rightarrow> execution_profile option \<Rightarrow> routing_policy" where
  "routing_policy_for snap profile =
     (let policy = \<lparr>pol_profile = profile, pol_scoring = None, pol_cost_aware = sn_cost_aware snap,
            pol_max_price_per_mtok = sn_cost_max_per_mtok snap, pol_latency_aware = sn_latency_aware snap,
            pol_allow_free = sn_cost_allow_free snap, pol_allow_promo = sn_cost_allow_promo snap,
            pol_allow_aggregator = sn_cost_allow_aggregator snap, pol_enforce_lane_policy = False,
            pol_vision_degrade = sn_vision_degrade snap, pol_unknown_cost = sn_cost_unknown snap,
            pol_unknown_context = sn_context_unknown snap, pol_scorecard = sn_scorecard snap,
            pol_quality_eval = sn_quality_eval snap\<rparr>
      in case profile of
           Some ProfileAuto \<Rightarrow> policy\<lparr>pol_scoring := Some scoring_balanced\<rparr>
         | Some ProfileCheap \<Rightarrow>
             policy\<lparr>pol_scoring := Some scoring_cheap, pol_cost_aware := True, pol_latency_aware := False\<rparr>
         | Some ProfileFast \<Rightarrow>
             policy\<lparr>pol_scoring := Some scoring_fast, pol_cost_aware := False, pol_latency_aware := True\<rparr>
         | Some ProfileCoding \<Rightarrow> policy\<lparr>pol_scoring := Some scoring_coding\<rparr>
         | Some ProfilePrivate \<Rightarrow>
             policy\<lparr>pol_allow_free := False, pol_allow_promo := False, pol_allow_aggregator := False,
               pol_enforce_lane_policy := True\<rparr>
         | Some ProfileLargeContext \<Rightarrow> policy\<lparr>pol_scoring := Some scoring_large_context\<rparr>
         | Some ProfileJudge \<Rightarrow> policy\<lparr>pol_scoring := Some scoring_judge\<rparr>
         | Some ProfileExtract \<Rightarrow> policy\<lparr>pol_scoring := Some scoring_extract, pol_cost_aware := True\<rparr>
         | None \<Rightarrow> policy)"

section \<open>Client profiles\<close>

definition infer_client_profile_for_model ::
  "snapshot \<Rightarrow> 'j ai_request \<Rightarrow> exec_error + client_profile_config option" where
  "infer_client_profile_for_model snap req =
     (case filter (\<lambda>p. req_model req \<in> set (cpc_models p)) (sn_client_profiles snap) of
        [] \<Rightarrow> Inr None
      | [p] \<Rightarrow> Inr (Some p)
      | ps \<Rightarrow> Inl (new_exec_error 409 ''ambiguous_client_profile''
          (''model `'' @ req_model req @ ''` matches multiple client profiles: '' @ join_with '', '' (map cpc_id ps)) None))"

text \<open>The profile a request runs under; an error when it names none or one it may not use.\<close>

definition check_client_profile :: "'j ai_request \<Rightarrow> client_profile_config \<Rightarrow> exec_error + unit" where
  "check_client_profile req profile =
     (if \<not> cpc_enabled profile
      then Inl (new_exec_error 403 ''client_profile_disabled'' (''client profile `'' @ cpc_id profile @ ''` is disabled'') None)
      else case bt_get (req_metadata req) ''client_protocol'' of
             Some protocol \<Rightarrow>
               if protocol \<noteq> client_profile_protocol (cpc_kind profile)
               then Inl (new_exec_error 422 ''invalid_request_error''
                 (''client profile `'' @ cpc_id profile @ ''` expects protocol `''
                  @ client_profile_protocol (cpc_kind profile) @ ''` but request used `'' @ protocol @ ''`'') None)
               else if cpc_models profile \<noteq> [] \<and> req_model req \<notin> set (cpc_models profile)
               then Inl (new_exec_error 403 ''client_profile_model_denied''
                 (''client profile `'' @ cpc_id profile @ ''` does not allow model `'' @ req_model req @ ''`'') None)
               else Inr ()
           | None \<Rightarrow>
               if cpc_models profile \<noteq> [] \<and> req_model req \<notin> set (cpc_models profile)
               then Inl (new_exec_error 403 ''client_profile_model_denied''
                 (''client profile `'' @ cpc_id profile @ ''` does not allow model `'' @ req_model req @ ''`'') None)
               else Inr ())"

definition apply_request_client_profile ::
  "snapshot \<Rightarrow> 'j ai_request \<Rightarrow> (exec_error + client_profile_config option) \<times> 'j ai_request" where
  "apply_request_client_profile snap req =
     (let requested = bt_get (req_metadata req) ''client_profile'';
          source = bt_get (req_metadata req) ''client_profile_source'';
          configured = (case requested of
                          Some i \<Rightarrow> find (\<lambda>p. cpc_id p = i) (sn_client_profiles snap)
                        | None \<Rightarrow> None);
          inferred = (if configured = None \<and> source \<noteq> Some ''header'' then infer_client_profile_for_model snap req
                      else Inr None)
      in case inferred of
           Inl e \<Rightarrow> (Inl e, req)
         | Inr guessed \<Rightarrow>
             (case or_else configured guessed of
                None \<Rightarrow>
                  if source = Some ''header''
                  then (Inl (new_exec_error 422 ''invalid_request_error''
                          (''client profile `'' @ (case requested of Some i \<Rightarrow> i | None \<Rightarrow> []) @ ''` is not configured'') None), req)
                  else (Inr None, req)
              | Some profile \<Rightarrow>
                  (case check_client_profile req profile of
                     Inl e \<Rightarrow> (Inl e, req)
                   | Inr _ \<Rightarrow>
                       (Inr (Some profile),
                        req\<lparr>req_metadata := bt_insert ''client_profile_mode'' (client_profile_mode_as_str (cpc_mode profile))
                              (bt_insert ''client_profile'' (cpc_id profile) (req_metadata req))\<rparr>))))"

section \<open>Candidates\<close>

record candidate_resolution =
  cn_route_name :: string
  cn_require :: route_require
  cn_candidates :: "execution_target list"
  cn_unknown :: "string list"
  cn_profile :: "execution_profile option"
  cn_combo :: "(string \<times> combo_strategy) option"

text \<open>The targets of a route that exist, and the ids that do not.\<close>

definition known_targets :: "registry \<Rightarrow> string list \<Rightarrow> execution_target list" where
  "known_targets rg ids = List.map_filter (target_for rg) ids"

definition unknown_targets :: "registry \<Rightarrow> string list \<Rightarrow> string list" where
  "unknown_targets rg ids = filter (\<lambda>i. target_for rg i = None) ids"

definition route_resolution :: "snapshot \<Rightarrow> string \<Rightarrow> execution_profile option \<Rightarrow> route_config \<Rightarrow> candidate_resolution" where
  "route_resolution snap name profile route =
     \<lparr>cn_route_name = name, cn_require = rt_require route,
      cn_candidates = known_targets (sn_registry snap) (rt_targets route),
      cn_unknown = unknown_targets (sn_registry snap) (rt_targets route), cn_profile = profile, cn_combo = None\<rparr>"

definition single_resolution :: "string \<Rightarrow> execution_target \<Rightarrow> candidate_resolution" where
  "single_resolution name target =
     \<lparr>cn_route_name = name, cn_require = default_require, cn_candidates = [target], cn_unknown = [],
      cn_profile = None, cn_combo = None\<rparr>"

text \<open>The precedence: profile, exact route, combo, direct target, wildcard route, default provider.\<close>

definition resolve_route :: "snapshot \<Rightarrow> string \<Rightarrow> exec_error + candidate_resolution" where
  "resolve_route snap model =
     (case profile_from_model model of
        Some profile \<Rightarrow>
          (case or_else (exact_route_for snap model) (wildcard_route snap) of
             None \<Rightarrow> Inl (new_exec_error 404 ''invalid_request_error''
               (''execution profile `'' @ profile_id profile @ ''` needs a matching route or catch-all `*` route'') None)
           | Some route \<Rightarrow>
               Inr (route_resolution snap
                 (if rt_match_model route = Some model then rt_name route
                  else profile_id profile @ '' via '' @ rt_name route) (Some profile) route))
      | None \<Rightarrow>
     (case exact_route_for snap model of
        Some route \<Rightarrow> Inr (route_resolution snap (rt_name route) None route)
      | None \<Rightarrow>
     (case combo_for snap model of
        Some combo \<Rightarrow>
          Inr \<lparr>cn_route_name = ''combo/'' @ model, cn_require = cm_require combo,
               cn_candidates = known_targets (sn_registry snap) (cm_models combo),
               cn_unknown = unknown_targets (sn_registry snap) (cm_models combo), cn_profile = None,
               cn_combo = Some (model, cm_strategy combo)\<rparr>
      | None \<Rightarrow>
     (case target_for (sn_registry snap) model of
        Some target \<Rightarrow> Inr (single_resolution ''direct'' target)
      | None \<Rightarrow>
     (case wildcard_route snap of
        Some route \<Rightarrow> Inr (route_resolution snap (rt_name route) None route)
      | None \<Rightarrow>
     (case sn_default_provider snap of
        Some provider \<Rightarrow>
          (case target_for_provider_model (sn_registry snap) provider model of
             Some target \<Rightarrow> Inr (single_resolution (''default:'' @ provider) (target\<lparr>et_unverified := True\<rparr>))
           | None \<Rightarrow> Inl (new_exec_error 404 ''invalid_request_error''
               (''default_provider `'' @ provider @ ''` is not a configured provider'') None))
      | None \<Rightarrow> Inl (new_exec_error 404 ''invalid_request_error''
          (''no route or target for model `'' @ model
           @ ''` '' @ [CHR 0xE2, CHR 0x80, CHR 0x94] @ '' add a route, use `provider/model`, or set server.default_provider'') None)))))))"

text \<open>Each candidate is stamped with the health of its pool and the evidence of the scorecard.\<close>

definition stamp_candidate ::
  "(nat \<Rightarrow> instant) \<Rightarrow> snapshot \<Rightarrow> instant \<Rightarrow> execution_target \<Rightarrow> 'k engine \<Rightarrow> execution_target \<times> 'k engine" where
  "stamp_candidate clock snap now t eg =
     (let (t_health, eg1) = read_clock clock eg;
          ph = pool_health_of (eg_resolver eg1) (et_provider_id t) (et_model t) t_health;
          (outcome, sc) = sc_project (et_id t) ''any'' (sn_scorecard snap) now (eg_scorecard eg1);
          t1 = t\<lparr>et_healthy_accounts := Some (if ph_circuit_open ph then 0 else ph_healthy ph), et_outcome := outcome\<rparr>
      in if qe_enabled (sn_quality_eval snap)
         then let (quality, sc1) = sc_project_quality (et_id t) ''any''
                    (sn_evaluator_id snap (qe_body_allowed_targets (sn_quality_eval snap)))
                    (sn_scorecard snap) (sn_quality_eval snap) now sc
              in (t1\<lparr>et_quality := quality\<rparr>, eg1\<lparr>eg_scorecard := sc1\<rparr>)
         else (t1, eg1\<lparr>eg_scorecard := sc\<rparr>))"

fun stamp_candidates ::
  "(nat \<Rightarrow> instant) \<Rightarrow> snapshot \<Rightarrow> instant \<Rightarrow> execution_target list \<Rightarrow> 'k engine \<Rightarrow> execution_target list \<times> 'k engine" where
  "stamp_candidates clock snap now [] eg = ([], eg)"
| "stamp_candidates clock snap now (t # ts) eg =
     (let (t', eg1) = stamp_candidate clock snap now t eg;
          (ts', eg2) = stamp_candidates clock snap now ts eg1
      in (t' # ts', eg2))"

definition resolve_candidates ::
  "(nat \<Rightarrow> instant) \<Rightarrow> snapshot \<Rightarrow> string \<Rightarrow> 'k engine \<Rightarrow> (exec_error + candidate_resolution) \<times> 'k engine" where
  "resolve_candidates clock snap model eg =
     (case resolve_route snap model of
        Inl e \<Rightarrow> (Inl e, eg)
      | Inr resolved \<Rightarrow>
          let (now, eg1) = read_clock clock eg;
              (stamped, eg2) = stamp_candidates clock snap now (cn_candidates resolved) eg1
          in (Inr (resolved\<lparr>cn_candidates := stamped\<rparr>), eg2))"

section \<open>Planning\<close>

definition apply_combo_order ::
  "bool \<Rightarrow> candidate_resolution \<Rightarrow> (string \<rightharpoonup> usize) \<Rightarrow> candidate_resolution \<times> (string \<rightharpoonup> usize)" where
  "apply_combo_order advance_cursor resolved rr =
     (case cn_combo resolved of
        None \<Rightarrow> (resolved, rr)
      | Some (name, ComboFallback) \<Rightarrow> (resolved, rr)
      | Some (name, ComboRoundRobin) \<Rightarrow>
          let len = length (cn_candidates resolved)
          in if len \<le> 1 then (resolved, rr)
             else let cursor = (case rr name of Some c \<Rightarrow> c | None \<Rightarrow> 0)
                  in (resolved\<lparr>cn_candidates := rotate (cursor mod len) (cn_candidates resolved)\<rparr>,
                      rr(name \<mapsto> if advance_cursor then (cursor + 1) mod 2 ^ 64 else cursor)))"

definition ends_with :: "string \<Rightarrow> string \<Rightarrow> bool" where
  "ends_with s p = starts_with (rev s) (rev p)"

definition tenant_route_allowed :: "tenant_config \<Rightarrow> string \<Rightarrow> bool" where
  "tenant_route_allowed tenant route_name \<longleftrightarrow>
     tc_allowed_routes tenant = []
     \<or> list_ex (\<lambda>allowed. allowed = route_name \<or> route_name = ''combo/'' @ allowed
         \<or> ends_with route_name ('' via '' @ allowed)) (tc_allowed_routes tenant)"

definition tenant_provider_allowed :: "tenant_config \<Rightarrow> string \<Rightarrow> bool" where
  "tenant_provider_allowed tenant provider_id \<longleftrightarrow>
     tc_allowed_providers tenant = [] \<or> provider_id \<in> set (tc_allowed_providers tenant)"

definition has_configured_account :: "'k resolver \<Rightarrow> string set \<Rightarrow> string \<Rightarrow> bool" where
  "has_configured_account r allowed provider_id \<longleftrightarrow>
     allowed \<noteq> {} \<and> list_ex (\<lambda>i. i \<in> allowed) (account_ids r provider_id)"

definition tenant_candidate_has_account :: "'k resolver \<Rightarrow> tenant_config \<Rightarrow> execution_target \<Rightarrow> bool" where
  "tenant_candidate_has_account r tenant candidate \<longleftrightarrow>
     tc_allowed_accounts tenant = []
     \<or> has_configured_account r (tenant_allowed_accounts tenant (et_provider_id candidate)) (et_provider_id candidate)"

definition client_profile_candidate_has_account ::
  "'k resolver \<Rightarrow> client_profile_config \<Rightarrow> execution_target \<Rightarrow> bool" where
  "client_profile_candidate_has_account r profile candidate \<longleftrightarrow>
     cpc_accounts profile = []
     \<or> has_configured_account r (profile_accounts_for_provider profile (et_provider_id candidate)) (et_provider_id candidate)"

text \<open>Why the tenant's policy rejects a candidate, if it does.\<close>

definition tenant_rejects :: "'k resolver \<Rightarrow> tenant_config \<Rightarrow> execution_target \<Rightarrow> string option" where
  "tenant_rejects r tenant candidate =
     (if \<not> tenant_provider_allowed tenant (et_provider_id candidate)
      then Some (''tenant policy: provider `'' @ et_provider_id candidate @ ''` is not allowed'')
      else if \<not> tenant_candidate_has_account r tenant candidate
      then Some ''tenant policy: no allowed account for provider''
      else None)"

definition profile_rejects :: "'k resolver \<Rightarrow> client_profile_config \<Rightarrow> execution_target \<Rightarrow> string option" where
  "profile_rejects r profile candidate =
     (if client_profile_candidate_has_account r profile candidate then None
      else Some (''client profile `'' @ cpc_id profile @ ''`: no pinned account for provider `''
             @ et_provider_id candidate @ ''`''))"

definition retain :: "(execution_target \<Rightarrow> string option) \<Rightarrow> execution_target list
    \<Rightarrow> execution_target list \<times> (string \<times> string) list" where
  "retain rejects cs =
     (filter (\<lambda>c. rejects c = None) cs,
      List.map_filter (\<lambda>c. map_option (\<lambda>why. (et_id c, why)) (rejects c)) cs)"

text \<open>What the caller adds to the router's decision: combo, tenant, profile and their rejections.\<close>

definition annotate_decision ::
  "(string \<times> combo_strategy) option \<Rightarrow> tenant_config option \<Rightarrow> client_profile_config option
    \<Rightarrow> (string \<times> string) list \<Rightarrow> 'rc route_decision \<Rightarrow> 'rc route_decision" where
  "annotate_decision combo tenant profile rejections d =
     (let d1 = (case combo of
                  Some (name, strategy) \<Rightarrow>
                    add_reason (''combo_strategy='' @ combo_strategy_as_str strategy)
                      (add_reason (''combo='' @ name)
                        (d\<lparr>rd_strategy := (case strategy of ComboFallback \<Rightarrow> ''combo_fallback''
                             | ComboRoundRobin \<Rightarrow> ''combo_round_robin'')\<rparr>))
                | None \<Rightarrow> d);
          d2 = (case tenant of Some t \<Rightarrow> add_reason (''tenant='' @ tc_id t) d1 | None \<Rightarrow> d1);
          d3 = (case profile of
                  Some p \<Rightarrow> add_reason (''client_profile_mode='' @ client_profile_mode_as_str (cpc_mode p))
                    (add_reason (''client_profile='' @ cpc_id p) d2)
                | None \<Rightarrow> d2)
      in fold (\<lambda>(i, why). reject i why) rejections d3)"

definition plan_scoped ::
  "'k resolver \<Rightarrow> snapshot \<Rightarrow> 'j ai_request \<Rightarrow> client_profile_config option \<Rightarrow> candidate_resolution
    \<Rightarrow> tenant_config option \<Rightarrow> execution_target list \<Rightarrow> (string \<times> string) list \<Rightarrow> 'rc route_plan" where
  "plan_scoped r snap req profile resolved tenant cs rejections =
     (let (cs1, rejections1) = (case profile of
             Some p \<Rightarrow> if cpc_accounts p \<noteq> [] then retain (profile_rejects r p) cs else (cs, [])
           | None \<Rightarrow> (cs, []));
          plan = plan_route req (cn_route_name resolved) (cn_require resolved) cs1
                   (routing_policy_for snap (cn_profile resolved))
      in plan\<lparr>plan_decision := annotate_decision (cn_combo resolved) tenant profile (rejections @ rejections1)
           (plan_decision plan)\<rparr>)"

definition plan_resolved_route ::
  "snapshot \<Rightarrow> 'j ai_request \<Rightarrow> client_profile_config option \<Rightarrow> candidate_resolution \<Rightarrow> bool \<Rightarrow> 'k engine
    \<Rightarrow> (exec_error + string \<times> 'rc route_plan) \<times> 'k engine" where
  "plan_resolved_route snap req profile resolved advance eg =
     (let (resolved1, rr) = apply_combo_order advance resolved (eg_combo_rr eg);
          eg1 = eg\<lparr>eg_combo_rr := rr\<rparr>;
          route_name = cn_route_name resolved1;
          r = eg_resolver eg1;
          tenant = (case req_tenant req of Some i \<Rightarrow> config_tenant snap i | None \<Rightarrow> None)
      in case tenant of
           Some t \<Rightarrow>
             if \<not> tenant_route_allowed t route_name
             then (Inl (new_exec_error 403 ''tenant_policy_denied''
                     (''tenant `'' @ tc_id t @ ''` is not allowed to use route `'' @ route_name @ ''`'') None), eg1)
             else let (cs1, rej1) = retain (tenant_rejects r t) (cn_candidates resolved1)
                  in (Inr (route_name, plan_scoped r snap req profile resolved1 tenant cs1 rej1), eg1)
         | None \<Rightarrow> (Inr (route_name, plan_scoped r snap req profile resolved1 None (cn_candidates resolved1) []), eg1))"

end
