(* ===== verification/Execute.thy ===== *)
theory Execute
  imports Attempt Resolver_Facts Router
begin

text \<open>
  The two-level fallback of \<open>sb-runtime/src/execute.rs\<close>: the loop over the planned targets
  and, for each of them, over the accounts of its provider, with the same-account retries, the
  committed outcomes and the errors. The world the loop talks to (the clock, the adapters, the
  token services, the usage store, the plugins' egress choice) is the record \<open>world\<close>: each
  answer may depend on how often the engine asked before.
\<close>

section \<open>The world and the configuration\<close>

record ('j, 'k) world =
  wd_clock :: "nat \<Rightarrow> instant"
  wd_host :: "nat \<Rightarrow> 'k host"
  wd_live :: "nat \<Rightarrow> live_tokens"
  wd_has_adapter :: "string \<Rightarrow> bool"
  wd_dispatch :: "nat \<Rightarrow> 'j ai_request \<Rightarrow> execution_target \<Rightarrow> credential_lease \<Rightarrow> string option
    \<Rightarrow> adapter_error + event_stream"
  wd_request_warnings :: "'j ai_request \<Rightarrow> execution_target \<Rightarrow> string list"
  wd_select_egress :: "'j ai_request \<Rightarrow> string \<Rightarrow> string option"
  wd_effective_egress :: "string option \<Rightarrow> string"
  wd_provider_spend_usd :: "nat \<Rightarrow> string \<Rightarrow> string + f64"
  wd_cost_micros :: "string \<Rightarrow> string \<Rightarrow> usage \<Rightarrow> u64"
  wd_record_usage :: "nat \<Rightarrow> string \<Rightarrow> string \<Rightarrow> string \<Rightarrow> usage \<Rightarrow> string + unit"

record 'w exec_config =
  xc_providers :: "'w provider_config list"
  xc_default_egress :: "string option"
  xc_tenants :: "tenant_config list"
  xc_per_provider_usd :: "(string, f64) btree_map"
  xc_retry :: retry_config
  xc_retry_max :: u32
  xc_strict_schema_downlevel :: bool
  xc_max_response_bytes :: "u64 option"
  xc_usage_required :: bool
  xc_scorecard :: scorecard_config

text \<open>One dispatched attempt: what its terminal branches need to know.\<close>

record attempt =
  am_target :: execution_target
  am_account :: string
  am_lease :: credential_lease
  am_egress_id :: "string option"
  am_egress :: string
  am_started :: instant
  am_quality :: bool

datatype 'j exec_outcome =
    OutStream meter attempt string
  | OutCollected "'j ai_response" string
  | OutError exec_error

text \<open>What an attempt tells the account loop: go on with the next account, or return.\<close>

datatype 'j attempt_result = TryNext adapter_error | Return "'j exec_outcome"

definition attempt_ctx_of :: "'j ai_request \<Rightarrow> attempt \<Rightarrow> u64 \<Rightarrow> attempt_ctx" where
  "attempt_ctx_of req am ms =
     \<lparr>cx_request_id = req_id req, cx_target_id = et_id (am_target am),
      cx_provider_id = et_provider_id (am_target am), cx_account_id = am_account am, cx_egress = am_egress am,
      cx_latency_ms = ms\<rparr>"

definition trace_attempt_of :: "attempt \<Rightarrow> u64 \<Rightarrow> trace_outcome \<Rightarrow> effect" where
  "trace_attempt_of am ms outcome =
     FxTraceAttempt \<lparr>ta_target_id = et_id (am_target am), ta_provider_id = et_provider_id (am_target am),
       ta_model = et_model (am_target am), ta_account_id = am_account am, ta_egress = am_egress am,
       ta_latency_ms = ms, ta_outcome = outcome\<rparr>"

definition trace_finish :: "(nat \<Rightarrow> instant) \<Rightarrow> instant \<Rightarrow> u16 \<Rightarrow> bool \<Rightarrow> 'k engine \<Rightarrow> 'k engine" where
  "trace_finish clock started status streamed eg =
     (let (ms, eg1) = elapsed_ms clock started eg in emit (FxTraceFinish status ms streamed) eg1)"

section \<open>Dispatch and retries\<close>

definition dispatch ::
  "('j, 'k) world \<Rightarrow> 'j ai_request \<Rightarrow> attempt \<Rightarrow> 'k engine \<Rightarrow> (adapter_error + event_stream) \<times> 'k engine" where
  "dispatch w req am eg =
     (wd_dispatch w (eg_calls eg) req (am_target am) (am_lease am) (am_egress_id am),
      emit (FxDispatch (et_id (am_target am)) (am_account am) (am_lease am) (am_egress_id am))
        (eg\<lparr>eg_calls := Suc (eg_calls eg)\<rparr>))"

text \<open>A failed dispatch that is retried: finish it, wait, dispatch again.\<close>

definition retry_again ::
  "('j, 'k) world \<Rightarrow> 'w exec_config \<Rightarrow> 'j ai_request \<Rightarrow> attempt \<Rightarrow> u32 \<Rightarrow> adapter_error
    \<Rightarrow> 'k engine \<Rightarrow> (adapter_error + event_stream) \<times> 'k engine" where
  "retry_again w cfg req am retry_n err eg =
     (let (ms, eg1) = elapsed_ms (wd_clock w) (am_started am) eg;
          eg2 = finish_attempt (wd_clock w) (xc_scorecard cfg) (attempt_ctx_of req am ms) (FoFailed (ae_class err)) eg1;
          eg3 = emit (FxSleep (retry_backoff (xc_retry cfg) retry_n)) eg2
      in dispatch w req am eg3)"

function retry_loop ::
  "('j, 'k) world \<Rightarrow> 'w exec_config \<Rightarrow> 'j ai_request \<Rightarrow> attempt \<Rightarrow> u32 \<Rightarrow> (adapter_error + event_stream)
    \<Rightarrow> 'k engine \<Rightarrow> (adapter_error + event_stream) \<times> 'k engine" where
  "retry_loop w cfg req am retry_n exec eg =
     (case exec of
        Inr stream \<Rightarrow> (exec, eg)
      | Inl err \<Rightarrow>
          if xc_retry_max cfg \<le> retry_n \<or> \<not> retryable (ae_class err) then (exec, eg)
          else case retry_again w cfg req am (retry_n + 1) err eg of
                 (exec', eg') \<Rightarrow> retry_loop w cfg req am (retry_n + 1) exec' eg')"
  by pat_completeness auto

lemma unat_inc: "a < b \<Longrightarrow> unat (a + 1) = Suc (unat a)" for a b :: u32
  using unsigned_less [of b, where 'a = nat] by (intro unat_Suc_word) (simp add: word_less_nat_alt)

termination retry_loop
  by (relation "measure (\<lambda>(w, cfg, req, am, retry_n, exec, eg). unat (xc_retry_max cfg) - unat retry_n)")
    (auto simp: not_le unat_inc word_less_nat_alt)

declare retry_loop.simps [simp del]

section \<open>Terminal branches of an attempt\<close>

text \<open>
  A failed dispatch, a failed pre-commit and a failed collection run the same code: lock the
  account, trace, finish the attempt, and fall over or return.
\<close>

definition attempt_failed ::
  "('j, 'k) world \<Rightarrow> 'w exec_config \<Rightarrow> 'j ai_request \<Rightarrow> instant \<Rightarrow> string \<Rightarrow> attempt \<Rightarrow> adapter_error
    \<Rightarrow> 'k engine \<Rightarrow> 'j attempt_result \<times> 'k engine" where
  "attempt_failed w cfg req started summary am error eg =
     (let (now, eg1) = read_clock (wd_clock w) eg;
          eg2 = eg1\<lparr>eg_resolver := snd (resolver_report_failure (et_provider_id (am_target am)) (am_account am)
                  (et_model (am_target am)) (ae_class error) now (eg_resolver eg1))\<rparr>;
          fell_over = adapter_should_fallback error;
          (ms, eg3) = elapsed_ms (wd_clock w) (am_started am) eg2;
          eg4 = emit (trace_attempt_of am ms (TraceFailed (error_class_as_str (ae_class error)) fell_over)) eg3;
          eg5 = finish_attempt (wd_clock w) (xc_scorecard cfg) (attempt_ctx_of req am ms)
                  (FoFailed (ae_class error)) eg4
      in if fell_over then (TryNext error, eg5)
         else (Return (OutError (upstream_error error summary)),
               trace_finish (wd_clock w) started (http_status (ae_class error)) False eg5))"

definition record_usage ::
  "('j, 'k) world \<Rightarrow> 'w exec_config \<Rightarrow> attempt \<Rightarrow> usage \<Rightarrow> bool \<Rightarrow> 'k engine \<Rightarrow> (string + unit) \<times> 'k engine" where
  "record_usage w cfg am usage streamed eg =
     (let provider = et_provider_id (am_target am); model = et_model (am_target am)
      in (if xc_usage_required cfg then wd_record_usage w (eg_tick eg) provider model (am_account am) usage else Inr (),
          emit (FxUsage provider model (am_account am) usage streamed) eg))"

definition attempt_collected ::
  "('j, 'k) world \<Rightarrow> 'w exec_config \<Rightarrow> 'j ai_request \<Rightarrow> instant \<Rightarrow> string \<Rightarrow> bool \<Rightarrow> attempt \<Rightarrow> 'j ai_response
    \<Rightarrow> 'k engine \<Rightarrow> 'j attempt_result \<times> 'k engine" where
  "attempt_collected w cfg req started summary scoped am response eg =
     (let provider = et_provider_id (am_target am); model = et_model (am_target am);
          eg1 = eg\<lparr>eg_resolver := resolver_report_success provider (am_account am) (eg_resolver eg)\<rparr>;
          (ms, eg2) = elapsed_ms (wd_clock w) (am_started am) eg1;
          cost = wd_cost_micros w provider model (resp_usage response);
          eg3 = finish_attempt (wd_clock w) (xc_scorecard cfg) (attempt_ctx_of req am ms)
                  (FoOk (resp_finish_reason response) (Some cost)) eg2;
          (recorded, eg4) = record_usage w cfg am (resp_usage response) False eg3
      in case recorded of
           Inl e \<Rightarrow>
             (Return (OutError (new_exec_error 500 ''usage_persistence_failed'' (''usage persistence failed: '' @ e) None)),
              trace_finish (wd_clock w) started 500 False eg4)
         | Inr _ \<Rightarrow>
             let eg5 = emit (FxLatency provider model (nat_as_f64 (unat ms))) (emit (trace_attempt_of am ms TraceSuccess) eg4);
                 eg6 = emit (FxTraceUsage (resp_usage response) cost) eg5;
                 eg7 = (if scoped then emit (FxScopeSuccess (et_id (am_target am)) cost) eg6 else eg6);
                 eg8 = trace_finish (wd_clock w) started 200 False eg7;
                 eg9 = (if eg_quality_capture eg8
                        then emit (FxQualityResponse (et_id (am_target am))) (eg8\<lparr>eg_quality_capture := False\<rparr>)
                        else eg8)
             in (Return (OutCollected response summary), eg9))"

definition attempt_streamed ::
  "('j, 'k) world \<Rightarrow> 'w exec_config \<Rightarrow> 'j ai_request \<Rightarrow> instant \<Rightarrow> string \<Rightarrow> attempt \<Rightarrow> event_stream
    \<Rightarrow> 'k engine \<Rightarrow> 'j attempt_result \<times> 'k engine" where
  "attempt_streamed w cfg req started summary am stream eg =
     (case precommit_stream stream of
        Inl error \<Rightarrow> attempt_failed w cfg req started summary am error eg
      | Inr committed \<Rightarrow>
          let eg1 = (if eg_quality_capture eg
                     then emit (FxQualityTee (et_id (am_target am))) (eg\<lparr>eg_quality_capture := False\<rparr>) else eg)
          in (Return (OutStream (meter_stream committed (am_started am)) (am\<lparr>am_quality := eg_quality_capture eg\<rparr>) summary),
              eg1))"

text \<open>The finish callback of a committed stream, called by the meter exactly once.\<close>

definition stream_finished ::
  "('j, 'k) world \<Rightarrow> 'w exec_config \<Rightarrow> 'j ai_request \<Rightarrow> instant \<Rightarrow> attempt
    \<Rightarrow> usage \<times> finish_reason option \<times> stream_finish \<Rightarrow> 'k engine \<Rightarrow> 'k engine" where
  "stream_finished w cfg req started am report eg =
     (let (usage, reason, finish) = report;
          provider = et_provider_id (am_target am); model = et_model (am_target am);
          (latency, eg1) = elapsed_ms (wd_clock w) started eg;
          (ms, eg2) = elapsed_ms (wd_clock w) (am_started am) eg1;
          cx = attempt_ctx_of req am ms
      in case finish of
           FinishClean \<Rightarrow>
             let eg3 = eg2\<lparr>eg_resolver := resolver_report_success provider (am_account am) (eg_resolver eg2)\<rparr>;
                 eg4 = emit (FxLatency provider model (nat_as_f64 (unat ms))) (emit (trace_attempt_of am ms TraceSuccess) eg3);
                 cost = wd_cost_micros w provider model usage;
                 eg5 = finish_attempt (wd_clock w) (xc_scorecard cfg) cx
                         (FoOk (case reason of Some r \<Rightarrow> r | None \<Rightarrow> FinishStop) (Some cost)) eg4;
                 eg6 = emit (if xc_usage_required cfg then FxUsageCheckedPostCommit provider model (am_account am) usage
                             else FxUsage provider model (am_account am) usage True) eg5;
                 eg7 = emit (FxTraceFinish 200 latency True) (emit (FxTraceUsage usage cost) eg6)
             in if am_quality am then emit (FxQualityComplete reason) eg7 else eg7
         | FinishUpstreamError c \<Rightarrow>
             let (now, eg3) = read_clock (wd_clock w) eg2;
                 eg4 = eg3\<lparr>eg_resolver := snd (resolver_report_failure provider (am_account am) model c now (eg_resolver eg3))\<rparr>;
                 eg5 = emit (trace_attempt_of am ms (TraceFailed (error_class_as_str c) False)) eg4;
                 eg6 = finish_attempt (wd_clock w) (xc_scorecard cfg) cx (FoFailed c) eg5
             in emit (FxTraceFinish (http_status c) latency True) eg6
         | FinishAborted \<Rightarrow>
             let eg3 = emit (trace_attempt_of am ms (TraceFailed ''client_aborted'' False)) eg2;
                 eg4 = finish_attempt (wd_clock w) (xc_scorecard cfg) cx FoCancelled eg3
             in emit (FxTraceFinish 499 latency True) eg4)"

section \<open>One account\<close>

definition schema_rejected ::
  "('j, 'k) world \<Rightarrow> 'j ai_request \<Rightarrow> instant \<Rightarrow> string \<Rightarrow> attempt \<Rightarrow> string \<Rightarrow> 'k engine
    \<Rightarrow> 'j attempt_result \<times> 'k engine" where
  "schema_rejected w req started summary am warning eg =
     (let message = ''high-lossiness schema downlevel rejected for target `'' @ et_id (am_target am) @ ''`: '' @ warning;
          label = error_class_as_str UnsupportedCapability;
          (ms, eg1) = elapsed_ms (wd_clock w) (am_started am) eg;
          eg2 = emit (trace_attempt_of am ms (TraceFailed label False)) eg1;
          eg3 = emit (FxPostAttempt \<lparr>ai_request_id = req_id req, ai_target_id = et_id (am_target am),
                  ai_provider_id = et_provider_id (am_target am), ai_account_id = am_account am,
                  ai_egress = am_egress am, ai_ok = False, ai_error_class = Some label, ai_latency_ms = ms\<rparr>) eg2
      in (Return (OutError (new_exec_error (http_status UnsupportedCapability) ''schema_downlevel_rejected'' message
            (Some summary))),
          trace_finish (wd_clock w) started (http_status UnsupportedCapability) False eg3))"

definition run_attempt ::
  "'j json_api \<Rightarrow> ('j, 'k) world \<Rightarrow> 'w exec_config \<Rightarrow> 'j ai_request \<Rightarrow> instant \<Rightarrow> string \<Rightarrow> bool \<Rightarrow> attempt
    \<Rightarrow> 'k engine \<Rightarrow> 'j attempt_result \<times> 'k engine" where
  "run_attempt js w cfg req started summary scoped am eg =
     (let (exec0, eg1) = dispatch w req am eg;
          (exec, eg2) = retry_loop w cfg req am 0 exec0 eg1
      in case exec of
           Inl error \<Rightarrow> attempt_failed w cfg req started summary am error eg2
         | Inr stream \<Rightarrow>
             if req_stream req then attempt_streamed w cfg req started summary am stream eg2
             else (case collect_response js stream (req_id req) (req_model req) (xc_max_response_bytes cfg) of
                     Inl error \<Rightarrow> attempt_failed w cfg req started summary am error eg2
                   | Inr response \<Rightarrow> attempt_collected w cfg req started summary scoped am response eg2))"

definition try_account ::
  "'j json_api \<Rightarrow> ('j, 'k) world \<Rightarrow> 'w exec_config \<Rightarrow> 'j ai_request \<Rightarrow> instant \<Rightarrow> string \<Rightarrow> bool
    \<Rightarrow> execution_target \<Rightarrow> string \<Rightarrow> credential_lease \<Rightarrow> 'k engine \<Rightarrow> 'j attempt_result \<times> 'k engine" where
  "try_account js w cfg req started summary scoped target account_id lease eg =
     (let provider = et_provider_id target;
          (attempt_started, eg1) = read_clock (wd_clock w) eg;
          egress_id = (case wd_select_egress w req (et_id target) of
                         Some e \<Rightarrow> Some e
                       | None \<Rightarrow> resolve_egress (xc_providers cfg) (xc_default_egress cfg) provider account_id);
          am = \<lparr>am_target = target, am_account = account_id, am_lease = lease, am_egress_id = egress_id,
                am_egress = wd_effective_egress w egress_id, am_started = attempt_started, am_quality = False\<rparr>
      in case fresh_lease (wd_host w (eg_tick eg1)) (wd_live w (eg_tick eg1)) (eg_resolver eg1) provider account_id lease of
           Inl e \<Rightarrow>
             let error = new_adapter_error Authentication (''oauth refresh failed: '' @ e);
                 (now, eg2) = read_clock (wd_clock w) eg1;
                 eg3 = eg2\<lparr>eg_resolver := snd (resolver_report_failure provider account_id (et_model target)
                         (ae_class error) now (eg_resolver eg2))\<rparr>;
                 (ms, eg4) = elapsed_ms (wd_clock w) attempt_started eg3
             in (TryNext error, emit (trace_attempt_of am ms (TraceFailed (error_class_as_str (ae_class error)) True)) eg4)
         | Inr fresh \<Rightarrow>
             let am1 = am\<lparr>am_lease := fresh\<rparr>;
                 warnings = wd_request_warnings w req target;
                 eg2 = fold (\<lambda>warning. emit (FxTraceWarning (et_id target @ '': '' @ warning))) warnings eg1
             in case (if xc_strict_schema_downlevel cfg then high_lossiness_schema_warning warnings else None) of
                  Some warning \<Rightarrow> schema_rejected w req started summary am1 warning eg2
                | None \<Rightarrow> run_attempt js w cfg req started summary scoped am1 eg2)"

definition stream_first :: "attempt \<Rightarrow> f64 \<Rightarrow> 'k engine \<Rightarrow> 'k engine" where
  "stream_first am ttft_ms eg = emit (FxTtft (et_provider_id (am_target am)) (et_model (am_target am)) ttft_ms) eg"

section \<open>The pools never change during a request\<close>

named_theorems pool_frame

abbreviation pools :: "'k engine \<Rightarrow> string \<rightharpoonup> 'k provider_accounts" where
  "pools eg \<equiv> rs_providers (eg_resolver eg)"

lemma emit_pools [pool_frame]: "pools (emit fx eg) = pools eg"
  by (simp add: emit_def)

lemma read_clock_pools [pool_frame]: "pools (snd (read_clock clock eg)) = pools eg"
  by (simp add: read_clock_def)

lemma elapsed_ms_pools [pool_frame]: "pools (snd (elapsed_ms clock t eg)) = pools eg"
  by (simp add: elapsed_ms_def read_clock_def)

lemma trace_finish_pools [pool_frame]: "pools (trace_finish clock t status streamed eg) = pools eg"
  by (simp add: trace_finish_def split_beta pool_frame)

lemma report_pools [pool_frame]:
  "rs_providers (snd (resolver_report_failure p a m c now r)) = rs_providers r"
  "rs_providers (resolver_report_success p a r) = rs_providers r"
  "rs_providers (circuit_record p ok now r) = rs_providers r"
  "rs_providers (snd (circuit_allows p now r)) = rs_providers r"
  by (simp_all add: resolver_report_failure_def resolver_report_success_def circuit_record_def circuit_allows_def
      split_beta Let_def)

lemma finish_attempt_pools [pool_frame]: "pools (finish_attempt clock cfg cx outcome eg) = pools eg"
  by (cases outcome) (simp_all add: finish_attempt_def Let_def split_beta pool_frame)

lemma dispatch_pools [pool_frame]: "pools (snd (dispatch w req am eg)) = pools eg"
  by (simp add: dispatch_def pool_frame)

lemma retry_again_pools [pool_frame]: "pools (snd (retry_again w cfg req am n err eg)) = pools eg"
  by (simp add: retry_again_def Let_def split_beta pool_frame)

lemma retry_loop_pools [pool_frame]: "pools (snd (retry_loop w cfg req am n exec eg)) = pools eg"
proof (induction w cfg req am n exec eg rule: retry_loop.induct)
  case (1 w cfg req am n exec eg)
  show ?case
    using 1 retry_again_pools [of w cfg req am "n + 1" _ eg]
    by (subst retry_loop.simps) (auto split: sum.splits prod.splits dest!: arg_cong [where f = snd])
qed

lemma attempt_failed_pools [pool_frame]: "pools (snd (attempt_failed w cfg req t summary am error eg)) = pools eg"
  by (simp add: attempt_failed_def Let_def split_beta pool_frame)

lemma attempt_collected_pools [pool_frame]:
  "pools (snd (attempt_collected w cfg req t summary scoped am response eg)) = pools eg"
  by (simp add: attempt_collected_def record_usage_def Let_def split_beta pool_frame split: sum.splits)

lemma attempt_streamed_pools [pool_frame]:
  "pools (snd (attempt_streamed w cfg req t summary am stream eg)) = pools eg"
  by (simp add: attempt_streamed_def Let_def pool_frame split: sum.splits)

lemma schema_rejected_pools [pool_frame]: "pools (snd (schema_rejected w req t summary am warning eg)) = pools eg"
  by (simp add: schema_rejected_def Let_def split_beta pool_frame)

lemma run_attempt_pools [pool_frame]: "pools (snd (run_attempt js w cfg req t summary scoped am eg)) = pools eg"
  by (auto simp: run_attempt_def Let_def split_beta pool_frame split: sum.splits)

lemma fold_emit_pools [pool_frame]: "pools (fold (\<lambda>x. emit (f x)) xs eg) = pools eg"
  by (induction xs arbitrary: eg) (simp_all add: pool_frame)

lemma try_account_pools [pool_frame]:
  "pools (snd (try_account js w cfg req t summary scoped target account lease eg)) = pools eg"
  by (auto simp: try_account_def Let_def split_beta pool_frame split: sum.splits option.splits)

declare resolve_providers [pool_frame]

section \<open>The loop over the accounts of a target\<close>

text \<open>How the account loop ends: with an outcome, or with what it learned for the next target.\<close>

datatype 'j loop_exit = LoopReturn "'j exec_outcome" | LoopNext "adapter_error option" "duration option"

definition min_retry_after :: "duration option \<Rightarrow> duration option \<Rightarrow> duration option" where
  "min_retry_after current retry_after =
     (case retry_after of
        None \<Rightarrow> current
      | Some r \<Rightarrow> Some (case current of None \<Rightarrow> r | Some c \<Rightarrow> min c r))"

text \<open>
  A selected account is one of the pool that was not tried yet, so each round leaves fewer
  accounts to try: the loop ends.
\<close>

definition ask_account ::
  "'j json_api \<Rightarrow> ('j, 'k) world \<Rightarrow> 'j ai_request \<Rightarrow> execution_target \<Rightarrow> string set option \<Rightarrow> string set
    \<Rightarrow> 'k engine \<Rightarrow> resolve_outcome \<times> 'k engine" where
  "ask_account js w req target allowed tried eg =
     (let (now, eg1) = read_clock (wd_clock w) eg;
          (out, r) = resolve_with_session_allowed (et_provider_id target) (et_model target) tried
                       (session_affinity_key js req) allowed now (eg_resolver eg1)
      in (out, eg1\<lparr>eg_resolver := r\<rparr>))"

function account_loop ::
  "'j json_api \<Rightarrow> ('j, 'k) world \<Rightarrow> 'w exec_config \<Rightarrow> 'j ai_request \<Rightarrow> instant \<Rightarrow> string \<Rightarrow> bool
    \<Rightarrow> execution_target \<Rightarrow> string set option \<Rightarrow> string set \<Rightarrow> adapter_error option \<Rightarrow> duration option
    \<Rightarrow> 'k engine \<Rightarrow> 'j loop_exit \<times> 'k engine" where
  "account_loop js w cfg req started summary scoped target allowed tried last_err unavailable eg =
     (case ask_account js w req target allowed tried eg of
        (Selected account_id lease, eg1) \<Rightarrow>
          (case try_account js w cfg req started summary scoped target account_id lease eg1 of
             (Return outcome, eg2) \<Rightarrow> (LoopReturn outcome, eg2)
           | (TryNext error, eg2) \<Rightarrow>
               account_loop js w cfg req started summary scoped target allowed (insert account_id tried)
                 (Some error) unavailable eg2)
      | (AllUnavailable retry_after, eg1) \<Rightarrow> (LoopNext last_err (min_retry_after unavailable retry_after), eg1)
      | (NoAccounts, eg1) \<Rightarrow> (LoopNext last_err unavailable, eg1))"
  by pat_completeness auto

definition untried :: "'k engine \<Rightarrow> string \<Rightarrow> string set \<Rightarrow> nat" where
  "untried eg provider_id tried = resolver.left provider_id (eg_resolver eg) tried"

lemma ask_account_pools [pool_frame]: "pools (snd (ask_account js w req target allowed tried eg)) = pools eg"
  by (simp add: ask_account_def Let_def split_beta pool_frame)

lemma account_ids_cong: "rs_providers r = rs_providers r' \<Longrightarrow> account_ids r p = account_ids r' p"
  by (simp add: account_ids_def)

lemma ask_account_selected:
  assumes "ask_account js w req target allowed tried eg = (Selected i lease, eg1)"
  shows "resolve_with_session_allowed (et_provider_id target) (et_model target) tried (session_affinity_key js req)
      allowed (wd_clock w (eg_tick eg)) (eg_resolver eg) = (Selected i lease, eg_resolver eg1)
    \<and> eg1 = eg\<lparr>eg_tick := Suc (eg_tick eg), eg_resolver := eg_resolver eg1\<rparr>"
  using assms by (auto simp: ask_account_def read_clock_def Let_def split: prod.splits)

lemma ask_account_selects:
  assumes "ask_account js w req target allowed tried eg = (Selected i lease, eg1)"
  shows "select_account (et_provider_id target) (et_model target, session_affinity_key js req, allowed,
      wd_clock w (eg_tick eg)) tried (eg_resolver eg) = (Some i, eg_resolver eg1)"
  using ask_account_selected [OF assms] by (simp add: select_account_def)

lemma account_loop_decreases:
  assumes "ask_account js w req target allowed tried eg = (Selected i lease, eg1)"
    and "try_account js w cfg req t summary scoped target i lease eg1 = (TryNext error, eg2)"
  shows "untried eg2 (et_provider_id target) (insert i tried) < untried eg (et_provider_id target) tried"
proof -
  obtain q r where sel: "select_account (et_provider_id target) q tried (eg_resolver eg) = (Some i, r)"
    using ask_account_selects [OF assms(1)] by metis
  have "pools eg2 = pools eg"
    using ask_account_pools [of js w req target allowed tried eg]
      try_account_pools [of js w cfg req t summary scoped target i lease eg1] assms by simp
  then have "account_ids (eg_resolver eg2) (et_provider_id target) = account_ids r (et_provider_id target)"
    using resolver.sel_ids [of "et_provider_id target" q tried "eg_resolver eg"] sel
    by (simp add: account_ids_def)
  then show ?thesis
    unfolding untried_def by (rule resolver.sel_leaves_fewer [OF sel])
qed

termination account_loop
  by (relation "measure (\<lambda>(js, w, cfg, req, started, summary, scoped, target, allowed, tried, last_err, unavailable, eg).
        untried eg (et_provider_id target) tried)") (auto intro: account_loop_decreases [OF sym sym])

declare account_loop.simps [simp del]

section \<open>The loop over the targets\<close>

definition budget_unavailable :: "string \<Rightarrow> exec_error" where
  "budget_unavailable e =
     new_exec_error 503 ''usage_store_unavailable'' (''usage store unavailable for budget check: '' @ e) None"

text \<open>The checks before a target's accounts are tried: skip it, stop with an error, or go on.\<close>

datatype gate = GateSkip | GateStop exec_error | GateOpen

definition target_gate :: "('j, 'k) world \<Rightarrow> 'w exec_config \<Rightarrow> execution_target \<Rightarrow> 'k engine \<Rightarrow> gate \<times> 'k engine" where
  "target_gate w cfg target eg =
     (let provider = et_provider_id target
      in if \<not> wd_has_adapter w provider then (GateSkip, eg)
         else let (now, eg1) = read_clock (wd_clock w) eg;
                  (allows, r) = circuit_allows provider now (eg_resolver eg1);
                  eg2 = eg1\<lparr>eg_resolver := r\<rparr>
              in if \<not> allows then (GateSkip, eg2)
                 else case bt_get (xc_per_provider_usd cfg) provider of
                        None \<Rightarrow> (GateOpen, eg2)
                      | Some cap \<Rightarrow>
                          (case wd_provider_spend_usd w (eg_tick eg2) provider of
                             Inl e \<Rightarrow>
                               (GateStop (budget_unavailable e),
                                emit (FxDenied 503 ''usage_store_unavailable'' (xe_message (budget_unavailable e))) eg2)
                           | Inr spent \<Rightarrow> (if flt_le cap spent then GateSkip else GateOpen, eg2)))"

fun target_loop ::
  "'j json_api \<Rightarrow> ('j, 'k) world \<Rightarrow> 'w exec_config \<Rightarrow> 'j ai_request \<Rightarrow> client_profile_config option \<Rightarrow> instant
    \<Rightarrow> string \<Rightarrow> bool \<Rightarrow> execution_target list \<Rightarrow> adapter_error option \<Rightarrow> duration option
    \<Rightarrow> 'k engine \<Rightarrow> 'j loop_exit \<times> 'k engine" where
  "target_loop js w cfg req profile started summary scoped [] last_err unavailable eg =
     (LoopNext last_err unavailable, eg)"
| "target_loop js w cfg req profile started summary scoped (target # targets) last_err unavailable eg =
     (case target_gate w cfg target eg of
        (GateSkip, eg1) \<Rightarrow> target_loop js w cfg req profile started summary scoped targets last_err unavailable eg1
      | (GateStop e, eg1) \<Rightarrow> (LoopReturn (OutError e), eg1)
      | (GateOpen, eg1) \<Rightarrow>
          (case account_loop js w cfg req started summary scoped target
                  (request_allowed_accounts (xc_tenants cfg) req profile (et_provider_id target)) {}
                  last_err unavailable eg1 of
             (LoopReturn outcome, eg2) \<Rightarrow> (LoopReturn outcome, eg2)
           | (LoopNext last_err' unavailable', eg2) \<Rightarrow>
               target_loop js w cfg req profile started summary scoped targets last_err' unavailable' eg2))"

definition all_unavailable_error :: "duration \<Rightarrow> string \<Rightarrow> exec_error" where
  "all_unavailable_error retry_after summary =
     with_retry_after retry_after (new_exec_error 503 ''provider_unavailable''
       (''all accounts for eligible targets are temporarily unavailable; retry after '' @ show_nat retry_after @ ''ms'')
       (Some summary))"

definition no_target_error :: "rejected_candidate list \<Rightarrow> string list \<Rightarrow> string \<Rightarrow> exec_error" where
  "no_target_error rejected unknown summary =
     new_exec_error 400 ''invalid_request_error''
       (''no eligible target: rejected='' @ join_with '','' (map (\<lambda>r. rj_target_id r @ '':'' @ rj_reason r) rejected)
        @ '' unknown=['' @ join_with '','' unknown @ '']'') (Some summary)"

text \<open>The sequential part of \<open>execute_inner\<close>, from the planned route to the committed outcome.\<close>

definition execute_plan ::
  "'j json_api \<Rightarrow> ('j, 'k) world \<Rightarrow> 'w exec_config \<Rightarrow> 'j ai_request \<Rightarrow> client_profile_config option \<Rightarrow> instant
    \<Rightarrow> bool \<Rightarrow> 'rc route_plan \<Rightarrow> string list \<Rightarrow> string \<Rightarrow> 'k engine \<Rightarrow> 'j exec_outcome \<times> 'k engine" where
  "execute_plan js w cfg req profile started scoped plan unknown summary eg =
     (case target_loop js w cfg req profile started summary scoped (plan_candidates plan) None None eg of
        (LoopReturn outcome, eg1) \<Rightarrow> (outcome, eg1)
      | (LoopNext (Some error) _, eg1) \<Rightarrow>
          (OutError (upstream_error error summary),
           trace_finish (wd_clock w) started (http_status (ae_class error)) False eg1)
      | (LoopNext None (Some retry_after), eg1) \<Rightarrow>
          (OutError (all_unavailable_error retry_after summary), trace_finish (wd_clock w) started 503 False eg1)
      | (LoopNext None None, eg1) \<Rightarrow>
          (OutError (no_target_error (rd_rejected (plan_decision plan)) unknown summary),
           trace_finish (wd_clock w) started 400 False eg1))"

end
