(* ===== verification/Execute_Facts.thy ===== *)
theory Execute_Facts
  imports Execute
begin

text \<open>
  What the fallback loop guarantees. Its observable core is the sequence of dispatches and of
  finished attempts; the inductive predicate \<open>run\<close> describes the sequences a request can
  produce, every loop is shown to produce one, and the properties follow by rule induction.
\<close>

section \<open>Dispatches and finishes\<close>

fun is_key :: "effect \<Rightarrow> bool" where
  "is_key (FxDispatch t a l e) = True"
| "is_key (FxFinished t a o') = True"
| "is_key _ = False"

fun is_dispatch :: "effect \<Rightarrow> bool" where
  "is_dispatch (FxDispatch t a l e) = True"
| "is_dispatch _ = False"

definition keys :: "'k engine \<Rightarrow> effect list" where
  "keys eg = filter is_key (eg_effects eg)"

named_theorems key_facts

lemma keys_emit [key_facts]: "keys (emit fx eg) = keys eg @ (if is_key fx then [fx] else [])"
  by (simp add: keys_def emit_def)

lemma keys_update [key_facts]:
  "keys (eg\<lparr>eg_resolver := r\<rparr>) = keys eg"
  "keys (eg\<lparr>eg_scorecard := sc\<rparr>) = keys eg"
  "keys (eg\<lparr>eg_combo_rr := rr\<rparr>) = keys eg"
  "keys (eg\<lparr>eg_tick := n\<rparr>) = keys eg"
  "keys (eg\<lparr>eg_calls := n\<rparr>) = keys eg"
  "keys (eg\<lparr>eg_quality_capture := b\<rparr>) = keys eg"
  by (simp_all add: keys_def)

lemma keys_clock [key_facts]:
  "keys (snd (read_clock clock eg)) = keys eg"
  "keys (snd (elapsed_ms clock t eg)) = keys eg"
  "keys (trace_finish clock t status streamed eg) = keys eg"
  by (simp_all add: read_clock_def elapsed_ms_def trace_finish_def key_facts)

lemma trace_attempt_not_key [key_facts]: "is_key (trace_attempt_of am ms o') = False"
  by (simp add: trace_attempt_of_def)

lemma keys_finish_attempt [key_facts]:
  "keys (finish_attempt clock cfg cx o' eg) = keys eg @ [FxFinished (cx_target_id cx) (cx_account_id cx) o']"
  by (cases o') (simp_all add: finish_attempt_def Let_def split_beta key_facts)

lemma keys_dispatch [key_facts]:
  "keys (snd (dispatch w req am eg)) =
     keys eg @ [FxDispatch (et_id (am_target am)) (am_account am) (am_lease am) (am_egress_id am)]"
  by (simp add: dispatch_def key_facts)

lemma keys_fold_emit: "(\<And>x. \<not> is_key (f x)) \<Longrightarrow> keys (fold (\<lambda>x. emit (f x)) xs eg) = keys eg"
  by (induction xs arbitrary: eg) (simp_all add: key_facts)

text \<open>The events of one attempt that is still open: its dispatch and its retried failures.\<close>

definition opened_attempt :: "attempt \<Rightarrow> error_class list \<Rightarrow> effect list" where
  "opened_attempt am cs =
     (let d = FxDispatch (et_id (am_target am)) (am_account am) (am_lease am) (am_egress_id am)
      in d # concat (map (\<lambda>c. [FxFinished (et_id (am_target am)) (am_account am) (FoFailed c), d]) cs))"

definition retries_ok :: "'w exec_config \<Rightarrow> error_class list \<Rightarrow> bool" where
  "retries_ok cfg cs \<longleftrightarrow> length cs \<le> unat (xc_retry_max cfg) \<and> (\<forall>c \<in> set cs. retryable c)"

lemma retry_loop_keys:
  "\<exists>cs. keys (snd (retry_loop w cfg req am n exec eg)) = keys eg @ tl (opened_attempt am cs)
     \<and> length cs \<le> unat (xc_retry_max cfg) - unat n \<and> (\<forall>c \<in> set cs. retryable c)"
proof (induction w cfg req am n exec eg rule: retry_loop.induct)
  case (1 w cfg req am n exec eg)
  show ?case
  proof (cases "\<exists>err. exec = Inl err \<and> n < xc_retry_max cfg \<and> retryable (ae_class err)")
    case True
    then obtain err where err: "exec = Inl err" "n < xc_retry_max cfg" "retryable (ae_class err)"
      by blast
    obtain exec' eg' where again: "retry_again w cfg req am (n + 1) err eg = (exec', eg')"
      by (cases "retry_again w cfg req am (n + 1) err eg")
    from 1 [of err exec' eg'] err again obtain cs where
      cs: "keys (snd (retry_loop w cfg req am (n + 1) exec' eg')) = keys eg' @ tl (opened_attempt am cs)"
        "length cs \<le> unat (xc_retry_max cfg) - unat (n + 1)" "\<forall>c \<in> set cs. retryable c"
      by (auto simp: not_le)
    have "keys eg' = keys (snd (retry_again w cfg req am (n + 1) err eg))"
      by (simp add: again)
    then have "keys (snd (retry_loop w cfg req am n exec eg)) = keys eg @ tl (opened_attempt am (ae_class err # cs))"
      using err cs(1) again
      by (subst retry_loop.simps)
        (simp add: opened_attempt_def retry_again_def Let_def split_beta key_facts attempt_ctx_of_def)
    moreover have "length (ae_class err # cs) \<le> unat (xc_retry_max cfg) - unat n"
      using cs(2) err(2) unat_inc [OF err(2)] by (simp add: word_less_nat_alt)
    ultimately show ?thesis
      using cs(3) err(3) by (intro exI [of _ "ae_class err # cs"]) simp
  next
    case False
    then have "retry_loop w cfg req am n exec eg = (exec, eg)"
      by (subst retry_loop.simps) (auto simp: not_less split: sum.splits)
    then show ?thesis
      by (intro exI [of _ "[]"]) (simp add: opened_attempt_def)
  qed
qed

section \<open>What a request can do\<close>

datatype run_end = Exhausted | Committed | Streaming string string

text \<open>
  \<open>run ok cfg n ks e\<close>: the events \<open>ks\<close> of \<open>n\<close> attempts, each on a target and an account that
  \<open>ok\<close> admits; all but the last failed with an error that allows falling over.
\<close>

inductive run :: "(string \<Rightarrow> string \<Rightarrow> bool) \<Rightarrow> 'w exec_config \<Rightarrow> nat \<Rightarrow> effect list \<Rightarrow> run_end \<Rightarrow> bool"
  for ok :: "string \<Rightarrow> string \<Rightarrow> bool" and cfg :: "'w exec_config" where
  run_none: "run ok cfg 0 [] Exhausted"
| run_failed: "run ok cfg n ks e \<Longrightarrow> ok (et_id (am_target am)) (am_account am) \<Longrightarrow> retries_ok cfg cs \<Longrightarrow>
    should_fallback c \<Longrightarrow>
    run ok cfg (Suc n) (opened_attempt am cs @ FxFinished (et_id (am_target am)) (am_account am) (FoFailed c) # ks) e"
| run_committed: "ok (et_id (am_target am)) (am_account am) \<Longrightarrow> retries_ok cfg cs \<Longrightarrow>
    run ok cfg (Suc 0) (opened_attempt am cs @ [FxFinished (et_id (am_target am)) (am_account am) o']) Committed"
| run_rejected: "run ok cfg 0 [] Committed"
| run_streaming: "ok (et_id (am_target am)) (am_account am) \<Longrightarrow> retries_ok cfg cs \<Longrightarrow>
    run ok cfg (Suc 0) (opened_attempt am cs) (Streaming (et_id (am_target am)) (am_account am))"

lemma run_append:
  assumes "run ok cfg n ks e" and "e = Exhausted" and "run ok cfg n' ks' e'"
  shows "run ok cfg (n + n') (ks @ ks') e'"
  using assms
proof (induction rule: run.induct)
  case (run_failed n ks e am cs c)
  then show ?case
    using run.run_failed [of ok cfg "n + n'" "ks @ ks'" e' am cs c] by simp
qed simp_all

lemma run_mono:
  assumes "run ok cfg n ks e" and "\<And>t a. ok t a \<Longrightarrow> ok' t a"
  shows "run ok' cfg n ks e"
  using assms(1) by (induction rule: run.induct) (auto intro: run.intros assms(2))

text \<open>What the result of an attempt says about its events.\<close>

fun result_end :: "'j attempt_result \<Rightarrow> run_end" where
  "result_end (TryNext e) = Exhausted"
| "result_end (Return (OutStream m am s)) = Streaming (et_id (am_target am)) (am_account am)"
| "result_end (Return _) = Committed"

lemma attempt_failed_keys:
  "keys (snd (attempt_failed w cfg req t summary am error eg)) =
     keys eg @ [FxFinished (et_id (am_target am)) (am_account am) (FoFailed (ae_class error))]"
  "fst (attempt_failed w cfg req t summary am error eg) =
     (if should_fallback (ae_class error) then TryNext error else Return (OutError (upstream_error error summary)))"
  by (simp_all add: attempt_failed_def Let_def split_beta key_facts attempt_ctx_of_def adapter_should_fallback_def)

lemma attempt_collected_keys:
  "\<exists>o'. keys (snd (attempt_collected w cfg req t summary scoped am response eg)) =
     keys eg @ [FxFinished (et_id (am_target am)) (am_account am) o']"
  "result_end (fst (attempt_collected w cfg req t summary scoped am response eg)) = Committed"
  by (auto simp: attempt_collected_def record_usage_def Let_def split_beta key_facts attempt_ctx_of_def
      split: sum.splits)

lemma run_attempt_run:
  assumes "ok (et_id (am_target am)) (am_account am)"
  shows "\<exists>ks. keys (snd (run_attempt js w cfg req t summary scoped am eg)) = keys eg @ ks
    \<and> run ok cfg (Suc 0) ks (result_end (fst (run_attempt js w cfg req t summary scoped am eg)))"
proof -
  let ?d = "dispatch w req am eg"
  let ?r = "retry_loop w cfg req am 0 (fst ?d) (snd ?d)"
  let ?fin = "\<lambda>o'. FxFinished (et_id (am_target am)) (am_account am) o'"
  obtain cs where "keys (snd ?r) = keys (snd ?d) @ tl (opened_attempt am cs)" and cs: "retries_ok cfg cs"
    using retry_loop_keys [of w cfg req am 0 "fst ?d" "snd ?d"] by (auto simp: retries_ok_def)
  then have ks: "keys (snd ?r) = keys eg @ opened_attempt am cs"
    by (simp add: key_facts opened_attempt_def Let_def)
  have failed: ?thesis if "run_attempt js w cfg req t summary scoped am eg =
      attempt_failed w cfg req t summary am error (snd ?r)" for error
    using that ks run_failed [of ok cfg 0 "[]" Exhausted am cs] run_committed [of ok am cfg cs] run_none assms cs
    by (auto simp: attempt_failed_keys)
  show ?thesis
  proof (cases "fst ?r")
    case (Inl error)
    then show ?thesis
      by (intro failed [of error]) (simp add: run_attempt_def Let_def split_beta)
  next
    case (Inr stream)
    show ?thesis
    proof (cases "req_stream req")
      case True
      have eq: "run_attempt js w cfg req t summary scoped am eg =
          attempt_streamed w cfg req t summary am stream (snd ?r)"
        using Inr True by (simp add: run_attempt_def Let_def split_beta)
      show ?thesis
      proof (cases "precommit_stream stream")
        case (Inl error)
        then show ?thesis
          by (intro failed [of error]) (simp add: eq attempt_streamed_def)
      next
        case (Inr committed)
        then show ?thesis
          using ks run_streaming [of ok am cfg cs] assms cs by (auto simp: eq attempt_streamed_def key_facts)
      qed
    next
      case False
      show ?thesis
      proof (cases "collect_response js stream (req_id req) (req_model req) (xc_max_response_bytes cfg)")
        case (Inl error)
        then show ?thesis
          using Inr False by (intro failed [of error]) (simp add: run_attempt_def Let_def split_beta)
      next
        case (Inr response)
        have eq: "run_attempt js w cfg req t summary scoped am eg =
            attempt_collected w cfg req t summary scoped am response (snd ?r)"
          using Inr \<open>fst ?r = Inr stream\<close> False by (simp add: run_attempt_def Let_def split_beta)
        obtain o' where "keys (snd (run_attempt js w cfg req t summary scoped am eg)) = keys (snd ?r) @ [?fin o']"
          unfolding eq using attempt_collected_keys(1) by blast
        then show ?thesis
          using ks run_committed [of ok am cfg cs] assms cs
          by (auto simp: eq attempt_collected_keys(2))
      qed
    qed
  qed
qed

lemma schema_rejected_keys:
  "keys (snd (schema_rejected w req t summary am warning eg)) = keys eg"
  "result_end (fst (schema_rejected w req t summary am warning eg)) = Committed"
  by (simp_all add: schema_rejected_def Let_def split_beta key_facts)

lemma try_account_run:
  assumes "ok (et_id target) account"
  shows "\<exists>ks n. keys (snd (try_account js w cfg req t summary scoped target account lease eg)) = keys eg @ ks
    \<and> n \<le> 1 \<and> run ok cfg n ks (result_end (fst (try_account js w cfg req t summary scoped target account lease eg)))"
proof -
  define eg1 where "eg1 = snd (read_clock (wd_clock w) eg)"
  let ?eid = "case wd_select_egress w req (et_id target) of Some e \<Rightarrow> Some e
    | None \<Rightarrow> resolve_egress (xc_providers cfg) (xc_default_egress cfg) (et_provider_id target) account"
  define am where "am = \<lparr>am_target = target, am_account = account, am_lease = lease, am_egress_id = ?eid,
     am_egress = wd_effective_egress w ?eid, am_started = fst (read_clock (wd_clock w) eg), am_quality = False\<rparr>"
  let ?fresh = "fresh_lease (wd_host w (eg_tick eg1)) (wd_live w (eg_tick eg1)) (eg_resolver eg1)
     (et_provider_id target) account lease"
  let ?ws = "wd_request_warnings w req target"
  let ?eg2 = "fold (\<lambda>x. emit (FxTraceWarning (et_id target @ '': '' @ x))) ?ws eg1"
  have keys: "keys eg1 = keys eg" "keys ?eg2 = keys eg"
    by (simp_all add: eg1_def key_facts keys_fold_emit)
  note unfold = try_account_def Let_def split_beta eg1_def [symmetric] am_def [symmetric]
  show ?thesis
  proof (cases ?fresh)
    case (Inl e)
    have "keys (snd (try_account js w cfg req t summary scoped target account lease eg)) = keys eg"
      and "result_end (fst (try_account js w cfg req t summary scoped target account lease eg)) = Exhausted"
      using keys by (simp_all add: unfold Inl key_facts)
    then show ?thesis
      using run_none by force
  next
    case (Inr fresh)
    let ?am = "am\<lparr>am_lease := fresh\<rparr>"
    show ?thesis
    proof (cases "if xc_strict_schema_downlevel cfg then high_lossiness_schema_warning ?ws else None")
      case (Some warning)
      have "try_account js w cfg req t summary scoped target account lease eg = schema_rejected w req t summary ?am warning ?eg2"
        by (simp add: unfold Inr Some)
      then show ?thesis
        using keys(2) schema_rejected_keys [of w req t summary ?am warning ?eg2] run_rejected by force
    next
      case None
      have "try_account js w cfg req t summary scoped target account lease eg = run_attempt js w cfg req t summary scoped ?am ?eg2"
        by (simp add: unfold Inr None)
      moreover have "ok (et_id (am_target ?am)) (am_account ?am)"
        using assms by (simp add: am_def)
      ultimately show ?thesis
        using keys(2) run_attempt_run [of ok ?am js w cfg req t summary scoped ?eg2] by force
    qed
  qed
qed

section \<open>The loops\<close>

fun exit_end :: "'j loop_exit \<Rightarrow> run_end" where
  "exit_end (LoopNext e u) = Exhausted"
| "exit_end (LoopReturn out) = result_end (Return out)"

definition admits :: "(string \<rightharpoonup> 'k provider_accounts) \<Rightarrow> execution_target \<Rightarrow> string set option \<Rightarrow> string \<Rightarrow> string \<Rightarrow> bool"
  where
  "admits pools' target allowed t a \<longleftrightarrow> t = et_id target \<and> in_allowed allowed a
     \<and> (\<exists>pa. pools' (et_provider_id target) = Some pa \<and> a \<in> ac_id ` set (pa_accounts pa))"

lemma ask_account_admits:
  assumes "ask_account js w req target allowed tried eg = (Selected i lease, eg1)"
  shows "admits (pools eg) target allowed (et_id target) i" and "keys eg1 = keys eg" and "pools eg1 = pools eg"
proof -
  note sel = ask_account_selected [OF assms]
  show "admits (pools eg) target allowed (et_id target) i"
    using resolve_selected [OF conjunct1 [OF sel]] by (auto simp: admits_def permitted_def)
  show "keys eg1 = keys eg"
    using conjunct2 [OF sel] keys_update by metis
  show "pools eg1 = pools eg"
    using ask_account_pools [of js w req target allowed tried eg] assms by simp
qed

lemma account_loop_run:
  "\<exists>ks n. keys (snd (account_loop js w cfg req t summary scoped target allowed tried last_err unavailable eg)) = keys eg @ ks
    \<and> n \<le> untried eg (et_provider_id target) tried
    \<and> run (admits (pools eg) target allowed) cfg n ks
        (exit_end (fst (account_loop js w cfg req t summary scoped target allowed tried last_err unavailable eg)))"
proof (induction js w cfg req t summary scoped target allowed tried last_err unavailable eg rule: account_loop.induct)
  case (1 js w cfg req t summary scoped target allowed tried last_err unavailable eg)
  let ?ok = "admits (pools eg) target allowed"
  obtain out eg1 where ask: "ask_account js w req target allowed tried eg = (out, eg1)"
    by (cases "ask_account js w req target allowed tried eg")
  show ?case
  proof (cases "\<exists>i lease. out = Selected i lease")
    case False
    have "keys eg1 = keys (snd (ask_account js w req target allowed tried eg))"
      by (simp add: ask)
    then have "keys eg1 = keys eg"
      by (simp add: ask_account_def Let_def split_beta key_facts)
    with False ask show ?thesis
      by (subst (1 2) account_loop.simps) (cases out, auto intro: run_none)
  next
    case True
    then obtain i lease where sel: "ask_account js w req target allowed tried eg = (Selected i lease, eg1)"
      using ask by blast
    note adm = ask_account_admits [OF sel]
    obtain res eg2 where res: "try_account js w cfg req t summary scoped target i lease eg1 = (res, eg2)"
      by (cases "try_account js w cfg req t summary scoped target i lease eg1")
    obtain ks n where ks: "keys eg2 = keys eg @ ks" "n \<le> 1" "run ?ok cfg n ks (result_end res)"
      using try_account_run [of ?ok target i js w cfg req t summary scoped lease eg1] adm(1) res adm(2) by auto
    show ?thesis
    proof (cases res)
      case (Return out')
      have "0 < untried eg (et_provider_id target) tried"
        using ask_account_selects [OF sel] resolver.sel_fresh [of "et_provider_id target"]
        by (fastforce simp: untried_def resolver.left_def filter_empty_conv)
      then show ?thesis
        using ks sel res Return
        by (subst (1 2) account_loop.simps) (auto intro!: exI [of _ ks] exI [of _ n])
    next
      case (TryNext error)
      have pools2: "pools eg2 = pools eg"
        using try_account_pools [of js w cfg req t summary scoped target i lease eg1] res adm(3) by simp
      have dec: "untried eg2 (et_provider_id target) (insert i tried) < untried eg (et_provider_id target) tried"
        using account_loop_decreases [OF sel] res TryNext by simp
      obtain ks' n' where rest: "keys (snd (account_loop js w cfg req t summary scoped target allowed (insert i tried)
            (Some error) unavailable eg2)) = keys eg2 @ ks'"
          "n' \<le> untried eg2 (et_provider_id target) (insert i tried)"
          "run ?ok cfg n' ks' (exit_end (fst (account_loop js w cfg req t summary scoped target allowed
            (insert i tried) (Some error) unavailable eg2)))"
        using 1 [OF sel [symmetric] refl, of res eg2 error] res TryNext pools2 by auto
      have "run ?ok cfg (n + n') (ks @ ks') (exit_end (fst (account_loop js w cfg req t summary scoped target allowed
            (insert i tried) (Some error) unavailable eg2)))"
        using run_append [OF ks(3) _ rest(3)] TryNext by simp
      moreover have "n + n' \<le> untried eg (et_provider_id target) tried"
        using ks(2) rest(2) dec by linarith
      ultimately show ?thesis
        using ks(1) rest(1) sel res TryNext
        by (subst (1 2) account_loop.simps) (auto intro!: exI [of _ "ks @ ks'"] exI [of _ "n + n'"])
    qed
  qed
qed

lemma target_gate_frame:
  "keys (snd (target_gate w cfg target eg)) = keys eg"
  "pools (snd (target_gate w cfg target eg)) = pools eg"
  by (auto simp: target_gate_def Let_def split_beta key_facts pool_frame split: option.splits sum.splits)

lemma account_loop_pools [pool_frame]:
  "pools (snd (account_loop js w cfg req t summary scoped target allowed tried last_err unavailable eg)) = pools eg"
proof (induction js w cfg req t summary scoped target allowed tried last_err unavailable eg rule: account_loop.induct)
  case (1 js w cfg req t summary scoped target allowed tried last_err unavailable eg)
  obtain out eg1 where ask: "ask_account js w req target allowed tried eg = (out, eg1)"
    by (cases "ask_account js w req target allowed tried eg")
  have eg1: "pools eg1 = pools eg"
    using ask_account_pools [of js w req target allowed tried eg] ask by simp
  show ?case
  proof (cases out)
    case (Selected i lease)
    obtain res eg2 where res: "try_account js w cfg req t summary scoped target i lease eg1 = (res, eg2)"
      by (cases "try_account js w cfg req t summary scoped target i lease eg1")
    then have "pools eg2 = pools eg"
      using try_account_pools [of js w cfg req t summary scoped target i lease eg1] eg1 by simp
    then show ?thesis
      using 1 [OF ask [symmetric] Selected, of res eg2] res Selected ask
      by (subst account_loop.simps) (cases res, simp_all)
  qed (subst account_loop.simps, simp add: ask eg1)+
qed

text \<open>Which target and account a request may dispatch to.\<close>

definition may_dispatch ::
  "'w exec_config \<Rightarrow> 'j ai_request \<Rightarrow> client_profile_config option \<Rightarrow> (string \<rightharpoonup> 'k provider_accounts)
    \<Rightarrow> execution_target list \<Rightarrow> string \<Rightarrow> string \<Rightarrow> bool" where
  "may_dispatch cfg req profile pools' targets t a \<longleftrightarrow>
     (\<exists>target \<in> set targets. admits pools' target
        (request_allowed_accounts (xc_tenants cfg) req profile (et_provider_id target)) t a)"

definition pool_size :: "(string \<rightharpoonup> 'k provider_accounts) \<Rightarrow> execution_target \<Rightarrow> nat" where
  "pool_size pools' target = (case pools' (et_provider_id target) of Some pa \<Rightarrow> length (pa_accounts pa) | None \<Rightarrow> 0)"

lemma untried_all: "untried eg (et_provider_id target) {} = pool_size (pools eg) target"
  unfolding untried_def resolver.left_def
  by (simp add: account_ids_def pool_size_def split: option.splits)

lemma target_loop_run:
  "\<exists>ks n. keys (snd (target_loop js w cfg req profile t summary scoped targets last_err unavailable eg)) = keys eg @ ks
    \<and> n \<le> sum_list (map (pool_size (pools eg)) targets)
    \<and> run (may_dispatch cfg req profile (pools eg) targets) cfg n ks
        (exit_end (fst (target_loop js w cfg req profile t summary scoped targets last_err unavailable eg)))"
proof (induction targets arbitrary: last_err unavailable eg)
  case Nil
  show ?case using run_none by force
next
  case (Cons target targets)
  let ?ok = "may_dispatch cfg req profile (pools eg) (target # targets)"
  let ?allowed = "request_allowed_accounts (xc_tenants cfg) req profile (et_provider_id target)"
  obtain g eg1 where gate: "target_gate w cfg target eg = (g, eg1)"
    by (cases "target_gate w cfg target eg")
  have eg1: "keys eg1 = keys eg" "pools eg1 = pools eg"
    using target_gate_frame [of w cfg target eg] gate by simp_all
  have later: "run ?ok cfg n ks e" if "run (may_dispatch cfg req profile (pools eg) targets) cfg n ks e" for n ks e
    using that by (rule run_mono) (auto simp: may_dispatch_def)
  show ?case
  proof (cases g)
    case GateSkip
    obtain ks n where
        "keys (snd (target_loop js w cfg req profile t summary scoped targets last_err unavailable eg1)) = keys eg @ ks"
        "n \<le> sum_list (map (pool_size (pools eg)) targets)"
        "run (may_dispatch cfg req profile (pools eg) targets) cfg n ks
          (exit_end (fst (target_loop js w cfg req profile t summary scoped targets last_err unavailable eg1)))"
      using Cons.IH [of last_err unavailable eg1] eg1 by auto
    with GateSkip gate later show ?thesis
      by (intro exI [of _ ks] exI [of _ n]) (simp add: trans_le_add2)
  next
    case (GateStop e)
    then show ?thesis
      using gate eg1 run_rejected [of ?ok cfg] by force
  next
    case GateOpen
    let ?loop = "account_loop js w cfg req t summary scoped target ?allowed {} last_err unavailable eg1"
    obtain ks n where ks: "keys (snd ?loop) = keys eg @ ks" "n \<le> pool_size (pools eg) target"
        "run (admits (pools eg) target ?allowed) cfg n ks (exit_end (fst ?loop))"
      using account_loop_run [of js w cfg req t summary scoped target ?allowed "{}" last_err unavailable eg1] eg1
      by (auto simp: untried_all)
    have here: "run ?ok cfg n ks (exit_end (fst ?loop))"
      using ks(3) by (rule run_mono) (auto simp: may_dispatch_def)
    show ?thesis
    proof (cases "fst ?loop")
      case (LoopReturn out)
      then show ?thesis
        using gate GateOpen ks here by (auto simp: split_beta intro!: exI [of _ ks] exI [of _ n])
    next
      case (LoopNext le un)
      obtain ks' n' where rest:
          "keys (snd (target_loop js w cfg req profile t summary scoped targets le un (snd ?loop))) = keys (snd ?loop) @ ks'"
          "n' \<le> sum_list (map (pool_size (pools eg)) targets)"
          "run (may_dispatch cfg req profile (pools eg) targets) cfg n' ks'
            (exit_end (fst (target_loop js w cfg req profile t summary scoped targets le un (snd ?loop))))"
        using Cons.IH [of le un "snd ?loop"] eg1(2) by (auto simp: pool_frame)
      have "run ?ok cfg (n + n') (ks @ ks')
          (exit_end (fst (target_loop js w cfg req profile t summary scoped targets le un (snd ?loop))))"
        using run_append [OF here _ later [OF rest(3)]] LoopNext by simp
      then show ?thesis
        using gate GateOpen LoopNext ks(1,2) rest(1,2)
        by (auto simp: split_beta intro!: exI [of _ "ks @ ks'"] exI [of _ "n + n'"] add_mono)
    qed
  qed
qed

text \<open>What the events of a whole request look like.\<close>

lemma execute_plan_keys:
  "keys (snd (execute_plan js w cfg req profile t scoped plan unknown summary eg)) =
     keys (snd (target_loop js w cfg req profile t summary scoped (plan_candidates plan) None None eg))"
  by (auto simp: execute_plan_def key_facts split: prod.splits loop_exit.splits option.splits)

lemma execute_plan_run:
  "\<exists>ks n. keys (snd (execute_plan js w cfg req profile t scoped plan unknown summary eg)) = keys eg @ ks
    \<and> n \<le> sum_list (map (pool_size (pools eg)) (plan_candidates plan))
    \<and> (\<exists>e. run (may_dispatch cfg req profile (pools eg) (plan_candidates plan)) cfg n ks e
        \<and> (case fst (execute_plan js w cfg req profile t scoped plan unknown summary eg) of
              OutStream m am s \<Rightarrow> e = Streaming (et_id (am_target am)) (am_account am)
            | _ \<Rightarrow> e = Committed \<or> e = Exhausted))"
proof -
  let ?loop = "target_loop js w cfg req profile t summary scoped (plan_candidates plan) None None eg"
  obtain ks n where ks: "keys (snd ?loop) = keys eg @ ks" "n \<le> sum_list (map (pool_size (pools eg)) (plan_candidates plan))"
      "run (may_dispatch cfg req profile (pools eg) (plan_candidates plan)) cfg n ks (exit_end (fst ?loop))"
    using target_loop_run [of js w cfg req profile t summary scoped "plan_candidates plan" None None eg] by auto
  note execute_plan_keys [of js w cfg req profile t scoped plan unknown summary eg]
  moreover have "case fst (execute_plan js w cfg req profile t scoped plan unknown summary eg) of
        OutStream m am s \<Rightarrow> exit_end (fst ?loop) = Streaming (et_id (am_target am)) (am_account am)
      | _ \<Rightarrow> exit_end (fst ?loop) = Committed \<or> exit_end (fst ?loop) = Exhausted"
    by (auto simp: execute_plan_def split: prod.splits loop_exit.splits option.splits exec_outcome.splits)
  ultimately show ?thesis
    using ks by auto
qed

section \<open>The properties\<close>

text \<open>The dispatches and finishes that one request adds to the log.\<close>

definition request_events ::
  "'j json_api \<Rightarrow> ('j, 'k) world \<Rightarrow> 'w exec_config \<Rightarrow> 'j ai_request \<Rightarrow> client_profile_config option \<Rightarrow> instant
    \<Rightarrow> bool \<Rightarrow> 'rc route_plan \<Rightarrow> string list \<Rightarrow> string \<Rightarrow> 'k engine \<Rightarrow> effect list" where
  "request_events js w cfg req profile t scoped plan unknown summary eg =
     drop (length (keys eg)) (keys (snd (execute_plan js w cfg req profile t scoped plan unknown summary eg)))"

lemma request_events_run:
  obtains n e where
    "keys (snd (execute_plan js w cfg req profile t scoped plan unknown summary eg)) =
       keys eg @ request_events js w cfg req profile t scoped plan unknown summary eg"
    "n \<le> sum_list (map (pool_size (pools eg)) (plan_candidates plan))"
    "run (may_dispatch cfg req profile (pools eg) (plan_candidates plan)) cfg n
       (request_events js w cfg req profile t scoped plan unknown summary eg) e"
    "case fst (execute_plan js w cfg req profile t scoped plan unknown summary eg) of
        OutStream m am s \<Rightarrow> e = Streaming (et_id (am_target am)) (am_account am)
      | _ \<Rightarrow> e = Committed \<or> e = Exhausted"
proof -
  obtain ks n e where "keys (snd (execute_plan js w cfg req profile t scoped plan unknown summary eg)) = keys eg @ ks"
    and "n \<le> sum_list (map (pool_size (pools eg)) (plan_candidates plan))"
    and "run (may_dispatch cfg req profile (pools eg) (plan_candidates plan)) cfg n ks e"
    and "case fst (execute_plan js w cfg req profile t scoped plan unknown summary eg) of
        OutStream m am s \<Rightarrow> e = Streaming (et_id (am_target am)) (am_account am)
      | _ \<Rightarrow> e = Committed \<or> e = Exhausted"
    using execute_plan_run [of js w cfg req profile t scoped plan unknown summary eg] by blast
  then show thesis
    by (intro that [of n e]) (simp_all add: request_events_def)
qed

lemma opened_attempt_dispatches:
  "FxDispatch t a l e \<in> set (opened_attempt am cs) \<Longrightarrow> t = et_id (am_target am) \<and> a = am_account am"
  "length (filter is_dispatch (opened_attempt am cs)) = Suc (length cs)"
  by (auto simp: opened_attempt_def Let_def) (induction cs, simp_all)

lemma run_dispatches_ok: "run ok cfg n ks e \<Longrightarrow> FxDispatch t a l eg \<in> set ks \<Longrightarrow> ok t a"
  by (induction rule: run.induct) (auto dest: opened_attempt_dispatches(1))

lemma run_dispatches_bound:
  "run ok cfg n ks e \<Longrightarrow> length (filter is_dispatch ks) \<le> n * Suc (unat (xc_retry_max cfg))"
  by (induction rule: run.induct) (auto simp: opened_attempt_dispatches(2) retries_ok_def intro: add_mono)

text \<open>
  Account isolation. Whatever the adapters, the clock and the health of the accounts do,
  every dispatch of a request goes to a planned target, with an account of that target's
  provider that the tenant's and the client profile's allow-lists both admit.
\<close>

theorem dispatches_stay_in_scope:
  assumes "FxDispatch t a l e \<in> set (request_events js w cfg req profile started scoped plan unknown summary eg)"
  shows "\<exists>target \<in> set (plan_candidates plan). t = et_id target
    \<and> in_allowed (request_allowed_accounts (xc_tenants cfg) req profile (et_provider_id target)) a
    \<and> a \<in> set (account_ids (eg_resolver eg) (et_provider_id target))"
proof -
  obtain n e' where "run (may_dispatch cfg req profile (pools eg) (plan_candidates plan)) cfg n
      (request_events js w cfg req profile started scoped plan unknown summary eg) e'"
    by (rule request_events_run)
  from run_dispatches_ok [OF this assms] show ?thesis
    by (fastforce simp: may_dispatch_def admits_def account_ids_def)
qed

text \<open>
  Fallback is bounded. The loop dispatches at most once per account of each planned
  target, plus the configured retries of each attempt, so the loop cannot hammer a provider.
\<close>

theorem loop_dispatches_bounded:
  "length (filter is_dispatch (request_events js w cfg req profile started scoped plan unknown summary eg))
     \<le> sum_list (map (\<lambda>target. length (account_ids (eg_resolver eg) (et_provider_id target))) (plan_candidates plan))
        * Suc (unat (xc_retry_max cfg))"
proof -
  obtain n e where n: "n \<le> sum_list (map (pool_size (pools eg)) (plan_candidates plan))"
    and "run (may_dispatch cfg req profile (pools eg) (plan_candidates plan)) cfg n
      (request_events js w cfg req profile started scoped plan unknown summary eg) e"
    by (rule request_events_run)
  from run_dispatches_bound [OF this(2)]
  have "length (filter is_dispatch (request_events js w cfg req profile started scoped plan unknown summary eg))
      \<le> n * Suc (unat (xc_retry_max cfg))" .
  also have "\<dots> \<le> sum_list (map (pool_size (pools eg)) (plan_candidates plan)) * Suc (unat (xc_retry_max cfg))"
    using n by (rule mult_le_mono1)
  also have "pool_size (pools eg) = (\<lambda>target. length (account_ids (eg_resolver eg) (et_provider_id target)))"
    by (auto simp: pool_size_def account_ids_def split: option.splits)
  finally show ?thesis .
qed

text \<open>
  The attempt that is open after a sequence of events, and \<open>None\<close> when an attempt was
  dispatched over an open one, finished twice, or finished without being dispatched.
\<close>

fun open_after :: "(string \<times> string) option \<Rightarrow> effect list \<Rightarrow> (string \<times> string) option option" where
  "open_after st [] = Some st"
| "open_after None (FxDispatch t a l e # ks) = open_after (Some (t, a)) ks"
| "open_after (Some (t, a)) (FxFinished t' a' o' # ks) = (if t' = t \<and> a' = a then open_after None ks else None)"
| "open_after st (_ # ks) = None"

lemma open_after_append:
  "open_after st (xs @ ys) = (case open_after st xs of Some st' \<Rightarrow> open_after st' ys | None \<Rightarrow> None)"
  by (induction st xs rule: open_after.induct) simp_all

lemma open_after_opened:
  "open_after None (opened_attempt am cs) = Some (Some (et_id (am_target am), am_account am))"
proof (induction cs rule: rev_induct)
  case (snoc c cs)
  have "opened_attempt am (cs @ [c]) = opened_attempt am cs
      @ [FxFinished (et_id (am_target am)) (am_account am) (FoFailed c),
         FxDispatch (et_id (am_target am)) (am_account am) (am_lease am) (am_egress_id am)]"
    by (simp add: opened_attempt_def Let_def)
  then show ?case
    by (simp add: open_after_append snoc.IH)
qed (simp add: opened_attempt_def)

lemma run_open_after:
  "run ok cfg n ks e \<Longrightarrow> open_after None ks = Some (case e of Streaming t a \<Rightarrow> Some (t, a) | _ \<Rightarrow> None)"
  by (induction rule: run.induct) (simp_all add: open_after_append open_after_opened)

lemma keys_stream_finished [key_facts]:
  "\<exists>o'. keys (stream_finished w cfg req started am report eg) =
     keys eg @ [FxFinished (et_id (am_target am)) (am_account am) o']"
  by (auto simp: stream_finished_def Let_def split_beta key_facts attempt_ctx_of_def split: prod.splits stream_finish.splits)

text \<open>
  Every attempt of the loop is finished exactly once. The scorecard, the breaker and the plugins see
  one terminal event per dispatch, before the next dispatch starts; the only attempt the loop
  leaves open is the one whose stream it returns, and the meter's single report closes it.
\<close>

theorem loop_finishes_attempts:
  "case fst (execute_plan js w cfg req profile started scoped plan unknown summary eg) of
     OutStream m am s \<Rightarrow>
       open_after None (request_events js w cfg req profile started scoped plan unknown summary eg)
         = Some (Some (et_id (am_target am), am_account am))
       \<and> open_after None (drop (length (keys eg)) (keys (stream_finished w cfg req started am report
           (snd (execute_plan js w cfg req profile started scoped plan unknown summary eg))))) = Some None
   | _ \<Rightarrow> open_after None (request_events js w cfg req profile started scoped plan unknown summary eg) = Some None"
proof -
  let ?x = "execute_plan js w cfg req profile started scoped plan unknown summary eg"
  let ?ks = "request_events js w cfg req profile started scoped plan unknown summary eg"
  obtain n e where keys: "keys (snd ?x) = keys eg @ ?ks"
    and run: "run (may_dispatch cfg req profile (pools eg) (plan_candidates plan)) cfg n ?ks e"
    and e: "case fst ?x of OutStream m am s \<Rightarrow> e = Streaming (et_id (am_target am)) (am_account am)
      | _ \<Rightarrow> e = Committed \<or> e = Exhausted"
    by (rule request_events_run)
  note opn = run_open_after [OF run]
  show ?thesis
  proof (cases "fst ?x")
    case (OutStream m am s)
    obtain o' where "keys (stream_finished w cfg req started am report (snd ?x)) =
        keys (snd ?x) @ [FxFinished (et_id (am_target am)) (am_account am) o']"
      using keys_stream_finished by blast
    then show ?thesis
      using OutStream e opn keys by (simp add: open_after_append)
  qed (use e opn in auto)
qed

lemma retryable_falls_over: "retryable c \<Longrightarrow> should_fallback c"
  by (auto simp: retryable_def should_fallback_def)

text \<open>A failure after which the loops may go on.\<close>

fun may_go_on :: "effect \<Rightarrow> bool" where
  "may_go_on (FxFinished t a (FoFailed c)) = should_fallback c"
| "may_go_on (FxFinished t a o') = False"
| "may_go_on _ = True"

lemma opened_attempt_goes_on: "retries_ok cfg cs \<Longrightarrow> x \<in> set (opened_attempt am cs) \<Longrightarrow> may_go_on x"
  by (auto simp: opened_attempt_def Let_def retries_ok_def retryable_falls_over)

lemma run_goes_on: "run ok cfg n ks e \<Longrightarrow> x \<in> set (butlast ks) \<Longrightarrow> may_go_on x"
  by (induction rule: run.induct)
    (auto simp: butlast_append opened_attempt_goes_on split: if_splits dest: in_set_butlastD)

text \<open>
  Nothing follows a final outcome of the loop. Once an attempt succeeded, or failed with an error
  that would fail the same way anywhere, the loop dispatches nothing more: every event but the
  last is a dispatch or a failure whose class allows falling over.
\<close>

theorem loop_final_stops:
  assumes "request_events js w cfg req profile started scoped plan unknown summary eg = xs @ FxFinished t a o' # ys"
    and "ys \<noteq> []"
  shows "\<exists>c. o' = FoFailed c \<and> should_fallback c"
proof -
  obtain n e where "run (may_dispatch cfg req profile (pools eg) (plan_candidates plan)) cfg n
      (request_events js w cfg req profile started scoped plan unknown summary eg) e"
    by (rule request_events_run)
  from run_goes_on [OF this, of "FxFinished t a o'"] assms have "may_go_on (FxFinished t a o')"
    by (simp add: butlast_append)
  then show ?thesis
    by (cases o') auto
qed

text \<open>The events of a request, target by target.\<close>

fun event_target :: "effect \<Rightarrow> string" where
  "event_target (FxDispatch t a l e) = t"
| "event_target (FxFinished t a o') = t"
| "event_target _ = []"

definition served_in_order :: "execution_target list \<Rightarrow> effect list \<Rightarrow> bool" where
  "served_in_order targets ks \<longleftrightarrow>
     (\<exists>segments. ks = concat segments \<and> list_all2 (\<lambda>target. list_all (\<lambda>x. event_target x = et_id target)) targets segments)"

lemma served_in_order_simps:
  "served_in_order targets []"
  "list_all (\<lambda>x. event_target x = et_id target) ks \<Longrightarrow> served_in_order targets ks'
    \<Longrightarrow> served_in_order (target # targets) (ks @ ks')"
proof -
  show none: "served_in_order targets []" for targets
    unfolding served_in_order_def
    by (intro exI [of _ "replicate (length targets) []"]) (simp add: list_all2_conv_all_nth)
  show "served_in_order (target # targets) (ks @ ks')"
    if "list_all (\<lambda>x. event_target x = et_id target) ks" and "served_in_order targets ks'"
    using that unfolding served_in_order_def by (metis concat.simps(2) list_all2_Cons)
qed

lemma run_one_target:
  "run ok cfg n ks e \<Longrightarrow> (\<And>t a. ok t a \<Longrightarrow> t = i) \<Longrightarrow> list_all (\<lambda>x. event_target x = i) ks"
proof (induction rule: run.induct)
  case (run_failed n ks e am cs c)
  then show ?case by (auto simp: opened_attempt_def Let_def list_all_iff)
qed (auto simp: opened_attempt_def Let_def list_all_iff)

lemma target_loop_in_order:
  "\<exists>ks. keys (snd (target_loop js w cfg req profile t summary scoped targets last_err unavailable eg)) = keys eg @ ks
    \<and> served_in_order targets ks"
proof (induction targets arbitrary: last_err unavailable eg)
  case Nil
  show ?case by (simp add: served_in_order_simps)
next
  case (Cons target targets)
  let ?allowed = "request_allowed_accounts (xc_tenants cfg) req profile (et_provider_id target)"
  obtain g eg1 where gate: "target_gate w cfg target eg = (g, eg1)"
    by (cases "target_gate w cfg target eg")
  have eg1: "keys eg1 = keys eg"
    using target_gate_frame [of w cfg target eg] gate by simp
  let ?loop = "account_loop js w cfg req t summary scoped target ?allowed {} last_err unavailable eg1"
  obtain ks n where ks: "keys (snd ?loop) = keys eg @ ks"
      "run (admits (pools eg1) target ?allowed) cfg n ks (exit_end (fst ?loop))"
    using account_loop_run [of js w cfg req t summary scoped target ?allowed "{}" last_err unavailable eg1] eg1 by auto
  have here: "list_all (\<lambda>x. event_target x = et_id target) ks"
    by (rule run_one_target [OF ks(2)]) (simp add: admits_def)
  have skip: "served_in_order targets ks' \<Longrightarrow> served_in_order (target # targets) ks'" for ks'
    using served_in_order_simps(2) [of target "[]" targets ks'] by simp
  show ?case
  proof (cases g)
    case GateSkip
    then show ?thesis using Cons.IH [of last_err unavailable eg1] gate eg1 skip by auto
  next
    case (GateStop e)
    then show ?thesis using gate eg1 by (simp add: served_in_order_simps)
  next
    case GateOpen
    show ?thesis
    proof (cases "fst ?loop")
      case (LoopReturn out)
      then show ?thesis
        using gate GateOpen ks(1) served_in_order_simps(2) [OF here served_in_order_simps(1)] by (auto simp: split_beta)
    next
      case (LoopNext le un)
      then show ?thesis
        using gate GateOpen ks(1) served_in_order_simps(2) [OF here] Cons.IH [of le un "snd ?loop"]
        by (auto simp: split_beta)
    qed
  qed
qed

text \<open>
  The plan's order is the order of fallback. The dispatches of the loop split into one
  block per planned target, in the planner's order; no target is returned to once the loop has
  moved on.
\<close>

theorem loop_in_plan_order:
  "\<exists>segments. request_events js w cfg req profile started scoped plan unknown summary eg = concat segments
    \<and> list_all2 (\<lambda>target. list_all (\<lambda>x. event_target x = et_id target)) (plan_candidates plan) segments"
proof -
  let ?loop = "target_loop js w cfg req profile started summary scoped (plan_candidates plan) None None eg"
  have "keys (snd (execute_plan js w cfg req profile started scoped plan unknown summary eg)) = keys (snd ?loop)"
    by (rule execute_plan_keys)
  then show ?thesis
    using target_loop_in_order [of js w cfg req profile started summary scoped "plan_candidates plan" None None eg]
    by (auto simp: request_events_def served_in_order_def)
qed

section \<open>Witnesses\<close>

text \<open>
  A provider with two accounts whose first dispatch fails and whose second one answers: the
  loop falls over from account \<open>a\<close> to account \<open>b\<close>.
\<close>

definition plain_json :: "unit json_api" where
  "plain_json = \<lparr>js_null = (), js_string = (\<lambda>s. ()), js_from_str = (\<lambda>s. None), js_to_string = (\<lambda>j. []),
     js_as_str = (\<lambda>j. None), js_as_object = (\<lambda>j. None)\<rparr>"

definition plain_host :: "unit host" where
  "plain_host = \<lparr>ho_env = (\<lambda>v. None), ho_read_file = (\<lambda>f. Inl f), ho_json_str = (\<lambda>j k. Inr None),
     ho_jwt_exp = (\<lambda>t. None), ho_now_unix = 0, ho_parse_key = (\<lambda>k. Inl k)\<rparr>"

definition flaky_world :: "(unit, unit) world" where
  "flaky_world = \<lparr>wd_clock = (\<lambda>n. n), wd_host = (\<lambda>n. plain_host),
     wd_live = (\<lambda>n. \<lparr>lt_kimi = (\<lambda>p a. None), lt_refresh = (\<lambda>p a. None), lt_service_account = (\<lambda>p a. None)\<rparr>),
     wd_has_adapter = (\<lambda>p. True),
     wd_dispatch = (\<lambda>n req target lease egress.
       if n = 0 then Inl (new_adapter_error RateLimited ''slow down'') else Inr [Inr (EvTextDelta ''hi'')]),
     wd_request_warnings = (\<lambda>req target. []), wd_select_egress = (\<lambda>req t. None),
     wd_effective_egress = (\<lambda>e. ''direct''), wd_provider_spend_usd = (\<lambda>n p. Inr (FFin 0)),
     wd_cost_micros = (\<lambda>p m u. 0), wd_record_usage = (\<lambda>n p m a u. Inr ())\<rparr>"

definition plain_exec :: "unit exec_config" where
  "plain_exec = \<lparr>xc_providers = [], xc_default_egress = None, xc_tenants = [], xc_per_provider_usd = [],
     xc_retry = default_retry_config, xc_retry_max = 0, xc_strict_schema_downlevel = False,
     xc_max_response_bytes = None, xc_usage_required = False, xc_scorecard = default_scorecard_config\<rparr>"

definition fresh_engine :: "unit engine" where
  "fresh_engine = \<lparr>eg_resolver = two_accounts FillFirst, eg_scorecard = new_scorecard, eg_combo_rr = Map.empty, eg_tick = 0, eg_calls = 0,
     eg_quality_capture = False, eg_effects = []\<rparr>"

definition chat :: "unit ai_request" where
  "chat = new_request ''r1'' ''chat'' []"

definition one_target_plan :: "unit route_plan" where
  "one_target_plan = \<lparr>plan_candidates = [new_target ''p'' ''m'' ModelApi], plan_decision = new_decision ''r1'' ''ordered''\<rparr>"

lemmas flaky_defs = plain_json_def plain_host_def flaky_world_def plain_exec_def fresh_engine_def chat_def
  one_target_plan_def two_accounts_defs new_request_def

lemma chat_key: "session_affinity_key plain_json chat = None"
  by code_simp

abbreviation only_target :: execution_target where
  "only_target \<equiv> new_target ''p'' ''m'' ModelApi"

definition flaky_attempt :: "string \<Rightarrow> credential_lease \<Rightarrow> nat \<Rightarrow> attempt" where
  "flaky_attempt i lease n = \<lparr>am_target = only_target, am_account = i, am_lease = lease, am_egress_id = None,
     am_egress = ''direct'', am_started = n, am_quality = False\<rparr>"

definition calm :: "string \<Rightarrow> unit engine \<Rightarrow> bool" where
  "calm i eg \<longleftrightarrow> pools eg = rs_providers (two_accounts FillFirst) \<and> rs_availability (eg_resolver eg) (''p'', i) = None"

lemmas ask_defs = calm_def ask_account_def chat_key resolve_with_session_allowed_def available_indices_def
  session_key_def sticky_index_def nonempty_str_def read_clock_def two_accounts_defs new_target_def Let_def

lemma ask_flaky:
  "calm ''a'' eg \<Longrightarrow> calm ''b'' eg \<Longrightarrow> ask_account plain_json flaky_world chat only_target None {} eg =
     (Selected ''a'' (account_lease (key_account ''a'' 1)), eg\<lparr>eg_tick := Suc (eg_tick eg)\<rparr>)"
  "calm ''b'' eg \<Longrightarrow> ask_account plain_json flaky_world chat only_target None {''a''} eg =
     (Selected ''b'' (account_lease (key_account ''b'' 2)), eg\<lparr>eg_tick := Suc (eg_tick eg)\<rparr>)"
  by (simp_all add: ask_defs)

lemma try_flaky:
  assumes "pools eg = rs_providers (two_accounts FillFirst)"
  shows "try_account plain_json flaky_world plain_exec chat 0 ''s'' False only_target i lease eg =
     run_attempt plain_json flaky_world plain_exec chat 0 ''s'' False (flaky_attempt i lease (eg_tick eg))
       (eg\<lparr>eg_tick := Suc (eg_tick eg)\<rparr>)"
  using assms by (simp add: try_account_def Let_def read_clock_def flaky_world_def plain_exec_def resolve_egress_def
      fresh_lease_def file_backed_lease_def two_accounts_defs new_target_def flaky_attempt_def)

definition hi_response :: "unit ai_response" where
  "hi_response = \<lparr>resp_id = ''r1'', resp_model = ''chat'',
     resp_message = \<lparr>msg_role = Assistant, msg_content = [CpText ''hi''], msg_cache_hint = None\<rparr>,
     resp_finish_reason = FinishStop, resp_usage = default_usage\<rparr>"

lemma collect_flaky: "collect_response plain_json [Inr (EvTextDelta ''hi'')] ''r1'' ''chat'' None = Inr hi_response"
  by (simp add: collect_response_def empty_collected_def count_bytes_def over_cap_def collected_parts_def
      hi_response_def)

lemma run_flaky:
  "eg_calls eg = 0 \<Longrightarrow> run_attempt plain_json flaky_world plain_exec chat 0 ''s'' False am eg =
     attempt_failed flaky_world plain_exec chat 0 ''s'' am (new_adapter_error RateLimited ''slow down'')
       (snd (dispatch flaky_world chat am eg))"
  "eg_calls eg = 1 \<Longrightarrow> run_attempt plain_json flaky_world plain_exec chat 0 ''s'' False am eg =
     attempt_collected flaky_world plain_exec chat 0 ''s'' False am hi_response (snd (dispatch flaky_world chat am eg))"
  using collect_flaky by (simp_all add: run_attempt_def dispatch_def flaky_world_def plain_exec_def retry_loop.simps
      chat_def new_request_def)

lemma failed_flaky:
  fixes lease n eg
  defines "eg' \<equiv> snd (attempt_failed flaky_world plain_exec chat 0 ''s'' (flaky_attempt ''a'' lease n)
    (new_adapter_error RateLimited ''slow down'') eg)"
  shows "calm ''b'' eg \<Longrightarrow> calm ''b'' eg'" and "eg_calls eg' = eg_calls eg"
  unfolding eg'_def
  by (simp_all add: attempt_failed_def finish_attempt_def trace_finish_def elapsed_ms_def read_clock_def emit_def
      Let_def split_beta calm_def pool_frame circuit_record_def resolver_report_failure_def report_failure_def
      new_adapter_error_def adapter_should_fallback_def should_fallback_def flaky_attempt_def)

lemma collected_flaky:
  "keys (snd (attempt_collected flaky_world plain_exec chat 0 ''s'' False am hi_response eg)) =
     keys eg @ [FxFinished (et_id (am_target am)) (am_account am) (FoOk FinishStop (Some 0))]"
  "fst (attempt_collected flaky_world plain_exec chat 0 ''s'' False am hi_response eg) =
     Return (OutCollected hi_response ''s'')"
  by (simp_all add: attempt_collected_def record_usage_def flaky_world_def plain_exec_def Let_def split_beta key_facts
      attempt_ctx_of_def hi_response_def)

lemma account_loop_flaky:
  assumes "calm ''a'' eg" and "calm ''b'' eg" and "eg_calls eg = 0"
  shows "\<exists>eg'. account_loop plain_json flaky_world plain_exec chat 0 ''s'' False only_target None {} None None eg =
       (LoopReturn (OutCollected hi_response ''s''), eg')
     \<and> keys eg' = keys eg @
        [FxDispatch ''p/m'' ''a'' (account_lease (key_account ''a'' 1)) None,
         FxFinished ''p/m'' ''a'' (FoFailed RateLimited),
         FxDispatch ''p/m'' ''b'' (account_lease (key_account ''b'' 2)) None,
         FxFinished ''p/m'' ''b'' (FoOk FinishStop (Some 0))]"
proof -
  let ?err = "new_adapter_error RateLimited ''slow down''"
  let ?am = "\<lambda>i k. flaky_attempt i (account_lease (key_account i k))"
  define eg1 where "eg1 = eg\<lparr>eg_tick := Suc (Suc (eg_tick eg))\<rparr>"
  define am1 where "am1 = ?am ''a'' 1 (Suc (eg_tick eg))"
  define eg2 where "eg2 = snd (attempt_failed flaky_world plain_exec chat 0 ''s'' am1 ?err (snd (dispatch flaky_world chat am1 eg1)))"
  define am2 where "am2 = ?am ''b'' 2 (Suc (eg_tick eg2))"
  define eg3 where "eg3 = snd (dispatch flaky_world chat am2 (eg2\<lparr>eg_tick := Suc (Suc (eg_tick eg2))\<rparr>))"
  have "calm ''b'' (snd (dispatch flaky_world chat am1 eg1))" "eg_calls (snd (dispatch flaky_world chat am1 eg1)) = 1"
    using assms by (simp_all add: eg1_def dispatch_def emit_def calm_def)
  then have eg2: "calm ''b'' eg2" "eg_calls eg2 = 1"
    using failed_flaky [where lease = "account_lease (key_account ''a'' 1)" and n = "Suc (eg_tick eg)"]
    by (simp_all add: eg2_def am1_def)
  have "pools eg = rs_providers (two_accounts FillFirst)" "pools eg2 = rs_providers (two_accounts FillFirst)"
    using assms eg2 by (simp_all add: calm_def)
  have first: "try_account plain_json flaky_world plain_exec chat 0 ''s'' False only_target ''a''
      (account_lease (key_account ''a'' 1)) (eg\<lparr>eg_tick := Suc (eg_tick eg)\<rparr>) = (TryNext ?err, eg2)"
    using assms eg2 try_flaky [of "eg\<lparr>eg_tick := Suc (eg_tick eg)\<rparr>"] run_flaky(1) [of eg1 am1]
    by (simp add: calm_def eg1_def [symmetric] am1_def [symmetric] eg2_def prod_eq_iff attempt_failed_keys
        should_fallback_def new_adapter_error_def) (simp add: eg1_def)
  have second: "try_account plain_json flaky_world plain_exec chat 0 ''s'' False only_target ''b''
      (account_lease (key_account ''b'' 2)) (eg2\<lparr>eg_tick := Suc (eg_tick eg2)\<rparr>) =
      attempt_collected flaky_world plain_exec chat 0 ''s'' False am2 hi_response eg3"
    using eg2 try_flaky [of "eg2\<lparr>eg_tick := Suc (eg_tick eg2)\<rparr>"]
      run_flaky(2) [of "eg2\<lparr>eg_tick := Suc (Suc (eg_tick eg2))\<rparr>" am2]
    by (simp add: calm_def am2_def [symmetric] eg3_def)
  have "keys eg3 = keys eg @ [FxDispatch ''p/m'' ''a'' (account_lease (key_account ''a'' 1)) None,
         FxFinished ''p/m'' ''a'' (FoFailed RateLimited),
         FxDispatch ''p/m'' ''b'' (account_lease (key_account ''b'' 2)) None]"
    by (simp add: eg3_def eg2_def eg1_def am1_def am2_def key_facts attempt_failed_keys flaky_attempt_def new_target_def
        new_adapter_error_def)
  moreover have "account_loop plain_json flaky_world plain_exec chat 0 ''s'' False only_target None {} None None eg =
      (LoopReturn (OutCollected hi_response ''s''),
       snd (attempt_collected flaky_world plain_exec chat 0 ''s'' False am2 hi_response eg3))"
    using assms eg2 by (simp add: account_loop.simps ask_flaky first second split_beta collected_flaky(2))
  ultimately show ?thesis
    by (simp add: collected_flaky(1) am2_def flaky_attempt_def new_target_def)
qed

lemma gate_flaky:
  "\<exists>eg1. target_gate flaky_world plain_exec only_target fresh_engine = (GateOpen, eg1)
    \<and> calm ''a'' eg1 \<and> calm ''b'' eg1 \<and> eg_calls eg1 = 0 \<and> keys eg1 = []"
  by (simp add: target_gate_def fresh_engine_def flaky_world_def plain_exec_def read_clock_def circuit_allows_def
      breaker_allows_def default_breaker_config_def new_breaker_def state_of_def set_state_def Let_def new_target_def
      default_breaker_state_def bt_get_def calm_def two_accounts_defs keys_def)

lemma flaky_events:
  "request_events plain_json flaky_world plain_exec chat None 0 False one_target_plan [] ''s'' fresh_engine =
     [FxDispatch ''p/m'' ''a'' (account_lease (key_account ''a'' 1)) None,
      FxFinished ''p/m'' ''a'' (FoFailed RateLimited),
      FxDispatch ''p/m'' ''b'' (account_lease (key_account ''b'' 2)) None,
      FxFinished ''p/m'' ''b'' (FoOk FinishStop (Some 0))]"
proof -
  obtain eg1 where gate: "target_gate flaky_world plain_exec only_target fresh_engine = (GateOpen, eg1)"
    and eg1: "calm ''a'' eg1" "calm ''b'' eg1" "eg_calls eg1 = 0" "keys eg1 = []"
    using gate_flaky by blast
  have all: "request_allowed_accounts (xc_tenants plain_exec) chat None p = None" for p
    by (simp add: request_allowed_accounts_def client_profile_allowed_accounts_def chat_def new_request_def)
  show ?thesis
    using account_loop_flaky [OF eg1(1-3)] eg1(4)
    by (auto simp: request_events_def execute_plan_def one_target_plan_def gate all) (simp_all add: keys_def fresh_engine_def)
qed

theorem dispatches_stay_in_scope_witness:
  "FxDispatch ''p/m'' ''b'' (account_lease (key_account ''b'' 2)) None
      \<in> set (request_events plain_json flaky_world plain_exec chat None 0 False one_target_plan [] ''s'' fresh_engine)
    \<and> ''b'' \<in> set (account_ids (two_accounts FillFirst) ''p'')"
proof -
  have mem: "FxDispatch ''p/m'' ''b'' (account_lease (key_account ''b'' 2)) None
      \<in> set (request_events plain_json flaky_world plain_exec chat None 0 False one_target_plan [] ''s'' fresh_engine)"
    by (simp add: flaky_events)
  from dispatches_stay_in_scope [OF mem] mem show ?thesis
    by (simp add: one_target_plan_def new_target_def fresh_engine_def)
qed

theorem loop_final_stops_witness:
  "\<exists>c. FoFailed RateLimited = FoFailed c \<and> should_fallback c"
proof -
  have "request_events plain_json flaky_world plain_exec chat None 0 False one_target_plan [] ''s'' fresh_engine =
      [FxDispatch ''p/m'' ''a'' (account_lease (key_account ''a'' 1)) None]
      @ FxFinished ''p/m'' ''a'' (FoFailed RateLimited)
      # [FxDispatch ''p/m'' ''b'' (account_lease (key_account ''b'' 2)) None,
         FxFinished ''p/m'' ''b'' (FoOk FinishStop (Some 0))]"
    by (simp add: flaky_events)
  then show ?thesis
    by (rule loop_final_stops) simp
qed

end
