(* ===== verification/Hedge.thy ===== *)
theory Hedge
  imports Execute_Facts
begin

text \<open>
  Hedged requests (\<open>sb-runtime/src/hedge.rs\<close> and their caller in \<open>execute.rs\<close>): the first
  candidates race, the first success wins and the others are dropped. A racer is the future of
  one \<open>hedge_attempt\<close>; it runs to its dispatch, which is one step with the choice of its
  account and the refresh of its lease, waits for the upstream and finishes. The race is a step
  relation that lets the racers start, fail, win and be dropped in any order, so that it covers
  the schedules of the executor and every choice of delays.
\<close>

section \<open>One racer\<close>

record hedge_config =
  hg_enabled :: bool
  hg_delay_ms :: u64
  hg_max_parallel :: u32

record 'j hedge_win =
  hw_response :: "'j ai_response"
  hw_attempt :: attempt
  hw_latency_ms :: u64
  hw_canceled :: "execution_target list"

definition hedge_width :: "hedge_config \<Rightarrow> execution_target list \<Rightarrow> usize" where
  "hedge_width hedge candidates = min (unat (max (hg_max_parallel hedge) 1)) (length candidates)"

text \<open>Up to the dispatch: no account, or no live lease, ends the racer without an attempt.\<close>

definition hedge_begin ::
  "'j json_api \<Rightarrow> ('j, 'k) world \<Rightarrow> 'w exec_config \<Rightarrow> 'j ai_request \<Rightarrow> execution_target \<Rightarrow> 'k engine
    \<Rightarrow> (attempt \<times> (adapter_error + event_stream)) option \<times> 'k engine" where
  "hedge_begin js w cfg req target eg =
     (let provider = et_provider_id target;
          (started, eg1) = read_clock (wd_clock w) eg
      in if \<not> wd_has_adapter w provider then (None, eg1)
         else let (now, eg2) = read_clock (wd_clock w) eg1;
                  (out, r) = resolve_with_session provider (et_model target) {} (session_affinity_key js req) now
                    (eg_resolver eg2);
                  eg3 = eg2\<lparr>eg_resolver := r\<rparr>
              in case out of
                   Selected account_id lease \<Rightarrow>
                     let egress_id = (case wd_select_egress w req (et_id target) of
                             Some e \<Rightarrow> Some e
                           | None \<Rightarrow> resolve_egress (xc_providers cfg) (xc_default_egress cfg) provider account_id)
                     in (case fresh_lease (wd_host w (eg_tick eg3)) (wd_live w (eg_tick eg3)) (eg_resolver eg3)
                                provider account_id lease of
                           Inl e \<Rightarrow> (None, eg3)
                         | Inr fresh \<Rightarrow>
                             let am = \<lparr>am_target = target, am_account = account_id, am_lease = fresh,
                                       am_egress_id = egress_id, am_egress = wd_effective_egress w egress_id,
                                       am_started = started, am_quality = False\<rparr>;
                                 (exec, eg4) = dispatch w req am eg3
                             in (Some (am, exec), eg4))
                 | _ \<Rightarrow> (None, eg3))"

definition hedge_finish ::
  "('j, 'k) world \<Rightarrow> 'w exec_config \<Rightarrow> 'j ai_request \<Rightarrow> attempt \<Rightarrow> finish_outcome \<Rightarrow> 'k engine \<Rightarrow> 'k engine" where
  "hedge_finish w cfg req am outcome eg =
     (let (ms, eg1) = elapsed_ms (wd_clock w) (am_started am) eg
      in finish_attempt (wd_clock w) (xc_scorecard cfg) (attempt_ctx_of req am ms) outcome eg1)"

definition hedge_failed ::
  "('j, 'k) world \<Rightarrow> 'w exec_config \<Rightarrow> 'j ai_request \<Rightarrow> attempt \<Rightarrow> adapter_error \<Rightarrow> 'k engine \<Rightarrow> 'k engine" where
  "hedge_failed w cfg req am error eg =
     (let (now, eg1) = read_clock (wd_clock w) eg;
          eg2 = eg1\<lparr>eg_resolver := snd (resolver_report_failure (et_provider_id (am_target am)) (am_account am)
                  (et_model (am_target am)) (ae_class error) now (eg_resolver eg1))\<rparr>
      in hedge_finish w cfg req am (FoFailed (ae_class error)) eg2)"

text \<open>What the upstream's answer makes of a racer: its failure, or its response.\<close>

definition hedge_answer ::
  "'j json_api \<Rightarrow> 'w exec_config \<Rightarrow> 'j ai_request \<Rightarrow> adapter_error + event_stream \<Rightarrow> adapter_error + 'j ai_response" where
  "hedge_answer js cfg req exec =
     try_with exec (\<lambda>stream. collect_response js stream (req_id req) (req_model req) (xc_max_response_bytes cfg))"

definition hedge_succeeded ::
  "('j, 'k) world \<Rightarrow> 'w exec_config \<Rightarrow> 'j ai_request \<Rightarrow> attempt \<Rightarrow> 'j ai_response \<Rightarrow> 'k engine \<Rightarrow> u64 \<times> 'k engine" where
  "hedge_succeeded w cfg req am response eg =
     (let provider = et_provider_id (am_target am);
          eg1 = eg\<lparr>eg_resolver := resolver_report_success provider (am_account am) (eg_resolver eg)\<rparr>;
          cost = wd_cost_micros w provider (et_model (am_target am)) (resp_usage response);
          (ms, eg2) = elapsed_ms (wd_clock w) (am_started am) eg1
      in (ms, hedge_finish w cfg req am (FoOk (resp_finish_reason response) (Some cost)) eg2))"

section \<open>The race\<close>

datatype racer = RWaiting execution_target | RRunning attempt "adapter_error + event_stream" | RDone

record ('j, 'k) race =
  ra_racers :: "racer list"
  ra_over :: bool
  ra_win :: "'j hedge_win option"
  ra_engine :: "'k engine"

definition start_race :: "hedge_config \<Rightarrow> execution_target list \<Rightarrow> 'k engine \<Rightarrow> ('j, 'k) race" where
  "start_race hedge candidates eg =
     \<lparr>ra_racers = map RWaiting (take (hedge_width hedge candidates) candidates), ra_over = False, ra_win = None,
      ra_engine = eg\<rparr>"

definition cancelled_by :: "execution_target list \<Rightarrow> attempt \<Rightarrow> execution_target list" where
  "cancelled_by launched am = filter (\<lambda>t. et_id t \<noteq> et_id (am_target am)) launched"

text \<open>
  While the race is open a waiting racer may start and a running one may fail or win. A win, or
  the end of the client's request, closes it; the racers still running are then dropped one
  after another, each finishing as cancelled.
\<close>

inductive race_step ::
  "'j json_api \<Rightarrow> ('j, 'k) world \<Rightarrow> 'w exec_config \<Rightarrow> 'j ai_request \<Rightarrow> execution_target list
    \<Rightarrow> ('j, 'k) race \<Rightarrow> ('j, 'k) race \<Rightarrow> bool"
  for js :: "'j json_api" and w :: "('j, 'k) world" and cfg :: "'w exec_config" and req :: "'j ai_request"
    and launched :: "execution_target list" where
  race_none: "\<not> ra_over ra \<Longrightarrow> i < length (ra_racers ra) \<Longrightarrow> ra_racers ra ! i = RWaiting t \<Longrightarrow>
    hedge_begin js w cfg req t (ra_engine ra) = (None, eg) \<Longrightarrow>
    race_step js w cfg req launched ra (ra\<lparr>ra_racers := (ra_racers ra)[i := RDone], ra_engine := eg\<rparr>)"
| race_start: "\<not> ra_over ra \<Longrightarrow> i < length (ra_racers ra) \<Longrightarrow> ra_racers ra ! i = RWaiting t \<Longrightarrow>
    hedge_begin js w cfg req t (ra_engine ra) = (Some (am, exec), eg) \<Longrightarrow>
    race_step js w cfg req launched ra (ra\<lparr>ra_racers := (ra_racers ra)[i := RRunning am exec], ra_engine := eg\<rparr>)"
| race_fail: "\<not> ra_over ra \<Longrightarrow> i < length (ra_racers ra) \<Longrightarrow> ra_racers ra ! i = RRunning am exec \<Longrightarrow>
    hedge_answer js cfg req exec = Inl error \<Longrightarrow>
    race_step js w cfg req launched ra
      (ra\<lparr>ra_racers := (ra_racers ra)[i := RDone], ra_engine := hedge_failed w cfg req am error (ra_engine ra)\<rparr>)"
| race_win: "\<not> ra_over ra \<Longrightarrow> i < length (ra_racers ra) \<Longrightarrow> ra_racers ra ! i = RRunning am exec \<Longrightarrow>
    hedge_answer js cfg req exec = Inr response \<Longrightarrow>
    hedge_succeeded w cfg req am response (ra_engine ra) = (ms, eg) \<Longrightarrow>
    race_step js w cfg req launched ra
      (ra\<lparr>ra_racers := (ra_racers ra)[i := RDone], ra_over := True,
         ra_win := Some \<lparr>hw_response = response, hw_attempt = am, hw_latency_ms = ms,
           hw_canceled = cancelled_by launched am\<rparr>, ra_engine := eg\<rparr>)"
| race_abort: "\<not> ra_over ra \<Longrightarrow> race_step js w cfg req launched ra (ra\<lparr>ra_over := True\<rparr>)"
| race_cancel: "ra_over ra \<Longrightarrow> i < length (ra_racers ra) \<Longrightarrow> ra_racers ra ! i = RRunning am exec \<Longrightarrow>
    race_step js w cfg req launched ra
      (ra\<lparr>ra_racers := (ra_racers ra)[i := RDone], ra_engine := hedge_finish w cfg req am FoCancelled (ra_engine ra)\<rparr>)"

inductive race_reaches ::
  "'j json_api \<Rightarrow> ('j, 'k) world \<Rightarrow> 'w exec_config \<Rightarrow> 'j ai_request \<Rightarrow> execution_target list
    \<Rightarrow> ('j, 'k) race \<Rightarrow> ('j, 'k) race \<Rightarrow> bool"
  for js :: "'j json_api" and w :: "('j, 'k) world" and cfg :: "'w exec_config" and req :: "'j ai_request"
    and launched :: "execution_target list" and ra :: "('j, 'k) race" where
  reaches_refl: "race_reaches js w cfg req launched ra ra"
| reaches_step: "race_reaches js w cfg req launched ra ra1 \<Longrightarrow> race_step js w cfg req launched ra1 ra2 \<Longrightarrow>
    race_reaches js w cfg req launched ra ra2"

section \<open>The caller\<close>

definition hedge_applies :: "hedge_config \<Rightarrow> bool \<Rightarrow> 'j ai_request \<Rightarrow> execution_target list \<Rightarrow> bool" where
  "hedge_applies hedge scoped req candidates \<longleftrightarrow>
     \<not> scoped \<and> hg_enabled hedge \<and> \<not> req_stream req \<and> 2 \<le> length candidates"

definition trace_canceled ::
  "(nat \<Rightarrow> instant) \<Rightarrow> instant \<Rightarrow> execution_target \<Rightarrow> 'k engine \<Rightarrow> 'k engine" where
  "trace_canceled clock started t eg =
     (let (ms, eg1) = elapsed_ms clock started eg
      in emit (FxTraceAttempt \<lparr>ta_target_id = et_id t, ta_provider_id = et_provider_id t, ta_model = et_model t,
           ta_account_id = ''unknown'', ta_egress = ''unknown'', ta_latency_ms = ms,
           ta_outcome = TraceFailed ''hedge_cancelled'' False\<rparr>) eg1)"

definition hedge_committed ::
  "('j, 'k) world \<Rightarrow> 'w exec_config \<Rightarrow> instant \<Rightarrow> string \<Rightarrow> 'j hedge_win \<Rightarrow> 'k engine \<Rightarrow> 'j exec_outcome \<times> 'k engine" where
  "hedge_committed w cfg started summary win eg =
     (let am = hw_attempt win; usage = resp_usage (hw_response win);
          (recorded, eg1) = record_usage w cfg am usage False eg
      in case recorded of
           Inl e \<Rightarrow>
             (OutError (new_exec_error 500 ''usage_persistence_failed'' (''usage persistence failed: '' @ e) None),
              trace_finish (wd_clock w) started 500 False eg1)
         | Inr _ \<Rightarrow>
             let eg2 = emit (trace_attempt_of am (hw_latency_ms win) TraceSuccess) eg1;
                 eg3 = fold (trace_canceled (wd_clock w) started) (hw_canceled win) eg2;
                 cost = wd_cost_micros w (et_provider_id (am_target am)) (et_model (am_target am)) usage;
                 (ms, eg3') = elapsed_ms (wd_clock w) started (emit (FxTraceUsage usage cost) eg3);
                 eg4 = emit (FxTraceRing 200 ms False) eg3';
                 eg5 = (if eg_quality_capture eg4
                        then emit (FxQualityResponse (et_id (am_target am))) (eg4\<lparr>eg_quality_capture := False\<rparr>)
                        else eg4)
             in (OutCollected (hw_response win) summary, eg5))"

section \<open>Every racer finishes once\<close>

fun dispatched :: "effect \<Rightarrow> (string \<times> string) option" where
  "dispatched (FxDispatch t a l e) = Some (t, a)"
| "dispatched _ = None"

fun finished :: "effect \<Rightarrow> (string \<times> string) option" where
  "finished (FxFinished t a o') = Some (t, a)"
| "finished _ = None"

fun succeeded :: "effect \<Rightarrow> bool" where
  "succeeded (FxFinished t a (FoOk r c)) = True"
| "succeeded _ = False"

definition ids_of :: "(effect \<Rightarrow> (string \<times> string) option) \<Rightarrow> 'k engine \<Rightarrow> (string \<times> string) multiset" where
  "ids_of f eg = mset (List.map_filter f (keys eg))"

fun running :: "racer \<Rightarrow> (string \<times> string) option" where
  "running (RRunning am exec) = Some (et_id (am_target am), am_account am)"
| "running _ = None"

definition running_ids :: "racer list \<Rightarrow> (string \<times> string) multiset" where
  "running_ids rs = mset (List.map_filter running rs)"

definition successes :: "'k engine \<Rightarrow> nat" where
  "successes eg = length (filter succeeded (keys eg))"

lemma mset_map_filter_update:
  "i < length xs \<Longrightarrow> mset (List.map_filter f (xs[i := y])) + (case f (xs ! i) of Some v \<Rightarrow> {#v#} | None \<Rightarrow> {#}) =
     mset (List.map_filter f xs) + (case f y of Some v \<Rightarrow> {#v#} | None \<Rightarrow> {#})"
proof (induction xs arbitrary: i)
  case (Cons x xs)
  then show ?case
    by (cases i) (auto simp: map_filter_simps split: option.splits)
qed simp

lemma hedge_finish_keys:
  "keys (hedge_finish w cfg req am o' eg) = keys eg @ [FxFinished (et_id (am_target am)) (am_account am) o']"
  by (simp add: hedge_finish_def Let_def split_beta key_facts attempt_ctx_of_def)

lemma hedge_failed_keys:
  "keys (hedge_failed w cfg req am error eg) =
     keys eg @ [FxFinished (et_id (am_target am)) (am_account am) (FoFailed (ae_class error))]"
  by (simp add: hedge_failed_def Let_def split_beta key_facts hedge_finish_keys)

lemma hedge_succeeded_keys:
  "\<exists>r c. keys (snd (hedge_succeeded w cfg req am response eg)) =
     keys eg @ [FxFinished (et_id (am_target am)) (am_account am) (FoOk r c)]"
  by (simp add: hedge_succeeded_def Let_def split_beta key_facts hedge_finish_keys)

lemma hedge_begin_keys:
  assumes "hedge_begin js w cfg req t eg = (res, eg')"
  shows "keys eg' = keys eg @ (case res of
      Some (am, exec) \<Rightarrow> [FxDispatch (et_id (am_target am)) (am_account am) (am_lease am) (am_egress_id am)]
    | None \<Rightarrow> [])"
  using assms
  by (auto simp: hedge_begin_def Let_def split_beta key_facts split: if_splits resolve_outcome.splits sum.splits)

text \<open>
  The accounting of a race: what was dispatched is what has finished plus what is running, and
  there was one success if the race is won and none otherwise.
\<close>

definition race_inv :: "'k engine \<Rightarrow> ('j, 'k) race \<Rightarrow> bool" where
  "race_inv eg0 ra \<longleftrightarrow>
     ids_of dispatched (ra_engine ra) + ids_of finished eg0 =
       ids_of finished (ra_engine ra) + ids_of dispatched eg0 + running_ids (ra_racers ra)
     \<and> successes (ra_engine ra) = successes eg0 + (if ra_win ra = None then 0 else 1)
     \<and> (ra_win ra \<noteq> None \<longrightarrow> ra_over ra)"

lemma ids_of_keys:
  "keys eg' = keys eg @ ks \<Longrightarrow> ids_of f eg' = ids_of f eg + mset (List.map_filter f ks)"
  "keys eg' = keys eg @ ks \<Longrightarrow> successes eg' = successes eg + length (filter succeeded ks)"
  by (simp_all add: ids_of_def successes_def map_filter_def)

lemma running_ids_update:
  "i < length rs \<Longrightarrow> running_ids (rs[i := y]) + (case running (rs ! i) of Some v \<Rightarrow> {#v#} | None \<Rightarrow> {#}) =
     running_ids rs + (case running y of Some v \<Rightarrow> {#v#} | None \<Rightarrow> {#})"
  unfolding running_ids_def by (rule mset_map_filter_update)

lemma race_step_inv:
  assumes "race_step js w cfg req launched ra ra'" and "race_inv eg0 ra"
  shows "race_inv eg0 ra'"
  using assms(1)
proof cases
  case (race_none i t eg)
  then show ?thesis
    using assms(2) hedge_begin_keys [OF race_none(5)] running_ids_update [of i "ra_racers ra" RDone]
    by (simp add: race_inv_def ids_of_def successes_def)
next
  case (race_start i t am exec eg)
  then show ?thesis
    using assms(2) hedge_begin_keys [OF race_start(5)] running_ids_update [of i "ra_racers ra" "RRunning am exec"]
    by (simp add: race_inv_def ids_of_keys map_filter_simps)
next
  case (race_fail i am exec error)
  then show ?thesis
    using assms(2) hedge_failed_keys [of w cfg req am error "ra_engine ra"] running_ids_update [of i "ra_racers ra" RDone]
    by (simp add: race_inv_def ids_of_keys map_filter_simps)
next
  case (race_win i am exec response ms eg)
  obtain r c where "keys eg = keys (ra_engine ra) @ [FxFinished (et_id (am_target am)) (am_account am) (FoOk r c)]"
    using hedge_succeeded_keys [of w cfg req am response "ra_engine ra"] race_win(6) by auto
  then show ?thesis
    using race_win assms(2) running_ids_update [of i "ra_racers ra" RDone]
    by (auto simp: race_inv_def ids_of_keys map_filter_simps)
next
  case race_abort
  then show ?thesis
    using assms(2) by (simp add: race_inv_def)
next
  case (race_cancel i am exec)
  then show ?thesis
    using assms(2) hedge_finish_keys [of w cfg req am FoCancelled "ra_engine ra"]
      running_ids_update [of i "ra_racers ra" RDone]
    by (simp add: race_inv_def ids_of_keys map_filter_simps)
qed

lemma race_reaches_inv:
  assumes "race_reaches js w cfg req launched ra ra'" and "race_inv eg0 ra"
  shows "race_inv eg0 ra'"
  using assms by (induction rule: race_reaches.induct) (auto intro: race_step_inv)

lemma start_race_inv: "race_inv eg (start_race hedge candidates eg)"
proof -
  have "List.map_filter running (map RWaiting ts) = []" for ts
    by (induction ts) (simp_all add: map_filter_simps)
  then show ?thesis
    by (simp add: race_inv_def start_race_def running_ids_def add.commute)
qed

text \<open>
  C9: a hedge race accounts for every attempt it dispatched, in whatever order its racers are
  scheduled and whether it is won, lost or dropped: at every moment the dispatched attempts are
  those finished and those still running, so once none runs each was finished exactly once; and
  exactly one of them is recorded as a success if the race has a winner, none otherwise.
\<close>

theorem hedge_race_accounts:
  assumes "race_reaches js w cfg req launched (start_race hedge candidates eg) ra"
  shows "ids_of dispatched (ra_engine ra) + ids_of finished eg =
      ids_of finished (ra_engine ra) + ids_of dispatched eg + running_ids (ra_racers ra)
    \<and> successes (ra_engine ra) = successes eg + (if ra_win ra = None then 0 else 1)"
  using race_reaches_inv [OF assms start_race_inv] by (simp add: race_inv_def)

section \<open>Hedging and account scopes\<close>

definition b_only :: tenant_config where
  "b_only = \<lparr>tc_id = ''team'', tc_allowed_routes = [], tc_allowed_providers = [], tc_allowed_accounts = [''p/b''],
     tc_budget_usd = None, tc_max_concurrency = None\<rparr>"

definition team_chat :: "unit ai_request" where
  "team_chat = chat\<lparr>req_tenant := Some ''team''\<rparr>"

lemma team_chat_key: "session_affinity_key plain_json team_chat = None"
  by code_simp

definition racer_on_a :: attempt where
  "racer_on_a = flaky_attempt ''a'' (account_lease (key_account ''a'' 1)) 0"

definition dispatched_on_a :: "unit engine" where
  "dispatched_on_a = fresh_engine\<lparr>eg_tick := 2, eg_calls := 1,
     eg_effects := [FxDispatch ''p/m'' ''a'' (account_lease (key_account ''a'' 1)) None]\<rparr>"

lemma racer_on_a_fields:
  "et_id (am_target racer_on_a) = ''p/m''" "et_provider_id (am_target racer_on_a) = ''p''" "am_account racer_on_a = ''a''"
  by (simp_all add: racer_on_a_def flaky_attempt_def new_target_def)

lemma hedge_begin_flaky:
  "hedge_begin plain_json flaky_world plain_exec team_chat only_target fresh_engine =
     (Some (racer_on_a, Inl (new_adapter_error RateLimited ''slow down'')), dispatched_on_a)"
  by (simp add: hedge_begin_def Let_def read_clock_def flaky_world_def plain_exec_def fresh_engine_def new_target_def
      resolve_with_session_def resolve_with_session_allowed_def available_indices_def team_chat_key session_key_def
      sticky_index_def nonempty_str_def two_accounts_defs resolve_egress_def fresh_lease_def file_backed_lease_def
      dispatch_def emit_def racer_on_a_def flaky_attempt_def dispatched_on_a_def)

text \<open>
  A racer asks for an account without the allow-list that the sequential loop passes: the
  request of a tenant that may only use account \<open>b\<close> is dispatched with account \<open>a\<close>.
\<close>

theorem hedge_ignores_account_scope:
  "\<exists>am exec eg'. hedge_begin plain_json flaky_world plain_exec team_chat only_target fresh_engine = (Some (am, exec), eg')
     \<and> \<not> in_allowed (request_allowed_accounts [b_only] team_chat None (et_provider_id (am_target am))) (am_account am)"
proof -
  have "\<not> in_allowed (request_allowed_accounts [b_only] team_chat None ''p'') ''a''"
    by (simp add: request_allowed_accounts_def team_chat_def b_only_def tenant_allowed_accounts_def
        accounts_for_provider_def client_profile_allowed_accounts_def in_allowed_def starts_with_def map_filter_simps)
  then have "\<not> in_allowed (request_allowed_accounts [b_only] team_chat None (et_provider_id (am_target racer_on_a)))
      (am_account racer_on_a)"
    unfolding racer_on_a_fields .
  with hedge_begin_flaky show ?thesis
    by blast
qed

section \<open>Witness\<close>

definition two_wide :: hedge_config where
  "two_wide = \<lparr>hg_enabled = True, hg_delay_ms = 0, hg_max_parallel = 2\<rparr>"

theorem hedge_race_accounts_witness:
  "\<exists>ra :: (unit, unit) race. race_reaches plain_json flaky_world plain_exec team_chat [only_target, only_target]
      (start_race two_wide [only_target, only_target] fresh_engine) ra
    \<and> running_ids (ra_racers ra) = {#(''p/m'', ''a'')#} \<and> ids_of dispatched (ra_engine ra) = {#(''p/m'', ''a'')#}
    \<and> ids_of finished (ra_engine ra) = {#}"
proof -
  let ?ra0 = "start_race two_wide [only_target, only_target] fresh_engine :: (unit, unit) race"
  let ?exec = "Inl (new_adapter_error RateLimited ''slow down'')"
  let ?ra1 = "?ra0\<lparr>ra_racers := (ra_racers ?ra0)[0 := RRunning racer_on_a ?exec], ra_engine := dispatched_on_a\<rparr>"
  have racers: "ra_racers ?ra0 = [RWaiting only_target, RWaiting only_target]" "ra_engine ?ra0 = fresh_engine" "\<not> ra_over ?ra0"
    by (simp_all add: start_race_def hedge_width_def two_wide_def)
  have "race_step plain_json flaky_world plain_exec team_chat [only_target, only_target] ?ra0 ?ra1"
    using hedge_begin_flaky by (intro race_start [where t = only_target]) (simp_all add: racers)
  then have reach: "race_reaches plain_json flaky_world plain_exec team_chat [only_target, only_target] ?ra0 ?ra1"
    by (rule reaches_step [OF reaches_refl])
  have "ra_racers ?ra1 = [RRunning racer_on_a ?exec, RWaiting only_target]"
    by (simp add: racers)
  then have run: "running_ids (ra_racers ?ra1) = {#(''p/m'', ''a'')#}"
    by (simp only:) (simp add: running_ids_def map_filter_simps racer_on_a_fields)
  have "ids_of dispatched fresh_engine = {#}" "ids_of finished fresh_engine = {#}" "ids_of finished (ra_engine ?ra1) = {#}"
    by (simp_all add: ids_of_def keys_def fresh_engine_def dispatched_on_a_def map_filter_simps)
  with hedge_race_accounts [OF reach] run reach show ?thesis
    by (intro exI [of _ ?ra1]) simp
qed

end
