(* ===== verification/Pipeline.thy ===== *)
theory Pipeline
  imports Compress Plugins Execution_Meta Profiles Hedge
begin

text \<open>
  A whole request (\<open>execute_inner\<close> of \<open>sb-runtime/src/execute.rs\<close>, the spend queries of
  \<open>usage.rs\<close>): the budget gates, compression, plugins, the client profile, the cache lookup, the
  resolution and planning of the route, the degradation of images, and then the hedge race or
  the sequential loop. Up to the plan it is a function; from there it is a relation, because a
  race may be decided by any schedule.
\<close>

section \<open>Spend\<close>

record usage_rollup =
  ur_total_cost_micros :: u64
  ur_by_provider :: "(string \<times> u64 \<times> u64) list"
  ur_by_tenant :: "(string \<times> u64 \<times> u64) list"

text \<open>
  What a spend query sees: the answer of the usage store, if there is one, whether the store is
  required, and the totals of the in-memory ledger.
\<close>

record spend_source =
  ss_store :: "(string + usage_rollup) option"
  ss_store_required :: bool
  ss_ledger_total_micros :: u64
  ss_ledger_tenant_usd :: "string \<Rightarrow> f64"
  ss_ledger_by_provider :: "string \<rightharpoonup> u64"

definition micros_usd :: "u64 \<Rightarrow> f64" where
  "micros_usd micros = f64_div (nat_as_f64 (unat micros)) (f64_lit 1000000)"

definition rolled_up :: "(usage_rollup \<Rightarrow> f64) \<Rightarrow> f64 \<Rightarrow> spend_source \<Rightarrow> string + f64" where
  "rolled_up of_store of_ledger s =
     (case ss_store s of
        Some (Inr rollup) \<Rightarrow> Inr (of_store rollup)
      | Some (Inl e) \<Rightarrow>
          if ss_store_required s then Inl (''usage store rollup failed: '' @ e) else Inr of_ledger
      | None \<Rightarrow> Inr of_ledger)"

definition row_usd :: "string \<Rightarrow> (string \<times> u64 \<times> u64) list \<Rightarrow> f64" where
  "row_usd i rows = micros_usd (case find (\<lambda>(j, _, _). j = i) rows of Some (_, _, micros) \<Rightarrow> micros | None \<Rightarrow> 0)"

definition global_spend_usd :: "spend_source \<Rightarrow> string + f64" where
  "global_spend_usd s =
     rolled_up (\<lambda>r. micros_usd (ur_total_cost_micros r)) (micros_usd (ss_ledger_total_micros s)) s"

definition tenant_spend_usd :: "string \<Rightarrow> spend_source \<Rightarrow> string + f64" where
  "tenant_spend_usd tenant s =
     rolled_up (\<lambda>r. row_usd tenant (ur_by_tenant r)) (ss_ledger_tenant_usd s tenant) s"

definition provider_spend_usd :: "string \<Rightarrow> spend_source \<Rightarrow> string + f64" where
  "provider_spend_usd provider s =
     rolled_up (\<lambda>r. row_usd provider (ur_by_provider r))
       (case ss_ledger_by_provider s provider of Some micros \<Rightarrow> micros_usd micros | None \<Rightarrow> f64_lit 0) s"

section \<open>Configuration and state\<close>

record ('j, 'w) pipeline_config =
  pc_snapshot :: snapshot
  pc_exec :: "'w exec_config"
  pc_budget_max_usd :: "f64 option"
  pc_compress_tool_results :: bool
  pc_cache :: execution_cache_config
  pc_hedge :: hedge_config
  pc_plugins :: "'j plugin_host"

text \<open>
  The tenants, the scorecard settings and the providers of the two views come from one
  configuration.
\<close>

definition views_agree :: "('j, 'w) pipeline_config \<Rightarrow> bool" where
  "views_agree pc \<longleftrightarrow> xc_tenants (pc_exec pc) = sn_tenants (pc_snapshot pc)
     \<and> xc_scorecard (pc_exec pc) = sn_scorecard (pc_snapshot pc)"

text \<open>What the outside answers before the plan, by the number of the reading.\<close>

record 'j gateway_world =
  gx_spend :: "nat \<Rightarrow> spend_source"
  gx_digest :: "'j exact_fingerprint \<Rightarrow> string"
  gx_now_unix :: "nat \<Rightarrow> u64"
  gx_quality_begin :: "'j ai_request \<Rightarrow> bool"

record 'k runtime =
  ru_engine :: "'k engine"
  ru_cache :: exact_request_cache

section \<open>Gates before routing\<close>

definition denial :: "exec_error \<Rightarrow> 'k engine \<Rightarrow> 'k engine" where
  "denial e eg = emit (FxDenied (xe_status e) (xe_error_type e) (xe_message e)) eg"

definition over_budget :: "u16 \<Rightarrow> string \<Rightarrow> string \<Rightarrow> f64 \<Rightarrow> f64 \<Rightarrow> exec_error" where
  "over_budget status error_type who spent cap =
     new_exec_error status error_type
       (who @ ''budget exceeded: spent $'' @ fmt_fixed 4 spent @ '' of $'' @ fmt_fixed 4 cap @ '' cap'') None"

definition spend_gate :: "f64 option \<Rightarrow> string + f64 \<Rightarrow> string \<Rightarrow> string \<Rightarrow> exec_error option" where
  "spend_gate cap spend error_type who =
     (case cap of
        None \<Rightarrow> None
      | Some c \<Rightarrow>
          (case spend of
             Inl e \<Rightarrow> Some (new_exec_error 503 ''usage_store_unavailable''
                        (''usage store unavailable for budget check: '' @ e) None)
           | Inr spent \<Rightarrow> if flt_le c spent then Some (over_budget 402 error_type who spent c) else None))"

definition global_gate :: "'j gateway_world \<Rightarrow> ('j, 'w) pipeline_config \<Rightarrow> nat \<Rightarrow> exec_error option" where
  "global_gate gw pc t = spend_gate (pc_budget_max_usd pc) (global_spend_usd (gx_spend gw t)) ''budget_exceeded'' []"

definition tenant_gate ::
  "'j gateway_world \<Rightarrow> ('j, 'w) pipeline_config \<Rightarrow> 'j ai_request \<Rightarrow> nat \<Rightarrow> exec_error option" where
  "tenant_gate gw pc req t =
     (case req_tenant req of
        None \<Rightarrow> None
      | Some tenant \<Rightarrow>
          spend_gate (Option.bind (config_tenant (pc_snapshot pc) tenant) tc_budget_usd)
            (tenant_spend_usd tenant (gx_spend gw t)) ''tenant_budget_exceeded'' (''tenant `'' @ tenant @ ''` ''))"

text \<open>The request that is routed, with its client profile, or the error it is refused with.\<close>

definition admit_request ::
  "'j gateway_world \<Rightarrow> ('j, 'w) pipeline_config \<Rightarrow> 'j ai_request \<Rightarrow> nat
    \<Rightarrow> exec_error + client_profile_config option \<times> 'j ai_request" where
  "admit_request gw pc req t =
     (case global_gate gw pc t of
        Some e \<Rightarrow> Inl e
      | None \<Rightarrow>
          (case tenant_gate gw pc req (Suc t) of
             Some e \<Rightarrow> Inl e
           | None \<Rightarrow>
               let req1 = (if pc_compress_tool_results pc then fst (compress_request req) else req)
               in case host_pre_route (pc_plugins pc) req1 of
                    (PluginReject status message, _) \<Rightarrow> Inl (new_exec_error status ''plugin_rejected'' message None)
                  | (PluginContinue, req2) \<Rightarrow>
                      (case apply_request_client_profile (pc_snapshot pc) req2 of
                         (Inl e, _) \<Rightarrow> Inl e
                       | (Inr profile, req3) \<Rightarrow> Inr (profile, req3))))"

section \<open>From the admitted request to its plan\<close>

definition image_marker :: string where
  "image_marker =
     ''[image omitted: this model cannot accept image input, so the attached image was not sent]''"

record 'j prepared =
  pr_request :: "'j ai_request"
  pr_profile :: "client_profile_config option"
  pr_route :: string
  pr_plan :: "execution_receipt route_plan"
  pr_unknown :: "string list"
  pr_summary :: string
  pr_receipt :: cache_lookup_receipt

definition scope_candidates :: "string set option \<Rightarrow> candidate_resolution \<Rightarrow> candidate_resolution \<times> string list" where
  "scope_candidates scope resolved =
     (case scope of
        None \<Rightarrow> (resolved, [])
      | Some allowed \<Rightarrow>
          (resolved\<lparr>cn_candidates := filter (\<lambda>c. et_id c \<in> allowed) (cn_candidates resolved)\<rparr>,
           map et_id (filter (\<lambda>c. et_id c \<notin> allowed) (cn_candidates resolved))))"

definition scope_rejections :: "string list \<Rightarrow> 'rc route_plan \<Rightarrow> 'rc route_plan" where
  "scope_rejections ids plan =
     plan\<lparr>plan_decision := fold (\<lambda>i. reject i ''quality_eval scope: target not body-allowlisted'') ids (plan_decision plan)\<rparr>"

definition finish_prepared ::
  "'j gateway_world \<Rightarrow> bool \<Rightarrow> 'j ai_request \<Rightarrow> client_profile_config option \<Rightarrow> cache_lookup_receipt \<Rightarrow> string
    \<Rightarrow> string list \<Rightarrow> execution_receipt route_plan \<Rightarrow> 'j prepared" where
  "finish_prepared gw redacted req profile receipt route_name unknown plan =
     (let sent = (if degraded (plan_decision plan) ''vision_in'' then fst (strip_image_parts image_marker req) else req);
          plan' = attach_execution_receipt (gx_digest gw) sent receipt redacted plan
      in \<lparr>pr_request = sent, pr_profile = profile, pr_route = route_name, pr_plan = plan', pr_unknown = unknown,
          pr_summary = decision_summary (plan_decision plan'), pr_receipt = receipt\<rparr>)"

definition prepare_route ::
  "('j, 'k) world \<Rightarrow> 'j gateway_world \<Rightarrow> ('j, 'w) pipeline_config \<Rightarrow> string set option \<Rightarrow> 'j ai_request
    \<Rightarrow> client_profile_config option \<Rightarrow> cache_lookup_receipt \<Rightarrow> 'k engine \<Rightarrow> (exec_error + 'j prepared) \<times> 'k engine" where
  "prepare_route w gw pc scope req profile receipt eg =
     (case resolve_candidates (wd_clock w) (pc_snapshot pc) (req_model req) eg of
        (Inl e, eg1) \<Rightarrow> (Inl e, denial e eg1)
      | (Inr resolved, eg1) \<Rightarrow>
          let (scoped, rejected) = scope_candidates scope resolved
          in (case plan_resolved_route (pc_snapshot pc) req profile scoped True eg1 of
                (Inl e, eg2) \<Rightarrow> (Inl e, denial e eg2)
              | (Inr (route_name, plan), eg2) \<Rightarrow>
                  let p = finish_prepared gw (scope \<noteq> None) req profile receipt route_name (cn_unknown scoped)
                            (scope_rejections rejected plan)
                  in (Inr p, eg2\<lparr>eg_quality_capture := gx_quality_begin gw (pr_request p)\<rparr>)))"

definition execute_prefix ::
  "('j, 'k) world \<Rightarrow> 'j gateway_world \<Rightarrow> ('j, 'w) pipeline_config \<Rightarrow> string set option \<Rightarrow> 'j ai_request \<Rightarrow> 'k runtime
    \<Rightarrow> (exec_error + 'j prepared) \<times> 'k runtime" where
  "execute_prefix w gw pc scope req ru =
     (let t = eg_tick (ru_engine ru); eg1 = (ru_engine ru)\<lparr>eg_tick := t + 3\<rparr>
      in case admit_request gw pc req t of
           Inl e \<Rightarrow> (Inl e, ru\<lparr>ru_engine := denial e eg1\<rparr>)
         | Inr (profile, req1) \<Rightarrow>
             let (receipt, cache) = lookup_exact_cache (gx_digest gw) req1 (policy_of_config (pc_cache pc)) (scope \<noteq> None)
                     (gx_now_unix gw (t + 2)) (ru_cache ru);
                 (res, eg2) = prepare_route w gw pc scope req1 profile receipt eg1
             in (res, \<lparr>ru_engine = eg2, ru_cache = cache\<rparr>))"

section \<open>The outcome\<close>

definition sequential ::
  "'j json_api \<Rightarrow> ('j, 'k) world \<Rightarrow> ('j, 'w) pipeline_config \<Rightarrow> string set option \<Rightarrow> instant \<Rightarrow> 'j prepared \<Rightarrow> 'k engine
    \<Rightarrow> 'j exec_outcome \<times> 'k engine" where
  "sequential js w pc scope started p eg =
     execute_plan js w (pc_exec pc) (pr_request p) (pr_profile p) started (scope \<noteq> None) (pr_plan p) (pr_unknown p)
       (pr_summary p) eg"

definition hedges :: "('j, 'w) pipeline_config \<Rightarrow> string set option \<Rightarrow> 'j prepared \<Rightarrow> bool" where
  "hedges pc scope p =
     hedge_applies (pc_hedge pc) (scope \<noteq> None) (pr_request p) (plan_candidates (pr_plan p))"

definition races ::
  "'j json_api \<Rightarrow> ('j, 'k) world \<Rightarrow> ('j, 'w) pipeline_config \<Rightarrow> 'j prepared \<Rightarrow> 'k engine \<Rightarrow> ('j, 'k) race \<Rightarrow> bool" where
  "races js w pc p eg ra =
     (let cs = plan_candidates (pr_plan p)
      in race_reaches js w (pc_exec pc) (pr_request p) (take (hedge_width (pc_hedge pc) cs) cs)
           (start_race (pc_hedge pc) cs eg) ra)"

inductive executes ::
  "'j json_api \<Rightarrow> ('j, 'k) world \<Rightarrow> 'j gateway_world \<Rightarrow> ('j, 'w) pipeline_config \<Rightarrow> string set option \<Rightarrow> instant
    \<Rightarrow> 'j ai_request \<Rightarrow> 'k runtime \<Rightarrow> 'j exec_outcome \<Rightarrow> 'k runtime \<Rightarrow> bool"
  for js :: "'j json_api" and w :: "('j, 'k) world" and gw :: "'j gateway_world" and pc :: "('j, 'w) pipeline_config"
    and scope :: "string set option" and started :: instant where
  ex_denied: "execute_prefix w gw pc scope req ru = (Inl e, ru1) \<Longrightarrow>
    executes js w gw pc scope started req ru (OutError e) ru1"
| ex_sequential: "execute_prefix w gw pc scope req ru = (Inr p, ru1) \<Longrightarrow> \<not> hedges pc scope p \<Longrightarrow>
    sequential js w pc scope started p (ru_engine ru1) = (out, eg) \<Longrightarrow>
    executes js w gw pc scope started req ru out (ru1\<lparr>ru_engine := eg\<rparr>)"
| ex_hedge_won: "execute_prefix w gw pc scope req ru = (Inr p, ru1) \<Longrightarrow> hedges pc scope p \<Longrightarrow>
    races js w pc p (ru_engine ru1) ra \<Longrightarrow> ra_win ra = Some win \<Longrightarrow> running_ids (ra_racers ra) = {#} \<Longrightarrow>
    hedge_committed w (pc_exec pc) started (pr_summary p) win (ra_engine ra) = (out, eg) \<Longrightarrow>
    executes js w gw pc scope started req ru out (ru1\<lparr>ru_engine := eg\<rparr>)"
| ex_hedge_lost: "execute_prefix w gw pc scope req ru = (Inr p, ru1) \<Longrightarrow> hedges pc scope p \<Longrightarrow>
    races js w pc p (ru_engine ru1) ra \<Longrightarrow> \<not> ra_over ra \<Longrightarrow> list_all (\<lambda>r. r = RDone) (ra_racers ra) \<Longrightarrow>
    sequential js w pc scope started p (ra_engine ra) = (out, eg) \<Longrightarrow>
    executes js w gw pc scope started req ru out (ru1\<lparr>ru_engine := eg\<rparr>)"

end
