(* ===== verification/Compress_Facts.thy ===== *)
theory Compress_Facts
  imports Compress Router
begin

text \<open>
  Facts about the compression of tool results: the guards hold for every filter, the pass over a
  request changes nothing but the text of compressible results and accounts for every byte, the
  router plans the compressed request as it plans the original, and the summaries count what
  the text contains.
\<close>

section \<open>The guards\<close>

lemma safe_apply_Some: "safe_apply text f = Some out \<Longrightarrow> f text = Some out \<and> out \<noteq> [] \<and> length out < length text"
  by (auto simp: safe_apply_def split: option.splits if_splits)

lemma compress_text_cases:
  assumes "compress_text text = (out, f)"
  shows "out = text \<and> f = None \<or> out \<noteq> [] \<and> length out < length text \<and> f \<noteq> None"
  using assms by (auto simp: compress_text_def dest: safe_apply_Some split: option.splits)

section \<open>One pass over a request\<close>

text \<open>What may happen to a part: nothing, or the text of an eligible result shrinks and stays non-empty.\<close>

definition part_compressed :: "'j content_part \<Rightarrow> 'j content_part \<Rightarrow> bool" where
  "part_compressed p p' \<longleftrightarrow> p' = p \<or>
     (\<exists>i c parts c'. p = CpToolResult i c parts False \<and> (parts = [] \<or> parts = [TrText c])
        \<and> MIN_COMPRESS_BYTES \<le> length c \<and> length c \<le> MAX_COMPRESS_BYTES \<and> c' \<noteq> [] \<and> length c' < length c
        \<and> p' = CpToolResult i c' (if parts = [] then [] else [TrText c']) False)"

lemma compress_part_ok: "part_compressed p (fst (compress_part p stats))"
proof (cases p)
  case (CpToolResult i c parts e)
  obtain out f where out: "compress_text c = (out, f)"
    by (cases "compress_text c")
  show ?thesis
    using compress_text_cases [OF out] CpToolResult out
    by (auto simp: part_compressed_def compressible_def)
qed (simp_all add: part_compressed_def)

lemma compress_parts_ok: "list_all2 part_compressed ps (fst (compress_parts ps stats))"
  by (induction ps arbitrary: stats) (simp_all add: split_beta Let_def compress_part_ok)

definition message_compressed :: "'j message \<Rightarrow> 'j message \<Rightarrow> bool" where
  "message_compressed m m' \<longleftrightarrow>
     m' = m\<lparr>msg_content := msg_content m'\<rparr> \<and> list_all2 part_compressed (msg_content m) (msg_content m')"

lemma compress_messages_ok: "list_all2 message_compressed ms (fst (compress_messages ms stats))"
  by (induction ms arbitrary: stats) (simp_all add: split_beta Let_def message_compressed_def compress_parts_ok)

text \<open>
  C36: Compression only ever shortens the text of successful tool results. Nothing else of the
  request changes: every message keeps its role and hint, every part its place and kind; a part
  that changes is an unstructured (or singly structured) non-error result between the two size
  limits, and its new text is shorter, not empty, and the same in both representations.
\<close>

theorem compress_only_shrinks:
  "fst (compress_request req) = req\<lparr>req_messages := req_messages (fst (compress_request req))\<rparr>
   \<and> list_all2 message_compressed (req_messages req) (req_messages (fst (compress_request req)))"
  by (simp add: compress_request_def split_beta Let_def compress_messages_ok)

section \<open>Byte accounting\<close>

fun result_bytes :: "'j content_part \<Rightarrow> nat" where
  "result_bytes (CpToolResult i c parts e) = length c"
| "result_bytes _ = 0"

definition request_bytes :: "'j ai_request \<Rightarrow> nat" where
  "request_bytes req = sum_list (map (\<lambda>m. sum_list (map result_bytes (msg_content m))) (req_messages req))"

lemma compress_part_bytes:
  "result_bytes (fst (compress_part p s)) + cs_bytes_before (snd (compress_part p s)) + cs_bytes_after s =
     result_bytes p + cs_bytes_after (snd (compress_part p s)) + cs_bytes_before s"
  "cs_bytes_after s \<le> cs_bytes_before s \<Longrightarrow>
     cs_bytes_after (snd (compress_part p s)) \<le> cs_bytes_before (snd (compress_part p s))"
proof -
  have "length (fst (compress_text c)) \<le> length c" for c
    using compress_text_cases [of c "fst (compress_text c)" "snd (compress_text c)"] by auto
  then show "result_bytes (fst (compress_part p s)) + cs_bytes_before (snd (compress_part p s)) + cs_bytes_after s =
      result_bytes p + cs_bytes_after (snd (compress_part p s)) + cs_bytes_before s"
    "cs_bytes_after s \<le> cs_bytes_before s \<Longrightarrow>
      cs_bytes_after (snd (compress_part p s)) \<le> cs_bytes_before (snd (compress_part p s))"
    by (cases p; simp add: split_beta Let_def add_mono)+
qed

lemma compress_parts_bytes:
  "sum_list (map result_bytes (fst (compress_parts ps s))) + cs_bytes_before (snd (compress_parts ps s)) + cs_bytes_after s =
     sum_list (map result_bytes ps) + cs_bytes_after (snd (compress_parts ps s)) + cs_bytes_before s"
  "cs_bytes_after s \<le> cs_bytes_before s \<Longrightarrow>
     cs_bytes_after (snd (compress_parts ps s)) \<le> cs_bytes_before (snd (compress_parts ps s))"
proof (induction ps arbitrary: s)
  case (Cons p ps)
  {
    case 1
    show ?case
      using Cons.IH(1) [of "snd (compress_part p s)"] compress_part_bytes(1) [of p s] by (simp add: split_beta Let_def)
  next
    case 2
    then show ?case
      using Cons.IH(2) [of "snd (compress_part p s)"] compress_part_bytes(2) [of s p] by (simp add: split_beta Let_def)
  }
qed simp_all

lemma compress_messages_bytes:
  "sum_list (map (\<lambda>m. sum_list (map result_bytes (msg_content m))) (fst (compress_messages ms s)))
     + cs_bytes_before (snd (compress_messages ms s)) + cs_bytes_after s =
   sum_list (map (\<lambda>m. sum_list (map result_bytes (msg_content m))) ms)
     + cs_bytes_after (snd (compress_messages ms s)) + cs_bytes_before s"
  "cs_bytes_after s \<le> cs_bytes_before s \<Longrightarrow>
     cs_bytes_after (snd (compress_messages ms s)) \<le> cs_bytes_before (snd (compress_messages ms s))"
proof (induction ms arbitrary: s)
  case (Cons m ms)
  {
    case 1
    show ?case
      using Cons.IH(1) [of "snd (compress_parts (msg_content m) s)"] compress_parts_bytes(1) [of "msg_content m" s]
      by (simp add: split_beta Let_def)
  next
    case 2
    then show ?case
      using Cons.IH(2) [of "snd (compress_parts (msg_content m) s)"] compress_parts_bytes(2) [of s "msg_content m"]
      by (simp add: split_beta Let_def)
  }
qed simp_all

text \<open>
  The reported savings are exact: the bytes of all tool results after the pass, plus the savings
  it reports, are the bytes before it.
\<close>

theorem savings_exact:
  "request_bytes (fst (compress_request req)) + stats_saved (snd (compress_request req)) = request_bytes req"
  using compress_messages_bytes [where ms = "req_messages req" and s = default_compression_stats]
  by (simp add: compress_request_def request_bytes_def stats_saved_def split_beta Let_def
      default_compression_stats_def)

section \<open>Routing\<close>

lemma compressed_all_parts:
  fixes req :: "'j ai_request"
  shows "list_all2 part_compressed (all_parts req) (all_parts (fst (compress_request req)))"
proof -
  have "list_all2 part_compressed (concat (map msg_content ms)) (concat (map msg_content ms'))"
    if "list_all2 message_compressed ms ms'" for ms ms' :: "'j message list"
    using that by (induction rule: list_all2_induct) (auto simp: message_compressed_def intro: list_all2_appendI)
  from this [OF compress_messages_ok] show ?thesis
    by (simp add: all_parts_def compress_request_def split_beta Let_def)
qed

lemma compressed_same:
  assumes "list_all2 part_compressed ps ps'"
  shows "length (filter is_image ps') = length (filter is_image ps)"
    and "List.map_filter part_image_source_kind ps' = List.map_filter part_image_source_kind ps"
    and "map (foreign_file_owner provider) ps' = map (foreign_file_owner provider) ps"
  using assms by (induction rule: list_all2_induct) (auto simp: part_compressed_def map_filter_simps split: option.split)

lemma compressed_request_fields:
  "req_id (fst (compress_request req)) = req_id req"
  "route_needs_of (fst (compress_request req)) require = route_needs_of req require"
  "image_count (fst (compress_request req)) = image_count req"
  "requires_vision (fst (compress_request req)) = requires_vision req"
  "provider_file_ref_scope_mismatch (fst (compress_request req)) c = provider_file_ref_scope_mismatch req c"
proof -
  note same = compressed_same [OF compressed_all_parts [of req]]
  have other: "req_id (fst (compress_request req)) = req_id req"
    "req_stream (fst (compress_request req)) = req_stream req" "req_tools (fst (compress_request req)) = req_tools req"
    "req_server_tools (fst (compress_request req)) = req_server_tools req"
    "req_response_format (fst (compress_request req)) = req_response_format req"
    by (simp_all add: compress_request_def split_beta Let_def)
  then show "req_id (fst (compress_request req)) = req_id req"
    by simp
  show count: "image_count (fst (compress_request req)) = image_count req"
    by (simp add: image_count_def same)
  then show vision: "requires_vision (fst (compress_request req)) = requires_vision req"
    by (simp add: requires_vision_def)
  show "provider_file_ref_scope_mismatch (fst (compress_request req)) c = provider_file_ref_scope_mismatch req c"
    by (simp add: provider_file_ref_scope_mismatch_def find_map_def same)
  show "route_needs_of (fst (compress_request req)) require = route_needs_of req require"
    by (simp add: route_needs_of_def requires_tools_def requires_server_tools_def required_server_tool_protocols_def
        required_image_sources_def vision other same)
qed

lemma hard_filter_compressed:
  "hard_filter (fst (compress_request req)) require n policy relax = hard_filter req require n policy relax"
  unfolding fun_eq_iff hard_filter_def compressed_request_fields by (intro allI refl)

text \<open>
  Compression does not influence routing: whatever the route requires, the candidates and the
  policy, the plan of the compressed request is the plan of the original one, with the same
  explanation.
\<close>

theorem compression_keeps_plan:
  "plan_route (fst (compress_request req)) route_name require candidates policy =
     (plan_route req route_name require candidates policy :: 'rc route_plan)"
  unfolding plan_route_def opening_reasons_def opening_decision_def filter_candidates_def vision_degradable_def
    hard_filter_compressed compressed_request_fields by (rule refl)

section \<open>Summaries\<close>

text \<open>A diff as the sections its file headers open, each with the lines up to the next header.\<close>

definition opens_file :: "string \<Rightarrow> bool" where
  "opens_file line \<longleftrightarrow> strip_prefix ''diff --git '' line \<noteq> None"

fun diff_sections :: "string list \<Rightarrow> (string \<times> string list) list" where
  "diff_sections [] = []"
| "diff_sections (l # ls) =
     (case strip_prefix ''diff --git '' l of
        Some rest \<Rightarrow> (rest, takeWhile (\<lambda>x. \<not> opens_file x) ls) # diff_sections ls
      | None \<Rightarrow> diff_sections ls)"

definition counted :: "string \<Rightarrow> string list \<Rightarrow> nat" where
  "counted sign ls = length (filter (\<lambda>l. \<not> diff_header l \<and> starts_with l sign) ls)"

definition section_summary :: "string \<times> string list \<Rightarrow> diff_file" where
  "section_summary s = (diff_path (fst s), counted ''+'' (snd s), counted ''-'' (snd s))"

definition close_files :: "diff_file list \<times> diff_file option \<Rightarrow> diff_file list" where
  "close_files st = fst st @ (case snd st of Some f \<Rightarrow> [f] | None \<Rightarrow> [])"

lemma sign_exclusive: "starts_with l ''+'' \<Longrightarrow> \<not> starts_with l ''-''"
  by (cases l) (auto simp: starts_with_def)

lemma diff_fold:
  "close_files (fold diff_line ls (files, cur)) =
     files @ (case cur of
        Some (path, a, r) \<Rightarrow> [(path, a + counted ''+'' (takeWhile (\<lambda>x. \<not> opens_file x) ls),
            r + counted ''-'' (takeWhile (\<lambda>x. \<not> opens_file x) ls))]
      | None \<Rightarrow> []) @ map section_summary (diff_sections ls)"
proof (induction ls arbitrary: files cur)
  case Nil
  then show ?case by (auto simp: close_files_def counted_def split: option.split)
next
  case (Cons l ls)
  show ?case
  proof (cases "strip_prefix ''diff --git '' l")
    case (Some rest)
    then have "diff_line l (files, cur) = (close_files (files, cur), Some (diff_path rest, 0, 0))"
      by (auto simp: diff_line_def close_files_def split: option.split)
    then have "close_files (fold diff_line (l # ls) (files, cur)) =
        close_files (files, cur) @ map section_summary (diff_sections (l # ls))"
      using Some by (simp add: Cons.IH section_summary_def)
    moreover have "takeWhile (\<lambda>x. \<not> opens_file x) (l # ls) = []"
      using Some by (simp add: opens_file_def)
    ultimately show ?thesis
      by (simp add: close_files_def counted_def split: option.split)
  next
    case None
    have step: "diff_line l (files, cur) = (files, map_option (\<lambda>(p, a, r). (p, a + counted ''+'' [l], r + counted ''-'' [l])) cur)"
      using None by (auto simp: diff_line_def counted_def sign_exclusive Let_def split: option.split)
    have "counted sign (takeWhile (\<lambda>x. \<not> opens_file x) (l # ls)) =
        counted sign [l] + counted sign (takeWhile (\<lambda>x. \<not> opens_file x) ls)" for sign
      using None by (simp add: opens_file_def counted_def)
    with None show ?thesis
      by (simp only: fold_simps(2) step Cons.IH) (simp split: option.split)
  qed
qed

text \<open>
  The summary of a diff is right: it lists one entry per file header, in order, with the number
  of added and of removed lines between that header and the next one, file and hunk headers not
  counted.
\<close>

theorem diff_files_correct:
  "diff_files text = map section_summary (diff_sections (str_lines text))"
proof -
  have "diff_files text = close_files (fold diff_line (str_lines text) ([], None))"
    by (simp add: diff_files_def close_files_def split_beta Let_def split: option.split)
  then show ?thesis
    by (simp add: diff_fold)
qed

text \<open>Matches are grouped without loss: the list of a file holds the matches of that file, in order.\<close>

theorem grep_groups_correct:
  "bt_get (grep_groups text) file =
     (let ms = List.map_filter (\<lambda>l. case parse_grep_line l of Some (f, rest) \<Rightarrow> if f = file then Some rest else None | None \<Rightarrow> None)
            (str_lines text)
      in if ms = [] then None else Some ms)"
proof -
  let ?f = "\<lambda>line ms. case parse_grep_line line of Some (file, rest) \<Rightarrow> ms @ [rest] | None \<Rightarrow> ms"
  let ?g = "\<lambda>l. case parse_grep_line l of Some (f, rest) \<Rightarrow> if f = file then Some rest else None | None \<Rightarrow> None"
  have fold: "fold ?f (filter (\<lambda>x. map_option fst (parse_grep_line x) = Some file) ls) acc = acc @ List.map_filter ?g ls" for ls acc
    by (induction ls arbitrary: acc) (auto simp: map_filter_simps split: option.split)
  have ex: "(\<exists>x \<in> set ls. map_option fst (parse_grep_line x) = Some file) \<longleftrightarrow> List.map_filter ?g ls \<noteq> []" for ls
    by (induction ls) (auto simp: map_filter_simps split: option.split)
  have "bt_get (grep_groups text) file =
      (if List.map_filter ?g (str_lines text) \<noteq> [] then Some ([] @ List.map_filter ?g (str_lines text)) else None)"
    unfolding grep_groups_def group_by_get [OF btree.wf_mt] ex fold [symmetric] btree.get_mt by simp
  then show ?thesis
    by (simp add: Let_def)
qed

definition unroll :: "(string \<times> nat) list \<Rightarrow> string list" where
  "unroll lcs = concat (map (\<lambda>(l, n). replicate n l) lcs)"

lemma collapse_line_unroll: "unroll (collapse_line l lcs) = unroll lcs @ [l]"
proof (cases "lcs \<noteq> [] \<and> fst (last lcs) = l")
  case True
  then obtain ys n where "lcs = ys @ [(l, n)]"
    by (cases lcs rule: rev_cases) auto
  then show ?thesis
    by (simp add: collapse_line_def unroll_def replicate_append_same)
next
  case False
  then show ?thesis
    by (auto simp: collapse_line_def unroll_def)
qed

text \<open>
  Collapsing repeated lines loses nothing: the counted lines unroll to the original ones. What is
  printed of them is bounded by 181 lines, the first 120 and the last 60 of which are kept.
\<close>

theorem collapse_roundtrip: "unroll (fold collapse_line ls []) = ls"
proof -
  have "unroll (fold collapse_line ls lcs) = unroll lcs @ ls" for lcs
    by (induction ls arbitrary: lcs) (simp_all add: collapse_line_unroll)
  then show ?thesis
    by (simp add: unroll_def)
qed

theorem head_tail_bounded:
  "length (head_tail ls) \<le> 181 \<and> take 120 (head_tail ls) = take 120 ls
   \<and> drop (length (head_tail ls) - 60) (head_tail ls) = drop (length ls - 60) ls"
  by (auto simp: head_tail_def)

end
