(* ===== verification/Router_Plan.thy ===== *)
theory Router_Plan
  imports Router_Facts
begin

text \<open>
  The properties of \<open>plan_route\<close>: which candidates the plan holds, in which order, what the
  decision record says about them, and when the vision degradation applies. They rest on the
  stage lemmas of the facts theory.
\<close>

section \<open>From the stages to the plan\<close>

definition opened :: "'j ai_request \<Rightarrow> string \<Rightarrow> route_require \<Rightarrow> routing_policy \<Rightarrow> 'rc route_decision" where
  "opened req rn require policy =
     opening_reasons req rn (route_needs_of req require) (opening_decision req policy)"

abbreviation filtered where
  "filtered req rn require policy cs d \<equiv>
     snd (filter_candidates req rn require (route_needs_of req require) policy cs d)"

lemma opened_empty:
  "rd_rejected (opened req rn require policy) = []"
  "rd_capability_fallback (opened req rn require policy) = []"
  "rd_fallbacks (opened req rn require policy) = []"
  "rd_selected (opened req rn require policy) = None"
  "\<not> rd_unverified (opened req rn require policy)"
  by (simp_all add: opened_def opening_reasons_def opening_decision_def new_decision_def Let_def
      decision_frame split: option.splits)

lemma plan_route_eq:
  "plan_route req rn require cs policy =
     (let out = order_survivors policy (need_streaming (route_needs_of req require))
            (filter (eligible req require policy (runs_relaxed req require policy cs)) cs)
            (filtered req rn require policy cs (opened req rn require policy))
      in \<lparr>plan_candidates = fst out, plan_decision = snd out\<rparr>)"
  by (simp add: plan_route_def Let_def split_beta opened_def fst_filter_candidates)

lemma plan_decision_fields:
  fixes req :: "'j ai_request" and rn require policy cs and p :: "'rc route_plan"
    and d :: "'rc route_decision"
  defines "p \<equiv> plan_route req rn require cs policy"
    and "d \<equiv> filtered req rn require policy cs (opened req rn require policy)"
  shows "rd_rejected (plan_decision p) = rd_rejected d"
    and "rd_capability_fallback (plan_decision p) = rd_capability_fallback d"
    and "rd_selected (plan_decision p) =
           (case plan_candidates p of [] \<Rightarrow> None | t # _ \<Rightarrow> Some (new_target_ref (et_id t)))"
    and "rd_fallbacks (plan_decision p) = map (new_target_ref \<circ> et_id) (drop 1 (plan_candidates p))"
    and "rd_unverified (plan_decision p) \<longleftrightarrow> (\<exists>t ts. plan_candidates p = t # ts \<and> et_unverified t)"
proof -
  let ?sv = "filter (eligible req require policy (runs_relaxed req require policy cs)) cs"
  let ?s = "need_streaming (route_needs_of req require)"
  obtain d' ctx where d': "reason_only d d'" and eq: "snd (order_survivors policy ?s ?sv d) =
      record_selection (fst (order_survivors policy ?s ?sv d)) policy ctx
        (d'\<lparr>rd_scores := route_scores (fst (order_survivors policy ?s ?sv d)) policy ?s ctx\<rparr>)"
    by (rule order_survivors_decision)
  note fields = reason_onlyD [OF d'] eq
  have d: "rd_selected d = None" "rd_fallbacks d = []" "\<not> rd_unverified d"
    by (simp_all add: d_def filter_candidates_frame opened_empty)
  show "rd_rejected (plan_decision p) = rd_rejected d"
    and "rd_capability_fallback (plan_decision p) = rd_capability_fallback d"
    by (simp_all add: p_def plan_route_eq d_def [symmetric] Let_def fields record_selection_frame)
  show "rd_selected (plan_decision p) =
           (case plan_candidates p of [] \<Rightarrow> None | t # _ \<Rightarrow> Some (new_target_ref (et_id t)))"
    and "rd_fallbacks (plan_decision p) = map (new_target_ref \<circ> et_id) (drop 1 (plan_candidates p))"
    and "rd_unverified (plan_decision p) \<longleftrightarrow> (\<exists>t ts. plan_candidates p = t # ts \<and> et_unverified t)"
    by (simp_all add: p_def plan_route_eq d_def [symmetric] Let_def fields record_selection_picks d
        cong: list.case_cong)
qed

lemma plan_candidates_mset:
  "mset (plan_candidates (plan_route req rn require cs policy)) =
     mset (filter (eligible req require policy (runs_relaxed req require policy cs)) cs)"
  by (simp add: plan_route_eq Let_def order_survivors_mset)

lemma plan_nonempty_iff:
  "plan_candidates (plan_route req rn require cs policy) \<noteq> [] \<longleftrightarrow>
     filter (eligible req require policy (runs_relaxed req require policy cs)) cs \<noteq> []"
  using plan_candidates_mset [of req rn require cs policy] by (metis mset_zero_iff)

lemma plan_degraded_iff:
  "degraded (plan_decision (plan_route req rn require cs policy :: 'rc route_plan)) ''vision_in'' \<longleftrightarrow>
     runs_relaxed req require policy cs \<and> filter (eligible req require policy True) cs \<noteq> []"
proof -
  let ?o = "opened req rn require policy :: 'rc route_decision"
  let ?d = "filtered req rn require policy cs ?o"
  have "degraded ?d ''vision_in'' \<longleftrightarrow>
     runs_relaxed req require policy cs \<and> filter (eligible req require policy True) cs \<noteq> []"
  proof (cases "runs_relaxed req require policy cs \<and> filter (eligible req require policy True) cs \<noteq> []")
    case True
    then show ?thesis
      using filter_candidates_relaxed(3) [of req require policy cs rn ?o] by simp
  next
    case False
    then have "rd_capability_fallback ?d = []"
      using filter_candidates_strict [of req require policy cs rn ?o]
        filter_candidates_relaxed_empty [of req require policy cs rn ?o]
      by (cases "runs_relaxed req require policy cs") (auto simp: opened_empty)
    with False show ?thesis
      by (simp add: degraded_def)
  qed
  then show ?thesis
    by (simp add: degraded_def plan_decision_fields)
qed

text \<open>
  A candidate the relaxed chain admits and the strict one rejects failed on a vision check: the
  two chains differ in those only.
\<close>

lemma first_some_differs:
  assumes "list_all2 (\<lambda>x y. y = x \<or> pred_option P x) xs ys" and "first_some xs = Some r"
    and "first_some ys = None"
  shows "P r"
  using assms by (induction rule: list_all2_induct) (auto split: option.splits)

lemma pred_option_vision:
  "pred_option snd (vision_guard b w)"
  "pred_option snd (if b then map_option (\<lambda>x. (f x, True)) y else None)"
  by (simp_all add: vision_guard_def option.pred_map comp_def option.pred_True)

lemma strict_only_vision:
  assumes "hard_filter req require n policy False c = Some r"
    and "hard_filter req require n policy True c = None"
  shows "snd r"
  by (rule first_some_differs [OF _ assms(1) [unfolded hard_filter_def Let_def]
        assms(2) [unfolded hard_filter_def Let_def]])
    (simp only: list_all2_Cons list_all2_Nil pred_option_vision simp_thms)

lemma relaxed_eligible_vision_blocked:
  assumes "c \<in> set cs" and "eligible req require policy True c" and "\<not> eligible req require policy False c"
  shows "et_id c \<in> set (vision_blocked_ids (hard_filter req require (route_needs_of req require) policy False) cs)"
proof -
  obtain r where r: "hard_filter req require (route_needs_of req require) policy False c = Some r"
    using assms(3) hard_filter_None by fast
  moreover have "snd r"
    using strict_only_vision [OF r] assms(2) by (simp add: hard_filter_None)
  ultimately show ?thesis
    using assms(1) by (cases r) (auto simp: vision_blocked_ids_def)
qed

lemma filter_eligible_degraded:
  "filter (eligible req require policy (runs_relaxed req require policy cs)) cs =
     filter (eligible req require policy
       (degraded (plan_decision (plan_route req rn require cs policy)) ''vision_in'')) cs"
proof (cases "filter (eligible req require policy True) cs = []")
  case True
  have "eligible req require policy False c \<Longrightarrow> eligible req require policy True c" for c
    by (auto simp: eligible_def capable_def Let_def)
  with True have "filter (eligible req require policy False) cs = []"
    by (auto simp: filter_empty_conv)
  with True show ?thesis
    by (cases "runs_relaxed req require policy cs") (simp_all add: plan_degraded_iff)
qed (simp add: plan_degraded_iff)

section \<open>What the plan holds\<close>

text \<open>
  C2: the plan holds exactly the candidates that pass the hard filters, each as often as it was
  offered: every eligible candidate is tried and no ineligible one is. The filters are the
  strict ones unless the decision records the vision degradation, and then the same ones
  without the vision checks.
\<close>

theorem plan_exactly_eligible:
  "mset (plan_candidates (plan_route req rn require cs policy :: 'rc route_plan)) =
     mset (filter (eligible req require policy
       (degraded (plan_decision (plan_route req rn require cs policy :: 'rc route_plan)) ''vision_in'')) cs)"
  unfolding filter_eligible_degraded [symmetric] by (rule plan_candidates_mset)

text \<open>
  Vision is degraded exactly when no candidate can serve the request with its images, the
  policy allows the degradation, the images come from the request and not from a requirement
  of the route, and some candidate can serve the request without them.
\<close>

theorem vision_degraded_iff:
  "degraded (plan_decision (plan_route req rn require cs policy)) ''vision_in'' \<longleftrightarrow>
     filter (eligible req require policy False) cs = []
     \<and> pol_vision_degrade policy \<and> requires_vision req
     \<and> rr_vision_in require \<noteq> Some True \<and> rr_vision_sources require = []
     \<and> filter (eligible req require policy True) cs \<noteq> []"
proof -
  have "vision_blocked_ids (hard_filter req require (route_needs_of req require) policy False) cs \<noteq> []"
    if none: "filter (eligible req require policy False) cs = []"
      and some: "filter (eligible req require policy True) cs \<noteq> []"
  proof -
    obtain c where "c \<in> set cs" "eligible req require policy True c"
      using some by (auto simp: filter_empty_conv)
    moreover from this none have "\<not> eligible req require policy False c"
      by (auto simp: filter_empty_conv)
    ultimately show ?thesis
      using relaxed_eligible_vision_blocked [of c cs] by force
  qed
  then show ?thesis
    unfolding plan_degraded_iff runs_relaxed_def strict_survivors_def vision_degradable_def
    by (auto simp: route_needs_of_def)
qed

text \<open>
  When there is a plan, the decision rejects exactly the candidates that fail the strict
  filters, once each and in the order they were offered; the bookkeeping of a relaxed second
  pass leaves no duplicate behind.
\<close>

theorem plan_rejections_account:
  assumes "plan_candidates (plan_route req rn require cs policy :: 'rc route_plan) \<noteq> []"
  shows "map rj_target_id (rd_rejected (plan_decision (plan_route req rn require cs policy :: 'rc route_plan))) =
    map et_id (filter (\<lambda>c. \<not> eligible req require policy False c) cs)"
proof -
  let ?o = "opened req rn require policy :: 'rc route_decision"
  let ?d = "filtered req rn require policy cs ?o"
  have "rd_rejected ?d = rejections (hard_filter req require (route_needs_of req require) policy False) cs"
  proof (cases "runs_relaxed req require policy cs")
    case True
    then show ?thesis
      using filter_candidates_relaxed(1) [of req require policy cs rn ?o] assms
      by (simp add: plan_nonempty_iff opened_empty)
  next
    case False
    show ?thesis
      by (simp add: filter_candidates_strict [OF False] opened_empty)
  qed
  then show ?thesis
    by (simp add: plan_decision_fields ids_rejections hard_filter_None)
qed

text \<open>
  The decision reports the plan: the selected target is its head, the fallbacks its tail in
  order, and the unverified flag that of the head.
\<close>

theorem plan_decision_reports:
  "let p = plan_route req rn require cs policy; d = plan_decision p
   in (case rd_selected d of None \<Rightarrow> [] | Some t \<Rightarrow> [t]) @ rd_fallbacks d
        = map (new_target_ref \<circ> et_id) (plan_candidates p)
      \<and> rd_unverified d = (case plan_candidates p of [] \<Rightarrow> False | t # _ \<Rightarrow> et_unverified t)"
  unfolding Let_def plan_decision_fields by (auto split: list.split)

section \<open>In which order\<close>

text \<open>A rank of the plan is that rank of the survivors, ordered by \<open>order_partition\<close>.\<close>

lemma plan_rank:
  fixes policy req require cs
  defines "s \<equiv> need_streaming (route_needs_of req require)"
    and "sv \<equiv> filter (eligible req require policy (runs_relaxed req require policy cs)) cs"
  assumes "\<And>d :: 'rc route_decision.
      P (fst (order_partition (filter (\<lambda>t. demote_rank t = k) sv) policy s
        (score_map policy s (new_quality_context sv policy) sv) d))"
  shows "P (filter (\<lambda>t. demote_rank t = k)
      (plan_candidates (plan_route req rn require cs policy :: 'rc route_plan)))"
proof -
  let ?d = "filtered req rn require policy cs (opened req rn require policy) :: 'rc route_decision"
  show ?thesis
  proof (rule order_survivors_rank_k [of policy s sv k ?d])
    fix sbt and dk :: "'rc route_decision"
    assume "sbt = score_map policy s (new_quality_context sv policy) sv"
      and "filter (\<lambda>t. demote_rank t = k) (fst (order_survivors policy s sv ?d)) =
        fst (order_partition (filter (\<lambda>t. demote_rank t = k) sv) policy s sbt dk)"
    with assms(3) [of dk] show ?thesis
      by (simp add: plan_route_eq s_def [symmetric] sv_def [symmetric] Let_def)
  qed
qed

lemma score_map_None [simp]: "score_map policy s ctx sv = None \<longleftrightarrow> pol_scoring policy = None"
  by (simp add: score_map_def)

text \<open>
  The plan is ordered by demotion rank: a target with a healthy account and a healthy
  scorecard comes before one the scorecard demoted, and that before one with no healthy
  account; demotion never removes a target.
\<close>

theorem plan_ranks_sorted:
  "sorted (map demote_rank (plan_candidates (plan_route req rn require cs policy)))"
  by (simp add: plan_route_eq Let_def order_survivors_ranks_sorted)

lemma list_all_part: "list_all P cs \<Longrightarrow> list_all P (filter Q (filter R cs))"
  by (simp add: list_all_iff)

text \<open>
  Under the cost-aware strategy every rank is sorted by blended price, unpriced targets
  last, whatever the qualified tie-break did inside a group of equal prices.
\<close>

theorem cost_aware_rank_sorted:
  assumes "pol_cost_aware policy" and "pol_scoring policy = None"
    and "pol_profile policy \<noteq> Some ProfileCoding" and "pol_profile policy \<noteq> Some ProfileLargeContext"
    and "list_all priced_ok cs"
  shows "cmp_sorted cost_cmp
    (filter (\<lambda>t. demote_rank t = k) (plan_candidates (plan_route req rn require cs policy)))"
  by (rule plan_rank)
    (simp add: order_partition_def score_map_def assms(1-4) cost_order.strategy_sorted
      [OF list_all_part [OF assms(5)]] del: filter_filter)

text \<open>
  Under the latency-aware strategy every rank is sorted by the measured latency (time to
  first token when the request streams and it is known), unmeasured targets first.
\<close>

theorem latency_aware_rank_sorted:
  assumes "pol_latency_aware policy" and "\<not> pol_cost_aware policy" and "pol_scoring policy = None"
    and "pol_profile policy \<noteq> Some ProfileCoding" and "pol_profile policy \<noteq> Some ProfileLargeContext"
    and "list_all (measured_ok (need_streaming (route_needs_of req require))) cs"
  shows "cmp_sorted (latency_cmp (need_streaming (route_needs_of req require)))
    (filter (\<lambda>t. demote_rank t = k) (plan_candidates (plan_route req rn require cs policy)))"
  by (rule plan_rank)
    (simp add: order_partition_def score_map_def assms(1-5) latency_order.strategy_sorted
      [OF list_all_part [OF assms(6)]] del: filter_filter)

lemma context_partition_sorted:
  assumes "pol_profile policy = Some ProfileLargeContext"
  shows "sorted_wrt (\<lambda>a b. context_of b \<le> context_of a) (fst (order_partition part policy s None d))"
proof -
  have groups: "(\<lambda>a b. context_of a = context_of b) = (\<lambda>a b. cmp_ord (context_of b) (context_of a) = Equal)"
    and le: "(\<lambda>a b. context_of b \<le> context_of a) = (\<lambda>a b. cmp_ord (context_of b) (context_of a) \<noteq> Greater)"
    by (auto simp: fun_eq_iff cmp_ord_def)
  show ?thesis
    unfolding groups le order_partition_def cmp_sorted_def [symmetric]
    by (simp only: assms option.case option.inject execution_profile.distinct if_True if_False simp_thms Let_def)
      (rule context_order.strategy_sorted, simp add: list_all_iff)
qed

lemma coding_partition_sorted:
  assumes "pol_profile policy = Some ProfileCoding"
  shows "sorted_wrt (\<lambda>a b. is_coding_target b \<longrightarrow> is_coding_target a)
    (fst (order_partition part policy s None d))"
proof -
  have groups: "(\<lambda>a b. is_coding_target a = is_coding_target b) =
      (\<lambda>a b. cmp_ord (\<not> is_coding_target a) (\<not> is_coding_target b) = Equal)"
    and le: "(\<lambda>a b. is_coding_target b \<longrightarrow> is_coding_target a) =
      (\<lambda>a b. cmp_ord (\<not> is_coding_target a) (\<not> is_coding_target b) \<noteq> Greater)"
    by (auto simp: fun_eq_iff cmp_ord_def)
  show ?thesis
    unfolding groups le order_partition_def cmp_sorted_def [symmetric]
    by (simp only: assms option.case if_True simp_thms Let_def)
      (rule coding_order.strategy_sorted, simp add: list_all_iff)
qed

text \<open>
  The large-context profile puts the widest window of each rank first; an unknown window
  counts as none.
\<close>

theorem large_context_rank_sorted:
  assumes "pol_profile policy = Some ProfileLargeContext" and "pol_scoring policy = None"
  shows "sorted_wrt (\<lambda>a b. context_of b \<le> context_of a)
    (filter (\<lambda>t. demote_rank t = k) (plan_candidates (plan_route req rn require cs policy)))"
  by (rule plan_rank) (simp add: assms score_map_def context_partition_sorted)

text \<open>
  The coding profile puts the coding targets of each rank before the others.
\<close>

theorem coding_rank_sorted:
  assumes "pol_profile policy = Some ProfileCoding" and "pol_scoring policy = None"
  shows "sorted_wrt (\<lambda>a b. is_coding_target b \<longrightarrow> is_coding_target a)
    (filter (\<lambda>t. demote_rank t = k) (plan_candidates (plan_route req rn require cs policy)))"
  by (rule plan_rank) (simp only: assms score_map_def option.map coding_partition_sorted)

lemma tiebreak_all_unqualified:
  assumes "t \<in> set part" and "\<not> qualified_evidence ms t"
  shows "apply_outcome_tiebreak ms (\<lambda>_ _. True) part d = (part, d)"
proof -
  obtain u us where part: "part = u # us"
    using assms(1) by (cases part) auto
  have all: "takeWhile (\<lambda>_. True) us = us" "dropWhile (\<lambda>_. True) us = []"
    by (simp_all add: takeWhile_eq_all_conv)
  show ?thesis
    using tiebreak_run_unqualified [OF assms, of d] by (simp add: part all)
qed

text \<open>
  Without a scoring policy, a profile order, cost or latency awareness the declared order
  stands: a rank that holds one target without enough outcome evidence keeps the order in
  which its targets were offered.
\<close>

theorem ordered_fallback_keeps_order:
  fixes policy req rn require cs and p :: "'rc route_plan"
  defines "p \<equiv> plan_route req rn require cs policy"
  assumes "pol_scoring policy = None" and "\<not> pol_cost_aware policy" and "\<not> pol_latency_aware policy"
    and "pol_profile policy \<noteq> Some ProfileCoding" and "pol_profile policy \<noteq> Some ProfileLargeContext"
    and "t \<in> set (plan_candidates p)" and "demote_rank t = k"
    and "\<not> qualified_evidence (dem_min_samples (sc_demotion (pol_scorecard policy))) t"
  shows "filter (\<lambda>t. demote_rank t = k) (plan_candidates p) =
    filter (\<lambda>c. demote_rank c = k)
      (filter (eligible req require policy (degraded (plan_decision p) ''vision_in'')) cs)"
proof -
  have t: "t \<in> set (filter (eligible req require policy (runs_relaxed req require policy cs)) cs)"
    using assms(7) plan_candidates_mset unfolding p_def by (metis set_mset_mset)
  show ?thesis
    unfolding p_def filter_eligible_degraded [symmetric]
    by (rule plan_rank) (use t assms(2-9) in \<open>simp add: order_partition_def score_map_def
      tiebreak_all_unqualified [of t] del: filter_filter\<close>)
qed

definition survivor_scores ::
  "'j ai_request \<Rightarrow> route_require \<Rightarrow> routing_policy \<Rightarrow> execution_target list \<Rightarrow> (string, f64) btree_map" where
  "survivor_scores req require policy sv =
     bt_collect (map (\<lambda>s. (rs_target_id s, rs_score s))
       (route_scores sv policy (need_streaming (route_needs_of req require)) (new_quality_context sv policy)))"

text \<open>
  Under a scoring policy every rank is sorted by the score computed over all survivors,
  the best first, provided the scores are numbers.
\<close>

theorem score_rank_sorted:
  fixes policy req rn require cs and p :: "'rc route_plan"
  defines "p \<equiv> plan_route req rn require cs policy"
    and "sv \<equiv> filter (eligible req require policy
      (degraded (plan_decision (plan_route req rn require cs policy :: 'rc route_plan)) ''vision_in'')) cs"
  assumes "pol_scoring policy \<noteq> None"
    and "list_all (\<lambda>t. \<not> is_nan (score_of (survivor_scores req require policy sv) t)) cs"
  shows "cmp_sorted (\<lambda>a b. cmp_or_equal (score_of (survivor_scores req require policy sv) b)
      (score_of (survivor_scores req require policy sv) a))
    (filter (\<lambda>t. demote_rank t = k) (plan_candidates p))"
proof -
  let ?scores = "survivor_scores req require policy sv"
  have ok: "list_all (\<lambda>t. \<not> is_nan (score_of ?scores t)) (filter Q sv)" for Q
    using assms(4) by (simp add: sv_def list_all_iff)
  obtain sc where sc: "pol_scoring policy = Some sc"
    using assms(3) by auto
  have eq: "filter (eligible req require policy (runs_relaxed req require policy cs)) cs = sv"
    unfolding sv_def by (rule filter_eligible_degraded)
  show ?thesis
    unfolding p_def by (rule plan_rank) (use float_desc_cmp.sort_by_sorted [OF ok] in
      \<open>simp add: order_partition_def score_map_def sc survivor_scores_def eq\<close>)
qed

lemma unit_or_nan_ends: "unit_or_nan (FFin 0)" "unit_or_nan (FFin 1)"
  by (simp_all add: unit_or_nan_def in_unit_def)

lemma weighted_score_unit: "unit_or_nan (weighted_score fs sc ow qw)"
  by (simp add: weighted_score_def split_beta clamp_unit_or_nan unit_or_nan_ends)

lemma rank_factor_unit: "i < n \<Longrightarrow> unit_or_nan (rank_factor i n)"
  unfolding rank_factor_def nat_as_f64_def
  by (auto intro!: one_minus_unit ratio_unit simp: of_nat_diff unit_or_nan_ends)

lemma route_scores_units:
  "map rs_target_id (route_scores ts policy s ctx) = map et_id ts"
  "list_all (\<lambda>r. unit_or_nan (rs_score r)) (route_scores ts policy s ctx)"
proof -
  have "map rs_target_id (route_scores ts policy s ctx) = map et_id (map snd (enumerate 0 ts))"
    by (simp add: route_scores_def Let_def split_beta comp_def del: map_snd_enumerate)
  then show "map rs_target_id (route_scores ts policy s ctx) = map et_id ts"
    by simp
  show "list_all (\<lambda>r. unit_or_nan (rs_score r)) (route_scores ts policy s ctx)"
    by (auto simp: route_scores_def list_all_iff in_set_enumerate_eq weighted_score_unit rank_factor_unit
        Let_def split_beta split: option.splits)
qed

lemma record_selection_scores: "rd_scores (record_selection sv policy ctx d) = rd_scores d"
  by (auto simp: record_selection_def decision_frame Let_def split: list.splits option.splits)

text \<open>
  The decision carries one score per planned target, in plan order, and every score lies
  between 0 and 1 unless it is NaN.
\<close>

theorem plan_scores_unit:
  "let p = plan_route req rn require cs policy; scores = rd_scores (plan_decision p)
   in map rs_target_id scores = map et_id (plan_candidates p)
      \<and> list_all (\<lambda>r. unit_or_nan (rs_score r)) scores"
proof -
  let ?s = "need_streaming (route_needs_of req require)"
  let ?sv = "filter (eligible req require policy (runs_relaxed req require policy cs)) cs"
  have "\<exists>ctx. rd_scores (snd (order_survivors policy ?s ?sv d)) =
      route_scores (fst (order_survivors policy ?s ?sv d)) policy ?s ctx" for d :: "'rc route_decision"
    by (rule order_survivors_decision [of d policy ?s ?sv]) (auto simp: record_selection_scores)
  then show ?thesis
    unfolding plan_route_eq Let_def by (simp, metis route_scores_units)
qed

section \<open>Worked examples\<close>

text \<open>
  A text request on a route with two targets: one priced at 1 per million tokens and one free of charge.
  The second has no streaming, so a route that requires streaming rejects it.
\<close>

definition text_request :: "unit ai_request" where
  "text_request = new_request ''r1'' ''chat'' []"

definition dear_target :: execution_target where
  "dear_target = (new_target ''p'' ''dear'' ModelApi)
     \<lparr>et_cost := Some \<lparr>input_per_mtok = FFin 1, output_per_mtok = FFin 0\<rparr>\<rparr>"

definition cheap_target :: execution_target where
  "cheap_target = (new_target ''p'' ''cheap'' ModelApi)
     \<lparr>et_cost := Some \<lparr>input_per_mtok = FFin 0, output_per_mtok = FFin 0\<rparr>,
      et_capabilities := default_capabilities\<lparr>cap_streaming := False\<rparr>\<rparr>"

definition streaming_required :: route_require where
  "streaming_required = default_require\<lparr>rr_streaming := Some True\<rparr>"

lemmas sample_defs = text_request_def dear_target_def cheap_target_def streaming_required_def
  new_request_def new_target_def default_capabilities_def default_require_def default_policy_def

lemma default_strategy:
  "pol_scoring default_policy = None" "\<not> pol_cost_aware default_policy" "\<not> pol_latency_aware default_policy"
  "pol_profile default_policy \<noteq> Some ProfileCoding" "pol_profile default_policy \<noteq> Some ProfileLargeContext"
  by (simp_all add: default_policy_def)

lemma sample_eligible:
  "eligible text_request default_require default_policy relax dear_target"
  "eligible text_request default_require default_policy relax cheap_target"
  "eligible text_request streaming_required default_policy relax dear_target"
  "\<not> eligible text_request streaming_required default_policy relax cheap_target"
  by (simp_all add: eligible_def capable_def context_admitted_def lanes_admitted_def price_admitted_def
      route_needs_of_def sample_defs requires_tools_def requires_server_tools_def requires_vision_def
      all_parts_def image_count_def Let_def)

theorem plan_rejections_account_witness:
  "map rj_target_id (rd_rejected (plan_decision (plan_route text_request ''chat'' streaming_required
     [dear_target, cheap_target] default_policy :: unit route_plan))) = [''p/cheap'']"
proof -
  have "plan_candidates (plan_route text_request ''chat'' streaming_required [dear_target, cheap_target]
      default_policy :: unit route_plan) \<noteq> []"
    by (simp add: plan_nonempty_iff sample_eligible)
  moreover have "et_id cheap_target = ''p/cheap''"
    by (simp add: cheap_target_def new_target_def)
  ultimately show ?thesis
    using plan_rejections_account [of text_request "''chat''" streaming_required "[dear_target, cheap_target]"
        default_policy] by (simp add: sample_eligible)
qed

theorem cost_aware_rank_sorted_witness:
  "cmp_sorted cost_cmp (filter (\<lambda>t. demote_rank t = 0) (plan_candidates
     (plan_route text_request ''chat'' default_require [dear_target, cheap_target]
       (default_policy\<lparr>pol_cost_aware := True\<rparr>) :: unit route_plan)))"
  by (rule cost_aware_rank_sorted)
    (simp_all add: sample_defs blended_per_mtok_def f64_add_def round_units)

theorem latency_aware_rank_sorted_witness:
  "cmp_sorted (latency_cmp (need_streaming (route_needs_of text_request default_require)))
     (filter (\<lambda>t. demote_rank t = 0) (plan_candidates
       (plan_route text_request ''chat'' default_require
         [dear_target\<lparr>et_latency_ewma_ms := Some (FFin 900)\<rparr>, cheap_target\<lparr>et_latency_ewma_ms := Some (FFin 40)\<rparr>]
         (default_policy\<lparr>pol_latency_aware := True\<rparr>) :: unit route_plan)))"
  by (rule latency_aware_rank_sorted) (simp_all add: sample_defs latency_signal_def opt_or_def)

theorem large_context_rank_sorted_witness:
  "sorted_wrt (\<lambda>a b. context_of b \<le> context_of a) (filter (\<lambda>t. demote_rank t = 0) (plan_candidates
     (plan_route text_request ''chat'' default_require [dear_target, cheap_target]
       (default_policy\<lparr>pol_profile := Some ProfileLargeContext\<rparr>) :: unit route_plan)))"
  by (rule large_context_rank_sorted) (simp_all add: default_policy_def)

theorem coding_rank_sorted_witness:
  "sorted_wrt (\<lambda>a b. is_coding_target b \<longrightarrow> is_coding_target a) (filter (\<lambda>t. demote_rank t = 0) (plan_candidates
     (plan_route text_request ''chat'' default_require [dear_target, cheap_target\<lparr>et_task_tags := [''coding'']\<rparr>]
       (default_policy\<lparr>pol_profile := Some ProfileCoding\<rparr>) :: unit route_plan)))"
  by (rule coding_rank_sorted) (simp_all add: default_policy_def)

theorem ordered_fallback_keeps_order_witness:
  "filter (\<lambda>t. demote_rank t = 0) (plan_candidates (plan_route text_request ''chat'' default_require
     [dear_target, cheap_target] default_policy :: unit route_plan)) = [dear_target, cheap_target]"
proof -
  let ?p = "plan_route text_request ''chat'' default_require [dear_target, cheap_target] default_policy
      :: unit route_plan"
  have rank: "demote_rank dear_target = 0" "demote_rank cheap_target = 0"
    by (simp_all add: demote_rank_def sample_defs)
  have "set_mset (mset (plan_candidates ?p)) = {dear_target, cheap_target}"
    unfolding plan_candidates_mset by (simp add: sample_eligible)
  then have "dear_target \<in> set (plan_candidates ?p)"
    by simp
  moreover have "\<not> qualified_evidence (dem_min_samples (sc_demotion (pol_scorecard default_policy))) dear_target"
    by (simp add: qualified_evidence_def sample_defs)
  moreover have "filter (\<lambda>c. demote_rank c = 0) (filter (eligible text_request default_require default_policy b)
      [dear_target, cheap_target]) = [dear_target, cheap_target]" for b
    by (simp add: sample_eligible rank)
  ultimately show ?thesis
    using ordered_fallback_keeps_order [of default_policy dear_target text_request "''chat''" default_require
        "[dear_target, cheap_target]" 0, OF default_strategy] rank
    by simp
qed

text \<open>A scoring policy that weighs nothing scores every target 0.\<close>

definition weightless :: routing_policy where
  "weightless = default_policy
     \<lparr>pol_scoring := Some \<lparr>sp_selection_rank = FFin 0, sp_health = FFin 0, sp_account_availability = FFin 0,
        sp_cost = FFin 0, sp_latency = FFin 0, sp_ttft = FFin 0, sp_task_fit = FFin 0, sp_context_fit = FFin 0\<rparr>,
      pol_scorecard := default_scorecard_config\<lparr>sc_score_weight := FFin 0\<rparr>,
      pol_quality_eval := default_quality_eval_config\<lparr>qe_routing_weight := FFin 0\<rparr>\<rparr>"

lemma weighted_score_zero:
  assumes "\<And>f. weight_for sc f = FFin 0"
  shows "weighted_score fs sc (FFin 0) (FFin 0) = FFin 0"
proof -
  have "foldl (\<lambda>(weighted, total) (factor, x).
          let weight = if factor = ''outcome_health'' then FFin 0
                       else if factor = ''response_quality'' then FFin 0 else weight_for sc factor
          in if flt_le weight (f64_lit 0) then (weighted, total)
             else (f64_add weighted (f64_mul weight x), f64_add total weight)) acc fs = acc" for acc
    by (cases acc, induction fs) (auto simp: assms flt_le_def flt_eq_def is_nan_def)
  then show ?thesis
    unfolding weighted_score_def by (simp add: f64_epsilon_def flt_le_def)
qed

lemma weightless_scores: "score_of (survivor_scores req require weightless sv) t = FFin 0"
proof -
  let ?rs = "route_scores sv weightless (need_streaming (route_needs_of req require))
      (new_quality_context sv weightless)"
  have "rs_score r = FFin 0" if "r \<in> set ?rs" for r
    using that by (auto simp: route_scores_def weightless_def weighted_score_zero weight_for_def Let_def)
  then have "map_of (rev (map (\<lambda>s. (rs_target_id s, rs_score s)) ?rs)) i = Some x \<Longrightarrow> x = FFin 0" for i x
    by (auto dest!: map_of_SomeD)
  then show ?thesis
    by (auto simp: score_of_def survivor_scores_def bt_get_collect split: option.splits)
qed

theorem score_rank_sorted_witness:
  "let scores = survivor_scores text_request default_require weightless
       (filter (eligible text_request default_require weightless
          (degraded (plan_decision (plan_route text_request ''chat'' default_require [dear_target, cheap_target]
             weightless :: unit route_plan)) ''vision_in'')) [dear_target, cheap_target])
   in cmp_sorted (\<lambda>a b. cmp_or_equal (score_of scores b) (score_of scores a))
     (filter (\<lambda>t. demote_rank t = 0) (plan_candidates (plan_route text_request ''chat'' default_require
        [dear_target, cheap_target] weightless :: unit route_plan)))"
  unfolding Let_def
  by (rule score_rank_sorted) (simp_all only: weightless_scores, simp_all add: weightless_def is_nan_def)

end
