(* ===== verification/Registry_Facts.thy ===== *)
theory Registry_Facts
  imports Registry
begin

text \<open>
  What the registry promises its clients: the target it builds for an id, the providers it
  registers, and the cost function on which routing, the ledger and the traces agree.
\<close>

section \<open>Monotone arithmetic\<close>

named_theorems cost_mono

lemma unat_sat_mul: "unat (sat_mul a b) = min (unat a * unat b) (2 ^ LENGTH('a) - 1)" for a b :: "'a::len word"
  by (simp add: sat_mul_def unat_word_ariths unsigned_minus_1_eq_mask mask_eq_exp_minus_1)

lemma sat_mul_mono [cost_mono]: "b \<le> c \<Longrightarrow> sat_mul a b \<le> sat_mul a c" for a b c :: "'a::len word"
  by (simp add: word_le_nat_alt unat_sat_mul min.coboundedI1)

lemma sat_add_mono [cost_mono]: "a \<le> b \<Longrightarrow> c \<le> d \<Longrightarrow> sat_add a c \<le> sat_add b d" for a b c d :: "'a::len word"
  by (simp add: word_le_nat_alt unat_sat_add)

lemma word_div_mono [cost_mono]: "a \<le> b \<Longrightarrow> a div k \<le> b div k" for a b k :: "'a::len word"
  by (simp add: word_le_nat_alt unat_div div_le_mono)

lemma nonneg_cases:
  assumes "flt_le (FFin 0) x"
  obtains q where "x = FFin q" "0 \<le> q" | "x = FInf False"
  using assms by (cases x) (auto simp: flt_le_def flt_eq_def)

lemma nat_as_f64_mono: "m \<le> n \<Longrightarrow> flt_le (nat_as_f64 m) (nat_as_f64 n)"
  by (simp add: nat_as_f64_def round_f64_mono)

lemma nat_as_f64_finite:
  assumes "n \<le> 2 ^ 64"
  obtains q where "nat_as_f64 n = FFin q" "0 \<le> q"
proof -
  have "round_f64 (2 ^ 64) = FFin (2 ^ 64)"
    by code_simp
  then have "nat_as_f64 (2 ^ 64) = FFin (2 ^ 64)"
    by (simp add: nat_as_f64_def)
  moreover have "flt_le (FFin 0) (nat_as_f64 n)"
    by (simp add: nat_as_f64_def round_f64_nonneg)
  ultimately show thesis
    using nat_as_f64_mono [OF assms] that by (cases "nat_as_f64 n") (auto simp: flt_le_def flt_eq_def)
qed

lemma tokens_cost_mono [cost_mono]:
  assumes "m \<le> n" and "n \<le> 2 ^ 64" and "flt_le (FFin 0) (FFin p)"
  shows "flt_le (FFin 0) (f64_mul (nat_as_f64 m) (FFin p))"
    and "flt_le (f64_mul (nat_as_f64 m) (FFin p)) (f64_mul (nat_as_f64 n) (FFin p))"
proof -
  obtain x where x: "nat_as_f64 m = FFin x" "0 \<le> x"
    using assms nat_as_f64_finite [of m] by (metis order_trans)
  obtain y where y: "nat_as_f64 n = FFin y"
    using assms nat_as_f64_finite [of n] by metis
  have "x \<le> y"
    using nat_as_f64_mono [OF assms(1)] x y by (auto simp: flt_le_def flt_eq_def)
  moreover have "0 \<le> p"
    using assms(3) by (auto simp: flt_le_def flt_eq_def)
  ultimately show "flt_le (FFin 0) (f64_mul (nat_as_f64 m) (FFin p))"
    and "flt_le (f64_mul (nat_as_f64 m) (FFin p)) (f64_mul (nat_as_f64 n) (FFin p))"
    using x y by (simp_all add: f64_mul_def round_f64_nonneg round_f64_mono mult_right_mono)
qed

lemma flt_le_simps [simp]:
  "flt_le (FFin x) (FFin y) \<longleftrightarrow> x \<le> y" "flt_le (FFin x) (FInf False)" "flt_le (FInf False) (FInf False)"
  "\<not> flt_le (FInf False) (FFin y)" "\<not> flt_le FNaN u" "\<not> flt_le v FNaN"
  by (cases v; auto simp: flt_le_def flt_eq_def is_nan_def)+

lemma round_f64_le_inf: "0 \<le> x \<Longrightarrow> flt_le (round_f64 x) (FInf False)"
  by (drule round_f64_nonneg, elim nonneg_cases) auto

lemma f64_add_mono [cost_mono]:
  assumes "flt_le (FFin 0) a" "flt_le a b" "flt_le (FFin 0) c" "flt_le c d"
  shows "flt_le (f64_add a c) (f64_add b d)"
proof -
  have "flt_le (FFin 0) b" "flt_le (FFin 0) d"
    using assms flt_le_trans by blast+
  with assms show ?thesis
    by (elim nonneg_cases) (auto simp: f64_add_def round_f64_mono round_f64_le_inf add_mono)
qed

lemma f64_add_nonneg: "flt_le (FFin 0) a \<Longrightarrow> flt_le (FFin 0) c \<Longrightarrow> flt_le (FFin 0) (f64_add a c)"
  by (elim nonneg_cases) (auto simp: f64_add_def round_f64_nonneg)

lemma f64_round_mono [cost_mono]:
  assumes "flt_le (FFin 0) a" and "flt_le a b"
  shows "flt_le (FFin 0) (f64_round a)" and "flt_le (f64_round a) (f64_round b)"
proof -
  have "flt_le (FFin 0) b"
    using assms flt_le_trans by blast
  with assms show "flt_le (FFin 0) (f64_round a)" and "flt_le (f64_round a) (f64_round b)"
    by (auto elim!: nonneg_cases simp: floor_mono)
qed

lemma f64_as_u64_mono [cost_mono]: "flt_le (FFin 0) a \<Longrightarrow> flt_le a b \<Longrightarrow> f64_as_u64 a \<le> f64_as_u64 b"
proof -
  have cast: "unat (f64_as_u64 (FFin q)) = min (nat \<lfloor>q\<rfloor>) (2 ^ 64 - 1)" if "0 \<le> q" for q
    using that unat_word_of_nat [of "nat \<lfloor>q\<rfloor>", where 'a = 64]
    by (auto simp: Let_def unsigned_minus_1_eq_mask mask_eq_exp_minus_1)
  assume "flt_le (FFin 0) a" and "flt_le a b"
  moreover from this have "flt_le (FFin 0) b"
    using flt_le_trans by blast
  ultimately show ?thesis
    by (elim nonneg_cases) (auto simp: word_le_nat_alt cast nat_mono floor_mono min.coboundedI1
        unsigned_minus_1_eq_mask mask_eq_exp_minus_1 simp del: f64_as_u64.simps(3))
qed

section \<open>Costs\<close>

definition usage_le :: "usage \<Rightarrow> usage \<Rightarrow> bool" where
  "usage_le u v \<longleftrightarrow> us_input_tokens u \<le> us_input_tokens v \<and> us_output_tokens u \<le> us_output_tokens v
     \<and> us_cached_input_tokens u \<le> us_cached_input_tokens v \<and> us_reasoning_tokens u \<le> us_reasoning_tokens v"

text \<open>The sums the cost function forms fit into a \<open>u64\<close>.\<close>

definition sums_fit :: "usage \<Rightarrow> bool" where
  "sums_fit u \<longleftrightarrow> unat (us_input_tokens u) + unat (us_cached_input_tokens u) < 2 ^ 64
     \<and> unat (us_output_tokens u) + unat (us_reasoning_tokens u) < 2 ^ 64"

lemma sum_words:
  fixes a b c d :: u64
  assumes "a \<le> b" and "c \<le> d" and "unat b + unat d < 2 ^ 64"
  shows "unat (a + c) \<le> unat (b + d)" and "unat (b + d) \<le> 2 ^ 64"
  using assms by (simp_all add: word_le_nat_alt unat_word_ariths)

lemma index_cost_mono:
  assumes "usage_le u v" and "sums_fit v"
    and "input_per_mtok cost = FFin p" "0 \<le> p" "output_per_mtok cost = FFin q" "0 \<le> q"
  shows "index_cost cost u \<le> index_cost cost v"
proof -
  let ?in = "\<lambda>u. f64_mul (nat_as_f64 (unat (us_input_tokens u + us_cached_input_tokens u))) (FFin p)"
  let ?out = "\<lambda>u. f64_mul (nat_as_f64 (unat (us_output_tokens u + us_reasoning_tokens u))) (FFin q)"
  let ?sum = "\<lambda>u. f64_round (f64_add (?in u) (?out u))"
  have le: "unat (us_input_tokens u + us_cached_input_tokens u) \<le> unat (us_input_tokens v + us_cached_input_tokens v)"
      "unat (us_input_tokens v + us_cached_input_tokens v) \<le> 2 ^ 64"
      "unat (us_output_tokens u + us_reasoning_tokens u) \<le> unat (us_output_tokens v + us_reasoning_tokens v)"
      "unat (us_output_tokens v + us_reasoning_tokens v) \<le> 2 ^ 64"
    using assms(1,2) unfolding usage_le_def sums_fit_def by (blast intro: sum_words)+
  have parts: "flt_le (FFin 0) (?in u)" "flt_le (?in u) (?in v)" "flt_le (FFin 0) (?out u)" "flt_le (?out u) (?out v)"
    using tokens_cost_mono [OF le(1,2), of p] tokens_cost_mono [OF le(3,4), of q] assms by simp_all
  have sum: "flt_le (FFin 0) (?sum u)" "flt_le (?sum u) (?sum v)"
    using f64_round_mono [OF f64_add_nonneg [OF parts(1,3)] f64_add_mono [OF parts]] by simp_all
  have keep: "flt_max x (FFin 0) = x" if "flt_le (FFin 0) x" for x
    using that by (elim nonneg_cases) (auto simp: flt_max_def is_nan_def)
  show ?thesis
    unfolding index_cost_def Let_def assms(3,5) keep [OF sum(1)] keep [OF flt_le_trans [OF sum]]
    by (rule f64_as_u64_mono [OF sum])
qed

text \<open>
  Using more tokens never costs less: whichever source prices the model, the attributed cost is
  monotone in every token count, up to saturation, as long as the token sums fit their width.
\<close>

theorem cost_micros_mono:
  assumes "usage_le u v" and "sums_fit v"
    and "case rg_cost_index rg (target_key provider_id model) of
        Some e \<Rightarrow> (case ce_cost e of
            Some c \<Rightarrow> (\<exists>p q. c = \<lparr>input_per_mtok = FFin p, output_per_mtok = FFin q\<rparr> \<and> 0 \<le> p \<and> 0 \<le> q)
          | None \<Rightarrow> True)
      | None \<Rightarrow> True"
  shows "cost_micros rg provider_id model u \<le> cost_micros rg provider_id model v"
proof (cases "case rg_cost_index rg (target_key provider_id model) of Some e \<Rightarrow> ce_cost e | None \<Rightarrow> None")
  case None
  have "catalog_cost c m k s \<le> catalog_cost c m k t" if "s \<le> t" for c m k s t
    using that by (auto simp: catalog_cost_def intro!: cost_mono split: option.split)
  then show ?thesis
    using None assms(1) by (simp add: cost_micros_def usage_le_def Let_def cost_mono)
next
  case (Some c)
  then show ?thesis
    using assms index_cost_mono [OF assms(1,2), of c]
    by (auto simp: cost_micros_def split: option.splits)
qed

text \<open>
  The router and the books read one price: the cost attributed to a target is computed from the
  very price the target is routed by, whenever the router knows one.
\<close>

theorem routed_price_is_billed:
  assumes "target_for_provider_model rg provider_id model = Some target" and "et_cost target = Some cost"
  shows "cost_micros rg provider_id model u = index_cost cost u
    \<and> registry_cost_profile rg provider_id model = Some cost
    \<and> cache_savings_micros rg provider_id model u = 0"
  using assms by (auto simp: target_for_provider_model_def cost_micros_def registry_cost_profile_def
      cache_savings_micros_def Let_def split: option.splits)

section \<open>Targets\<close>

lemma target_for_provider_model_id:
  "target_for_provider_model rg provider_id model = Some t \<Longrightarrow>
     et_id t = target_key provider_id model \<and> et_provider_id t = provider_id \<and> et_model t = model"
  by (auto simp: target_for_provider_model_def Let_def split: option.splits)

lemma target_for_id: "target_for rg target_id = Some t \<Longrightarrow> et_id t = target_id"
  by (auto simp: target_for_def target_key_def target_for_provider_model_id dest!: split_once_Some
      split: option.splits)

lemma split_once_char: "c \<notin> set a \<Longrightarrow> split_once [c] (a @ c # b) = Some (a, b)"
  by (induction a) (auto simp: starts_with_def)

text \<open>A target id round trips: building a target and looking its id up again gives the target.\<close>

theorem target_id_roundtrip:
  assumes "target_for_provider_model rg provider_id model = Some t" and "CHR ''/'' \<notin> set provider_id"
  shows "target_for rg (et_id t) = Some t"
  using assms target_for_provider_model_id [OF assms(1)]
  by (simp add: target_for_def target_key_def split_once_char)

section \<open>Building the registry\<close>

lemma index_spread_keeps: "index key = Some e \<Longrightarrow> index_spread f index key = Some e"
proof -
  have host: "index key = Some e \<Longrightarrow> index_host f model host index key = Some e" for model host index
    by (auto simp: index_host_def Let_def split: option.splits)
  have hosts: "index key = Some e \<Longrightarrow> fold (index_host f model) hs index key = Some e" for model hs index
    by (induction hs arbitrary: index) (simp_all add: host)
  have "index key = Some e \<Longrightarrow> fold (\<lambda>(model, hs). fold (index_host f model) hs) sp index key = Some e" for sp
    by (induction sp arbitrary: index) (auto simp: hosts)
  then show "index key = Some e \<Longrightarrow> index_spread f index key = Some e"
    by (simp add: index_spread_def)
qed

lemma register_providers_keeps:
  "register_providers ps entries order = Inr (entries', order') \<Longrightarrow> entries i = Some e \<Longrightarrow> entries' i = Some e"
  by (induction ps entries order rule: register_providers.induct)
    (fastforce split: if_splits option.splits)+

lemma register_providers_order:
  "register_providers ps entries order = Inr (entries', order') \<Longrightarrow> distinct order \<Longrightarrow> set order = dom entries \<Longrightarrow>
     distinct order' \<and> set order' = dom entries'"
  by (induction ps entries order rule: register_providers.induct)
    (auto split: if_splits option.splits)

lemma register_providers_all:
  "register_providers ps entries order = Inr (entries', order') \<Longrightarrow> p \<in> set ps \<Longrightarrow>
     entries' (pc_id p) = provider_entry_of p \<or> provider_entry_of p = None"
  by (induction ps entries order rule: register_providers.induct)
    (auto simp: register_providers_keeps split: if_splits option.splits)

text \<open>
  A registry built from a configuration serves every text provider of it, in the configured
  order and under an id of its own, with the capabilities its declaration gives it.
\<close>

theorem registry_serves_config:
  assumes "registry_from_config egress providers cat cost_map = Inr rg"
  shows "distinct (rg_order rg) \<and> set (rg_order rg) = dom (rg_providers rg)
    \<and> list_all (\<lambda>p. provider_entry_of p = None \<or> rg_providers rg (pc_id p) = provider_entry_of p) providers"
proof -
  obtain entries order where reg: "register_providers providers Map.empty [] = Inr (entries, order)"
    and rg: "rg_providers rg = entries" "rg_order rg = order"
    using assms by (auto simp: registry_from_config_def try_with_Inr)
  show ?thesis
    using register_providers_order [OF reg] register_providers_all [OF reg] unfolding rg list_all_iff by auto
qed

section \<open>Witnesses\<close>

definition priced_registry :: registry where
  "priced_registry = \<lparr>rg_providers = [''p'' \<mapsto> \<lparr>pe_capabilities = default_capabilities, pe_kind = ModelApi\<rparr>],
     rg_order = [''p''], rg_catalog = empty_catalog,
     rg_cost_index = [''p/m'' \<mapsto> \<lparr>ce_cost = Some \<lparr>input_per_mtok = FFin 3, output_per_mtok = FFin 15\<rparr>,
       ce_unit_price = None, ce_tags = []\<rparr>], rg_latency = new_latency_tracker\<rparr>"

theorem cost_micros_mono_witness:
  "cost_micros priced_registry ''p'' ''m'' default_usage
     \<le> cost_micros priced_registry ''p'' ''m'' (default_usage\<lparr>us_input_tokens := 7, us_output_tokens := 2\<rparr>)"
  by (rule cost_micros_mono)
    (simp_all add: usage_le_def sums_fit_def default_usage_def priced_registry_def target_key_def)

theorem routed_price_is_billed_witness:
  "registry_cost_profile priced_registry ''p'' ''m'' = Some \<lparr>input_per_mtok = FFin 3, output_per_mtok = FFin 15\<rparr>"
proof -
  obtain t where t: "target_for_provider_model priced_registry ''p'' ''m'' = Some t"
    by (auto simp: target_for_provider_model_def priced_registry_def Let_def)
  then have "et_cost t = Some \<lparr>input_per_mtok = FFin 3, output_per_mtok = FFin 15\<rparr>"
    by (auto simp: target_for_provider_model_def priced_registry_def target_key_def Let_def)
  from routed_price_is_billed [OF t this] show ?thesis by simp
qed

text \<open>
  The two price functions part when a target is priced per unit and also listed with token
  prices in the catalog: the profile is unknown while the cost is charged from the catalog.
\<close>

definition unit_priced :: registry where
  "unit_priced = priced_registry\<lparr>rg_catalog := empty_catalog\<lparr>ct_prices := [price_row 5000000 ''2024'' None]\<rparr>,
     rg_cost_index := [''p/m'' \<mapsto> \<lparr>ce_cost = None,
       ce_unit_price = Some \<lparr>up_pricing_unit = PerImage, up_unit_price_micros = 1\<rparr>, ce_tags = []\<rparr>]\<rparr>"

lemma price_sources_differ:
  "registry_cost_profile unit_priced ''p'' ''m'' = None
   \<and> cost_micros unit_priced ''p'' ''m'' (default_usage\<lparr>us_input_tokens := 2\<rparr>) = 10"
  by (simp add: registry_cost_profile_def cost_micros_def unit_priced_def target_key_def catalog_cost_def
      current_price_def empty_catalog_def price_row_def default_usage_def sat_mul_def sat_add_def Let_def)

end
