(* ===== verification/Profiles_Facts.thy ===== *)
theory Profiles_Facts
  imports Profiles Router_Plan Registry_Facts Resolver_Facts
begin

text \<open>
  What the way from a model name to a plan guarantees: the scopes of tenants and client profiles
  hold for every planned target, the private profile keeps out the shared lanes, a combo's round
  robin is fair, and a client profile is applied only where it may be.
\<close>

section \<open>Planned targets\<close>

lemma planned_eligible:
  assumes "c \<in> set (plan_candidates (plan_route req rn require cs policy :: 'rc route_plan))"
  shows "c \<in> set cs"
    and "eligible req require policy (degraded (plan_decision (plan_route req rn require cs policy :: 'rc route_plan)) ''vision_in'') c"
proof -
  have "c \<in># mset (plan_candidates (plan_route req rn require cs policy :: 'rc route_plan))"
    using assms by simp
  then have c: "c \<in> set cs" "eligible req require policy (runs_relaxed req require policy cs) c"
    unfolding plan_candidates_mset by auto
  then show "c \<in> set cs" by simp
  have "degraded (plan_decision (plan_route req rn require cs policy :: 'rc route_plan)) ''vision_in'' =
      runs_relaxed req require policy cs"
    using c by (auto simp: plan_degraded_iff filter_empty_conv)
  with c(2) show "eligible req require policy (degraded (plan_decision (plan_route req rn require cs policy :: 'rc route_plan)) ''vision_in'') c"
    by simp
qed

text \<open>
  The execution side strips the images of a request whose plan records the vision degradation
  (\<open>strip_image_parts\<close>) before it is sent. The requirements of the stripped request differ
  from the original's in the vision ones alone.
\<close>

lemma stripped_needs:
  assumes "rr_vision_in require \<noteq> Some True" and "rr_vision_sources require = []"
  shows "route_needs_of (fst (strip_image_parts marker req)) require =
    (route_needs_of req require)\<lparr>need_vision := False, need_image_sources := []\<rparr>"
proof -
  have "required_image_sources (fst (strip_image_parts marker req)) = []"
    by (rule required_image_sources_Nil) (rule image_count_strip)
  moreover have "\<not> requires_vision (fst (strip_image_parts marker req))"
    by (simp add: requires_vision_def image_count_strip)
  ultimately show ?thesis
    using assms by (simp add: route_needs_of_def requires_tools_def requires_server_tools_def bs_collect_def)
      (simp add: strip_image_parts_eq required_server_tool_protocols_def)
qed

lemma stripped_eligible:
  assumes "rr_vision_in require \<noteq> Some True" and "rr_vision_sources require = []"
    and "eligible req require policy True c"
  shows "eligible (fst (strip_image_parts marker req)) require policy False c"
  using assms(3) unfolding eligible_def capable_def stripped_needs [OF assms(1,2)] Let_def by simp

text \<open>The request that is sent passes every hard filter of every planned target.\<close>

lemma sent_eligible:
  fixes plan :: "'rc route_plan"
  assumes "plan = plan_route req rn require cs policy" and "c \<in> set (plan_candidates plan)"
  shows "eligible (if degraded (plan_decision plan) ''vision_in'' then fst (strip_image_parts marker req) else req)
    require policy False c"
proof -
  let ?d = "degraded (plan_decision plan) ''vision_in''"
  have elig: "eligible req require policy ?d c"
    using planned_eligible(2) [of c req rn require cs policy] assms by simp
  show ?thesis
  proof (cases ?d)
    case True
    then have "runs_relaxed req require policy cs"
      by (simp add: assms(1) plan_degraded_iff)
    with True elig show ?thesis
      using stripped_eligible [of require req policy c marker] by (simp add: runs_relaxed_def vision_degradable_def)
  next
    case False
    with elig show ?thesis by simp
  qed
qed

definition scoped_candidates ::
  "'k resolver \<Rightarrow> client_profile_config option \<Rightarrow> execution_target list \<Rightarrow> execution_target list" where
  "scoped_candidates r profile cs =
     (case profile of
        Some p \<Rightarrow> if cpc_accounts p \<noteq> [] then fst (retain (profile_rejects r p) cs) else cs
      | None \<Rightarrow> cs)"

lemma plan_scoped_candidates:
  "plan_candidates (plan_scoped r snap req profile resolved tenant cs rej :: 'rc route_plan) =
     plan_candidates (plan_route req (cn_route_name resolved) (cn_require resolved) (scoped_candidates r profile cs)
       (routing_policy_for snap (cn_profile resolved)) :: 'rc route_plan)"
  by (simp add: plan_scoped_def scoped_candidates_def Let_def split_beta split: option.split)

lemma rejections_keep_fallback:
  "rd_capability_fallback (fold (\<lambda>(i, why). reject i why) rs d) = rd_capability_fallback d"
  by (induction rs arbitrary: d) (auto simp: reject_def)

lemma annotate_degraded: "degraded (annotate_decision combo tenant profile rs d) k = degraded d k"
  by (auto simp: annotate_decision_def degraded_def Let_def add_reason_def rejections_keep_fallback split: option.split)

lemma plan_scoped_degraded:
  "degraded (plan_decision (plan_scoped r snap req profile resolved tenant cs rej :: 'rc route_plan)) k =
     degraded (plan_decision (plan_route req (cn_route_name resolved) (cn_require resolved) (scoped_candidates r profile cs)
       (routing_policy_for snap (cn_profile resolved)) :: 'rc route_plan)) k"
  by (simp add: plan_scoped_def scoped_candidates_def Let_def split_beta annotate_degraded split: option.split)

lemma scoped_candidates_ok:
  "c \<in> set (scoped_candidates r profile cs) \<longleftrightarrow>
     c \<in> set cs \<and> (case profile of Some p \<Rightarrow> client_profile_candidate_has_account r p c | None \<Rightarrow> True)"
  by (auto simp: scoped_candidates_def retain_def profile_rejects_def client_profile_candidate_has_account_def
      split: option.split if_splits)

lemma combo_order_set:
  "set (cn_candidates (fst (apply_combo_order adv resolved rr))) = set (cn_candidates resolved)"
  "cn_route_name (fst (apply_combo_order adv resolved rr)) = cn_route_name resolved"
  "cn_profile (fst (apply_combo_order adv resolved rr)) = cn_profile resolved"
  "cn_require (fst (apply_combo_order adv resolved rr)) = cn_require resolved"
  by (auto simp: apply_combo_order_def Let_def split: option.splits combo_strategy.splits)

text \<open>The tenant of a request, when it names one that is configured.\<close>

definition tenant_of :: "snapshot \<Rightarrow> 'j ai_request \<Rightarrow> tenant_config option" where
  "tenant_of snap req = (case req_tenant req of Some i \<Rightarrow> config_tenant snap i | None \<Rightarrow> None)"

lemma plan_resolved_route_candidates:
  fixes plan :: "'rc route_plan"
  assumes "plan_resolved_route snap req profile resolved adv eg = (Inr (rn, plan), eg')"
  shows "\<exists>cs. set cs \<subseteq> {c \<in> set (cn_candidates resolved). case tenant_of snap req of
        Some t \<Rightarrow> tenant_rejects (eg_resolver eg) t c = None | None \<Rightarrow> True}
    \<and> plan_candidates plan = plan_candidates (plan_route req rn (cn_require resolved)
        (scoped_candidates (eg_resolver eg) profile cs) (routing_policy_for snap (cn_profile resolved)) :: 'rc route_plan)
    \<and> degraded (plan_decision plan) ''vision_in'' = degraded (plan_decision (plan_route req rn (cn_require resolved)
        (scoped_candidates (eg_resolver eg) profile cs) (routing_policy_for snap (cn_profile resolved)) :: 'rc route_plan)) ''vision_in''
    \<and> rn = cn_route_name resolved
    \<and> (case tenant_of snap req of Some t \<Rightarrow> tenant_route_allowed t rn | None \<Rightarrow> True)"
proof -
  let ?r1 = "fst (apply_combo_order adv resolved (eg_combo_rr eg))"
  note order = combo_order_set [of adv resolved "eg_combo_rr eg"]
  show ?thesis
  proof (cases "tenant_of snap req")
    case None
    with assms show ?thesis
      by (intro exI [of _ "cn_candidates ?r1"])
        (auto simp: plan_resolved_route_def tenant_of_def Let_def split_beta order plan_scoped_candidates plan_scoped_degraded)
  next
    case (Some t)
    with assms show ?thesis
      by (intro exI [of _ "filter (\<lambda>c. tenant_rejects (eg_resolver eg) t c = None) (cn_candidates ?r1)"])
        (auto simp: plan_resolved_route_def tenant_of_def Let_def split_beta order plan_scoped_candidates plan_scoped_degraded retain_def
          split: if_splits)
  qed
qed

lemma tenant_rejects_None:
  "tenant_rejects r t c = None \<longleftrightarrow> tenant_provider_allowed t (et_provider_id c) \<and> tenant_candidate_has_account r t c"
  by (simp add: tenant_rejects_def)

lemma plan_scope_facts:
  fixes plan :: "'rc route_plan"
  assumes "plan_resolved_route snap req profile resolved adv eg = (Inr (rn, plan), eg')"
    and "c \<in> set (plan_candidates plan)"
  shows "c \<in> set (cn_candidates resolved)"
    and "case tenant_of snap req of
        Some t \<Rightarrow> tenant_route_allowed t rn \<and> tenant_rejects (eg_resolver eg) t c = None | None \<Rightarrow> True"
    and "case profile of Some p \<Rightarrow> client_profile_candidate_has_account (eg_resolver eg) p c | None \<Rightarrow> True"
    and "eligible (if degraded (plan_decision plan) ''vision_in'' then fst (strip_image_parts marker req) else req)
      (cn_require resolved) (routing_policy_for snap (cn_profile resolved)) False c"
    and "\<exists>relax. eligible req (cn_require resolved) (routing_policy_for snap (cn_profile resolved)) relax c"
proof -
  obtain cs where cs: "set cs \<subseteq> {c \<in> set (cn_candidates resolved). case tenant_of snap req of
        Some t \<Rightarrow> tenant_rejects (eg_resolver eg) t c = None | None \<Rightarrow> True}"
    and plan: "plan_candidates plan = plan_candidates (plan_route req rn (cn_require resolved)
        (scoped_candidates (eg_resolver eg) profile cs) (routing_policy_for snap (cn_profile resolved)) :: 'rc route_plan)"
    and deg: "degraded (plan_decision plan) ''vision_in'' = degraded (plan_decision (plan_route req rn (cn_require resolved)
        (scoped_candidates (eg_resolver eg) profile cs) (routing_policy_for snap (cn_profile resolved)) :: 'rc route_plan)) ''vision_in''"
    and route: "case tenant_of snap req of Some t \<Rightarrow> tenant_route_allowed t rn | None \<Rightarrow> True"
    using plan_resolved_route_candidates [OF assms(1)] by blast
  note planned = assms(2) [unfolded plan]
  show "eligible (if degraded (plan_decision plan) ''vision_in'' then fst (strip_image_parts marker req) else req)
      (cn_require resolved) (routing_policy_for snap (cn_profile resolved)) False c"
    unfolding deg by (rule sent_eligible [OF refl planned])
  show "\<exists>relax. eligible req (cn_require resolved) (routing_policy_for snap (cn_profile resolved)) relax c"
    using planned_eligible(2) [OF planned] by blast
  have scoped: "c \<in> set (scoped_candidates (eg_resolver eg) profile cs)"
    by (rule planned_eligible(1) [OF planned])
  then show "case profile of Some p \<Rightarrow> client_profile_candidate_has_account (eg_resolver eg) p c | None \<Rightarrow> True"
    by (simp add: scoped_candidates_ok)
  from scoped have "c \<in> set cs"
    by (simp add: scoped_candidates_ok)
  with cs route show "c \<in> set (cn_candidates resolved)"
    and "case tenant_of snap req of
        Some t \<Rightarrow> tenant_route_allowed t rn \<and> tenant_rejects (eg_resolver eg) t c = None | None \<Rightarrow> True"
    by (auto split: option.splits)
qed

text \<open>
  A plan stays inside the scopes: its route is one the tenant may use, and every planned target
  was offered by the route, belongs to a provider the tenant may use, has a configured account
  that the tenant's account list names, and one that the client profile pins, where those lists
  exist.
\<close>

theorem plan_within_scopes:
  fixes plan :: "'rc route_plan"
  assumes "plan_resolved_route snap req profile resolved adv eg = (Inr (rn, plan), eg')"
    and "c \<in> set (plan_candidates plan)"
  shows "c \<in> set (cn_candidates resolved)
    \<and> (case tenant_of snap req of
         Some t \<Rightarrow> tenant_route_allowed t rn \<and> tenant_provider_allowed t (et_provider_id c)
           \<and> tenant_candidate_has_account (eg_resolver eg) t c
       | None \<Rightarrow> True)
    \<and> (case profile of Some p \<Rightarrow> client_profile_candidate_has_account (eg_resolver eg) p c | None \<Rightarrow> True)
    \<and> (\<exists>relax. eligible req (cn_require resolved) (routing_policy_for snap (cn_profile resolved)) relax c)"
  using plan_scope_facts [OF assms] by (auto simp: tenant_rejects_None split: option.splits)

section \<open>Resolution\<close>

lemma resolve_route_profile: "resolve_route snap model = Inr resolved \<Longrightarrow> cn_profile resolved = profile_from_model model"
  by (auto simp: resolve_route_def route_resolution_def single_resolution_def split: option.splits)

lemma stamp_candidate_frame:
  "et_policy_tags (fst (stamp_candidate clock snap now t eg)) = et_policy_tags t"
  "et_id (fst (stamp_candidate clock snap now t eg)) = et_id t"
  "et_unverified (fst (stamp_candidate clock snap now t eg)) = et_unverified t"
  by (simp_all add: stamp_candidate_def Let_def split_beta)

lemma stamp_candidates_map:
  "map et_id (fst (stamp_candidates clock snap now ts eg)) = map et_id ts"
  "map et_unverified (fst (stamp_candidates clock snap now ts eg)) = map et_unverified ts"
  by (induction ts arbitrary: eg) (simp_all add: Let_def split_beta stamp_candidate_frame)

text \<open>
  The private profile: a request for \<open>auto/private\<close> is planned on no free, promotional or
  aggregator lane, whatever the server's lane settings are.
\<close>

theorem private_profile_keeps_lanes_out:
  assumes "resolve_candidates clock snap ''auto/private'' eg = (Inr resolved, eg1)"
    and "plan_resolved_route snap req profile resolved adv eg2 = (Inr (rn, plan), eg3)"
    and "c \<in> set (plan_candidates plan)"
  shows "set (et_policy_tags c) \<inter> {''free'', ''promo'', ''aggregator''} = {}"
proof -
  have "cn_profile resolved = Some ProfilePrivate"
    using assms(1) resolve_route_profile [of snap "''auto/private''"]
    by (auto simp: resolve_candidates_def profile_from_model_def Let_def split_beta split: sum.splits)
  then show ?thesis
    using plan_scope_facts(5) [OF assms(2,3)]
    by (auto simp: eligible_def lanes_admitted_def routing_policy_for_def Let_def)
qed

text \<open>
  Only the pass-through of an unknown model yields an unverified candidate; every other way
  resolves to targets that the registry knows by their id.
\<close>

theorem unverified_only_passthrough:
  assumes "resolve_candidates clock snap model eg = (Inr resolved, eg1)" and "c \<in> set (cn_candidates resolved)"
  shows "et_unverified c \<longleftrightarrow>
     profile_from_model model = None \<and> route_for snap model = None \<and> combo_for snap model = None
     \<and> target_for (sn_registry snap) model = None"
proof -
  obtain res where res: "resolve_route snap model = Inr res"
    and c: "map et_unverified (cn_candidates resolved) = map et_unverified (cn_candidates res)"
    using assms(1) by (auto simp: resolve_candidates_def Let_def split_beta stamp_candidates_map split: sum.splits)
  have known: "\<not> et_unverified t" if "target_for_provider_model rg p m = Some t" for rg p m t
    using that by (auto simp: target_for_provider_model_def Let_def split: option.splits)
  then have direct: "\<not> et_unverified t" if "target_for rg i = Some t" for rg i t
    using that by (auto simp: target_for_def split: option.splits)
  have listed: "True \<notin> et_unverified ` set (known_targets rg ids)" for rg ids
    by (auto simp: known_targets_def map_filter_def dest: direct)
  have "et_unverified c \<in> et_unverified ` set (cn_candidates res)"
    using assms(2) c by (metis image_eqI list.set_map)
  with res listed direct show ?thesis
    by (auto simp: resolve_route_def route_resolution_def single_resolution_def route_for_def or_else_def
        split: option.splits)
qed

section \<open>Combos\<close>

text \<open>The order a round-robin combo serves its \<open>k\<close>-th request in.\<close>

fun combo_requests :: "nat \<Rightarrow> candidate_resolution \<Rightarrow> (string \<rightharpoonup> usize) \<Rightarrow> execution_target list list" where
  "combo_requests 0 resolved rr = []"
| "combo_requests (Suc k) resolved rr =
     (let (out, rr') = apply_combo_order True resolved rr in cn_candidates out # combo_requests k resolved rr')"

lemma combo_requests_rotate:
  assumes "cn_combo resolved = Some (name, ComboRoundRobin)" and "1 < length (cn_candidates resolved)"
    and "(case rr name of Some c \<Rightarrow> c | None \<Rightarrow> 0) = c" and "c + k < 2 ^ 64"
  shows "combo_requests k resolved rr = map (\<lambda>i. rotate (c + i) (cn_candidates resolved)) [0..<k]"
  using assms(3,4)
proof (induction k arbitrary: rr c)
  case (Suc k)
  let ?rr = "rr(name \<mapsto> c + 1)"
  have "apply_combo_order True resolved rr =
      (resolved\<lparr>cn_candidates := rotate c (cn_candidates resolved)\<rparr>, ?rr)"
    using Suc.prems assms(1,2)
    by (simp add: apply_combo_order_def Let_def rotate_conv_mod [of c])
  moreover have "combo_requests k resolved ?rr = map (\<lambda>i. rotate (c + 1 + i) (cn_candidates resolved)) [0..<k]"
    using Suc.prems by (intro Suc.IH) simp_all
  ultimately show ?case
    by (simp add: upt_conv_Cons map_Suc_upt [symmetric] del: upt_Suc rotate_Suc)
qed simp

lemma mset_rotate: "mset (rotate n xs) = mset xs"
  by (metis append_take_drop_id mset_append rotate_drop_take union_commute)

text \<open>
  A round-robin combo is fair: in any run of as many requests as it has candidates, every
  candidate is the first choice exactly once.
\<close>

theorem combo_round_robin_fair:
  assumes "cn_combo resolved = Some (name, ComboRoundRobin)" and "1 < length (cn_candidates resolved)"
    and "(case rr name of Some c \<Rightarrow> c | None \<Rightarrow> 0) = c"
    and "c + length (cn_candidates resolved) < 2 ^ 64"
  shows "mset (map hd (combo_requests (length (cn_candidates resolved)) resolved rr)) = mset (cn_candidates resolved)"
proof -
  let ?cs = "cn_candidates resolved" and ?n = "length (cn_candidates resolved)"
  have "map hd (combo_requests ?n resolved rr) = map (\<lambda>i. hd (rotate (c + i) ?cs)) [0..<?n]"
    using combo_requests_rotate [OF assms(1,2), where rr = rr and c = c and k = ?n] assms(3,4) by simp
  also have "\<dots> = rotate c ?cs"
    using assms(2) by (intro nth_equalityI) (auto simp: hd_rotate_conv_nth nth_rotate ac_simps intro!: hd_rotate_conv_nth)
  finally show ?thesis by (simp add: mset_rotate)
qed

section \<open>Client profiles\<close>

text \<open>
  A client profile is applied only where it may be: it is a configured, enabled profile that
  speaks the request's protocol and allows the request's model, the request is stamped with it,
  and a profile named in a header is either the one applied or an error.
\<close>

theorem applied_profile_permitted:
  assumes "apply_request_client_profile snap req = (Inr applied, req')"
  shows "case applied of
      Some p \<Rightarrow> p \<in> set (sn_client_profiles snap) \<and> cpc_enabled p
        \<and> (bt_get (req_metadata req) ''client_protocol'' \<in> {None, Some (client_profile_protocol (cpc_kind p))})
        \<and> (cpc_models p = [] \<or> req_model req \<in> set (cpc_models p))
        \<and> (bt_get (req_metadata req) ''client_profile_source'' = Some ''header'' \<longrightarrow>
             bt_get (req_metadata req) ''client_profile'' = Some (cpc_id p))
        \<and> req' = req\<lparr>req_metadata := bt_insert ''client_profile_mode'' (client_profile_mode_as_str (cpc_mode p))
              (bt_insert ''client_profile'' (cpc_id p) (req_metadata req))\<rparr>
    | None \<Rightarrow> req' = req \<and> bt_get (req_metadata req) ''client_profile_source'' \<noteq> Some ''header''"
proof -
  let ?configured = "case bt_get (req_metadata req) ''client_profile'' of
      Some i \<Rightarrow> find (\<lambda>p. cpc_id p = i) (sn_client_profiles snap) | None \<Rightarrow> None"
  have conf: "p \<in> set (sn_client_profiles snap) \<and> bt_get (req_metadata req) ''client_profile'' = Some (cpc_id p)"
    if "?configured = Some p" for p
    using that by (auto simp: find_Some_iff split: option.splits)
  have inf: "p \<in> set (sn_client_profiles snap)" if "infer_client_profile_for_model snap req = Inr (Some p)" for p
  proof -
    from that have "filter (\<lambda>p. req_model req \<in> set (cpc_models p)) (sn_client_profiles snap) = [p]"
      by (auto simp: infer_client_profile_for_model_def split: list.splits)
    then show ?thesis by (metis filter_is_subset list.set_intros(1) subsetD)
  qed
  have check: "cpc_enabled p \<and> (bt_get (req_metadata req) ''client_protocol'' \<in> {None, Some (client_profile_protocol (cpc_kind p))})
      \<and> (cpc_models p = [] \<or> req_model req \<in> set (cpc_models p))" if "check_client_profile req p = Inr u" for p u
    using that by (auto simp: check_client_profile_def split: if_splits option.splits)
  let ?source = "bt_get (req_metadata req) ''client_profile_source''"
  let ?inferred = "if ?configured = None \<and> ?source \<noteq> Some ''header'' then infer_client_profile_for_model snap req else Inr None"
  obtain guessed where guessed: "?inferred = Inr guessed"
    using assms by (cases ?inferred) (simp_all add: apply_request_client_profile_def)
  show ?thesis
  proof (cases "or_else ?configured guessed")
    case None
    then show ?thesis
      using assms guessed by (auto simp: apply_request_client_profile_def split: if_splits)
  next
    case (Some p)
    then have "p \<in> set (sn_client_profiles snap) \<and>
        (?source = Some ''header'' \<longrightarrow> bt_get (req_metadata req) ''client_profile'' = Some (cpc_id p))"
      using guessed conf inf by (cases ?configured) (auto simp: or_else_def split: if_splits)
    moreover obtain u where u: "check_client_profile req p = Inr u"
      using assms guessed Some by (cases "check_client_profile req p") (simp_all add: apply_request_client_profile_def)
    moreover have "applied = Some p" and "req' = req\<lparr>req_metadata :=
          bt_insert ''client_profile_mode'' (client_profile_mode_as_str (cpc_mode p))
            (bt_insert ''client_profile'' (cpc_id p) (req_metadata req))\<rparr>"
      using assms guessed Some u by (simp_all add: apply_request_client_profile_def)
    ultimately show ?thesis
      using check [OF u] by simp
  qed
qed

section \<open>Witnesses\<close>

definition team :: tenant_config where
  "team = \<lparr>tc_id = ''team'', tc_allowed_routes = [''private''], tc_allowed_providers = [''p''],
     tc_allowed_accounts = [''p/b''], tc_budget_usd = None, tc_max_concurrency = None\<rparr>"

definition codex :: client_profile_config where
  "codex = \<lparr>cpc_id = ''codex'', cpc_kind = CpkCodex, cpc_enabled = True, cpc_mode = CpmSwitchbackIngress,
     cpc_models = [''auto/private''], cpc_accounts = [], cpc_description = None\<rparr>"

definition small_snapshot :: snapshot where
  "small_snapshot = \<lparr>sn_routes = [\<lparr>rt_name = ''private'', rt_match_model = Some ''auto/private'',
       rt_require = default_require, rt_targets = [''p/m'', ''gone/m'']\<rparr>],
     sn_combos = [], sn_tenants = [team], sn_client_profiles = [codex], sn_default_provider = None,
     sn_registry = priced_registry, sn_cost_aware = False, sn_latency_aware = False, sn_cost_max_per_mtok = None,
     sn_cost_allow_free = True, sn_cost_allow_promo = True, sn_cost_allow_aggregator = True,
     sn_vision_degrade = False, sn_cost_unknown = UnknownCostAllow, sn_context_unknown = UnknownContextAllow,
     sn_scorecard = default_scorecard_config, sn_quality_eval = default_quality_eval_config,
     sn_evaluator_id = (\<lambda>ts. [])\<rparr>"

definition idle_engine :: "unit engine" where
  "idle_engine = \<lparr>eg_resolver = two_accounts FillFirst, eg_scorecard = new_scorecard, eg_combo_rr = Map.empty,
     eg_tick = 0, eg_calls = 0, eg_quality_capture = False, eg_effects = []\<rparr>"

definition team_request :: "unit ai_request" where
  "team_request = (new_request ''r1'' ''auto/private'' [])\<lparr>req_tenant := Some ''team''\<rparr>"

definition stamped_target :: execution_target where
  "stamped_target = (new_target ''p'' ''m'' ModelApi)
     \<lparr>et_cost := Some \<lparr>input_per_mtok = FFin 3, output_per_mtok = FFin 15\<rparr>, et_healthy_accounts := Some 2\<rparr>"

definition private_resolution :: candidate_resolution where
  "private_resolution = \<lparr>cn_route_name = ''private'', cn_require = default_require, cn_candidates = [stamped_target],
     cn_unknown = [''gone/m''], cn_profile = Some ProfilePrivate, cn_combo = None\<rparr>"

lemma private_resolved:
  "\<exists>eg1. resolve_candidates (\<lambda>n. n) small_snapshot ''auto/private'' idle_engine = (Inr private_resolution, eg1)"
  by (simp add: resolve_candidates_def resolve_route_def profile_from_model_def exact_route_for_def or_else_def
      small_snapshot_def route_resolution_def known_targets_def unknown_targets_def map_filter_simps
      target_for_def target_for_provider_model_def priced_registry_def target_key_def starts_with_def empty_catalog_def
      latency_get_def ttft_get_def new_latency_tracker_def
      private_resolution_def stamped_target_def new_target_def stamp_candidate_def Let_def read_clock_def idle_engine_def
      pool_health_of_def two_accounts_defs breaker_view_def new_breaker_def default_breaker_config_def circuit_view_closed_def
      sc_project_def get_entry_def new_scorecard_def default_quality_eval_config_def default_scorecard_config_def)

lemma stamped_eligible:
  "eligible team_request default_require (routing_policy_for small_snapshot (Some ProfilePrivate)) relax stamped_target"
  by (simp add: eligible_def capable_def context_admitted_def lanes_admitted_def price_admitted_def route_needs_of_def
      team_request_def stamped_target_def new_target_def new_request_def default_capabilities_def default_require_def
      routing_policy_for_def small_snapshot_def
      requires_tools_def requires_server_tools_def requires_vision_def all_parts_def image_count_def Let_def)

definition team_plan :: "unit route_plan" where
  "team_plan = plan_scoped (two_accounts FillFirst) small_snapshot team_request None private_resolution (Some team)
     [stamped_target] []"

lemma team_planned:
  "plan_resolved_route small_snapshot team_request None private_resolution True idle_engine =
     (Inr (''private'', team_plan), idle_engine)"
  by (simp add: plan_resolved_route_def apply_combo_order_def private_resolution_def team_plan_def team_request_def
      config_tenant_def small_snapshot_def team_def tenant_route_allowed_def retain_def tenant_rejects_def
      tenant_provider_allowed_def tenant_candidate_has_account_def has_configured_account_def tenant_allowed_accounts_def
      accounts_for_provider_def starts_with_def map_filter_simps account_ids_def idle_engine_def two_accounts_defs
      stamped_target_def new_target_def Let_def)

lemma team_plan_candidates: "stamped_target \<in> set (plan_candidates team_plan)"
proof -
  have "stamped_target \<in># mset (plan_candidates team_plan)"
    unfolding team_plan_def plan_scoped_candidates plan_candidates_mset
    by (simp add: scoped_candidates_def private_resolution_def stamped_eligible)
  then show ?thesis by simp
qed

theorem plan_within_scopes_witness:
  "tenant_route_allowed team ''private'' \<and> tenant_candidate_has_account (two_accounts FillFirst) team stamped_target"
proof -
  have "tenant_of small_snapshot team_request = Some team"
    by (simp add: tenant_of_def team_request_def config_tenant_def small_snapshot_def team_def)
  then show ?thesis
    using plan_within_scopes [OF team_planned team_plan_candidates] by (simp add: idle_engine_def)
qed

theorem private_profile_keeps_lanes_out_witness:
  "set (et_policy_tags stamped_target) \<inter> {''free'', ''promo'', ''aggregator''} = {}"
proof -
  obtain eg1 where "resolve_candidates (\<lambda>n. n) small_snapshot ''auto/private'' idle_engine = (Inr private_resolution, eg1)"
    using private_resolved by blast
  from private_profile_keeps_lanes_out [OF this team_planned team_plan_candidates] show ?thesis .
qed

theorem unverified_only_passthrough_witness: "\<not> et_unverified stamped_target"
proof -
  obtain eg1 where "resolve_candidates (\<lambda>n. n) small_snapshot ''auto/private'' idle_engine = (Inr private_resolution, eg1)"
    using private_resolved by blast
  from unverified_only_passthrough [OF this, of stamped_target] show ?thesis
    by (simp add: private_resolution_def profile_from_model_def)
qed

theorem combo_round_robin_fair_witness:
  "mset (map hd (combo_requests 2 (private_resolution\<lparr>cn_combo := Some (''c'', ComboRoundRobin),
      cn_candidates := [stamped_target, dear_target]\<rparr>) Map.empty)) = {#stamped_target, dear_target#}"
proof -
  let ?r = "private_resolution\<lparr>cn_combo := Some (''c'', ComboRoundRobin), cn_candidates := [stamped_target, dear_target]\<rparr>"
  have "mset (map hd (combo_requests (length (cn_candidates ?r)) ?r Map.empty)) = mset (cn_candidates ?r)"
    by (rule combo_round_robin_fair [of _ "''c''" _ 0]) simp_all
  then show ?thesis
    by (simp add: numeral_2_eq_2 del: combo_requests.simps)
qed

theorem applied_profile_permitted_witness:
  "\<exists>req'. apply_request_client_profile small_snapshot team_request = (Inr (Some codex), req') \<and> cpc_enabled codex"
proof -
  obtain req' where "apply_request_client_profile small_snapshot team_request = (Inr (Some codex), req')"
    by (simp add: apply_request_client_profile_def infer_client_profile_for_model_def check_client_profile_def
        or_else_def small_snapshot_def codex_def team_request_def new_request_def bt_get_def)
  with applied_profile_permitted [OF this] show ?thesis by simp
qed

end
