(* ===== verification/Pipeline_Facts.thy ===== *)
theory Pipeline_Facts
  imports Pipeline Compress_Facts Profiles_Facts
begin

text \<open>
  What holds of a whole request, whatever the schedule of a race: the steps before the plan
  dispatch nothing and touch no account, every planned target satisfies the policies of the
  request, and everything that is dispatched was planned.
\<close>

section \<open>Frames\<close>

lemma keys_denial [key_facts]: "keys (denial e eg) = keys eg"
  by (simp add: denial_def key_facts)

lemma stamp_engine:
  "eg_resolver (snd (stamp_candidates clock snap now ts eg)) = eg_resolver eg"
  "keys (snd (stamp_candidates clock snap now ts eg)) = keys eg"
  by (induction ts arbitrary: eg) (simp_all add: stamp_candidate_def read_clock_def keys_def Let_def split_beta)

lemma resolve_candidates_engine:
  "eg_resolver (snd (resolve_candidates clock snap model eg)) = eg_resolver eg"
  "keys (snd (resolve_candidates clock snap model eg)) = keys eg"
  by (simp_all add: resolve_candidates_def stamp_engine Let_def split_beta read_clock_def split: sum.split)
    (simp_all add: keys_def)

lemma plan_resolved_route_engine:
  "eg_resolver (snd (plan_resolved_route snap req profile resolved adv eg :: (exec_error + string \<times> 'rc route_plan) \<times> _)) =
     eg_resolver eg"
  "keys (snd (plan_resolved_route snap req profile resolved adv eg :: (exec_error + string \<times> 'rc route_plan) \<times> _)) = keys eg"
  by (simp_all add: plan_resolved_route_def Let_def split_beta keys_def split: option.split)

lemma prepare_route_cases:
  assumes "prepare_route w gw pc scope req profile receipt eg = (res, eg')"
  shows "eg_resolver eg' = eg_resolver eg" and "keys eg' = keys eg"
    and "res = Inr p \<Longrightarrow> \<exists>resolved eg1 rn plan eg2.
      resolve_candidates (wd_clock w) (pc_snapshot pc) (req_model req) eg = (Inr resolved, eg1)
      \<and> plan_resolved_route (pc_snapshot pc) req profile (fst (scope_candidates scope resolved)) True eg1 = (Inr (rn, plan), eg2)
      \<and> p = finish_prepared gw (scope \<noteq> None) req profile receipt rn (cn_unknown (fst (scope_candidates scope resolved)))
             (scope_rejections (snd (scope_candidates scope resolved)) plan)"
proof -
  obtain r eg1 where r: "resolve_candidates (wd_clock w) (pc_snapshot pc) (req_model req) eg = (r, eg1)"
    by (cases "resolve_candidates (wd_clock w) (pc_snapshot pc) (req_model req) eg")
  have eg1: "eg_resolver eg1 = eg_resolver eg" "keys eg1 = keys eg"
    using resolve_candidates_engine [of "wd_clock w" "pc_snapshot pc" "req_model req" eg] r by simp_all
  have "eg_resolver eg' = eg_resolver eg \<and> keys eg' = keys eg \<and> (res = Inr p \<longrightarrow> (\<exists>resolved eg1 rn plan eg2.
      resolve_candidates (wd_clock w) (pc_snapshot pc) (req_model req) eg = (Inr resolved, eg1)
      \<and> plan_resolved_route (pc_snapshot pc) req profile (fst (scope_candidates scope resolved)) True eg1 = (Inr (rn, plan), eg2)
      \<and> p = finish_prepared gw (scope \<noteq> None) req profile receipt rn (cn_unknown (fst (scope_candidates scope resolved)))
             (scope_rejections (snd (scope_candidates scope resolved)) plan)))"
  proof (cases r)
    case (Inl e)
    then show ?thesis
      using assms r eg1 by (auto simp: prepare_route_def keys_denial) (simp add: denial_def emit_def)
  next
    case (Inr resolved)
    let ?scoped = "fst (scope_candidates scope resolved)"
    obtain q :: "exec_error + string \<times> execution_receipt route_plan" and eg2
      where q: "plan_resolved_route (pc_snapshot pc) req profile ?scoped True eg1 = (q, eg2)"
      by (cases "plan_resolved_route (pc_snapshot pc) req profile ?scoped True eg1
        :: (exec_error + string \<times> execution_receipt route_plan) \<times> _") auto
    have eg2: "eg_resolver eg2 = eg_resolver eg" "keys eg2 = keys eg"
      using plan_resolved_route_engine [where 'rc = execution_receipt, of "pc_snapshot pc" req profile ?scoped True eg1] q eg1
      by simp_all
    show ?thesis
    proof (cases q)
      case (Inl e)
      with assms r Inr q eg2 show ?thesis
        by (auto simp: prepare_route_def split_beta keys_denial) (simp add: denial_def emit_def)
    next
      case planned: (Inr rp)
      with assms r Inr q eg2 show ?thesis
        by (cases rp) (auto simp: prepare_route_def split_beta Let_def key_facts)
    qed
  qed
  then show "eg_resolver eg' = eg_resolver eg" and "keys eg' = keys eg"
    and "res = Inr p \<Longrightarrow> \<exists>resolved eg1 rn plan eg2.
      resolve_candidates (wd_clock w) (pc_snapshot pc) (req_model req) eg = (Inr resolved, eg1)
      \<and> plan_resolved_route (pc_snapshot pc) req profile (fst (scope_candidates scope resolved)) True eg1 = (Inr (rn, plan), eg2)
      \<and> p = finish_prepared gw (scope \<noteq> None) req profile receipt rn (cn_unknown (fst (scope_candidates scope resolved)))
             (scope_rejections (snd (scope_candidates scope resolved)) plan)"
    by blast+
qed

lemma execute_prefix_cases:
  assumes "execute_prefix w gw pc scope req ru = (res, ru')"
  shows "eg_resolver (ru_engine ru') = eg_resolver (ru_engine ru)" and "keys (ru_engine ru') = keys (ru_engine ru)"
    and "res = Inr p \<Longrightarrow> \<exists>profile req1 receipt cache eg'.
      admit_request gw pc req (eg_tick (ru_engine ru)) = Inr (profile, req1)
      \<and> lookup_exact_cache (gx_digest gw) req1 (policy_of_config (pc_cache pc)) (scope \<noteq> None)
           (gx_now_unix gw (eg_tick (ru_engine ru) + 2)) (ru_cache ru) = (receipt, cache)
      \<and> prepare_route w gw pc scope req1 profile receipt ((ru_engine ru)\<lparr>eg_tick := eg_tick (ru_engine ru) + 3\<rparr>) =
          (Inr p, eg') \<and> ru' = \<lparr>ru_engine = eg', ru_cache = cache\<rparr>"
proof -
  let ?eg1 = "(ru_engine ru)\<lparr>eg_tick := eg_tick (ru_engine ru) + 3\<rparr>"
  let ?adm = "admit_request gw pc req (eg_tick (ru_engine ru))"
  have cases: "eg_resolver (ru_engine ru') = eg_resolver (ru_engine ru) \<and> keys (ru_engine ru') = keys (ru_engine ru)"
  proof (cases ?adm)
    case (Inl e)
    with assms show ?thesis
      by (auto simp: execute_prefix_def Let_def key_facts denial_def emit_def) (simp add: keys_def)
  next
    case (Inr a)
    then obtain profile req1 receipt cache eg' where
      "prepare_route w gw pc scope req1 profile receipt ?eg1 = (res, eg')" and "ru' = \<lparr>ru_engine = eg', ru_cache = cache\<rparr>"
      using assms by (cases a) (auto simp: execute_prefix_def Let_def split_beta prod_eq_iff)
    then show ?thesis
      using prepare_route_cases(1,2) by (fastforce simp: key_facts)
  qed
  then show "eg_resolver (ru_engine ru') = eg_resolver (ru_engine ru)" and "keys (ru_engine ru') = keys (ru_engine ru)"
    by simp_all
  assume "res = Inr p"
  with assms show "\<exists>profile req1 receipt cache eg'. ?adm = Inr (profile, req1)
      \<and> lookup_exact_cache (gx_digest gw) req1 (policy_of_config (pc_cache pc)) (scope \<noteq> None)
           (gx_now_unix gw (eg_tick (ru_engine ru) + 2)) (ru_cache ru) = (receipt, cache)
      \<and> prepare_route w gw pc scope req1 profile receipt ?eg1 = (Inr p, eg') \<and> ru' = \<lparr>ru_engine = eg', ru_cache = cache\<rparr>"
    by (cases ?adm) (auto simp: execute_prefix_def Let_def split_beta prod_eq_iff)
qed

section \<open>Planned targets\<close>

text \<open>
  What the policies of a prepared request demand of a target: the tenant may use the route and
  the provider and has an account there, the client profile has one, the target is among those
  the model resolves to and passes every hard filter for the request that is sent, and it is in
  the scope of the call.
\<close>

definition within_policy ::
  "('j, 'w) pipeline_config \<Rightarrow> string set option \<Rightarrow> 'j prepared \<Rightarrow> 'k resolver \<Rightarrow> execution_target \<Rightarrow> bool" where
  "within_policy pc scope p r c \<longleftrightarrow>
     (case tenant_of (pc_snapshot pc) (pr_request p) of
        Some t \<Rightarrow> tenant_route_allowed t (pr_route p) \<and> tenant_provider_allowed t (et_provider_id c)
          \<and> tenant_candidate_has_account r t c
      | None \<Rightarrow> True)
     \<and> (case pr_profile p of Some cp \<Rightarrow> client_profile_candidate_has_account r cp c | None \<Rightarrow> True)
     \<and> (\<exists>resolved. resolve_route (pc_snapshot pc) (req_model (pr_request p)) = Inr resolved
          \<and> et_id c \<in> et_id ` set (cn_candidates resolved)
          \<and> eligible (pr_request p) (cn_require resolved) (routing_policy_for (pc_snapshot pc) (cn_profile resolved)) False c)
     \<and> (case scope of Some allowed \<Rightarrow> et_id c \<in> allowed | None \<Rightarrow> True)"

lemma scope_candidates_facts:
  "c \<in> set (cn_candidates (fst (scope_candidates scope resolved))) \<Longrightarrow>
     c \<in> set (cn_candidates resolved) \<and> (case scope of Some allowed \<Rightarrow> et_id c \<in> allowed | None \<Rightarrow> True)"
  "cn_require (fst (scope_candidates scope resolved)) = cn_require resolved"
  "cn_profile (fst (scope_candidates scope resolved)) = cn_profile resolved"
  by (auto simp: scope_candidates_def split: option.splits)

lemma stamp_candidates_ids: "map et_id (fst (stamp_candidates clock snap now ts eg)) = map et_id ts"
  by (induction ts arbitrary: eg) (simp_all add: Let_def split_beta stamp_candidate_frame)

lemma stamped_ids: "et_id ` set (fst (stamp_candidates clock snap now ts eg)) = et_id ` set ts"
  using stamp_candidates_ids [of clock snap now ts eg] by (metis list.set_map)

lemma resolve_candidates_route:
  assumes "resolve_candidates clock snap model eg = (Inr resolved, eg1)"
  obtains resolved0 where "resolve_route snap model = Inr resolved0" "cn_require resolved = cn_require resolved0"
    "cn_profile resolved = cn_profile resolved0" "et_id ` set (cn_candidates resolved) = et_id ` set (cn_candidates resolved0)"
proof (cases "resolve_route snap model")
  case (Inr resolved0)
  with assms have "resolved = resolved0\<lparr>cn_candidates := fst (stamp_candidates clock snap (fst (read_clock clock eg))
      (cn_candidates resolved0) (snd (read_clock clock eg)))\<rparr>"
    by (auto simp: resolve_candidates_def Let_def split_beta)
  with Inr show thesis
    by (intro that [of resolved0]) (simp_all add: stamped_ids)
qed (use assms in \<open>simp add: resolve_candidates_def\<close>)

lemma finish_prepared_fields:
  "pr_profile (finish_prepared gw red req profile receipt rn unk plan) = profile"
  "pr_route (finish_prepared gw red req profile receipt rn unk plan) = rn"
  "plan_candidates (pr_plan (finish_prepared gw red req profile receipt rn unk plan)) = plan_candidates plan"
  "req_tenant (pr_request (finish_prepared gw red req profile receipt rn unk plan)) = req_tenant req"
  "req_model (pr_request (finish_prepared gw red req profile receipt rn unk plan)) = req_model req"
  by (simp_all add: finish_prepared_def Let_def attach_execution_receipt_def strip_image_parts_eq)

lemma scope_rejections_plan:
  "plan_candidates (scope_rejections ids plan) = plan_candidates plan"
  "degraded (plan_decision (scope_rejections ids plan)) k = degraded (plan_decision plan) k"
  using rejections_keep_fallback [of "map (\<lambda>i. (i, ''quality_eval scope: target not body-allowlisted'')) ids" "plan_decision plan"]
  by (simp_all add: scope_rejections_def degraded_def fold_map comp_def)

lemma prepared_within_policy:
  assumes "execute_prefix w gw pc scope req ru = (Inr p, ru1)" and "c \<in> set (plan_candidates (pr_plan p))"
  shows "within_policy pc scope p (eg_resolver (ru_engine ru)) c"
proof -
  obtain profile req1 receipt cache eg' where
    "prepare_route w gw pc scope req1 profile receipt ((ru_engine ru)\<lparr>eg_tick := eg_tick (ru_engine ru) + 3\<rparr>) = (Inr p, eg')"
    using execute_prefix_cases(3) [OF assms(1) refl] by blast
  then obtain resolved eg1 rn plan eg2 where
    res: "resolve_candidates (wd_clock w) (pc_snapshot pc) (req_model req1) ((ru_engine ru)\<lparr>eg_tick := eg_tick (ru_engine ru) + 3\<rparr>) =
      (Inr resolved, eg1)"
    and plan: "plan_resolved_route (pc_snapshot pc) req1 profile (fst (scope_candidates scope resolved)) True eg1 = (Inr (rn, plan), eg2)"
    and p: "p = finish_prepared gw (scope \<noteq> None) req1 profile receipt rn (cn_unknown (fst (scope_candidates scope resolved)))
      (scope_rejections (snd (scope_candidates scope resolved)) plan)"
    using prepare_route_cases(3) [OF _ refl] by blast
  have eg1: "eg_resolver eg1 = eg_resolver (ru_engine ru)"
    using resolve_candidates_engine(1) [of "wd_clock w" "pc_snapshot pc" "req_model req1"
        "(ru_engine ru)\<lparr>eg_tick := eg_tick (ru_engine ru) + 3\<rparr>"] res by simp
  have c: "c \<in> set (plan_candidates plan)"
    using assms(2) by (simp add: p finish_prepared_fields scope_rejections_plan)
  note facts = plan_scope_facts [OF plan c, unfolded scope_candidates_facts(2,3) eg1]
  obtain resolved0 where res0: "resolve_route (pc_snapshot pc) (req_model req1) = Inr resolved0"
    "cn_require resolved = cn_require resolved0" "cn_profile resolved = cn_profile resolved0"
    "et_id ` set (cn_candidates resolved) = et_id ` set (cn_candidates resolved0)"
    by (rule resolve_candidates_route [OF res])
  have "pr_request p = (if degraded (plan_decision plan) ''vision_in'' then fst (strip_image_parts image_marker req1) else req1)"
    by (simp add: p finish_prepared_def Let_def scope_rejections_plan)
  then have "eligible (pr_request p) (cn_require resolved0) (routing_policy_for (pc_snapshot pc) (cn_profile resolved0)) False c"
    using facts(4) [of image_marker] res0(2,3) by simp
  moreover have "tenant_of (pc_snapshot pc) (pr_request p) = tenant_of (pc_snapshot pc) req1" "req_model (pr_request p) = req_model req1"
    "pr_route p = rn" "pr_profile p = profile"
    by (simp_all add: p finish_prepared_fields tenant_of_def)
  moreover have "et_id c \<in> et_id ` set (cn_candidates resolved0)" "case scope of Some allowed \<Rightarrow> et_id c \<in> allowed | None \<Rightarrow> True"
    using scope_candidates_facts(1) [OF facts(1)] res0(4) by auto
  ultimately show ?thesis
    using facts(2,3) res0(1) unfolding within_policy_def tenant_rejects_None
    by (auto simp: tenant_rejects_None split: option.splits)
qed

section \<open>Dispatched targets\<close>

text \<open>The events an engine has gained dispatch only to the given targets.\<close>

definition dispatches_only :: "string set \<Rightarrow> 'k engine \<Rightarrow> 'k engine \<Rightarrow> bool" where
  "dispatches_only ts eg eg' \<longleftrightarrow>
     (\<exists>ks. keys eg' = keys eg @ ks \<and> (\<forall>t a l e. FxDispatch t a l e \<in> set ks \<longrightarrow> t \<in> ts))"

lemma dispatches_only_keys: "keys eg' = keys eg \<Longrightarrow> dispatches_only ts eg eg'"
  by (simp add: dispatches_only_def)

lemma dispatches_only_trans: "dispatches_only ts a b \<Longrightarrow> dispatches_only ts b c \<Longrightarrow> dispatches_only ts a c"
  by (fastforce simp: dispatches_only_def)

lemma dispatches_only_new:
  assumes "dispatches_only ts eg eg'" and "FxDispatch t a l e \<in> set (drop (length (keys eg)) (keys eg'))"
  shows "t \<in> ts"
proof -
  obtain ks where "keys eg' = keys eg @ ks" and ks: "\<forall>t a l e. FxDispatch t a l e \<in> set ks \<longrightarrow> t \<in> ts"
    using assms(1) unfolding dispatches_only_def by blast
  then have "drop (length (keys eg)) (keys eg') = ks"
    by simp
  with assms(2) ks show ?thesis
    by metis
qed

lemma execute_plan_dispatches:
  "dispatches_only (et_id ` set (plan_candidates plan)) eg
     (snd (execute_plan js w cfg req profile t scoped plan unknown summary eg))"
proof -
  obtain n e where "keys (snd (execute_plan js w cfg req profile t scoped plan unknown summary eg)) =
      keys eg @ request_events js w cfg req profile t scoped plan unknown summary eg"
    and run: "run (may_dispatch cfg req profile (pools eg) (plan_candidates plan)) cfg n
      (request_events js w cfg req profile t scoped plan unknown summary eg) e"
    by (rule request_events_run)
  moreover have "t' \<in> et_id ` set (plan_candidates plan)"
    if "FxDispatch t' a l e' \<in> set (request_events js w cfg req profile t scoped plan unknown summary eg)" for t' a l e'
    using run_dispatches_ok [OF run that] by (auto simp: may_dispatch_def admits_def)
  ultimately show ?thesis
    by (auto simp: dispatches_only_def)
qed

lemma hedge_begin_target: "hedge_begin js w cfg req t eg = (Some (am, exec), eg') \<Longrightarrow> am_target am = t"
  by (auto simp: hedge_begin_def Let_def split_beta split: if_splits resolve_outcome.splits sum.splits)

definition race_planned :: "execution_target list \<Rightarrow> 'k engine \<Rightarrow> ('j, 'k) race \<Rightarrow> bool" where
  "race_planned cs eg ra \<longleftrightarrow>
     dispatches_only (et_id ` set cs) eg (ra_engine ra) \<and> (\<forall>t. RWaiting t \<in> set (ra_racers ra) \<longrightarrow> t \<in> set cs)"

lemma race_planned_update:
  assumes "race_planned cs eg ra" and "dispatches_only (et_id ` set cs) (ra_engine ra) (ra_engine ra')"
    and "set (ra_racers ra') \<subseteq> insert r (set (ra_racers ra))" and "\<And>t. r \<noteq> RWaiting t"
  shows "race_planned cs eg ra'"
proof -
  have "RWaiting t \<in> set (ra_racers ra)" if "RWaiting t \<in> set (ra_racers ra')" for t
    using subsetD [OF assms(3) that] assms(4) [of t] by auto
  then show ?thesis
    using assms(1) dispatches_only_trans [OF _ assms(2)] by (simp add: race_planned_def)
qed

lemma race_step_planned:
  assumes "race_step js w cfg req launched ra ra'" and "race_planned cs eg ra"
  shows "race_planned cs eg ra'"
  using assms(1)
proof cases
  case (race_none i t eg1)
  then show ?thesis
    using hedge_begin_keys [OF race_none(5)]
    by (intro race_planned_update [OF assms(2), where r = RDone]) (simp_all add: dispatches_only_keys set_update_subset_insert)
next
  case (race_start i t am exec eg1)
  then have "t \<in> set cs"
    using assms(2) by (metis nth_mem race_planned_def)
  with race_start show ?thesis
    using hedge_begin_keys [OF race_start(5)] hedge_begin_target [OF race_start(5)]
    by (intro race_planned_update [OF assms(2), where r = "RRunning am exec"])
      (simp_all add: dispatches_only_def set_update_subset_insert)
next
  case (race_fail i am exec error)
  then show ?thesis
    by (intro race_planned_update [OF assms(2), where r = RDone])
      (simp_all add: dispatches_only_def hedge_failed_keys set_update_subset_insert)
next
  case (race_win i am exec response ms eg1)
  obtain r c where "keys eg1 = keys (ra_engine ra) @ [FxFinished (et_id (am_target am)) (am_account am) (FoOk r c)]"
    using hedge_succeeded_keys [of w cfg req am response "ra_engine ra"] race_win(6) by auto
  with race_win show ?thesis
    by (intro race_planned_update [OF assms(2), where r = RDone]) (simp_all add: dispatches_only_def set_update_subset_insert)
next
  case race_abort
  with assms(2) show ?thesis
    by (simp add: race_planned_def)
next
  case (race_cancel i am exec)
  then show ?thesis
    by (intro race_planned_update [OF assms(2), where r = RDone])
      (simp_all add: dispatches_only_def hedge_finish_keys set_update_subset_insert)
qed

lemma race_reaches_planned:
  assumes "race_reaches js w cfg req launched ra ra'" and "race_planned cs eg ra"
  shows "race_planned cs eg ra'"
  using assms by (induction rule: race_reaches.induct) (auto intro: race_step_planned)

lemma race_dispatches:
  assumes "races js w pc p eg ra"
  shows "dispatches_only (et_id ` set (plan_candidates (pr_plan p))) eg (ra_engine ra)"
proof -
  let ?cs = "plan_candidates (pr_plan p)"
  have "race_planned ?cs eg (start_race (pc_hedge pc) ?cs eg)"
    by (auto simp: race_planned_def start_race_def dispatches_only_keys dest: in_set_takeD)
  with assms have "race_planned ?cs eg ra"
    unfolding races_def Let_def by (rule race_reaches_planned)
  then show ?thesis
    by (simp add: race_planned_def)
qed

lemma trace_canceled_keys [key_facts]: "keys (fold (trace_canceled clock started) ts eg) = keys eg"
  by (induction ts arbitrary: eg) (simp_all add: trace_canceled_def split_beta key_facts Let_def)

lemma hedge_committed_keys: "keys (snd (hedge_committed w cfg started summary win eg)) = keys eg"
  by (auto simp: hedge_committed_def record_usage_def split_beta Let_def key_facts split: sum.split)

lemma sequential_dispatches:
  assumes "sequential js w pc scope started p eg = (out, eg')"
  shows "dispatches_only (et_id ` set (plan_candidates (pr_plan p))) eg eg'"
  using execute_plan_dispatches [of "pr_plan p" eg js w "pc_exec pc" "pr_request p" "pr_profile p" started "scope \<noteq> None"
      "pr_unknown p" "pr_summary p"] assms by (simp add: sequential_def)

lemma executes_dispatches:
  assumes "executes js w gw pc scope started req ru out ru'"
  obtains (denied) e where "out = OutError e" "execute_prefix w gw pc scope req ru = (Inl e, ru')"
  | (planned) p ru1 where "execute_prefix w gw pc scope req ru = (Inr p, ru1)"
      "dispatches_only (et_id ` set (plan_candidates (pr_plan p))) (ru_engine ru) (ru_engine ru')"
  using assms
proof cases
  case (ex_denied e)
  then show ?thesis
    by (intro denied)
next
  case (ex_sequential p ru1 eg)
  then show ?thesis
    using dispatches_only_trans [OF dispatches_only_keys [OF execute_prefix_cases(2) [OF ex_sequential(2)]]]
      sequential_dispatches [OF ex_sequential(4)] by (intro planned) simp_all
next
  case (ex_hedge_won p ru1 ra win eg)
  have "keys eg = keys (ra_engine ra)"
    using hedge_committed_keys [of w "pc_exec pc" started "pr_summary p" win "ra_engine ra"] ex_hedge_won(7) by simp
  then have "dispatches_only (et_id ` set (plan_candidates (pr_plan p))) (ru_engine ru1) eg"
    using race_dispatches [OF ex_hedge_won(4)] dispatches_only_keys dispatches_only_trans by blast
  then show ?thesis
    using ex_hedge_won dispatches_only_trans [OF dispatches_only_keys [OF execute_prefix_cases(2) [OF ex_hedge_won(2)]]]
    by (intro planned) simp_all
next
  case (ex_hedge_lost p ru1 ra eg)
  then show ?thesis
    using dispatches_only_trans [OF dispatches_only_keys [OF execute_prefix_cases(2) [OF ex_hedge_lost(2)]]]
      dispatches_only_trans [OF race_dispatches [OF ex_hedge_lost(4)] sequential_dispatches [OF ex_hedge_lost(7)]]
    by (intro planned) simp_all
qed

end
