(* ===== verification/Gateway.thy ===== *)
theory Gateway
  imports Pipeline_Facts
begin

text \<open>
  The promises of the gateway for a whole request, from the admission to the last dispatch, over
  every run of \<open>executes\<close>: what may be dispatched at all, whose accounts are used, and what a
  refusal leaves behind.
\<close>

section \<open>New dispatches\<close>

text \<open>The dispatches a run has added: the target and the account of each.\<close>

definition new_dispatches :: "'k engine \<Rightarrow> 'k engine \<Rightarrow> (string \<times> string) set" where
  "new_dispatches eg eg' = {(t, a). \<exists>l e. FxDispatch t a l e \<in> set (drop (length (keys eg)) (keys eg'))}"

lemma new_dispatches_same: "keys eg' = keys eg \<Longrightarrow> new_dispatches eg eg' = {}"
  by (simp add: new_dispatches_def)

lemma new_dispatches_from: "keys eg = keys eg0 \<Longrightarrow> new_dispatches eg eg' = new_dispatches eg0 eg'"
  by (simp add: new_dispatches_def)

lemma new_dispatches_only: "dispatches_only ts eg eg' \<Longrightarrow> (t, a) \<in> new_dispatches eg eg' \<Longrightarrow> t \<in> ts"
  using dispatches_only_new by (fastforce simp: new_dispatches_def)

text \<open>
  C3: a request reaches only what its policies allow, whatever the schedule of a hedge race: each
  dispatch is to a target of the request's plan, which the model resolves to, which passes every
  hard filter for the request that is sent, whose route and provider the tenant may use and where
  the tenant and the client profile have an account, and which is in the scope of the call.
\<close>

theorem dispatches_within_policy:
  assumes "executes js w gw pc scope started req ru out ru'"
    and "(t, a) \<in> new_dispatches (ru_engine ru) (ru_engine ru')"
  shows "\<exists>p ru1. execute_prefix w gw pc scope req ru = (Inr p, ru1)
    \<and> (\<exists>c \<in> set (plan_candidates (pr_plan p)). et_id c = t \<and> within_policy pc scope p (eg_resolver (ru_engine ru)) c)"
  using assms(1)
proof (cases rule: executes_dispatches)
  case (denied e)
  with assms(2) show ?thesis
    using new_dispatches_same [OF execute_prefix_cases(2)] by blast
next
  case (planned p ru1)
  then obtain c where "c \<in> set (plan_candidates (pr_plan p))" "et_id c = t"
    using new_dispatches_only [OF _ assms(2)] by blast
  with planned(1) prepared_within_policy [OF planned(1)] show ?thesis
    by blast
qed

section \<open>Accounts\<close>

lemma unhedged_runs_loop:
  assumes "executes js w gw pc scope started req ru out ru'" and "execute_prefix w gw pc scope req ru = (Inr p, ru1)"
    and "\<not> hedges pc scope p"
  shows "sequential js w pc scope started p (ru_engine ru1) = (out, ru_engine ru')"
  using assms by (cases rule: executes.cases) auto

text \<open>
  C4: when a request is not hedged, each dispatch uses an account that is configured for the
  target's provider and that the tenant and the client profile allow there.
\<close>

theorem unhedged_accounts_allowed:
  assumes "executes js w gw pc scope started req ru out ru'" and "execute_prefix w gw pc scope req ru = (Inr p, ru1)"
    and "\<not> hedges pc scope p" and "views_agree pc" and "(t, a) \<in> new_dispatches (ru_engine ru) (ru_engine ru')"
  shows "\<exists>c \<in> set (plan_candidates (pr_plan p)). et_id c = t
    \<and> a \<in> set (account_ids (eg_resolver (ru_engine ru)) (et_provider_id c))
    \<and> in_allowed (request_allowed_accounts (sn_tenants (pc_snapshot pc)) (pr_request p) (pr_profile p) (et_provider_id c)) a"
proof -
  let ?plan = "execute_plan js w (pc_exec pc) (pr_request p) (pr_profile p) started (scope \<noteq> None) (pr_plan p) (pr_unknown p) (pr_summary p)"
  let ?events = "request_events js w (pc_exec pc) (pr_request p) (pr_profile p) started (scope \<noteq> None) (pr_plan p)
    (pr_unknown p) (pr_summary p) (ru_engine ru1)"
  obtain n e where keys: "keys (snd (?plan (ru_engine ru1))) = keys (ru_engine ru1) @ ?events"
    and run: "run (may_dispatch (pc_exec pc) (pr_request p) (pr_profile p) (pools (ru_engine ru1)) (plan_candidates (pr_plan p)))
      (pc_exec pc) n ?events e"
    by (rule request_events_run)
  have "ru_engine ru' = snd (?plan (ru_engine ru1))"
    using unhedged_runs_loop [OF assms(1-3)] by (simp add: sequential_def)
  then have "drop (length (keys (ru_engine ru))) (keys (ru_engine ru')) = ?events"
    using keys execute_prefix_cases(2) [OF assms(2)] by simp
  then obtain l e' where "FxDispatch t a l e' \<in> set ?events"
    using assms(5) by (auto simp: new_dispatches_def)
  from run_dispatches_ok [OF run this] show ?thesis
    using assms(4) execute_prefix_cases(1) [OF assms(2)]
    by (fastforce simp: may_dispatch_def admits_def account_ids_def views_agree_def)
qed

section \<open>Refusals\<close>

lemma refused_run:
  assumes "admit_request gw pc req (eg_tick (ru_engine ru)) = Inl e"
  shows "executes js w gw pc scope started req ru out ru' \<longleftrightarrow>
    out = OutError e \<and> ru' = ru\<lparr>ru_engine := denial e ((ru_engine ru)\<lparr>eg_tick := eg_tick (ru_engine ru) + 3\<rparr>)\<rparr>"
proof -
  have prefix: "execute_prefix w gw pc scope req ru =
      (Inl e, ru\<lparr>ru_engine := denial e ((ru_engine ru)\<lparr>eg_tick := eg_tick (ru_engine ru) + 3\<rparr>)\<rparr>)"
    using assms by (simp add: execute_prefix_def)
  show ?thesis
    by (auto simp: prefix intro: ex_denied elim: executes.cases)
qed

text \<open>What a refusal leaves behind: the denial record, and nothing else.\<close>

definition refuses ::
  "'j json_api \<Rightarrow> ('j, 'k) world \<Rightarrow> 'j gateway_world \<Rightarrow> ('j, 'w) pipeline_config \<Rightarrow> string set option \<Rightarrow> instant
    \<Rightarrow> 'j ai_request \<Rightarrow> 'k runtime \<Rightarrow> exec_error \<Rightarrow> bool" where
  "refuses js w gw pc scope started req ru e \<longleftrightarrow>
     (\<exists>ru'. executes js w gw pc scope started req ru (OutError e) ru')
     \<and> (\<forall>out ru'. executes js w gw pc scope started req ru out ru' \<longrightarrow>
          out = OutError e \<and> new_dispatches (ru_engine ru) (ru_engine ru') = {}
          \<and> eg_resolver (ru_engine ru') = eg_resolver (ru_engine ru)
          \<and> eg_scorecard (ru_engine ru') = eg_scorecard (ru_engine ru) \<and> ru_cache ru' = ru_cache ru
          \<and> eg_effects (ru_engine ru') = eg_effects (ru_engine ru) @ [FxDenied (xe_status e) (xe_error_type e) (xe_message e)])"

lemma refused:
  assumes "admit_request gw pc req (eg_tick (ru_engine ru)) = Inl e"
  shows "refuses js w gw pc scope started req ru e"
  unfolding refuses_def refused_run [OF assms]
  by (auto intro!: new_dispatches_same simp: key_facts denial_def emit_def) (simp add: keys_def)

definition exhausted :: "f64 option \<Rightarrow> string + f64 \<Rightarrow> bool" where
  "exhausted cap spend \<longleftrightarrow> (\<exists>c spent. cap = Some c \<and> spend = Inr spent \<and> flt_le c spent)"

definition unreadable :: "f64 option \<Rightarrow> string + f64 \<Rightarrow> bool" where
  "unreadable cap spend \<longleftrightarrow> cap \<noteq> None \<and> isl spend"

lemma spend_gate_status:
  "exhausted cap spend \<Longrightarrow> \<exists>e. spend_gate cap spend ty who = Some e \<and> xe_status e = 402"
  "unreadable cap spend \<Longrightarrow> \<exists>e. spend_gate cap spend ty who = Some e \<and> xe_status e = 503"
  "\<not> exhausted cap spend \<Longrightarrow> \<not> unreadable cap spend \<Longrightarrow> spend_gate cap spend ty who = None"
  by (auto simp: exhausted_def unreadable_def spend_gate_def over_budget_def new_exec_error_def split: option.splits sum.splits)

lemma gated:
  assumes "global_gate gw pc (eg_tick (ru_engine ru)) = Some e
    \<or> global_gate gw pc (eg_tick (ru_engine ru)) = None \<and> tenant_gate gw pc req (Suc (eg_tick (ru_engine ru))) = Some e"
  shows "refuses js w gw pc scope started req ru e"
  using assms by (intro refused) (auto simp: admit_request_def)

definition tenant_cap :: "('j, 'w) pipeline_config \<Rightarrow> string \<Rightarrow> f64 option" where
  "tenant_cap pc i = Option.bind (config_tenant (pc_snapshot pc) i) tc_budget_usd"

text \<open>
  C20: the budgets are hard gates. Once the spend of the gateway has reached its cap, every run of any
  request, with or without a tenant, is refused with status 402, and with 503 when that spend cannot
  be read; otherwise the same holds of the spend and the cap of the request's tenant, if it has one. A refusal dispatches nothing, changes no account,
  score or cache entry and records the denial alone.
\<close>

theorem budgets_gate:
  assumes "g = global_spend_usd (gx_spend gw (eg_tick (ru_engine ru)))"
  shows "(exhausted (pc_budget_max_usd pc) g \<longrightarrow> (\<exists>e. xe_status e = 402 \<and> refuses js w gw pc scope started req ru e))
    \<and> (unreadable (pc_budget_max_usd pc) g \<longrightarrow> (\<exists>e. xe_status e = 503 \<and> refuses js w gw pc scope started req ru e))
    \<and> (\<forall>i t. \<not> exhausted (pc_budget_max_usd pc) g \<and> \<not> unreadable (pc_budget_max_usd pc) g \<and> req_tenant req = Some i
           \<and> t = tenant_spend_usd i (gx_spend gw (Suc (eg_tick (ru_engine ru)))) \<longrightarrow>
         (exhausted (tenant_cap pc i) t \<longrightarrow> (\<exists>e. xe_status e = 402 \<and> refuses js w gw pc scope started req ru e))
         \<and> (unreadable (tenant_cap pc i) t \<longrightarrow> (\<exists>e. xe_status e = 503 \<and> refuses js w gw pc scope started req ru e)))"
proof -
  have global: "global_gate gw pc (eg_tick (ru_engine ru)) = spend_gate (pc_budget_max_usd pc) g ''budget_exceeded'' []"
    using assms by (simp add: global_gate_def)
  have tenant: "\<exists>who. tenant_gate gw pc req (Suc (eg_tick (ru_engine ru))) = spend_gate (tenant_cap pc i) t ''tenant_budget_exceeded'' who"
    if "req_tenant req = Some i" "t = tenant_spend_usd i (gx_spend gw (Suc (eg_tick (ru_engine ru))))" for i t
    using that by (auto simp: tenant_gate_def tenant_cap_def)
  have stop: "\<exists>e. xe_status e = n \<and> refuses js w gw pc scope started req ru e"
    if "\<exists>e. global_gate gw pc (eg_tick (ru_engine ru)) = Some e \<and> xe_status e = n" for n
    using that gated by blast
  have "\<exists>e. xe_status e = n \<and> refuses js w gw pc scope started req ru e"
    if "\<not> exhausted (pc_budget_max_usd pc) g" "\<not> unreadable (pc_budget_max_usd pc) g"
      "\<exists>e. tenant_gate gw pc req (Suc (eg_tick (ru_engine ru))) = Some e \<and> xe_status e = n" for n
    using that gated spend_gate_status(3) [OF that(1,2)] global by metis
  note later = this
  show ?thesis
  proof (intro conjI impI allI)
    show "\<exists>e. xe_status e = 402 \<and> refuses js w gw pc scope started req ru e" if "exhausted (pc_budget_max_usd pc) g"
      by (rule stop) (simp only: global spend_gate_status(1) [OF that])
    show "\<exists>e. xe_status e = 503 \<and> refuses js w gw pc scope started req ru e" if "unreadable (pc_budget_max_usd pc) g"
      by (rule stop) (simp only: global spend_gate_status(2) [OF that])
    fix i t
    assume *: "\<not> exhausted (pc_budget_max_usd pc) g \<and> \<not> unreadable (pc_budget_max_usd pc) g \<and> req_tenant req = Some i
      \<and> t = tenant_spend_usd i (gx_spend gw (Suc (eg_tick (ru_engine ru))))"
    then obtain who where who: "tenant_gate gw pc req (Suc (eg_tick (ru_engine ru))) = spend_gate (tenant_cap pc i) t ''tenant_budget_exceeded'' who"
      using tenant by blast
    show "\<exists>e. xe_status e = 402 \<and> refuses js w gw pc scope started req ru e" if "exhausted (tenant_cap pc i) t"
      by (intro later conjunct1 [OF *] conjunct1 [OF conjunct2 [OF *]]) (unfold who, rule spend_gate_status(1) [OF that])
    show "\<exists>e. xe_status e = 503 \<and> refuses js w gw pc scope started req ru e" if "unreadable (tenant_cap pc i) t"
      by (intro later conjunct1 [OF *] conjunct1 [OF conjunct2 [OF *]]) (unfold who, rule spend_gate_status(2) [OF that])
  qed
qed

section \<open>Plugins\<close>

text \<open>
  C31: a blocklist among the configured plugins is enforced for the whole request: a model that
  matches one of its patterns is refused in every run, before anything is resolved or dispatched.
\<close>

theorem blocked_model_refused:
  assumes "try_from_config feature configs = Inr (pc_plugins pc)" and "bt_wf (req_metadata req)"
    and "PcModelBlocklist models \<in> set configs" and "list_ex (\<lambda>p. glob_match p (req_model req)) models"
  shows "\<exists>e. refuses js w gw pc scope started req ru e"
proof -
  let ?req = "if pc_compress_tool_results pc then fst (compress_request req) else req"
  have "req_metadata ?req = req_metadata req" "req_model ?req = req_model req"
    by (simp_all add: compress_request_def Let_def split_beta)
  then obtain status message where "fst (host_pre_route (pc_plugins pc) ?req) = PluginReject status message"
    using blocklist_enforced [OF assms(1) _ assms(3), of ?req] assms(2,4) by auto
  then obtain rest where "host_pre_route (pc_plugins pc) ?req = (PluginReject status message, rest)"
    by (cases "host_pre_route (pc_plugins pc) ?req") simp
  then have "\<exists>e. admit_request gw pc req (eg_tick (ru_engine ru)) = Inl e"
    by (auto simp: admit_request_def Let_def split: option.split)
  then show ?thesis
    using refused by blast
qed

section \<open>The tenant of a request\<close>

lemma applied_profile_tenant:
  "apply_request_client_profile snap req = (Inr profile, req') \<Longrightarrow> req_tenant req' = req_tenant req"
  by (auto simp: apply_request_client_profile_def Let_def split: sum.splits option.splits if_splits)

lemma admitted_tenant:
  assumes "try_from_config feature configs = Inr (pc_plugins pc)" and "bt_wf (req_metadata req)"
    and "admit_request gw pc req t = Inr (profile, req')"
  shows "req_tenant req' = req_tenant req"
proof -
  let ?req = "if pc_compress_tool_results pc then fst (compress_request req) else req"
  have compressed: "req_metadata ?req = req_metadata req" "req_tenant ?req = req_tenant req"
    by (simp_all add: compress_request_def Let_def split_beta)
  obtain o' req2 where pre: "host_pre_route (pc_plugins pc) ?req = (o', req2)"
    by (cases "host_pre_route (pc_plugins pc) ?req")
  have "only_tags ?req (snd (host_pre_route (pc_plugins pc) ?req))"
    using host_pre_route_tame build_plugins_built assms(1,2) compressed(1) unfolding try_from_config_def by metis
  then have "req2 = ?req\<lparr>req_metadata := req_metadata req2\<rparr>"
    unfolding pre only_tags_def snd_conv by (rule conjunct1)
  then have "req_tenant req2 = req_tenant (?req\<lparr>req_metadata := req_metadata req2\<rparr>)"
    by (rule arg_cong)
  then have "req_tenant req2 = req_tenant ?req"
    by simp
  moreover have "apply_request_client_profile (pc_snapshot pc) req2 = (Inr profile, req')"
    using assms(3) pre by (auto simp: admit_request_def Let_def split: option.splits plugin_outcome.splits prod.splits sum.splits)
  ultimately show ?thesis
    using applied_profile_tenant compressed(2) by metis
qed

lemma prepared_tenant:
  assumes "execute_prefix w gw pc scope req ru = (Inr p, ru1)" and "try_from_config feature configs = Inr (pc_plugins pc)"
    and "bt_wf (req_metadata req)"
  shows "req_tenant (pr_request p) = req_tenant req"
proof -
  obtain profile req1 receipt eg' where adm: "admit_request gw pc req (eg_tick (ru_engine ru)) = Inr (profile, req1)"
    and prep: "prepare_route w gw pc scope req1 profile receipt ((ru_engine ru)\<lparr>eg_tick := eg_tick (ru_engine ru) + 3\<rparr>) = (Inr p, eg')"
    using execute_prefix_cases(3) [OF assms(1) refl] by blast
  have "req_tenant (pr_request p) = req_tenant req1"
    using prepare_route_cases(3) [OF prep refl] by (auto simp: finish_prepared_fields)
  then show ?thesis
    using admitted_tenant [OF assms(2,3) adm] by simp
qed

section \<open>Witnesses\<close>

text \<open>A gateway for one tenant with one route, whose upstream refuses every request.\<close>

definition open_gateway :: "unit gateway_world" where
  "open_gateway = \<lparr>gx_spend = (\<lambda>n. \<lparr>ss_store = None, ss_store_required = False, ss_ledger_total_micros = 2000000,
       ss_ledger_tenant_usd = (\<lambda>t. f64_lit 0), ss_ledger_by_provider = Map.empty\<rparr>),
     gx_digest = (\<lambda>f. ''digest''), gx_now_unix = (\<lambda>n. 0), gx_quality_begin = (\<lambda>req. False)\<rparr>"

definition lean_snapshot :: snapshot where
  "lean_snapshot = small_snapshot\<lparr>sn_client_profiles := []\<rparr>"

definition lean_pipeline :: "(unit, unit) pipeline_config" where
  "lean_pipeline = \<lparr>pc_snapshot = lean_snapshot, pc_exec = plain_exec\<lparr>xc_tenants := [team]\<rparr>, pc_budget_max_usd = None,
     pc_compress_tool_results = True,
     pc_cache = \<lparr>ecc_enabled = False, ecc_ttl_seconds = None, ecc_allow_sensitive = False, ecc_allow_confidential = False\<rparr>,
     pc_hedge = two_wide, pc_plugins = [model_blocklist [''dear/*'']]\<rparr>"

definition idle_runtime :: "unit runtime" where
  "idle_runtime = \<lparr>ru_engine = idle_engine, ru_cache = []\<rparr>"

definition refusing_world :: "(unit, unit) world" where
  "refusing_world = flaky_world\<lparr>wd_dispatch := (\<lambda>n req target lease egress. Inl (new_adapter_error InvalidRequest ''no''))\<rparr>"

lemma lean_admitted: "admit_request open_gateway lean_pipeline team_request 0 = Inr (None, team_request)"
  by (simp add: admit_request_def global_gate_def tenant_gate_def spend_gate_def lean_pipeline_def lean_snapshot_def
      small_snapshot_def team_request_def new_request_def config_tenant_def team_def compress_request_def model_blocklist_def
      glob_match_def strip_suffix_def str_ends_with_def starts_with_def no_hooks_def
      apply_request_client_profile_def infer_client_profile_for_model_def or_else_def bt_get_def)

lemma lean_resolved:
  "\<exists>eg1. resolve_candidates (wd_clock refusing_world) lean_snapshot ''auto/private'' (idle_engine\<lparr>eg_tick := n\<rparr>) =
     (Inr private_resolution, eg1)"
  by (simp add: resolve_candidates_def resolve_route_def profile_from_model_def exact_route_for_def or_else_def
      lean_snapshot_def small_snapshot_def route_resolution_def known_targets_def unknown_targets_def map_filter_simps
      target_for_def target_for_provider_model_def priced_registry_def target_key_def starts_with_def empty_catalog_def
      latency_get_def ttft_get_def new_latency_tracker_def refusing_world_def flaky_world_def
      private_resolution_def stamped_target_def new_target_def stamp_candidate_def Let_def read_clock_def idle_engine_def
      pool_health_of_def two_accounts_defs breaker_view_def new_breaker_def default_breaker_config_def circuit_view_closed_def
      sc_project_def get_entry_def new_scorecard_def default_quality_eval_config_def default_scorecard_config_def)

definition lean_plan :: "execution_receipt route_plan" where
  "lean_plan = plan_scoped (two_accounts FillFirst) lean_snapshot team_request None private_resolution (Some team)
     [stamped_target] []"

lemma lean_planned:
  "eg_resolver eg = two_accounts FillFirst \<Longrightarrow>
   plan_resolved_route lean_snapshot team_request None private_resolution True eg = (Inr (''private'', lean_plan), eg)"
  by (simp add: plan_resolved_route_def apply_combo_order_def private_resolution_def lean_plan_def team_request_def
      config_tenant_def lean_snapshot_def small_snapshot_def team_def tenant_route_allowed_def retain_def tenant_rejects_def
      tenant_provider_allowed_def tenant_candidate_has_account_def has_configured_account_def tenant_allowed_accounts_def
      accounts_for_provider_def starts_with_def map_filter_simps account_ids_def two_accounts_defs
      stamped_target_def new_target_def Let_def)

lemma lean_eligible:
  "eligible team_request default_require (routing_policy_for lean_snapshot (Some ProfilePrivate)) relax stamped_target"
  using stamped_eligible [of relax] by (simp add: lean_snapshot_def routing_policy_for_def)

lemma lean_plan_facts:
  "plan_candidates lean_plan = [stamped_target]" "\<not> degraded (plan_decision lean_plan) ''vision_in''"
proof -
  have "mset (plan_candidates lean_plan) = {#stamped_target#}"
    unfolding lean_plan_def plan_scoped_candidates plan_candidates_mset
    by (simp add: scoped_candidates_def private_resolution_def lean_eligible)
  then show "plan_candidates lean_plan = [stamped_target]"
    by simp
  show "\<not> degraded (plan_decision lean_plan) ''vision_in''"
    unfolding lean_plan_def plan_scoped_degraded plan_degraded_iff
    by (simp add: runs_relaxed_def vision_degradable_def requires_vision_def image_count_def all_parts_def team_request_def
        new_request_def)
qed

lemma lean_prefix:
  obtains p ru1 where "execute_prefix refusing_world open_gateway lean_pipeline None team_request idle_runtime = (Inr p, ru1)"
    "pr_request p = team_request" "pr_profile p = None" "plan_candidates (pr_plan p) = [stamped_target]"
proof -
  let ?eg = "(ru_engine idle_runtime)\<lparr>eg_tick := eg_tick (ru_engine idle_runtime) + 3\<rparr>"
  obtain eg1 where res: "resolve_candidates (wd_clock refusing_world) lean_snapshot ''auto/private'' ?eg =
      (Inr private_resolution, eg1)"
    using lean_resolved [of 3] by (auto simp: idle_runtime_def idle_engine_def)
  then have "eg_resolver eg1 = two_accounts FillFirst"
    using resolve_candidates_engine(1) [of "wd_clock refusing_world" lean_snapshot "''auto/private''" ?eg]
    by (simp add: idle_runtime_def idle_engine_def)
  note planned = lean_planned [OF this]
  have "req_model team_request = ''auto/private''" "pc_snapshot lean_pipeline = lean_snapshot" "eg_tick (ru_engine idle_runtime) = 0"
    by (simp_all add: team_request_def new_request_def lean_pipeline_def idle_runtime_def idle_engine_def)
  with res planned lean_admitted have "\<exists>p ru1.
      execute_prefix refusing_world open_gateway lean_pipeline None team_request idle_runtime = (Inr p, ru1)
      \<and> (\<exists>receipt. p = finish_prepared open_gateway False team_request None receipt ''private'' [''gone/m''] lean_plan)"
    by (auto simp: execute_prefix_def prepare_route_def scope_candidates_def scope_rejections_def split_beta Let_def private_resolution_def)
  then obtain p ru1 receipt
    where "execute_prefix refusing_world open_gateway lean_pipeline None team_request idle_runtime = (Inr p, ru1)"
      and p: "p = finish_prepared open_gateway False team_request None receipt ''private'' [''gone/m''] lean_plan"
    by blast
  moreover have "pr_request p = team_request" "pr_profile p = None" "plan_candidates (pr_plan p) = [stamped_target]"
    by (simp_all add: p finish_prepared_fields lean_plan_facts) (simp add: finish_prepared_def Let_def lean_plan_facts)
  ultimately show thesis
    using that by blast
qed

lemma lean_allowed: "request_allowed_accounts [team] team_request None ''p'' = Some {''b''}"
  by (simp add: request_allowed_accounts_def team_request_def team_def tenant_allowed_accounts_def
      accounts_for_provider_def client_profile_allowed_accounts_def starts_with_def map_filter_simps)

lemma team_key: "session_affinity_key plain_json team_request = None"
  by code_simp

lemma lean_gate:
  "eg_resolver eg = two_accounts FillFirst \<Longrightarrow>
   \<exists>eg1. target_gate refusing_world (pc_exec lean_pipeline) stamped_target eg = (GateOpen, eg1)
     \<and> calm ''b'' eg1 \<and> keys eg1 = keys eg"
  by (simp add: target_gate_def refusing_world_def flaky_world_def lean_pipeline_def plain_exec_def read_clock_def
      circuit_allows_def breaker_allows_def default_breaker_config_def new_breaker_def state_of_def set_state_def Let_def
      new_target_def stamped_target_def default_breaker_state_def bt_get_def calm_def two_accounts_defs keys_def)

lemma stamped_target_fields:
  "et_id stamped_target = ''p/m''" "et_provider_id stamped_target = ''p''" "et_model stamped_target = ''m''"
  by (simp_all add: stamped_target_def new_target_def)

lemma lean_try:
  assumes "pools eg = rs_providers (two_accounts FillFirst)"
  shows "\<exists>out eg'. try_account plain_json refusing_world (pc_exec lean_pipeline) team_request 0 s False stamped_target ''b'' lease eg =
       (Return out, eg') \<and> (''p/m'', ''b'') \<in> new_dispatches eg eg'"
proof -
  define am where "am = \<lparr>am_target = stamped_target, am_account = ''b'', am_lease = lease, am_egress_id = None,
     am_egress = ''direct'', am_started = eg_tick eg, am_quality = False\<rparr>"
  let ?eg = "eg\<lparr>eg_tick := Suc (eg_tick eg)\<rparr>"
  let ?error = "new_adapter_error InvalidRequest ''no''"
  have attempt: "try_account plain_json refusing_world (pc_exec lean_pipeline) team_request 0 s False stamped_target ''b'' lease eg =
      run_attempt plain_json refusing_world (pc_exec lean_pipeline) team_request 0 s False am ?eg"
    using assms by (simp add: try_account_def Let_def read_clock_def refusing_world_def flaky_world_def lean_pipeline_def
        plain_exec_def resolve_egress_def fresh_lease_def file_backed_lease_def two_accounts_defs stamped_target_fields am_def)
  have run: "run_attempt plain_json refusing_world (pc_exec lean_pipeline) team_request 0 s False am ?eg =
      attempt_failed refusing_world (pc_exec lean_pipeline) team_request 0 s am ?error (snd (dispatch refusing_world team_request am ?eg))"
    by (simp add: run_attempt_def dispatch_def refusing_world_def flaky_world_def lean_pipeline_def plain_exec_def retry_loop.simps)
  show ?thesis
    unfolding attempt run
    by (simp add: prod_eq_iff attempt_failed_keys should_fallback_def new_adapter_error_def key_facts am_def stamped_target_fields
        new_dispatches_def)
qed

lemma lean_loop:
  assumes "calm ''b'' eg"
  shows "\<exists>out eg'. account_loop plain_json refusing_world (pc_exec lean_pipeline) team_request 0 s False stamped_target
       (Some {''b''}) {} None None eg = (LoopReturn out, eg')
     \<and> (''p/m'', ''b'') \<in> new_dispatches eg eg'"
proof -
  let ?eg = "eg\<lparr>eg_tick := Suc (eg_tick eg)\<rparr>"
  have ask: "ask_account plain_json refusing_world team_request stamped_target (Some {''b''}) {} eg =
      (Selected ''b'' (account_lease (key_account ''b'' 2)), ?eg)"
    using assms by (simp add: ask_defs team_key stamped_target_fields)
  have "pools ?eg = rs_providers (two_accounts FillFirst)" "keys ?eg = keys eg"
    using assms by (simp_all add: calm_def key_facts)
  with lean_try [of ?eg s "account_lease (key_account ''b'' 2)"] show ?thesis
    by (auto simp: account_loop.simps ask new_dispatches_from [of ?eg eg])
qed

text \<open>The refused attempt is the one dispatch of the tenant's request.\<close>

lemma lean_run:
  obtains p ru1 out ru' where
    "execute_prefix refusing_world open_gateway lean_pipeline None team_request idle_runtime = (Inr p, ru1)"
    "\<not> hedges lean_pipeline None p" "plan_candidates (pr_plan p) = [stamped_target]"
    "executes plain_json refusing_world open_gateway lean_pipeline None 0 team_request idle_runtime out ru'"
    "(''p/m'', ''b'') \<in> new_dispatches (ru_engine idle_runtime) (ru_engine ru')"
proof -
  obtain p ru1 where prefix: "execute_prefix refusing_world open_gateway lean_pipeline None team_request idle_runtime = (Inr p, ru1)"
    and p: "pr_request p = team_request" "pr_profile p = None" "plan_candidates (pr_plan p) = [stamped_target]"
    by (rule lean_prefix)
  have hedge: "\<not> hedges lean_pipeline None p"
    by (simp add: hedges_def hedge_applies_def p)
  have eg: "eg_resolver (ru_engine ru1) = two_accounts FillFirst" "keys (ru_engine ru1) = keys (ru_engine idle_runtime)"
    using execute_prefix_cases(1,2) [OF prefix] by (simp_all add: idle_runtime_def idle_engine_def)
  obtain eg1 where gate: "target_gate refusing_world (pc_exec lean_pipeline) stamped_target (ru_engine ru1) = (GateOpen, eg1)"
    and "calm ''b'' eg1" "keys eg1 = keys (ru_engine ru1)"
    using lean_gate [OF eg(1)] by blast
  with lean_loop obtain out eg' where "account_loop plain_json refusing_world (pc_exec lean_pipeline) team_request 0
      (pr_summary p) False stamped_target (Some {''b''}) {} None None eg1 = (LoopReturn out, eg')"
    and new: "(''p/m'', ''b'') \<in> new_dispatches eg1 eg'"
    by blast
  moreover have "xc_tenants (pc_exec lean_pipeline) = [team]"
    by (simp add: lean_pipeline_def)
  ultimately have "sequential plain_json refusing_world lean_pipeline None 0 p (ru_engine ru1) = (out, eg')"
    by (simp add: sequential_def execute_plan_def p gate lean_allowed stamped_target_fields)
  from ex_sequential [OF prefix hedge this] show thesis
  proof (rule that [OF prefix hedge p(3)])
    show "(''p/m'', ''b'') \<in> new_dispatches (ru_engine idle_runtime) (ru_engine (ru1\<lparr>ru_engine := eg'\<rparr>))"
      using new eg(2) \<open>keys eg1 = keys (ru_engine ru1)\<close> by (simp add: new_dispatches_def)
  qed
qed

theorem dispatches_within_policy_witness:
  "\<exists>p. within_policy lean_pipeline None p (two_accounts FillFirst) stamped_target"
proof -
  obtain p ru1 out ru' where run:
    "execute_prefix refusing_world open_gateway lean_pipeline None team_request idle_runtime = (Inr p, ru1)"
    "plan_candidates (pr_plan p) = [stamped_target]"
    "executes plain_json refusing_world open_gateway lean_pipeline None 0 team_request idle_runtime out ru'"
    "(''p/m'', ''b'') \<in> new_dispatches (ru_engine idle_runtime) (ru_engine ru')"
    by (rule lean_run)
  from dispatches_within_policy [OF run(3,4)] run(1,2) show ?thesis
    by (auto simp: idle_runtime_def idle_engine_def)
qed

theorem unhedged_accounts_allowed_witness: "''b'' \<in> set (account_ids (two_accounts FillFirst) ''p'')"
proof -
  obtain p ru1 out ru' where run:
    "execute_prefix refusing_world open_gateway lean_pipeline None team_request idle_runtime = (Inr p, ru1)"
    "\<not> hedges lean_pipeline None p" "plan_candidates (pr_plan p) = [stamped_target]"
    "executes plain_json refusing_world open_gateway lean_pipeline None 0 team_request idle_runtime out ru'"
    "(''p/m'', ''b'') \<in> new_dispatches (ru_engine idle_runtime) (ru_engine ru')"
    by (rule lean_run)
  have "views_agree lean_pipeline"
    by (simp add: views_agree_def lean_pipeline_def plain_exec_def lean_snapshot_def small_snapshot_def)
  from unhedged_accounts_allowed [OF run(4,1,2) this run(5)] run(3) show ?thesis
    by (simp add: idle_runtime_def idle_engine_def stamped_target_fields)
qed

definition spent_pipeline :: "(unit, unit) pipeline_config" where
  "spent_pipeline = lean_pipeline\<lparr>pc_snapshot := lean_snapshot\<lparr>sn_tenants := [team\<lparr>tc_budget_usd := Some (FFin 0)\<rparr>]\<rparr>\<rparr>"

theorem budgets_gate_witness:
  "\<exists>e. xe_status e = 402 \<and> refuses plain_json refusing_world open_gateway spent_pipeline None 0 team_request idle_runtime e"
proof -
  let ?g = "global_spend_usd (gx_spend open_gateway (eg_tick (ru_engine idle_runtime)))"
  let ?t = "tenant_spend_usd ''team'' (gx_spend open_gateway (Suc (eg_tick (ru_engine idle_runtime))))"
  have "\<not> exhausted (pc_budget_max_usd spent_pipeline) ?g" "\<not> unreadable (pc_budget_max_usd spent_pipeline) ?g"
    by (simp_all add: exhausted_def unreadable_def spent_pipeline_def lean_pipeline_def)
  moreover have "flt_le (FFin 0) (f64_lit 0)"
    by code_simp
  then have "exhausted (tenant_cap spent_pipeline ''team'') ?t"
    by (simp add: exhausted_def tenant_cap_def spent_pipeline_def config_tenant_def team_def tenant_spend_usd_def
        rolled_up_def open_gateway_def)
  moreover have "req_tenant team_request = Some ''team''"
    by (simp add: team_request_def)
  ultimately show ?thesis
    using budgets_gate [OF refl, of spent_pipeline open_gateway idle_runtime plain_json refusing_world None 0 team_request]
    by blast
qed

theorem blocked_model_refused_witness:
  "\<exists>e. refuses plain_json refusing_world open_gateway lean_pipeline None 0 (new_request ''r'' ''dear/opus'' []) idle_runtime e"
proof -
  have "try_from_config None [PcModelBlocklist [''dear/*'']] = Inr (pc_plugins lean_pipeline)"
    by (simp add: try_from_config_def lean_pipeline_def)
  then show ?thesis
    by (rule blocked_model_refused [where models = "[''dear/*'']"])
      (simp_all add: new_request_def bt_wf_def glob_match_def strip_suffix_def str_ends_with_def starts_with_def)
qed

end
