(* ===== verification/Gateway_Log.thy ===== *)
theory Gateway_Log
  imports Gateway
begin

text \<open>
  The log of a whole request, hedged or not: the dispatches and finishes that a run of \<open>executes\<close>
  adds. A hedge race comes first and the sequential loop after it if the race is lost; the theorems
  say what holds of the two together: how often is dispatched, in which order, what is final, and
  that every attempt is finished.
\<close>

section \<open>The two parts of a log\<close>

definition request_log :: "'k runtime \<Rightarrow> 'k runtime \<Rightarrow> effect list" where
  "request_log ru ru' = drop (length (keys (ru_engine ru))) (keys (ru_engine ru'))"

text \<open>After an outcome of the given kind nothing is dispatched.\<close>

fun stops_after :: "(finish_outcome \<Rightarrow> bool) \<Rightarrow> effect list \<Rightarrow> bool" where
  "stops_after final [] \<longleftrightarrow> True"
| "stops_after final (FxFinished t a o' # ks) \<longleftrightarrow> (final o' \<longrightarrow> \<not> list_ex is_dispatch ks) \<and> stops_after final ks"
| "stops_after final (x # ks) \<longleftrightarrow> stops_after final ks"

fun finished_as :: "(finish_outcome \<Rightarrow> bool) \<Rightarrow> effect \<Rightarrow> bool" where
  "finished_as P (FxFinished t a o') \<longleftrightarrow> P o'"
| "finished_as P _ \<longleftrightarrow> False"

lemma stops_after_append:
  "stops_after final (ks @ ks') \<longleftrightarrow>
     stops_after final ks \<and> stops_after final ks' \<and> (list_ex (finished_as final) ks \<longrightarrow> \<not> list_ex is_dispatch ks')"
  by (induction final ks rule: stops_after.induct) auto

lemma stops_after_none: "\<not> list_ex (finished_as final) ks \<Longrightarrow> stops_after final ks"
  by (induction final ks rule: stops_after.induct) auto

lemma stops_after_butlast:
  assumes "\<not> list_ex (finished_as final) (butlast ks)"
  shows "stops_after final ks"
proof (cases ks rule: rev_cases)
  case (snoc xs x)
  then show ?thesis
    using assms by (cases x) (auto simp: stops_after_append stops_after_none)
qed simp

section \<open>The log of a race\<close>

definition waiting :: "racer \<Rightarrow> bool" where
  "waiting r \<longleftrightarrow> (\<exists>t. r = RWaiting t)"

lemma count_update:
  "i < length xs \<Longrightarrow> length (filter P (xs[i := y])) + (if P (xs ! i) then 1 else 0) = length (filter P xs) + (if P y then 1 else 0)"
proof (induction xs arbitrary: i)
  case (Cons x xs)
  then show ?case by (cases i) auto
qed simp

definition is_ok :: "finish_outcome \<Rightarrow> bool" where
  "is_ok o' \<longleftrightarrow> (\<exists>r c. o' = FoOk r c)"

text \<open>
  What a race adds to the log: no more dispatches than racers have started, a success only when it is
  over, and nothing dispatched after a success.
\<close>

definition race_log :: "'k engine \<Rightarrow> nat \<Rightarrow> ('j, 'k) race \<Rightarrow> bool" where
  "race_log eg n ra \<longleftrightarrow> pools (ra_engine ra) = pools eg
     \<and> (\<exists>ks. keys (ra_engine ra) = keys eg @ ks \<and> length (filter is_dispatch ks) + length (filter waiting (ra_racers ra)) \<le> n
        \<and> (ra_over ra \<or> \<not> list_ex (finished_as is_ok) ks) \<and> stops_after is_ok ks)"

lemma race_logI:
  assumes "race_log eg n ra" and "pools eg' = pools (ra_engine ra)" and "keys eg' = keys (ra_engine ra) @ ks'"
    and "length (filter is_dispatch ks') + length (filter waiting rs) \<le> length (filter waiting (ra_racers ra))"
    and "list_ex is_dispatch ks' \<Longrightarrow> \<not> ra_over ra" and "stops_after is_ok ks'"
    and "list_ex (finished_as is_ok) ks' \<Longrightarrow> over" and "ra_over ra \<Longrightarrow> over"
  shows "race_log eg n \<lparr>ra_racers = rs, ra_over = over, ra_win = win, ra_engine = eg'\<rparr>"
proof -
  obtain ks where ks: "keys (ra_engine ra) = keys eg @ ks"
    "length (filter is_dispatch ks) + length (filter waiting (ra_racers ra)) \<le> n"
    "ra_over ra \<or> \<not> list_ex (finished_as is_ok) ks" "stops_after is_ok ks" "pools (ra_engine ra) = pools eg"
    using assms(1) unfolding race_log_def by blast
  show ?thesis
    unfolding race_log_def using ks assms(2-)
    by (auto intro!: exI [of _ "ks @ ks'"] simp: stops_after_append)
qed

lemma hedge_pools:
  "pools (snd (hedge_begin js w cfg req t eg)) = pools eg" "pools (hedge_finish w cfg req am o' eg) = pools eg"
  "pools (hedge_failed w cfg req am error eg) = pools eg" "pools (snd (hedge_succeeded w cfg req am response eg)) = pools eg"
  by (auto simp: hedge_begin_def hedge_finish_def hedge_failed_def hedge_succeeded_def resolve_with_session_def Let_def split_beta
      pool_frame split: resolve_outcome.splits sum.splits)

lemma racer_waiting [simp]: "waiting (RWaiting t)" "\<not> waiting RDone" "\<not> waiting (RRunning am exec)"
  by (simp_all add: waiting_def)

lemma race_step_log:
  assumes "race_step js w cfg req launched ra ra'" and "race_log eg n ra"
  shows "race_log eg n ra'"
  using assms(1)
proof cases
  case (race_none i t eg1)
  have "pools eg1 = pools (ra_engine ra)" using hedge_pools(1) [of js w cfg req t "ra_engine ra"] race_none(5) by simp
  with race_none hedge_begin_keys [OF race_none(5)] count_update [of i "ra_racers ra" waiting RDone] show ?thesis
    by (cases ra) (auto intro!: race_logI [OF assms(2), where ks' = "[]"])
next
  case (race_start i t am exec eg1)
  have "pools eg1 = pools (ra_engine ra)" using hedge_pools(1) [of js w cfg req t "ra_engine ra"] race_start(5) by simp
  with race_start hedge_begin_keys [OF race_start(5)] count_update [of i "ra_racers ra" waiting "RRunning am exec"] show ?thesis
    by (cases ra) (auto intro!: race_logI [OF assms(2)])
next
  case (race_fail i am exec error)
  with hedge_failed_keys [of w cfg req am error "ra_engine ra"] count_update [of i "ra_racers ra" waiting RDone] show ?thesis
    by (cases ra) (auto intro!: race_logI [OF assms(2)] simp: hedge_pools is_ok_def)
next
  case (race_win i am exec response ms eg1)
  have "pools eg1 = pools (ra_engine ra)" using hedge_pools(4) [of w cfg req am response "ra_engine ra"] race_win(6) by simp
  moreover obtain r c where "keys eg1 = keys (ra_engine ra) @ [FxFinished (et_id (am_target am)) (am_account am) (FoOk r c)]"
    using hedge_succeeded_keys [of w cfg req am response "ra_engine ra"] race_win(6) by auto
  ultimately show ?thesis
    using race_win count_update [of i "ra_racers ra" waiting RDone]
    by (cases ra) (auto intro!: race_logI [OF assms(2)])
next
  case race_abort
  with assms(2) show ?thesis by (auto simp: race_log_def)
next
  case (race_cancel i am exec)
  with hedge_finish_keys [of w cfg req am FoCancelled "ra_engine ra"] count_update [of i "ra_racers ra" waiting RDone] show ?thesis
    by (cases ra) (auto intro!: race_logI [OF assms(2)] simp: hedge_pools is_ok_def)
qed

lemma race_reaches_log: "race_reaches js w cfg req launched ra ra' \<Longrightarrow> race_log eg n ra \<Longrightarrow> race_log eg n ra'"
  by (induction rule: race_reaches.induct) (auto intro: race_step_log)

lemma races_log:
  assumes "races js w pc p eg ra"
  shows "race_log eg (hedge_width (pc_hedge pc) (plan_candidates (pr_plan p))) ra"
proof -
  let ?cs = "plan_candidates (pr_plan p)"
  have "race_log eg (hedge_width (pc_hedge pc) ?cs) (start_race (pc_hedge pc) ?cs eg)"
    by (auto simp: race_log_def start_race_def hedge_width_def intro!: exI [of _ "[]"])
  with assms show ?thesis unfolding races_def Let_def by (rule race_reaches_log)
qed

lemma race_first:
  assumes "races js w pc p eg ra"
  shows "dispatches_only (et_id ` set (take (hedge_width (pc_hedge pc) (plan_candidates (pr_plan p))) (plan_candidates (pr_plan p)))) eg (ra_engine ra)"
proof -
  let ?cs = "take (hedge_width (pc_hedge pc) (plan_candidates (pr_plan p))) (plan_candidates (pr_plan p))"
  have "race_planned ?cs eg (start_race (pc_hedge pc) (plan_candidates (pr_plan p)) eg)"
    by (auto simp: race_planned_def start_race_def dispatches_only_keys)
  with assms have "race_planned ?cs eg ra"
    unfolding races_def Let_def by (rule race_reaches_planned)
  then show ?thesis by (simp add: race_planned_def)
qed

section \<open>The log of a request\<close>

abbreviation loop_events ::
  "'j json_api \<Rightarrow> ('j, 'k) world \<Rightarrow> ('j, 'w) pipeline_config \<Rightarrow> string set option \<Rightarrow> instant \<Rightarrow> 'j prepared \<Rightarrow> 'k engine \<Rightarrow> effect list" where
  "loop_events js w pc scope started p eg \<equiv> request_events js w (pc_exec pc) (pr_request p) (pr_profile p) started (scope \<noteq> None)
     (pr_plan p) (pr_unknown p) (pr_summary p) eg"

lemma sequential_keys:
  assumes "sequential js w pc scope started p eg = (out, eg')"
  shows "keys eg' = keys eg @ loop_events js w pc scope started p eg"
  using request_events_run [of js w "pc_exec pc" "pr_request p" "pr_profile p" started "scope \<noteq> None" "pr_plan p" "pr_unknown p" "pr_summary p" eg]
    assms by (metis sequential_def snd_conv)

text \<open>
  A run is refused before anything is dispatched, or its log is that of a race, empty if the request
  is not hedged, followed by that of the loop, or it is that of a race that was won.
\<close>

lemma executes_log:
  assumes "executes js w gw pc scope started req ru out ru'"
  obtains (denied) e where "out = OutError e" "execute_prefix w gw pc scope req ru = (Inl e, ru')" "request_log ru ru' = []"
  | (looped) p ru1 race eg where "execute_prefix w gw pc scope req ru = (Inr p, ru1)" "keys eg = keys (ru_engine ru) @ race"
      "pools eg = pools (ru_engine ru)" "sequential js w pc scope started p eg = (out, ru_engine ru')"
      "request_log ru ru' = race @ loop_events js w pc scope started p eg"
      "hedges pc scope p \<or> race = []" "\<not> list_ex (finished_as is_ok) race"
      "length (filter is_dispatch race) \<le> hedge_width (pc_hedge pc) (plan_candidates (pr_plan p))"
      "ids_of dispatched eg + ids_of finished (ru_engine ru) = ids_of finished eg + ids_of dispatched (ru_engine ru)"
      "dispatches_only (et_id ` set (take (hedge_width (pc_hedge pc) (plan_candidates (pr_plan p))) (plan_candidates (pr_plan p))))
         (ru_engine ru) eg"
  | (won) p ru1 where "execute_prefix w gw pc scope req ru = (Inr p, ru1)" "hedges pc scope p" "\<And>m am s. out \<noteq> OutStream m am s"
      "stops_after is_ok (request_log ru ru')"
      "length (filter is_dispatch (request_log ru ru')) \<le> hedge_width (pc_hedge pc) (plan_candidates (pr_plan p))"
      "ids_of dispatched (ru_engine ru') + ids_of finished (ru_engine ru) = ids_of finished (ru_engine ru') + ids_of dispatched (ru_engine ru)"
      "dispatches_only (et_id ` set (take (hedge_width (pc_hedge pc) (plan_candidates (pr_plan p))) (plan_candidates (pr_plan p))))
         (ru_engine ru) (ru_engine ru')"
  using assms
proof cases
  case (ex_denied e)
  then show ?thesis
    using execute_prefix_cases(2) [OF ex_denied(2)] by (intro denied) (simp_all add: request_log_def)
next
  case (ex_sequential p ru1 eg)
  note pre = execute_prefix_cases(1,2) [OF ex_sequential(2)]
  show ?thesis
  proof (rule looped [OF ex_sequential(2), where race = "[]" and eg = "ru_engine ru1"])
    show "request_log ru ru' = [] @ loop_events js w pc scope started p (ru_engine ru1)"
      using sequential_keys [OF ex_sequential(4)] ex_sequential(1) pre(2) by (simp add: request_log_def)
  qed (use ex_sequential pre in \<open>simp_all add: ids_of_def dispatches_only_keys\<close>)
next
  case (ex_hedge_won p ru1 ra win eg)
  note pre = execute_prefix_cases(1,2) [OF ex_hedge_won(2)]
  have eg: "keys eg = keys (ra_engine ra)"
    using hedge_committed_keys [of w "pc_exec pc" started "pr_summary p" win "ra_engine ra"] ex_hedge_won(7) by simp
  obtain ks where ks: "keys (ra_engine ra) = keys (ru_engine ru1) @ ks" "stops_after is_ok ks"
    "length (filter is_dispatch ks) \<le> hedge_width (pc_hedge pc) (plan_candidates (pr_plan p))"
    using races_log [OF ex_hedge_won(4)] unfolding race_log_def by auto
  have log: "request_log ru ru' = ks"
    using eg ks(1) ex_hedge_won(1) pre(2) by (simp add: request_log_def)
  have "race_inv (ru_engine ru1) ra"
    using ex_hedge_won(4) unfolding races_def Let_def by (rule race_reaches_inv) (rule start_race_inv)
  then have ids: "ids_of dispatched (ru_engine ru') + ids_of finished (ru_engine ru) =
      ids_of finished (ru_engine ru') + ids_of dispatched (ru_engine ru)"
    using eg ex_hedge_won(1,6) pre(2) by (simp add: race_inv_def ids_of_def)
  have only: "dispatches_only (et_id ` set (take (hedge_width (pc_hedge pc) (plan_candidates (pr_plan p))) (plan_candidates (pr_plan p))))
      (ru_engine ru) (ru_engine ru')"
    using race_first [OF ex_hedge_won(4)] eg ex_hedge_won(1) pre(2) by (simp add: dispatches_only_def)
  show ?thesis
    using ex_hedge_won(7) ks(2,3) ids only unfolding log [symmetric]
    by (intro won [OF ex_hedge_won(2,3)]) (auto simp: hedge_committed_def Let_def split: prod.splits sum.splits)
next
  case (ex_hedge_lost p ru1 ra eg)
  note pre = execute_prefix_cases(1,2) [OF ex_hedge_lost(2)]
  obtain ks where ks: "keys (ra_engine ra) = keys (ru_engine ru1) @ ks" "\<not> list_ex (finished_as is_ok) ks"
    "length (filter is_dispatch ks) \<le> hedge_width (pc_hedge pc) (plan_candidates (pr_plan p))"
    and pools: "pools (ra_engine ra) = pools (ru_engine ru1)"
    using races_log [OF ex_hedge_lost(4)] ex_hedge_lost(5) unfolding race_log_def by auto
  have "race_inv (ru_engine ru1) ra"
    using ex_hedge_lost(4) unfolding races_def Let_def by (rule race_reaches_inv) (rule start_race_inv)
  moreover have "running_ids (ra_racers ra) = {#}"
    using ex_hedge_lost(6) unfolding running_ids_def by (induction "ra_racers ra") (auto simp: map_filter_def list_all_iff filter_empty_conv)
  ultimately have ids: "ids_of dispatched (ra_engine ra) + ids_of finished (ru_engine ru) =
      ids_of finished (ra_engine ra) + ids_of dispatched (ru_engine ru)"
    using pre(2) by (simp add: race_inv_def ids_of_def)
  show ?thesis
  proof (rule looped [OF ex_hedge_lost(2), where race = ks and eg = "ra_engine ra"])
    show "request_log ru ru' = ks @ loop_events js w pc scope started p (ra_engine ra)"
      using sequential_keys [OF ex_hedge_lost(7)] ex_hedge_lost(1) pre(2) ks(1) by (simp add: request_log_def)
    show "dispatches_only (et_id ` set (take (hedge_width (pc_hedge pc) (plan_candidates (pr_plan p))) (plan_candidates (pr_plan p))))
        (ru_engine ru) (ra_engine ra)"
      using race_first [OF ex_hedge_lost(4)] pre(2) by (simp add: dispatches_only_def)
  qed (use ex_hedge_lost pre ks pools ids in simp_all)
qed

section \<open>What holds of the whole request\<close>

text \<open>
  C25: fallback is bounded. Whatever the upstreams answer and however a hedge race is scheduled, one
  request dispatches at most once for each racer of the race, if it is hedged, and in the loop at
  most once per account of each planned target, plus the configured retries of each of these
  attempts; a request that is refused dispatches nothing.
\<close>

theorem dispatches_bounded:
  assumes "executes js w gw pc scope started req ru out ru'"
  shows "case execute_prefix w gw pc scope req ru of
      (Inl e, ru1) \<Rightarrow> filter is_dispatch (request_log ru ru') = []
    | (Inr p, ru1) \<Rightarrow> length (filter is_dispatch (request_log ru ru'))
        \<le> (if hedges pc scope p then min (unat (max (hg_max_parallel (pc_hedge pc)) 1)) (length (plan_candidates (pr_plan p))) else 0)
          + sum_list (map (\<lambda>target. length (account_ids (eg_resolver (ru_engine ru)) (et_provider_id target))) (plan_candidates (pr_plan p)))
            * Suc (unat (xc_retry_max (pc_exec pc)))"
  using assms
proof (cases rule: executes_log)
  case (looped p ru1 race eg)
  have "length (filter is_dispatch (loop_events js w pc scope started p eg))
      \<le> sum_list (map (\<lambda>target. length (account_ids (eg_resolver eg) (et_provider_id target))) (plan_candidates (pr_plan p)))
        * Suc (unat (xc_retry_max (pc_exec pc)))"
    by (rule loop_dispatches_bounded)
  also have "(\<lambda>target. length (account_ids (eg_resolver eg) (et_provider_id target))) =
      (\<lambda>target. length (account_ids (eg_resolver (ru_engine ru)) (et_provider_id target)))"
    using account_ids_cong [OF looped(3)] by simp
  finally show ?thesis
    using looped(1,5,6,8) by (auto simp: hedge_width_def)
next
  case (won p ru1)
  then show ?thesis unfolding hedge_width_def [symmetric] by (simp add: trans_le_add1)
qed simp

text \<open>
  C27: nothing follows a final outcome. Once an attempt of a request succeeded, hedged or not, nothing
  more is dispatched for it. In a request that is not hedged the same holds once an attempt failed
  because the request is invalid or was refused for safety, which would fail the same way anywhere.
  (A lost race is followed by the loop whatever its racers failed with.)
\<close>

theorem final_outcome_stops:
  assumes "executes js w gw pc scope started req ru out ru'"
  shows "stops_after (\<lambda>o'. \<exists>r c. o' = FoOk r c) (request_log ru ru')
    \<and> (\<forall>p ru1. execute_prefix w gw pc scope req ru = (Inr p, ru1) \<and> \<not> hedges pc scope p \<longrightarrow>
         stops_after (\<lambda>o'. o' \<in> {FoFailed InvalidRequest, FoFailed SafetyBlocked}) (request_log ru ru'))"
proof -
  have loop: "stops_after is_ok ks \<and> stops_after (\<lambda>o'. o' \<in> {FoFailed InvalidRequest, FoFailed SafetyBlocked}) ks"
    if "\<And>x. x \<in> set (butlast ks) \<Longrightarrow> may_go_on x" for ks
  proof -
    have "\<not> finished_as is_ok x \<and> \<not> finished_as (\<lambda>o'. o' \<in> {FoFailed InvalidRequest, FoFailed SafetyBlocked}) x"
      if "may_go_on x" for x
      using that by (cases x rule: may_go_on.cases) (auto simp: is_ok_def should_fallback_def)
    with that show ?thesis by (intro conjI stops_after_butlast) (auto simp: list_ex_iff)
  qed
  have events: "stops_after is_ok (loop_events js w pc scope started p eg)
      \<and> stops_after (\<lambda>o'. o' \<in> {FoFailed InvalidRequest, FoFailed SafetyBlocked}) (loop_events js w pc scope started p eg)" for p eg
  proof (rule loop)
    obtain n e where run: "run (may_dispatch (pc_exec pc) (pr_request p) (pr_profile p) (pools eg) (plan_candidates (pr_plan p))) (pc_exec pc) n
        (loop_events js w pc scope started p eg) e"
      by (rule request_events_run)
    show "may_go_on x" if "x \<in> set (butlast (loop_events js w pc scope started p eg))" for x
      by (rule run_goes_on [OF run that])
  qed
  have "stops_after is_ok (request_log ru ru')
    \<and> (\<forall>p ru1. execute_prefix w gw pc scope req ru = (Inr p, ru1) \<and> \<not> hedges pc scope p \<longrightarrow>
         stops_after (\<lambda>o'. o' \<in> {FoFailed InvalidRequest, FoFailed SafetyBlocked}) (request_log ru ru'))"
    using assms
  proof (cases rule: executes_log)
    case (looped p ru1 race eg)
    then show ?thesis
      using events [of p eg] by (auto simp: stops_after_append stops_after_none)
  qed simp_all
  then show ?thesis unfolding is_ok_def .
qed

lemma hedge_take: "take (hedge_width hedge cs) cs = take (unat (max (hg_max_parallel hedge) 1)) cs"
  by (simp add: hedge_width_def min_def)


lemma open_after_ids:
  "open_after st ks = Some st' \<Longrightarrow>
   mset (List.map_filter dispatched ks) + (case st of Some x \<Rightarrow> {#x#} | None \<Rightarrow> {#}) =
     mset (List.map_filter finished ks) + (case st' of Some x \<Rightarrow> {#x#} | None \<Rightarrow> {#})"
  by (induction st ks rule: open_after.induct) (auto simp: map_filter_simps split: if_splits)

lemma balance:
  assumes "a + f = b + d + x" and "d + g = f + h"
  shows "a + g = b + h + (x :: 'a multiset)"
proof (rule multiset_eqI)
  fix y
  show "count (a + g) y = count (b + h + x) y"
    using arg_cong [OF assms(1), of "\<lambda>m. count m y"] arg_cong [OF assms(2), of "\<lambda>m. count m y"] by simp
qed

definition left_open :: "'j exec_outcome \<Rightarrow> (string \<times> string) option" where
  "left_open out = (case out of OutStream m am s \<Rightarrow> Some (et_id (am_target am), am_account am) | _ \<Rightarrow> None)"


section \<open>Witnesses\<close>

text \<open>The run of \<open>lean_run\<close>: not hedged, one target with two accounts, no retries.\<close>

theorem dispatches_bounded_witness:
  "\<exists>out ru'. executes plain_json refusing_world open_gateway lean_pipeline None 0 team_request idle_runtime out ru'
     \<and> length (filter is_dispatch (request_log idle_runtime ru'))
         \<le> length (account_ids (two_accounts FillFirst) (et_provider_id stamped_target)) * Suc (unat (xc_retry_max (pc_exec lean_pipeline)))"
proof -
  obtain p ru1 out ru' where run:
    "execute_prefix refusing_world open_gateway lean_pipeline None team_request idle_runtime = (Inr p, ru1)"
    "\<not> hedges lean_pipeline None p" "plan_candidates (pr_plan p) = [stamped_target]"
    "executes plain_json refusing_world open_gateway lean_pipeline None 0 team_request idle_runtime out ru'"
    by (rule lean_run)
  from dispatches_bounded [OF run(4)] run(1-3)
  have "length (filter is_dispatch (request_log idle_runtime ru'))
      \<le> length (account_ids (two_accounts FillFirst) (et_provider_id stamped_target)) * Suc (unat (xc_retry_max (pc_exec lean_pipeline)))"
    by (simp add: idle_runtime_def idle_engine_def)
  with run(4) show ?thesis by blast
qed

theorem final_outcome_stops_witness:
  "\<exists>out ru'. executes plain_json refusing_world open_gateway lean_pipeline None 0 team_request idle_runtime out ru'
     \<and> stops_after (\<lambda>o'. o' \<in> {FoFailed InvalidRequest, FoFailed SafetyBlocked}) (request_log idle_runtime ru')"
  using final_outcome_stops lean_run by metis



end
