(* ===== verification/Auth.thy ===== *)
theory Auth
  imports Attempt Text_Lines
begin

text \<open>
  The inbound gate of the server: API keys (\<open>sb-core/src/config.rs\<close>: \<open>principal_for_key\<close> and the
  constant-time comparison), the principal of a request (\<open>sb-server/src/tenancy.rs\<close>) and the
  endpoints each role may use (\<open>sb-server/src/auth.rs\<close>). SHA-256 is a parameter: a function from
  the bytes of a string to the bytes of its digest.
\<close>

unbundle bit_operations_syntax

section \<open>Keys\<close>

datatype api_key_role = RoleClient | RoleOperator | RoleAdmin

record api_key_config =
  ak_key :: "string option"
  ak_key_env :: "string option"
  ak_key_hash :: "string option"
  ak_prefix :: "string option"
  ak_tenant :: string
  ak_project :: "string option"
  ak_role :: api_key_role

definition lower_hex :: "char \<Rightarrow> bool" where
  "lower_hex c \<longleftrightarrow> c \<in> set ''0123456789abcdef''"

definition nibble_char :: "u8 \<Rightarrow> char" where
  "nibble_char n = ''0123456789abcdef'' ! unat n"

definition hex_bytes :: "u8 list \<Rightarrow> string" where
  "hex_bytes bs = concat (map (\<lambda>b. [nibble_char (drop_bit 4 b), nibble_char (b AND 15)]) bs)"

definition constant_time_secret_eq :: "(string \<Rightarrow> u8 list) \<Rightarrow> string \<Rightarrow> string \<Rightarrow> bool" where
  "constant_time_secret_eq sha expected presented =
     (fold (\<lambda>(a, b) diff. diff OR (a XOR b)) (zip (sha expected) (sha presented)) 0 = 0)"

definition normalize_sha256_hash :: "string \<Rightarrow> string option" where
  "normalize_sha256_hash hash =
     (case strip_prefix ''sha256:'' hash of
        Some h \<Rightarrow> if length h = 64 \<and> list_all lower_hex h then Some h else None
      | None \<Rightarrow> None)"

text \<open>\<open>env\<close> is \<open>std::env::var\<close>.\<close>

definition api_key_matches :: "(string \<Rightarrow> u8 list) \<Rightarrow> (string \<rightharpoonup> string) \<Rightarrow> api_key_config \<Rightarrow> string \<Rightarrow> bool" where
  "api_key_matches sha env configured presented =
     (let by_key = (case ak_key configured of Some k \<Rightarrow> k \<noteq> [] \<and> constant_time_secret_eq sha k presented | None \<Rightarrow> False);
          by_env = (case ak_key_env configured of
                      Some name \<Rightarrow> name \<noteq> [] \<and>
                        (case env name of Some k \<Rightarrow> k \<noteq> [] \<and> constant_time_secret_eq sha k presented | None \<Rightarrow> False)
                    | None \<Rightarrow> False);
          by_hash = (case Option.bind (ak_key_hash configured) normalize_sha256_hash of
                       Some h \<Rightarrow> constant_time_secret_eq sha h (hex_bytes (sha presented))
                     | None \<Rightarrow> False)
      in by_key \<or> by_env \<or> by_hash)"

text \<open>All keys are tried; the last match wins.\<close>

definition principal_for_key ::
  "(string \<Rightarrow> u8 list) \<Rightarrow> (string \<rightharpoonup> string) \<Rightarrow> api_key_config list \<Rightarrow> string
    \<Rightarrow> (string \<times> string option \<times> api_key_role) option" where
  "principal_for_key sha env keys presented =
     fold (\<lambda>k matched. if api_key_matches sha env k presented then Some (ak_tenant k, ak_project k, ak_role k) else matched)
       keys None"

section \<open>Principals\<close>

record principal =
  pn_tenant :: "string option"
  pn_project :: "string option"
  pn_role :: api_key_role

definition admin_principal :: principal where
  "admin_principal = \<lparr>pn_tenant = None, pn_project = None, pn_role = RoleAdmin\<rparr>"

definition is_admin :: "principal \<Rightarrow> bool" where
  "is_admin p \<longleftrightarrow> pn_role p = RoleAdmin"

definition is_operator_or_admin :: "principal \<Rightarrow> bool" where
  "is_operator_or_admin p \<longleftrightarrow> pn_role p \<in> {RoleOperator, RoleAdmin}"

fun role_name :: "api_key_role \<Rightarrow> string" where
  "role_name RoleClient = ''client''"
| "role_name RoleOperator = ''operator''"
| "role_name RoleAdmin = ''admin''"

record inbound_config =
  au_api_keys :: "api_key_config list"
  au_server_api_key :: "string option"

text \<open>The two headers that carry a key, where their values are strings.\<close>

record auth_headers =
  ah_authorization :: "string option"
  ah_x_api_key :: "string option"

definition presented_key :: "auth_headers \<Rightarrow> string option" where
  "presented_key h =
     (case Option.bind (ah_authorization h) (strip_prefix ''Bearer '') of
        Some s \<Rightarrow> Some (str_trim s)
      | None \<Rightarrow> map_option str_trim (ah_x_api_key h))"

datatype auth_error = Unauthorized | Forbidden

definition server_api_key_matches :: "(string \<Rightarrow> u8 list) \<Rightarrow> inbound_config \<Rightarrow> string \<Rightarrow> bool" where
  "server_api_key_matches sha cfg key =
     (case au_server_api_key cfg of Some expected \<Rightarrow> constant_time_secret_eq sha expected key | None \<Rightarrow> False)"

definition authenticate ::
  "(string \<Rightarrow> u8 list) \<Rightarrow> (string \<rightharpoonup> string) \<Rightarrow> inbound_config \<Rightarrow> auth_headers \<Rightarrow> auth_error + principal" where
  "authenticate sha env cfg h =
     (if au_api_keys cfg \<noteq> [] then
        (case Option.bind (presented_key h) (principal_for_key sha env (au_api_keys cfg)) of
           Some (tenant, project, role) \<Rightarrow> Inr \<lparr>pn_tenant = Some tenant, pn_project = project, pn_role = role\<rparr>
         | None \<Rightarrow> Inl Unauthorized)
      else if au_server_api_key cfg \<noteq> None then
        (case presented_key h of
           Some key \<Rightarrow> if server_api_key_matches sha cfg key then Inr admin_principal else Inl Unauthorized
         | None \<Rightarrow> Inl Unauthorized)
      else Inr admin_principal)"

section \<open>Endpoints\<close>

datatype http_verb = GET | POST | PUT | DELETE | PATCH | HEAD | OPTIONS

definition client_paths :: "string list" where
  "client_paths = [''/v1/chat/completions'', ''/v1/responses'', ''/v1/messages'', ''/v1/messages/count_tokens'',
     ''/v1/embeddings'', ''/v1/images/generations'']"

definition client_surface :: "http_verb \<Rightarrow> string \<Rightarrow> bool" where
  "client_surface verb uri \<longleftrightarrow>
     verb = GET \<and> uri = ''/v1/models'' \<or> verb = POST \<and> uri \<in> set client_paths"

definition path_ends_with :: "string \<Rightarrow> string \<Rightarrow> bool" where
  "path_ends_with uri suffix \<longleftrightarrow> starts_with (rev uri) (rev suffix)"

definition operator_surface :: "http_verb \<Rightarrow> string \<Rightarrow> bool" where
  "operator_surface verb uri \<longleftrightarrow>
     client_surface verb uri
     \<or> verb = GET \<and> (starts_with uri ''/v1/'' \<or> starts_with uri ''/cp/v1'')
     \<or> verb = POST \<and> (uri \<in> {''/cp/v1/route-preview'', ''/cp/v1/admission-preview''}
          \<or> starts_with uri ''/v1/jobs/'' \<and> path_ends_with uri ''/cancel''
          \<or> starts_with uri ''/cp/v1/drafts/'' \<and> path_ends_with uri ''/validate'')"

definition unauthorized_role :: "principal \<Rightarrow> http_verb \<Rightarrow> string \<Rightarrow> auth_error option" where
  "unauthorized_role p verb uri =
     (if is_admin p \<or> is_operator_or_admin p \<and> operator_surface verb uri \<or> client_surface verb uri
      then None else Some Forbidden)"

datatype gate_result = GatePublic | GatePass principal | GateRefused auth_error

definition public_path :: "string \<Rightarrow> bool" where
  "public_path uri \<longleftrightarrow> uri = ''/'' \<or> uri = ''/health'' \<or> starts_with uri ''/requests/''"

definition require_auth ::
  "(string \<Rightarrow> u8 list) \<Rightarrow> (string \<rightharpoonup> string) \<Rightarrow> inbound_config \<Rightarrow> http_verb \<Rightarrow> string \<Rightarrow> auth_headers \<Rightarrow> gate_result" where
  "require_auth sha env cfg verb uri h =
     (if public_path uri then GatePublic
      else case authenticate sha env cfg h of
             Inr p \<Rightarrow> (case unauthorized_role p verb uri of Some e \<Rightarrow> GateRefused e | None \<Rightarrow> GatePass p)
           | Inl e \<Rightarrow> GateRefused e)"

section \<open>The comparison\<close>

lemma or_eq_0: "(a OR b = 0) = (a = 0 \<and> b = 0)" for a b :: "'a::len word"
  by (simp add: bit_eq_iff bit_or_iff) blast

lemma xor_eq_0: "(a XOR b = 0) = (a = b)" for a b :: "'a::len word"
  by (auto simp: bit_eq_iff bit_xor_iff)

lemma ct_diff_fold: "(fold (\<lambda>(a, b) diff. diff OR (a XOR b)) ps d = 0) = (d = 0 \<and> list_all (\<lambda>(a, b). a = b) ps)"
  for d :: "'a::len word"
proof (induction ps arbitrary: d)
  case (Cons p ps)
  show ?case
    by (cases p) (simp only: fold_Cons comp_apply case_prod_conv Cons.IH list.pred_inject or_eq_0 xor_eq_0 conj_assoc)
qed simp

lemma constant_time_secret_eq_iff:
  assumes "\<And>s. length (sha s) = 32"
  shows "constant_time_secret_eq sha a b \<longleftrightarrow> sha a = sha b"
proof -
  have "list_all (\<lambda>(a, b). a = b) (zip xs ys) \<longleftrightarrow> xs = ys" if "length xs = length ys" for xs ys :: "u8 list"
    using that by (induction rule: list_induct2) auto
  then show ?thesis
    using assms unfolding constant_time_secret_eq_def ct_diff_fold by simp
qed

lemma nibble_char_hex: "unat n < 16 \<Longrightarrow> lower_hex (nibble_char n)"
  unfolding nibble_char_def lower_hex_def by (rule nth_mem) simp

lemma hex_bytes_format: "length (hex_bytes bs) = 2 * length bs \<and> list_all lower_hex (hex_bytes bs)"
proof (induction bs)
  case (Cons b bs)
  have "unat b < 2 ^ LENGTH(8)"
    by (rule unsigned_less)
  moreover have "unat (drop_bit 4 b) = unat b div 16"
    by (simp only: unat_drop_bit_eq) (simp add: drop_bit_eq_div)
  ultimately have "unat (drop_bit 4 b) < 16" "unat (b AND 15) < 16"
    using word_and_le1 [of b 15] by (simp_all add: word_le_nat_alt)
  then have "lower_hex (nibble_char (drop_bit 4 b))" "lower_hex (nibble_char (b AND 15))"
    by (simp_all add: nibble_char_hex)
  with Cons show ?case
    by (simp add: hex_bytes_def)
qed (simp add: hex_bytes_def)

section \<open>Who is admitted\<close>

text \<open>What the configuration demands of a presented key, in terms of digests.\<close>

definition accepts :: "(string \<Rightarrow> u8 list) \<Rightarrow> (string \<rightharpoonup> string) \<Rightarrow> api_key_config \<Rightarrow> string \<Rightarrow> bool" where
  "accepts sha env k presented \<longleftrightarrow>
     (\<exists>secret. secret \<noteq> [] \<and> sha secret = sha presented
        \<and> (ak_key k = Some secret \<or> (\<exists>name. name \<noteq> [] \<and> ak_key_env k = Some name \<and> env name = Some secret)))
     \<or> (\<exists>h. Option.bind (ak_key_hash k) normalize_sha256_hash = Some h
          \<and> sha h = sha (hex_bytes (sha presented)))"

lemma api_key_matches_iff:
  assumes "\<And>s. length (sha s) = 32"
  shows "api_key_matches sha env k presented \<longleftrightarrow> accepts sha env k presented"
  unfolding api_key_matches_def accepts_def Let_def constant_time_secret_eq_iff [OF assms]
  by (auto split: option.split)

lemma principal_for_key_Some:
  assumes "principal_for_key sha env keys presented = Some (t, pr, ro)"
  obtains k where "k \<in> set keys" "api_key_matches sha env k presented" "t = ak_tenant k" "pr = ak_project k" "ro = ak_role k"
proof -
  have "fold (\<lambda>k matched. if api_key_matches sha env k presented then Some (ak_tenant k, ak_project k, ak_role k) else matched)
      keys m = Some (t, pr, ro) \<Longrightarrow> m = Some (t, pr, ro) \<or> (\<exists>k \<in> set keys. api_key_matches sha env k presented
        \<and> t = ak_tenant k \<and> pr = ak_project k \<and> ro = ak_role k)" for m
    by (induction keys arbitrary: m) (fastforce split: if_splits)+
  with assms that show thesis
    unfolding principal_for_key_def by blast
qed

lemma principal_for_key_None:
  "principal_for_key sha env keys presented = None \<longleftrightarrow> (\<forall>k \<in> set keys. \<not> api_key_matches sha env k presented)"
proof -
  have "fold (\<lambda>k matched. if api_key_matches sha env k presented then Some (ak_tenant k, ak_project k, ak_role k) else matched)
      keys m = None \<longleftrightarrow> m = None \<and> (\<forall>k \<in> set keys. \<not> api_key_matches sha env k presented)" for m
    by (induction keys arbitrary: m) auto
  then show ?thesis
    by (simp add: principal_for_key_def)
qed

lemma gate_pass_key:
  assumes "au_api_keys cfg \<noteq> []" and "require_auth sha env cfg verb uri h = GatePass p"
  obtains k presented where "k \<in> set (au_api_keys cfg)" "presented_key h = Some presented" "api_key_matches sha env k presented"
    "p = \<lparr>pn_tenant = Some (ak_tenant k), pn_project = ak_project k, pn_role = ak_role k\<rparr>"
    "unauthorized_role p verb uri = None"
proof -
  have auth: "authenticate sha env cfg h = Inr p" and role: "unauthorized_role p verb uri = None"
    using assms(2) by (auto simp: require_auth_def split: if_splits sum.splits option.splits)
  then obtain presented t pr ro where presented: "presented_key h = Some presented"
    and found: "principal_for_key sha env (au_api_keys cfg) presented = Some (t, pr, ro)"
    and p: "p = \<lparr>pn_tenant = Some t, pn_project = pr, pn_role = ro\<rparr>"
    using assms(1) by (auto simp: authenticate_def bind_eq_Some_conv split: option.splits)
  then show thesis
    using principal_for_key_Some [OF found] that role by metis
qed

text \<open>
  The endpoints that change the gateway (\<open>app.rs\<close>): a reload, a patch of the runtime settings, a
  reset of account locks, creating a draft configuration and publishing one.
\<close>

inductive changes_gateway :: "http_verb \<Rightarrow> string \<Rightarrow> bool" where
  "changes_gateway POST ''/v1/reload''"
| "changes_gateway PATCH ''/v1/runtime''"
| "changes_gateway POST ''/cp/v1/runtime-state/reset-lockout''"
| "changes_gateway POST ''/cp/v1/drafts''"
| "changes_gateway POST (''/cp/v1/drafts/'' @ i @ ''/publish'')"

lemma publish_ends: "\<not> path_ends_with (x @ ''/publish'') ''/validate''" "\<not> path_ends_with (x @ ''/publish'') ''/cancel''"
  by (simp_all add: path_ends_with_def starts_with_def)

lemma starts_withE: "starts_with s p \<Longrightarrow> (\<And>x. s = p @ x \<Longrightarrow> P) \<Longrightarrow> P"
  by (metis append_take_drop_id starts_with_def)

lemma path_ends_withE: "path_ends_with s q \<Longrightarrow> (\<And>y. s = y @ q \<Longrightarrow> P) \<Longrightarrow> P"
  unfolding path_ends_with_def by (metis rev_append rev_rev_ident starts_withE)

text \<open>A path between a prefix and a suffix that may share a slash.\<close>

lemma after_last:
  assumes "u @ c # v = y @ c # b" and "c \<notin> set v" and "c \<notin> set b"
  shows "v = b"
proof -
  from arg_cong [OF assms(1), of rev] have eq: "rev v @ c # rev u = rev b @ c # rev y" by simp
  have "takeWhile (\<lambda>x. x \<noteq> c) (rev v @ c # rev u) = rev v" "takeWhile (\<lambda>x. x \<noteq> c) (rev b @ c # rev y) = rev b"
    using assms(2,3) by (auto simp: takeWhile_append)
  with eq show ?thesis by simp
qed

lemma between_slashes:
  assumes "starts_with uri (a @ ''/'')" and "path_ends_with uri (CHR ''/'' # b)" and "CHR ''/'' \<notin> set b"
  shows "\<exists>i. uri = a @ ''/'' @ i @ CHR ''/'' # b \<or> uri = a @ ''/'' @ b"
proof -
  obtain x y where xy: "uri = a @ CHR ''/'' # x" "uri = y @ CHR ''/'' # b"
    using assms(1,2) by (auto elim!: starts_withE path_ends_withE)
  show ?thesis
  proof (cases "CHR ''/'' \<in> set x")
    case True
    then obtain i x' where x: "x = i @ CHR ''/'' # x'" "CHR ''/'' \<notin> set x'"
      by (meson split_list_last)
    have "(a @ CHR ''/'' # i) @ CHR ''/'' # x' = y @ CHR ''/'' # b"
      using xy x(1) by simp
    from after_last [OF this x(2) assms(3)] xy(1) x(1) show ?thesis by auto
  next
    case False
    then have "x = b" using after_last [OF _ False assms(3)] xy by metis
    with xy(1) show ?thesis by simp
  qed
qed

lemma job_path:
  assumes "starts_with uri ''/v1/jobs/''" and "path_ends_with uri ''/cancel''"
  shows "\<exists>i. uri \<in> {''/v1/jobs/'' @ i @ ''/cancel'', ''/v1/jobs/cancel'',
      ''/cp/v1/drafts/'' @ i @ ''/validate'', ''/cp/v1/drafts/validate''}"
  using between_slashes [of uri "''/v1/jobs''" "''cancel''"] assms by simp (elim disjE exE, rule exI, erule disjI1, simp)

lemma draft_path:
  assumes "starts_with uri ''/cp/v1/drafts/''" and "path_ends_with uri ''/validate''"
  shows "\<exists>i. uri \<in> {''/v1/jobs/'' @ i @ ''/cancel'', ''/v1/jobs/cancel'',
      ''/cp/v1/drafts/'' @ i @ ''/validate'', ''/cp/v1/drafts/validate''}"
  using between_slashes [of uri "''/cp/v1/drafts''" "''validate''"] assms by simp (elim disjE exE, rule exI, rule disjI2, rule disjI2, erule disjI1, simp)

lemma client_posts:
  "client_surface verb uri \<Longrightarrow> (verb, uri) \<in> {(GET, ''/v1/models''), (POST, ''/v1/chat/completions''), (POST, ''/v1/responses''),
     (POST, ''/v1/messages''), (POST, ''/v1/messages/count_tokens''), (POST, ''/v1/embeddings''), (POST, ''/v1/images/generations'')}"
  by (auto simp: client_surface_def client_paths_def)

lemma operator_posts:
  assumes "r \<Longrightarrow> operator_surface verb uri"
  shows "r \<and> verb \<noteq> GET \<longrightarrow> verb = POST
    \<and> (uri \<in> {''/v1/chat/completions'', ''/v1/responses'', ''/v1/messages'', ''/v1/messages/count_tokens'', ''/v1/embeddings'',
         ''/v1/images/generations'', ''/cp/v1/route-preview'', ''/cp/v1/admission-preview''}
       \<or> (\<exists>i. uri \<in> {''/v1/jobs/'' @ i @ ''/cancel'', ''/v1/jobs/cancel'',
            ''/cp/v1/drafts/'' @ i @ ''/validate'', ''/cp/v1/drafts/validate''}))"
proof (intro impI, elim conjE)
  assume "r" "verb \<noteq> GET"
  with assms consider "verb = POST" "uri \<in> set client_paths" | "verb = POST" "uri \<in> {''/cp/v1/route-preview'', ''/cp/v1/admission-preview''}"
    | "verb = POST" "starts_with uri ''/v1/jobs/''" "path_ends_with uri ''/cancel''"
    | "verb = POST" "starts_with uri ''/cp/v1/drafts/''" "path_ends_with uri ''/validate''"
    by (auto simp: operator_surface_def client_surface_def simp del: insert_iff)
  then show "verb = POST
    \<and> (uri \<in> {''/v1/chat/completions'', ''/v1/responses'', ''/v1/messages'', ''/v1/messages/count_tokens'', ''/v1/embeddings'',
         ''/v1/images/generations'', ''/cp/v1/route-preview'', ''/cp/v1/admission-preview''}
       \<or> (\<exists>i. uri \<in> {''/v1/jobs/'' @ i @ ''/cancel'', ''/v1/jobs/cancel'',
            ''/cp/v1/drafts/'' @ i @ ''/validate'', ''/cp/v1/drafts/validate''}))"
  proof cases
    case 1
    then show ?thesis unfolding client_paths_def by auto
  next
    case 2
    then show ?thesis by auto
  next
    case 3
    then show ?thesis by (intro conjI disjI2 job_path)
  next
    case 4
    then show ?thesis by (intro conjI disjI2 draft_path)
  qed
qed

lemma changes_gateway_admin: "changes_gateway verb uri \<Longrightarrow> \<not> operator_surface verb uri \<and> \<not> client_surface verb uri"
proof (induction rule: changes_gateway.induct)
  case (5 i)
  have "''/cp/v1/drafts/'' @ i @ ''/publish'' \<notin> set client_paths \<union> {''/cp/v1/route-preview'', ''/cp/v1/admission-preview''}"
    by (simp add: client_paths_def)
  with publish_ends [of "''/cp/v1/drafts/'' @ i"] show ?case
    by (simp add: operator_surface_def client_surface_def)
qed (simp_all add: operator_surface_def client_surface_def client_paths_def starts_with_def path_ends_with_def)


text \<open>
  A hashed key admits its secret: a configuration that stores only the prefixed digest of a
  secret accepts the secret itself, so a key never has to be kept in clear text.
\<close>

theorem hashed_key_admits:
  assumes "\<And>s. length (sha s) = 32" and "ak_key_hash k = Some (''sha256:'' @ hex_bytes (sha secret))"
  shows "api_key_matches sha env k secret"
proof -
  have "normalize_sha256_hash (''sha256:'' @ hex_bytes (sha secret)) = Some (hex_bytes (sha secret))"
    unfolding normalize_sha256_hash_def strip_prefix_append
    using hex_bytes_format [of "sha secret"] assms(1) [of secret] by (simp only: option.case if_True simp_thms) simp
  then show ?thesis
    unfolding api_key_matches_iff [OF assms(1)] accepts_def assms(2) by simp
qed

section \<open>Witnesses\<close>

lemma trim_start_matches_id:
  assumes "list_all (\<lambda>p. take 1 p \<noteq> take 1 s) ps" and "s \<noteq> []"
  shows "trim_start_matches ps s = s"
proof -
  have "\<not> starts_with s p" if "p \<in> set ps" "p \<noteq> []" for p
    using assms that by (cases p; cases s) (auto simp: list_all_iff starts_with_def)
  then have "find (\<lambda>p. p \<noteq> [] \<and> starts_with s p) ps = None"
    by (auto simp: find_None_iff)
  then show ?thesis
    by (simp add: trim_start_matches.simps)
qed

lemma str_trim_id:
  assumes "list_all (\<lambda>p. take 1 p \<noteq> take 1 s \<and> take 1 (rev p) \<noteq> take 1 (rev s)) white_spaces" and "s \<noteq> []"
  shows "str_trim s = s"
  using assms trim_start_matches_id [of s white_spaces] trim_start_matches_id [of "rev s" "map rev white_spaces"]
  by (simp add: str_trim_def trim_start_def trim_end_matches_def list_all_iff)

definition sum_digest :: "string \<Rightarrow> u8 list" where
  "sum_digest s = replicate 31 0 @ [fold (\<lambda>c d. d * 31 + of_char c) s 7]"

definition client_key :: api_key_config where
  "client_key = \<lparr>ak_key = Some ''k1'', ak_key_env = None, ak_key_hash = None, ak_prefix = None, ak_tenant = ''team'',
     ak_project = None, ak_role = RoleClient\<rparr>"

definition team_keys :: inbound_config where
  "team_keys = \<lparr>au_api_keys = [client_key], au_server_api_key = None\<rparr>"

definition team_headers :: auth_headers where
  "team_headers = \<lparr>ah_authorization = Some ''Bearer k1'', ah_x_api_key = None\<rparr>"

lemma team_key_passes:
  "require_auth sum_digest Map.empty team_keys POST ''/v1/messages'' team_headers =
     GatePass \<lparr>pn_tenant = Some ''team'', pn_project = None, pn_role = RoleClient\<rparr>"
proof -
  have "str_trim ''k1'' = ''k1''"
    by (rule str_trim_id) (simp_all add: white_spaces_def bytes_def char_of_eq_iff)
  then have "presented_key team_headers = Some ''k1''"
    by (simp add: presented_key_def team_headers_def strip_prefix_def starts_with_def)
  moreover have "api_key_matches sum_digest Map.empty client_key ''k1''"
    by (simp add: api_key_matches_iff sum_digest_def accepts_def client_key_def)
  moreover have "\<not> public_path ''/v1/messages''" "client_surface POST ''/v1/messages''"
    by (simp_all add: public_path_def starts_with_def client_surface_def client_paths_def)
  ultimately show ?thesis
    by (simp add: require_auth_def authenticate_def principal_for_key_def unauthorized_role_def team_keys_def)
      (simp add: client_key_def)
qed


theorem hashed_key_admits_witness:
  "api_key_matches sum_digest Map.empty (client_key\<lparr>ak_key := None, ak_key_hash := Some (''sha256:'' @ hex_bytes (sum_digest ''s3''))\<rparr>) ''s3''"
  by (rule hashed_key_admits) (simp_all add: sum_digest_def)

end
