(* ===== verification/Coordination.thy ===== *)
theory Coordination
  imports Prelude
begin

text \<open>
  The coordination tables of the store (\<open>sb-store/src/lib.rs\<close>, the implementation of
  \<open>StateStore\<close> for SQLite): stored replies of idempotent requests with the claims of those in
  progress, and the leased concurrency slots of tenants and of the gateway. A table is the list of
  its rows; an operation is one transaction, so it is one step, at the time it reads.
\<close>

section \<open>Leases\<close>

text \<open>\<open>now.saturating_add(ttl_ms as i64)\<close>: the cast reinterprets the bits.\<close>

definition expires_at :: "i64 \<Rightarrow> u64 \<Rightarrow> i64" where
  "expires_at now ttl_ms = max (- (2 ^ 63)) (min (2 ^ 63 - 1) (now + sint ttl_ms))"

lemma expires_at_mono: "now \<le> now' \<Longrightarrow> expires_at now ttl \<le> expires_at now' ttl"
  by (simp add: expires_at_def)

record slot =
  sl_id :: string
  sl_created_at :: i64
  sl_expires_at :: i64

record tenant_slot = slot +
  ts_tenant :: string

definition sweep :: "i64 \<Rightarrow> 'a slot_scheme list \<Rightarrow> 'a slot_scheme list" where
  "sweep now rows = filter (\<lambda>r. now < sl_expires_at r) rows"

definition slots_release :: "string \<Rightarrow> 'a slot_scheme list \<Rightarrow> 'a slot_scheme list" where
  "slots_release i rows = filter (\<lambda>r. sl_id r \<noteq> i) rows"

definition slots_renew :: "string \<Rightarrow> u64 \<Rightarrow> i64 \<Rightarrow> 'a slot_scheme list \<Rightarrow> bool \<times> 'a slot_scheme list" where
  "slots_renew i ttl now rows =
     (let due = (\<lambda>r. sl_id r = i \<and> now < sl_expires_at r)
      in (list_ex due rows, map (\<lambda>r. if due r then r\<lparr>sl_expires_at := expires_at now ttl\<rparr> else r) rows))"

section \<open>Replies and claims\<close>

record idempotency_record =
  ir_key :: string
  ir_fingerprint :: string
  ir_status :: u16
  ir_content_type :: string
  ir_body :: string
  ir_created_at_ms :: i64

record claim =
  cl_key :: string
  cl_fingerprint :: string
  cl_lease_id :: "string option"
  cl_created_at :: i64
  cl_expires_at :: i64

datatype begin_answer = Claimed | InProgress | Mismatch | Replay idempotency_record

record tables =
  tb_idempotency :: "idempotency_record list"
  tb_inflight :: "claim list"
  tb_tenant_slots :: "tenant_slot list"
  tb_admission_slots :: "slot list"

definition idempotency_get :: "string \<Rightarrow> tables \<Rightarrow> idempotency_record option" where
  "idempotency_get key tb = find (\<lambda>r. ir_key r = key) (tb_idempotency tb)"

text \<open>\<open>INSERT OR IGNORE\<close> on the primary key: the first writer wins.\<close>

definition idempotency_put :: "idempotency_record \<Rightarrow> tables \<Rightarrow> bool \<times> tables" where
  "idempotency_put rec tb =
     (if ir_key rec \<in> ir_key ` set (tb_idempotency tb) then (False, tb)
      else (True, tb\<lparr>tb_idempotency := tb_idempotency tb @ [rec]\<rparr>))"

definition idempotency_begin :: "string \<Rightarrow> string \<Rightarrow> string \<Rightarrow> u64 \<Rightarrow> i64 \<Rightarrow> tables \<Rightarrow> begin_answer \<times> tables" where
  "idempotency_begin key fingerprint lease_id ttl_ms now tb =
     (let tb1 = tb\<lparr>tb_inflight := filter (\<lambda>c. now < cl_expires_at c) (tb_inflight tb)\<rparr>
      in case idempotency_get key tb1 of
           Some rec \<Rightarrow> (if ir_fingerprint rec = fingerprint then Replay rec else Mismatch, tb1)
         | None \<Rightarrow>
             (case find (\<lambda>c. cl_key c = key) (tb_inflight tb1) of
                Some c \<Rightarrow> (if cl_fingerprint c = fingerprint then InProgress else Mismatch, tb1)
              | None \<Rightarrow>
                  (Claimed, tb1\<lparr>tb_inflight := tb_inflight tb1 @
                     [\<lparr>cl_key = key, cl_fingerprint = fingerprint, cl_lease_id = Some lease_id, cl_created_at = now,
                       cl_expires_at = expires_at now ttl_ms\<rparr>]\<rparr>)))"

definition owns_claim :: "string \<Rightarrow> string \<Rightarrow> claim \<Rightarrow> bool" where
  "owns_claim key lease_id c \<longleftrightarrow> cl_key c = key \<and> cl_lease_id c = Some lease_id"

definition idempotency_release :: "string \<Rightarrow> string \<Rightarrow> tables \<Rightarrow> bool \<times> tables" where
  "idempotency_release key lease_id tb =
     (list_ex (owns_claim key lease_id) (tb_inflight tb),
      tb\<lparr>tb_inflight := filter (\<lambda>c. \<not> owns_claim key lease_id c) (tb_inflight tb)\<rparr>)"

definition idempotency_renew :: "string \<Rightarrow> string \<Rightarrow> u64 \<Rightarrow> i64 \<Rightarrow> tables \<Rightarrow> bool \<times> tables" where
  "idempotency_renew key lease_id ttl_ms now tb =
     (let due = (\<lambda>c. owns_claim key lease_id c \<and> now < cl_expires_at c)
      in (list_ex due (tb_inflight tb),
          tb\<lparr>tb_inflight := map (\<lambda>c. if due c then c\<lparr>cl_expires_at := expires_at now ttl_ms\<rparr> else c) (tb_inflight tb)\<rparr>))"

section \<open>Slots\<close>

text \<open>
  \<open>INSERT\<close> fails on a duplicate primary key; the transaction is then dropped, which rolls the sweep
  back as well.
\<close>

definition tenant_slot_acquire :: "string \<Rightarrow> string \<Rightarrow> u32 \<Rightarrow> u64 \<Rightarrow> i64 \<Rightarrow> tables \<Rightarrow> (string + bool) \<times> tables" where
  "tenant_slot_acquire tenant slot_id max_slots ttl_ms now tb =
     (let rows = sweep now (tb_tenant_slots tb);
          active = length (filter (\<lambda>r. ts_tenant r = tenant) rows)
      in if unat max_slots \<le> active then (Inr False, tb\<lparr>tb_tenant_slots := rows\<rparr>)
         else if slot_id \<in> sl_id ` set rows then (Inl ''UNIQUE constraint failed: tenant_slots.slot_id'', tb)
         else (Inr True, tb\<lparr>tb_tenant_slots := rows @
                [\<lparr>sl_id = slot_id, sl_created_at = now, sl_expires_at = expires_at now ttl_ms, ts_tenant = tenant\<rparr>]\<rparr>))"

definition tenant_slot_release :: "string \<Rightarrow> tables \<Rightarrow> tables" where
  "tenant_slot_release slot_id tb = tb\<lparr>tb_tenant_slots := slots_release slot_id (tb_tenant_slots tb)\<rparr>"

definition tenant_slot_renew :: "string \<Rightarrow> u64 \<Rightarrow> i64 \<Rightarrow> tables \<Rightarrow> bool \<times> tables" where
  "tenant_slot_renew slot_id ttl_ms now tb =
     (let (changed, rows) = slots_renew slot_id ttl_ms now (tb_tenant_slots tb)
      in (changed, tb\<lparr>tb_tenant_slots := rows\<rparr>))"

definition tenant_slot_count :: "string \<Rightarrow> i64 \<Rightarrow> tables \<Rightarrow> u32 \<times> tables" where
  "tenant_slot_count tenant now tb =
     (let rows = sweep now (tb_tenant_slots tb)
      in (word_of_nat (length (filter (\<lambda>r. ts_tenant r = tenant) rows)), tb\<lparr>tb_tenant_slots := rows\<rparr>))"

definition admission_slot_acquire :: "string \<Rightarrow> u32 \<Rightarrow> u64 \<Rightarrow> i64 \<Rightarrow> tables \<Rightarrow> (string + bool) \<times> tables" where
  "admission_slot_acquire slot_id max_slots ttl_ms now tb =
     (let rows = sweep now (tb_admission_slots tb)
      in if unat max_slots \<le> length rows then (Inr False, tb\<lparr>tb_admission_slots := rows\<rparr>)
         else if slot_id \<in> sl_id ` set rows then (Inl ''UNIQUE constraint failed: admission_slots.slot_id'', tb)
         else (Inr True, tb\<lparr>tb_admission_slots := rows @
                [\<lparr>sl_id = slot_id, sl_created_at = now, sl_expires_at = expires_at now ttl_ms\<rparr>]\<rparr>))"

definition admission_slot_release :: "string \<Rightarrow> tables \<Rightarrow> tables" where
  "admission_slot_release slot_id tb = tb\<lparr>tb_admission_slots := slots_release slot_id (tb_admission_slots tb)\<rparr>"

definition admission_slot_renew :: "string \<Rightarrow> u64 \<Rightarrow> i64 \<Rightarrow> tables \<Rightarrow> bool \<times> tables" where
  "admission_slot_renew slot_id ttl_ms now tb =
     (let (changed, rows) = slots_renew slot_id ttl_ms now (tb_admission_slots tb)
      in (changed, tb\<lparr>tb_admission_slots := rows\<rparr>))"

definition admission_slot_count :: "i64 \<Rightarrow> tables \<Rightarrow> u32 \<times> tables" where
  "admission_slot_count now tb =
     (let rows = sweep now (tb_admission_slots tb) in (word_of_nat (length rows), tb\<lparr>tb_admission_slots := rows\<rparr>))"

section \<open>Sequences of operations\<close>

text \<open>
  Any number of gateways share the tables; their transactions are serialised, so what they do
  together is a sequence of operations, each at its own reading of the clock.
\<close>

datatype coord_op =
  OpPut idempotency_record
  | OpBegin string string string u64
  | OpRelease string string
  | OpRenew string string u64
  | OpTenantAcquire string string u32 u64
  | OpTenantRelease string
  | OpTenantRenew string u64
  | OpTenantCount string
  | OpAdmissionAcquire string u32 u64
  | OpAdmissionRelease string
  | OpAdmissionRenew string u64
  | OpAdmissionCount

fun coord_step :: "coord_op \<Rightarrow> i64 \<Rightarrow> tables \<Rightarrow> tables" where
  "coord_step (OpPut rec) now tb = snd (idempotency_put rec tb)"
| "coord_step (OpBegin key fp lease ttl) now tb = snd (idempotency_begin key fp lease ttl now tb)"
| "coord_step (OpRelease key lease) now tb = snd (idempotency_release key lease tb)"
| "coord_step (OpRenew key lease ttl) now tb = snd (idempotency_renew key lease ttl now tb)"
| "coord_step (OpTenantAcquire t i m ttl) now tb = snd (tenant_slot_acquire t i m ttl now tb)"
| "coord_step (OpTenantRelease i) now tb = tenant_slot_release i tb"
| "coord_step (OpTenantRenew i ttl) now tb = snd (tenant_slot_renew i ttl now tb)"
| "coord_step (OpTenantCount t) now tb = snd (tenant_slot_count t now tb)"
| "coord_step (OpAdmissionAcquire i m ttl) now tb = snd (admission_slot_acquire i m ttl now tb)"
| "coord_step (OpAdmissionRelease i) now tb = admission_slot_release i tb"
| "coord_step (OpAdmissionRenew i ttl) now tb = snd (admission_slot_renew i ttl now tb)"
| "coord_step OpAdmissionCount now tb = snd (admission_slot_count now tb)"

definition coord_run :: "(coord_op \<times> i64) list \<Rightarrow> tables \<Rightarrow> tables" where
  "coord_run ops tb = fold (\<lambda>(op, now). coord_step op now) ops tb"

lemma coord_run_Nil [simp]: "coord_run [] tb = tb"
  by (simp add: coord_run_def)

lemma coord_run_Cons [simp]: "coord_run ((op, now) # ops) tb = coord_run ops (coord_step op now tb)"
  by (simp add: coord_run_def)

lemma coord_run_keeps:
  assumes "P tb" and "list_all (\<lambda>(op, now). Q op now) ops"
    and "\<And>op now tb. P tb \<Longrightarrow> Q op now \<Longrightarrow> P (coord_step op now tb)"
  shows "P (coord_run ops tb)"
  using assms(1,2)
proof (induction ops arbitrary: tb)
  case (Cons x ops)
  then show ?case
    using assms(3) by (cases x) simp
qed simp

definition empty_tables :: tables where
  "empty_tables = \<lparr>tb_idempotency = [], tb_inflight = [], tb_tenant_slots = [], tb_admission_slots = []\<rparr>"

lemmas idem_defs = idempotency_put_def idempotency_begin_def idempotency_release_def idempotency_renew_def idempotency_get_def
lemmas slot_defs = tenant_slot_acquire_def tenant_slot_release_def tenant_slot_renew_def tenant_slot_count_def
  admission_slot_acquire_def admission_slot_release_def admission_slot_renew_def admission_slot_count_def

section \<open>Primary keys\<close>

definition tables_wf :: "tables \<Rightarrow> bool" where
  "tables_wf tb \<longleftrightarrow> distinct (map ir_key (tb_idempotency tb)) \<and> distinct (map cl_key (tb_inflight tb))
     \<and> distinct (map sl_id (tb_tenant_slots tb)) \<and> distinct (map sl_id (tb_admission_slots tb))"

lemma slots_renew_ids: "map sl_id (snd (slots_renew i ttl now rows)) = map sl_id rows"
  by (simp add: slots_renew_def Let_def comp_def if_distrib [of sl_id] cong: if_cong)

lemma renew_keys: "cl_key \<circ> (\<lambda>c. if P c then c\<lparr>cl_expires_at := e\<rparr> else c) = cl_key"
  by (simp add: fun_eq_iff)

lemma distinct_map_filter_snoc:
  "distinct (map f xs) \<Longrightarrow> f y \<notin> f ` set (filter P xs) \<Longrightarrow> distinct (map f (filter P xs @ [y]))"
  by (simp add: distinct_map_filter)

lemma coord_step_wf:
  assumes "tables_wf tb"
  shows "tables_wf (coord_step op now tb)"
proof (cases op)
  case (OpBegin key fp lease ttl)
  then show ?thesis
    using assms distinct_map_filter_snoc [of cl_key "tb_inflight tb"]
    by (auto simp: tables_wf_def idem_defs Let_def distinct_map_filter find_None_iff split: option.split)
qed (use assms in \<open>auto simp: tables_wf_def idem_defs slot_defs Let_def split_beta renew_keys slots_renew_ids sweep_def
    slots_release_def distinct_map_filter\<close>)

lemma coord_run_wf: "tables_wf tb \<Longrightarrow> tables_wf (coord_run ops tb)"
  by (rule coord_run_keeps [where Q = "\<lambda>_ _. True"]) (simp_all add: coord_step_wf list_all_iff)

text \<open>
  The primary keys hold: whatever sequence of operations the gateways run on a fresh store, no two
  rows of a coordination table share their key.
\<close>

theorem primary_keys_hold: "tables_wf (coord_run ops empty_tables)"
  by (rule coord_run_wf) (simp add: tables_wf_def empty_tables_def)

section \<open>Limits\<close>

text \<open>
  What the slot operations keep of a group of rows (those of a tenant, or all of them): sweeping and
  releasing only remove rows and renewing keeps the group.
\<close>

locale slot_group =
  fixes mine :: "'a slot_scheme \<Rightarrow> bool"
  assumes mine_renewed: "mine (r\<lparr>sl_expires_at := e\<rparr>) = mine r"
begin

lemma sweep_le: "length (filter mine (sweep now rows)) \<le> length (filter mine rows)"
  by (induction rows) (auto simp: sweep_def)

lemma release_le: "length (filter mine (slots_release i rows)) \<le> length (filter mine rows)"
  by (induction rows) (auto simp: slots_release_def)

lemma renew_eq: "length (filter mine (snd (slots_renew i ttl now rows))) = length (filter mine rows)"
  by (induction rows) (auto simp: slots_renew_def Let_def mine_renewed)

lemmas shrinks = sweep_le [THEN le_trans] release_le [THEN le_trans]

end

interpretation of_tenant: slot_group "\<lambda>r. ts_tenant r = tenant" for tenant
  by unfold_locales simp

interpretation of_gateway: slot_group "\<lambda>r :: slot. True"
  by unfold_locales simp

fun within_limits :: "(string \<Rightarrow> u32) \<Rightarrow> u32 \<Rightarrow> coord_op \<Rightarrow> bool" where
  "within_limits tenant_max max_slots (OpTenantAcquire t i m ttl) = (m \<le> tenant_max t)"
| "within_limits tenant_max max_slots (OpAdmissionAcquire i m ttl) = (m \<le> max_slots)"
| "within_limits tenant_max max_slots _ = True"

definition limits_kept :: "(string \<Rightarrow> u32) \<Rightarrow> u32 \<Rightarrow> tables \<Rightarrow> bool" where
  "limits_kept tenant_max max_slots tb \<longleftrightarrow>
     (\<forall>t. length (filter (\<lambda>r. ts_tenant r = t) (tb_tenant_slots tb)) \<le> unat (tenant_max t))
     \<and> length (tb_admission_slots tb) \<le> unat max_slots"

lemma coord_step_limits:
  assumes "limits_kept tenant_max max_slots tb" and "within_limits tenant_max max_slots op"
  shows "limits_kept tenant_max max_slots (coord_step op now tb)"
proof (cases op)
  case (OpTenantAcquire t i m ttl)
  then show ?thesis
    using assms of_tenant.sweep_le [of _ now "tb_tenant_slots tb", THEN le_trans]
    by (auto simp: limits_kept_def tenant_slot_acquire_def Let_def word_le_nat_alt not_le)
next
  case (OpAdmissionAcquire i m ttl)
  then show ?thesis
    using assms of_gateway.sweep_le [of now "tb_admission_slots tb", THEN le_trans]
    by (auto simp: limits_kept_def admission_slot_acquire_def Let_def word_le_nat_alt not_le)
qed (use assms(1) in \<open>auto simp: limits_kept_def idem_defs slot_defs Let_def split_beta of_tenant.renew_eq
    of_gateway.renew_eq [simplified] split: option.split intro: of_tenant.shrinks of_gateway.shrinks [simplified]\<close>)

text \<open>
  C14: no interleaving of the gateways that share the store exceeds a limit: if each acquisition asks
  within the tenant's and the gateway's limits, the tables never hold more slots of a tenant than
  its limit nor more admission slots than the gateway's, whatever the clocks read.
\<close>

theorem slots_never_exceed_limits:
  assumes "limits_kept tenant_max max_slots tb" and "list_all (\<lambda>(op, now). within_limits tenant_max max_slots op) ops"
  shows "limits_kept tenant_max max_slots (coord_run ops tb)"
  using assms by (rule coord_run_keeps) (rule coord_step_limits)

section \<open>Replies\<close>

lemma find_filter_same: "(\<And>x. P x \<Longrightarrow> Q x) \<Longrightarrow> find P (filter Q xs) = find P xs"
  by (induction xs) auto

lemma find_append_case: "find P (xs @ ys) = (case find P xs of Some x \<Rightarrow> Some x | None \<Rightarrow> find P ys)"
  by (induction xs) auto

lemma coord_step_reply:
  assumes "idempotency_get key tb = Some rec"
  shows "idempotency_get key (coord_step op now tb) = Some rec"
  using assms
  by (cases op) (auto simp: idem_defs slot_defs Let_def split_beta find_append_case split: option.splits)

lemma coord_run_reply: "idempotency_get key tb = Some rec \<Longrightarrow> idempotency_get key (coord_run ops tb) = Some rec"
  by (rule coord_run_keeps [where Q = "\<lambda>_ _. True"]) (simp_all add: coord_step_reply list_all_iff)

text \<open>
  C12: a stored reply is final: after a successful write, every later request with the key, in
  whatever interleaving, is answered with exactly that record if its body has the record's
  fingerprint and refused as a mismatch otherwise, and is never executed again.
\<close>

theorem stored_reply_final:
  assumes "idempotency_put rec tb = (True, tb1)"
  shows "fst (idempotency_begin (ir_key rec) fp lease ttl now (coord_run ops tb1)) =
    (if fp = ir_fingerprint rec then Replay rec else Mismatch)"
proof -
  have new: "ir_key rec \<notin> ir_key ` set (tb_idempotency tb)" and tb1: "tb1 = tb\<lparr>tb_idempotency := tb_idempotency tb @ [rec]\<rparr>"
    using assms by (auto simp: idempotency_put_def split: if_splits)
  then have "find (\<lambda>r. ir_key r = ir_key rec) (tb_idempotency tb) = None"
    by (auto simp: find_None_iff image_iff)
  then have "idempotency_get (ir_key rec) tb1 = Some rec"
    by (simp add: tb1 idempotency_get_def find_append_case)
  from coord_run_reply [OF this, of ops] show ?thesis
    by (simp add: idempotency_begin_def idempotency_get_def)
qed

section \<open>Claims\<close>

fun keeps_claim :: "string \<Rightarrow> string \<Rightarrow> u64 \<Rightarrow> coord_op \<Rightarrow> bool" where
  "keeps_claim key lease ttl (OpRelease k l) = (\<not> (k = key \<and> l = lease))"
| "keeps_claim key lease ttl (OpRenew k l ttl') = (k = key \<and> l = lease \<longrightarrow> ttl' = ttl)"
| "keeps_claim key lease ttl _ = True"

definition claim_held :: "string \<Rightarrow> string \<Rightarrow> string \<Rightarrow> i64 \<Rightarrow> tables \<Rightarrow> bool" where
  "claim_held key fp lease until tb \<longleftrightarrow>
     (\<exists>c \<in> set (tb_inflight tb). owns_claim key lease c \<and> cl_fingerprint c = fp \<and> until \<le> cl_expires_at c)"

lemma coord_step_claim:
  assumes "claim_held key fp lease (expires_at t0 ttl) tb" and "keeps_claim key lease ttl op"
    and "t0 \<le> now" and "now < expires_at t0 ttl"
  shows "claim_held key fp lease (expires_at t0 ttl) (coord_step op now tb)"
proof -
  obtain c where c: "c \<in> set (tb_inflight tb)" "owns_claim key lease c" "cl_fingerprint c = fp" "expires_at t0 ttl \<le> cl_expires_at c"
    using assms(1) by (auto simp: claim_held_def)
  show ?thesis
  proof (cases op)
    case (OpRenew k l ttl')
    let ?f = "\<lambda>c. if owns_claim k l c \<and> now < cl_expires_at c then c\<lparr>cl_expires_at := expires_at now ttl'\<rparr> else c"
    have "owns_claim k l c \<Longrightarrow> ttl' = ttl"
      using OpRenew assms(2) c(2) by (auto simp: owns_claim_def)
    then have "owns_claim key lease (?f c) \<and> cl_fingerprint (?f c) = fp \<and> expires_at t0 ttl \<le> cl_expires_at (?f c)"
      using c(2-4) expires_at_mono [OF assms(3)] by (auto simp: owns_claim_def)
    moreover have "?f c \<in> set (tb_inflight (coord_step op now tb))"
      unfolding OpRenew coord_step.simps idempotency_renew_def Let_def snd_conv using imageI [OF c(1), of ?f] by simp
    ultimately show ?thesis
      unfolding claim_held_def by blast
  qed (use assms c in \<open>auto simp: claim_held_def idem_defs slot_defs Let_def split_beta owns_claim_def split: option.split\<close>)
qed

lemma coord_run_claim:
  assumes "claim_held key fp lease (expires_at t0 ttl) tb"
    and "list_all (\<lambda>(op, now). t0 \<le> now \<and> now < expires_at t0 ttl \<and> keeps_claim key lease ttl op) ops"
  shows "claim_held key fp lease (expires_at t0 ttl) (coord_run ops tb)"
  using assms by (rule coord_run_keeps) (auto intro: coord_step_claim)

text \<open>
  C11: single flight. From the moment a gateway has claimed a key until the lease runs out, whatever
  the gateways do, apart from the claimant's own release and renewals with the same time-to-live,
  no other request with the key may execute: it is told that the first is in progress, or that its
  body differs, or it gets the reply that has been stored meanwhile.
\<close>

theorem claim_exclusive:
  assumes "tables_wf tb" and "idempotency_begin key fp lease ttl t0 tb = (Claimed, tb1)"
    and "list_all (\<lambda>(op, now). t0 \<le> now \<and> now < expires_at t0 ttl \<and> keeps_claim key lease ttl op) ops"
    and "now < expires_at t0 ttl"
  shows "fst (idempotency_begin key fp' lease' ttl' now (coord_run ops tb1)) =
    (case idempotency_get key (coord_run ops tb1) of
       Some rec \<Rightarrow> if fp' = ir_fingerprint rec then Replay rec else Mismatch
     | None \<Rightarrow> if fp' = fp then InProgress else Mismatch)"
proof -
  have "tables_wf tb1"
    using coord_step_wf [OF assms(1), of "OpBegin key fp lease ttl" t0] assms(2) by simp
  then have wf: "tables_wf (coord_run ops tb1)"
    by (rule coord_run_wf)
  have "claim_held key fp lease (expires_at t0 ttl) tb1"
    using assms(2) by (auto simp: idempotency_begin_def claim_held_def owns_claim_def Let_def split: option.splits if_splits)
  from coord_run_claim [OF this assms(3)] obtain c where c: "c \<in> set (tb_inflight (coord_run ops tb1))" "cl_key c = key"
    "cl_fingerprint c = fp" "now < cl_expires_at c"
    using assms(4) by (auto simp: claim_held_def owns_claim_def)
  have "find (\<lambda>c. cl_key c = key) (filter (\<lambda>c. now < cl_expires_at c) (tb_inflight (coord_run ops tb1))) = Some d \<Longrightarrow> d = c" for d
    using c wf by (auto simp: find_Some_iff tables_wf_def distinct_map inj_on_def dest!: nth_mem)
  moreover have "find (\<lambda>c. cl_key c = key) (filter (\<lambda>c. now < cl_expires_at c) (tb_inflight (coord_run ops tb1))) \<noteq> None"
    using c by (auto simp: find_None_iff)
  ultimately show ?thesis
    using c(3) by (auto simp: idempotency_begin_def idempotency_get_def Let_def split: option.split)
qed

text \<open>
  C37: an abandoned claim does not block its key: once every claim on a key has run out and no reply
  is stored, the next request with the key is executed, and it holds the claim.
\<close>

theorem abandoned_claim_recovers:
  assumes "idempotency_get key tb = None" and "\<forall>c \<in> set (tb_inflight tb). cl_key c = key \<longrightarrow> cl_expires_at c \<le> now"
  shows "\<exists>tb1. idempotency_begin key fp lease ttl now tb = (Claimed, tb1) \<and> claim_held key fp lease (expires_at now ttl) tb1"
proof -
  have "find (\<lambda>c. cl_key c = key) (filter (\<lambda>c. now < cl_expires_at c) (tb_inflight tb)) = None"
    using assms(2) by (auto simp: find_None_iff)
  with assms(1) show ?thesis
    by (simp add: idempotency_begin_def idempotency_get_def claim_held_def owns_claim_def Let_def)
qed

section \<open>Witnesses\<close>

theorem slots_never_exceed_limits_witness:
  "limits_kept (\<lambda>t. 1) 1 (coord_run [(OpTenantAcquire ''t'' ''s1'' 1 60, 0), (OpTenantAcquire ''t'' ''s2'' 1 60, 5)] empty_tables)"
  by (rule slots_never_exceed_limits) (simp_all add: limits_kept_def empty_tables_def)

definition ok_reply :: idempotency_record where
  "ok_reply = \<lparr>ir_key = ''k'', ir_fingerprint = ''f'', ir_status = 200, ir_content_type = ''application/json'', ir_body = ''{}'',
     ir_created_at_ms = 7\<rparr>"

theorem stored_reply_final_witness:
  "fst (idempotency_begin ''k'' ''f'' ''l2'' 60 9 (coord_run [(OpRelease ''k'' ''l1'', 8)] (snd (idempotency_put ok_reply empty_tables)))) =
     Replay ok_reply"
proof -
  have "idempotency_put ok_reply empty_tables = (True, snd (idempotency_put ok_reply empty_tables))"
    by (simp add: idempotency_put_def empty_tables_def)
  from stored_reply_final [OF this, of "''f''" "''l2''" 60 9 "[(OpRelease ''k'' ''l1'', 8)]"] show ?thesis
    by (simp add: ok_reply_def)
qed

theorem claim_exclusive_witness:
  "fst (idempotency_begin ''k'' ''f'' ''l2'' 60 59
     (coord_run [(OpRenew ''k'' ''l1'' 60, 30)] (snd (idempotency_begin ''k'' ''f'' ''l1'' 60 0 empty_tables)))) = InProgress"
proof -
  let ?tb1 = "snd (idempotency_begin ''k'' ''f'' ''l1'' 60 0 empty_tables)"
  have e: "expires_at 0 60 = 60"
    by (simp add: expires_at_def)
  have "idempotency_begin ''k'' ''f'' ''l1'' 60 0 empty_tables = (Claimed, ?tb1)"
    by (simp add: idem_defs empty_tables_def)
  moreover have "idempotency_get ''k'' (coord_run [(OpRenew ''k'' ''l1'' 60, 30)] ?tb1) = None"
    by (simp add: idem_defs empty_tables_def Let_def)
  ultimately show ?thesis
    using claim_exclusive [of empty_tables "''k''" "''f''" "''l1''" 60 0 ?tb1 "[(OpRenew ''k'' ''l1'' 60, 30)]" 59 "''f''" "''l2''" 60]
    by (simp add: e tables_wf_def empty_tables_def)
qed

theorem abandoned_claim_recovers_witness:
  "fst (idempotency_begin ''k'' ''f'' ''l2'' 60 60 (snd (idempotency_begin ''k'' ''f'' ''l1'' 60 0 empty_tables))) = Claimed"
proof -
  have "expires_at 0 60 = 60"
    by (simp add: expires_at_def)
  then have "\<exists>tb1. idempotency_begin ''k'' ''f'' ''l2'' 60 60 (snd (idempotency_begin ''k'' ''f'' ''l1'' 60 0 empty_tables)) = (Claimed, tb1)
      \<and> claim_held ''k'' ''f'' ''l2'' (expires_at 60 60) tb1"
    by (intro abandoned_claim_recovers) (simp_all add: idem_defs empty_tables_def Let_def)
  then show ?thesis
    by auto
qed

end
