(* ===== verification/Edge.thy ===== *)
theory Edge
  imports Auth Coordination
begin

text \<open>
  The request edge of the server: idempotency (\<open>sb-server/src/idempotency.rs\<close>), global admission
  (\<open>admission.rs\<close>), tenant concurrency (\<open>tenancy.rs\<close>) and the leases that back them
  (\<open>lease.rs\<close>), in the order the handlers take them (\<open>handlers/openai.rs\<close>). Requests of one
  server interleave at their waits, so their life is a step relation; a guard that Rust drops at the
  end of a scope is dropped by the step that ends the scope.
\<close>

section \<open>Configuration, environment and state\<close>

record edge_config =
  ec_tenants :: "tenant_config list"
  ec_tenant_concurrency_ttl_ms :: u64
  ec_admission_slot_ttl_ms :: u64
  ec_inflight_ttl_ms :: u64
  ec_persist_response_bodies :: bool

text \<open>
  Whether a store is attached and required, the limit of the admission semaphore, and what the
  \<open>n\<close>-th call of the store meets: its failure, if it fails, the time and a fresh identifier.
\<close>

record edge_env =
  ev_store :: bool
  ev_store_required :: bool
  ev_limit :: "u32 option"
  ev_fault :: "nat \<Rightarrow> string option"
  ev_clock :: "nat \<Rightarrow> i64"
  ev_new_id :: "string \<Rightarrow> nat \<Rightarrow> string"

record edge_state =
  es_tables :: tables
  es_concurrency :: "string \<rightharpoonup> u32"
  es_inflight :: "string set"
  es_permits :: nat
  es_calls :: nat

datatype edge_error =
  OverCapacity string
  | ConcurrencyStoreError string
  | AdmissionOverloaded
  | AdmissionStoreError string
  | IdemMismatch
  | IdemInProgress
  | IdemStoreError string

fun edge_status :: "edge_error \<Rightarrow> u16" where
  "edge_status (OverCapacity t) = 429"
| "edge_status (ConcurrencyStoreError e) = 503"
| "edge_status AdmissionOverloaded = 503"
| "edge_status (AdmissionStoreError e) = 503"
| "edge_status IdemMismatch = 422"
| "edge_status IdemInProgress = 409"
| "edge_status (IdemStoreError e) = 503"

text \<open>A call of the store: a failing transaction is rolled back.\<close>

definition store_call :: "edge_env \<Rightarrow> (tables \<Rightarrow> (string + 'a) \<times> tables) \<Rightarrow> edge_state \<Rightarrow> (string + 'a) \<times> edge_state" where
  "store_call env f st =
     (let st1 = st\<lparr>es_calls := Suc (es_calls st)\<rparr>
      in case ev_fault env (es_calls st) of
           Some e \<Rightarrow> (Inl e, st1)
         | None \<Rightarrow> (case f (es_tables st) of (r, tb) \<Rightarrow> (r, st1\<lparr>es_tables := tb\<rparr>)))"

definition total_call :: "edge_env \<Rightarrow> (tables \<Rightarrow> 'a \<times> tables) \<Rightarrow> edge_state \<Rightarrow> (string + 'a) \<times> edge_state" where
  "total_call env f st = store_call env (\<lambda>tb. case f tb of (r, tb') \<Rightarrow> (Inr r, tb')) st"

definition call_time :: "edge_env \<Rightarrow> edge_state \<Rightarrow> i64" where
  "call_time env st = ev_clock env (es_calls st)"

definition call_id :: "edge_env \<Rightarrow> string \<Rightarrow> edge_state \<Rightarrow> string" where
  "call_id env kind st = ev_new_id env kind (es_calls st)"

section \<open>Idempotency\<close>

definition hex_sha256 :: "(string \<Rightarrow> u8 list) \<Rightarrow> string \<Rightarrow> string" where
  "hex_sha256 sha material = ''v2:'' @ hex_bytes (sha material)"

definition scope_material :: "string \<Rightarrow> principal \<Rightarrow> string \<Rightarrow> string" where
  "scope_material raw_key p endpoint =
     (let tenant = (case pn_tenant p of Some t \<Rightarrow> t | None \<Rightarrow> ''-'');
          project = (case pn_project p of Some q \<Rightarrow> q | None \<Rightarrow> ''-'');
          nul = [char_of (0 :: nat)]
      in endpoint @ nul @ tenant @ nul @ project @ nul @ raw_key)"

definition scoped_key :: "(string \<Rightarrow> u8 list) \<Rightarrow> string \<Rightarrow> principal \<Rightarrow> string \<Rightarrow> string" where
  "scoped_key sha raw_key p endpoint = hex_sha256 sha (scope_material raw_key p endpoint)"

definition key_from :: "string option \<Rightarrow> string option" where
  "key_from header =
     (case header of
        Some v \<Rightarrow> let k = str_trim v in if k = [] then None else Some k
      | None \<Rightarrow> None)"

text \<open>\<open>StatusCode::from_u16\<close> accepts 100 to 999; a header value is made of visible bytes and tabs.\<close>

definition header_value_ok :: "string \<Rightarrow> bool" where
  "header_value_ok s = list_all (\<lambda>c. let n = (of_char c :: nat) in (32 \<le> n \<and> n \<noteq> 127) \<or> n = 9) s"

record replay =
  rp_status :: u16
  rp_content_type :: string
  rp_body :: string

definition replay_response :: "idempotency_record \<Rightarrow> replay" where
  "replay_response rec =
     \<lparr>rp_status = (if 100 \<le> ir_status rec \<and> ir_status rec < 1000 then ir_status rec else 200),
      rp_content_type = (if header_value_ok (ir_content_type rec) then ir_content_type rec else ''application/json''),
      rp_body = ir_body rec\<rparr>"

datatype claim_guard = LocalClaim string | DurableClaim string string

datatype begin_result = Proceed claim_guard | ReplayReply replay

definition try_claim :: "string \<Rightarrow> edge_state \<Rightarrow> claim_guard option \<times> edge_state" where
  "try_claim key st =
     (if key \<in> es_inflight st then (None, st)
      else (Some (LocalClaim key), st\<lparr>es_inflight := insert key (es_inflight st)\<rparr>))"

definition claim_local :: "string \<Rightarrow> edge_state \<Rightarrow> (edge_error + begin_result) \<times> edge_state" where
  "claim_local key st =
     (case try_claim key st of
        (Some g, st1) \<Rightarrow> (Inr (Proceed g), st1)
      | (None, st1) \<Rightarrow> (Inl IdemInProgress, st1))"

definition begin_idempotent ::
  "edge_env \<Rightarrow> edge_config \<Rightarrow> string \<Rightarrow> string \<Rightarrow> edge_state \<Rightarrow> (edge_error + begin_result) \<times> edge_state" where
  "begin_idempotent env cfg key fp st =
     (if ev_store env then
        let lease = call_id env ''idem'' st
        in case total_call env (idempotency_begin key fp lease (ec_inflight_ttl_ms cfg) (call_time env st)) st of
             (Inr Claimed, st1) \<Rightarrow> (Inr (Proceed (DurableClaim key lease)), st1)
           | (Inr InProgress, st1) \<Rightarrow> (Inl IdemInProgress, st1)
           | (Inr Mismatch, st1) \<Rightarrow> (Inl IdemMismatch, st1)
           | (Inr (Replay rec), st1) \<Rightarrow> (Inr (ReplayReply (replay_response rec)), st1)
           | (Inl e, st1) \<Rightarrow> if ev_store_required env then (Inl (IdemStoreError e), st1) else claim_local key st1
      else claim_local key st)"

definition store_json ::
  "edge_env \<Rightarrow> edge_config \<Rightarrow> string \<Rightarrow> string \<Rightarrow> string \<Rightarrow> edge_state \<Rightarrow> (string + unit) \<times> edge_state" where
  "store_json env cfg key fp body st =
     (if \<not> ec_persist_response_bodies cfg then (Inr (), st)
      else if \<not> ev_store env then
        (if ev_store_required env then Inl ''idempotency store is required but not configured'' else Inr (), st)
      else case total_call env (idempotency_put \<lparr>ir_key = key, ir_fingerprint = fp, ir_status = 200,
                  ir_content_type = ''application/json'', ir_body = body, ir_created_at_ms = call_time env st\<rparr>) st of
             (Inr _, st1) \<Rightarrow> (Inr (), st1)
           | (Inl e, st1) \<Rightarrow>
               (if ev_store_required env then Inl (''idempotency store write failed: '' @ e) else Inr (), st1))"

fun drop_claim :: "edge_env \<Rightarrow> claim_guard \<Rightarrow> edge_state \<Rightarrow> edge_state" where
  "drop_claim env (LocalClaim key) st = st\<lparr>es_inflight := es_inflight st - {key}\<rparr>"
| "drop_claim env (DurableClaim key lease) st = snd (total_call env (idempotency_release key lease) st)"

section \<open>Admission\<close>

datatype admission_guard = LocalPermit | DurablePermit string

datatype queue = QueueDurable u64 | QueueLocal

datatype admission_try = Admitted "admission_guard option" | Queued queue

text \<open>
  One try of \<open>acquire\<close>: a poll of the semaphore, or a pass of the loop of \<open>acquire_durable\<close>, which
  reads its time-to-live before the first pass and turns to the semaphore for good when the store
  fails and is not required.
\<close>

definition acquire_local :: "edge_state \<Rightarrow> admission_try \<times> edge_state" where
  "acquire_local st =
     (if 0 < es_permits st then (Admitted (Some LocalPermit), st\<lparr>es_permits := es_permits st - 1\<rparr>)
      else (Queued QueueLocal, st))"

definition acquire_durable :: "edge_env \<Rightarrow> u32 \<Rightarrow> u64 \<Rightarrow> edge_state \<Rightarrow> (edge_error + admission_try) \<times> edge_state" where
  "acquire_durable env max_slots ttl_ms st =
     (let slot_id = call_id env ''admit'' st
      in case store_call env (admission_slot_acquire slot_id max_slots ttl_ms (call_time env st)) st of
           (Inr True, st1) \<Rightarrow> (Inr (Admitted (Some (DurablePermit slot_id))), st1)
         | (Inr False, st1) \<Rightarrow> (Inr (Queued (QueueDurable ttl_ms)), st1)
         | (Inl e, st1) \<Rightarrow>
             if ev_store_required env then (Inl (AdmissionStoreError e), st1) else map_prod Inr id (acquire_local st1))"

definition acquire_admission ::
  "edge_env \<Rightarrow> edge_config \<Rightarrow> edge_state \<Rightarrow> (edge_error + admission_try) \<times> edge_state" where
  "acquire_admission env cfg st =
     (case ev_limit env of
        None \<Rightarrow> (Inr (Admitted None), st)
      | Some max_slots \<Rightarrow>
          if ev_store env then acquire_durable env max_slots (ec_admission_slot_ttl_ms cfg) st
          else map_prod Inr id (acquire_local st))"

fun acquire_again :: "edge_env \<Rightarrow> queue \<Rightarrow> edge_state \<Rightarrow> (edge_error + admission_try) \<times> edge_state" where
  "acquire_again env (QueueDurable ttl_ms) st =
     (case ev_limit env of Some max_slots \<Rightarrow> acquire_durable env max_slots ttl_ms st | None \<Rightarrow> (Inr (Admitted None), st))"
| "acquire_again env QueueLocal st = map_prod Inr id (acquire_local st)"

fun drop_admission :: "edge_env \<Rightarrow> admission_guard \<Rightarrow> edge_state \<Rightarrow> edge_state" where
  "drop_admission env LocalPermit st = st\<lparr>es_permits := es_permits st + 1\<rparr>"
| "drop_admission env (DurablePermit i) st = snd (total_call env (\<lambda>tb. ((), admission_slot_release i tb)) st)"

section \<open>Tenant concurrency\<close>

datatype concurrency_guard = LocalSlot string | DurableSlot string

definition reserve :: "string \<Rightarrow> u32 \<Rightarrow> edge_state \<Rightarrow> concurrency_guard option \<times> edge_state" where
  "reserve tenant max_slots st =
     (let n = (case es_concurrency st tenant of Some n \<Rightarrow> n | None \<Rightarrow> 0)
      in if max_slots \<le> n then (None, st\<lparr>es_concurrency := (es_concurrency st)(tenant \<mapsto> n)\<rparr>)
         else (Some (LocalSlot tenant), st\<lparr>es_concurrency := (es_concurrency st)(tenant \<mapsto> n + 1)\<rparr>))"

definition reserve_local :: "string \<Rightarrow> u32 \<Rightarrow> edge_state \<Rightarrow> (edge_error + concurrency_guard option) \<times> edge_state" where
  "reserve_local tenant max_slots st =
     (case reserve tenant max_slots st of
        (Some g, st1) \<Rightarrow> (Inr (Some g), st1)
      | (None, st1) \<Rightarrow> (Inl (OverCapacity tenant), st1))"

definition max_concurrency :: "edge_config \<Rightarrow> string \<Rightarrow> u32 option" where
  "max_concurrency cfg tenant = Option.bind (find (\<lambda>t. tc_id t = tenant) (ec_tenants cfg)) tc_max_concurrency"

definition admit_concurrency ::
  "edge_env \<Rightarrow> edge_config \<Rightarrow> principal \<Rightarrow> edge_state \<Rightarrow> (edge_error + concurrency_guard option) \<times> edge_state" where
  "admit_concurrency env cfg p st =
     (case pn_tenant p of
        None \<Rightarrow> (Inr None, st)
      | Some tenant \<Rightarrow>
          (case max_concurrency cfg tenant of
             None \<Rightarrow> (Inr None, st)
           | Some max_slots \<Rightarrow>
               if ev_store env then
                 let slot_id = call_id env ''slot'' st
                 in case store_call env (tenant_slot_acquire tenant slot_id max_slots (ec_tenant_concurrency_ttl_ms cfg)
                           (call_time env st)) st of
                      (Inr True, st1) \<Rightarrow> (Inr (Some (DurableSlot slot_id)), st1)
                    | (Inr False, st1) \<Rightarrow> (Inl (OverCapacity tenant), st1)
                    | (Inl e, st1) \<Rightarrow>
                        if ev_store_required env then (Inl (ConcurrencyStoreError e), st1)
                        else reserve_local tenant max_slots st1
               else reserve_local tenant max_slots st))"

fun drop_concurrency :: "edge_env \<Rightarrow> concurrency_guard \<Rightarrow> edge_state \<Rightarrow> edge_state" where
  "drop_concurrency env (LocalSlot tenant) st =
     st\<lparr>es_concurrency := (case es_concurrency st tenant of
          Some n \<Rightarrow> (es_concurrency st)(tenant \<mapsto> (if n = 0 then 0 else n - 1))
        | None \<Rightarrow> es_concurrency st)\<rparr>"
| "drop_concurrency env (DurableSlot i) st = snd (total_call env (\<lambda>tb. ((), tenant_slot_release i tb)) st)"

definition in_flight :: "edge_env \<Rightarrow> string \<Rightarrow> edge_state \<Rightarrow> u32 \<times> edge_state" where
  "in_flight env tenant st =
     (let local_count = (\<lambda>st. case es_concurrency st tenant of Some n \<Rightarrow> n | None \<Rightarrow> 0)
      in if ev_store env then
           (case total_call env (tenant_slot_count tenant (call_time env st)) st of
              (Inr n, st1) \<Rightarrow> (n, st1)
            | (Inl e, st1) \<Rightarrow> (local_count st1, st1))
         else (local_count st, st))"

definition available_slots :: "edge_env \<Rightarrow> edge_state \<Rightarrow> nat option \<times> edge_state" where
  "available_slots env st =
     (case ev_limit env of
        None \<Rightarrow> (None, st)
      | Some max_slots \<Rightarrow>
          if ev_store env then
            (case total_call env (admission_slot_count (call_time env st)) st of
               (Inr active, st1) \<Rightarrow> (Some (unat max_slots - unat active), st1)
             | (Inl e, st1) \<Rightarrow> (Some (if ev_store_required env then 0 else es_permits st1), st1))
          else (Some (es_permits st), st))"

section \<open>Leases\<close>

definition renewal_interval :: "u64 \<Rightarrow> duration" where
  "renewal_interval ttl_ms = (if ttl_ms \<le> 2 then 1 else min 60000 (max 1 (unat ttl_ms div 2)))"

datatype renewal_kind = RenewAdmission string | RenewTenant string | RenewClaim string string

fun renew_lease :: "renewal_kind \<Rightarrow> u64 \<Rightarrow> i64 \<Rightarrow> tables \<Rightarrow> bool \<times> tables" where
  "renew_lease (RenewAdmission i) ttl now tb = admission_slot_renew i ttl now tb"
| "renew_lease (RenewTenant i) ttl now tb = tenant_slot_renew i ttl now tb"
| "renew_lease (RenewClaim key lease) ttl now tb = idempotency_renew key lease ttl now tb"

end
