(* ===== verification/Edge_Flights.thy ===== *)
theory Edge_Flights
  imports Edge
begin

text \<open>
  The requests of one server in flight, as a step relation over the edge state and the guards they
  hold, and its invariant: counters, permits, claims and leased rows are exactly those of the
  requests in flight, whatever they meet and in whatever order they proceed.
\<close>

section \<open>Flights\<close>

datatype phase =
  Entered
  | Waiting queue
  | Passed "admission_guard option"
  | Running "admission_guard option" "concurrency_guard option"

record flight =
  fl_principal :: principal
  fl_scope :: "(string \<times> string) option"
  fl_claim :: "claim_guard option"
  fl_phase :: phase

definition drop_opt :: "('g \<Rightarrow> 's \<Rightarrow> 's) \<Rightarrow> 'g option \<Rightarrow> 's \<Rightarrow> 's" where
  "drop_opt f g s = (case g of Some g \<Rightarrow> f g s | None \<Rightarrow> s)"

text \<open>The guards of a handler are dropped in the reverse of the order it took them.\<close>

definition leave :: "edge_env \<Rightarrow> flight \<Rightarrow> edge_state \<Rightarrow> edge_state" where
  "leave env fl st =
     drop_opt (drop_claim env) (fl_claim fl)
       (case fl_phase fl of
          Running a c \<Rightarrow> drop_opt (drop_admission env) a (drop_opt (drop_concurrency env) c st)
        | Passed a \<Rightarrow> drop_opt (drop_admission env) a st
        | _ \<Rightarrow> st)"

fun phase_of :: "admission_try \<Rightarrow> phase" where
  "phase_of (Admitted a) = Passed a"
| "phase_of (Queued q) = Waiting q"

definition next_try :: "edge_env \<Rightarrow> edge_config \<Rightarrow> phase \<Rightarrow> edge_state \<Rightarrow> ((edge_error + admission_try) \<times> edge_state) option" where
  "next_try env cfg ph st =
     (case ph of
        Entered \<Rightarrow> Some (acquire_admission env cfg st)
      | Waiting q \<Rightarrow> Some (acquire_again env q st)
      | _ \<Rightarrow> None)"

text \<open>
  The steps, under the snapshots of the configuration that are in force meanwhile. A request without
  an idempotency key enters at once. Its response, a time-out, an error or the client's going away
  all end in \<open>leave\<close>; a collected response with a key is stored first.
\<close>

inductive edge_step ::
  "edge_env \<Rightarrow> edge_config set \<Rightarrow> edge_state \<Rightarrow> flight multiset \<Rightarrow> edge_state \<Rightarrow> flight multiset \<Rightarrow> bool"
  for env :: edge_env and cfgs :: "edge_config set" where
  enter_plain: "edge_step env cfgs st F st
    (add_mset \<lparr>fl_principal = p, fl_scope = None, fl_claim = None, fl_phase = Entered\<rparr> F)"
| enter_claimed: "cfg \<in> cfgs \<Longrightarrow> begin_idempotent env cfg key fp st = (Inr (Proceed g), st') \<Longrightarrow>
    edge_step env cfgs st F st' (add_mset \<lparr>fl_principal = p, fl_scope = Some (key, fp), fl_claim = Some g, fl_phase = Entered\<rparr> F)"
| enter_replayed: "cfg \<in> cfgs \<Longrightarrow> begin_idempotent env cfg key fp st = (Inr (ReplayReply r), st') \<Longrightarrow>
    edge_step env cfgs st F st' F"
| enter_refused: "cfg \<in> cfgs \<Longrightarrow> begin_idempotent env cfg key fp st = (Inl e, st') \<Longrightarrow> edge_step env cfgs st F st' F"
| admit_try: "cfg \<in> cfgs \<Longrightarrow> next_try env cfg (fl_phase fl) st = Some (Inr t, st') \<Longrightarrow>
    edge_step env cfgs st (add_mset fl F) st' (add_mset (fl\<lparr>fl_phase := phase_of t\<rparr>) F)"
| admit_refused: "cfg \<in> cfgs \<Longrightarrow> next_try env cfg (fl_phase fl) st = Some (Inl e, st') \<Longrightarrow>
    edge_step env cfgs st (add_mset fl F) (leave env fl st') F"
| tenant_admitted: "cfg \<in> cfgs \<Longrightarrow> fl_phase fl = Passed a \<Longrightarrow>
    admit_concurrency env cfg (fl_principal fl) st = (Inr c, st') \<Longrightarrow>
    edge_step env cfgs st (add_mset fl F) st' (add_mset (fl\<lparr>fl_phase := Running a c\<rparr>) F)"
| tenant_refused: "cfg \<in> cfgs \<Longrightarrow> fl_phase fl = Passed a \<Longrightarrow>
    admit_concurrency env cfg (fl_principal fl) st = (Inl e, st') \<Longrightarrow>
    edge_step env cfgs st (add_mset fl F) (leave env fl st') F"
| finish_stored: "cfg \<in> cfgs \<Longrightarrow> fl_phase fl = Running a c \<Longrightarrow> fl_scope fl = Some (key, fp) \<Longrightarrow>
    store_json env cfg key fp body st = (r, st') \<Longrightarrow>
    edge_step env cfgs st (add_mset fl F) (leave env fl st') F"
| finish: "edge_step env cfgs st (add_mset fl F) (leave env fl st) F"
| renew: "total_call env (renew_lease kind ttl (call_time env st)) st = (r, st') \<Longrightarrow> edge_step env cfgs st F st' F"
| observe: "in_flight env tenant st = (n, st') \<or> available_slots env st = (k, st') \<Longrightarrow> edge_step env cfgs st F st' F"

inductive edge_reaches :: "edge_env \<Rightarrow> edge_config set \<Rightarrow> edge_state \<Rightarrow> flight multiset \<Rightarrow> bool"
  for env :: edge_env and cfgs :: "edge_config set" where
  edge_init: "es_permits st = (case ev_limit env of Some n \<Rightarrow> unat n | None \<Rightarrow> 0) \<Longrightarrow> es_concurrency st = Map.empty \<Longrightarrow>
    es_inflight st = {} \<Longrightarrow> tb_inflight (es_tables st) = [] \<Longrightarrow> tb_tenant_slots (es_tables st) = [] \<Longrightarrow>
    tb_admission_slots (es_tables st) = [] \<Longrightarrow> edge_reaches env cfgs st {#}"
| edge_next: "edge_reaches env cfgs st F \<Longrightarrow> edge_step env cfgs st F st' F' \<Longrightarrow> edge_reaches env cfgs st' F'"

section \<open>Guards\<close>

datatype guard = GClaim claim_guard | GAdmission admission_guard | GConcurrency concurrency_guard

definition opt_guard :: "('g \<Rightarrow> guard) \<Rightarrow> 'g option \<Rightarrow> guard multiset" where
  "opt_guard f g = (case g of Some g \<Rightarrow> {#f g#} | None \<Rightarrow> {#})"

definition phase_guards :: "phase \<Rightarrow> guard multiset" where
  "phase_guards ph =
     (case ph of
        Passed a \<Rightarrow> opt_guard GAdmission a
      | Running a c \<Rightarrow> opt_guard GAdmission a + opt_guard GConcurrency c
      | _ \<Rightarrow> {#})"

definition guards :: "flight \<Rightarrow> guard multiset" where
  "guards fl = opt_guard GClaim (fl_claim fl) + phase_guards (fl_phase fl)"

definition held :: "flight multiset \<Rightarrow> guard multiset" where
  "held F = sum_mset (image_mset guards F)"

lemma held_simps [simp]: "held {#} = {#}" "held (add_mset fl F) = guards fl + held F"
  by (simp_all add: held_def)

definition healthy :: "edge_env \<Rightarrow> bool" where
  "healthy env \<longleftrightarrow> (\<forall>n. ev_fault env n = None)"

text \<open>
  The local part of the invariant, with a bound on each tenant's counter, and the part about the
  leased rows, which holds while the store answers.
\<close>

definition local_count :: "edge_state \<Rightarrow> string \<Rightarrow> u32" where
  "local_count st t = (case es_concurrency st t of Some n \<Rightarrow> n | None \<Rightarrow> 0)"

definition local_inv :: "edge_env \<Rightarrow> (string \<Rightarrow> u32) \<Rightarrow> edge_state \<Rightarrow> guard multiset \<Rightarrow> bool" where
  "local_inv env bound st H \<longleftrightarrow>
     (\<forall>t. count H (GConcurrency (LocalSlot t)) = unat (local_count st t) \<and> local_count st t \<le> bound t)
     \<and> (\<forall>k. count H (GClaim (LocalClaim k)) = (if k \<in> es_inflight st then 1 else 0))
     \<and> es_permits st + count H (GAdmission LocalPermit) = (case ev_limit env of Some n \<Rightarrow> unat n | None \<Rightarrow> 0)"

definition rows_held :: "tables \<Rightarrow> guard multiset \<Rightarrow> bool" where
  "rows_held tb H \<longleftrightarrow>
     (\<forall>c \<in> set (tb_inflight tb). \<exists>l. cl_lease_id c = Some l \<and> GClaim (DurableClaim (cl_key c) l) \<in># H)
     \<and> (\<forall>r \<in> set (tb_tenant_slots tb). GConcurrency (DurableSlot (sl_id r)) \<in># H)
     \<and> (\<forall>r \<in> set (tb_admission_slots tb). GAdmission (DurablePermit (sl_id r)) \<in># H)"

definition edge_inv :: "edge_env \<Rightarrow> (string \<Rightarrow> u32) \<Rightarrow> edge_state \<Rightarrow> guard multiset \<Rightarrow> bool" where
  "edge_inv env bound st H \<longleftrightarrow> local_inv env bound st H \<and> (healthy env \<longrightarrow> rows_held (es_tables st) H)"

section \<open>The rows\<close>

lemma rows_held_mono: "rows_held tb H \<Longrightarrow> rows_held tb (add_mset g H)"
  by (auto simp: rows_held_def)

lemma rows_begin:
  "rows_held tb H \<Longrightarrow> idempotency_begin key fp lease ttl now tb = (r, tb') \<Longrightarrow>
   rows_held tb' (if r = Claimed then add_mset (GClaim (DurableClaim key lease)) H else H)"
  by (auto simp: rows_held_def idempotency_begin_def Let_def split: option.splits if_splits)

lemma rows_tenant_acquire:
  "rows_held tb H \<Longrightarrow> tenant_slot_acquire t i m ttl now tb = (r, tb') \<Longrightarrow>
   rows_held tb' (if r = Inr True then add_mset (GConcurrency (DurableSlot i)) H else H)"
  by (auto simp: rows_held_def tenant_slot_acquire_def sweep_def Let_def split: if_splits)

lemma rows_admission_acquire:
  "rows_held tb H \<Longrightarrow> admission_slot_acquire i m ttl now tb = (r, tb') \<Longrightarrow>
   rows_held tb' (if r = Inr True then add_mset (GAdmission (DurablePermit i)) H else H)"
  by (auto simp: rows_held_def admission_slot_acquire_def sweep_def Let_def split: if_splits)

lemma rows_release:
  "rows_held tb (add_mset (GClaim (DurableClaim key lease)) H) \<Longrightarrow> rows_held (snd (idempotency_release key lease tb)) H"
  "rows_held tb (add_mset (GConcurrency (DurableSlot i)) H) \<Longrightarrow> rows_held (tenant_slot_release i tb) H"
  "rows_held tb (add_mset (GAdmission (DurablePermit i)) H) \<Longrightarrow> rows_held (admission_slot_release i tb) H"
  by (auto simp: rows_held_def idempotency_release_def owns_claim_def tenant_slot_release_def admission_slot_release_def
      slots_release_def)

lemma rows_local_guard:
  "rows_held tb (add_mset (GClaim (LocalClaim k)) H) \<longleftrightarrow> rows_held tb H"
  "rows_held tb (add_mset (GConcurrency (LocalSlot t)) H) \<longleftrightarrow> rows_held tb H"
  "rows_held tb (add_mset (GAdmission LocalPermit) H) \<longleftrightarrow> rows_held tb H"
  by (auto simp: rows_held_def)

lemma rows_renew: "rows_held tb H \<Longrightarrow> rows_held (snd (renew_lease kind ttl now tb)) H"
  by (cases kind) (auto simp: rows_held_def admission_slot_renew_def tenant_slot_renew_def idempotency_renew_def slots_renew_def
      Let_def split_beta)

lemma rows_other:
  "rows_held tb H \<Longrightarrow> rows_held (snd (idempotency_put rec tb)) H"
  "rows_held tb H \<Longrightarrow> rows_held (snd (tenant_slot_count t now tb)) H"
  "rows_held tb H \<Longrightarrow> rows_held (snd (admission_slot_count now tb)) H"
  by (auto simp: rows_held_def idempotency_put_def tenant_slot_count_def admission_slot_count_def sweep_def Let_def)

section \<open>Calls\<close>

lemma local_inv_frame:
  "es_concurrency st' = es_concurrency st \<Longrightarrow> es_inflight st' = es_inflight st \<Longrightarrow> es_permits st' = es_permits st \<Longrightarrow>
   local_inv env bound st' H = local_inv env bound st H"
  by (simp add: local_inv_def local_count_def)

lemma local_durable_guard:
  "local_inv env bound st (add_mset (GClaim (DurableClaim k l)) H) = local_inv env bound st H"
  "local_inv env bound st (add_mset (GConcurrency (DurableSlot i)) H) = local_inv env bound st H"
  "local_inv env bound st (add_mset (GAdmission (DurablePermit i)) H) = local_inv env bound st H"
  by (simp_all add: local_inv_def)

lemma store_call_cases:
  assumes "store_call env f st = (r, st')"
  shows "local_inv env bound st' H = local_inv env bound st H" and "healthy env \<Longrightarrow> f (es_tables st) = (r, es_tables st')"
proof -
  show "local_inv env bound st' H = local_inv env bound st H"
    using assms by (intro local_inv_frame) (auto simp: store_call_def Let_def split: option.splits prod.splits)
qed (use assms in \<open>auto simp: store_call_def healthy_def Let_def split: option.splits prod.splits\<close>)

lemma total_call_cases:
  assumes "total_call env f st = (r, st')"
  shows "local_inv env bound st' H = local_inv env bound st H"
    and "healthy env \<Longrightarrow> \<exists>x. r = Inr x \<and> f (es_tables st) = (x, es_tables st')"
proof -
  note call = store_call_cases [OF assms [unfolded total_call_def]]
  show "local_inv env bound st' H = local_inv env bound st H"
    by (rule call(1))
  show "\<exists>x. r = Inr x \<and> f (es_tables st) = (x, es_tables st')" if "healthy env"
    using call(2) [OF that] by (auto split: prod.splits)
qed

text \<open>A call that takes and returns no guard, and one that releases a leased row.\<close>

lemma total_call_keeps:
  assumes "edge_inv env bound st H" and "total_call env f st = (r, st')"
    and "rows_held (es_tables st) H \<Longrightarrow> rows_held (snd (f (es_tables st))) H'" and "local_inv env bound st H \<Longrightarrow> local_inv env bound st H'"
  shows "edge_inv env bound st' H'"
proof -
  have "local_inv env bound st' H'"
    using assms(1,4) total_call_cases(1) [OF assms(2)] by (simp add: edge_inv_def)
  moreover have "rows_held (es_tables st') H'" if "healthy env"
    using total_call_cases(2) [OF assms(2) that] assms(1,3) that by (auto simp: edge_inv_def)
  ultimately show ?thesis
    by (simp add: edge_inv_def)
qed

section \<open>Local guards\<close>

lemma local_claim:
  "local_inv env bound st H \<Longrightarrow> key \<notin> es_inflight st \<Longrightarrow>
   local_inv env bound (st\<lparr>es_inflight := insert key (es_inflight st)\<rparr>) (add_mset (GClaim (LocalClaim key)) H)"
  by (simp add: local_inv_def local_count_def)

lemma local_permit:
  "local_inv env bound st H \<Longrightarrow> 0 < es_permits st \<Longrightarrow>
   local_inv env bound (st\<lparr>es_permits := es_permits st - 1\<rparr>) (add_mset (GAdmission LocalPermit) H)"
  by (simp add: local_inv_def local_count_def)

lemma local_slot:
  assumes "local_inv env bound st H" and "local_count st tenant < m" and "m \<le> bound tenant"
  shows "local_inv env bound (st\<lparr>es_concurrency := (es_concurrency st)(tenant \<mapsto> local_count st tenant + 1)\<rparr>)
    (add_mset (GConcurrency (LocalSlot tenant)) H)"
proof -
  let ?n = "local_count st tenant"
  have "unat m < 2 ^ LENGTH(32)"
    by (rule unsigned_less)
  with assms(2) have "unat ?n < 2 ^ 32 - 1"
    by (simp add: word_less_nat_alt)
  then have "unat (?n + 1) = Suc (unat ?n)"
    using unat_Suc_word [of ?n] by simp
  moreover have "?n + 1 \<le> bound tenant"
    using calculation assms(2,3) by (simp add: word_le_nat_alt word_less_nat_alt)
  moreover have "local_count (st\<lparr>es_concurrency := (es_concurrency st)(tenant \<mapsto> ?n + 1)\<rparr>) =
      (local_count st)(tenant := ?n + 1)"
    by (auto simp: local_count_def fun_eq_iff)
  ultimately show ?thesis
    using assms(1) by (simp add: local_inv_def)
qed

lemma local_seen:
  "local_inv env bound (st\<lparr>es_concurrency := (es_concurrency st)(tenant \<mapsto> local_count st tenant)\<rparr>) H = local_inv env bound st H"
proof -
  have "local_count (st\<lparr>es_concurrency := (es_concurrency st)(tenant \<mapsto> local_count st tenant)\<rparr>) = local_count st"
    by (auto simp: local_count_def fun_eq_iff)
  then show ?thesis
    by (simp add: local_inv_def)
qed

lemma local_drop:
  "local_inv env bound st (add_mset (GClaim (LocalClaim key)) H) \<Longrightarrow>
     local_inv env bound (st\<lparr>es_inflight := es_inflight st - {key}\<rparr>) H"
  "local_inv env bound st (add_mset (GAdmission LocalPermit) H) \<Longrightarrow>
     local_inv env bound (st\<lparr>es_permits := es_permits st + 1\<rparr>) H"
proof -
  assume inv: "local_inv env bound st (add_mset (GClaim (LocalClaim key)) H)"
  have "count H (GClaim (LocalClaim k)) = (if k \<in> es_inflight st - {key} then 1 else 0)" for k
  proof -
    have "count (add_mset (GClaim (LocalClaim key)) H) (GClaim (LocalClaim k)) = (if k \<in> es_inflight st then 1 else 0)"
      using inv unfolding local_inv_def by blast
    then show ?thesis
      by (cases "k = key"; cases "k \<in> es_inflight st") (simp_all only: count_add_mset if_True if_False guard.inject claim_guard.inject
          simp_thms, simp_all)
  qed
  with inv show "local_inv env bound (st\<lparr>es_inflight := es_inflight st - {key}\<rparr>) H"
    by (simp add: local_inv_def local_count_def)
qed (simp add: local_inv_def local_count_def)

lemma local_drop_slot:
  assumes "local_inv env bound st (add_mset (GConcurrency (LocalSlot tenant)) H)"
  shows "local_inv env bound (drop_concurrency env (LocalSlot tenant) st) H"
proof -
  let ?n = "local_count st tenant"
  have "count (add_mset (GConcurrency (LocalSlot tenant)) H) (GConcurrency (LocalSlot tenant)) = unat ?n \<and> ?n \<le> bound tenant"
    using assms unfolding local_inv_def by blast
  then have n: "unat ?n = Suc (count H (GConcurrency (LocalSlot tenant)))" "?n \<le> bound tenant"
    by simp_all
  then obtain m where m: "es_concurrency st tenant = Some m" "?n = m"
    by (cases "es_concurrency st tenant") (simp_all add: local_count_def)
  have "m \<noteq> 0"
    using n(1) m(2) by auto
  then have dec: "unat (m - 1) = count H (GConcurrency (LocalSlot tenant))"
    using n(1) m(2) by (simp add: unat_minus_one)
  moreover have "m - 1 \<le> bound tenant"
    using n dec m(2) by (simp add: word_le_nat_alt)
  moreover have "local_count (drop_concurrency env (LocalSlot tenant) st) = (local_count st)(tenant := m - 1)"
    using m \<open>m \<noteq> 0\<close> by (auto simp: local_count_def fun_eq_iff)
  moreover have "es_inflight (drop_concurrency env (LocalSlot tenant) st) = es_inflight st"
    "es_permits (drop_concurrency env (LocalSlot tenant) st) = es_permits st"
    by simp_all
  ultimately show ?thesis
    using assms by (simp add: local_inv_def del: drop_concurrency.simps) metis
qed

section \<open>Taking guards\<close>

lemma claim_local_inv:
  assumes "edge_inv env bound st H" and "claim_local key st = (r, st')"
  shows "edge_inv env bound st' (case r of Inr (Proceed g) \<Rightarrow> add_mset (GClaim g) H | _ \<Rightarrow> H)"
  using assms local_claim by (auto simp: claim_local_def try_claim_def edge_inv_def rows_local_guard split: if_splits)

lemma begin_inv:
  assumes "edge_inv env bound st H" and "begin_idempotent env cfg key fp st = (r, st')"
  shows "edge_inv env bound st' (case r of Inr (Proceed g) \<Rightarrow> add_mset (GClaim g) H | _ \<Rightarrow> H)"
proof (cases "ev_store env")
  case True
  let ?lease = "call_id env ''idem'' st"
  obtain r1 st1 where call: "total_call env (idempotency_begin key fp ?lease (ec_inflight_ttl_ms cfg) (call_time env st)) st = (r1, st1)"
    by (cases "total_call env (idempotency_begin key fp ?lease (ec_inflight_ttl_ms cfg) (call_time env st)) st")
  have loc: "local_inv env bound st1 H"
    using assms(1) total_call_cases(1) [OF call] by (simp add: edge_inv_def)
  have rows: "\<exists>x. r1 = Inr x \<and> rows_held (es_tables st1) (if x = Claimed then add_mset (GClaim (DurableClaim key ?lease)) H else H)"
    if "healthy env"
    using total_call_cases(2) [OF call that] assms(1) that rows_begin by (fastforce simp: edge_inv_def)
  show ?thesis
  proof (cases r1)
    case (Inl e)
    then have "edge_inv env bound st1 H"
      using loc rows by (auto simp: edge_inv_def)
    with Inl True call assms(2) claim_local_inv show ?thesis
      by (auto simp: begin_idempotent_def Let_def split: if_splits)
  next
    case (Inr x)
    with True call assms(2) loc rows show ?thesis
      by (cases x) (auto simp: begin_idempotent_def Let_def edge_inv_def local_durable_guard)
  qed
next
  case False
  with assms claim_local_inv show ?thesis
    by (simp add: begin_idempotent_def)
qed

definition try_guards :: "admission_try \<Rightarrow> guard multiset" where
  "try_guards t = phase_guards (phase_of t)"

lemma acquire_local_inv:
  "edge_inv env bound st H \<Longrightarrow> acquire_local st = (t, st') \<Longrightarrow> edge_inv env bound st' (try_guards t + H)"
  using local_permit by (fastforce simp: acquire_local_def edge_inv_def rows_local_guard try_guards_def phase_guards_def
      opt_guard_def split: if_splits)

lemma acquire_durable_inv:
  assumes "edge_inv env bound st H" and "acquire_durable env m ttl st = (r, st')"
  shows "edge_inv env bound st' ((case r of Inr t \<Rightarrow> try_guards t | Inl _ \<Rightarrow> {#}) + H)"
proof -
  let ?id = "call_id env ''admit'' st"
  obtain r1 st1 where call: "store_call env (admission_slot_acquire ?id m ttl (call_time env st)) st = (r1, st1)"
    by (cases "store_call env (admission_slot_acquire ?id m ttl (call_time env st)) st")
  have loc: "local_inv env bound st1 H"
    using assms(1) store_call_cases(1) [OF call] by (simp add: edge_inv_def)
  have rows: "rows_held (es_tables st1) (if r1 = Inr True then add_mset (GAdmission (DurablePermit ?id)) H else H)" if "healthy env"
    using rows_admission_acquire [OF _ store_call_cases(2) [OF call that]] assms(1) that by (simp add: edge_inv_def)
  show ?thesis
  proof (cases r1)
    case (Inl e)
    then have "edge_inv env bound st1 H"
      using loc rows by (simp add: edge_inv_def)
    with Inl call assms(2) acquire_local_inv show ?thesis
      by (cases "acquire_local st1") (auto simp: acquire_durable_def Let_def split: if_splits)
  next
    case (Inr b)
    with call assms(2) loc rows show ?thesis
      by (cases b) (auto simp: acquire_durable_def Let_def edge_inv_def local_durable_guard try_guards_def phase_guards_def opt_guard_def)
  qed
qed

lemma next_try_inv:
  assumes "edge_inv env bound st H" and "next_try env cfg ph st = Some (r, st')"
  shows "edge_inv env bound st' ((case r of Inr t \<Rightarrow> try_guards t | Inl _ \<Rightarrow> {#}) + H)"
proof -
  have none: "try_guards (Admitted None) = {#}"
    by (simp add: try_guards_def phase_guards_def opt_guard_def)
  obtain t st1 where loc: "acquire_local st = (t, st1)"
    by (cases "acquire_local st")
  show ?thesis
    using assms acquire_local_inv [OF assms(1) loc] acquire_durable_inv [OF assms(1)] none loc
    by (auto simp: next_try_def acquire_admission_def split: phase.splits option.splits if_splits
        elim!: acquire_again.elims)
qed

text \<open>Every snapshot in force asks for at most the bound of a tenant.\<close>

definition bounded_by :: "(string \<Rightarrow> u32) \<Rightarrow> edge_config set \<Rightarrow> bool" where
  "bounded_by bound cfgs \<longleftrightarrow> (\<forall>cfg \<in> cfgs. \<forall>t m. max_concurrency cfg t = Some m \<longrightarrow> m \<le> bound t)"

lemma reserve_local_inv:
  assumes "edge_inv env bound st H" and "reserve_local tenant m st = (r, st')" and "m \<le> bound tenant"
  shows "edge_inv env bound st' ((case r of Inr c \<Rightarrow> opt_guard GConcurrency c | Inl _ \<Rightarrow> {#}) + H)"
proof (cases "m \<le> local_count st tenant")
  case True
  with assms show ?thesis
    using local_seen [of env bound st tenant H]
    by (auto simp: reserve_local_def reserve_def Let_def edge_inv_def opt_guard_def simp flip: local_count_def)
next
  case False
  with assms show ?thesis
    using local_slot [of env bound st H tenant m]
    by (auto simp: reserve_local_def reserve_def Let_def edge_inv_def rows_local_guard opt_guard_def simp flip: local_count_def)
qed

lemma admit_concurrency_inv:
  assumes "edge_inv env bound st H" and "admit_concurrency env cfg p st = (r, st')" and "bounded_by bound cfgs" and "cfg \<in> cfgs"
  shows "edge_inv env bound st' ((case r of Inr c \<Rightarrow> opt_guard GConcurrency c | Inl _ \<Rightarrow> {#}) + H)"
proof (cases "\<exists>tenant m. pn_tenant p = Some tenant \<and> max_concurrency cfg tenant = Some m")
  case True
  then obtain tenant m where tm: "pn_tenant p = Some tenant" "max_concurrency cfg tenant = Some m"
    by blast
  then have bound: "m \<le> bound tenant"
    using assms(3,4) by (auto simp: bounded_by_def)
  let ?id = "call_id env ''slot'' st"
  let ?f = "tenant_slot_acquire tenant ?id m (ec_tenant_concurrency_ttl_ms cfg) (call_time env st)"
  obtain r1 st1 where call: "store_call env ?f st = (r1, st1)"
    by (cases "store_call env ?f st")
  have loc: "local_inv env bound st1 H"
    using assms(1) store_call_cases(1) [OF call] by (simp add: edge_inv_def)
  have rows: "rows_held (es_tables st1) (if r1 = Inr True then add_mset (GConcurrency (DurableSlot ?id)) H else H)" if "healthy env"
    using rows_tenant_acquire [OF _ store_call_cases(2) [OF call that]] assms(1) that by (simp add: edge_inv_def)
  show ?thesis
  proof (cases "ev_store env")
    case False
    with tm assms(1,2) bound reserve_local_inv show ?thesis
      by (simp add: admit_concurrency_def)
  next
    case store: True
    show ?thesis
    proof (cases r1)
      case (Inl e)
      then have "edge_inv env bound st1 H"
        using loc rows by (simp add: edge_inv_def)
      with Inl tm store call assms(2) bound reserve_local_inv show ?thesis
        by (auto simp: admit_concurrency_def Let_def split: if_splits)
    next
      case (Inr b)
      with tm store call assms(2) loc rows show ?thesis
        by (cases b) (auto simp: admit_concurrency_def Let_def edge_inv_def local_durable_guard opt_guard_def)
    qed
  qed
next
  case False
  with assms(1,2) show ?thesis
    by (auto simp: admit_concurrency_def opt_guard_def split: option.splits)
qed

section \<open>Dropping guards\<close>

lemma drop_claim_inv: "edge_inv env bound st (add_mset (GClaim g) H) \<Longrightarrow> edge_inv env bound (drop_claim env g st) H"
proof (cases g)
  case (DurableClaim key lease)
  assume inv: "edge_inv env bound st (add_mset (GClaim g) H)"
  obtain r st' where "total_call env (idempotency_release key lease) st = (r, st')"
    by (cases "total_call env (idempotency_release key lease) st")
  from total_call_keeps [OF inv this, of H] DurableClaim this show ?thesis
    by (simp add: local_durable_guard rows_release)
qed (auto simp: edge_inv_def rows_local_guard intro: local_drop)

lemma drop_admission_inv: "edge_inv env bound st (add_mset (GAdmission g) H) \<Longrightarrow> edge_inv env bound (drop_admission env g st) H"
proof (cases g)
  case (DurablePermit i)
  assume inv: "edge_inv env bound st (add_mset (GAdmission g) H)"
  obtain r st' where "total_call env (\<lambda>tb. ((), admission_slot_release i tb)) st = (r, st')"
    by (cases "total_call env (\<lambda>tb. ((), admission_slot_release i tb)) st")
  from total_call_keeps [OF inv this, of H] DurablePermit this show ?thesis
    by (simp add: local_durable_guard rows_release)
qed (use local_drop(2) in \<open>simp add: edge_inv_def rows_local_guard\<close>)

lemma drop_concurrency_inv:
  "edge_inv env bound st (add_mset (GConcurrency g) H) \<Longrightarrow> edge_inv env bound (drop_concurrency env g st) H"
proof (cases g)
  case (DurableSlot i)
  assume inv: "edge_inv env bound st (add_mset (GConcurrency g) H)"
  obtain r st' where "total_call env (\<lambda>tb. ((), tenant_slot_release i tb)) st = (r, st')"
    by (cases "total_call env (\<lambda>tb. ((), tenant_slot_release i tb)) st")
  from total_call_keeps [OF inv this, of H] DurableSlot this show ?thesis
    by (simp add: local_durable_guard rows_release)
next
  case (LocalSlot tenant)
  assume "edge_inv env bound st (add_mset (GConcurrency g) H)"
  with LocalSlot show ?thesis
    using local_drop_slot [of env bound st tenant H] by (simp add: edge_inv_def rows_local_guard)
qed

lemma drop_opt_inv:
  assumes "\<And>g st H. edge_inv env bound st (add_mset (G g) H) \<Longrightarrow> edge_inv env bound (f g st) H"
    and "edge_inv env bound st (opt_guard G g + H)"
  shows "edge_inv env bound (drop_opt f g st) H"
  using assms by (cases g) (simp_all add: drop_opt_def opt_guard_def)

lemma leave_inv:
  assumes "edge_inv env bound st (guards fl + H)"
  shows "edge_inv env bound (leave env fl st) H"
proof -
  note drops = drop_opt_inv [where G = GClaim, OF drop_claim_inv] drop_opt_inv [where G = GAdmission, OF drop_admission_inv]
    drop_opt_inv [where G = GConcurrency, OF drop_concurrency_inv]
  show ?thesis
    using assms unfolding leave_def guards_def phase_guards_def
    by (cases "fl_phase fl") (auto intro!: drops simp: ac_simps)
qed

section \<open>The invariant\<close>

lemma store_json_inv:
  assumes "edge_inv env bound st H" and "store_json env cfg key fp body st = (r, st')"
  shows "edge_inv env bound st' H"
proof -
  let ?f = "idempotency_put \<lparr>ir_key = key, ir_fingerprint = fp, ir_status = 200, ir_content_type = ''application/json'',
    ir_body = body, ir_created_at_ms = call_time env st\<rparr>"
  obtain r1 st1 where call: "total_call env ?f st = (r1, st1)"
    by (cases "total_call env ?f st")
  have "edge_inv env bound st1 H"
    using total_call_keeps [OF assms(1) call, of H] rows_other(1) by blast
  with call assms show ?thesis
    by (auto simp: store_json_def split: if_splits sum.splits)
qed

lemma observe_inv:
  assumes "edge_inv env bound st H" and "in_flight env tenant st = (n, st') \<or> available_slots env st = (k, st')"
  shows "edge_inv env bound st' H"
proof -
  obtain r1 st1 r2 st2 where calls: "total_call env (tenant_slot_count tenant (call_time env st)) st = (r1, st1)"
    "total_call env (admission_slot_count (call_time env st)) st = (r2, st2)"
    by (cases "total_call env (tenant_slot_count tenant (call_time env st)) st";
        cases "total_call env (admission_slot_count (call_time env st)) st")
  have "edge_inv env bound st1 H" "edge_inv env bound st2 H"
    using total_call_keeps [OF assms(1) calls(1), of H] total_call_keeps [OF assms(1) calls(2), of H] rows_other(2,3) by blast+
  with calls assms show ?thesis
    by (auto simp: in_flight_def available_slots_def Let_def split: if_splits sum.splits option.splits)
qed

lemma edge_step_inv:
  assumes "edge_step env cfgs st F st' F'" and "edge_inv env bound st (held F)" and "bounded_by bound cfgs"
  shows "edge_inv env bound st' (held F')"
  using assms(1,2)
proof cases
  case (enter_claimed cfg key fp g p)
  then show ?thesis
    using begin_inv [OF assms(2) enter_claimed(3)] by (simp add: guards_def phase_guards_def opt_guard_def)
next
  case (enter_replayed cfg key fp r)
  then show ?thesis
    using begin_inv [OF assms(2)] by fastforce
next
  case (enter_refused cfg key fp e)
  then show ?thesis
    using begin_inv [OF assms(2)] by fastforce
next
  case (admit_try cfg fl t F0)
  have "phase_guards (fl_phase fl) = {#}"
    using admit_try(4) by (auto simp: next_try_def phase_guards_def split: phase.splits)
  then show ?thesis
    using next_try_inv [OF assms(2) admit_try(4)] admit_try by (simp add: guards_def try_guards_def ac_simps)
next
  case (admit_refused cfg fl e st1)
  then have "edge_inv env bound st1 (guards fl + held F')"
    using next_try_inv [OF assms(2) admit_refused(4)] by simp
  then show ?thesis
    unfolding admit_refused by (rule leave_inv)
next
  case (tenant_admitted cfg fl a c F0)
  then show ?thesis
    using admit_concurrency_inv [OF assms(2) tenant_admitted(5) assms(3) tenant_admitted(3)]
    by (simp add: guards_def phase_guards_def ac_simps)
next
  case (tenant_refused cfg fl a e st1)
  then have "edge_inv env bound st1 (guards fl + held F')"
    using admit_concurrency_inv [OF assms(2) tenant_refused(5) assms(3) tenant_refused(3)] by simp
  then show ?thesis
    unfolding tenant_refused by (rule leave_inv)
next
  case (finish_stored cfg fl a c key fp body r st1)
  then have "edge_inv env bound st1 (guards fl + held F')"
    using store_json_inv [OF assms(2)] by simp
  then show ?thesis
    unfolding finish_stored by (rule leave_inv)
next
  case (finish fl)
  with assms(2) show ?thesis
    using leave_inv by simp
next
  case (renew kind ttl r)
  then show ?thesis
    using total_call_keeps [OF assms(2) renew(2), of "held F"] rows_renew by simp
next
  case (observe tenant n k)
  then show ?thesis
    using observe_inv [OF assms(2)] by blast
qed (simp add: guards_def phase_guards_def opt_guard_def)

lemma edge_reaches_inv:
  assumes "edge_reaches env cfgs st F" and "bounded_by bound cfgs"
  shows "edge_inv env bound st (held F)"
  using assms(1)
proof induction
  case (edge_init st)
  then show ?case
    by (simp add: edge_inv_def local_inv_def local_count_def rows_held_def)
next
  case (edge_next st F st' F')
  then show ?case
    using edge_step_inv assms(2) by blast
qed

lemma bounded_by_max: "bounded_by (\<lambda>t. - 1) cfgs"
  by (simp add: bounded_by_def)

text \<open>
  C7: nothing leaks. Whatever the requests of a server have met, replays, refusals, time-outs,
  failures of the store, clients that went away, once none is in flight every tenant counter is zero,
  no idempotency key is claimed and all permits are back; and if the store has answered throughout,
  its tables hold no claim and no slot.
\<close>

theorem edge_never_leaks:
  assumes "edge_reaches env cfgs st {#}"
  shows "(\<forall>t. local_count st t = 0) \<and> es_inflight st = {}
    \<and> es_permits st = (case ev_limit env of Some n \<Rightarrow> unat n | None \<Rightarrow> 0)
    \<and> (healthy env \<longrightarrow> tb_inflight (es_tables st) = [] \<and> tb_tenant_slots (es_tables st) = []
         \<and> tb_admission_slots (es_tables st) = [])"
proof -
  have inv: "local_inv env (\<lambda>t. - 1) st {#}" "healthy env \<longrightarrow> rows_held (es_tables st) {#}"
    using edge_reaches_inv [OF assms bounded_by_max] by (simp_all add: edge_inv_def)
  have "unat (local_count st t) = 0" "k \<notin> es_inflight st" for t k
    using inv(1) by (auto simp: local_inv_def split: if_splits)
  moreover have "tb_inflight (es_tables st) = [] \<and> tb_tenant_slots (es_tables st) = [] \<and> tb_admission_slots (es_tables st) = []"
    if "healthy env"
    using inv(2) that by (auto simp: rows_held_def)
  ultimately show ?thesis
    using inv(1) by (auto simp: local_inv_def unat_eq_0)
qed

definition holders :: "guard \<Rightarrow> flight multiset \<Rightarrow> nat" where
  "holders g F = size (filter_mset (\<lambda>fl. g \<in># guards fl) F)"

lemma holders_le: "holders g F \<le> count (held F) g"
proof (induction F)
  case (add fl F)
  then show ?case
    using Suc_le_eq [of 0 "count (guards fl) g"] by (auto simp: holders_def not_in_iff count_greater_zero_iff [symmetric]
        simp del: count_greater_zero_iff)
qed (simp add: holders_def)

text \<open>
  C30: the process-local limits hold in every interleaving: at no moment hold more requests a local
  slot of a tenant than the largest limit any snapshot in force has set for it, more a permit than
  the semaphore has, or more than one the claim of an idempotency key.
\<close>

theorem local_limits_hold:
  assumes "edge_reaches env cfgs st F" and "bounded_by bound cfgs"
  shows "holders (GConcurrency (LocalSlot t)) F \<le> unat (bound t)
    \<and> holders (GAdmission LocalPermit) F \<le> (case ev_limit env of Some n \<Rightarrow> unat n | None \<Rightarrow> 0)
    \<and> holders (GClaim (LocalClaim key)) F \<le> 1"
proof -
  have "local_inv env bound st (held F)"
    using edge_reaches_inv [OF assms] by (simp add: edge_inv_def)
  then have "count (held F) (GConcurrency (LocalSlot t)) \<le> unat (bound t)"
    "count (held F) (GAdmission LocalPermit) \<le> (case ev_limit env of Some n \<Rightarrow> unat n | None \<Rightarrow> 0)"
    "count (held F) (GClaim (LocalClaim key)) \<le> 1"
    by (auto simp: local_inv_def word_le_nat_alt)
  with holders_le [of _ F] show ?thesis
    by (meson le_trans)
qed

section \<open>A required store\<close>

fun durable :: "guard \<Rightarrow> bool" where
  "durable (GClaim (DurableClaim k l)) = True"
| "durable (GConcurrency (DurableSlot i)) = True"
| "durable (GAdmission (DurablePermit i)) = True"
| "durable _ = False"

definition all_durable :: "guard multiset \<Rightarrow> bool" where
  "all_durable H \<longleftrightarrow> (\<forall>g \<in># H. durable g)"

lemma all_durable_simps [simp]: "all_durable {#}" "all_durable (G + H) \<longleftrightarrow> all_durable G \<and> all_durable H"
  by (auto simp: all_durable_def)

lemma required_durable:
  assumes "ev_store env" and "ev_store_required env"
  shows "begin_idempotent env cfg key fp st = (Inr (Proceed g), st') \<Longrightarrow> durable (GClaim g)"
    and "acquire_durable env m ttl st = (Inr (Admitted (Some a)), st') \<Longrightarrow> durable (GAdmission a)"
    and "acquire_durable env m ttl st \<noteq> (Inr (Queued QueueLocal), st')"
    and "admit_concurrency env cfg p st = (Inr (Some c), st') \<Longrightarrow> durable (GConcurrency c)"
  using assms by (auto simp: begin_idempotent_def acquire_durable_def admit_concurrency_def Let_def
      split: sum.splits begin_answer.splits option.splits bool.splits prod.splits if_splits)

definition on_store :: "flight \<Rightarrow> bool" where
  "on_store fl \<longleftrightarrow> all_durable (guards fl) \<and> fl_phase fl \<noteq> Waiting QueueLocal"

lemma next_try_durable:
  assumes "ev_store env" and "ev_store_required env" and "next_try env cfg ph st = Some (Inr t, st')" and "ph \<noteq> Waiting QueueLocal"
  shows "all_durable (try_guards t) \<and> phase_of t \<noteq> Waiting QueueLocal"
proof -
  consider "t = Admitted None" | m ttl where "acquire_durable env m ttl st = (Inr t, st')"
    using assms by (auto simp: next_try_def acquire_admission_def split: phase.splits option.splits elim!: acquire_again.elims)
  then show ?thesis
  proof cases
    case 1
    then show ?thesis
      by (simp add: try_guards_def phase_guards_def opt_guard_def)
  next
    case 2
    show ?thesis
    proof (cases t)
      case (Admitted a)
      with 2 required_durable(2) [OF assms(1,2)] show ?thesis
        by (cases a) (auto simp: try_guards_def phase_guards_def opt_guard_def all_durable_def)
    next
      case (Queued q)
      with 2 required_durable(3) [OF assms(1,2)] show ?thesis
        by (auto simp: try_guards_def phase_guards_def)
    qed
  qed
qed

lemma edge_step_on_store:
  assumes "edge_step env cfgs st F st' F'" and "ev_store env" and "ev_store_required env" and "\<forall>fl \<in># F. on_store fl"
  shows "\<forall>fl \<in># F'. on_store fl"
  using assms(1)
proof cases
  case (enter_claimed cfg key fp g p)
  then show ?thesis
    using assms(4) required_durable(1) [OF assms(2,3)]
    by (auto simp: on_store_def guards_def phase_guards_def opt_guard_def all_durable_def)
next
  case (admit_try cfg fl t F0)
  then have "on_store fl" "\<forall>fl \<in># F0. on_store fl"
    using assms(4) by simp_all
  moreover have "all_durable (try_guards t) \<and> phase_of t \<noteq> Waiting QueueLocal"
    using next_try_durable [OF assms(2,3) admit_try(4)] \<open>on_store fl\<close> by (simp add: on_store_def)
  ultimately show ?thesis
    unfolding admit_try by (auto simp: on_store_def guards_def try_guards_def)
next
  case (tenant_admitted cfg fl a c F0)
  then have "all_durable (opt_guard GConcurrency c)"
    using required_durable(4) [OF assms(2,3)] by (cases c) (auto simp: opt_guard_def all_durable_def)
  with tenant_admitted assms(4) show ?thesis
    by (auto simp: on_store_def guards_def phase_guards_def)
qed (use assms(4) in \<open>auto simp: on_store_def guards_def phase_guards_def opt_guard_def\<close>)

text \<open>
  C22: a required store fails closed: with a store that is attached and required, no request ever
  proceeds on a process-local claim, permit or slot, so the limits of the store bind every server
  that shares it.
\<close>

theorem required_store_fails_closed:
  assumes "edge_reaches env cfgs st F" and "ev_store env" and "ev_store_required env" and "fl \<in># F"
  shows "all_durable (guards fl)"
proof -
  have "\<forall>fl \<in># F. on_store fl"
    using assms(1)
  proof induction
    case (edge_next st F st' F')
    then show ?case
      using edge_step_on_store assms(2,3) by blast
  qed simp
  with assms(4) show ?thesis
    by (simp add: on_store_def)
qed

section \<open>Scopes and renewals\<close>

lemma split_at_nul:
  assumes "a @ n # b = a' @ n # b'" and "n \<notin> set a" and "n \<notin> set a'"
  shows "a = a' \<and> b = b'"
  using assms
proof (induction a arbitrary: a')
  case Nil
  then show ?case
    by (cases a') auto
next
  case (Cons x a)
  then show ?case
    by (cases a') auto
qed

text \<open>
  Idempotency keys are scoped: the digested material of two requests agrees only if endpoint,
  tenant, project and key all do, where a missing tenant or project counts as \<open>-\<close>; so a tenant
  cannot be answered with the reply of another. The parts carry no NUL byte, as header values and
  paths cannot.
\<close>

theorem idempotency_scopes_disjoint:
  assumes "scope_material k1 p1 e1 = scope_material k2 p2 e2"
    and "\<forall>s \<in> {e1, e2} \<union> set_option (pn_tenant p1) \<union> set_option (pn_tenant p2)
      \<union> set_option (pn_project p1) \<union> set_option (pn_project p2). char_of (0 :: nat) \<notin> set s"
  shows "e1 = e2 \<and> k1 = k2 \<and> case_option ''-'' id (pn_tenant p1) = case_option ''-'' id (pn_tenant p2)
    \<and> case_option ''-'' id (pn_project p1) = case_option ''-'' id (pn_project p2)"
proof -
  let ?nul = "char_of (0 :: nat)"
  let ?t = "\<lambda>p. case_option ''-'' id (pn_tenant p)" and ?q = "\<lambda>p. case_option ''-'' id (pn_project p)"
  have dash: "?nul \<notin> set ''-''"
    by (simp add: char_of_eq_iff)
  have free: "?nul \<notin> set (?t p1)" "?nul \<notin> set (?t p2)" "?nul \<notin> set (?q p1)" "?nul \<notin> set (?q p2)" "?nul \<notin> set e1" "?nul \<notin> set e2"
    using assms(2) dash by (auto split: option.split)
  have material: "scope_material k p e = e @ ?nul # ?t p @ ?nul # ?q p @ ?nul # k" for k p e
    by (simp add: scope_material_def Let_def split: option.split)
  have 1: "e1 = e2 \<and> ?t p1 @ ?nul # ?q p1 @ ?nul # k1 = ?t p2 @ ?nul # ?q p2 @ ?nul # k2"
    using assms(1) free(5,6) unfolding material by (rule split_at_nul)
  have 2: "?t p1 = ?t p2 \<and> ?q p1 @ ?nul # k1 = ?q p2 @ ?nul # k2"
    using 1 [THEN conjunct2] free(1,2) by (rule split_at_nul)
  have "?q p1 = ?q p2 \<and> k1 = k2"
    using 2 [THEN conjunct2] free(3,4) by (rule split_at_nul)
  with 1 2 show ?thesis
    by simp
qed

text \<open>A lease of at least two milliseconds is renewed twice in its life, and at least once a minute.\<close>

lemma renewal_in_time:
  "2 \<le> ttl \<Longrightarrow> 0 < renewal_interval ttl \<and> 2 * renewal_interval ttl \<le> unat ttl \<and> renewal_interval ttl \<le> 60000"
  by (auto simp: renewal_interval_def word_le_nat_alt min_def max_def)

section \<open>Witnesses\<close>

definition lone_server :: edge_env where
  "lone_server = \<lparr>ev_store = False, ev_store_required = False, ev_limit = Some 2, ev_fault = (\<lambda>n. None), ev_clock = (\<lambda>n. int n),
     ev_new_id = (\<lambda>kind n. kind)\<rparr>"

definition idle_edge :: edge_state where
  "idle_edge = \<lparr>es_tables = empty_tables, es_concurrency = Map.empty, es_inflight = {}, es_permits = 2, es_calls = 0\<rparr>"

definition small_edge :: edge_config where
  "small_edge = \<lparr>ec_tenants = [\<lparr>tc_id = ''team'', tc_allowed_routes = [], tc_allowed_providers = [], tc_allowed_accounts = [],
       tc_budget_usd = None, tc_max_concurrency = Some 1\<rparr>], ec_tenant_concurrency_ttl_ms = 60000, ec_admission_slot_ttl_ms = 60000,
     ec_inflight_ttl_ms = 60000, ec_persist_response_bodies = True\<rparr>"

definition team_principal :: principal where
  "team_principal = \<lparr>pn_tenant = Some ''team'', pn_project = None, pn_role = RoleClient\<rparr>"

definition team_flight :: "phase \<Rightarrow> flight" where
  "team_flight ph = \<lparr>fl_principal = team_principal, fl_scope = None, fl_claim = None, fl_phase = ph\<rparr>"

lemma lone_idle: "edge_reaches lone_server {small_edge} idle_edge {#}"
  by (rule edge_init) (simp_all add: lone_server_def idle_edge_def empty_tables_def)

lemma lone_running:
  "\<exists>st. edge_reaches lone_server {small_edge} st {#team_flight (Running (Some LocalPermit) (Some (LocalSlot ''team'')))#}"
proof -
  have 1: "edge_reaches lone_server {small_edge} idle_edge {#team_flight Entered#}"
    unfolding team_flight_def by (rule edge_next [OF lone_idle enter_plain])
  have "next_try lone_server small_edge (fl_phase (team_flight Entered)) idle_edge =
      Some (Inr (Admitted (Some LocalPermit)), idle_edge\<lparr>es_permits := 1\<rparr>)"
    by (simp add: next_try_def team_flight_def acquire_admission_def lone_server_def acquire_local_def idle_edge_def)
  from edge_next [OF 1 admit_try [OF _ this]]
  have 2: "edge_reaches lone_server {small_edge} (idle_edge\<lparr>es_permits := 1\<rparr>) {#team_flight (Passed (Some LocalPermit))#}"
    by (simp add: team_flight_def)
  have "admit_concurrency lone_server small_edge (fl_principal (team_flight (Passed (Some LocalPermit)))) (idle_edge\<lparr>es_permits := 1\<rparr>) =
      (Inr (Some (LocalSlot ''team'')), idle_edge\<lparr>es_permits := 1, es_concurrency := [''team'' \<mapsto> 1]\<rparr>)"
    by (simp add: admit_concurrency_def team_flight_def team_principal_def max_concurrency_def small_edge_def lone_server_def
        reserve_local_def reserve_def idle_edge_def)
  from edge_next [OF 2 tenant_admitted [OF _ _ this]] show ?thesis
    by (auto simp: team_flight_def)
qed

theorem edge_never_leaks_witness: "\<exists>st. edge_reaches lone_server {small_edge} st {#} \<and> es_permits st = 2 \<and> es_inflight st = {}"
proof -
  obtain st where "edge_reaches lone_server {small_edge} st {#team_flight (Running (Some LocalPermit) (Some (LocalSlot ''team'')))#}"
    using lone_running by blast
  from edge_next [OF this finish] have "\<exists>st. edge_reaches lone_server {small_edge} st {#}"
    by blast
  with edge_never_leaks [of lone_server "{small_edge}"] show ?thesis
    by (auto simp: lone_server_def)
qed

theorem local_limits_hold_witness:
  "\<exists>st. holders (GConcurrency (LocalSlot ''team'')) {#team_flight (Running (Some LocalPermit) (Some (LocalSlot ''team'')))#} \<le> 1
     \<and> edge_reaches lone_server {small_edge} st {#team_flight (Running (Some LocalPermit) (Some (LocalSlot ''team'')))#}"
proof -
  obtain st where st: "edge_reaches lone_server {small_edge} st {#team_flight (Running (Some LocalPermit) (Some (LocalSlot ''team'')))#}"
    using lone_running by blast
  have "bounded_by (\<lambda>t. 1) {small_edge}"
    by (simp add: bounded_by_def max_concurrency_def small_edge_def)
  from local_limits_hold [OF st this, of "''team''"] st show ?thesis
    by auto
qed

definition shared_server :: edge_env where
  "shared_server = lone_server\<lparr>ev_store := True, ev_store_required := True\<rparr>"

theorem required_store_fails_closed_witness:
  "all_durable (guards \<lparr>fl_principal = team_principal, fl_scope = Some (''k'', ''f''), fl_claim = Some (DurableClaim ''k'' ''idem''),
     fl_phase = Entered\<rparr>)"
proof -
  have 1: "edge_reaches shared_server {small_edge} idle_edge {#}"
    by (rule edge_init) (simp_all add: shared_server_def lone_server_def idle_edge_def empty_tables_def)
  have "\<exists>st. begin_idempotent shared_server small_edge ''k'' ''f'' idle_edge = (Inr (Proceed (DurableClaim ''k'' ''idem'')), st)"
    by (simp add: begin_idempotent_def shared_server_def lone_server_def total_call_def store_call_def call_id_def idempotency_begin_def
        idempotency_get_def idle_edge_def empty_tables_def Let_def)
  then obtain st where "begin_idempotent shared_server small_edge ''k'' ''f'' idle_edge = (Inr (Proceed (DurableClaim ''k'' ''idem'')), st)"
    by blast
  from required_store_fails_closed [OF edge_next [OF 1 enter_claimed [OF _ this, where F = "{#}" and p = team_principal]]]
  show ?thesis
    by (simp add: shared_server_def)
qed

theorem idempotency_scopes_disjoint_witness:
  "scope_material ''k'' team_principal ''/v1/messages'' \<noteq> scope_material ''k'' admin_principal ''/v1/messages''"
proof
  assume same: "scope_material ''k'' team_principal ''/v1/messages'' = scope_material ''k'' admin_principal ''/v1/messages''"
  from idempotency_scopes_disjoint [OF this] show False
    by (simp add: team_principal_def admin_principal_def char_of_eq_iff)
qed

end
