(* ===== verification/Entry.thy ===== *)
theory Entry
  imports Auth Execution_Meta
begin

text \<open>
  How a handler of the server turns the parsed body, the headers and the principal into the request
  that is executed (\<open>sb-server/src/handlers/common.rs\<close> and the head of each handler): the tenant
  comes from the principal, and what a client declares about itself in headers is validated before
  it becomes metadata. Headers are the function from a name to its value, where that is a string.
\<close>

type_synonym headers = "string \<Rightarrow> string option"

section \<open>Validation\<close>

definition token_char :: "char \<Rightarrow> bool" where
  "token_char c \<longleftrightarrow> (let n = (of_char c :: nat) in (48 \<le> n \<and> n \<le> 57) \<or> (65 \<le> n \<and> n \<le> 90) \<or> (97 \<le> n \<and> n \<le> 122))
     \<or> c \<in> {CHR ''-'', CHR ''_'', CHR ''.'', CHR ''/''}"

definition bounded_token :: "nat \<Rightarrow> string \<Rightarrow> string option" where
  "bounded_token max_len value =
     (let v = str_trim value
      in if v = [] \<or> max_len < length v \<or> \<not> list_all token_char v then None else Some v)"

definition ascii_hexdigit :: "char \<Rightarrow> bool" where
  "ascii_hexdigit c \<longleftrightarrow> (let n = (of_char c :: nat) in (48 \<le> n \<and> n \<le> 57) \<or> (65 \<le> n \<and> n \<le> 70) \<or> (97 \<le> n \<and> n \<le> 102))"

definition valid_lane_revision :: "string \<Rightarrow> string option" where
  "valid_lane_revision value =
     (case strip_prefix ''sha256:'' (str_trim value) of
        Some digest \<Rightarrow>
          if length digest \<noteq> 64 \<or> \<not> list_all ascii_hexdigit digest then None
          else Some (''sha256:'' @ to_ascii_lowercase digest)
      | None \<Rightarrow> None)"

definition effort_pointers :: "string list" where
  "effort_pointers = [''/reasoning/effort'', ''/output_config/effort'', ''/reasoning_effort'', ''/effort'',
     ''/response/reasoning/effort'', ''/response/output_config/effort'', ''/response/reasoning_effort'', ''/response/effort'']"

text \<open>\<open>pointer\<close> is the string that the body has at a JSON pointer, if it has one.\<close>

definition observed_effort :: "(string \<Rightarrow> string option) \<Rightarrow> (string \<times> string) option" where
  "observed_effort pointer =
     (case List.map_filter (\<lambda>path. map_option (\<lambda>effort. (effort, path)) (Option.bind (pointer path) (bounded_token 32))) effort_pointers of
        found # _ \<Rightarrow> Some found
      | [] \<Rightarrow> None)"

section \<open>Metadata\<close>

definition session_id_from_headers :: "headers \<Rightarrow> string option" where
  "session_id_from_headers h =
     (case List.map_filter (\<lambda>name. Option.bind (h name) (\<lambda>v. let s = str_trim v in if s = [] then None else Some s))
             [''x-switchback-session-id'', ''x-codex-session-id'', ''x-session-id''] of
        s # _ \<Rightarrow> Some s
      | [] \<Rightarrow> None)"

definition put_meta :: "string \<Rightarrow> string option \<Rightarrow> 'j ai_request \<Rightarrow> 'j ai_request" where
  "put_meta k v req = (case v of Some s \<Rightarrow> req\<lparr>req_metadata := bt_insert k s (req_metadata req)\<rparr> | None \<Rightarrow> req)"

definition attach_session_metadata :: "headers \<Rightarrow> 'j ai_request \<Rightarrow> 'j ai_request" where
  "attach_session_metadata h req =
     (if bt_get (req_metadata req) ''session_id'' \<noteq> None then req
      else put_meta ''session_id'' (session_id_from_headers h) req)"

definition declared_profile :: "headers \<Rightarrow> string \<Rightarrow> string \<times> string" where
  "declared_profile h default_profile =
     (case Option.bind (h ''x-switchback-client-profile'')
             (\<lambda>v. let s = str_trim v in if s \<noteq> [] \<and> length s \<le> 128 then Some s else None) of
        Some s \<Rightarrow> (s, ''header'')
      | None \<Rightarrow> (default_profile, ''default''))"

definition attach_native_client_metadata :: "headers \<Rightarrow> string \<Rightarrow> string \<Rightarrow> 'j ai_request \<Rightarrow> string \<times> 'j ai_request" where
  "attach_native_client_metadata h default_profile client_protocol req =
     (let (profile, source) = declared_profile h default_profile
      in (profile,
          put_meta ''client_protocol'' (Some client_protocol)
            (put_meta ''client_profile_source'' (Some source) (put_meta ''client_profile'' (Some profile) req))))"

definition attach_native_execution_metadata :: "headers \<Rightarrow> (string \<Rightarrow> string option) \<Rightarrow> 'j ai_request \<Rightarrow> 'j ai_request" where
  "attach_native_execution_metadata h pointer req =
     (let header = (\<lambda>name validate. Option.bind (h name) validate);
          req1 = put_meta ''switchback_lane_id'' (header ''x-switchback-lane-id'' (bounded_token 128)) req;
          req2 = put_meta ''switchback_lane_revision'' (header ''x-switchback-lane-revision'' valid_lane_revision) req1;
          req3 = put_meta ''native_execution.launch_profile'' (header ''x-switchback-launch-profile'' (bounded_token 128)) req2;
          req4 = put_meta ''native_execution.conformance_revision''
                   (header ''x-switchback-conformance-revision'' valid_lane_revision) req3;
          req5 = put_meta ''native_execution.harness'' (header ''x-switchback-harness'' (bounded_token 64)) req4;
          req6 = put_meta ''requested_native_effort'' (header ''x-switchback-requested-effort'' (bounded_token 32)) req5;
          effort = observed_effort pointer
      in put_meta ''observed_native_effort_path'' (map_option snd effort)
           (put_meta ''observed_native_effort'' (map_option fst effort) req6))"

text \<open>
  The head of the three handlers: the profile metadata is attached where the protocol names a
  default profile.
\<close>

definition entered_request ::
  "headers \<Rightarrow> (string \<Rightarrow> string option) \<Rightarrow> principal \<Rightarrow> (string \<times> string) option \<Rightarrow> 'j ai_request \<Rightarrow> 'j ai_request" where
  "entered_request h pointer p native req =
     (let req1 = req\<lparr>req_tenant := pn_tenant p, req_project := pn_project p\<rparr>;
          req2 = attach_native_execution_metadata h pointer (attach_session_metadata h req1)
      in case native of
           Some (default_profile, client_protocol) \<Rightarrow> snd (attach_native_client_metadata h default_profile client_protocol req2)
         | None \<Rightarrow> req2)"

section \<open>Facts\<close>

lemma put_meta_get:
  "bt_wf (req_metadata req) \<Longrightarrow> bt_get (req_metadata (put_meta k v req)) k' =
     (if k' = k \<and> v \<noteq> None then v else bt_get (req_metadata req) k')"
  by (auto simp: put_meta_def bt_get_insert split: option.split)

lemma put_meta_wf: "bt_wf (req_metadata req) \<Longrightarrow> bt_wf (req_metadata (put_meta k v req))"
  by (simp add: put_meta_def bt_wf_insert split: option.split)

lemma put_meta_frame [simp]: "req_tenant (put_meta k v req) = req_tenant req" "req_project (put_meta k v req) = req_project req"
  by (simp_all add: put_meta_def split: option.split)

lemma entered_tenant:
  "req_tenant (entered_request h pointer p native req) = pn_tenant p"
  "req_project (entered_request h pointer p native req) = pn_project p"
  by (simp_all add: entered_request_def attach_native_client_metadata_def attach_native_execution_metadata_def
      attach_session_metadata_def Let_def split_beta split: option.split)

lemma entered_wf: "bt_wf (req_metadata req) \<Longrightarrow> bt_wf (req_metadata (entered_request h pointer p native req))"
  by (auto simp: entered_request_def attach_native_client_metadata_def attach_native_execution_metadata_def
      attach_session_metadata_def Let_def split_beta put_meta_wf split: option.split)

definition native_keys :: "string list" where
  "native_keys = [''switchback_lane_id'', ''switchback_lane_revision'', ''native_execution.launch_profile'',
     ''native_execution.conformance_revision'', ''native_execution.harness'', ''requested_native_effort'',
     ''observed_native_effort'', ''observed_native_effort_path'']"

definition native_values :: "headers \<Rightarrow> (string \<Rightarrow> string option) \<Rightarrow> string option list" where
  "native_values h pointer =
     [Option.bind (h ''x-switchback-lane-id'') (bounded_token 128),
      Option.bind (h ''x-switchback-lane-revision'') valid_lane_revision,
      Option.bind (h ''x-switchback-launch-profile'') (bounded_token 128),
      Option.bind (h ''x-switchback-conformance-revision'') valid_lane_revision,
      Option.bind (h ''x-switchback-harness'') (bounded_token 64),
      Option.bind (h ''x-switchback-requested-effort'') (bounded_token 32),
      map_option fst (observed_effort pointer), map_option snd (observed_effort pointer)]"

lemma attach_native_fold:
  "attach_native_execution_metadata h pointer req =
     fold (\<lambda>(k, v). put_meta k v) (zip native_keys (native_values h pointer)) req"
  by (simp add: attach_native_execution_metadata_def native_keys_def native_values_def Let_def)

lemma put_metas_get:
  assumes "bt_wf (req_metadata req)" and "distinct (map fst kvs)"
  shows "bt_get (req_metadata (fold (\<lambda>(k, v). put_meta k v) kvs req)) k =
    (case map_of kvs k of Some (Some v) \<Rightarrow> Some v | _ \<Rightarrow> bt_get (req_metadata req) k)"
  using assms
proof (induction kvs arbitrary: req)
  case (Cons kv kvs)
  obtain k1 v1 where kv: "kv = (k1, v1)"
    by (cases kv)
  have "map_of kvs k1 = None"
    using Cons.prems by (simp add: kv map_of_eq_None_iff)
  then show ?case
    using Cons.IH [OF put_meta_wf [OF Cons.prems(1)], of k1 v1] Cons.prems
    by (cases v1) (auto simp: kv put_meta_get split: option.splits)
qed simp

lemma native_keys_distinct: "distinct (map fst (zip native_keys (native_values h pointer)))"
  by (simp add: native_keys_def native_values_def)

lemma entered_get:
  assumes "req_metadata req = []" and "k \<in> set native_keys"
  shows "bt_get (req_metadata (entered_request h pointer p native req)) k =
    Option.bind (map_of (zip native_keys (native_values h pointer)) k) id"
proof -
  let ?req = "attach_session_metadata h (req\<lparr>req_tenant := pn_tenant p, req_project := pn_project p\<rparr>)"
  have "bt_wf ([] :: (string, string) btree_map)"
    by (simp add: bt_wf_def)
  then have wf: "bt_wf (req_metadata ?req)"
    using assms(1) by (simp add: attach_session_metadata_def put_meta_wf)
  have other: "k \<noteq> ''session_id''" "k \<noteq> ''client_protocol''" "k \<noteq> ''client_profile_source''" "k \<noteq> ''client_profile''"
    using assms(2) by (auto simp: native_keys_def)
  have "bt_get ([] :: (string, string) btree_map) i = None" for i
    by (simp add: bt_get_def)
  then have "bt_get (req_metadata ?req) k = None"
    using assms(1) other(1) by (simp add: attach_session_metadata_def put_meta_get \<open>bt_wf []\<close>)
  then have "bt_get (req_metadata (attach_native_execution_metadata h pointer ?req)) k =
      Option.bind (map_of (zip native_keys (native_values h pointer)) k) id"
    unfolding attach_native_fold put_metas_get [OF wf native_keys_distinct] by (auto split: option.split)
  moreover have "bt_wf (req_metadata (attach_native_execution_metadata h pointer ?req))"
    using wf by (simp add: attach_native_execution_metadata_def Let_def put_meta_wf)
  ultimately show ?thesis
    using other by (auto simp: entered_request_def attach_native_client_metadata_def Let_def split_beta put_meta_get put_meta_wf
        split: option.split)
qed

text \<open>
  What a request runs as is decided by the server: the tenant and the project are those of the
  authenticated key, and what the trace reports of a native execution is exactly what the headers
  declare, each value only if it passes its validation, with the effort that the body itself asks
  for.
\<close>

theorem entered_request_attributed:
  assumes "req_metadata req = []"
  shows "req_tenant (entered_request h pointer p native req) = pn_tenant p
    \<and> req_project (entered_request h pointer p native req) = pn_project p
    \<and> native_execution_observation_of (entered_request h pointer p native req) =
        (let n = \<lparr>ne_lane_id = Option.bind (h ''x-switchback-lane-id'') (bounded_token 128),
             ne_lane_revision = Option.bind (h ''x-switchback-lane-revision'') valid_lane_revision,
             ne_launch_profile = Option.bind (h ''x-switchback-launch-profile'') (bounded_token 128),
             ne_conformance_revision = Option.bind (h ''x-switchback-conformance-revision'') valid_lane_revision,
             ne_harness = Option.bind (h ''x-switchback-harness'') (bounded_token 64),
             ne_requested_effort = Option.bind (h ''x-switchback-requested-effort'') (bounded_token 32),
             ne_observed_effort = map_option fst (observed_effort pointer),
             ne_observed_effort_path = map_option snd (observed_effort pointer)\<rparr>
         in if native_is_empty n then None else Some n)"
proof -
  note get = entered_get [OF assms, of _ h pointer p native]
  show ?thesis
    unfolding native_execution_observation_of_def Let_def
    by (simp add: get entered_tenant native_keys_def native_values_def)
qed

lemma bounded_token_bound: "bounded_token m v = Some t \<Longrightarrow> t \<noteq> [] \<and> length t \<le> m \<and> list_all token_char t"
  by (auto simp: bounded_token_def Let_def split: if_splits)

section \<open>Witness\<close>

theorem entered_request_attributed_witness:
  "map_option ne_lane_id (native_execution_observation_of (entered_request [''x-switchback-lane-id'' \<mapsto> ''lane''] Map.empty
     admin_principal (Some (''codex'', ''openai_responses'')) (new_request ''r'' ''m'' [] :: unit ai_request))) = Some (Some ''lane'')"
proof -
  have "str_trim ''lane'' = ''lane''"
    by (rule str_trim_id) (simp_all add: white_spaces_def bytes_def char_of_eq_iff)
  then have "bounded_token 128 ''lane'' = Some ''lane''"
    by (simp add: bounded_token_def token_char_def)
  moreover have "observed_effort Map.empty = None"
    by (simp add: observed_effort_def effort_pointers_def map_filter_simps)
  ultimately show ?thesis
    using entered_request_attributed [of "new_request ''r'' ''m'' [] :: unit ai_request" "[''x-switchback-lane-id'' \<mapsto> ''lane'']"
        Map.empty admin_principal "Some (''codex'', ''openai_responses'')"]
    by (simp add: new_request_def native_is_empty_def)
qed

end
