(* ===== verification/Json.thy ===== *)
theory Json
  imports Stream_Events Text_Lines
begin

text \<open>
  JSON values as the codecs handle them (\<open>serde_json::Value\<close>): an object is a \<open>BTreeMap\<close> in key
  order, a number keeps which of the three representations it has. The text of a value is the
  business of \<open>serde_json\<close>: printing and parsing are the fields \<open>js_to_string\<close> and
  \<open>js_from_str\<close> of \<open>json_api\<close>. The helpers for \<open>?\<close> in loops are here too.
\<close>

section \<open>Values\<close>

datatype json_number = PosInt u64 | NegInt i64 | FloatNum rat

datatype json =
    JNull
  | JBool bool
  | JNumber json_number
  | JString string
  | JArray "json list"
  | JObject "(string \<times> json) list"

text \<open>\<open>Value::get\<close> and the typed readers.\<close>

fun json_get :: "json \<Rightarrow> string \<Rightarrow> json option" where
  "json_get (JObject m) k = bt_get m k"
| "json_get _ k = None"

fun as_str :: "json \<Rightarrow> string option" where
  "as_str (JString s) = Some s"
| "as_str _ = None"

fun as_array :: "json \<Rightarrow> json list option" where
  "as_array (JArray vs) = Some vs"
| "as_array _ = None"

fun as_object :: "json \<Rightarrow> (string \<times> json) list option" where
  "as_object (JObject m) = Some m"
| "as_object _ = None"

fun as_bool :: "json \<Rightarrow> bool option" where
  "as_bool (JBool b) = Some b"
| "as_bool _ = None"

fun as_u64 :: "json \<Rightarrow> u64 option" where
  "as_u64 (JNumber (PosInt n)) = Some n"
| "as_u64 _ = None"

fun as_f64 :: "json \<Rightarrow> f64 option" where
  "as_f64 (JNumber (PosInt n)) = Some (nat_as_f64 (unat n))"
| "as_f64 (JNumber (NegInt i)) = Some (round_f64 (of_int i))"
| "as_f64 (JNumber (FloatNum q)) = Some (FFin q)"
| "as_f64 _ = None"

text \<open>\<open>value.get(key).and_then(Value::as_...)\<close>\<close>

definition get_str :: "json \<Rightarrow> string \<Rightarrow> string option" where
  "get_str v k = Option.bind (json_get v k) as_str"

definition get_array :: "json \<Rightarrow> string \<Rightarrow> json list option" where
  "get_array v k = Option.bind (json_get v k) as_array"

definition get_object :: "json \<Rightarrow> string \<Rightarrow> json option" where
  "get_object v k = (case json_get v k of Some (JObject m) \<Rightarrow> Some (JObject m) | _ \<Rightarrow> None)"

definition get_bool :: "json \<Rightarrow> string \<Rightarrow> bool option" where
  "get_bool v k = Option.bind (json_get v k) as_bool"

definition get_u64 :: "json \<Rightarrow> string \<Rightarrow> u64 option" where
  "get_u64 v k = Option.bind (json_get v k) as_u64"

definition get_f64 :: "json \<Rightarrow> string \<Rightarrow> f64 option" where
  "get_f64 v k = Option.bind (json_get v k) as_f64"

lemmas get_defs = get_str_def get_array_def get_object_def get_bool_def get_u64_def get_f64_def

text \<open>\<open>json!\<close> and a \<open>Map\<close> filled by \<open>insert\<close>: the pairs go in one after another.\<close>

definition jobj :: "(string \<times> json) list \<Rightarrow> json" where
  "jobj kvs = JObject (bt_collect kvs)"

definition json_insert :: "string \<Rightarrow> json \<Rightarrow> json \<Rightarrow> json" where
  "json_insert k v j = (case j of JObject m \<Rightarrow> JObject (bt_insert k v m) | _ \<Rightarrow> j)"

definition json_u64 :: "u64 \<Rightarrow> json" where
  "json_u64 n = JNumber (PosInt n)"

definition json_u32 :: "u32 \<Rightarrow> json" where
  "json_u32 n = json_u64 (ucast n)"

text \<open>\<open>Number::from_f64\<close>: only finite values are numbers.\<close>

fun number_from_f64 :: "f64 \<Rightarrow> json_number option" where
  "number_from_f64 (FFin q) = Some (FloatNum q)"
| "number_from_f64 _ = None"

definition json_f64 :: "f64 \<Rightarrow> json" where
  "json_f64 x = (case number_from_f64 x of Some n \<Rightarrow> JNumber n | None \<Rightarrow> JNull)"

text \<open>\<open>u32::try_from(value).ok()\<close>\<close>

definition u32_try_from :: "u64 \<Rightarrow> u32 option" where
  "u32_try_from n = (if unat n < 2 ^ 32 then Some (ucast n) else None)"

definition opt_pair :: "string \<Rightarrow> ('a \<Rightarrow> json) \<Rightarrow> 'a option \<Rightarrow> (string \<times> json) list" where
  "opt_pair k f x = (case x of Some v \<Rightarrow> [(k, f v)] | None \<Rightarrow> [])"

section \<open>Errors in loops\<close>

definition ok_or :: "'e \<Rightarrow> 'a option \<Rightarrow> 'e + 'a" where
  "ok_or e x = (case x of Some v \<Rightarrow> Inr v | None \<Rightarrow> Inl e)"

fun try_map :: "('a \<Rightarrow> 'e + 'b) \<Rightarrow> 'a list \<Rightarrow> 'e + 'b list" where
  "try_map f [] = Inr []"
| "try_map f (x # xs) = try_with (f x) (\<lambda>y. try_with (try_map f xs) (\<lambda>ys. Inr (y # ys)))"

fun try_fold :: "('a \<Rightarrow> 's \<Rightarrow> 'e + 's) \<Rightarrow> 'a list \<Rightarrow> 's \<Rightarrow> 'e + 's" where
  "try_fold f [] s = Inr s"
| "try_fold f (x # xs) s = try_with (f x s) (try_fold f xs)"

section \<open>Facts\<close>

lemma ok_or_simps [simp]: "ok_or e (Some v) = Inr v" "ok_or e None = Inl e"
  by (simp_all add: ok_or_def)

lemma ok_or_Inr [simp]: "ok_or e x = Inr v \<longleftrightarrow> x = Some v"
  by (cases x) auto

lemma or_else_simps [simp]: "or_else (Some v) b = Some v" "or_else None b = b" "or_else a None = a"
  by (simp_all add: or_else_def split: option.split)

lemma opt_pair_simps [simp]: "opt_pair k f None = []" "opt_pair k f (Some v) = [(k, f v)]"
  by (simp_all add: opt_pair_def)

lemma json_get_jobj [simp]: "json_get (jobj kvs) k = map_of (rev kvs) k"
  by (simp add: jobj_def bt_get_collect)

lemma as_object_jobj [simp]: "as_object (jobj kvs) = Some (bt_collect kvs)"
  by (simp add: jobj_def)

lemma as_jobj [simp]: "as_str (jobj kvs) = None" "as_array (jobj kvs) = None" "as_bool (jobj kvs) = None"
  "as_u64 (jobj kvs) = None" "as_f64 (jobj kvs) = None"
  by (simp_all add: jobj_def)

lemma jobj_neq [simp]: "jobj kvs \<noteq> JNull" "jobj kvs \<noteq> JString s" "jobj kvs \<noteq> JArray vs"
  "JNull \<noteq> jobj kvs" "JString s \<noteq> jobj kvs" "JArray vs \<noteq> jobj kvs"
  by (simp_all add: jobj_def)

lemma case_jobj [simp]: "(case jobj kvs of JNull \<Rightarrow> a | JBool b \<Rightarrow> f b | JNumber n \<Rightarrow> g n | JString s \<Rightarrow> h s
    | JArray vs \<Rightarrow> l vs | JObject m \<Rightarrow> r m) = r (bt_collect kvs)"
  by (simp add: jobj_def)

lemma get_object_jobj [simp]: "map_of (rev kvs) k = Some (jobj kvs') \<Longrightarrow> get_object (jobj kvs) k = Some (jobj kvs')"
  by (simp add: get_object_def) (simp add: jobj_def)

lemma as_u64_json [simp]: "as_u64 (json_u64 n) = Some n" "as_u64 (json_u32 m) = Some (ucast m)"
  "json_u64 n \<noteq> JNull" "json_u32 m \<noteq> JNull"
  by (simp_all add: json_u64_def json_u32_def)

lemma u32_try_from_ucast [simp]: "u32_try_from (ucast (n :: u32)) = Some n"
proof -
  have n: "unat n < 2 ^ 32" using unsigned_less [of n, where ?'a = nat] by simp
  have "unat (ucast n :: u64) = unat n"
    using n by (simp add: unsigned_ucast_eq take_bit_nat_eq_self)
  moreover have "ucast (ucast n :: u64) = n"
    by (rule bit_word_eqI) (simp add: bit_simps)
  ultimately show ?thesis
    using n by (simp add: u32_try_from_def)
qed

lemma try_map_Inr: "(\<And>x. x \<in> set xs \<Longrightarrow> f x = Inr (g x)) \<Longrightarrow> try_map f xs = Inr (map g xs)"
  by (induction xs) auto

lemma try_map_map: "try_map f (map g xs) = try_map (f \<circ> g) xs"
  by (induction xs) auto

lemma try_fold_append: "try_fold f (xs @ ys) s = try_with (try_fold f xs s) (try_fold f ys)"
  by (induction xs arbitrary: s) (auto simp: try_with_def split: sum.split)

lemma try_fold_Inr_induct:
  assumes "try_fold f xs s = Inr s'" and "P s"
    and "\<And>x s s'. x \<in> set xs \<Longrightarrow> P s \<Longrightarrow> f x s = Inr s' \<Longrightarrow> P s'"
  shows "P s'"
  using assms by (induction xs arbitrary: s) (auto simp: try_with_Inr)

text \<open>Two maps in key order that agree on every key are the same list.\<close>

lemma bt_wf_distinct: "bt_wf m \<Longrightarrow> distinct (map fst m)" "bt_wf m \<Longrightarrow> sorted (map fst m)"
  by (simp_all add: bt_wf_def strict_sorted_iff)

lemma bt_ext:
  assumes "bt_wf m" and "bt_wf m'" and "\<And>k. bt_get m k = bt_get m' k"
  shows "m = m'"
proof (rule map_sorted_distinct_set_unique [of fst])
  note d = bt_wf_distinct [OF assms(1)] bt_wf_distinct [OF assms(2)]
  have eq: "set m = set m'"
    using assms(3) d map_of_inject_set [of m m'] by (auto simp: bt_get_def)
  show "inj_on fst (set m \<union> set m')"
    using d eq by (simp add: distinct_map)
  show "sorted (map fst m)" "sorted (map fst m')" "distinct (map fst m)" "distinct (map fst m')" "set m = set m'"
    using d eq by auto
qed

end
