(* ===== verification/Openai_Chat.thy ===== *)
theory Openai_Chat
  imports Json
begin

text \<open>
  The OpenAI Chat Completions codec (\<open>sb-protocols/src/openai.rs\<close>): a client body into the
  canonical request and the canonical request into an upstream body, a response in both
  directions, the stream encoder a client is served from and the stream decoder an upstream is
  read with. The wall clock and fresh identifiers are arguments.
\<close>

section \<open>Usage\<close>

definition parse_energy_usage :: "json option \<Rightarrow> energy_usage option" where
  "parse_energy_usage v =
     (case v of
        Some (JObject m) \<Rightarrow>
          let value = JObject m;
              energy = \<lparr>eu_energy_joules = get_f64 value ''energy_joules'', eu_energy_kwh = get_f64 value ''energy_kwh'',
                eu_duration_seconds = get_f64 value ''duration_seconds'',
                eu_measurement_available = get_bool value ''measurement_available'',
                eu_attribution_method = get_str value ''attribution_method'',
                eu_energy_kwh_consumed = get_f64 value ''energy_kwh_consumed'',
                eu_energy_kwh_charged = get_f64 value ''energy_kwh_charged'',
                eu_accounting_method = get_str value ''accounting_method'',
                eu_total_cost_usd = get_f64 value ''total_cost_usd''\<rparr>
          in if has_measured_energy energy \<or> eu_duration_seconds energy \<noteq> None
                \<or> eu_measurement_available energy \<noteq> None \<or> eu_attribution_method energy \<noteq> None
                \<or> eu_accounting_method energy \<noteq> None \<or> eu_total_cost_usd energy \<noteq> None
             then Some energy else None
      | _ \<Rightarrow> None)"

definition energy_usage_json :: "energy_usage \<Rightarrow> json" where
  "energy_usage_json e = jobj
     (opt_pair ''energy_joules'' json_f64 (eu_energy_joules e) @ opt_pair ''energy_kwh'' json_f64 (eu_energy_kwh e)
      @ opt_pair ''duration_seconds'' json_f64 (eu_duration_seconds e)
      @ opt_pair ''measurement_available'' JBool (eu_measurement_available e)
      @ opt_pair ''attribution_method'' JString (eu_attribution_method e)
      @ opt_pair ''energy_kwh_consumed'' json_f64 (eu_energy_kwh_consumed e)
      @ opt_pair ''energy_kwh_charged'' json_f64 (eu_energy_kwh_charged e)
      @ opt_pair ''accounting_method'' JString (eu_accounting_method e)
      @ opt_pair ''total_cost_usd'' json_f64 (eu_total_cost_usd e))"

definition openai_usage_json :: "usage \<Rightarrow> json" where
  "openai_usage_json u = jobj
     ([(''prompt_tokens'', json_u64 (us_input_tokens u)), (''completion_tokens'', json_u64 (us_output_tokens u)),
       (''total_tokens'', json_u64 (usage_total u))] @ opt_pair ''energy'' energy_usage_json (us_energy u))"

section \<open>Content\<close>

definition split_data_url :: "string \<Rightarrow> (string \<times> string) option" where
  "split_data_url url =
     Option.bind (strip_prefix ''data:'' url)
       (\<lambda>rest. Option.bind (split_once '';base64,'' rest)
          (\<lambda>(media, dat). if media = [] \<or> dat = [] then None else Some (media, dat)))"

definition parse_image_detail :: "string option \<Rightarrow> string + image_detail option" where
  "parse_image_detail v =
     (case v of None \<Rightarrow> Inr None | Some s \<Rightarrow> try_with (image_detail_parse s) (\<lambda>d. Inr (Some d)))"

definition image_from_url :: "string \<Rightarrow> image_detail option \<Rightarrow> json content_part" where
  "image_from_url url detail =
     CpImage (case split_data_url url of Some (m, d) \<Rightarrow> InlineBase64 m d | None \<Rightarrow> RemoteUrl url) detail"

definition image_url_text :: "json \<Rightarrow> string + string" where
  "image_url_text img =
     (case img of
        JString url \<Rightarrow> Inr url
      | JObject m \<Rightarrow> ok_or ''OpenAI image_url part missing string `image_url.url`'' (get_str img ''url'')
      | _ \<Rightarrow> Inl ''OpenAI image_url part must be a string or object'')"

definition openai_content_part :: "json \<Rightarrow> string + json content_part" where
  "openai_content_part part =
     (case get_str part ''type'' of
        None \<Rightarrow> Inl ''message content part missing string `type`''
      | Some t \<Rightarrow>
          if t = ''text'' then
            try_with (ok_or ''message text part missing string `text`'' (get_str part ''text'')) (\<lambda>text. Inr (CpText text))
          else if t = ''image_url'' then
            try_with (ok_or ''OpenAI image_url part missing `image_url`'' (json_get part ''image_url''))
              (\<lambda>img. try_with (parse_image_detail (Option.bind
                        (or_else (json_get img ''detail'') (json_get part ''detail'')) as_str))
                 (\<lambda>detail. try_with (image_url_text img) (\<lambda>url. Inr (image_from_url url detail))))
          else Inl (''unsupported OpenAI content part `'' @ t @ ''`''))"

definition parse_openai_content_parts :: "json option \<Rightarrow> string + json content_part list" where
  "parse_openai_content_parts content =
     (case content of
        None \<Rightarrow> Inr []
      | Some JNull \<Rightarrow> Inr []
      | Some (JString text) \<Rightarrow> Inr [CpText text]
      | Some (JArray parts) \<Rightarrow> try_map openai_content_part parts
      | Some _ \<Rightarrow> Inl ''message content must be a string, null, or array'')"

definition content_parts_to_text :: "'j content_part list \<Rightarrow> string" where
  "content_parts_to_text parts = concat (map part_text parts)"

definition reject_image_parts :: "'j content_part list \<Rightarrow> string \<Rightarrow> string + unit" where
  "reject_image_parts parts wher =
     (if list_ex is_image parts then Inl (wher @ '' cannot contain image content'') else Inr ())"

definition parse_text_content :: "json option \<Rightarrow> string + string" where
  "parse_text_content content =
     try_with (parse_openai_content_parts content)
       (\<lambda>parts. try_with (reject_image_parts parts ''OpenAI non-user messages'')
          (\<lambda>_. Inr (content_parts_to_text parts)))"

definition parse_tool_args :: "json json_api \<Rightarrow> string \<Rightarrow> json" where
  "parse_tool_args js arguments = (case js_from_str js arguments of Some v \<Rightarrow> v | None \<Rightarrow> JString arguments)"

fun finish_reason_to_openai :: "finish_reason \<Rightarrow> string" where
  "finish_reason_to_openai FinishStop = ''stop''"
| "finish_reason_to_openai FinishLength = ''length''"
| "finish_reason_to_openai FinishToolCalls = ''tool_calls''"
| "finish_reason_to_openai FinishContentFilter = ''content_filter''"
| "finish_reason_to_openai FinishError = ''stop''"

definition finish_reason_from_openai :: "string option \<Rightarrow> finish_reason" where
  "finish_reason_from_openai reason =
     (if reason = Some ''stop'' then FinishStop
      else if reason = Some ''length'' then FinishLength
      else if reason = Some ''tool_calls'' then FinishToolCalls
      else if reason = Some ''content_filter'' then FinishContentFilter
      else if reason = Some ''error'' then FinishError
      else FinishStop)"

fun role_to_openai :: "role \<Rightarrow> string" where
  "role_to_openai System = ''system''"
| "role_to_openai User = ''user''"
| "role_to_openai Assistant = ''assistant''"
| "role_to_openai Tool = ''tool''"

text \<open>\<open>image_to_openai_url\<close> on an image part.\<close>

definition image_to_openai_url :: "image_source \<Rightarrow> string + string" where
  "image_to_openai_url src =
     try_with (image_source_validate src)
       (\<lambda>_. case src of
          InlineBase64 media dat \<Rightarrow> Inr (''data:'' @ media @ '';base64,'' @ dat)
        | RemoteUrl url \<Rightarrow> Inr url
        | ProviderFileRef p i \<Rightarrow> Inl ''OpenAI Chat Completions cannot encode provider file image references'')"

text \<open>The body of the loop over the parts of a message with an image.\<close>

fun openai_wire_part :: "'j content_part \<Rightarrow> string + json list" where
  "openai_wire_part (CpText text) =
     Inr (if text \<noteq> [] then [jobj [(''type'', JString ''text''), (''text'', JString text)]] else [])"
| "openai_wire_part (CpImage src detail) =
     try_with (image_to_openai_url src)
       (\<lambda>url. Inr [jobj [(''type'', JString ''image_url''), (''image_url'',
          jobj ([(''url'', JString url)] @ opt_pair ''detail'' (\<lambda>d. JString (image_detail_as_str d)) detail))]])"
| "openai_wire_part _ = Inr []"

definition content_parts_to_openai_message_content :: "'j content_part list \<Rightarrow> string + json" where
  "content_parts_to_openai_message_content parts =
     (if \<not> list_ex is_image parts then Inr (JString (content_parts_to_text parts))
      else try_with (try_map openai_wire_part parts) (\<lambda>vs. Inr (JArray (concat vs))))"

section \<open>Requests of clients\<close>

definition openai_tool_call :: "json json_api \<Rightarrow> json \<Rightarrow> string + json content_part" where
  "openai_tool_call js v =
     try_with (ok_or ''tool call missing string `id`'' (get_str v ''id''))
       (\<lambda>i. try_with (ok_or ''tool call missing object `function`'' (get_object v ''function''))
          (\<lambda>f. try_with (ok_or ''tool call missing string `function.name`'' (get_str f ''name''))
             (\<lambda>name. try_with (ok_or ''tool call missing string `function.arguments`'' (get_str f ''arguments''))
                (\<lambda>arguments. Inr (CpToolUse i name (parse_tool_args js arguments))))))"

definition openai_tool_calls :: "json json_api \<Rightarrow> string \<Rightarrow> json option \<Rightarrow> string + json content_part list" where
  "openai_tool_calls js err v =
     (case v of
        None \<Rightarrow> Inr []
      | Some calls \<Rightarrow> try_with (ok_or err (as_array calls)) (try_map (openai_tool_call js)))"

definition text_parts :: "string \<Rightarrow> 'j content_part list" where
  "text_parts text = (if text \<noteq> [] then [CpText text] else [])"

definition openai_message ::
  "json json_api \<Rightarrow> json \<Rightarrow> string list \<times> json message list \<Rightarrow> string + string list \<times> json message list" where
  "openai_message js m = (\<lambda>(chunks, msgs).
     try_with (ok_or ''message missing string `role`'' (get_str m ''role''))
       (\<lambda>role.
          if role = ''system'' \<or> role = ''developer'' then
            try_with (parse_text_content (json_get m ''content''))
              (\<lambda>system. Inr (if system \<noteq> [] then chunks @ [system] else chunks, msgs))
          else if role = ''user'' then
            try_with (parse_openai_content_parts (json_get m ''content''))
              (\<lambda>content. Inr (chunks, msgs @ [\<lparr>msg_role = User, msg_content = content, msg_cache_hint = None\<rparr>]))
          else if role = ''assistant'' then
            try_with (parse_text_content (json_get m ''content''))
              (\<lambda>text. try_with (openai_tool_calls js ''`tool_calls` must be an array'' (json_get m ''tool_calls''))
                 (\<lambda>calls. Inr (chunks, msgs @ [\<lparr>msg_role = Assistant, msg_content = text_parts text @ calls,
                    msg_cache_hint = None\<rparr>])))
          else if role = ''tool'' then
            try_with (ok_or ''tool message missing string `tool_call_id`'' (get_str m ''tool_call_id''))
              (\<lambda>i. try_with (parse_text_content (json_get m ''content''))
                 (\<lambda>content. Inr (chunks, msgs @ [\<lparr>msg_role = Tool, msg_content = [CpToolResult i content [] False],
                    msg_cache_hint = None\<rparr>])))
          else Inl (''unsupported message role `'' @ role @ ''`'')))"

definition openai_tool :: "json \<Rightarrow> string + json tool_spec list" where
  "openai_tool v =
     (if get_str v ''type'' = Some ''function'' then
        try_with (ok_or ''tool missing object `function`'' (get_object v ''function''))
          (\<lambda>f. try_with (ok_or ''tool missing string `function.name`'' (get_str f ''name''))
             (\<lambda>name. Inr [\<lparr>tool_name = name, tool_description = get_str f ''description'',
                tool_parameters = (case json_get f ''parameters'' of Some p \<Rightarrow> p | None \<Rightarrow> JNull),
                tool_defer_loading = False\<rparr>]))
      else Inr [])"

definition openai_tools :: "json option \<Rightarrow> string + json tool_spec list" where
  "openai_tools v =
     (case v of
        None \<Rightarrow> Inr []
      | Some tools \<Rightarrow> try_with (ok_or ''`tools` must be an array'' (as_array tools))
          (\<lambda>ts. try_with (try_map openai_tool ts) (\<lambda>specs. Inr (concat specs))))"

definition openai_response_format :: "json option \<Rightarrow> string + json response_format option" where
  "openai_response_format v =
     (case v of
        None \<Rightarrow> Inr None
      | Some rf \<Rightarrow>
          (let t = get_str rf ''type'' in
           if t = Some ''text'' then Inr (Some FormatText)
           else if t = Some ''json_object'' then Inr (Some FormatJsonObject)
           else if t = Some ''json_schema'' then
             try_with (ok_or ''response_format.json_schema must be an object'' (get_object rf ''json_schema''))
               (\<lambda>schema. try_with (ok_or ''response_format.json_schema.name missing'' (get_str schema ''name''))
                  (\<lambda>name. Inr (Some (FormatJsonSchema name
                     (case json_get schema ''schema'' of Some s \<Rightarrow> s | None \<Rightarrow> JNull)
                     (case get_bool schema ''strict'' of Some b \<Rightarrow> b | None \<Rightarrow> False)))))
           else Inr None))"

definition modeled_keys :: "string list" where
  "modeled_keys = [''model'', ''messages'', ''tools'', ''response_format'', ''stream'', ''temperature'', ''max_tokens'',
     ''max_completion_tokens'']"

definition openai_passthrough :: "json \<Rightarrow> (string \<times> json) list" where
  "openai_passthrough body =
     (case as_object body of
        Some m \<Rightarrow> bt_collect (filter (\<lambda>(k, v). k \<notin> set modeled_keys) m)
      | None \<Rightarrow> [])"

text \<open>\<open>fresh\<close> is \<open>new_id("req")\<close>.\<close>

definition request_from_openai_chat :: "json json_api \<Rightarrow> string \<Rightarrow> json \<Rightarrow> string + json ai_request" where
  "request_from_openai_chat js fresh body =
     try_with (ok_or ''missing or invalid `model`'' (get_str body ''model''))
       (\<lambda>model. try_with (ok_or ''missing or invalid `messages`'' (get_array body ''messages''))
          (\<lambda>messages. try_with (try_fold (openai_message js) messages ([], []))
             (\<lambda>(chunks, msgs). try_with (openai_tools (json_get body ''tools''))
                (\<lambda>tools. try_with (openai_response_format (json_get body ''response_format''))
                   (\<lambda>format. Inr ((new_request fresh model msgs)
                      \<lparr>req_system := (if chunks \<noteq> [] then Some (join_with [CHR 0x0A] chunks) else None),
                       req_tools := tools, req_response_format := format,
                       req_stream := (case get_bool body ''stream'' of Some b \<Rightarrow> b | None \<Rightarrow> False),
                       req_temperature := map_option f64_as_f32 (get_f64 body ''temperature''),
                       req_max_output_tokens := Option.bind
                         (or_else (get_u64 body ''max_completion_tokens'') (get_u64 body ''max_tokens''))
                         u32_try_from,
                       req_passthrough := openai_passthrough body\<rparr>))))))"

section \<open>Responses to clients\<close>

text \<open>A \<open>tool_calls\<close> entry, as requests and responses carry it.\<close>

definition wire_tool_call :: "json json_api \<Rightarrow> string \<Rightarrow> string \<Rightarrow> json \<Rightarrow> json" where
  "wire_tool_call js i name args =
     jobj [(''id'', JString i), (''type'', JString ''function''),
       (''function'', jobj [(''name'', JString name), (''arguments'', JString (js_to_string js args))])]"

fun part_tool_call :: "json json_api \<Rightarrow> json content_part \<Rightarrow> json option" where
  "part_tool_call js (CpToolUse i name args) = Some (wire_tool_call js i name args)"
| "part_tool_call js _ = None"

definition response_to_openai_chat :: "json json_api \<Rightarrow> u64 \<Rightarrow> json ai_response \<Rightarrow> json" where
  "response_to_openai_chat js created resp =
     (let content = content_parts_to_text (msg_content (resp_message resp));
          tool_calls = List.map_filter (part_tool_call js) (msg_content (resp_message resp));
          message = jobj ([(''role'', JString ''assistant''),
              (''content'', if content = [] then JNull else JString content)]
            @ (if tool_calls \<noteq> [] then [(''tool_calls'', JArray tool_calls)] else []))
      in jobj ([(''id'', JString (resp_id resp)), (''object'', JString ''chat.completion''), (''created'', json_u64 created),
           (''model'', JString (resp_model resp)),
           (''choices'', JArray [jobj [(''index'', json_u64 0), (''message'', message),
              (''finish_reason'', JString (finish_reason_to_openai (resp_finish_reason resp)))]]),
           (''usage'', openai_usage_json (resp_usage resp))]
         @ opt_pair ''energy'' energy_usage_json (us_energy (resp_usage resp))))"

record openai_encoder =
  oe_id :: string
  oe_model :: string
  oe_created :: u64
  oe_message_started :: bool

definition new_openai_encoder :: "string \<Rightarrow> string \<Rightarrow> u64 \<Rightarrow> openai_encoder" where
  "new_openai_encoder i model created =
     \<lparr>oe_id = i, oe_model = model, oe_created = created, oe_message_started = False\<rparr>"

definition openai_chunk :: "openai_encoder \<Rightarrow> json \<Rightarrow> json option \<Rightarrow> json" where
  "openai_chunk e choices usage = jobj
     ([(''id'', JString (oe_id e)), (''object'', JString ''chat.completion.chunk''), (''created'', json_u64 (oe_created e)),
       (''model'', JString (oe_model e)), (''choices'', choices)] @ opt_pair ''usage'' (\<lambda>u. u) usage)"

definition delta_choice :: "json \<Rightarrow> json \<Rightarrow> json" where
  "delta_choice delta finish =
     JArray [jobj [(''index'', json_u64 0), (''delta'', delta), (''finish_reason'', finish)]]"

text \<open>The payloads of the frames one event is encoded as; a frame is its text.\<close>

fun openai_payloads :: "openai_encoder \<Rightarrow> stream_event \<Rightarrow> openai_encoder \<times> json list" where
  "openai_payloads e (EvMessageStart i m) =
     (if oe_message_started e then (e, [])
      else let e' = e\<lparr>oe_message_started := True\<rparr>
           in (e', [openai_chunk e' (delta_choice (jobj [(''role'', JString ''assistant'')]) JNull) None]))"
| "openai_payloads e (EvOutputImage m d) = (e, [])"
| "openai_payloads e (EvCitation u t) = (e, [])"
| "openai_payloads e (EvServerToolCall i n s) = (e, [])"
| "openai_payloads e (EvTextDelta text) =
     (e, [openai_chunk e (delta_choice (jobj [(''content'', JString text)]) JNull) None])"
| "openai_payloads e (EvToolCallStart t) =
     (e, [openai_chunk e (delta_choice (jobj [(''tool_calls'', JArray [jobj [(''index'', json_u32 (tcs_index t)),
        (''id'', JString (tcs_id t)), (''type'', JString ''function''),
        (''function'', jobj [(''name'', JString (tcs_name t)), (''arguments'', JString [])])]])]) JNull) None])"
| "openai_payloads e (EvToolCallArgsDelta index json) =
     (e, [openai_chunk e (delta_choice (jobj [(''tool_calls'', JArray [jobj [(''index'', json_u32 index),
        (''function'', jobj [(''arguments'', JString json)])]])]) JNull) None])"
| "openai_payloads e (EvToolCallEnd index) = (e, [])"
| "openai_payloads e (EvUsageDelta u) = (e, [openai_chunk e (JArray []) (Some (openai_usage_json u))])"
| "openai_payloads e (EvReasoningDelta text) = (e, [])"
| "openai_payloads e (EvMessageEnd reason) =
     (e, [openai_chunk e (delta_choice (jobj []) (JString (finish_reason_to_openai reason))) None])"
| "openai_payloads e (EvError message k) = (e, [])"

definition sse_data :: "json json_api \<Rightarrow> json \<Rightarrow> string" where
  "sse_data js v = ''data: '' @ js_to_string js v @ [CHR 0x0A, CHR 0x0A]"

definition openai_encode :: "json json_api \<Rightarrow> openai_encoder \<Rightarrow> stream_event \<Rightarrow> openai_encoder \<times> string list" where
  "openai_encode js e ev = (case openai_payloads e ev of (e', vs) \<Rightarrow> (e', map (sse_data js) vs))"

definition openai_done :: string where
  "openai_done = ''data: [DONE]'' @ [CHR 0x0A, CHR 0x0A]"

section \<open>Requests to upstreams\<close>

fun openai_wire_tool_part :: "json content_part \<Rightarrow> string + json list" where
  "openai_wire_tool_part (CpToolResult i content parts err) =
     Inr [jobj [(''role'', JString ''tool''), (''tool_call_id'', JString i), (''content'', JString content)]]"
| "openai_wire_tool_part (CpText text) = Inr [jobj [(''role'', JString ''tool''), (''content'', JString text)]]"
| "openai_wire_tool_part (CpImage src d) = Inl ''OpenAI Chat cannot encode image content in tool messages''"
| "openai_wire_tool_part _ = Inr []"

definition openai_wire_message :: "json json_api \<Rightarrow> json message \<Rightarrow> string + json list" where
  "openai_wire_message js m =
     (case msg_role m of
        Tool \<Rightarrow> try_with (try_map openai_wire_tool_part (msg_content m)) (\<lambda>vs. Inr (concat vs))
      | Assistant \<Rightarrow> try_with (reject_image_parts (msg_content m) ''OpenAI assistant messages'')
          (\<lambda>_. let text = content_parts_to_text (msg_content m);
                   tool_calls = List.map_filter (part_tool_call js) (msg_content m)
               in Inr (if tool_calls = []
                  then [jobj [(''role'', JString (role_to_openai Assistant)), (''content'', JString text)]]
                  else [jobj [(''role'', JString (role_to_openai Assistant)),
                          (''content'', if text = [] then JNull else JString text),
                          (''tool_calls'', JArray tool_calls)]]))
      | System \<Rightarrow> try_with (reject_image_parts (msg_content m) ''OpenAI system messages'')
          (\<lambda>_. try_with (content_parts_to_openai_message_content (msg_content m))
             (\<lambda>content. Inr [jobj [(''role'', JString (role_to_openai System)), (''content'', content)]]))
      | User \<Rightarrow> try_with (content_parts_to_openai_message_content (msg_content m))
          (\<lambda>content. Inr [jobj [(''role'', JString (role_to_openai User)), (''content'', content)]]))"

definition openai_wire_tool :: "json tool_spec \<Rightarrow> json" where
  "openai_wire_tool t =
     jobj [(''type'', JString ''function''), (''function'', jobj ([(''name'', JString (tool_name t))]
        @ opt_pair ''description'' JString (tool_description t) @ [(''parameters'', tool_parameters t)]))]"

fun openai_wire_format :: "json response_format \<Rightarrow> json" where
  "openai_wire_format FormatText = jobj [(''type'', JString ''text'')]"
| "openai_wire_format FormatJsonObject = jobj [(''type'', JString ''json_object'')]"
| "openai_wire_format (FormatJsonSchema name schema strict) =
     jobj [(''type'', JString ''json_schema''), (''json_schema'',
        jobj [(''name'', JString name), (''schema'', schema), (''strict'', JBool strict)])]"

text \<open>\<open>body.entry(key).or_insert_with(value)\<close> over a captured map.\<close>

definition or_insert_all :: "(string \<times> json) list \<Rightarrow> (string \<times> json) list \<Rightarrow> (string \<times> json) list" where
  "or_insert_all extra m = fold (\<lambda>(k, v) m. if bt_get m k = None then bt_insert k v m else m) extra m"

definition request_to_openai_wire :: "json json_api \<Rightarrow> json ai_request \<Rightarrow> string \<Rightarrow> bool \<Rightarrow> string + json" where
  "request_to_openai_wire js req upstream stream =
     try_with (validate_canonical req)
       (\<lambda>_. try_with (try_map (openai_wire_message js) (req_messages req))
          (\<lambda>msgs. let messages = (case req_system req of
                     Some system \<Rightarrow> [jobj [(''role'', JString ''system''), (''content'', JString system)]]
                   | None \<Rightarrow> []) @ concat msgs
             in Inr (JObject (or_insert_all (req_passthrough req) (bt_collect
                  ([(''model'', JString upstream), (''messages'', JArray messages), (''stream'', JBool stream)]
                   @ opt_pair ''max_tokens'' json_u32 (req_max_output_tokens req)
                   @ opt_pair ''temperature'' JNumber (Option.bind (req_temperature req) (\<lambda>t. number_from_f64 (f32_as_f64 t)))
                   @ (if req_tools req = [] then [] else [(''tools'', JArray (map openai_wire_tool (req_tools req)))])
                   @ opt_pair ''response_format'' openai_wire_format (req_response_format req)))))))"

section \<open>Responses of upstreams\<close>

definition openai_tokens :: "json option \<Rightarrow> string \<Rightarrow> u64" where
  "openai_tokens usage k = (case Option.bind usage (\<lambda>u. get_u64 u k) of Some n \<Rightarrow> n | None \<Rightarrow> 0)"

definition openai_usage :: "json \<Rightarrow> json option \<Rightarrow> usage" where
  "openai_usage body usage =
     default_usage\<lparr>us_input_tokens := openai_tokens usage ''prompt_tokens'',
       us_output_tokens := openai_tokens usage ''completion_tokens'',
       us_energy := or_else (parse_energy_usage (json_get body ''energy''))
         (parse_energy_usage (Option.bind usage (\<lambda>u. json_get u ''energy'')))\<rparr>"

definition first_choice :: "json \<Rightarrow> json option" where
  "first_choice body = (case get_array body ''choices'' of Some (c # cs) \<Rightarrow> Some c | _ \<Rightarrow> None)"

definition parse_openai_chat_response :: "json json_api \<Rightarrow> string \<Rightarrow> json \<Rightarrow> string + json ai_response" where
  "parse_openai_chat_response js fresh body =
     try_with (ok_or ''missing `choices[0]`'' (first_choice body))
       (\<lambda>choice. try_with (ok_or ''missing object `choices[0].message`'' (get_object choice ''message''))
          (\<lambda>message. try_with (parse_text_content (json_get message ''content''))
             (\<lambda>text. try_with (openai_tool_calls js ''`choices[0].message.tool_calls` must be an array''
                  (json_get message ''tool_calls''))
                (\<lambda>calls. Inr \<lparr>resp_id = (case get_str body ''id'' of Some i \<Rightarrow> i | None \<Rightarrow> fresh),
                   resp_model = (case get_str body ''model'' of Some m \<Rightarrow> m | None \<Rightarrow> []),
                   resp_message = \<lparr>msg_role = Assistant, msg_content = text_parts text @ calls, msg_cache_hint = None\<rparr>,
                   resp_finish_reason = finish_reason_from_openai (get_str choice ''finish_reason''),
                   resp_usage = openai_usage body (get_object body ''usage'')\<rparr>))))"

record openai_decoder =
  od_started :: bool
  od_ended :: bool
  od_seen_tool_calls :: "u32 set"

definition new_openai_decoder :: openai_decoder where
  "new_openai_decoder = \<lparr>od_started = False, od_ended = False, od_seen_tool_calls = {}\<rparr>"

definition str_or_empty :: "string option \<Rightarrow> string" where
  "str_or_empty s = (case s of Some t \<Rightarrow> t | None \<Rightarrow> [])"

definition decode_tool_call :: "json \<Rightarrow> u32 set \<Rightarrow> stream_event list \<times> u32 set" where
  "decode_tool_call v seen =
     (let index = (case Option.bind (get_u64 v ''index'') u32_try_from of Some i \<Rightarrow> i | None \<Rightarrow> 0);
          f = get_object v ''function'';
          opened = (if index \<in> seen then []
             else [EvToolCallStart \<lparr>tcs_index = index, tcs_id = str_or_empty (get_str v ''id''),
                     tcs_name = str_or_empty (Option.bind f (\<lambda>f. get_str f ''name''))\<rparr>]);
          args = (case Option.bind f (\<lambda>f. get_str f ''arguments'') of
              Some a \<Rightarrow> [EvToolCallArgsDelta index a] | None \<Rightarrow> [])
      in (opened @ args, insert index seen))"

fun decode_tool_calls :: "json list \<Rightarrow> u32 set \<Rightarrow> stream_event list \<times> u32 set" where
  "decode_tool_calls [] seen = ([], seen)"
| "decode_tool_calls (v # vs) seen =
     (let (evs, seen1) = decode_tool_call v seen; (evs', seen2) = decode_tool_calls vs seen1 in (evs @ evs', seen2))"

definition openai_decode :: "openai_decoder \<Rightarrow> json \<Rightarrow> stream_event list \<times> openai_decoder" where
  "openai_decode d v =
     (let start = (if od_started d then []
             else [EvMessageStart (str_or_empty (get_str v ''id'')) (str_or_empty (get_str v ''model''))]);
          d1 = d\<lparr>od_started := True\<rparr>;
          usage = get_object v ''usage'';
          u = openai_usage v usage;
          used = (if usage \<noteq> None \<or> us_energy u \<noteq> None then [EvUsageDelta u] else [])
      in case first_choice v of
           None \<Rightarrow> (start @ used, d1)
         | Some choice \<Rightarrow>
             let delta = get_object choice ''delta'';
                 text = (case Option.bind delta (\<lambda>d. get_str d ''content'') of
                     Some c \<Rightarrow> if c \<noteq> [] then [EvTextDelta c] else [] | None \<Rightarrow> []);
                 (calls, seen) = decode_tool_calls
                   (case Option.bind delta (\<lambda>d. get_array d ''tool_calls'') of Some vs \<Rightarrow> vs | None \<Rightarrow> [])
                   (od_seen_tool_calls d1);
                 d2 = d1\<lparr>od_seen_tool_calls := seen\<rparr>;
                 finished = (case json_get choice ''finish_reason'' of None \<Rightarrow> False | Some f \<Rightarrow> f \<noteq> JNull)
             in if finished
                then (start @ used @ text @ calls @ [EvMessageEnd (finish_reason_from_openai (get_str choice ''finish_reason''))],
                      d2\<lparr>od_ended := True\<rparr>)
                else (start @ used @ text @ calls, d2))"

definition openai_decoder_finish :: "openai_decoder \<Rightarrow> stream_event list \<times> openai_decoder" where
  "openai_decoder_finish d =
     (if od_started d \<and> \<not> od_ended d then ([EvMessageEnd FinishStop], d\<lparr>od_ended := True\<rparr>) else ([], d))"

end
