(* ===== verification/Openai_Facts.thy ===== *)
theory Openai_Facts
  imports Openai_Chat Stream_Facts
begin

text \<open>
  What the Chat Completions codec keeps: a request a client sent and the gateway relays reads
  the same at the upstream, a response survives printing and parsing, and a stream that is
  encoded for a client and decoded again collects to the same response.
\<close>

section \<open>Rounding twice\<close>

lemma round_half_even_of_int [simp]: "round_half_even (of_int n) = n"
  by (simp add: round_half_even_def Let_def)

lemma round_val_bound:
  assumes "q \<noteq> 0" and "1 \<le> p"
  shows "\<bar>round_val p emin q\<bar> \<le> 2 powi (int p + round_unit p emin q)"
proof -
  let ?e = "round_unit p emin q"
  have "\<bar>q\<bar> < 2 powi (ilog2_rat \<bar>q\<bar> + 1)" using ilog2_rat_bounds assms by simp
  also have "\<dots> \<le> 2 powi (int p + ?e)"
    using assms by (intro power_int_increasing) (auto simp: round_unit_def)
  finally have "\<bar>q / 2 powi ?e\<bar> \<le> of_int (2 ^ p)"
    by (simp add: power_int_add divide_le_eq)
  then have "q / 2 powi ?e \<le> of_int (2 ^ p)" "of_int (- (2 ^ p)) \<le> q / 2 powi ?e"
    by linarith+
  then have "\<bar>round_half_even (q / 2 powi ?e)\<bar> \<le> 2 ^ p"
    by (simp add: abs_le_iff round_half_even_le minus_le_iff [symmetric] round_half_even_ge)
  then have "\<bar>rat_of_int (round_half_even (q / 2 powi ?e))\<bar> \<le> of_int (2 ^ p)"
    by (simp only: of_int_abs [symmetric] of_int_le_iff)
  then show ?thesis
    by (simp add: round_val_def power_int_add abs_mult)
qed

lemma round_val_idem:
  assumes "q \<noteq> 0" and "1 \<le> p" and "round_val p emin q \<noteq> 0"
  shows "round_val p emin (round_val p emin q) = round_val p emin q"
proof -
  define v where "v = round_val p emin q"
  let ?e = "round_unit p emin q" and ?e' = "round_unit p emin v"
  obtain n where v: "v = of_int n * 2 powi ?e"
    unfolding v_def round_val_def by blast
  have "\<exists>m. v / 2 powi ?e' = of_int m"
  proof (cases "?e' \<le> ?e")
    case True
    then have "v / 2 powi ?e' = of_int (n * 2 ^ nat (?e - ?e'))"
      unfolding v by (simp add: power_int_diff flip: power_int_of_nat)
    then show ?thesis ..
  next
    case False
    have lo: "emin \<le> ?e" by (simp add: round_unit_def)
    with False have log: "?e' = ilog2_rat \<bar>v\<bar> - (int p - 1)"
      by (auto simp: round_unit_def)
    have "2 powi (int p + ?e) \<le> (2 powi ilog2_rat \<bar>v\<bar> :: rat)"
      using False log by (intro power_int_increasing) auto
    also have "\<dots> \<le> \<bar>v\<bar>"
      using assms(3) by (intro ilog2_rat_bounds) (simp add: v_def)
    finally have abs: "\<bar>v\<bar> = 2 powi (int p + ?e)"
      using round_val_bound [OF assms(1,2), of emin] by (simp add: v_def)
    have "(2 :: rat) powi ilog2_rat \<bar>v\<bar> \<le> 2 powi (int p + ?e)"
      using ilog2_rat_bounds(1) [of "\<bar>v\<bar>"] assms(3) abs by (simp add: v_def)
    then have "ilog2_rat \<bar>v\<bar> \<le> int p + ?e"
      using power_int_strict_increasing [of "int p + ?e" "ilog2_rat \<bar>v\<bar>" "2 :: rat"] by linarith
    with False log have e': "?e' = ?e + 1" by simp
    have "\<bar>v\<bar> = of_int (2 ^ (p - 1)) * 2 powi ?e'"
      using assms(2) by (simp add: abs e' of_nat_diff flip: power_int_add power_int_of_nat)
    then have "v / 2 powi ?e' = of_int (2 ^ (p - 1)) \<or> v / 2 powi ?e' = of_int (- (2 ^ (p - 1)))"
      by (cases "0 \<le> v") (auto simp: field_simps)
    then show ?thesis by blast
  qed
  then obtain m where m: "v / 2 powi ?e' = of_int m" ..
  then have "v = of_int m * 2 powi ?e'"
    by (simp add: divide_eq_eq)
  then show ?thesis
    unfolding v_def [symmetric] round_val_def [of _ _ v] m by simp
qed

lemma f64_as_f32_idem: "f64_as_f32 x = FFin v \<Longrightarrow> f64_as_f32 (FFin v) = FFin v"
proof (cases x)
  case (FFin q)
  assume "f64_as_f32 x = FFin v"
  then have "v = 0 \<or> q \<noteq> 0 \<and> v = round_val 24 (- 149) q \<and> v \<noteq> 0 \<and> \<bar>v\<bar> < 2 ^ 128"
    by (auto simp: FFin round_f32_def round_flt_alt split: if_splits)
  then show ?thesis
    using round_val_idem [of q 24 "- 149"] by (auto simp: round_f32_def round_flt_alt)
qed simp_all

section \<open>Looking up what was written\<close>

lemma rev_opt_pair [simp]: "rev (opt_pair k f x) = opt_pair k f x"
  by (cases x) simp_all

lemma map_of_opt_pair [simp]:
  "map_of (opt_pair k f x) k' = (if k' = k then map_option f x else None)"
  "(m ++ map_of (opt_pair k f x)) k' = (if k' = k then or_else (map_option f x) (m k') else m k')"
  by (cases x; simp)+

lemma as_f64_json_f64 [simp]: "is_finite x \<Longrightarrow> as_f64 (json_f64 x) = Some x"
  by (cases x) (simp_all add: json_f64_def)

text \<open>Energy figures that survive: the floats are finite and the parser has something to report.\<close>

definition energy_carried :: "energy_usage \<Rightarrow> bool" where
  "energy_carried e \<longleftrightarrow>
     list_all (\<lambda>x. case x of Some v \<Rightarrow> is_finite v | None \<Rightarrow> True)
       [eu_energy_joules e, eu_energy_kwh e, eu_duration_seconds e, eu_energy_kwh_consumed e, eu_energy_kwh_charged e,
        eu_total_cost_usd e]
     \<and> (has_measured_energy e \<or> eu_duration_seconds e \<noteq> None \<or> eu_measurement_available e \<noteq> None
        \<or> eu_attribution_method e \<noteq> None \<or> eu_accounting_method e \<noteq> None \<or> eu_total_cost_usd e \<noteq> None)"

lemma bind_as_f64: "(case x of Some v \<Rightarrow> is_finite v | None \<Rightarrow> True) \<Longrightarrow> Option.bind (map_option json_f64 x) as_f64 = x"
  "Option.bind (map_option JBool b) as_bool = b" "Option.bind (map_option JString s) as_str = s"
  by (cases x; cases b; cases s; simp)+

lemma energy_roundtrip:
  assumes "energy_carried e"
  shows "parse_energy_usage (Some (energy_usage_json e)) = Some e"
proof -
  obtain m where m: "energy_usage_json e = JObject m" and get: "\<And>k. bt_get m k = json_get (energy_usage_json e) k"
    by (simp add: energy_usage_json_def jobj_def)
  show ?thesis
    using assms unfolding m parse_energy_usage_def
    by (simp add: get_defs get energy_usage_json_def bind_as_f64 energy_carried_def has_measured_energy_def Let_def)
qed

text \<open>A usage as Chat Completions can carry it.\<close>

definition chat_usage :: "usage \<Rightarrow> bool" where
  "chat_usage u \<longleftrightarrow> us_cached_input_tokens u = 0 \<and> us_reasoning_tokens u = 0
     \<and> (case us_energy u of None \<Rightarrow> True | Some e \<Rightarrow> energy_carried e)"

lemma openai_usage_roundtrip:
  assumes "chat_usage u" and "get_object body ''usage'' = Some (openai_usage_json u)"
    and "json_get body ''energy'' = None \<or> json_get body ''energy'' = map_option energy_usage_json (us_energy u)"
  shows "openai_usage body (get_object body ''usage'') = u"
proof (cases "us_energy u")
  case None
  have "parse_energy_usage None = None" by (simp add: parse_energy_usage_def)
  with None assms show ?thesis
    by (cases u) (auto simp: openai_usage_def openai_tokens_def openai_usage_json_def get_defs chat_usage_def default_usage_def)
next
  case (Some e)
  then have "parse_energy_usage (Some (energy_usage_json e)) = Some e"
    using assms(1) by (intro energy_roundtrip) (simp add: chat_usage_def)
  moreover have "parse_energy_usage None = None" by (simp add: parse_energy_usage_def)
  ultimately show ?thesis
    using assms Some by (cases u)
      (auto simp: openai_usage_def openai_tokens_def openai_usage_json_def get_defs chat_usage_def default_usage_def)
qed

section \<open>Responses\<close>

definition args_survive :: "json json_api \<Rightarrow> json content_part list \<Rightarrow> bool" where
  "args_survive js ps = list_all (\<lambda>p. case p of CpToolUse i n a \<Rightarrow> js_from_str js (js_to_string js a) = Some a | _ \<Rightarrow> True) ps"

lemma args_survive_Cons [simp]:
  "args_survive js [] = True"
  "args_survive js (p # ps) \<longleftrightarrow>
     (case p of CpToolUse i n a \<Rightarrow> js_from_str js (js_to_string js a) = Some a | _ \<Rightarrow> True) \<and> args_survive js ps"
  by (simp_all add: args_survive_def)

lemma tool_call_roundtrip:
  "js_from_str js (js_to_string js a) = Some a \<Longrightarrow> openai_tool_call js (wire_tool_call js i n a) = Inr (CpToolUse i n a)"
  by (simp add: openai_tool_call_def wire_tool_call_def get_str_def parse_tool_args_def)

lemma tool_calls_roundtrip:
  "args_survive js ps \<Longrightarrow>
     try_map (openai_tool_call js) (List.map_filter (part_tool_call js) ps) = Inr (filter is_tool_use ps)"
proof (induction ps)
  case (Cons p ps)
  then show ?case
    by (cases p) (simp_all add: List.map_filter_simps tool_call_roundtrip)
qed (simp add: List.map_filter_simps)

lemma text_content_roundtrip:
  "parse_text_content (Some (JString t)) = Inr t" "parse_text_content (Some JNull) = Inr []"
  "parse_text_content None = Inr []"
  by (simp_all add: parse_text_content_def parse_openai_content_parts_def reject_image_parts_def content_parts_to_text_def)

lemma no_tool_uses: "List.map_filter (part_tool_call js) ps = [] \<longleftrightarrow> filter is_tool_use ps = []"
proof (induction ps)
  case (Cons p ps)
  then show ?case by (cases p) (simp_all add: List.map_filter_simps)
qed (simp add: List.map_filter_simps)

lemma finish_reason_roundtrip:
  "finish_reason_from_openai (Some (finish_reason_to_openai f)) = (if f = FinishError then FinishStop else f)"
  by (cases f) (simp_all add: finish_reason_from_openai_def)

lemma openai_tool_calls_roundtrip:
  assumes "args_survive js ps"
  shows "openai_tool_calls js err (if List.map_filter (part_tool_call js) ps = [] then None
           else Some (JArray (List.map_filter (part_tool_call js) ps))) = Inr (filter is_tool_use ps)"
  using tool_calls_roundtrip [OF assms] by (simp add: openai_tool_calls_def no_tool_uses)

text \<open>
  The response a Chat Completions client receives: printed by the gateway and read by an
  OpenAI-compatible client (the parser the gateway itself uses for upstreams) it has the same
  identifier, model, joined text, tool uses in order, finish reason (an error reads as a stop)
  and usage.
\<close>

theorem openai_response_roundtrip:
  assumes "args_survive js (msg_content (resp_message resp))" and "chat_usage (resp_usage resp)"
  shows "parse_openai_chat_response js fresh (response_to_openai_chat js created resp) = Inr
    \<lparr>resp_id = resp_id resp, resp_model = resp_model resp,
     resp_message = \<lparr>msg_role = Assistant,
       msg_content = text_parts (message_text (resp_message resp)) @ filter is_tool_use (msg_content (resp_message resp)),
       msg_cache_hint = None\<rparr>,
     resp_finish_reason = (if resp_finish_reason resp = FinishError then FinishStop else resp_finish_reason resp),
     resp_usage = resp_usage resp\<rparr>"
proof -
  let ?body = "response_to_openai_chat js created resp"
  let ?calls = "List.map_filter (part_tool_call js) (msg_content (resp_message resp))"
  let ?text = "content_parts_to_text (msg_content (resp_message resp))"
  define message where "message = jobj ([(''role'', JString ''assistant''), (''content'', if ?text = [] then JNull else JString ?text)]
      @ (if ?calls \<noteq> [] then [(''tool_calls'', JArray ?calls)] else []))"
  define choice where "choice = jobj [(''index'', json_u64 0), (''message'', message),
      (''finish_reason'', JString (finish_reason_to_openai (resp_finish_reason resp)))]"
  have "openai_usage ?body (get_object ?body ''usage'') = resp_usage resp"
    using assms(2) by (intro openai_usage_roundtrip)
      (simp_all add: response_to_openai_chat_def openai_usage_json_def Let_def)
  moreover have "first_choice ?body = Some choice"
    by (simp add: first_choice_def get_array_def response_to_openai_chat_def Let_def choice_def message_def)
  moreover have "get_object choice ''message'' = Some message"
    unfolding choice_def message_def by (rule get_object_jobj) simp
  moreover have "get_str choice ''finish_reason'' = Some (finish_reason_to_openai (resp_finish_reason resp))"
    by (simp add: choice_def get_str_def)
  moreover have "parse_text_content (json_get message ''content'') = Inr ?text"
    by (simp add: message_def text_content_roundtrip)
  moreover have "json_get message ''tool_calls'' = (if ?calls = [] then None else Some (JArray ?calls))"
    by (simp add: message_def)
  moreover have "get_str ?body ''id'' = Some (resp_id resp)" "get_str ?body ''model'' = Some (resp_model resp)"
    by (simp_all add: get_str_def response_to_openai_chat_def Let_def)
  ultimately show ?thesis
    by (simp only: parse_openai_chat_response_def openai_tool_calls_roundtrip [OF assms(1)] finish_reason_roundtrip
        message_text_def content_parts_to_text_def ok_or_simps try_with_simps option.case)
qed

section \<open>Streams\<close>

text \<open>
  The payloads of a stream served to a client, and the events of a stream read from an upstream:
  one decoder over all frames, then \<open>finish\<close>.
\<close>

fun openai_stream_payloads :: "openai_encoder \<Rightarrow> stream_event list \<Rightarrow> json list" where
  "openai_stream_payloads e [] = []"
| "openai_stream_payloads e (ev # evs) = (case openai_payloads e ev of (e', vs) \<Rightarrow> vs @ openai_stream_payloads e' evs)"

fun openai_decode_frames :: "openai_decoder \<Rightarrow> json list \<Rightarrow> stream_event list" where
  "openai_decode_frames d [] = fst (openai_decoder_finish d)"
| "openai_decode_frames d (v # vs) = (case openai_decode d v of (evs, d') \<Rightarrow> evs @ openai_decode_frames d' vs)"

text \<open>
  The events Chat Completions has a frame for, in an order it can express: every tool call is
  started once and before its arguments; no error, no error finish, no usage figure it lacks.
\<close>

fun chat_events :: "u32 set \<Rightarrow> stream_event list \<Rightarrow> bool" where
  "chat_events opened [] = True"
| "chat_events opened (EvMessageStart i m # evs) = chat_events opened evs"
| "chat_events opened (EvTextDelta t # evs) = chat_events opened evs"
| "chat_events opened (EvToolCallStart t # evs) =
     (tcs_index t \<notin> opened \<and> chat_events (insert (tcs_index t) opened) evs)"
| "chat_events opened (EvToolCallArgsDelta i a # evs) = (i \<in> opened \<and> chat_events opened evs)"
| "chat_events opened (EvToolCallEnd i # evs) = chat_events opened evs"
| "chat_events opened (EvUsageDelta u # evs) = (chat_usage u \<and> chat_events opened evs)"
| "chat_events opened (EvMessageEnd r # evs) = (r \<noteq> FinishError \<and> chat_events opened evs)"
| "chat_events opened (_ # evs) = False"

definition collect_ok :: "u64 option \<Rightarrow> 'j collected \<Rightarrow> bool" where
  "collect_ok mx c \<longleftrightarrow> over_cap mx (co_assembled c) = None \<and> bt_wf (co_tool_uses c)"

lemma collect_event_ok: "collect_event js mx ev c = Inr c' \<Longrightarrow> collect_ok mx c \<Longrightarrow> collect_ok mx c'"
  by (cases ev) (auto simp: collect_ok_def count_bytes_def Let_def try_with_Inr bt_wf_insert
      split: option.splits if_splits)

lemma bt_insert_same: "bt_wf m \<Longrightarrow> bt_get m k = Some v \<Longrightarrow> bt_insert k v m = m"
  by (rule bt_ext) (auto simp: bt_wf_insert bt_get_insert)

lemma count_bytes_empty: "collect_ok mx c \<Longrightarrow> count_bytes mx [] c = Inr c"
  by (simp add: count_bytes_def collect_ok_def)

lemma collect_neutral:
  "collect_event js mx (EvMessageStart i m) c = Inr c"
  "collect_ok mx c \<Longrightarrow> collect_event js mx (EvTextDelta []) c = Inr c"
  "collect_ok mx c \<Longrightarrow> bt_get (co_tool_uses c) k = Some t \<Longrightarrow> collect_event js mx (EvToolCallArgsDelta k []) c = Inr c"
  by (auto simp: count_bytes_empty collect_ok_def bt_insert_same split: prod.split)

text \<open>What one chunk of the encoder decodes to.\<close>

lemma chunk_gets:
  "get_str (openai_chunk e ch u) ''id'' = Some (oe_id e)" "get_str (openai_chunk e ch u) ''model'' = Some (oe_model e)"
  "first_choice (openai_chunk e (JArray []) u) = None"
  "first_choice (openai_chunk e (delta_choice delta fin) u) =
     Some (jobj [(''index'', json_u64 0), (''delta'', delta), (''finish_reason'', fin)])"
  "get_object (openai_chunk e ch None) ''usage'' = None" "json_get (openai_chunk e ch u) ''energy'' = None"
  "get_object (openai_chunk e ch (Some (openai_usage_json v))) ''usage'' = Some (openai_usage_json v)"
  by (simp_all add: openai_chunk_def get_defs first_choice_def delta_choice_def openai_usage_json_def) (simp add: jobj_def)

lemma no_usage: "get_object body ''usage'' = None \<Longrightarrow> json_get body ''energy'' = None \<Longrightarrow>
    us_energy (openai_usage body None) = None"
  by (simp add: openai_usage_def parse_energy_usage_def)

definition greeting :: "openai_decoder \<Rightarrow> openai_encoder \<Rightarrow> stream_event list" where
  "greeting d e = (if od_started d then [] else [EvMessageStart (oe_id e) (oe_model e)])"

lemma decode_choice:
  assumes "v = openai_chunk e (delta_choice (jobj delta) fin) None"
  shows "openai_decode d v =
    (let text = (case Option.bind (map_of (rev delta) ''content'') as_str of
            Some c \<Rightarrow> if c \<noteq> [] then [EvTextDelta c] else [] | None \<Rightarrow> []);
         (calls, seen) = decode_tool_calls
            (case Option.bind (map_of (rev delta) ''tool_calls'') as_array of Some vs \<Rightarrow> vs | None \<Rightarrow> []) (od_seen_tool_calls d);
         d2 = d\<lparr>od_started := True, od_seen_tool_calls := seen\<rparr>
     in if fin \<noteq> JNull
        then (greeting d e @ text @ calls @ [EvMessageEnd (finish_reason_from_openai (as_str fin))], d2\<lparr>od_ended := True\<rparr>)
        else (greeting d e @ text @ calls, d2))"
  using no_usage [of v]
  by (simp add: assms openai_decode_def chunk_gets greeting_def str_or_empty_def get_str_def [of "jobj x" for x]
      get_array_def [of "jobj x" for x] Let_def split: prod.split)

lemma decode_usage:
  "chat_usage u \<Longrightarrow> openai_decode d (openai_chunk e (JArray []) (Some (openai_usage_json u))) =
     (greeting d e @ [EvUsageDelta u], d\<lparr>od_started := True\<rparr>)"
  using openai_usage_roundtrip [of u "openai_chunk e (JArray []) (Some (openai_usage_json u))"]
  by (simp add: openai_decode_def chunk_gets greeting_def str_or_empty_def Let_def)

lemma collect_loop_ends [simp]: "try_with r (collect_loop js mx []) = r"
  by (cases r) simp_all

lemma collect_greeting:
  "collect_loop js mx (map Inr (greeting d e) @ items) c = collect_loop js mx items c"
  "collect_loop js mx (map Inr (greeting d e)) c = Inr c"
  by (simp_all add: greeting_def collect_neutral)

text \<open>One event: its frames decode to events that are collected like it.\<close>

lemma chat_event_step:
  assumes "chat_events (od_seen_tool_calls d) (ev # evs)" and "collect_ok mx c"
    and "openai_payloads e ev = (e', vs)"
  obtains d' out where "\<And>rest. openai_decode_frames d (vs @ rest) = out @ openai_decode_frames d' rest"
    and "collect_loop js mx (map Inr out) c = collect_event js mx ev c"
    and "chat_events (od_seen_tool_calls d') evs"
    and "od_ended d' \<longleftrightarrow> od_ended d \<or> (\<exists>r. ev = EvMessageEnd r)"
proof (cases ev)
  case (EvMessageStart i m)
  show ?thesis
  proof (cases "oe_message_started e")
    case True
    with EvMessageStart assms show ?thesis by (intro that [of "[]" d]) auto
  next
    case False
    with EvMessageStart assms show ?thesis
      by (intro that [of "greeting d e" "d\<lparr>od_started := True\<rparr>"])
        (auto simp: decode_choice greeting_def collect_neutral Let_def)
  qed
next
  case (EvTextDelta t)
  with assms show ?thesis
    by (intro that [of "greeting d e @ (if t = [] then [] else [EvTextDelta t])" "d\<lparr>od_started := True\<rparr>"])
      (auto simp: decode_choice collect_greeting count_bytes_empty)
next
  case (EvToolCallStart t)
  let ?s = "EvToolCallStart t"
  have "collect_ok mx (c\<lparr>co_tool_uses := bt_insert (tcs_index t) (tcs_id t, tcs_name t, []) (co_tool_uses c)\<rparr>)"
    using assms(2) by (simp add: collect_ok_def bt_wf_insert)
  with EvToolCallStart assms show ?thesis
    by (intro that [of "greeting d e @ [?s, EvToolCallArgsDelta (tcs_index t) []]"
          "d\<lparr>od_started := True, od_seen_tool_calls := insert (tcs_index t) (od_seen_tool_calls d)\<rparr>"])
      (auto simp: decode_choice collect_greeting decode_tool_call_def get_str_def get_u64_def str_or_empty_def Let_def
        collect_neutral bt_get_insert collect_ok_def simp del: collect_event.simps(3))
next
  case (EvToolCallArgsDelta k a)
  with assms show ?thesis
    by (intro that [of "greeting d e @ [ev]" "d\<lparr>od_started := True\<rparr>"])
      (auto simp: decode_choice collect_greeting decode_tool_call_def get_str_def get_u64_def Let_def insert_absorb)
next
  case (EvToolCallEnd k)
  with assms show ?thesis by (intro that [of "[]" d]) auto
next
  case (EvUsageDelta u)
  with assms show ?thesis
    by (intro that [of "greeting d e @ [ev]" "d\<lparr>od_started := True\<rparr>"])
      (auto simp: decode_usage collect_greeting)
next
  case (EvMessageEnd r)
  with assms show ?thesis
    by (intro that [of "greeting d e @ [ev]" "d\<lparr>od_started := True, od_ended := True\<rparr>"])
      (auto simp: decode_choice collect_greeting finish_reason_roundtrip)
qed (use assms in auto)

lemma collect_event_finish:
  "collect_event js mx ev c = Inr c' \<Longrightarrow>
     (co_finish_reason c' \<noteq> None) = (co_finish_reason c \<noteq> None \<or> (\<exists>r. ev = EvMessageEnd r))"
  by (cases ev) (auto simp: count_bytes_def Let_def try_with_Inr split: option.splits if_splits)

definition closed_off :: "'j collected \<Rightarrow> 'j collected" where
  "closed_off c = c\<lparr>co_finish_reason := Some (case co_finish_reason c of Some f \<Rightarrow> f | None \<Rightarrow> FinishStop)\<rparr>"

lemma chat_stream_collects:
  assumes "chat_events (od_seen_tool_calls d) evs" and "collect_ok mx c"
    and "od_ended d \<longleftrightarrow> co_finish_reason c \<noteq> None"
  shows "map_sum (\<lambda>e. e) closed_off (collect_loop js mx (map Inr (openai_decode_frames d (openai_stream_payloads e evs))) c) =
    map_sum (\<lambda>e. e) closed_off (collect_loop js mx (map Inr evs) c)"
  using assms
proof (induction evs arbitrary: d e c)
  case Nil
  then show ?case
    by (cases "co_finish_reason c") (simp_all add: openai_decoder_finish_def closed_off_def)
next
  case (Cons ev evs)
  obtain e' vs where pay: "openai_payloads e ev = (e', vs)" by fastforce
  obtain d' out where dec: "\<And>rest. openai_decode_frames d (vs @ rest) = out @ openai_decode_frames d' rest"
    and out: "collect_loop js mx (map Inr out) c = collect_event js mx ev c"
    and wf: "chat_events (od_seen_tool_calls d') evs"
    and ended: "od_ended d' \<longleftrightarrow> od_ended d \<or> (\<exists>r. ev = EvMessageEnd r)"
    using chat_event_step [OF Cons.prems(1,2) pay] by metis
  show ?case
  proof (cases "collect_event js mx ev c")
    case (Inl err)
    then show ?thesis by (simp add: pay dec collect_loop_append out)
  next
    case (Inr c')
    have "map_sum (\<lambda>e. e) closed_off (collect_loop js mx (map Inr (openai_decode_frames d' (openai_stream_payloads e' evs))) c') =
        map_sum (\<lambda>e. e) closed_off (collect_loop js mx (map Inr evs) c')"
      using Cons.prems(3) ended collect_event_finish [OF Inr] collect_event_ok [OF Inr Cons.prems(2)] wf
      by (intro Cons.IH) simp_all
    then show ?thesis
      by (simp add: pay dec collect_loop_append out Inr)
  qed
qed

lemma collect_response_closed:
  "collect_response js items rid model mx =
     try_with (map_sum (\<lambda>e. e) closed_off (collect_loop js mx items empty_collected))
       (\<lambda>c. Inr \<lparr>resp_id = rid, resp_model = model,
          resp_message = \<lparr>msg_role = Assistant, msg_content = collected_parts js c, msg_cache_hint = None\<rparr>,
          resp_finish_reason = the (co_finish_reason c), resp_usage = co_usage c\<rparr>)"
  by (cases "collect_loop js mx items empty_collected")
    (simp_all add: collect_response_def closed_off_def collected_parts_def)

text \<open>
  A stream of events that Chat Completions can express, encoded for a client and decoded again
  the way the gateway reads an upstream, collects to the same response, or fails with the same
  error when it exceeds the response ceiling.
\<close>

theorem openai_stream_roundtrip:
  assumes "chat_events {} evs"
  shows "collect_response js (map Inr (openai_decode_frames new_openai_decoder
      (openai_stream_payloads (new_openai_encoder i m created) evs))) rid model mx =
    collect_response js (map Inr evs) rid model mx"
proof -
  have "collect_ok mx empty_collected"
    by (simp add: collect_ok_def empty_collected_def over_cap_def bt_wf_def split: option.split)
  then show ?thesis
    unfolding collect_response_closed using assms
    by (subst chat_stream_collects) (simp_all add: new_openai_decoder_def empty_collected_def)
qed

end
