(* ===== verification/Openai_Relay.thy ===== *)
theory Openai_Relay
  imports Openai_Facts
begin

text \<open>
  Relaying a Chat Completions request: what a client's body says, the body the gateway builds
  for an OpenAI-compatible upstream says too.
\<close>

section \<open>The shape of a parsed request\<close>

text \<open>A part that came from a text or a URL, and the messages the parser makes.\<close>

fun url_part :: "json content_part \<Rightarrow> bool" where
  "url_part (CpText t) = True"
| "url_part (CpImage src d) = (\<exists>u. image_from_url u d = CpImage src d)"
| "url_part _ = False"

definition chat_shape :: "json message \<Rightarrow> bool" where
  "chat_shape m \<longleftrightarrow> msg_cache_hint m = None \<and>
     (case msg_role m of
        User \<Rightarrow> list_all url_part (msg_content m)
      | Assistant \<Rightarrow> (\<exists>text calls. msg_content m = text_parts text @ calls \<and> list_all is_tool_use calls)
      | Tool \<Rightarrow> (\<exists>i c. msg_content m = [CpToolResult i c [] False])
      | System \<Rightarrow> False)"

lemma image_from_url_shape: "url_part (image_from_url u d)"
proof -
  have "image_from_url u d = CpImage src d \<Longrightarrow> url_part (CpImage src d)" for src by auto
  then show ?thesis by (simp only: image_from_url_def)
qed

lemma openai_content_part_shape: "openai_content_part v = Inr p \<Longrightarrow> url_part p"
  by (auto simp: openai_content_part_def try_with_Inr image_from_url_shape split: option.splits if_splits)

lemma try_map_all: "try_map f xs = Inr ys \<Longrightarrow> (\<And>x y. f x = Inr y \<Longrightarrow> P y) \<Longrightarrow> list_all P ys"
  by (induction xs arbitrary: ys) (auto simp: try_with_Inr)

lemma parse_parts_shape: "parse_openai_content_parts v = Inr ps \<Longrightarrow> list_all url_part ps"
  by (auto simp: parse_openai_content_parts_def split: option.splits json.splits
      elim!: try_map_all openai_content_part_shape)

lemma tool_calls_shape: "openai_tool_calls js err v = Inr ps \<Longrightarrow> list_all is_tool_use ps"
  by (auto simp: openai_tool_calls_def openai_tool_call_def try_with_Inr split: option.splits elim!: try_map_all)

definition parsed_state :: "string list \<times> json message list \<Rightarrow> bool" where
  "parsed_state s \<longleftrightarrow> list_all (\<lambda>c. c \<noteq> []) (fst s) \<and> list_all chat_shape (snd s)"

lemma openai_message_Inr:
  assumes "openai_message js m (chunks, msgs) = Inr s"
  obtains (system) t where "s = (if t \<noteq> [] then chunks @ [t] else chunks, msgs)"
  | (user) ps where "list_all url_part ps"
      "s = (chunks, msgs @ [\<lparr>msg_role = User, msg_content = ps, msg_cache_hint = None\<rparr>])"
  | (assistant) t calls where "list_all is_tool_use calls"
      "s = (chunks, msgs @ [\<lparr>msg_role = Assistant, msg_content = text_parts t @ calls, msg_cache_hint = None\<rparr>])"
  | (tool) i c where
      "s = (chunks, msgs @ [\<lparr>msg_role = Tool, msg_content = [CpToolResult i c [] False], msg_cache_hint = None\<rparr>])"
proof -
  obtain role where "get_str m ''role'' = Some role"
    using assms by (cases "get_str m ''role''") (simp_all add: openai_message_def)
  note step = assms [unfolded openai_message_def, simplified this, simplified]
  consider "role = ''system'' \<or> role = ''developer''" | "role = ''user''" | "role = ''assistant''" | "role = ''tool''"
    using step by (auto split: if_splits)
  then show ?thesis
  proof cases
    case 1
    with step show ?thesis by (auto simp: try_with_Inr intro: system)
  next
    case 2
    with step show ?thesis by (auto simp: try_with_Inr intro: user parse_parts_shape)
  next
    case 3
    with step show ?thesis by (auto simp: try_with_Inr intro: assistant tool_calls_shape)
  next
    case 4
    with step show ?thesis by (auto simp: try_with_Inr intro: tool)
  qed
qed

lemma openai_message_shape:
  assumes "openai_message js m s = Inr s'" and "parsed_state s"
  shows "parsed_state s'"
proof -
  obtain chunks msgs where s: "s = (chunks, msgs)" by (cases s)
  from assms(1) show ?thesis
    unfolding s by (cases rule: openai_message_Inr) (use assms(2) in \<open>auto simp: s parsed_state_def chat_shape_def\<close>)
qed

lemma openai_messages_shape:
  assumes "try_fold (openai_message js) vs ([], []) = Inr s"
  shows "parsed_state s"
proof (rule try_fold_Inr_induct [OF assms, of parsed_state])
  show "parsed_state ([], [])" by (simp add: parsed_state_def)
qed (rule openai_message_shape)

section \<open>Messages\<close>

text \<open>
  How a message reads at the upstream: the texts of a user message without images are joined,
  with images its empty texts are left out; every other message stays as it is.
\<close>

fun visible_part :: "'j content_part \<Rightarrow> bool" where
  "visible_part (CpText t) = (t \<noteq> [])"
| "visible_part (CpImage src d) = True"
| "visible_part _ = False"

definition chat_normal :: "json message \<Rightarrow> json message" where
  "chat_normal m =
     (if msg_role m = User
      then m\<lparr>msg_content := if list_ex is_image (msg_content m) then filter visible_part (msg_content m)
              else [CpText (content_parts_to_text (msg_content m))]\<rparr>
      else m)"

lemma split_data_url_Some: "split_data_url u = Some (m, d) \<Longrightarrow> u = ''data:'' @ m @ '';base64,'' @ d"
  by (auto simp: split_data_url_def bind_eq_Some_conv strip_prefix_Some dest!: split_once_Some split: if_splits)

lemma wire_url:
  assumes "image_from_url u d = CpImage src d'" and "image_to_openai_url src = Inr url"
  shows "url = u"
  using assms by (auto simp: image_from_url_def image_to_openai_url_def try_with_Inr
      dest!: split_data_url_Some split: option.splits prod.splits)

lemma detail_roundtrip [simp]: "parse_image_detail (map_option image_detail_as_str d) = Inr d"
proof (cases d)
  case (Some x)
  then show ?thesis by (cases x) (simp_all add: parse_image_detail_def image_detail_parse_def)
qed (simp add: parse_image_detail_def)

lemma wire_part_reads:
  assumes "url_part p" and "openai_wire_part p = Inr vs"
  shows "try_map openai_content_part vs = Inr (if visible_part p then [p] else [])"
proof (cases p)
  case (CpText t)
  with assms(2) show ?thesis by (auto simp: openai_content_part_def get_str_def)
next
  case (CpImage src d)
  then obtain u where u: "image_from_url u d = CpImage src d" using assms(1) by auto
  from assms(2) obtain url where url: "image_to_openai_url src = Inr url"
    and vs: "vs = [jobj [(''type'', JString ''image_url''), (''image_url'',
       jobj ([(''url'', JString url)] @ opt_pair ''detail'' (\<lambda>d. JString (image_detail_as_str d)) d))]]"
    by (auto simp: CpImage try_with_Inr)
  have "Option.bind (map_option (\<lambda>d. JString (image_detail_as_str d)) d) as_str = map_option image_detail_as_str d"
    by (cases d) simp_all
  then show ?thesis
    using wire_url [OF u url] u
    by (simp add: CpImage vs openai_content_part_def get_str_def image_url_text_def)
qed (use assms in auto)

lemma wire_parts_read:
  assumes "list_all url_part ps" and "try_map openai_wire_part ps = Inr vss"
  shows "try_map openai_content_part (concat vss) = Inr (filter visible_part ps)"
  using assms
proof (induction ps arbitrary: vss)
  case (Cons p ps)
  have app: "try_map f (xs @ ys) = try_with (try_map f xs) (\<lambda>a. try_with (try_map f ys) (\<lambda>b. Inr (a @ b)))"
    for f :: "json \<Rightarrow> string + json content_part" and xs ys
    by (induction xs) (auto simp: try_with_def split: sum.split)
  from Cons show ?case
    by (auto simp: try_with_Inr app wire_part_reads)
qed simp

lemma user_content_reads:
  assumes "list_all url_part ps" and "content_parts_to_openai_message_content ps = Inr v"
  shows "parse_openai_content_parts (Some v) =
    Inr (if list_ex is_image ps then filter visible_part ps else [CpText (content_parts_to_text ps)])"
  using assms by (auto simp: content_parts_to_openai_message_content_def parse_openai_content_parts_def try_with_Inr
      wire_parts_read)

lemma assistant_parts:
  assumes "list_all is_tool_use calls"
  shows "content_parts_to_text (text_parts t @ calls) = t" "filter is_tool_use (text_parts t @ calls) = calls"
    "\<not> list_ex is_image (text_parts t @ calls)"
proof -
  have "concat (map part_text calls) = []" and "filter is_tool_use calls = calls" and "\<not> list_ex is_image calls"
    using assms by (induction calls) (auto elim: is_tool_use.elims)
  then show "content_parts_to_text (text_parts t @ calls) = t" "filter is_tool_use (text_parts t @ calls) = calls"
    "\<not> list_ex is_image (text_parts t @ calls)"
    by (auto simp: content_parts_to_text_def text_parts_def)
qed

lemma assistant_reads:
  assumes "args_survive js ps" and "openai_wire_message js \<lparr>msg_role = Assistant, msg_content = ps, msg_cache_hint = h\<rparr> = Inr vs"
  shows "try_fold (openai_message js) vs (chunks, msgs) = Inr (chunks, msgs @ [\<lparr>msg_role = Assistant,
    msg_content = text_parts (content_parts_to_text ps) @ filter is_tool_use ps, msg_cache_hint = None\<rparr>])"
proof -
  let ?text = "content_parts_to_text ps" and ?calls = "List.map_filter (part_tool_call js) ps"
  have "vs = [jobj ([(''role'', JString ''assistant''),
      (''content'', if ?calls \<noteq> [] \<and> ?text = [] then JNull else JString ?text)]
      @ (if ?calls = [] then [] else [(''tool_calls'', JArray ?calls)]))]"
    using assms(2) by (auto simp: openai_wire_message_def reject_image_parts_def Let_def split: if_splits)
  moreover have "openai_tool_calls js e (if ?calls = [] then None else Some (JArray ?calls)) = Inr (filter is_tool_use ps)" for e
    by (rule openai_tool_calls_roundtrip [OF assms(1)])
  ultimately show ?thesis
    by (cases "?calls = []"; cases "?text = []") (auto simp: openai_message_def get_str_def text_content_roundtrip)
qed

lemma wire_message_reads:
  assumes "chat_shape m" and "args_survive js (msg_content m)" and "openai_wire_message js m = Inr vs"
  shows "try_fold (openai_message js) vs (chunks, msgs) = Inr (chunks, msgs @ [chat_normal m])"
proof (cases "msg_role m")
  case User
  then obtain v where v: "content_parts_to_openai_message_content (msg_content m) = Inr v"
    and vs: "vs = [jobj [(''role'', JString ''user''), (''content'', v)]]"
    using assms(3) by (auto simp: openai_wire_message_def try_with_Inr)
  have "list_all url_part (msg_content m)" and "msg_cache_hint m = None"
    using assms(1) User by (simp_all add: chat_shape_def)
  then show ?thesis
    using user_content_reads [OF _ v] User
    by (cases m) (simp add: vs openai_message_def get_str_def chat_normal_def)
next
  case Assistant
  then obtain t calls where "m = \<lparr>msg_role = Assistant, msg_content = text_parts t @ calls, msg_cache_hint = None\<rparr>"
    and calls: "list_all is_tool_use calls"
    using assms(1) by (cases m) (auto simp: chat_shape_def)
  then show ?thesis
    using assistant_reads [of js "text_parts t @ calls"] assms(2,3) assistant_parts [OF calls]
    by (simp add: chat_normal_def del: filter_append)
next
  case Tool
  then obtain i c where "m = \<lparr>msg_role = Tool, msg_content = [CpToolResult i c [] False], msg_cache_hint = None\<rparr>"
    using assms(1) by (cases m) (auto simp: chat_shape_def)
  then show ?thesis
    using assms(3) by (auto simp: openai_wire_message_def openai_message_def get_str_def text_content_roundtrip chat_normal_def)
qed (use assms(1) in \<open>simp add: chat_shape_def\<close>)

lemma wire_messages_read:
  assumes "list_all chat_shape ms" and "list_all (\<lambda>m. args_survive js (msg_content m)) ms"
    and "try_map (openai_wire_message js) ms = Inr vss"
  shows "try_fold (openai_message js) (concat vss) (chunks, msgs) = Inr (chunks, msgs @ map chat_normal ms)"
  using assms
proof (induction ms arbitrary: vss msgs)
  case (Cons m ms)
  then show ?case
    by (auto simp: try_with_Inr try_fold_append wire_message_reads)
qed simp

section \<open>The other fields\<close>

definition plain_tool :: "json tool_spec \<Rightarrow> bool" where
  "plain_tool t \<longleftrightarrow> \<not> tool_defer_loading t"

lemma openai_tools_plain: "openai_tools v = Inr ts \<Longrightarrow> list_all plain_tool ts"
proof -
  have "try_map openai_tool vs = Inr tss \<Longrightarrow> list_all plain_tool (concat tss)" for vs tss
    by (induction vs arbitrary: tss) (auto simp: try_with_Inr openai_tool_def plain_tool_def split: if_splits)
  then show "openai_tools v = Inr ts \<Longrightarrow> list_all plain_tool ts"
    by (auto simp: openai_tools_def try_with_Inr split: option.splits)
qed

lemma tool_reads: "plain_tool t \<Longrightarrow> openai_tool (openai_wire_tool t) = Inr [t]"
proof -
  have "get_object (openai_wire_tool t) ''function'' = Some (jobj ([(''name'', JString (tool_name t))]
      @ opt_pair ''description'' JString (tool_description t) @ [(''parameters'', tool_parameters t)]))"
    unfolding openai_wire_tool_def by (rule get_object_jobj) simp
  then show "plain_tool t \<Longrightarrow> openai_tool (openai_wire_tool t) = Inr [t]"
    by (cases t) (simp add: openai_tool_def get_str_def openai_wire_tool_def [of t] bind_as_f64 plain_tool_def,
        simp add: openai_wire_tool_def)
qed

lemma tools_read:
  assumes "list_all plain_tool ts"
  shows "openai_tools (if ts = [] then None else Some (JArray (map openai_wire_tool ts))) = Inr ts"
proof -
  have "try_map openai_tool (map openai_wire_tool ts) = Inr (map (\<lambda>t. [t]) ts)"
    using assms by (simp add: try_map_map try_map_Inr list_all_iff tool_reads)
  then show ?thesis by (simp add: openai_tools_def concat_map_singleton)
qed

lemma format_reads: "openai_response_format (map_option openai_wire_format f) = Inr f"
proof (cases f)
  case (Some x)
  then show ?thesis by (cases x) (simp_all add: openai_response_format_def get_str_def get_bool_def)
qed (simp add: openai_response_format_def)

lemma or_insert_all_get:
  assumes "bt_wf m"
  shows "bt_wf (or_insert_all extra m)" "bt_get (or_insert_all extra m) k = or_else (bt_get m k) (map_of extra k)"
proof -
  have "bt_wf (or_insert_all extra m) \<and> (\<forall>k. bt_get (or_insert_all extra m) k = or_else (bt_get m k) (map_of extra k))"
    using assms unfolding or_insert_all_def
  proof (induction extra arbitrary: m)
    case (Cons kv extra)
    obtain k v where kv: "kv = (k, v)" by (cases kv)
    show ?case
      using Cons.IH [of "if bt_get m k = None then bt_insert k v m else m"] Cons.prems
      by (auto simp: kv bt_wf_insert bt_get_insert or_else_def split: option.splits)
  qed simp
  then show "bt_wf (or_insert_all extra m)" "bt_get (or_insert_all extra m) k = or_else (bt_get m k) (map_of extra k)"
    by auto
qed

lemma map_of_filter_keys: "map_of (filter (\<lambda>(k, v). P k) xs) k = (if P k then map_of xs k else None)"
  by (induction xs) auto

lemma map_of_rev_distinct: "distinct (map fst xs) \<Longrightarrow> map_of (rev xs) = map_of xs"
  by (subst map_of_inject_set) (auto simp: rev_map [symmetric])

lemma passthrough_wf: "bt_wf (openai_passthrough body)"
  by (cases "as_object body") (simp_all add: openai_passthrough_def bt_wf_collect btree.wf_mt)

lemma passthrough_keys: "k \<in> set modeled_keys \<Longrightarrow> bt_get (openai_passthrough body) k = None"
  by (auto simp: openai_passthrough_def bt_get_collect map_of_eq_None_iff bt_get_def [of "[]"] split: option.split)

lemma passthrough_get:
  assumes "bt_wf m"
  shows "bt_get (openai_passthrough (JObject m)) k = (if k \<notin> set modeled_keys then bt_get m k else None)"
proof -
  have "distinct (map fst (filter (\<lambda>(k, v). k \<notin> set modeled_keys) m))"
    using bt_wf_distinct [OF assms] by (simp add: distinct_map_filter)
  then have "bt_get (openai_passthrough (JObject m)) k = map_of (filter (\<lambda>(k, v). k \<notin> set modeled_keys) m) k"
    by (simp add: openai_passthrough_def bt_get_collect map_of_rev_distinct)
  then show ?thesis
    by (simp add: map_of_filter_keys [where P = "\<lambda>k. k \<notin> set modeled_keys"] bt_get_def)
qed

lemma passthrough_of_wire:
  assumes "bt_wf base" and "\<And>k. k \<notin> set modeled_keys \<Longrightarrow> bt_get base k = None"
  shows "openai_passthrough (JObject (or_insert_all (openai_passthrough body) base)) = openai_passthrough body"
proof (rule bt_ext [OF passthrough_wf passthrough_wf])
  fix k
  show "bt_get (openai_passthrough (JObject (or_insert_all (openai_passthrough body) base))) k = bt_get (openai_passthrough body) k"
    using assms(2) [of k] passthrough_keys [of k body] or_insert_all_get [OF assms(1), of "openai_passthrough body"]
    by (simp add: passthrough_get) (simp add: bt_get_def)
qed

section \<open>The whole request\<close>

lemma join_nonempty: "list_all (\<lambda>c. c \<noteq> []) chunks \<Longrightarrow> chunks \<noteq> [] \<Longrightarrow> join_with sep chunks \<noteq> []"
  by (induction sep chunks rule: join_with.induct) auto

definition wire_pairs :: "json ai_request \<Rightarrow> string \<Rightarrow> bool \<Rightarrow> json list \<Rightarrow> (string \<times> json) list" where
  "wire_pairs req upstream stream messages =
     [(''model'', JString upstream), (''messages'', JArray messages), (''stream'', JBool stream)]
     @ opt_pair ''max_tokens'' json_u32 (req_max_output_tokens req)
     @ opt_pair ''temperature'' JNumber (Option.bind (req_temperature req) (\<lambda>t. number_from_f64 (f32_as_f64 t)))
     @ (if req_tools req = [] then [] else [(''tools'', JArray (map openai_wire_tool (req_tools req)))])
     @ opt_pair ''response_format'' openai_wire_format (req_response_format req)"

lemma wire_pairs_get:
  "map_of (rev (wire_pairs req u s ms)) ''model'' = Some (JString u)"
  "map_of (rev (wire_pairs req u s ms)) ''messages'' = Some (JArray ms)"
  "map_of (rev (wire_pairs req u s ms)) ''stream'' = Some (JBool s)"
  "map_of (rev (wire_pairs req u s ms)) ''max_tokens'' = map_option json_u32 (req_max_output_tokens req)"
  "map_of (rev (wire_pairs req u s ms)) ''max_completion_tokens'' = None"
  "map_of (rev (wire_pairs req u s ms)) ''temperature'' =
     map_option JNumber (Option.bind (req_temperature req) (\<lambda>t. number_from_f64 (f32_as_f64 t)))"
  "map_of (rev (wire_pairs req u s ms)) ''tools'' =
     (if req_tools req = [] then None else Some (JArray (map openai_wire_tool (req_tools req))))"
  "map_of (rev (wire_pairs req u s ms)) ''response_format'' = map_option openai_wire_format (req_response_format req)"
  "k \<notin> set modeled_keys \<Longrightarrow> map_of (rev (wire_pairs req u s ms)) k = None"
  by (simp_all add: wire_pairs_def modeled_keys_def)

lemma parsed_request:
  assumes "request_from_openai_chat js fresh body = Inr req"
  obtains model messages chunks msgs tools format temp where
    "try_fold (openai_message js) messages ([], []) = Inr (chunks, msgs)" "openai_tools (json_get body ''tools'') = Inr tools"
    "req = (new_request fresh model msgs)
       \<lparr>req_system := (if chunks \<noteq> [] then Some (join_with [CHR 0x0A] chunks) else None),
        req_tools := tools, req_response_format := format, req_stream := req_stream req,
        req_temperature := map_option f64_as_f32 temp, req_max_output_tokens := req_max_output_tokens req,
        req_passthrough := openai_passthrough body\<rparr>"
  using assms unfolding request_from_openai_chat_def by (auto simp: try_with_Inr split: prod.splits)

text \<open>
  C8: relaying loses nothing. When a client's Chat Completions body is accepted and the gateway
  builds the body for an OpenAI-compatible upstream from it, the upstream body parses to the
  same request: system prompt, every message, tool, parameter and every field the gateway does
  not know, with the upstream's model name and stream flag. Only the texts of one user message
  may be joined. Tool arguments have to survive printing and parsing, and the temperature has to
  be representable.
\<close>

theorem openai_relay_faithful:
  assumes "request_from_openai_chat js fresh body = Inr req"
    and "request_to_openai_wire js req upstream stream = Inr out"
    and "list_all (\<lambda>m. args_survive js (msg_content m)) (req_messages req)"
    and "case req_temperature req of Some t \<Rightarrow> is_finite t | None \<Rightarrow> True"
  shows "request_from_openai_chat js fresh out =
    Inr (req\<lparr>req_model := upstream, req_stream := stream, req_messages := map chat_normal (req_messages req)\<rparr>)"
proof -
  obtain model messages chunks msgs tools format temp where
    fold: "try_fold (openai_message js) messages ([], []) = Inr (chunks, msgs)"
    and tools: "openai_tools (json_get body ''tools'') = Inr tools"
    and req: "req = (new_request fresh model msgs)
       \<lparr>req_system := (if chunks \<noteq> [] then Some (join_with [CHR 0x0A] chunks) else None),
        req_tools := tools, req_response_format := format, req_stream := req_stream req,
        req_temperature := map_option f64_as_f32 temp, req_max_output_tokens := req_max_output_tokens req,
        req_passthrough := openai_passthrough body\<rparr>"
    using parsed_request [OF assms(1)] .
  have fields: "req_messages req = msgs" "req_tools req = tools" "req_passthrough req = openai_passthrough body"
    "req_system req = (if chunks \<noteq> [] then Some (join_with [CHR 0x0A] chunks) else None)"
    "req_temperature req = map_option f64_as_f32 temp"
    by (subst req, simp add: new_request_def)+
  have rest: "req_id req = fresh" "req_server_tools req = []" "req_priority req = PriorityNormal"
    "req_privacy_class req = Standard" "req_metadata req = []" "req_tenant req = None" "req_project req = None"
    "req_protocol_passthrough req = []" "req_system_cache_hint req = None" "req_tools_cache_hint req = None"
    by (subst req, simp add: new_request_def)+
  obtain vss where wire: "try_map (openai_wire_message js) msgs = Inr vss"
    and out: "out = JObject (or_insert_all (openai_passthrough body) (bt_collect (wire_pairs req upstream stream
       ((case req_system req of Some system \<Rightarrow> [jobj [(''role'', JString ''system''), (''content'', JString system)]]
         | None \<Rightarrow> []) @ concat vss))))"
    using assms(2) unfolding request_to_openai_wire_def fields by (auto simp: try_with_Inr wire_pairs_def Let_def fields)
  let ?ms = "(case req_system req of Some system \<Rightarrow> [jobj [(''role'', JString ''system''), (''content'', JString system)]]
         | None \<Rightarrow> []) @ concat vss"
  let ?pairs = "wire_pairs req upstream stream ?ms"
  have get: "k \<in> set modeled_keys \<Longrightarrow> json_get out k = map_of (rev ?pairs) k" for k
    using passthrough_keys [of k body, unfolded bt_get_def]
    by (simp add: out or_insert_all_get bt_wf_collect bt_get_collect)
  have keys: "json_get out ''model'' = Some (JString upstream)" "json_get out ''messages'' = Some (JArray ?ms)"
    "json_get out ''stream'' = Some (JBool stream)" "json_get out ''max_completion_tokens'' = None"
    "json_get out ''max_tokens'' = map_option json_u32 (req_max_output_tokens req)"
    "json_get out ''temperature'' = map_option JNumber (Option.bind (req_temperature req) (\<lambda>t. number_from_f64 (f32_as_f64 t)))"
    "json_get out ''tools'' = (if tools = [] then None else Some (JArray (map openai_wire_tool tools)))"
    "json_get out ''response_format'' = map_option openai_wire_format (req_response_format req)"
    by (subst get, simp add: modeled_keys_def, simp only: wire_pairs_get fields)+
  have state: "list_all (\<lambda>c. c \<noteq> []) chunks" "list_all chat_shape msgs"
    using openai_messages_shape [OF fold] by (simp_all add: parsed_state_def)
  have "try_fold (openai_message js) ?ms ([], []) =
      Inr (if chunks \<noteq> [] then [join_with [CHR 0x0A] chunks] else [], map chat_normal msgs)"
    using wire_messages_read [OF state(2) _ wire] assms(3) join_nonempty [OF state(1)]
    by (simp add: fields openai_message_def get_str_def text_content_roundtrip)
  moreover have "map_option f64_as_f32 (get_f64 out ''temperature'') = req_temperature req"
  proof (cases temp)
    case (Some x)
    then obtain v where v: "f64_as_f32 x = FFin v"
      using assms(4) by (cases "f64_as_f32 x") (simp_all add: fields)
    then show ?thesis
      using f64_as_f32_idem [OF v] by (simp add: keys fields Some get_f64_def f32_as_f64_def)
  qed (simp add: keys fields get_f64_def)
  moreover have "Option.bind (get_u64 out ''max_tokens'') u32_try_from = req_max_output_tokens req"
    by (cases "req_max_output_tokens req") (simp_all add: keys get_u64_def)
  moreover have "openai_passthrough out = openai_passthrough body"
    unfolding out by (rule passthrough_of_wire) (simp_all add: bt_wf_collect bt_get_collect wire_pairs_get)
  ultimately show ?thesis
    using tools_read [OF openai_tools_plain [OF tools]] format_reads [of "req_response_format req"]
    unfolding request_from_openai_chat_def
    by (simp add: get_str_def get_array_def get_bool_def get_u64_def [of out "''max_completion_tokens''"] keys)
      (auto intro!: ai_request.equality simp: new_request_def fields rest)
qed

text \<open>A body with a system prompt, an image, a tool call and a field the gateway does not know.\<close>

definition null_json :: "json json_api" where
  "null_json = \<lparr>js_null = JNull, js_string = JString, js_from_str = (\<lambda>s. if s = ''null'' then Some JNull else None),
     js_to_string = (\<lambda>v. ''null''), js_as_str = as_str, js_as_object = as_object\<rparr>"

definition sample_body :: json where
  "sample_body = jobj
     [(''model'', JString ''chat''),
      (''messages'', JArray
         [jobj [(''role'', JString ''system''), (''content'', JString ''be brief'')],
          jobj [(''role'', JString ''user''), (''content'', JArray
             [jobj [(''type'', JString ''text''), (''text'', JString ''see'')],
              jobj [(''type'', JString ''image_url''), (''image_url'', JString ''http://i'')]])],
          jobj [(''role'', JString ''assistant''), (''tool_calls'', JArray [wire_tool_call null_json ''c1'' ''look'' JNull])]]),
      (''seed'', json_u64 7)]"

definition sample_request :: "json ai_request" where
  "sample_request = (new_request ''r'' ''chat''
     [\<lparr>msg_role = User, msg_content = [CpText ''see'', CpImage (RemoteUrl ''http://i'') None], msg_cache_hint = None\<rparr>,
      \<lparr>msg_role = Assistant, msg_content = [CpToolUse ''c1'' ''look'' JNull], msg_cache_hint = None\<rparr>])
     \<lparr>req_system := Some ''be brief'', req_passthrough := [(''seed'', json_u64 7)]\<rparr>"

lemma sample_url: "image_from_url ''http://i'' None = CpImage (RemoteUrl ''http://i'') None"
  by (simp add: image_from_url_def split_data_url_def strip_prefix_def starts_with_def)

lemma sample_parts:
  "openai_content_part (jobj [(''type'', JString ''image_url''), (''image_url'', JString ''http://i'')]) =
     Inr (CpImage (RemoteUrl ''http://i'') None)"
  by (simp add: openai_content_part_def get_str_def parse_image_detail_def image_url_text_def sample_url)

lemma sample_call: "openai_tool_call null_json (wire_tool_call null_json ''c1'' ''look'' JNull) = Inr (CpToolUse ''c1'' ''look'' JNull)"
  by (rule tool_call_roundtrip) (simp add: null_json_def)

lemma sample_unmodeled: "openai_passthrough sample_body = [(''seed'', json_u64 7)]"
  by (rule bt_ext [OF passthrough_wf])
    (simp_all add: sample_body_def jobj_def passthrough_get bt_wf_collect bt_get_collect modeled_keys_def
      bt_wf_def [of "[x]" for x] bt_get_def [of "[x]" for x])

lemma sample_parsed: "request_from_openai_chat null_json ''r'' sample_body = Inr sample_request"
  unfolding request_from_openai_chat_def sample_unmodeled
  by (simp add: sample_body_def sample_request_def get_defs openai_message_def parse_text_content_def
      parse_openai_content_parts_def reject_image_parts_def content_parts_to_text_def sample_parts sample_call
      openai_content_part_def [of "jobj ((''type'', JString ''text'') # xs)" for xs] openai_tool_calls_def openai_tools_def
      openai_response_format_def text_parts_def new_request_def)

theorem openai_relay_faithful_witness:
  "\<exists>out. request_from_openai_chat null_json ''r'' sample_body = Inr sample_request
     \<and> request_to_openai_wire null_json sample_request ''up'' True = Inr out
     \<and> request_from_openai_chat null_json ''r'' out =
         Inr (sample_request\<lparr>req_model := ''up'', req_stream := True,
           req_messages := map chat_normal (req_messages sample_request)\<rparr>)"
proof -
  have "\<exists>out. request_to_openai_wire null_json sample_request ''up'' True = Inr out"
    by (simp add: request_to_openai_wire_def sample_request_def new_request_def validate_canonical_def
        openai_wire_message_def content_parts_to_openai_message_content_def image_to_openai_url_def trim_is_empty_def
        ascii_space_def reject_image_parts_def Let_def)
  then obtain out where out: "request_to_openai_wire null_json sample_request ''up'' True = Inr out" ..
  have "list_all (\<lambda>m. args_survive null_json (msg_content m)) (req_messages sample_request)"
    and "case req_temperature sample_request of Some t \<Rightarrow> is_finite t | None \<Rightarrow> True"
    by (simp_all add: sample_request_def new_request_def null_json_def)
  from openai_relay_faithful [OF sample_parsed out this] out sample_parsed show ?thesis by blast
qed

end
