(* ===== verification/Wire_Framing.thy ===== *)
theory Wire_Framing
  imports Json
begin

text \<open>
  Framing of upstream byte streams (\<open>sb-adapters/src/transport.rs\<close> and \<open>event_stream.rs\<close>): text
  server-sent events, and the binary event stream of AWS. A chunk is the list of its bytes;
  \<open>String::from_utf8_lossy\<close> is written out. The CRC-32 of \<open>crc32fast\<close>, the Base64 decoder and the
  text of a JSON parse error are arguments.
\<close>

unbundle bit_operations_syntax

section \<open>UTF-8\<close>

definition byte :: "char \<Rightarrow> nat" where
  "byte c = of_char c"

definition cont_byte :: "char \<Rightarrow> bool" where
  "cont_byte c \<longleftrightarrow> 128 \<le> byte c \<and> byte c \<le> 191"

text \<open>The range of the second byte of a longer sequence, which excludes overlong forms and surrogates.\<close>

definition second_byte :: "nat \<Rightarrow> char \<Rightarrow> bool" where
  "second_byte first c \<longleftrightarrow>
     (if first = 224 then 160 else if first = 240 then 144 else 128) \<le> byte c
     \<and> byte c \<le> (if first = 237 then 159 else if first = 244 then 143 else 191)"

text \<open>
  The first sequence of a text: whether it is a character, and its length. What is cut off or
  broken counts up to the first byte that does not fit.
\<close>

fun utf8_tail :: "nat \<Rightarrow> string \<Rightarrow> bool \<times> nat" where
  "utf8_tail 0 cs = (True, 0)"
| "utf8_tail (Suc n) [] = (False, 0)"
| "utf8_tail (Suc n) (c # cs) =
     (if cont_byte c then (case utf8_tail n cs of (ok, k) \<Rightarrow> (ok, Suc k)) else (False, 0))"

definition utf8_head :: "char \<Rightarrow> string \<Rightarrow> bool \<times> nat" where
  "utf8_head c cs =
     (let b = byte c;
          longer = (\<lambda>n. case cs of
              d # ds \<Rightarrow> if second_byte b d then (case utf8_tail n ds of (ok, k) \<Rightarrow> (ok, Suc (Suc k))) else (False, 1)
            | [] \<Rightarrow> (False, 1))
      in if b < 128 then (True, 1)
         else if 194 \<le> b \<and> b \<le> 223 then (case utf8_tail 1 cs of (ok, k) \<Rightarrow> (ok, Suc k))
         else if 224 \<le> b \<and> b \<le> 239 then longer 1
         else if 240 \<le> b \<and> b \<le> 244 then longer 2
         else (False, 1))"

lemma utf8_head_pos: "0 < snd (utf8_head c cs)"
  by (auto simp: utf8_head_def Let_def split: prod.splits list.splits)

definition replacement_char :: string where
  "replacement_char = bytes [239, 191, 189]"

function utf8_lossy :: "string \<Rightarrow> string" where
  "utf8_lossy [] = []"
| "utf8_lossy (c # cs) =
     (let (ok, n) = utf8_head c cs
      in (if ok then take n (c # cs) else replacement_char) @ utf8_lossy (drop n (c # cs)))"
  by pat_completeness auto

termination utf8_lossy
proof (relation "measure length")
  fix c cs x ok n
  assume "x = utf8_head c cs" and "(ok, n) = x"
  then have "0 < n" using utf8_head_pos [of c cs] by (metis snd_conv)
  then show "(drop n (c # cs), c # cs) \<in> measure length" by simp
qed simp

section \<open>Server-sent events\<close>

definition max_sse_buffer_bytes :: nat where
  "max_sse_buffer_bytes = 1048576"

text \<open>\<open>.replace("\r\n", "\n").replace('\r', "\n")\<close>\<close>

fun replace_crlf :: "string \<Rightarrow> string" where
  "replace_crlf (a # b # cs) =
     (if a = CHR 0x0D \<and> b = CHR 0x0A then b # replace_crlf cs else a # replace_crlf (b # cs))"
| "replace_crlf cs = cs"

definition normalize_newlines :: "string \<Rightarrow> string" where
  "normalize_newlines s = map (\<lambda>c. if c = CHR 0x0D then CHR 0x0A else c) (replace_crlf s)"

definition sse_field :: "string \<Rightarrow> string \<Rightarrow> string option" where
  "sse_field field line =
     Option.bind (strip_prefix field line)
       (\<lambda>rest. Option.bind (strip_prefix '':'' rest)
          (\<lambda>rest. Some (case strip_prefix '' '' rest of Some r \<Rightarrow> r | None \<Rightarrow> rest)))"

definition stream_error_message :: "json \<Rightarrow> string option" where
  "stream_error_message value =
     (case json_get value ''error'' of
        None \<Rightarrow> None
      | Some err \<Rightarrow> Some
          (case or_else (as_str err) (or_else (get_str err ''message'') (get_str value ''message'')) of
             Some m \<Rightarrow> m | None \<Rightarrow> ''upstream stream error''))"

definition sse_line :: "string \<Rightarrow> string option \<times> string list \<Rightarrow> string option \<times> string list" where
  "sse_line line = (\<lambda>(event, dat).
     if line = [] \<or> starts_with line '':'' then (event, dat)
     else case sse_field ''event'' line of
            Some v \<Rightarrow> (Some v, dat)
          | None \<Rightarrow> (case sse_field ''data'' line of Some v \<Rightarrow> (event, dat @ [v]) | None \<Rightarrow> (event, dat)))"

text \<open>\<open>jerr\<close> is the text of the parse error.\<close>

definition parse_sse_frame :: "json json_api \<Rightarrow> (string \<Rightarrow> string) \<Rightarrow> string \<Rightarrow> string + json option" where
  "parse_sse_frame js jerr frame =
     (let (event, dat) = fold sse_line (str_lines frame) (None, [])
      in if dat = [] then Inr None
         else let d = str_trim (join_with [CHR 0x0A] dat)
              in if d = [] \<or> d = ''[DONE]'' then Inr None
                 else case js_from_str js d of
                        None \<Rightarrow> Inl (''malformed SSE JSON frame: '' @ jerr d)
                      | Some value \<Rightarrow>
                          if event = Some ''error''
                          then Inl (case stream_error_message value of Some m \<Rightarrow> m | None \<Rightarrow> ''upstream stream error event'')
                          else case stream_error_message value of Some m \<Rightarrow> Inl m | None \<Rightarrow> Inr (Some value))"

lemma split_once_shorter: "sep \<noteq> [] \<Longrightarrow> split_once sep s = Some (a, b) \<Longrightarrow> length b < length s"
  by (drule split_once_Some) simp

text \<open>The loop of \<open>push\<close> over the complete frames of the buffer.\<close>

function sse_drain :: "json json_api \<Rightarrow> (string \<Rightarrow> string) \<Rightarrow> string \<Rightarrow> json list \<Rightarrow> (string + json list) \<times> string" where
  "sse_drain js jerr buf out =
     (case split_once [CHR 0x0A, CHR 0x0A] buf of
        None \<Rightarrow> (Inr out, buf)
      | Some (frame, rest) \<Rightarrow>
          (case parse_sse_frame js jerr (frame @ [CHR 0x0A, CHR 0x0A]) of
             Inl e \<Rightarrow> (Inl e, rest)
           | Inr v \<Rightarrow> sse_drain js jerr rest (out @ (case v of Some x \<Rightarrow> [x] | None \<Rightarrow> []))))"
  by pat_completeness auto

termination sse_drain
  by (relation "measure (\<lambda>(js, jerr, buf, out). length buf)") (auto dest: split_once_shorter [rotated])

declare sse_drain.simps [simp del]

definition sse_push :: "json json_api \<Rightarrow> (string \<Rightarrow> string) \<Rightarrow> string \<Rightarrow> string \<Rightarrow> (string + json list) \<times> string" where
  "sse_push js jerr buf chunk =
     (let buf1 = buf @ normalize_newlines (utf8_lossy chunk)
      in if max_sse_buffer_bytes < length buf1
         then (Inl (''SSE frame buffer exceeded '' @ show_nat max_sse_buffer_bytes @ '' bytes''), buf1)
         else sse_drain js jerr buf1 [])"

section \<open>The AWS event stream\<close>

definition max_event_stream_message_bytes :: nat where
  "max_event_stream_message_bytes = 16 * 1024 * 1024"

definition max_event_stream_buffer_bytes :: nat where
  "max_event_stream_buffer_bytes = 2 * max_event_stream_message_bytes"

record event_message =
  em_headers :: "(string \<times> string) list"
  em_payload :: string

definition em_header :: "event_message \<Rightarrow> string \<Rightarrow> string option" where
  "em_header m name = map_option snd (find (\<lambda>(k, v). k = name) (em_headers m))"

definition be_nat :: "string \<Rightarrow> nat" where
  "be_nat bs = fold (\<lambda>c n. n * 256 + byte c) bs 0"

definition read_u32_be :: "string \<Rightarrow> u32" where
  "read_u32_be bs = word_of_nat (be_nat (take 4 bs))"

definition nibble_digit :: "nat \<Rightarrow> char" where
  "nibble_digit n = ''0123456789abcdef'' ! n"

definition hex08 :: "u32 \<Rightarrow> string" where
  "hex08 w = map (\<lambda>i. nibble_digit (unat (drop_bit (4 * i) w AND 15))) [7, 6, 5, 4, 3, 2, 1, 0]"

function parse_headers :: "string \<Rightarrow> string + (string \<times> string) list" where
  "parse_headers bs =
     (if bs = [] then Inr []
      else if length bs < 2 then Inl ''event-stream: truncated header''
      else let name_len = byte (hd bs); s1 = tl bs
           in if length s1 < name_len + 1 then Inl ''event-stream: truncated header name''
              else let name = utf8_lossy (take name_len s1); s2 = drop name_len s1; value_type = byte (hd s2); s3 = tl s2
                   in if value_type \<noteq> 7 then Inl (''event-stream: unsupported header value type '' @ show_nat value_type)
                      else if length s3 < 2 then Inl ''event-stream: truncated header value length''
                      else let value_len = be_nat (take 2 s3); s4 = drop 2 s3
                           in if length s4 < value_len then Inl ''event-stream: truncated header value''
                              else try_with (parse_headers (drop value_len s4))
                                     (\<lambda>hs. Inr ((name, utf8_lossy (take value_len s4)) # hs)))"
  by pat_completeness auto

termination parse_headers
  by (relation "measure length") (auto simp: Let_def)

declare parse_headers.simps [simp del]

text \<open>\<open>next_message\<close>: the result, if there is one, and the buffer that is left.\<close>

definition next_message :: "(string \<Rightarrow> u32) \<Rightarrow> string \<Rightarrow> (string + event_message) option \<times> string" where
  "next_message crc buf =
     (if length buf < 12 then (None, buf)
      else let total_len = unat (read_u32_be buf); headers_len = unat (read_u32_be (drop 4 buf))
           in if total_len < 16 \<or> total_len - 16 < headers_len
              then (Some (Inl (''event-stream: bad lengths total='' @ show_nat total_len @ '' headers='' @ show_nat headers_len)), [])
              else let expected = read_u32_be (drop 8 buf); actual = crc (take 8 buf)
                   in if actual \<noteq> expected
                      then (Some (Inl (''event-stream: prelude CRC mismatch expected='' @ hex08 expected @ '' actual='' @ hex08 actual)), [])
                      else if max_event_stream_message_bytes < total_len
                      then (Some (Inl (''event-stream: message length '' @ show_nat total_len @ '' exceeds max ''
                              @ show_nat max_event_stream_message_bytes)), [])
                      else if length buf < total_len
                      then (if max_event_stream_buffer_bytes < length buf
                            then (Some (Inl (''event-stream: buffer exceeded '' @ show_nat max_event_stream_buffer_bytes @ '' bytes'')), [])
                            else (None, buf))
                      else let expected = read_u32_be (drop (total_len - 4) buf); actual = crc (take (total_len - 4) buf);
                               rest = drop total_len buf
                           in if actual \<noteq> expected
                              then (Some (Inl (''event-stream: message CRC mismatch expected='' @ hex08 expected
                                      @ '' actual='' @ hex08 actual)), rest)
                              else (Some (try_with (parse_headers (take headers_len (drop 12 buf)))
                                      (\<lambda>hs. Inr \<lparr>em_headers = hs,
                                          em_payload = take (total_len - 16 - headers_len) (drop (12 + headers_len) buf)\<rparr>)), rest))"

definition event_stream_error_message :: "json json_api \<Rightarrow> string \<Rightarrow> string option" where
  "event_stream_error_message js payload =
     Option.bind (js_from_str js payload)
       (\<lambda>value. find_map (get_str value) [''message'', ''Message'', ''errorMessage'', ''originalMessage''])"

definition event_stream_error :: "json json_api \<Rightarrow> event_message \<Rightarrow> string option" where
  "event_stream_error js m =
     (let event_type = em_header m '':event-type''
      in if em_header m '':message-type'' = Some ''exception''
            \<or> (case event_type of Some kind \<Rightarrow> str_ends_with (to_ascii_lowercase kind) ''exception'' | None \<Rightarrow> False)
         then Some (''bedrock stream '' @ (case event_type of Some kind \<Rightarrow> kind | None \<Rightarrow> ''exception'') @ '': ''
                @ (case event_stream_error_message js (em_payload m) of Some t \<Rightarrow> t | None \<Rightarrow> ''upstream stream error''))
         else None)"

definition unwrap_chunk :: "json json_api \<Rightarrow> (string \<Rightarrow> string option) \<Rightarrow> string \<Rightarrow> json option" where
  "unwrap_chunk js b64 payload =
     Option.bind (js_from_str js payload)
       (\<lambda>wrapper. Option.bind (get_str wrapper ''bytes'') (\<lambda>s. Option.bind (b64 s) (js_from_str js)))"

lemma next_message_shorter: "next_message crc buf = (Some r, rest) \<Longrightarrow> length rest < length buf"
  by (auto simp: next_message_def Let_def split: if_splits)

function event_drain ::
  "json json_api \<Rightarrow> (string \<Rightarrow> u32) \<Rightarrow> (string \<Rightarrow> string option) \<Rightarrow> string \<Rightarrow> json list \<Rightarrow> (string + json list) \<times> string" where
  "event_drain js crc b64 buf out =
     (case next_message crc buf of
        (None, rest) \<Rightarrow> (Inr out, rest)
      | (Some (Inl e), rest) \<Rightarrow> (Inl e, rest)
      | (Some (Inr m), rest) \<Rightarrow>
          (case event_stream_error js m of
             Some e \<Rightarrow> (Inl e, rest)
           | None \<Rightarrow> event_drain js crc b64 rest
               (out @ (case unwrap_chunk js b64 (em_payload m) of Some v \<Rightarrow> [v] | None \<Rightarrow> []))))"
  by pat_completeness auto

termination event_drain
  by (relation "measure (\<lambda>(js, crc, b64, buf, out). length buf)") (auto dest: next_message_shorter [OF sym])

declare event_drain.simps [simp del]

definition event_push ::
  "json json_api \<Rightarrow> (string \<Rightarrow> u32) \<Rightarrow> (string \<Rightarrow> string option) \<Rightarrow> string \<Rightarrow> string \<Rightarrow> (string + json list) \<times> string" where
  "event_push js crc b64 buf chunk = event_drain js crc b64 (buf @ chunk) []"

end
