(* ===== verification/Wire_Facts.thy ===== *)
theory Wire_Facts
  imports Wire_Framing Openai_Chat
begin

text \<open>
  What the SSE framer reads does not depend on how the network cuts the bytes, as long as no cut
  falls inside a character; and the frames the gateway writes are read back.
\<close>

section \<open>Text that passes unchanged\<close>

function utf8_valid :: "string \<Rightarrow> bool" where
  "utf8_valid [] = True"
| "utf8_valid (c # cs) = (case utf8_head c cs of (ok, n) \<Rightarrow> ok \<and> utf8_valid (drop n (c # cs)))"
  by pat_completeness auto

lemma utf8_head_step: "utf8_head c cs = (ok, n) \<Longrightarrow> length (drop n (c # cs)) < length (c # cs)"
  using utf8_head_pos [of c cs] by simp

termination utf8_valid
  by (relation "measure length") (simp, auto simp del: length_drop dest: utf8_head_step [OF sym] utf8_head_step)

lemma utf8_lossy_valid: "utf8_valid s \<Longrightarrow> utf8_lossy s = s"
proof (induction s rule: utf8_lossy.induct)
  case (2 c cs)
  obtain ok n where h: "utf8_head c cs = (ok, n)" by fastforce
  with 2 have "utf8_lossy (drop n (c # cs)) = drop n (c # cs)" and "ok"
    by simp_all
  with h show ?case
    by (simp only: utf8_lossy.simps Let_def prod.case if_True append_take_drop_id)
qed simp

lemma utf8_ascii: "list_all (\<lambda>c. byte c < 128) s \<Longrightarrow> utf8_valid s"
  by (induction s rule: utf8_valid.induct) (simp_all add: utf8_head_def)

lemma replace_crlf_id: "CHR 0x0D \<notin> set s \<Longrightarrow> replace_crlf s = s"
  by (induction s rule: replace_crlf.induct) auto

lemma normalize_newlines_id: "CHR 0x0D \<notin> set s \<Longrightarrow> normalize_newlines s = s"
  by (auto simp: normalize_newlines_def replace_crlf_id intro!: map_idI)

section \<open>Cuts\<close>

lemma starts_with_append: "length p \<le> length s \<Longrightarrow> starts_with (s @ t) p = starts_with s p"
  by (simp add: starts_with_def)

lemma split_once_append: "sep \<noteq> [] \<Longrightarrow> split_once sep s = Some (a, b) \<Longrightarrow> split_once sep (s @ t) = Some (a, b @ t)"
proof (induction s arbitrary: a)
  case (Cons c cs)
  have "c # cs = a @ sep @ b" using split_once_Some [OF Cons.prems(2)] .
  then have len: "length sep \<le> length (c # cs)" by simp
  then have drop: "drop (length sep) ((c # cs) @ t) = drop (length sep) (c # cs) @ t"
    by (simp only: drop_append) simp
  show ?case
    using Cons starts_with_append [OF len, of t] drop by (auto split: if_splits)
qed (auto simp: starts_with_def split: if_splits)

text \<open>The three ways a pass over the buffer goes on.\<close>

lemma sse_drain_induct:
  assumes "\<And>buf out. split_once [CHR 0x0A, CHR 0x0A] buf = None \<Longrightarrow> P buf out (Inr out, buf)"
    and "\<And>buf out frame rest e. split_once [CHR 0x0A, CHR 0x0A] buf = Some (frame, rest) \<Longrightarrow>
      parse_sse_frame js jerr (frame @ [CHR 0x0A, CHR 0x0A]) = Inl e \<Longrightarrow> P buf out (Inl e, rest)"
    and "\<And>buf out frame rest v. split_once [CHR 0x0A, CHR 0x0A] buf = Some (frame, rest) \<Longrightarrow>
      parse_sse_frame js jerr (frame @ [CHR 0x0A, CHR 0x0A]) = Inr v \<Longrightarrow>
      (\<And>out. P rest out (sse_drain js jerr rest out)) \<Longrightarrow>
      P buf out (sse_drain js jerr rest (out @ (case v of Some x \<Rightarrow> [x] | None \<Rightarrow> [])))"
  shows "P buf out (sse_drain js jerr buf out)"
proof (induction "length buf" arbitrary: buf out rule: less_induct)
  case less
  show ?case
  proof (cases "split_once [CHR 0x0A, CHR 0x0A] buf")
    case None
    then show ?thesis using assms(1) by (simp add: sse_drain.simps [of js jerr buf])
  next
    case (Some fr)
    obtain frame rest where fr: "fr = (frame, rest)" by (cases fr)
    then have "length rest < length buf"
      using Some by (auto dest: split_once_shorter [rotated])
    note IH = less [OF this]
    show ?thesis
      using assms(2) [OF Some [unfolded fr], of _ out] assms(3) [OF Some [unfolded fr] _ IH, of _ out]
      by (cases "parse_sse_frame js jerr (frame @ [CHR 0x0A, CHR 0x0A])")
        (simp_all add: sse_drain.simps [of js jerr buf] Some fr)
  qed
qed

lemma sse_drain_step:
  "split_once [CHR 0x0A, CHR 0x0A] buf = None \<Longrightarrow> sse_drain js jerr buf out = (Inr out, buf)"
  "split_once [CHR 0x0A, CHR 0x0A] buf = Some (frame, rest) \<Longrightarrow>
     parse_sse_frame js jerr (frame @ [CHR 0x0A, CHR 0x0A]) = Inl e \<Longrightarrow> sse_drain js jerr buf out = (Inl e, rest)"
  "split_once [CHR 0x0A, CHR 0x0A] buf = Some (frame, rest) \<Longrightarrow>
     parse_sse_frame js jerr (frame @ [CHR 0x0A, CHR 0x0A]) = Inr v \<Longrightarrow>
     sse_drain js jerr buf out = sse_drain js jerr rest (out @ (case v of Some x \<Rightarrow> [x] | None \<Rightarrow> []))"
  by (simp_all add: sse_drain.simps [of js jerr buf])

lemma sse_drain_append:
  "case sse_drain js jerr buf out of
     (Inr vs, rest) \<Rightarrow> sse_drain js jerr (buf @ ys) out = sse_drain js jerr (rest @ ys) vs
   | (Inl e, rest) \<Rightarrow> sse_drain js jerr (buf @ ys) out = (Inl e, rest @ ys)"
proof (rule sse_drain_induct [where P = "\<lambda>buf out r. case r of
        (Inr vs, rest) \<Rightarrow> sse_drain js jerr (buf @ ys) out = sse_drain js jerr (rest @ ys) vs
      | (Inl e, rest) \<Rightarrow> sse_drain js jerr (buf @ ys) out = (Inl e, rest @ ys)"])
  fix buf out frame rest v
  assume s: "split_once [CHR 0x0A, CHR 0x0A] buf = Some (frame, rest)"
    and p: "parse_sse_frame js jerr (frame @ [CHR 0x0A, CHR 0x0A]) = Inr v"
    and IH: "\<And>out. case sse_drain js jerr rest out of
        (Inr vs, rest') \<Rightarrow> sse_drain js jerr (rest @ ys) out = sse_drain js jerr (rest' @ ys) vs
      | (Inl e, rest') \<Rightarrow> sse_drain js jerr (rest @ ys) out = (Inl e, rest' @ ys)"
  from sse_drain_step(3) [OF split_once_append [OF _ s] p]
  have "sse_drain js jerr (buf @ ys) out = sse_drain js jerr (rest @ ys) (out @ (case v of Some x \<Rightarrow> [x] | None \<Rightarrow> []))"
    by simp
  with IH [of "out @ (case v of Some x \<Rightarrow> [x] | None \<Rightarrow> [])"]
  show "case sse_drain js jerr rest (out @ (case v of Some x \<Rightarrow> [x] | None \<Rightarrow> [])) of
        (Inr vs, rest') \<Rightarrow> sse_drain js jerr (buf @ ys) out = sse_drain js jerr (rest' @ ys) vs
      | (Inl e, rest') \<Rightarrow> sse_drain js jerr (buf @ ys) out = (Inl e, rest' @ ys)"
    by (auto split: prod.splits sum.splits)
next
  fix buf out frame rest e
  assume s: "split_once [CHR 0x0A, CHR 0x0A] buf = Some (frame, rest)"
    and p: "parse_sse_frame js jerr (frame @ [CHR 0x0A, CHR 0x0A]) = Inl e"
  from sse_drain_step(2) [OF split_once_append [OF _ s] p]
  show "case (Inl e, rest) of
        (Inr vs, rest) \<Rightarrow> sse_drain js jerr (buf @ ys) out = sse_drain js jerr (rest @ ys) vs
      | (Inl e, rest) \<Rightarrow> sse_drain js jerr (buf @ ys) out = (Inl e, rest @ ys)"
    by simp
qed simp

lemma sse_drain_rest:
  "case sse_drain js jerr buf out of
     (Inr vs, rest) \<Rightarrow> length rest \<le> length buf \<and> split_once [CHR 0x0A, CHR 0x0A] rest = None | _ \<Rightarrow> True"
proof (rule sse_drain_induct [where P = "\<lambda>buf out r. case r of
        (Inr vs, rest) \<Rightarrow> length rest \<le> length buf \<and> split_once [CHR 0x0A, CHR 0x0A] rest = None | _ \<Rightarrow> True"])
  fix buf out frame rest v
  assume s: "split_once [CHR 0x0A, CHR 0x0A] buf = Some (frame, rest)"
    and IH: "\<And>out. case sse_drain js jerr rest out of
        (Inr vs, rest') \<Rightarrow> length rest' \<le> length rest \<and> split_once [CHR 0x0A, CHR 0x0A] rest' = None | _ \<Rightarrow> True"
  have "length rest < length buf" using split_once_shorter [OF _ s] by simp
  with IH [of "out @ (case v of Some x \<Rightarrow> [x] | None \<Rightarrow> [])"]
  show "case sse_drain js jerr rest (out @ (case v of Some x \<Rightarrow> [x] | None \<Rightarrow> [])) of
        (Inr vs, rest) \<Rightarrow> length rest \<le> length buf \<and> split_once [CHR 0x0A, CHR 0x0A] rest = None | _ \<Rightarrow> True"
    by (auto split: prod.splits sum.splits)
qed simp_all

definition drained :: "json list \<Rightarrow> (string + json list) \<times> string \<Rightarrow> (string + json list) \<times> string" where
  "drained out r = map_prod (map_sum (\<lambda>e. e) (\<lambda>vs. out @ vs)) (\<lambda>b. b) r"

lemma drained_drained: "drained a (drained b r) = drained (a @ b) r"
  by (cases r; cases "fst r") (simp_all add: drained_def)

lemma drained_Inr: "drained out r = (Inr vs, rest) \<Longrightarrow> \<exists>vs2. r = (Inr vs2, rest) \<and> vs = out @ vs2"
  by (cases r; cases "fst r") (auto simp: drained_def)

lemma sse_drain_out: "sse_drain js jerr buf out = drained out (sse_drain js jerr buf [])"
proof (rule sse_drain_induct [where P = "\<lambda>buf out r. r = drained out (sse_drain js jerr buf [])"])
  fix buf out frame rest v
  assume s: "split_once [CHR 0x0A, CHR 0x0A] buf = Some (frame, rest)"
    and p: "parse_sse_frame js jerr (frame @ [CHR 0x0A, CHR 0x0A]) = Inr v"
    and IH: "\<And>out. sse_drain js jerr rest out = drained out (sse_drain js jerr rest [])"
  show "sse_drain js jerr rest (out @ (case v of Some x \<Rightarrow> [x] | None \<Rightarrow> [])) = drained out (sse_drain js jerr buf [])"
    unfolding sse_drain_step(3) [OF s p] by (subst (1 2) IH) (simp add: drained_drained)
qed (simp_all add: sse_drain_step drained_def)

text \<open>The loop of the adapter over chunks: the values of each push, until one fails.\<close>

fun sse_run :: "json json_api \<Rightarrow> (string \<Rightarrow> string) \<Rightarrow> string \<Rightarrow> string list \<Rightarrow> json list \<times> string option" where
  "sse_run js jerr buf [] = ([], None)"
| "sse_run js jerr buf (chunk # chunks) =
     (case sse_push js jerr buf chunk of
        (Inl e, buf') \<Rightarrow> ([], Some e)
      | (Inr vs, buf') \<Rightarrow> (case sse_run js jerr buf' chunks of (vs', e) \<Rightarrow> (vs @ vs', e)))"

definition clean_chunk :: "string \<Rightarrow> bool" where
  "clean_chunk c \<longleftrightarrow> utf8_valid c \<and> CHR 0x0D \<notin> set c"

lemma sse_push_clean:
  "clean_chunk c \<Longrightarrow> length (buf @ c) \<le> max_sse_buffer_bytes \<Longrightarrow> sse_push js jerr buf c = sse_drain js jerr (buf @ c) []"
  by (simp add: sse_push_def clean_chunk_def utf8_lossy_valid normalize_newlines_id)

lemma sse_run_clean:
  assumes "list_all clean_chunk chunks" and "length (buf @ concat chunks) \<le> max_sse_buffer_bytes"
    and "sse_drain js jerr (buf @ concat chunks) [] = (Inr vs, rest)"
    and "split_once [CHR 0x0A, CHR 0x0A] buf = None"
  shows "sse_run js jerr buf chunks = (vs, None)"
  using assms
proof (induction chunks arbitrary: buf vs)
  case Nil
  then show ?case by (simp add: sse_drain_step)
next
  case (Cons c chunks)
  have push: "sse_push js jerr buf c = sse_drain js jerr (buf @ c) []"
    using Cons.prems by (intro sse_push_clean) auto
  note app = sse_drain_append [where buf = "buf @ c" and out = "[]" and ys = "concat chunks" and js = js and jerr = jerr, simplified] and len = sse_drain_rest [where buf = "buf @ c" and out = "[]" and js = js and jerr = jerr]
  obtain vs1 buf1 where d: "sse_drain js jerr (buf @ c) [] = (Inr vs1, buf1)"
    using app Cons.prems(3) by (cases "sse_drain js jerr (buf @ c) []") (auto split: sum.splits)
  then have "sse_drain js jerr (buf1 @ concat chunks) vs1 = (Inr vs, rest)"
    using app Cons.prems(3) by simp
  then obtain vs2 where vs2: "sse_drain js jerr (buf1 @ concat chunks) [] = (Inr vs2, rest)" "vs = vs1 @ vs2"
    by (subst (asm) sse_drain_out) (auto dest!: drained_Inr)
  have "sse_run js jerr buf1 chunks = (vs2, None)"
    using Cons.prems(1,2) len d vs2(1) by (intro Cons.IH) auto
  then show ?case
    by (simp add: push d vs2(2))
qed

section \<open>Frames that were written\<close>

text \<open>
  What \<open>serde_json\<close> documents of its compact printer, for an object: it parses back, is one line
  and stands between braces.
\<close>

definition compact :: "json json_api \<Rightarrow> json \<Rightarrow> bool" where
  "compact js v \<longleftrightarrow>
     (let t = js_to_string js v
      in js_from_str js t = Some v \<and> t \<noteq> [] \<and> hd t = CHR ''{'' \<and> last t = CHR ''}''
         \<and> CHR 0x0A \<notin> set t \<and> CHR 0x0D \<notin> set t)"

lemma split_once_blank: "CHR 0x0A \<notin> set s \<Longrightarrow> split_once [CHR 0x0A, CHR 0x0A] (s @ CHR 0x0A # CHR 0x0A # rest) = Some (s, rest)"
  by (induction s) (auto simp: starts_with_def)

lemma newline_chars [simp]: "char_of (10 :: nat) = CHR 0x0A" "char_of (13 :: nat) = CHR 0x0D"
  by (simp_all add: char_of_def bit_0)

lemma line_end_id: "CHR 0x0D \<notin> set l \<Longrightarrow> line_end l = l"
  by (cases l rule: rev_cases) (auto simp: line_end_def strip_suffix_def str_ends_with_def starts_with_def bytes_def)

lemma lines_from_line: "CHR 0x0A \<notin> set s \<Longrightarrow> lines_from cur (s @ CHR 0x0A # rest) = line_end (cur @ s) # lines_from [] rest"
  by (induction s arbitrary: cur) auto

lemma trim_matches_none: "find (\<lambda>p. p \<noteq> [] \<and> starts_with s p) ps = None \<Longrightarrow> trim_start_matches ps s = s"
  by (simp add: trim_start_matches.simps [of ps s])

definition solid :: "char \<Rightarrow> bool" where
  "solid c \<longleftrightarrow> list_all (\<lambda>p. hd p \<noteq> c \<and> last p \<noteq> c) white_spaces"

lemma starts_with_hd: "starts_with s p \<Longrightarrow> p \<noteq> [] \<Longrightarrow> s \<noteq> [] \<and> hd p = hd s"
  by (cases p; cases s) (auto simp: starts_with_def)

lemma str_trim_solid:
  assumes "s \<noteq> []" and "solid (hd s)" and "solid (last s)"
  shows "str_trim s = s"
proof -
  have "trim_start_matches white_spaces s = s"
    using assms by (intro trim_matches_none) (auto simp: find_None_iff solid_def list_all_iff dest: starts_with_hd)
  moreover have "trim_start_matches (map rev white_spaces) (rev s) = rev s"
  proof (rule trim_matches_none, unfold find_None_iff, rule notI)
    assume "\<exists>p. p \<in> set (map rev white_spaces) \<and> p \<noteq> [] \<and> starts_with (rev s) p"
    then obtain p where p: "p \<in> set white_spaces" "p \<noteq> []" "starts_with (rev s) (rev p)" by auto
    then have "last p = last s"
      using starts_with_hd [OF p(3)] assms(1) by (simp add: hd_rev)
    with p(1) assms(3) show False by (auto simp: solid_def list_all_iff)
  qed
  ultimately show ?thesis
    by (simp add: str_trim_def trim_start_def trim_end_matches_def)
qed

lemma solid_braces: "solid (CHR ''{'')" "solid (CHR ''}'')" "solid (CHR ''['')" "solid (CHR '']'')"
  by (simp_all add: solid_def white_spaces_def bytes_def char_of_def)

lemma frame_lines:
  assumes "CHR 0x0A \<notin> set t" and "CHR 0x0D \<notin> set t"
  shows "fold sse_line (str_lines ((''data: '' @ t) @ [CHR 0x0A, CHR 0x0A])) (None, []) = (None, [t])"
proof -
  have "str_lines ((''data: '' @ t) @ [CHR 0x0A, CHR 0x0A]) = [''data: '' @ t, []]"
    using assms lines_from_line [of "''data: '' @ t" "[]" "[CHR 0x0A]"] line_end_id [of "''data: '' @ t"] line_end_id [of "[]"]
    by (simp add: str_lines_def)
  then show ?thesis
    by (simp add: sse_line_def starts_with_def sse_field_def strip_prefix_def)
qed

lemma written_frame_reads:
  assumes "compact js v" and "json_get v ''error'' = None"
  shows "parse_sse_frame js jerr ((''data: '' @ js_to_string js v) @ [CHR 0x0A, CHR 0x0A]) = Inr (Some v)"
proof -
  let ?t = "js_to_string js v"
  have t: "js_from_str js ?t = Some v" "?t \<noteq> []" "hd ?t = CHR ''{''" "last ?t = CHR ''}''" "CHR 0x0A \<notin> set ?t" "CHR 0x0D \<notin> set ?t"
    using assms(1) by (simp_all add: compact_def Let_def)
  have "str_trim ?t = ?t" using t by (intro str_trim_solid) (simp_all add: solid_braces)
  moreover have "?t \<noteq> ''[DONE]''" using t(3) by auto
  ultimately show ?thesis
    using t assms(2) unfolding parse_sse_frame_def frame_lines [OF t(5,6)]
    by (simp add: stream_error_message_def)
qed

lemma done_frame_reads: "parse_sse_frame js jerr (''data: [DONE]'' @ [CHR 0x0A, CHR 0x0A]) = Inr None"
proof -
  have "str_trim ''[DONE]'' = ''[DONE]''" by (rule str_trim_solid) (simp_all add: solid_braces)
  then show ?thesis
    using frame_lines [of "''[DONE]''"] unfolding parse_sse_frame_def by simp
qed

lemma frames_drain:
  assumes "list_all (\<lambda>v. compact js v \<and> json_get v ''error'' = None) vs"
  shows "sse_drain js jerr (concat (map (sse_data js) vs) @ rest) out = sse_drain js jerr rest (out @ vs)"
  using assms
proof (induction vs arbitrary: out)
  case (Cons v vs)
  let ?t = "js_to_string js v" and ?rest = "concat (map (sse_data js) vs) @ rest"
  have lf: "CHR 0x0A \<notin> set (''data: '' @ ?t)"
    using Cons.prems by (simp add: compact_def Let_def)
  have "split_once [CHR 0x0A, CHR 0x0A] (concat (map (sse_data js) (v # vs)) @ rest) = Some (''data: '' @ ?t, ?rest)"
    using split_once_blank [OF lf, of ?rest] by (simp add: sse_data_def)
  moreover have "parse_sse_frame js jerr ((''data: '' @ ?t) @ [CHR 0x0A, CHR 0x0A]) = Inr (Some v)"
    using Cons.prems by (intro written_frame_reads) simp_all
  ultimately have "sse_drain js jerr (concat (map (sse_data js) (v # vs)) @ rest) out = sse_drain js jerr ?rest (out @ [v])"
    by (simp only: sse_drain_step(3) option.case)
  then show ?case using Cons by simp
qed simp

text \<open>
  However the network cuts the bytes of a stream the gateway wrote, the framer yields the values
  that were written.
\<close>

lemma sse_reads_back:
  assumes "list_all (\<lambda>v. compact js v \<and> json_get v ''error'' = None) vs"
    and "concat chunks = concat (map (sse_data js) vs) @ openai_done"
    and "list_all clean_chunk chunks" and "length (concat chunks) \<le> max_sse_buffer_bytes"
  shows "sse_run js jerr [] chunks = (vs, None)"
proof (rule sse_run_clean [OF assms(3)])
  have "split_once [CHR 0x0A, CHR 0x0A] (''data: [DONE]'' @ CHR 0x0A # CHR 0x0A # []) = Some (''data: [DONE]'', [])"
    by (rule split_once_blank) simp
  then have "sse_drain js jerr openai_done vs = sse_drain js jerr [] (vs @ [])"
    using sse_drain_step(3) [OF _ done_frame_reads, of openai_done "[]"] by (simp add: openai_done_def)
  then show "sse_drain js jerr ([] @ concat chunks) [] = (Inr vs, [])"
    by (simp add: assms(2) frames_drain [OF assms(1)] sse_drain_step(1))
qed (use assms(4) in auto)

section \<open>Where cuts matter\<close>

text \<open>
  A character that is cut between two chunks is lost: each half is decoded on its own and
  replaced. In one chunk the same bytes arrive as they are.
\<close>

lemma cut_character_lost:
  "snd (sse_push js jerr [] (bytes [195, 169])) = bytes [195, 169]"
  "snd (sse_push js jerr (snd (sse_push js jerr [] (bytes [195]))) (bytes [169])) = replacement_char @ replacement_char"
proof -
  have len: "\<not> max_sse_buffer_bytes < n" if "n \<le> 9" for n
    using that by (simp add: max_sse_buffer_bytes_def)
  have byte: "byte (char_of n) = n" if "n < 256" for n
    using that by (simp add: byte_def)
  have whole: "utf8_lossy (bytes [195, 169]) = bytes [195, 169]"
    by (simp add: bytes_def utf8_head_def byte cont_byte_def numeral_eq_Suc)
  have first: "utf8_lossy (bytes [195]) = replacement_char"
    by (simp add: bytes_def utf8_head_def byte numeral_eq_Suc)
  have second: "utf8_lossy (bytes [169]) = replacement_char"
    by (simp add: bytes_def utf8_head_def byte)
  have chars: "char_of (195 :: nat) \<noteq> CHR 0x0D" "char_of (169 :: nat) \<noteq> CHR 0x0D" "char_of (239 :: nat) \<noteq> CHR 0x0D"
    "char_of (191 :: nat) \<noteq> CHR 0x0D" "char_of (189 :: nat) \<noteq> CHR 0x0D"
    "char_of (195 :: nat) \<noteq> CHR 0x0A" "char_of (169 :: nat) \<noteq> CHR 0x0A" "char_of (239 :: nat) \<noteq> CHR 0x0A"
    "char_of (191 :: nat) \<noteq> CHR 0x0A" "char_of (189 :: nat) \<noteq> CHR 0x0A"
    by (simp_all add: char_of_def bit_0)
  show "snd (sse_push js jerr [] (bytes [195, 169])) = bytes [195, 169]"
    unfolding sse_push_def whole
    by (simp add: bytes_def normalize_newlines_def chars len sse_drain_step starts_with_def)
  show "snd (sse_push js jerr (snd (sse_push js jerr [] (bytes [195]))) (bytes [169])) = replacement_char @ replacement_char"
    unfolding sse_push_def first second
    by (simp add: replacement_char_def bytes_def normalize_newlines_def chars len sse_drain_step starts_with_def)
qed

text \<open>
  A failing frame discards the values of its chunk: a good frame before it is delivered only when
  the network happens to cut between the two.
\<close>

lemma error_discards_chunk:
  assumes "parse_sse_frame js jerr (good @ [CHR 0x0A, CHR 0x0A]) = Inr (Some v)"
    and "parse_sse_frame js jerr (bad @ [CHR 0x0A, CHR 0x0A]) = Inl e"
    and "CHR 0x0A \<notin> set good" and "CHR 0x0A \<notin> set bad"
  shows "fst (sse_drain js jerr (good @ [CHR 0x0A, CHR 0x0A] @ bad @ [CHR 0x0A, CHR 0x0A]) []) = Inl e"
    and "fst (sse_drain js jerr (good @ [CHR 0x0A, CHR 0x0A]) []) = Inr [v]"
  using split_once_blank [OF assms(3), of "bad @ [CHR 0x0A, CHR 0x0A]"] split_once_blank [OF assms(3), of "[]"]
    split_once_blank [OF assms(4), of "[]"] assms(1,2)
  by (simp_all add: sse_drain_step)

text \<open>A frame that carries \<open>"error": null\<close> counts as an error of the upstream.\<close>

lemma null_error_is_error: "stream_error_message (jobj [(''error'', JNull)]) = Some ''upstream stream error''"
  by (simp add: stream_error_message_def get_str_def)

end
