(* ===== verification/Event_Frames.thy ===== *)
theory Event_Frames
  imports Wire_Facts
begin

text \<open>
  The binary event stream against its documented layout: a frame put together as the format says
  is decoded to its headers and payload, consumes exactly its bytes, and an incomplete frame is
  left in the buffer.
\<close>

section \<open>The layout\<close>

definition be2 :: "nat \<Rightarrow> string" where
  "be2 n = map char_of [n div 256 mod 256, n mod 256]"

definition be4 :: "nat \<Rightarrow> string" where
  "be4 n = map char_of [n div 16777216 mod 256, n div 65536 mod 256, n div 256 mod 256, n mod 256]"

definition encode_header :: "string \<times> string \<Rightarrow> string" where
  "encode_header = (\<lambda>(name, value). char_of (length name) # name @ char_of (7 :: nat) # be2 (length value) @ value)"

definition event_prelude :: "(string \<times> string) list \<Rightarrow> string \<Rightarrow> string" where
  "event_prelude hs payload =
     (let h = length (concat (map encode_header hs)) in be4 (16 + h + length payload) @ be4 h)"

definition event_body :: "(string \<Rightarrow> u32) \<Rightarrow> (string \<times> string) list \<Rightarrow> string \<Rightarrow> string" where
  "event_body crc hs payload =
     event_prelude hs payload @ be4 (unat (crc (event_prelude hs payload))) @ concat (map encode_header hs) @ payload"

definition event_frame :: "(string \<Rightarrow> u32) \<Rightarrow> (string \<times> string) list \<Rightarrow> string \<Rightarrow> string" where
  "event_frame crc hs payload = event_body crc hs payload @ be4 (unat (crc (event_body crc hs payload)))"

definition header_ok :: "string \<times> string \<Rightarrow> bool" where
  "header_ok h \<longleftrightarrow> length (fst h) < 256 \<and> length (snd h) < 65536 \<and> utf8_valid (fst h) \<and> utf8_valid (snd h)"

section \<open>Decoding\<close>

lemma byte_char_of [simp]: "byte (char_of n) = n mod 256"
  by (simp add: byte_def)

lemma length_be [simp]: "length (be2 n) = 2" "length (be4 n) = 4"
  by (simp_all add: be2_def be4_def)

lemma be_nat_be2: "n < 65536 \<Longrightarrow> be_nat (be2 n) = n"
  by (simp add: be_nat_def be2_def)

lemma be_nat_be4:
  assumes "n < 2 ^ 32"
  shows "be_nat (be4 n) = n"
proof -
  define m where "m = n div 65536"
  have m: "n div 256 div 256 = m" "n div 16777216 = m div 256"
    by (simp_all add: m_def div_mult2_eq [symmetric])
  have "m < 65536" using assms by (simp add: m_def less_mult_imp_div_less)
  then have "be_nat (be4 n) = ((m div 256 * 256 + m mod 256) * 256 + n div 256 mod 256) * 256 + n mod 256"
    by (simp add: be_nat_def be4_def m m_def [symmetric])
  also have "\<dots> = (n div 256 div 256 * 256 + n div 256 mod 256) * 256 + n mod 256"
    by (simp only: m div_mult_mod_eq)
  finally show ?thesis
    by (simp only: div_mult_mod_eq)
qed

lemma read_be4: "n < 2 ^ 32 \<Longrightarrow> unat (read_u32_be (be4 n @ rest)) = n"
  by (simp add: read_u32_be_def be_nat_be4 unat_word_of_nat)

lemma read_be4_word: "read_u32_be (be4 (unat w) @ rest) = w"
proof -
  have "unat w < 2 ^ 32" using unsigned_less [of w, where ?'a = nat] by simp
  then show ?thesis by (simp add: read_u32_be_def be_nat_be4)
qed

lemma parse_encoded_headers:
  "list_all header_ok hs \<Longrightarrow> parse_headers (concat (map encode_header hs)) = Inr hs"
proof (induction hs)
  case Nil
  then show ?case by (simp add: parse_headers.simps)
next
  case (Cons h hs)
  obtain name v where h: "h = (name, v)" by (cases h)
  let ?rest = "concat (map encode_header hs)"
  have ok: "length name < 256" "length v < 65536" "utf8_lossy name = name" "utf8_lossy v = v"
    using Cons.prems by (simp_all add: header_ok_def h utf8_lossy_valid)
  have enc: "concat (map encode_header (h # hs)) =
      char_of (length name) # name @ char_of (7 :: nat) # be2 (length v) @ v @ ?rest"
    by (simp add: encode_header_def h)
  show ?case
    unfolding enc parse_headers.simps [of "char_of (length name) # xs" for xs]
    using ok Cons by (simp add: Let_def be_nat_be2 h)
qed

text \<open>
  C32: a message in the layout of the binary event stream, with headers of string type, is decoded
  to exactly its headers and its payload and consumes exactly its bytes, whatever follows it in the
  buffer; the checksum is any function.
\<close>
theorem event_frame_decodes:
  assumes "list_all header_ok hs"
    and "length (event_frame crc hs payload) \<le> max_event_stream_message_bytes"
  shows "next_message crc (event_frame crc hs payload @ rest) = (Some (Inr \<lparr>em_headers = hs, em_payload = payload\<rparr>), rest)"
proof -
  let ?h = "concat (map encode_header hs)"
  let ?p = "event_prelude hs payload" and ?b = "event_body crc hs payload"
  let ?buf = "event_frame crc hs payload @ rest"
  have len: "length ?p = 8" "length ?b = 12 + length ?h + length payload"
    "length (event_frame crc hs payload) = 16 + length ?h + length payload"
    by (simp_all add: event_prelude_def event_body_def event_frame_def Let_def)
  then have small: "16 + length ?h + length payload < 2 ^ 32"
    using assms(2) by (simp add: max_event_stream_message_bytes_def)
  have buf: "?buf = be4 (16 + length ?h + length payload) @ be4 (length ?h) @ be4 (unat (crc ?p)) @ ?h @ payload
      @ be4 (unat (crc ?b)) @ rest"
    by (simp add: event_frame_def event_body_def event_prelude_def Let_def)
  have total: "unat (read_u32_be ?buf) = 16 + length ?h + length payload"
    unfolding buf by (rule read_be4 [OF small])
  have headers: "unat (read_u32_be (drop 4 ?buf)) = length ?h"
    unfolding buf using small by (simp add: read_be4)
  have pcrc: "read_u32_be (drop 8 ?buf) = crc (take 8 ?buf)"
    by (simp add: event_frame_def event_body_def len read_be4_word)
  have mcrc: "read_u32_be (drop (length ?b) ?buf) = crc (take (length ?b) ?buf)"
    by (simp add: event_frame_def read_be4_word)
  have hs: "take (length ?h) (drop 12 (event_frame crc hs payload)) = ?h"
    and pl: "take (length payload) (drop (length ?h + 12) (event_frame crc hs payload)) = payload"
    by (simp_all add: event_frame_def event_body_def event_prelude_def Let_def)
  have rest: "drop (16 + length ?h + length payload) ?buf = rest"
    using len(3) by (metis append_eq_conv_conj)
  have long: "\<not> length ?buf < 12" "\<not> length ?buf < 16 + length ?h + length payload"
    using len by simp_all
  show ?thesis
    using assms(2) long mcrc
    unfolding next_message_def Let_def total headers pcrc
    by (simp add: len hs pl rest parse_encoded_headers [OF assms(1)] add.commute add.left_commute)
qed

theorem event_frame_decodes_witness:
  "next_message (\<lambda>s. word_of_nat (length s)) (event_frame (\<lambda>s. word_of_nat (length s)) [(''a'', ''b'')] ''{}'' @ ''next'') =
     (Some (Inr \<lparr>em_headers = [(''a'', ''b'')], em_payload = ''{}''\<rparr>), ''next'')"
  by (rule event_frame_decodes)
    (simp_all add: header_ok_def utf8_head_def byte_def event_frame_def event_body_def event_prelude_def encode_header_def
      Let_def max_event_stream_message_bytes_def)

end
