(* ===== verification/Anthropic_Messages.thy ===== *)
theory Anthropic_Messages
  imports Openai_Chat
begin

text \<open>
  The Anthropic Messages codec (\<open>sb-protocols/src/anthropic.rs\<close>): requests and responses in both
  directions, cache breakpoints, the token estimate, the decoder of an upstream event stream and
  the encoder that serves a canonical stream to an Anthropic client.
\<close>

section \<open>Pieces\<close>

definition default_max_tokens :: u32 where
  "default_max_tokens = 4096"

definition anthropic_passthrough_keys :: "string list" where
  "anthropic_passthrough_keys = [''thinking'', ''tool_choice'', ''stop_sequences'', ''top_p'', ''top_k'', ''service_tier'',
     ''metadata'', ''container'', ''mcp_servers'']"

definition image_from_anthropic_source :: "json option \<Rightarrow> string + json content_part" where
  "image_from_anthropic_source v =
     try_with (ok_or ''Anthropic image block missing `source`'' v)
       (\<lambda>src. case get_str src ''type'' of
          None \<Rightarrow> Inl ''Anthropic image source missing string `type`''
        | Some t \<Rightarrow>
            if t = ''base64'' then
              try_with (ok_or ''Anthropic base64 image missing `media_type`'' (get_str src ''media_type''))
                (\<lambda>media. try_with (ok_or ''Anthropic base64 image missing `data`'' (get_str src ''data''))
                   (\<lambda>dat. Inr (CpImage (InlineBase64 media dat) None)))
            else if t = ''url'' then
              try_with (ok_or ''Anthropic url image missing `url`'' (get_str src ''url''))
                (\<lambda>url. Inr (image_from_url url None))
            else if t = ''file'' then
              try_with (ok_or ''Anthropic file image missing `file_id`'' (get_str src ''file_id''))
                (\<lambda>i. Inr (CpImage (ProviderFileRef (Some ''anthropic'') i) None))
            else Inl (''unsupported Anthropic image source `'' @ t @ ''`''))"

definition image_to_anthropic_block :: "image_source \<Rightarrow> string + json" where
  "image_to_anthropic_block src =
     try_with (image_source_validate src)
       (\<lambda>_. try_with
          (case src of
             InlineBase64 media dat \<Rightarrow>
               Inr (jobj [(''type'', JString ''base64''), (''media_type'', JString media), (''data'', JString dat)])
           | RemoteUrl url \<Rightarrow> Inr (jobj [(''type'', JString ''url''), (''url'', JString url)])
           | ProviderFileRef p i \<Rightarrow> Inl ''Anthropic file image references require Files API beta header support'')
          (\<lambda>s. Inr (jobj [(''type'', JString ''image''), (''source'', s)])))"

definition stop_reason_to_finish :: "string option \<Rightarrow> finish_reason" where
  "stop_reason_to_finish reason =
     (if reason = Some ''end_turn'' \<or> reason = Some ''stop_sequence'' then FinishStop
      else if reason = Some ''max_tokens'' then FinishLength
      else if reason = Some ''tool_use'' then FinishToolCalls
      else FinishStop)"

fun finish_to_stop_reason :: "finish_reason \<Rightarrow> string" where
  "finish_to_stop_reason FinishStop = ''end_turn''"
| "finish_to_stop_reason FinishLength = ''max_tokens''"
| "finish_to_stop_reason FinishToolCalls = ''tool_use''"
| "finish_to_stop_reason FinishContentFilter = ''end_turn''"
| "finish_to_stop_reason FinishError = ''end_turn''"

definition cache_hint_from_cache_control :: "json \<Rightarrow> cache_hint" where
  "cache_hint_from_cache_control v =
     (let ttl = get_str v ''ttl''
      in \<lparr>ttl_seconds = (if ttl = Some ''1h'' then Some 3600 else if ttl = Some ''5m'' then Some 300 else None)\<rparr>)"

definition cache_control_wire :: "cache_hint \<Rightarrow> json" where
  "cache_control_wire hint =
     (case ttl_seconds hint of
        Some ttl \<Rightarrow> if 3600 \<le> ttl then jobj [(''type'', JString ''ephemeral''), (''ttl'', JString ''1h'')]
                     else jobj [(''type'', JString ''ephemeral'')]
      | None \<Rightarrow> jobj [(''type'', JString ''ephemeral'')])"

text \<open>\<open>last_mut().and_then(as_object_mut)\<close> followed by an insert.\<close>

definition mark_last :: "cache_hint \<Rightarrow> json list \<Rightarrow> json list" where
  "mark_last hint blocks =
     (if blocks = [] then []
      else butlast blocks @ [json_insert ''cache_control'' (cache_control_wire hint) (last blocks)])"

definition set_last_block_cache_control :: "json \<Rightarrow> cache_hint \<Rightarrow> json" where
  "set_last_block_cache_control m hint =
     (case json_get m ''content'' of
        Some (JArray blocks) \<Rightarrow> json_insert ''content'' (JArray (mark_last hint blocks)) m
      | _ \<Rightarrow> m)"

section \<open>Requests to upstreams\<close>

definition text_block :: "string \<Rightarrow> json" where
  "text_block text = jobj [(''type'', JString ''text''), (''text'', JString text)]"

definition tool_use_block :: "string \<Rightarrow> string \<Rightarrow> json \<Rightarrow> json" where
  "tool_use_block i name args =
     jobj [(''type'', JString ''tool_use''), (''id'', JString i), (''name'', JString name), (''input'', args)]"

definition tool_result_block :: "string \<Rightarrow> string \<Rightarrow> bool \<Rightarrow> json" where
  "tool_result_block i content err =
     jobj ([(''type'', JString ''tool_result''), (''tool_use_id'', JString i), (''content'', JString content)]
       @ (if err then [(''is_error'', JBool True)] else []))"

fun content_block :: "role \<Rightarrow> json content_part \<Rightarrow> string + json list" where
  "content_block role (CpText text) = Inr (if text \<noteq> [] then [text_block text] else [])"
| "content_block role (CpImage src d) =
     (if role \<noteq> User then Inl ''Anthropic can only encode image content in user messages''
      else try_with (image_to_anthropic_block src) (\<lambda>b. Inr [b]))"
| "content_block role (CpToolUse i name args) = Inr [tool_use_block i name args]"
| "content_block role (CpToolResult i content parts err) = Inr [tool_result_block i content err]"
| "content_block role (CpReasoning text signature) =
     Inr (case signature of
        Some sg \<Rightarrow> [jobj [(''type'', JString ''thinking''), (''thinking'', JString text), (''signature'', JString sg)]]
      | None \<Rightarrow> [])"
| "content_block role _ = Inr []"

definition message_content_blocks :: "json message \<Rightarrow> string + json list option" where
  "message_content_blocks m =
     try_with (try_map (content_block (msg_role m)) (msg_content m))
       (\<lambda>bss. Inr (if concat bss = [] then None else Some (concat bss)))"

text \<open>The loop over the messages: system chunks, wire messages, and the hints with their indices.\<close>

type_synonym wire_state = "string list \<times> json list \<times> (nat \<times> cache_hint) list"

definition anthropic_wire_message :: "json message \<Rightarrow> wire_state \<Rightarrow> string + wire_state" where
  "anthropic_wire_message m = (\<lambda>(chunks, messages, hints).
     if msg_role m = System then
       try_with (reject_image_parts (msg_content m) ''Anthropic system messages'')
         (\<lambda>_. let text = message_text m in Inr (if text \<noteq> [] then chunks @ [text] else chunks, messages, hints))
     else
       let role = (if msg_role m = Assistant then ''assistant'' else ''user'')
       in try_with (message_content_blocks m)
            (\<lambda>bs. case bs of
               None \<Rightarrow> Inr (chunks, messages, hints)
             | Some blocks \<Rightarrow> Inr (chunks,
                 messages @ [jobj [(''role'', JString role), (''content'', JArray blocks)]],
                 (case msg_cache_hint m of Some h \<Rightarrow> hints @ [(length messages, h)] | None \<Rightarrow> hints))))"

definition kept_hints :: "nat \<Rightarrow> (nat \<times> cache_hint) list \<Rightarrow> (nat \<times> cache_hint) list" where
  "kept_hints prefix hints = (if 4 < prefix + length hints then drop (length hints - 2) hints else hints)"

definition mark_messages :: "(nat \<times> cache_hint) list \<Rightarrow> json list \<Rightarrow> json list" where
  "mark_messages hints messages = fold (\<lambda>(i, h) ms. ms[i := set_last_block_cache_control (ms ! i) h]) hints messages"

definition anthropic_wire_tool :: "json tool_spec \<Rightarrow> json" where
  "anthropic_wire_tool t =
     jobj ([(''name'', JString (tool_name t))] @ opt_pair ''description'' JString (tool_description t)
       @ [(''input_schema'', tool_parameters t)] @ (if tool_defer_loading t then [(''defer_loading'', JBool True)] else []))"

definition anthropic_server_tool :: "json server_tool_spec \<Rightarrow> string + json" where
  "anthropic_server_tool t =
     (if st_protocol t \<noteq> AnthropicProtocol
      then Inl (''Anthropic cannot encode '' @ server_tool_protocol_as_str (st_protocol t) @ '' server tool `'' @ st_kind t @ ''`'')
      else Inr (st_config t))"

definition anthropic_wire_tools :: "json ai_request \<Rightarrow> cache_hint option \<Rightarrow> string + json list" where
  "anthropic_wire_tools req hint =
     try_with (try_map anthropic_server_tool (req_server_tools req))
       (\<lambda>server. let tools = map anthropic_wire_tool (req_tools req) @ server
          in Inr (case hint of Some h \<Rightarrow> mark_last h tools | None \<Rightarrow> tools))"

definition has_wire_tools :: "json ai_request \<Rightarrow> bool" where
  "has_wire_tools req \<longleftrightarrow> req_tools req \<noteq> [] \<or> req_server_tools req \<noteq> []"

definition tools_hint :: "json ai_request \<Rightarrow> cache_hint option" where
  "tools_hint req = (if has_wire_tools req then req_tools_cache_hint req else None)"

definition hint_count :: "'a option \<Rightarrow> nat" where
  "hint_count h = (if h = None then 0 else 1)"

definition system_value :: "json ai_request \<Rightarrow> string list \<Rightarrow> json option" where
  "system_value req chunks =
     (if chunks = [] then None
      else let text = join_with [CHR 0x0A] chunks
           in Some (case req_system_cache_hint req of
                Some h \<Rightarrow> JArray [jobj [(''type'', JString ''text''), (''text'', JString text), (''cache_control'', cache_control_wire h)]]
              | None \<Rightarrow> JString text))"

definition request_to_anthropic_wire :: "json ai_request \<Rightarrow> string \<Rightarrow> bool \<Rightarrow> string + json" where
  "request_to_anthropic_wire req upstream stream =
     try_with (validate_canonical req)
       (\<lambda>_. try_with (try_fold anthropic_wire_message (req_messages req)
              (case req_system req of Some s \<Rightarrow> (if s \<noteq> [] then [s] else []) | None \<Rightarrow> [], [], []))
          (\<lambda>(chunks, messages, hints).
             let prefix = hint_count (req_system_cache_hint req) + hint_count (tools_hint req);
                 marked = mark_messages (kept_hints prefix hints) messages
             in try_with (if has_wire_tools req then map_sum (\<lambda>e. e) (\<lambda>ts. [(''tools'', JArray ts)]) (anthropic_wire_tools req (tools_hint req))
                          else Inr [])
                  (\<lambda>tools. Inr (JObject (or_insert_all
                     (case bt_get (req_protocol_passthrough req) ''anthropic'' of Some m \<Rightarrow> m | None \<Rightarrow> [])
                     (bt_collect
                       ([(''model'', JString upstream),
                         (''max_tokens'', json_u32 (case req_max_output_tokens req of Some n \<Rightarrow> n | None \<Rightarrow> default_max_tokens)),
                         (''stream'', JBool stream), (''messages'', JArray marked)]
                        @ opt_pair ''system'' (\<lambda>v. v) (system_value req chunks) @ tools
                        @ opt_pair ''temperature'' JNumber
                            (Option.bind (req_temperature req) (\<lambda>t. number_from_f64 (f32_as_f64 t))))))))))"

section \<open>Responses\<close>

definition usage_from_json :: "json option \<Rightarrow> usage" where
  "usage_from_json v =
     (let u = (case v of Some (JObject m) \<Rightarrow> Some (JObject m) | _ \<Rightarrow> None)
      in default_usage\<lparr>us_input_tokens := openai_tokens u ''input_tokens'',
           us_output_tokens := openai_tokens u ''output_tokens'',
           us_cached_input_tokens := openai_tokens u ''cache_read_input_tokens''\<rparr>)"

definition anthropic_response_block :: "json \<Rightarrow> string + json content_part list" where
  "anthropic_response_block b =
     (let t = get_str b ''type'' in
      if t = Some ''text'' then
        Inr (case get_str b ''text'' of Some s \<Rightarrow> text_parts s | None \<Rightarrow> [])
      else if t = Some ''tool_use'' then
        try_with (ok_or ''tool_use block missing string `id`'' (get_str b ''id''))
          (\<lambda>i. try_with (ok_or ''tool_use block missing string `name`'' (get_str b ''name''))
             (\<lambda>name. Inr [CpToolUse i name (case json_get b ''input'' of Some v \<Rightarrow> v | None \<Rightarrow> JNull)]))
      else if t = Some ''thinking'' then
        Inr (case get_str b ''thinking'' of
               Some s \<Rightarrow> if s \<noteq> [] then [CpReasoning s (get_str b ''signature'')] else []
             | None \<Rightarrow> [])
      else Inr [])"

definition parse_anthropic_response :: "string \<Rightarrow> json \<Rightarrow> string + json ai_response" where
  "parse_anthropic_response fresh body =
     try_with (ok_or ''missing array `content`'' (get_array body ''content''))
       (\<lambda>content. try_with (try_map anthropic_response_block content)
          (\<lambda>parts. Inr \<lparr>resp_id = (case get_str body ''id'' of Some i \<Rightarrow> i | None \<Rightarrow> fresh),
             resp_model = str_or_empty (get_str body ''model''),
             resp_message = \<lparr>msg_role = Assistant, msg_content = concat parts, msg_cache_hint = None\<rparr>,
             resp_finish_reason = stop_reason_to_finish (get_str body ''stop_reason''),
             resp_usage = usage_from_json (json_get body ''usage'')\<rparr>))"

fun response_block :: "json content_part \<Rightarrow> json option" where
  "response_block (CpText text) = Some (text_block text)"
| "response_block (CpToolUse i name args) = Some (tool_use_block i name args)"
| "response_block (CpReasoning text signature) =
     Some (jobj ([(''type'', JString ''thinking''), (''thinking'', JString text)] @ opt_pair ''signature'' JString signature))"
| "response_block _ = None"

definition response_to_anthropic :: "json ai_response \<Rightarrow> json" where
  "response_to_anthropic resp = jobj
     [(''id'', JString (resp_id resp)), (''type'', JString ''message''), (''role'', JString ''assistant''),
      (''model'', JString (resp_model resp)),
      (''content'', JArray (List.map_filter response_block (msg_content (resp_message resp)))),
      (''stop_reason'', JString (finish_to_stop_reason (resp_finish_reason resp))), (''stop_sequence'', JNull),
      (''usage'', jobj [(''input_tokens'', json_u64 (us_input_tokens (resp_usage resp))),
         (''output_tokens'', json_u64 (us_output_tokens (resp_usage resp)))])]"

section \<open>Streams of upstreams\<close>

definition index_of :: "json \<Rightarrow> u32" where
  "index_of v = (case Option.bind (get_u64 v ''index'') u32_try_from of Some i \<Rightarrow> i | None \<Rightarrow> 0)"

record anthropic_decoder =
  ad_started :: bool
  ad_ended :: bool
  ad_tool_blocks :: "u32 set"
  ad_stop_reason :: "finish_reason option"
  ad_usage :: usage

definition new_anthropic_decoder :: anthropic_decoder where
  "new_anthropic_decoder = \<lparr>ad_started = False, ad_ended = False, ad_tool_blocks = {}, ad_stop_reason = None,
     ad_usage = default_usage\<rparr>"

definition sub_str :: "json option \<Rightarrow> string \<Rightarrow> string option" where
  "sub_str v k = Option.bind v (\<lambda>w. get_str w k)"

definition finish_or_stop :: "anthropic_decoder \<Rightarrow> finish_reason" where
  "finish_or_stop d = (case ad_stop_reason d of Some r \<Rightarrow> r | None \<Rightarrow> FinishStop)"

definition decode_block_start :: "anthropic_decoder \<Rightarrow> json \<Rightarrow> stream_event list \<times> anthropic_decoder" where
  "decode_block_start d v =
     (let index = index_of v; block = json_get v ''content_block''; t = sub_str block ''type'' in
      if t = Some ''tool_use'' then
        ([EvToolCallStart \<lparr>tcs_index = index, tcs_id = str_or_empty (sub_str block ''id''),
            tcs_name = str_or_empty (sub_str block ''name'')\<rparr>], d\<lparr>ad_tool_blocks := insert index (ad_tool_blocks d)\<rparr>)
      else if t = Some ''text'' then
        (case sub_str block ''text'' of Some s \<Rightarrow> (if s \<noteq> [] then [EvTextDelta s] else []) | None \<Rightarrow> [], d)
      else ([], d))"

definition decode_block_delta :: "json \<Rightarrow> stream_event list" where
  "decode_block_delta v =
     (let index = index_of v; delta = json_get v ''delta''; t = sub_str delta ''type'' in
      if t = Some ''text_delta'' then
        (case sub_str delta ''text'' of Some s \<Rightarrow> [EvTextDelta s] | None \<Rightarrow> [])
      else if t = Some ''input_json_delta'' then
        (case sub_str delta ''partial_json'' of Some s \<Rightarrow> [EvToolCallArgsDelta index s] | None \<Rightarrow> [])
      else if t = Some ''thinking_delta'' then
        (case sub_str delta ''thinking'' of Some s \<Rightarrow> [EvReasoningDelta s] | None \<Rightarrow> [])
      else [])"

definition decode_message_delta :: "anthropic_decoder \<Rightarrow> json \<Rightarrow> stream_event list \<times> anthropic_decoder" where
  "decode_message_delta d v =
     (let d1 = (case sub_str (json_get v ''delta'') ''stop_reason'' of
                  Some r \<Rightarrow> d\<lparr>ad_stop_reason := Some (stop_reason_to_finish (Some r))\<rparr> | None \<Rightarrow> d);
          d2 = (case Option.bind (json_get v ''usage'') (\<lambda>u. get_u64 u ''output_tokens'') of
                  Some n \<Rightarrow> d1\<lparr>ad_usage := (ad_usage d1)\<lparr>us_output_tokens := n\<rparr>\<rparr> | None \<Rightarrow> d1)
      in ([EvUsageDelta (ad_usage d2)], d2))"

definition anthropic_decode :: "anthropic_decoder \<Rightarrow> json \<Rightarrow> stream_event list \<times> anthropic_decoder" where
  "anthropic_decode d v =
     (let t = get_str v ''type'' in
      if t = Some ''message_start'' then
        (let m = json_get v ''message''
         in ([EvMessageStart (str_or_empty (sub_str m ''id'')) (str_or_empty (sub_str m ''model''))],
             d\<lparr>ad_started := True, ad_usage := usage_from_json (Option.bind m (\<lambda>w. json_get w ''usage''))\<rparr>))
      else if t = Some ''content_block_start'' then decode_block_start d v
      else if t = Some ''content_block_delta'' then (decode_block_delta v, d)
      else if t = Some ''content_block_stop'' then
        (if index_of v \<in> ad_tool_blocks d then [EvToolCallEnd (index_of v)] else [], d)
      else if t = Some ''message_delta'' then decode_message_delta d v
      else if t = Some ''message_stop'' then ([EvMessageEnd (finish_or_stop d)], d\<lparr>ad_ended := True\<rparr>)
      else ([], d))"

definition anthropic_decoder_finish :: "anthropic_decoder \<Rightarrow> stream_event list \<times> anthropic_decoder" where
  "anthropic_decoder_finish d =
     (if ad_started d \<and> \<not> ad_ended d then ([EvMessageEnd (finish_or_stop d)], d\<lparr>ad_ended := True\<rparr>) else ([], d))"

end
