(* ===== verification/Anthropic_Serving.thy ===== *)
theory Anthropic_Serving
  imports Anthropic_Messages
begin

text \<open>
  The side of the Anthropic codec that serves clients (\<open>sb-protocols/src/anthropic.rs\<close>): a client
  body into the canonical request, the token estimate, and the encoder of the event stream. A
  frame is its event name and its data.
\<close>

section \<open>Requests of clients\<close>

definition block_texts :: "json list \<Rightarrow> string list" where
  "block_texts blocks = List.map_filter (\<lambda>b. get_str b ''text'') blocks"

definition tool_result_text :: "json option \<Rightarrow> string" where
  "tool_result_text content =
     (case content of
        Some (JString s) \<Rightarrow> s
      | Some (JArray blocks) \<Rightarrow> concat (block_texts blocks)
      | _ \<Rightarrow> [])"

definition last_hint :: "json list \<Rightarrow> cache_hint option \<Rightarrow> cache_hint option" where
  "last_hint blocks hint =
     fold (\<lambda>b h. case json_get b ''cache_control'' of Some cc \<Rightarrow> Some (cache_hint_from_cache_control cc) | None \<Rightarrow> h) blocks hint"

text \<open>The top-level \<open>system\<close> field.\<close>

definition anthropic_system :: "json option \<Rightarrow> string option \<times> cache_hint option" where
  "anthropic_system v =
     (case v of
        Some (JString s) \<Rightarrow> (if s \<noteq> [] then Some s else None, None)
      | Some (JArray blocks) \<Rightarrow>
          (let s = concat (block_texts blocks) in (if s \<noteq> [] then Some s else None, last_hint blocks None))
      | _ \<Rightarrow> (None, None))"

definition append_system :: "string option \<Rightarrow> string \<Rightarrow> string option" where
  "append_system system text =
     Some (case system of Some s \<Rightarrow> if s \<noteq> [] then s @ [CHR 0x0A] @ text else text | None \<Rightarrow> text)"

definition system_message_text :: "json option \<Rightarrow> string" where
  "system_message_text content =
     (case content of
        Some (JString text) \<Rightarrow> text
      | Some (JArray blocks) \<Rightarrow>
          concat (List.map_filter (\<lambda>b. if get_str b ''type'' = Some ''text'' then get_str b ''text'' else None) blocks)
      | _ \<Rightarrow> [])"

text \<open>One block of a user turn: messages so far, the turn's breakpoint, parts not yet flushed.\<close>

type_synonym user_state = "json message list \<times> cache_hint option \<times> json content_part list"

definition flush_user :: "json message list \<Rightarrow> json content_part list \<Rightarrow> json message list" where
  "flush_user msgs parts =
     (if parts \<noteq> [] then msgs @ [\<lparr>msg_role = User, msg_content = parts, msg_cache_hint = None\<rparr>] else msgs)"

definition user_block :: "json \<Rightarrow> user_state \<Rightarrow> string + user_state" where
  "user_block b = (\<lambda>(msgs, hint, parts).
     let hint' = last_hint [b] hint; t = get_str b ''type'' in
     if t = Some ''text'' then
       Inr (msgs, hint', parts @ (case get_str b ''text'' of Some s \<Rightarrow> [CpText s] | None \<Rightarrow> []))
     else if t = Some ''image'' then
       try_with (image_from_anthropic_source (json_get b ''source'')) (\<lambda>p. Inr (msgs, hint', parts @ [p]))
     else if t = Some ''tool_result'' then
       try_with (ok_or ''tool_result missing string `tool_use_id`'' (get_str b ''tool_use_id''))
         (\<lambda>i. Inr (flush_user msgs parts @ [\<lparr>msg_role = Tool, msg_content = [CpToolResult i (tool_result_text (json_get b ''content'')) []
             (case get_bool b ''is_error'' of Some e \<Rightarrow> e | None \<Rightarrow> False)], msg_cache_hint = None\<rparr>], hint', []))
     else Inl (''unsupported Anthropic user content block `'' @ (case t of Some s \<Rightarrow> s | None \<Rightarrow> ''unknown'')
            @ ''`; multimodal content is not supported in this build''))"

definition hint_last :: "cache_hint option \<Rightarrow> nat \<Rightarrow> json message list \<Rightarrow> json message list" where
  "hint_last hint start msgs =
     (case hint of
        Some h \<Rightarrow> if start < length msgs then butlast msgs @ [(last msgs)\<lparr>msg_cache_hint := Some h\<rparr>] else msgs
      | None \<Rightarrow> msgs)"

definition assistant_block :: "json \<Rightarrow> string + json content_part list" where
  "assistant_block b =
     (let t = get_str b ''type'' in
      if t = Some ''text'' then Inr (case get_str b ''text'' of Some s \<Rightarrow> [CpText s] | None \<Rightarrow> [])
      else if t = Some ''tool_use'' then
        try_with (ok_or ''tool_use missing string `id`'' (get_str b ''id''))
          (\<lambda>i. try_with (ok_or ''tool_use missing string `name`'' (get_str b ''name''))
             (\<lambda>name. Inr [CpToolUse i name (case json_get b ''input'' of Some v \<Rightarrow> v | None \<Rightarrow> JNull)]))
      else Inl (''unsupported Anthropic assistant content block `'' @ (case t of Some s \<Rightarrow> s | None \<Rightarrow> ''unknown'') @ ''`''))"

definition anthropic_message :: "json \<Rightarrow> string option \<times> json message list \<Rightarrow> string + string option \<times> json message list" where
  "anthropic_message m = (\<lambda>(system, msgs).
     try_with (ok_or ''message missing string `role`'' (get_str m ''role''))
       (\<lambda>role.
          let content = json_get m ''content'' in
          if role = ''system'' then
            (let text = system_message_text content in Inr (if text \<noteq> [] then append_system system text else system, msgs))
          else if role = ''user'' then
            (case content of
               Some (JString text) \<Rightarrow> Inr (system, msgs @ [\<lparr>msg_role = User, msg_content = [CpText text], msg_cache_hint = None\<rparr>])
             | Some (JArray blocks) \<Rightarrow>
                 try_with (try_fold user_block blocks (msgs, None, []))
                   (\<lambda>(msgs', hint, parts). Inr (system, hint_last hint (length msgs) (flush_user msgs' parts)))
             | _ \<Rightarrow> Inr (system, msgs))
          else if role = ''assistant'' then
            try_with (case content of
                Some (JString text) \<Rightarrow> Inr (text_parts text, None)
              | Some (JArray blocks) \<Rightarrow>
                  try_with (try_map assistant_block blocks) (\<lambda>pss. Inr (concat pss, last_hint blocks None))
              | _ \<Rightarrow> Inr ([], None))
              (\<lambda>(parts, hint). Inr (system, msgs @ [\<lparr>msg_role = Assistant, msg_content = parts, msg_cache_hint = hint\<rparr>]))
          else Inl (''unsupported message role `'' @ role @ ''`'')))"

text \<open>One tool: a client tool or a server tool.\<close>

definition anthropic_tool ::
  "json \<Rightarrow> json tool_spec list \<times> json server_tool_spec list \<Rightarrow> string + json tool_spec list \<times> json server_tool_spec list" where
  "anthropic_tool v = (\<lambda>(tools, server).
     case get_str v ''type'' of
       Some kind \<Rightarrow> Inr (tools, server @ [\<lparr>st_protocol = AnthropicProtocol, st_kind = kind, st_config = v\<rparr>])
     | None \<Rightarrow>
         try_with (ok_or ''tool missing string `name`'' (get_str v ''name''))
           (\<lambda>name. Inr (tools @ [\<lparr>tool_name = name, tool_description = get_str v ''description'',
              tool_parameters = (case json_get v ''input_schema'' of Some p \<Rightarrow> p | None \<Rightarrow> JNull),
              tool_defer_loading = (case get_bool v ''defer_loading'' of Some b \<Rightarrow> b | None \<Rightarrow> False)\<rparr>], server)))"

definition anthropic_passthrough :: "json \<Rightarrow> (string \<times> json) list" where
  "anthropic_passthrough body =
     bt_collect (List.map_filter (\<lambda>k. map_option (\<lambda>v. (k, v)) (json_get body k)) anthropic_passthrough_keys)"

definition request_from_anthropic :: "string \<Rightarrow> json \<Rightarrow> string + json ai_request" where
  "request_from_anthropic fresh body =
     try_with (ok_or ''missing or invalid `model`'' (get_str body ''model''))
       (\<lambda>model. let (system, system_hint) = anthropic_system (json_get body ''system'')
          in try_with (ok_or ''missing or invalid `messages`'' (get_array body ''messages''))
               (\<lambda>messages. try_with (try_fold anthropic_message messages (system, []))
                  (\<lambda>(system, msgs).
                     let tools = (case get_array body ''tools'' of Some ts \<Rightarrow> ts | None \<Rightarrow> [])
                     in try_with (try_fold anthropic_tool tools ([], []))
                          (\<lambda>(client, server). Inr ((new_request fresh model msgs)
                             \<lparr>req_system := system, req_system_cache_hint := system_hint,
                              req_tools := client, req_server_tools := server, req_tools_cache_hint := last_hint tools None,
                              req_stream := (case get_bool body ''stream'' of Some b \<Rightarrow> b | None \<Rightarrow> False),
                              req_temperature := map_option f64_as_f32 (get_f64 body ''temperature''),
                              req_max_output_tokens := Option.bind (get_u64 body ''max_tokens'') u32_try_from,
                              req_protocol_passthrough := (let p = anthropic_passthrough body
                                in if p = [] then [] else [(''anthropic'', p)])\<rparr>)))))"

section \<open>The token estimate\<close>

fun part_chars :: "json json_api \<Rightarrow> json content_part \<Rightarrow> nat" where
  "part_chars js (CpText t) = length t"
| "part_chars js (CpReasoning t s) = length t"
| "part_chars js (CpCitation url t q) = length url"
| "part_chars js (CpServerToolResult i n c) = length c"
| "part_chars js (CpServerToolUse i n a) = length n"
| "part_chars js (CpImage s d) = 0"
| "part_chars js (CpToolUse i n a) = length n + length (js_to_string js a)"
| "part_chars js (CpToolResult i c ps e) = length c"

definition estimate_input_tokens :: "json json_api \<Rightarrow> json ai_request \<Rightarrow> u64" where
  "estimate_input_tokens js req =
     (let chars = length (str_or_empty (req_system req)) + sum_list (map (part_chars js) (all_parts req))
            + sum_list (map (\<lambda>t. length (tool_name t) + length (js_to_string js (tool_parameters t))) (req_tools req))
      in word_of_nat ((chars + 3) div 4) + word_of_nat (1600 * image_count req))"

section \<open>Streams to clients\<close>

datatype open_block = OpenText u32 | OpenReasoning u32 | OpenTool u32

fun open_index :: "open_block \<Rightarrow> u32" where
  "open_index (OpenText i) = i"
| "open_index (OpenReasoning i) = i"
| "open_index (OpenTool i) = i"

record anthropic_encoder =
  ae_id :: string
  ae_model :: string
  ae_message_started :: bool
  ae_ended :: bool
  ae_open_block :: "open_block option"
  ae_next_index :: u32
  ae_tool_index_map :: "u32 \<rightharpoonup> u32"
  ae_usage :: usage

definition new_anthropic_encoder :: "string \<Rightarrow> string \<Rightarrow> anthropic_encoder" where
  "new_anthropic_encoder i model = \<lparr>ae_id = i, ae_model = model, ae_message_started = False, ae_ended = False,
     ae_open_block = None, ae_next_index = 0, ae_tool_index_map = Map.empty, ae_usage = default_usage\<rparr>"

type_synonym sse_frame = "string \<times> json"

definition ensure_started :: "anthropic_encoder \<Rightarrow> anthropic_encoder \<times> sse_frame list" where
  "ensure_started e =
     (if ae_message_started e then (e, [])
      else (e\<lparr>ae_message_started := True\<rparr>,
        [(''message_start'', jobj [(''type'', JString ''message_start''), (''message'', jobj
           [(''id'', JString (ae_id e)), (''type'', JString ''message''), (''role'', JString ''assistant''),
            (''model'', JString (ae_model e)), (''content'', JArray []), (''stop_reason'', JNull), (''stop_sequence'', JNull),
            (''usage'', jobj [(''input_tokens'', json_u64 (us_input_tokens (ae_usage e))), (''output_tokens'', json_u64 0)])])])]))"

definition stop_frame :: "u32 \<Rightarrow> sse_frame" where
  "stop_frame i = (''content_block_stop'', jobj [(''type'', JString ''content_block_stop''), (''index'', json_u32 i)])"

definition close_block :: "anthropic_encoder \<Rightarrow> anthropic_encoder \<times> sse_frame list" where
  "close_block e =
     (case ae_open_block e of
        Some b \<Rightarrow> (e\<lparr>ae_open_block := None\<rparr>, [stop_frame (open_index b)])
      | None \<Rightarrow> (e, []))"

definition start_frame :: "u32 \<Rightarrow> json \<Rightarrow> sse_frame" where
  "start_frame i block = (''content_block_start'', jobj [(''type'', JString ''content_block_start''), (''index'', json_u32 i),
     (''content_block'', block)])"

definition delta_frame :: "u32 \<Rightarrow> json \<Rightarrow> sse_frame" where
  "delta_frame i delta = (''content_block_delta'', jobj [(''type'', JString ''content_block_delta''), (''index'', json_u32 i),
     (''delta'', delta)])"

text \<open>Close what is open and start a block under the next index.\<close>

definition begin_block :: "(u32 \<Rightarrow> open_block) \<Rightarrow> json \<Rightarrow> anthropic_encoder \<Rightarrow> anthropic_encoder \<times> sse_frame list" where
  "begin_block mk block e =
     (let (e1, closed) = close_block e; i = ae_next_index e1
      in (e1\<lparr>ae_next_index := i + 1, ae_open_block := Some (mk i)\<rparr>, closed @ [start_frame i block]))"

fun is_open_text :: "open_block option \<Rightarrow> bool" where
  "is_open_text (Some (OpenText i)) = True"
| "is_open_text _ = False"

fun is_open_reasoning :: "open_block option \<Rightarrow> bool" where
  "is_open_reasoning (Some (OpenReasoning i)) = True"
| "is_open_reasoning _ = False"

definition open_or_0 :: "anthropic_encoder \<Rightarrow> u32" where
  "open_or_0 e = (case ae_open_block e of Some b \<Rightarrow> open_index b | None \<Rightarrow> 0)"

fun anthropic_event :: "anthropic_encoder \<Rightarrow> stream_event \<Rightarrow> anthropic_encoder \<times> sse_frame list" where
  "anthropic_event e (EvMessageStart i m) =
     ensure_started (e\<lparr>ae_id := if ae_id e = [] then i else ae_id e, ae_model := if ae_model e = [] then m else ae_model e\<rparr>)"
| "anthropic_event e (EvOutputImage m d) = (e, [])"
| "anthropic_event e (EvCitation u t) = (e, [])"
| "anthropic_event e (EvServerToolCall i n s) = (e, [])"
| "anthropic_event e (EvTextDelta text) =
     (if text = [] then (e, [])
      else let (e1, fs1) = ensure_started e;
               (e2, fs2) = (if is_open_text (ae_open_block e1) then (e1, [])
                  else begin_block OpenText (jobj [(''type'', JString ''text''), (''text'', JString [])]) e1)
           in (e2, fs1 @ fs2 @ [delta_frame (open_or_0 e2) (jobj [(''type'', JString ''text_delta''), (''text'', JString text)])]))"
| "anthropic_event e (EvReasoningDelta text) =
     (let (e1, fs1) = ensure_started e;
          (e2, fs2) = (if is_open_reasoning (ae_open_block e1) then (e1, [])
             else begin_block OpenReasoning (jobj [(''type'', JString ''thinking''), (''thinking'', JString [])]) e1)
      in (e2, fs1 @ fs2 @ [delta_frame (open_or_0 e2) (jobj [(''type'', JString ''thinking_delta''), (''thinking'', JString text)])]))"
| "anthropic_event e (EvToolCallStart t) =
     (let (e1, fs1) = ensure_started e;
          (e2, fs2) = begin_block OpenTool (jobj [(''type'', JString ''tool_use''), (''id'', JString (tcs_id t)),
             (''name'', JString (tcs_name t)), (''input'', jobj [])]) e1
      in (e2\<lparr>ae_tool_index_map := (ae_tool_index_map e2)(tcs_index t \<mapsto> open_or_0 e2)\<rparr>, fs1 @ fs2))"
| "anthropic_event e (EvToolCallArgsDelta index json) =
     (let (e1, fs1) = ensure_started e
      in (e1, fs1 @ [delta_frame (case ae_tool_index_map e1 index of Some i \<Rightarrow> i | None \<Rightarrow> 0)
            (jobj [(''type'', JString ''input_json_delta''), (''partial_json'', JString json)])]))"
| "anthropic_event e (EvToolCallEnd index) =
     (case ae_open_block e of
        Some (OpenTool i) \<Rightarrow>
          if (case ae_tool_index_map e index of Some j \<Rightarrow> j | None \<Rightarrow> i) = i then close_block e else (e, [])
      | _ \<Rightarrow> (e, []))"
| "anthropic_event e (EvUsageDelta u) = (e\<lparr>ae_usage := u\<rparr>, [])"
| "anthropic_event e (EvMessageEnd reason) =
     (let (e1, fs1) = ensure_started e; (e2, fs2) = close_block e1
      in (e2\<lparr>ae_ended := True\<rparr>, fs1 @ fs2 @
        [(''message_delta'', jobj [(''type'', JString ''message_delta''),
           (''delta'', jobj [(''stop_reason'', JString (finish_to_stop_reason reason)), (''stop_sequence'', JNull)]),
           (''usage'', jobj [(''output_tokens'', json_u64 (us_output_tokens (ae_usage e2)))])]),
         (''message_stop'', jobj [(''type'', JString ''message_stop'')])]))"
| "anthropic_event e (EvError message k) = (e, [])"

definition anthropic_encode :: "anthropic_encoder \<Rightarrow> stream_event \<Rightarrow> anthropic_encoder \<times> sse_frame list" where
  "anthropic_encode e ev = (if ae_ended e then (e, []) else anthropic_event e ev)"

definition sse_event :: "json json_api \<Rightarrow> sse_frame \<Rightarrow> string" where
  "sse_event js = (\<lambda>(event, v). ''event: '' @ event @ [CHR 0x0A] @ ''data: '' @ js_to_string js v @ [CHR 0x0A, CHR 0x0A])"

end
