(* ===== verification/Anthropic_Facts.thy ===== *)
theory Anthropic_Facts
  imports Anthropic_Serving Openai_Facts
begin

text \<open>
  What an Anthropic client can rely on: the event stream it is served follows the protocol of the
  Messages API, and what it collects from it is what the gateway collected from the upstream.
\<close>

section \<open>The protocol of the event stream\<close>

text \<open>
  The protocol as an acceptor of frames: one \<open>message_start\<close> first; blocks numbered from zero, one
  open at a time, deltas only into the open block; \<open>message_delta\<close> and \<open>message_stop\<close> when all
  blocks are closed, and nothing after the stop.
\<close>

record wire_phase =
  wp_started :: bool
  wp_open :: "u32 option"
  wp_next :: u32
  wp_stopped :: bool

definition first_phase :: wire_phase where
  "first_phase = \<lparr>wp_started = False, wp_open = None, wp_next = 0, wp_stopped = False\<rparr>"

definition frame_step :: "sse_frame \<Rightarrow> wire_phase \<Rightarrow> wire_phase option" where
  "frame_step f p =
     (let (event, v) = f in
      if wp_stopped p \<or> get_str v ''type'' \<noteq> Some event then None
      else if event = ''message_start'' then (if wp_started p then None else Some (p\<lparr>wp_started := True\<rparr>))
      else if \<not> wp_started p then None
      else if event = ''content_block_start'' then
        (if wp_open p = None \<and> index_of v = wp_next p
         then Some (p\<lparr>wp_open := Some (wp_next p), wp_next := wp_next p + 1\<rparr>) else None)
      else if event = ''content_block_delta'' then (if wp_open p = Some (index_of v) then Some p else None)
      else if event = ''content_block_stop'' then (if wp_open p = Some (index_of v) then Some (p\<lparr>wp_open := None\<rparr>) else None)
      else if event = ''message_delta'' then (if wp_open p = None then Some p else None)
      else if event = ''message_stop'' then (if wp_open p = None then Some (p\<lparr>wp_stopped := True\<rparr>) else None)
      else None)"

fun frames_accepted :: "sse_frame list \<Rightarrow> wire_phase \<Rightarrow> wire_phase option" where
  "frames_accepted [] p = Some p"
| "frames_accepted (f # fs) p = Option.bind (frame_step f p) (frames_accepted fs)"

lemma frames_accepted_append:
  "frames_accepted (fs @ gs) p = Option.bind (frames_accepted fs p) (frames_accepted gs)"
proof (induction fs arbitrary: p)
  case (Cons f fs)
  then show ?case by (cases "frame_step f p") simp_all
qed simp

text \<open>The frames of a stream served to a client.\<close>

fun anthropic_stream :: "anthropic_encoder \<Rightarrow> stream_event list \<Rightarrow> sse_frame list" where
  "anthropic_stream e [] = []"
| "anthropic_stream e (ev # evs) = (case anthropic_encode e ev of (e', fs) \<Rightarrow> fs @ anthropic_stream e' evs)"

text \<open>
  Tool calls one after another: arguments belong to the tool call started last, and nothing else
  was streamed since.
\<close>

fun one_tool_at_a_time :: "u32 option \<Rightarrow> stream_event list \<Rightarrow> bool" where
  "one_tool_at_a_time cur [] = True"
| "one_tool_at_a_time cur (EvTextDelta t # evs) = one_tool_at_a_time (if t = [] then cur else None) evs"
| "one_tool_at_a_time cur (EvReasoningDelta t # evs) = one_tool_at_a_time None evs"
| "one_tool_at_a_time cur (EvToolCallStart t # evs) = one_tool_at_a_time (Some (tcs_index t)) evs"
| "one_tool_at_a_time cur (EvToolCallArgsDelta k a # evs) = (cur = Some k \<and> one_tool_at_a_time cur evs)"
| "one_tool_at_a_time cur (EvToolCallEnd k # evs) = one_tool_at_a_time None evs"
| "one_tool_at_a_time cur (EvMessageEnd r # evs) = one_tool_at_a_time None evs"
| "one_tool_at_a_time cur (ev # evs) = one_tool_at_a_time cur evs"

definition block_phase :: "anthropic_encoder \<Rightarrow> wire_phase" where
  "block_phase e = \<lparr>wp_started = ae_message_started e, wp_open = map_option open_index (ae_open_block e),
     wp_next = ae_next_index e, wp_stopped = ae_ended e\<rparr>"

definition current_tool :: "u32 option \<Rightarrow> anthropic_encoder \<Rightarrow> bool" where
  "current_tool cur e \<longleftrightarrow> (ae_open_block e \<noteq> None \<longrightarrow> ae_message_started e) \<and>
     (\<forall>k. cur = Some k \<longrightarrow> \<not> ae_ended e \<and> ae_message_started e
        \<and> (\<exists>i. ae_open_block e = Some (OpenTool i) \<and> ae_tool_index_map e k = Some i))"

lemma index_of_frame [simp]: "map_of (rev kvs) ''index'' = Some (json_u32 i) \<Longrightarrow> index_of (jobj kvs) = i"
  by (simp add: index_of_def get_u64_def)

lemma ensure_started_phase:
  "\<not> ae_ended e \<Longrightarrow> ensure_started e = (e1, fs) \<Longrightarrow>
     frames_accepted fs (block_phase e) = Some (block_phase e1) \<and> e1 = e\<lparr>ae_message_started := True\<rparr>"
  by (auto simp: ensure_started_def block_phase_def frame_step_def get_str_def split: if_splits)

lemma close_block_phase:
  "\<not> ae_ended e \<Longrightarrow> ae_message_started e \<Longrightarrow> close_block e = (e1, fs) \<Longrightarrow>
     frames_accepted fs (block_phase e) = Some (block_phase e1) \<and> e1 = e\<lparr>ae_open_block := None\<rparr>"
  by (auto simp: close_block_def block_phase_def frame_step_def stop_frame_def get_str_def split: option.splits)

lemma begin_block_phase:
  assumes "\<not> ae_ended e" and "ae_message_started e" and "begin_block mk block e = (e1, fs)" and "\<And>i. open_index (mk i) = i"
  shows "frames_accepted fs (block_phase e) = Some (block_phase e1)"
    and "e1 = e\<lparr>ae_next_index := ae_next_index e + 1, ae_open_block := Some (mk (ae_next_index e))\<rparr>"
proof -
  obtain e2 closed where c: "close_block e = (e2, closed)" by fastforce
  note cl = close_block_phase [OF assms(1,2) c]
  from assms(3) have e1: "e1 = e2\<lparr>ae_next_index := ae_next_index e2 + 1, ae_open_block := Some (mk (ae_next_index e2))\<rparr>"
    and fs: "fs = closed @ [start_frame (ae_next_index e2) block]"
    by (simp_all add: begin_block_def c Let_def)
  show "e1 = e\<lparr>ae_next_index := ae_next_index e + 1, ae_open_block := Some (mk (ae_next_index e))\<rparr>"
    using cl by (simp add: e1)
  show "frames_accepted fs (block_phase e) = Some (block_phase e1)"
    using cl assms(1,2,4)
    by (simp add: fs frames_accepted_append e1 block_phase_def frame_step_def start_frame_def get_str_def)
qed

lemma delta_frame_phase:
  "\<not> ae_ended e \<Longrightarrow> ae_message_started e \<Longrightarrow> map_option open_index (ae_open_block e) = Some i \<Longrightarrow>
     frame_step (delta_frame i d) (block_phase e) = Some (block_phase e)"
  by (simp add: frame_step_def delta_frame_def block_phase_def get_str_def)

text \<open>A text or reasoning delta, after the block it needs has been opened.\<close>

lemma delta_phase:
  assumes "\<not> ae_ended e" and "ensure_started e = (e1, fs1)"
    and "(if is_mine (ae_open_block e1) then (e1, []) else begin_block mk block e1) = (e2, fs2)"
    and "\<And>i. open_index (mk i) = i" and "\<And>b. is_mine b \<Longrightarrow> b \<noteq> None"
  shows "frames_accepted (fs1 @ fs2 @ [delta_frame (open_or_0 e2) d]) (block_phase e) = Some (block_phase e2)"
    and "ae_ended e2 = ae_ended e" and "ae_message_started e2"
proof -
  note st = ensure_started_phase [OF assms(1,2)]
  have e1: "\<not> ae_ended e1" "ae_message_started e1" using st assms(1) by simp_all
  have two: "frames_accepted fs2 (block_phase e1) = Some (block_phase e2) \<and> \<not> ae_ended e2 \<and> ae_message_started e2 \<and> ae_open_block e2 \<noteq> None"
  proof (cases "is_mine (ae_open_block e1)")
    case True
    then show ?thesis using assms(3,5) e1 by auto
  next
    case False
    then have "begin_block mk block e1 = (e2, fs2)" using assms(3) by simp
    from begin_block_phase [OF e1 this assms(4)] e1 show ?thesis by simp
  qed
  then have "frame_step (delta_frame (open_or_0 e2) d) (block_phase e2) = Some (block_phase e2)"
    by (intro delta_frame_phase) (auto simp: open_or_0_def)
  with st two show "frames_accepted (fs1 @ fs2 @ [delta_frame (open_or_0 e2) d]) (block_phase e) = Some (block_phase e2)"
    by (simp add: frames_accepted_append)
  show "ae_ended e2 = ae_ended e" "ae_message_started e2" using two assms(1) by simp_all
qed

lemma current_tool_None: "current_tool None e \<longleftrightarrow> (ae_open_block e \<noteq> None \<longrightarrow> ae_message_started e)"
  by (simp add: current_tool_def)

lemma usage_only_phase:
  "current_tool cur (e\<lparr>ae_usage := u\<rparr>) = current_tool cur e" "block_phase (e\<lparr>ae_usage := u\<rparr>) = block_phase e"
  by (simp_all add: current_tool_def block_phase_def)

lemma anthropic_event_phase:
  assumes "\<not> ae_ended e" and "current_tool cur e" and "one_tool_at_a_time cur (ev # evs)"
    and "anthropic_event e ev = (e', fs)"
  obtains cur' where "one_tool_at_a_time cur' evs" and "current_tool cur' e'"
    and "frames_accepted fs (block_phase e) = Some (block_phase e')" and "ae_ended e' \<longleftrightarrow> (\<exists>r. ev = EvMessageEnd r)"
proof (cases ev)
  case (EvMessageStart i m)
  let ?e = "e\<lparr>ae_id := if ae_id e = [] then i else ae_id e, ae_model := if ae_model e = [] then m else ae_model e\<rparr>"
  have "ensure_started ?e = (e', fs)" using assms(4) EvMessageStart by simp
  from ensure_started_phase [OF _ this] assms EvMessageStart show ?thesis
    by (intro that [of cur]) (auto simp: current_tool_def block_phase_def)
next
  case (EvTextDelta t)
  show ?thesis
  proof (cases "t = []")
    case True
    with assms EvTextDelta show ?thesis by (intro that [of cur]) auto
  next
    case False
    obtain e1 fs1 where st: "ensure_started e = (e1, fs1)" by fastforce
    obtain e2 fs2 where bb: "(if is_open_text (ae_open_block e1) then (e1, [])
        else begin_block OpenText (jobj [(''type'', JString ''text''), (''text'', JString [])]) e1) = (e2, fs2)" by fastforce
    have "b \<noteq> None" if "is_open_text b" for b using that by (cases b) auto
    note d = delta_phase [where is_mine = is_open_text and mk = OpenText, OF assms(1) st bb _ this]
    from d assms EvTextDelta False show ?thesis
      by (intro that [of None]) (auto simp: st bb current_tool_None)
  qed
next
  case (EvReasoningDelta t)
  obtain e1 fs1 where st: "ensure_started e = (e1, fs1)" by fastforce
  obtain e2 fs2 where bb: "(if is_open_reasoning (ae_open_block e1) then (e1, [])
      else begin_block OpenReasoning (jobj [(''type'', JString ''thinking''), (''thinking'', JString [])]) e1) = (e2, fs2)" by fastforce
  have "b \<noteq> None" if "is_open_reasoning b" for b using that by (cases b) auto
  note d = delta_phase [where is_mine = is_open_reasoning and mk = OpenReasoning, OF assms(1) st bb _ this]
  from d assms EvReasoningDelta show ?thesis
    by (intro that [of None]) (auto simp: st bb current_tool_None)
next
  case (EvToolCallStart t)
  obtain e1 fs1 where st: "ensure_started e = (e1, fs1)" by fastforce
  obtain e2 fs2 where bb: "begin_block OpenTool (jobj [(''type'', JString ''tool_use''), (''id'', JString (tcs_id t)),
             (''name'', JString (tcs_name t)), (''input'', jobj [])]) e1 = (e2, fs2)" by fastforce
  note s = ensure_started_phase [OF assms(1) st]
  have "\<not> ae_ended e1" "ae_message_started e1" using s assms(1) by simp_all
  note b = begin_block_phase [OF this bb, simplified]
  have e': "e' = e2\<lparr>ae_tool_index_map := (ae_tool_index_map e2)(tcs_index t \<mapsto> open_or_0 e2)\<rparr>" "fs = fs1 @ fs2"
    using assms(4) EvToolCallStart by (simp_all add: st bb)
  have "block_phase e' = block_phase e2" by (simp add: e' block_phase_def)
  then have "frames_accepted fs (block_phase e) = Some (block_phase e')"
    using s b by (simp add: e'(2) frames_accepted_append)
  with s b assms(1,3) EvToolCallStart show ?thesis
    by (intro that [of "Some (tcs_index t)"]) (auto simp: e' current_tool_def open_or_0_def)
next
  case (EvToolCallArgsDelta k a)
  then obtain i where tool: "cur = Some k" "ae_open_block e = Some (OpenTool i)" "ae_tool_index_map e k = Some i" "ae_message_started e"
    using assms(2,3) by (auto simp: current_tool_def)
  then have "ensure_started e = (e, [])" by (simp add: ensure_started_def)
  with EvToolCallArgsDelta assms tool show ?thesis
    by (intro that [of cur]) (auto simp: delta_frame_phase)
next
  case (EvToolCallEnd k)
  show ?thesis
  proof (cases "fs = []")
    case True
    then have "e' = e" using EvToolCallEnd assms(4)
      by (auto simp: close_block_def split: option.splits open_block.splits if_splits)
    with True EvToolCallEnd assms show ?thesis
      by (intro that [of None]) (auto simp: current_tool_def)
  next
    case False
    then obtain i where i: "ae_open_block e = Some (OpenTool i)" "close_block e = (e', fs)"
      using EvToolCallEnd assms(4) by (auto split: option.splits open_block.splits if_splits)
    then have "ae_message_started e" using assms(2) by (simp add: current_tool_def)
    from close_block_phase [OF assms(1) this i(2)] EvToolCallEnd assms show ?thesis
      by (intro that [of None]) (auto simp: current_tool_None)
  qed
next
  case (EvMessageEnd r)
  obtain e1 fs1 where st: "ensure_started e = (e1, fs1)" by fastforce
  obtain e2 fs2 where cl: "close_block e1 = (e2, fs2)" by fastforce
  note s = ensure_started_phase [OF assms(1) st]
  have "\<not> ae_ended e1" "ae_message_started e1" using s assms(1) by simp_all
  note c = close_block_phase [OF this cl]
  define d where "d = jobj [(''stop_reason'', JString (finish_to_stop_reason r)), (''stop_sequence'', JNull)]"
  define u where "u = jobj [(''output_tokens'', json_u64 (us_output_tokens (ae_usage e2)))]"
  have e': "e' = e2\<lparr>ae_ended := True\<rparr>"
    and fs: "fs = fs1 @ fs2 @ [(''message_delta'', jobj [(''type'', JString ''message_delta''), (''delta'', d), (''usage'', u)]),
      (''message_stop'', jobj [(''type'', JString ''message_stop'')])]"
    using assms(4) EvMessageEnd by (simp_all add: st cl d_def u_def)
  have "frames_accepted fs (block_phase e) = Some (block_phase e')"
    using s c assms(1)
    by (simp add: fs e' frames_accepted_append block_phase_def frame_step_def get_str_def)
  with assms(3) EvMessageEnd c show ?thesis
    by (intro that [of None]) (auto simp: e' current_tool_None)
next
  case (EvOutputImage a b)
  with assms show ?thesis by (intro that [of cur]) (auto simp: usage_only_phase)
next
  case (EvCitation a b)
  with assms show ?thesis by (intro that [of cur]) (auto simp: usage_only_phase)
next
  case (EvServerToolCall a b n)
  with assms show ?thesis by (intro that [of cur]) (auto simp: usage_only_phase)
next
  case (EvUsageDelta u)
  with assms show ?thesis by (intro that [of cur]) (auto simp: usage_only_phase)
next
  case (EvError m k)
  with assms show ?thesis by (intro that [of cur]) (auto simp: usage_only_phase)
qed

lemma ended_stream [simp]: "ae_ended e \<Longrightarrow> anthropic_stream e evs = []"
  by (induction evs) (simp_all add: anthropic_encode_def)

lemma anthropic_stream_phase:
  "\<not> ae_ended e \<Longrightarrow> current_tool cur e \<Longrightarrow> one_tool_at_a_time cur evs \<Longrightarrow>
     \<exists>p. frames_accepted (anthropic_stream e evs) (block_phase e) = Some p \<and> (wp_stopped p \<longleftrightarrow> (\<exists>r. EvMessageEnd r \<in> set evs))"
proof (induction evs arbitrary: e cur)
  case Nil
  then show ?case by (simp add: block_phase_def)
next
  case (Cons ev evs)
  obtain e' fs where ev: "anthropic_event e ev = (e', fs)" by fastforce
  from anthropic_event_phase [OF Cons.prems ev] obtain cur'
    where cur': "one_tool_at_a_time cur' evs" "current_tool cur' e'" "frames_accepted fs (block_phase e) = Some (block_phase e')"
      "ae_ended e' \<longleftrightarrow> (\<exists>r. ev = EvMessageEnd r)" by metis
  have stream: "anthropic_stream e (ev # evs) = fs @ anthropic_stream e' evs"
    using Cons.prems(1) by (simp add: anthropic_encode_def ev)
  show ?case
  proof (cases "ae_ended e'")
    case True
    then have "wp_stopped (block_phase e')" by (simp add: block_phase_def)
    with True cur' show ?thesis by (auto simp: stream frames_accepted_append simp del: anthropic_stream.simps)
  next
    case False
    from Cons.IH [OF False cur'(2,1)] cur'(3,4) False show ?thesis
      by (auto simp: stream frames_accepted_append simp del: anthropic_stream.simps)
  qed
qed

text \<open>
  C13: the stream an Anthropic client is served follows the protocol of the Messages API: one
  \<open>message_start\<close> before anything else, blocks numbered from zero and open one at a time, deltas
  only into the open block, every block closed before \<open>message_delta\<close>, and \<open>message_stop\<close> last,
  present exactly when the upstream ended its message. The upstream need only stream its tool calls
  one after another.
\<close>
theorem anthropic_frames_wellformed:
  assumes "one_tool_at_a_time None evs"
  shows "\<exists>p. frames_accepted (anthropic_stream (new_anthropic_encoder i m) evs) first_phase = Some p
    \<and> (wp_stopped p \<longleftrightarrow> (\<exists>r. EvMessageEnd r \<in> set evs))"
proof -
  have "block_phase (new_anthropic_encoder i m) = first_phase"
    by (simp add: block_phase_def new_anthropic_encoder_def first_phase_def)
  then show ?thesis
    using anthropic_stream_phase [of "new_anthropic_encoder i m" None evs] assms
    by (simp add: current_tool_None new_anthropic_encoder_def)
qed

text \<open>A stream with text, a tool call, text again and an end.\<close>

definition sample_events :: "stream_event list" where
  "sample_events = [EvMessageStart ''m'' ''x'', EvTextDelta ''a'', EvTextDelta ''b'',
     EvToolCallStart \<lparr>tcs_index = 0, tcs_id = ''t'', tcs_name = ''f''\<rparr>, EvToolCallArgsDelta 0 ''{}'', EvToolCallEnd 0,
     EvTextDelta ''c'', EvMessageEnd FinishStop]"

theorem anthropic_frames_wellformed_witness:
  "one_tool_at_a_time None sample_events \<and> (\<exists>p. frames_accepted (anthropic_stream (new_anthropic_encoder [] []) sample_events) first_phase = Some p
    \<and> wp_stopped p)"
proof -
  have ok: "one_tool_at_a_time None sample_events" by (simp add: sample_events_def)
  have "EvMessageEnd FinishStop \<in> set sample_events" by (simp add: sample_events_def)
  with anthropic_frames_wellformed [OF ok, of "[]" "[]"] ok show ?thesis by blast
qed

end
