(* ===== verification/Schema_Downlevel.thy ===== *)
theory Schema_Downlevel
  imports Json
begin

text \<open>
  Downleveling of JSON schemas to what a target's dialect accepts
  (\<open>sb-protocols/src/schema.rs\<close>). Warnings are only ever appended, so every function returns the
  warnings it adds; the loop over the keys of a node yields the insertions it makes, in order. The
  recursion is on the levels left, \<open>MAX_DOWNLEVEL_DEPTH - depth\<close>.
\<close>

section \<open>Dialects and warnings\<close>

record schema_caps =
  sc_unions :: bool
  sc_all_of :: bool
  sc_const_keyword :: bool
  sc_type_arrays :: bool
  sc_refs :: bool
  sc_string_enums_only :: bool
  sc_empty_objects :: bool
  sc_additional_properties :: bool

definition permissive_caps :: schema_caps where
  "permissive_caps = \<lparr>sc_unions = True, sc_all_of = True, sc_const_keyword = True, sc_type_arrays = True, sc_refs = True,
     sc_string_enums_only = False, sc_empty_objects = True, sc_additional_properties = True\<rparr>"

definition gemini_caps :: schema_caps where
  "gemini_caps = \<lparr>sc_unions = False, sc_all_of = False, sc_const_keyword = False, sc_type_arrays = False, sc_refs = False,
     sc_string_enums_only = True, sc_empty_objects = False, sc_additional_properties = False\<rparr>"

definition always_strip :: "string list" where
  "always_strip = [''$schema'', ''$id'', ''$comment'', ''$anchor'', ''examples'']"

datatype schema_lossiness = LossMetadata | LossLow | LossMedium | LossHigh

fun lossiness_as_str :: "schema_lossiness \<Rightarrow> string" where
  "lossiness_as_str LossMetadata = ''metadata''"
| "lossiness_as_str LossLow = ''low''"
| "lossiness_as_str LossMedium = ''medium''"
| "lossiness_as_str LossHigh = ''high''"

record schema_warning =
  sw_path :: string
  sw_keyword :: string
  sw_lossiness :: schema_lossiness
  sw_message :: string

definition prepend_path :: "string \<Rightarrow> schema_warning \<Rightarrow> schema_warning" where
  "prepend_path prefix w =
     (if prefix = [] then w
      else w\<lparr>sw_path := if sw_path w = [] then prefix else prefix @ sw_path w\<rparr>)"

definition show_warning :: "schema_warning \<Rightarrow> string" where
  "show_warning w = ''schema_downlevel:'' @ lossiness_as_str (sw_lossiness w) @ '':''
     @ (if sw_path w = [] then ''/'' else sw_path w) @ '':'' @ sw_keyword w @ '': '' @ sw_message w"

definition escape_json_pointer :: "string \<Rightarrow> string" where
  "escape_json_pointer s =
     concat (map (\<lambda>c. if c = CHR ''/'' then ''~1'' else [c])
       (concat (map (\<lambda>c. if c = CHR ''~'' then ''~0'' else [c]) s)))"

definition join_path :: "string \<Rightarrow> string \<Rightarrow> string" where
  "join_path p segment = (if p = [] then ''/'' @ escape_json_pointer segment else p @ ''/'' @ escape_json_pointer segment)"

definition warn :: "string \<Rightarrow> string \<Rightarrow> schema_lossiness \<Rightarrow> string \<Rightarrow> schema_warning" where
  "warn p keyword loss message =
     \<lparr>sw_path = join_path p keyword, sw_keyword = keyword, sw_lossiness = loss, sw_message = message\<rparr>"

section \<open>Helpers\<close>

definition stringify :: "json json_api \<Rightarrow> json \<Rightarrow> string" where
  "stringify js v = (case v of JString s \<Rightarrow> s | _ \<Rightarrow> js_to_string js v)"

text \<open>The first branch that is an object and not typed \<open>null\<close>, else the first object.\<close>

definition pick_branch :: "json list \<Rightarrow> (string \<times> json) list option" where
  "pick_branch branches =
     or_else (find_map (\<lambda>b. Option.bind (as_object b)
         (\<lambda>m. if get_str b ''type'' = Some ''null'' then None else Some m)) branches)
       (find_map as_object branches)"

definition or_insert_value :: "string \<Rightarrow> json \<Rightarrow> (string \<times> json) list \<Rightarrow> (string \<times> json) list" where
  "or_insert_value k v m = (case bt_get m k of Some _ \<Rightarrow> m | None \<Rightarrow> bt_insert k v m)"

definition merge_entry :: "string \<times> json \<Rightarrow> (string \<times> json) list \<Rightarrow> (string \<times> json) list" where
  "merge_entry = (\<lambda>(key, v) out.
     case bt_get out key of
       None \<Rightarrow> bt_insert key v out
     | Some old \<Rightarrow>
         (case (old, v) of
            (JObject existing, JObject incoming) \<Rightarrow>
              if key = ''properties''
              then bt_insert key (JObject (fold (\<lambda>(pk, pv). or_insert_value pk pv) incoming existing)) out else out
          | (JArray existing, JArray incoming) \<Rightarrow>
              if key = ''required''
              then bt_insert key (JArray (fold (\<lambda>item items. if item \<in> set items then items else items @ [item]) incoming existing)) out
              else out
          | _ \<Rightarrow> out))"

definition merge_into :: "(string \<times> json) list \<Rightarrow> (string \<times> json) list \<Rightarrow> (string \<times> json) list" where
  "merge_into out src = fold merge_entry src out"

definition max_downlevel_depth :: nat where
  "max_downlevel_depth = 100"

definition string_schema :: "(string \<times> json) list" where
  "string_schema = bt_insert ''type'' (JString ''string'') []"

definition placeholder_props :: json where
  "placeholder_props = jobj [(''_'', jobj [(''type'', JString ''string''),
     (''description'', JString ''placeholder (schema declared no properties)'')])]"

section \<open>The transformation\<close>

text \<open>A key that is dropped from a node, with the warning for it.\<close>

definition stripped :: "schema_caps \<Rightarrow> string \<Rightarrow> string \<Rightarrow> schema_warning list option" where
  "stripped caps p key =
     (if key \<in> set always_strip \<or> starts_with key ''x-''
      then Some [warn p key LossMetadata ''stripped schema metadata unsupported by provider dialect'']
      else if \<not> sc_unions caps \<and> (key = ''anyOf'' \<or> key = ''oneOf'')
      then Some [warn p key LossHigh ''dropped unsupported union keyword'']
      else if \<not> sc_all_of caps \<and> key = ''allOf''
      then Some [warn p key LossMedium ''merged unsupported `allOf` shallowly'']
      else if \<not> sc_const_keyword caps \<and> key = ''const'' then Some []
      else if \<not> sc_refs caps \<and> (key = ''$ref'' \<or> key = ''$defs'' \<or> key = ''definitions'')
      then Some [warn p key LossHigh ''dropped unsupported JSON Schema reference keyword'']
      else if \<not> sc_additional_properties caps \<and> key = ''additionalProperties''
      then Some [warn p key LossMedium ''dropped unsupported `additionalProperties` constraint'']
      else None)"

type_synonym node = "(string \<times> json) list"

definition union_of :: "node \<Rightarrow> (string \<times> json list) option" where
  "union_of m =
     or_else (map_option (\<lambda>bs. (''anyOf'', bs)) (Option.bind (bt_get m ''anyOf'') as_array))
       (map_option (\<lambda>bs. (''oneOf'', bs)) (Option.bind (bt_get m ''oneOf'') as_array))"

definition value_with :: "(string \<Rightarrow> node \<Rightarrow> node \<times> schema_warning list) \<Rightarrow> string \<Rightarrow> json \<Rightarrow> json \<times> schema_warning list" where
  "value_with rec p v = (case v of JObject m \<Rightarrow> (case rec p m of (m', ws) \<Rightarrow> (JObject m', ws)) | _ \<Rightarrow> (v, []))"

text \<open>One key of a node: what is inserted for it and the warnings.\<close>

definition downlevel_key ::
  "json json_api \<Rightarrow> schema_caps \<Rightarrow> (string \<Rightarrow> node \<Rightarrow> node \<times> schema_warning list) \<Rightarrow> string \<Rightarrow> string \<times> json
     \<Rightarrow> (string \<times> json) list \<times> schema_warning list" where
  "downlevel_key js caps rec p = (\<lambda>(key, v).
     case stripped caps p key of
       Some ws \<Rightarrow> ([], ws)
     | None \<Rightarrow>
         if key = ''type'' \<and> \<not> sc_type_arrays caps then
           (case v of
              JArray types \<Rightarrow>
                ((case or_else (find (\<lambda>t. as_str t \<noteq> Some ''null'') types) (case types of t # _ \<Rightarrow> Some t | [] \<Rightarrow> None) of
                    Some t \<Rightarrow> [(''type'', t)] | None \<Rightarrow> []),
                 if 1 < length types then [warn p ''type'' LossMedium ''collapsed unsupported type array to one type''] else [])
            | _ \<Rightarrow> ([(''type'', v)], []))
         else if key = ''enum'' \<and> sc_string_enums_only caps then
           (case v of
              JArray values \<Rightarrow>
                ([(''enum'', JArray (map (\<lambda>x. JString (stringify js x)) values)), (''type'', JString ''string'')],
                 if list_ex (\<lambda>x. as_str x = None) values
                 then [warn p ''enum'' LossLow ''stringified non-string enum values''] else [])
            | _ \<Rightarrow> ([(''enum'', v)], []))
         else if key = ''properties'' then
           (case v of
              JObject props \<Rightarrow>
                (let rs = map (\<lambda>(pk, pv). (pk, value_with rec (join_path (join_path p ''properties'') pk) pv)) props
                 in ([(''properties'', jobj (map (\<lambda>(pk, pv, ws). (pk, pv)) rs))], concat (map (\<lambda>(pk, pv, ws). ws) rs)))
            | _ \<Rightarrow> ([], []))
         else if key = ''items'' then
           (case (v, \<not> sc_type_arrays caps) of
              (JArray items, True) \<Rightarrow>
                (let w = warn p ''items'' LossMedium ''collapsed unsupported tuple item schemas to the first item''
                 in case items of
                      first # _ \<Rightarrow> (case value_with rec (join_path p ''items'') first of (i, ws) \<Rightarrow> ([(''items'', i)], w # ws))
                    | [] \<Rightarrow> ([], [w]))
            | _ \<Rightarrow> (case value_with rec (join_path p ''items'') v of (i, ws) \<Rightarrow> ([(''items'', i)], ws)))
         else ([(key, v)], []))"

definition rewrite_const :: "json json_api \<Rightarrow> schema_caps \<Rightarrow> string \<Rightarrow> node \<Rightarrow> node \<Rightarrow> node \<times> schema_warning list" where
  "rewrite_const js caps p m out =
     (case (if sc_const_keyword caps then None else bt_get m ''const'') of
        Some v \<Rightarrow>
          (let out1 = (if sc_string_enums_only caps then bt_insert ''type'' (JString ''string'') out else out);
               entry = (if sc_string_enums_only caps then JString (stringify js v) else v)
           in (bt_insert ''enum'' (JArray [entry]) out1,
               [warn p ''const'' LossLow ''rewrote unsupported `const` as a single-value enum'']))
      | None \<Rightarrow> (out, []))"

fun merge_members ::
  "(string \<Rightarrow> node \<Rightarrow> node \<times> schema_warning list) \<Rightarrow> string \<Rightarrow> nat \<Rightarrow> json list \<Rightarrow> node \<Rightarrow> node \<times> schema_warning list" where
  "merge_members rec p i [] out = (out, [])"
| "merge_members rec p i (JObject member # members) out =
     (let (down, ws) = rec (join_path (join_path p ''allOf'') (show_nat i)) member;
          (out', ws') = merge_members rec p (i + 1) members (merge_into out down)
      in (out', ws @ ws'))"
| "merge_members rec p i (_ # members) out = merge_members rec p (i + 1) members out"

definition merge_all_of ::
  "schema_caps \<Rightarrow> (string \<Rightarrow> node \<Rightarrow> node \<times> schema_warning list) \<Rightarrow> string \<Rightarrow> node \<Rightarrow> node \<Rightarrow> node \<times> schema_warning list" where
  "merge_all_of caps rec p m out =
     (case (if sc_all_of caps then None else Option.bind (bt_get m ''allOf'') as_array) of
        Some members \<Rightarrow> merge_members rec p 0 members out
      | None \<Rightarrow> (out, []))"

definition no_properties :: "node \<Rightarrow> bool" where
  "no_properties out =
     (case Option.bind (bt_get out ''properties'') as_object of Some props \<Rightarrow> props = [] | None \<Rightarrow> True)"

definition fill_empty :: "schema_caps \<Rightarrow> string \<Rightarrow> node \<Rightarrow> node \<times> schema_warning list" where
  "fill_empty caps p out =
     (if \<not> sc_empty_objects caps \<and> Option.bind (bt_get out ''type'') as_str = Some ''object'' \<and> no_properties out
      then (bt_insert ''properties'' placeholder_props out,
            [warn p ''properties'' LossMedium ''added placeholder property to unsupported empty object schema''])
      else (out, []))"

definition downlevel_keys ::
  "json json_api \<Rightarrow> schema_caps \<Rightarrow> (string \<Rightarrow> node \<Rightarrow> node \<times> schema_warning list) \<Rightarrow> string \<Rightarrow> node \<Rightarrow> node \<times> schema_warning list" where
  "downlevel_keys js caps rec p m =
     (let rs = map (downlevel_key js caps rec p) m;
          (out1, ws1) = rewrite_const js caps p m (bt_collect (concat (map fst rs)));
          (out2, ws2) = merge_all_of caps rec p m out1;
          (out3, ws3) = fill_empty caps p out2
      in (out3, concat (map snd rs) @ ws1 @ ws2 @ ws3))"

primrec downlevel_object :: "nat \<Rightarrow> json json_api \<Rightarrow> schema_caps \<Rightarrow> string \<Rightarrow> node \<Rightarrow> node \<times> schema_warning list" where
  "downlevel_object 0 js caps p m =
     (string_schema, [warn p ''$depth'' LossHigh (''schema nesting exceeded the maximum supported depth (''
        @ show_nat max_downlevel_depth @ ''); truncated to a permissive value'')])"
| "downlevel_object (Suc n) js caps p m =
     (case (if sc_unions caps then None else union_of m) of
        Some (keyword, branches) \<Rightarrow>
          (let w = warn p keyword LossHigh (''collapsed unsupported `'' @ keyword @ ''` union to one branch'')
           in case pick_branch branches of
                Some branch \<Rightarrow>
                  (case downlevel_object n js caps p branch of
                     (chosen, ws) \<Rightarrow>
                       (case bt_get m ''description'' of Some desc \<Rightarrow> or_insert_value ''description'' desc chosen | None \<Rightarrow> chosen, w # ws))
              | None \<Rightarrow> (case downlevel_keys js caps (downlevel_object n js caps) p m of (out, ws) \<Rightarrow> (out, w # ws)))
      | None \<Rightarrow> downlevel_keys js caps (downlevel_object n js caps) p m)"

definition downlevel_with_warnings :: "json json_api \<Rightarrow> json \<Rightarrow> schema_caps \<Rightarrow> json \<times> schema_warning list" where
  "downlevel_with_warnings js schema caps = value_with (downlevel_object max_downlevel_depth js caps) [] schema"

definition downlevel :: "json json_api \<Rightarrow> json \<Rightarrow> schema_caps \<Rightarrow> json" where
  "downlevel js schema caps = fst (downlevel_with_warnings js schema caps)"

end
