(* ===== verification/Schema_Facts.thy ===== *)
theory Schema_Facts
  imports Schema_Downlevel
begin

text \<open>
  A downleveled schema is in the dialect of its target, at every depth; and where the code falls
  short of what it means to do.
\<close>

section \<open>The dialect of Gemini\<close>

definition forbidden_keys :: "string list" where
  "forbidden_keys = always_strip @ [''anyOf'', ''oneOf'', ''allOf'', ''const'', ''$ref'', ''$defs'', ''definitions'',
     ''additionalProperties'']"

definition keyword_ok :: "(json \<Rightarrow> bool) \<Rightarrow> string \<times> json \<Rightarrow> bool" where
  "keyword_ok ok = (\<lambda>(k, v).
     k \<notin> set forbidden_keys \<and> \<not> starts_with k ''x-''
     \<and> (k = ''type'' \<longrightarrow> as_array v = None)
     \<and> (k = ''enum'' \<longrightarrow> (case v of JArray vs \<Rightarrow> list_all (\<lambda>x. as_str x \<noteq> None) vs | _ \<Rightarrow> True))
     \<and> (k = ''properties'' \<longrightarrow> (case v of JObject props \<Rightarrow> list_all (\<lambda>(pk, pv). ok pv) props | _ \<Rightarrow> False))
     \<and> (k = ''items'' \<longrightarrow> ok v))"

text \<open>To a depth: no keyword the dialect lacks, one type, string enums, no object without properties.\<close>

primrec conforms :: "nat \<Rightarrow> json \<Rightarrow> bool" where
  "conforms 0 v = True"
| "conforms (Suc d) v =
     (case v of
        JObject m \<Rightarrow> list_all (keyword_ok (conforms d)) m
          \<and> (Option.bind (bt_get m ''type'') as_str = Some ''object'' \<longrightarrow> \<not> no_properties m)
      | _ \<Rightarrow> True)"

text \<open>A schema in which \<open>type\<close> is never an array of arrays.\<close>

definition flat_type :: "json \<Rightarrow> bool" where
  "flat_type v = (case v of JArray ts \<Rightarrow> list_all (\<lambda>t. as_array t = None) ts | _ \<Rightarrow> True)"

fun flat_types :: "json \<Rightarrow> bool" where
  "flat_types (JObject m) = list_all (\<lambda>(k, v). (k = ''type'' \<longrightarrow> flat_type v) \<and> flat_types v) m"
| "flat_types (JArray vs) = list_all flat_types vs"
| "flat_types _ = True"

section \<open>Proof\<close>

lemma set_bt_insert: "set (bt_insert k v m) \<subseteq> insert (k, v) (set m)"
  by (induction k v m rule: bt_insert.induct) auto

lemma set_bt_collect: "set (bt_collect kvs) \<subseteq> set kvs"
proof -
  have "set (fold (\<lambda>(k, v). bt_insert k v) kvs m) \<subseteq> set m \<union> set kvs" for m
  proof (induction kvs arbitrary: m)
    case (Cons kv kvs)
    then show ?case using set_bt_insert [of "fst kv" "snd kv" m] by (fastforce split: prod.splits)
  qed simp
  then show ?thesis by (force simp: bt_collect_def)
qed

lemma list_all_bt_insert: "list_all P m \<Longrightarrow> P (k, v) \<Longrightarrow> list_all P (bt_insert k v m)"
  using set_bt_insert [of k v m] by (auto simp: list_all_iff)

lemma list_all_bt_collect: "list_all P kvs \<Longrightarrow> list_all P (bt_collect kvs)"
  using set_bt_collect [of kvs] by (auto simp: list_all_iff)

lemma list_all_bt_get: "list_all P m \<Longrightarrow> bt_get m k = Some v \<Longrightarrow> P (k, v)"
  by (auto simp: list_all_iff bt_get_def dest: map_of_SomeD)

lemma flat_get: "flat_types (JObject m) \<Longrightarrow> bt_get m k = Some v \<Longrightarrow> flat_types v"
  using list_all_bt_get [of "\<lambda>(k, v). (k = ''type'' \<longrightarrow> flat_type v) \<and> flat_types v" m k v] by simp

definition good_rec :: "(string \<Rightarrow> node \<Rightarrow> node \<times> schema_warning list) \<Rightarrow> bool" where
  "good_rec rec \<longleftrightarrow> (\<forall>p m. flat_types (JObject m) \<longrightarrow>
     bt_wf (fst (rec p m)) \<and> (\<forall>d. conforms d (JObject (fst (rec p m)))))"

lemma good_rec_D:
  assumes "good_rec rec" and "flat_types (JObject m)"
  shows "bt_wf (fst (rec p m))" and "conforms d (JObject (fst (rec p m)))"
    and "list_all (keyword_ok (conforms d)) (fst (rec p m))"
proof -
  show "bt_wf (fst (rec p m))" and c: "conforms d (JObject (fst (rec p m)))" for d
    using assms unfolding good_rec_def by blast+
  show "list_all (keyword_ok (conforms d)) (fst (rec p m))"
    using c [of "Suc d"] by simp
qed

lemma conforms_leaf: "as_object v = None \<Longrightarrow> conforms d v"
  by (cases d; cases v) simp_all

lemma good_rec_value: "good_rec rec \<Longrightarrow> flat_types v \<Longrightarrow> conforms d (fst (value_with rec p v))"
proof (cases v)
  case (JObject m)
  assume "good_rec rec" and "flat_types v"
  from good_rec_D(2) [OF this(1), of m] this(2) JObject show ?thesis
    by (simp only: value_with_def json.case case_prod_unfold fst_conv)
qed (simp_all add: value_with_def conforms_leaf)

lemma not_stripped: "stripped gemini_caps p k = None \<Longrightarrow> k \<notin> set forbidden_keys \<and> \<not> starts_with k ''x-''"
  by (auto simp: stripped_def gemini_caps_def forbidden_keys_def split: if_splits)

lemma named_ok:
  "k \<in> {''type'', ''enum'', ''properties'', ''items'', ''description''} \<Longrightarrow> k \<notin> set forbidden_keys \<and> \<not> starts_with k ''x-''"
  by (auto simp: forbidden_keys_def always_strip_def starts_with_def)

lemma chosen_type:
  "list_all (\<lambda>t. as_array t = None) ts \<Longrightarrow>
     or_else (find P ts) (case ts of t # _ \<Rightarrow> Some t | [] \<Rightarrow> None) = Some t \<Longrightarrow> as_array t = None"
  by (auto simp: or_else_def find_Some_iff list_all_length split: option.splits list.splits)

lemma key_ok:
  assumes "good_rec rec" and "flat_types v" and "k = ''type'' \<Longrightarrow> flat_type v"
  shows "list_all (keyword_ok (conforms d)) (fst (downlevel_key js gemini_caps rec p (k, v)))"
proof (cases "stripped gemini_caps p k")
  case None
  note base = not_stripped [OF None] named_ok
  note caps = gemini_caps_def downlevel_key_def keyword_ok_def
  consider "k = ''type''" | "k = ''enum''" | "k = ''properties''" | "k = ''items''"
    | "k \<notin> {''type'', ''enum'', ''properties'', ''items''}" by blast
  then show ?thesis
  proof cases
    case 1
    with assms(3) None base chosen_type show ?thesis
      by (cases v) (fastforce simp: caps flat_type_def split: option.splits)+
  next
    case 2
    with None base show ?thesis by (cases v) (auto simp: caps list_all_iff)
  next
    case 3
    show ?thesis
    proof (cases v)
      case (JObject props)
      have "list_all (\<lambda>(pk, pv). conforms d pv)
          (bt_collect (map (\<lambda>(pk, pv). (pk, fst (value_with rec (join_path (join_path p ''properties'') pk) pv))) props))"
        using assms(1,2) good_rec_value [OF assms(1)] unfolding JObject
        by (intro list_all_bt_collect) (auto simp: list_all_iff)
      then show ?thesis using None base 3 JObject
        by (simp add: caps jobj_def Let_def comp_def case_prod_unfold)
    qed (use None 3 in \<open>simp_all add: caps\<close>)
  next
    case 4
    have rest: "conforms d (fst (value_with rec q x))" if "flat_types x" for q x
      by (rule good_rec_value [OF assms(1) that])
    show ?thesis
    proof (cases v)
      case (JArray items)
      with 4 None base rest assms(2) show ?thesis
        by (cases items) (simp_all add: caps case_prod_unfold Let_def)
    qed (use 4 None base rest [OF assms(2)] in \<open>simp_all add: caps case_prod_unfold\<close>)
  next
    case 5
    with None base show ?thesis by (auto simp: caps)
  qed
qed (simp add: downlevel_key_def)

lemma const_ok:
  "list_all (keyword_ok ok) out \<Longrightarrow> bt_wf out \<Longrightarrow>
     list_all (keyword_ok ok) (fst (rewrite_const js gemini_caps p m out)) \<and> bt_wf (fst (rewrite_const js gemini_caps p m out))"
  using named_ok [of "''type''"] named_ok [of "''enum''"]
  by (auto simp: rewrite_const_def gemini_caps_def Let_def keyword_ok_def bt_wf_insert
      intro!: list_all_bt_insert split: option.split)

lemma or_insert_keeps: "list_all P xs \<Longrightarrow> list_all P ys \<Longrightarrow> list_all P (fold (\<lambda>(pk, pv). or_insert_value pk pv) xs ys)"
  by (induction xs arbitrary: ys) (auto simp: or_insert_value_def list_all_bt_insert split: option.splits)

lemma merge_entry_Some:
  "bt_get out k = Some old \<Longrightarrow> merge_entry (k, v) out =
     (case (old, v) of
        (JObject existing, JObject incoming) \<Rightarrow>
          if k = ''properties'' then bt_insert k (JObject (fold (\<lambda>(pk, pv). or_insert_value pk pv) incoming existing)) out else out
      | (JArray existing, JArray incoming) \<Rightarrow>
          if k = ''required''
          then bt_insert k (JArray (fold (\<lambda>item items. if item \<in> set items then items else items @ [item]) incoming existing)) out
          else out
      | _ \<Rightarrow> out)"
  by (simp add: merge_entry_def)

lemma merge_entry_cases:
  obtains "merge_entry (k, v) out = out" | "bt_get out k = None" "merge_entry (k, v) out = bt_insert k v out"
    | existing incoming where "k = ''properties''" "v = JObject incoming" "bt_get out k = Some (JObject existing)"
      "merge_entry (k, v) out = bt_insert k (JObject (fold (\<lambda>(pk, pv). or_insert_value pk pv) incoming existing)) out"
    | items where "k = ''required''" "merge_entry (k, v) out = bt_insert k (JArray items) out"
proof (cases "bt_get out k")
  case None
  then show ?thesis by (intro that(2)) (simp_all add: merge_entry_def)
next
  case (Some old)
  consider (arr) xs ys where "old = JArray xs" "v = JArray ys" "k = ''required''"
    | (map) xs ys where "old = JObject xs" "v = JObject ys" "k = ''properties''"
    | (keep) "merge_entry (k, v) out = out"
    using merge_entry_Some [OF Some, of v] by (cases old; cases v) (auto split: if_splits)
  then show ?thesis
  proof cases
    case (arr xs ys)
    then show ?thesis using Some by (intro that(4)) (simp_all add: merge_entry_def)
  next
    case (map xs ys)
    then show ?thesis using Some by (intro that(3)) (simp_all add: merge_entry_def)
  qed (rule that(1))
qed

lemma merge_entry_ok:
  assumes "keyword_ok ok (k, v)" and "list_all (keyword_ok ok) out" and "bt_wf out"
  shows "list_all (keyword_ok ok) (merge_entry (k, v) out) \<and> bt_wf (merge_entry (k, v) out)"
proof (cases rule: merge_entry_cases [of k v out])
  case (3 existing incoming)
  have "keyword_ok ok (k, JObject existing)" by (rule list_all_bt_get [OF assms(2) 3(3)])
  then have "keyword_ok ok (k, JObject (fold (\<lambda>(pk, pv). or_insert_value pk pv) incoming existing))"
    using assms(1) 3(1,2) or_insert_keeps [of "\<lambda>(pk, pv). ok pv" incoming existing] by (simp add: keyword_ok_def)
  with assms(2,3) 3(4) show ?thesis by (simp add: list_all_bt_insert bt_wf_insert)
next
  case (4 items)
  have "keyword_ok ok (''required'', JArray items)"
    by (simp add: keyword_ok_def forbidden_keys_def always_strip_def starts_with_def)
  with assms(2,3) 4 show ?thesis by (simp add: list_all_bt_insert bt_wf_insert)
qed (use assms in \<open>simp_all add: list_all_bt_insert bt_wf_insert\<close>)

lemma merge_ok:
  assumes "list_all (keyword_ok ok) src" and "list_all (keyword_ok ok) out" and "bt_wf out"
  shows "list_all (keyword_ok ok) (merge_into out src) \<and> bt_wf (merge_into out src)"
  using assms
proof (induction src arbitrary: out)
  case (Cons kv src)
  have "list_all (keyword_ok ok) (merge_entry kv out) \<and> bt_wf (merge_entry kv out)"
    using merge_entry_ok [of ok "fst kv" "snd kv" out] Cons.prems by simp
  then show ?case using Cons by (simp add: merge_into_def)
qed (simp add: merge_into_def)

lemma members_ok:
  assumes "good_rec rec" and "list_all flat_types members" and "list_all (keyword_ok (conforms d)) out" and "bt_wf out"
  shows "list_all (keyword_ok (conforms d)) (fst (merge_members rec p i members out)) \<and> bt_wf (fst (merge_members rec p i members out))"
  using assms(2-)
proof (induction members arbitrary: i out)
  case (Cons v members)
  show ?case
  proof (cases v)
    case (JObject member)
    obtain down ws where r: "rec (join_path (join_path p ''allOf'') (show_nat i)) member = (down, ws)" by fastforce
    have "list_all (keyword_ok (conforms d)) down"
      using good_rec_D(3) [OF assms(1), of member d "join_path (join_path p ''allOf'') (show_nat i)"] Cons.prems JObject r by simp
    then have "list_all (keyword_ok (conforms d)) (merge_into out down) \<and> bt_wf (merge_into out down)"
      using merge_ok Cons.prems(2,3) by blast
    then show ?thesis
      using Cons.IH [of "merge_into out down" "i + 1"] Cons.prems(1) by (simp add: JObject r case_prod_unfold Let_def)
  qed (use Cons in simp_all)
qed simp

lemma filled_ok:
  assumes "list_all (keyword_ok (conforms d)) out" and "bt_wf out"
  shows "conforms (Suc d) (JObject (fst (fill_empty gemini_caps p out)))" and "bt_wf (fst (fill_empty gemini_caps p out))"
proof -
  have "conforms d (jobj [(''type'', JString ''string''), (''description'', JString x)])" for x
    using named_ok [of "''type''"] named_ok [of "''description''"]
    by (cases d) (auto simp: jobj_def bt_get_collect keyword_ok_def intro!: list_all_bt_collect)
  then have "keyword_ok (conforms d) (''properties'', placeholder_props)"
    using named_ok [of "''properties''"]
    by (auto simp: keyword_ok_def placeholder_props_def jobj_def intro!: list_all_bt_collect)
  then show "conforms (Suc d) (JObject (fst (fill_empty gemini_caps p out)))"
    using assms
    by (auto simp: fill_empty_def gemini_caps_def list_all_bt_insert bt_get_insert no_properties_def placeholder_props_def
        jobj_def bt_collect_def)
  show "bt_wf (fst (fill_empty gemini_caps p out))"
    using assms(2) by (simp add: fill_empty_def bt_wf_insert)
qed

lemma keys_ok:
  assumes "good_rec rec" and "flat_types (JObject m)"
  shows "conforms d (JObject (fst (downlevel_keys js gemini_caps rec p m)))" and "bt_wf (fst (downlevel_keys js gemini_caps rec p m))"
proof -
  let ?out = "bt_collect (concat (map fst (map (downlevel_key js gemini_caps rec p) m)))"
  obtain out1 ws1 where c: "rewrite_const js gemini_caps p m ?out = (out1, ws1)" by fastforce
  obtain out2 ws2 where a: "merge_all_of gemini_caps rec p m out1 = (out2, ws2)" by fastforce
  have node: "fst (downlevel_keys js gemini_caps rec p m) = fst (fill_empty gemini_caps p out2)"
    by (simp only: downlevel_keys_def Let_def c a prod.case case_prod_unfold fst_conv)
  have all: "list_all (keyword_ok (conforms d)) out2 \<and> bt_wf out2" for d
  proof -
    have "list_all (keyword_ok (conforms d)) (fst (downlevel_key js gemini_caps rec p (k, v)))" if "(k, v) \<in> set m" for k v
      using assms that by (intro key_ok) (auto simp: list_all_iff)
    then have "list_all (keyword_ok (conforms d)) ?out"
      by (intro list_all_bt_collect) (auto simp: list_all_iff)
    then have out1: "list_all (keyword_ok (conforms d)) out1" "bt_wf out1"
      using const_ok [of "conforms d" ?out js p m] c by (simp_all add: bt_wf_collect)
    show ?thesis
    proof (cases "Option.bind (bt_get m ''allOf'') as_array")
      case None
      with a out1 show ?thesis by (simp add: merge_all_of_def gemini_caps_def)
    next
      case (Some members)
      then have "list_all flat_types members"
        using flat_get [OF assms(2), of "''allOf''"] by (auto simp: bind_eq_Some_conv elim!: as_array.elims)
      from members_ok [OF assms(1) this out1, of p 0] Some a show ?thesis by (simp add: merge_all_of_def gemini_caps_def)
    qed
  qed
  show "conforms d (JObject (fst (downlevel_keys js gemini_caps rec p m)))"
    using filled_ok(1) all by (cases d) (simp_all add: node del: conforms.simps(2))
  show "bt_wf (fst (downlevel_keys js gemini_caps rec p m))"
    using filled_ok(2) all by (simp add: node)
qed

lemma find_map_Some: "find_map f xs = Some y \<Longrightarrow> \<exists>x \<in> set xs. f x = Some y"
  by (induction xs) (auto simp: find_map_def split: option.splits)

lemma picked:
  assumes "pick_branch branches = Some branch"
  shows "JObject branch \<in> set branches"
proof -
  have "\<exists>x \<in> set branches. as_object x = Some branch"
  proof (cases "find_map (\<lambda>b. Option.bind (as_object b) (\<lambda>m. if get_str b ''type'' = Some ''null'' then None else Some m)) branches")
    case None
    with assms show ?thesis by (intro find_map_Some) (simp add: pick_branch_def)
  next
    case (Some m)
    with assms have "m = branch" by (simp add: pick_branch_def)
    with find_map_Some [OF Some] show ?thesis by (auto simp: bind_eq_Some_conv split: if_splits)
  qed
  then show ?thesis by (auto elim!: as_object.elims)
qed

lemma flat_array: "flat_types (JObject m) \<Longrightarrow> Option.bind (bt_get m k) as_array = Some vs \<Longrightarrow> list_all flat_types vs"
proof -
  assume flat: "flat_types (JObject m)" and "Option.bind (bt_get m k) as_array = Some vs"
  then obtain v where "bt_get m k = Some v" "v = JArray vs" by (auto simp: bind_eq_Some_conv elim!: as_array.elims)
  with flat_get [OF flat] show ?thesis by force
qed

lemma union_flat: "union_of m = Some (k, branches) \<Longrightarrow> flat_types (JObject m) \<Longrightarrow> list_all flat_types branches"
  by (cases "Option.bind (bt_get m ''anyOf'') as_array"; cases "Option.bind (bt_get m ''oneOf'') as_array")
    (auto simp: union_of_def simp del: flat_types.simps dest: flat_array)

lemma described_ok:
  assumes "\<And>d. conforms d (JObject chosen)" and "bt_wf chosen"
  shows "conforms d (JObject (or_insert_value ''description'' desc chosen))" and "bt_wf (or_insert_value ''description'' desc chosen)"
proof -
  have "keyword_ok ok (''description'', desc)" for ok
    using named_ok [of "''description''"] by (simp add: keyword_ok_def)
  then show "conforms d (JObject (or_insert_value ''description'' desc chosen))"
    using assms(1) [of d] assms(2)
    by (cases d) (auto simp: or_insert_value_def list_all_bt_insert bt_get_insert no_properties_def split: option.splits)
  show "bt_wf (or_insert_value ''description'' desc chosen)"
    using assms(2) by (simp add: or_insert_value_def bt_wf_insert split: option.split)
qed

lemma downlevel_good: "good_rec (downlevel_object n js gemini_caps)"
proof (induction n)
  case 0
  have "conforms d (JObject string_schema)" for d
    using named_ok [of "''type''"]
    by (cases d) (simp_all add: string_schema_def keyword_ok_def bt_get_def)
  then show ?case by (simp add: good_rec_def string_schema_def bt_wf_def)
next
  case (Suc n)
  have caps: "sc_unions gemini_caps = False" by (simp add: gemini_caps_def)
  show ?case
    unfolding good_rec_def
  proof (intro allI impI)
    fix p m assume flat: "flat_types (JObject m)"
    note keys = keys_ok [OF Suc flat]
    show "bt_wf (fst (downlevel_object (Suc n) js gemini_caps p m))
      \<and> (\<forall>d. conforms d (JObject (fst (downlevel_object (Suc n) js gemini_caps p m))))"
    proof (cases "union_of m")
      case None
      with keys caps show ?thesis by simp
    next
      case (Some kb)
      obtain keyword branches where kb: "kb = (keyword, branches)" by (cases kb)
      show ?thesis
      proof (cases "pick_branch branches")
        case None
        with keys caps Some kb show ?thesis by (simp add: Let_def case_prod_unfold)
      next
        case (Some branch)
        have "flat_types (JObject branch)"
          using union_flat [OF \<open>union_of m = Some kb\<close> [unfolded kb] flat] picked [OF Some] by (auto simp: list_all_iff simp del: flat_types.simps)
        note chosen = good_rec_D(1,2) [OF Suc this, where p = p]
        with described_ok [OF chosen(2,1)] caps Some kb \<open>union_of m = Some kb\<close> show ?thesis
          by (cases "bt_get m ''description''") (simp_all add: Let_def case_prod_unfold)
      qed
    qed
  qed
qed

text \<open>
  C24: what the gateway sends to Gemini as a tool schema or a response schema is in Gemini's
  dialect at every depth: no keyword the dialect lacks (unions, \<open>allOf\<close>, \<open>const\<close>, references,
  \<open>additionalProperties\<close>, metadata, vendor extensions), no array as a type, only strings in an
  enum, no object without properties, in the schema, in every property and in every item schema.
  The schema may be any JSON whose type lists hold no lists.
\<close>
theorem gemini_schema_conforms:
  assumes "flat_types schema"
  shows "conforms d (downlevel js schema gemini_caps)"
  unfolding downlevel_def downlevel_with_warnings_def
  by (rule good_rec_value [OF downlevel_good assms])

text \<open>A nullable union inside a property, with a vendor extension and a constant.\<close>

definition sample_schema :: json where
  "sample_schema = jobj [(''type'', JString ''object''), (''x-order'', JNull), (''properties'', jobj
     [(''a'', jobj [(''anyOf'', JArray [jobj [(''type'', JString ''null'')], jobj [(''type'', JArray [JString ''string'', JString ''null''])]])]),
      (''b'', jobj [(''const'', JString ''k'')])])]"

definition bare_json :: "json json_api" where
  "bare_json = \<lparr>js_null = JNull, js_string = JString, js_from_str = (\<lambda>s. None), js_to_string = (\<lambda>v. []),
     js_as_str = as_str, js_as_object = as_object\<rparr>"

lemma flat_jobj: "list_all (\<lambda>(k, v). (k = ''type'' \<longrightarrow> flat_type v) \<and> flat_types v) kvs \<Longrightarrow> flat_types (jobj kvs)"
  by (simp add: jobj_def list_all_bt_collect)

theorem gemini_schema_conforms_witness:
  "flat_types sample_schema \<and> conforms 3 (downlevel bare_json sample_schema gemini_caps)"
proof -
  have "flat_types sample_schema"
    unfolding sample_schema_def by (intro flat_jobj) (simp_all add: flat_jobj flat_type_def)
  from gemini_schema_conforms [OF this, of 3 bare_json] this show ?thesis by simp
qed

section \<open>Where it falls short\<close>

text \<open>
  A typed enum keeps its type: the keys of a node come in order, \<open>enum\<close> before \<open>type\<close>, and the
  declared type overwrites the \<open>string\<close> that goes with the stringified values.
\<close>

lemma typed_enum_keeps_type:
  "downlevel js (jobj [(''type'', JString ''integer''), (''enum'', JArray [json_u64 1])]) gemini_caps =
     jobj [(''type'', JString ''integer''), (''enum'', JArray [JString (js_to_string js (json_u64 1))])]"
proof -
  have ord: "''enum'' < (''type'' :: string)"
    by (simp add: list_less_def less_char_def)
  show ?thesis
    using ord
    by (simp add: downlevel_def downlevel_with_warnings_def value_with_def max_downlevel_depth_def numeral_eq_Suc jobj_def
        bt_collect_def gemini_caps_def union_of_def bt_get_def downlevel_keys_def downlevel_key_def stripped_def always_strip_def
        starts_with_def rewrite_const_def merge_all_of_def fill_empty_def stringify_def json_u64_def)
qed

end
