(* ===== verification/Gemini.thy ===== *)
theory Gemini
  imports Openai_Chat Schema_Facts Stream_Facts
begin

text \<open>
  The Gemini codec (\<open>sb-protocols/src/gemini.rs\<close>): the canonical request as a
  \<open>generateContent\<close> body with the warnings of its schemas, responses in both directions, and the
  stream decoder. Gemini has no tool-call identifiers: results are matched to calls by name, and
  calls get identifiers made up from their position.
\<close>

section \<open>Requests\<close>

definition finish_reason_from_gemini :: "string option \<Rightarrow> bool \<Rightarrow> finish_reason" where
  "finish_reason_from_gemini reason had_tool_call =
     (if had_tool_call then FinishToolCalls
      else if reason = Some ''STOP'' then FinishStop
      else if reason = Some ''MAX_TOKENS'' then FinishLength
      else if reason = Some ''SAFETY'' \<or> reason = Some ''BLOCKLIST'' \<or> reason = Some ''PROHIBITED_CONTENT'' then FinishContentFilter
      else FinishStop)"

fun finish_reason_to_gemini :: "finish_reason \<Rightarrow> string" where
  "finish_reason_to_gemini FinishStop = ''STOP''"
| "finish_reason_to_gemini FinishToolCalls = ''STOP''"
| "finish_reason_to_gemini FinishError = ''STOP''"
| "finish_reason_to_gemini FinishLength = ''MAX_TOKENS''"
| "finish_reason_to_gemini FinishContentFilter = ''SAFETY''"

definition inline_data :: "string \<Rightarrow> string \<Rightarrow> json" where
  "inline_data m d = jobj [(''inlineData'', jobj [(''mimeType'', JString m), (''data'', JString d)])]"

definition file_data :: "string \<Rightarrow> json" where
  "file_data uri = jobj [(''fileData'', jobj [(''mimeType'', JString ''image/png''), (''fileUri'', JString uri)])]"

definition image_to_gemini_part :: "image_source \<Rightarrow> string + json" where
  "image_to_gemini_part source =
     try_with (image_source_validate source)
       (\<lambda>_. case source of
          InlineBase64 m d \<Rightarrow> Inr (inline_data m d)
        | RemoteUrl url \<Rightarrow> Inr (case split_data_url url of Some (m, d) \<Rightarrow> inline_data m d | None \<Rightarrow> file_data url)
        | ProviderFileRef provider i \<Rightarrow>
            (case provider of
               Some owner \<Rightarrow>
                 if owner \<noteq> ''gemini'' \<and> owner \<noteq> ''vertex''
                 then Inl (''Gemini cannot encode provider file ref owned by `'' @ owner @ ''`'') else Inr (file_data i)
             | None \<Rightarrow> Inr (file_data i)))"

definition text_part :: "string \<Rightarrow> json list" where
  "text_part t = (if t \<noteq> [] then [jobj [(''text'', JString t)]] else [])"

fun gemini_user_part :: "json content_part \<Rightarrow> string + json list" where
  "gemini_user_part (CpText t) = Inr (text_part t)"
| "gemini_user_part (CpImage src d) = try_with (image_to_gemini_part src) (\<lambda>p. Inr [p])"
| "gemini_user_part _ = Inr []"

definition function_call :: "string \<Rightarrow> json \<Rightarrow> json" where
  "function_call name args = jobj [(''functionCall'', jobj [(''name'', JString name), (''args'', args)])]"

fun gemini_model_part :: "json content_part \<Rightarrow> json list" where
  "gemini_model_part (CpText t) = text_part t"
| "gemini_model_part (CpToolUse i name args) = [function_call name args]"
| "gemini_model_part _ = []"

fun gemini_tool_part :: "(string \<rightharpoonup> string) \<Rightarrow> json content_part \<Rightarrow> json list" where
  "gemini_tool_part tool_names (CpToolResult i content ps err) =
     [jobj [(''functionResponse'', jobj [(''name'', JString (case tool_names i of Some n \<Rightarrow> n | None \<Rightarrow> i)),
        (''response'', jobj [(''result'', JString content)])])]]"
| "gemini_tool_part tool_names _ = []"

text \<open>\<open>tool_names\<close>: identifiers to names over the whole conversation, in order.\<close>

definition note_tool_use :: "json content_part \<Rightarrow> (string \<rightharpoonup> string) \<Rightarrow> (string \<rightharpoonup> string)" where
  "note_tool_use p names = (case p of CpToolUse i name args \<Rightarrow> names(i \<mapsto> name) | _ \<Rightarrow> names)"

definition tool_names_of :: "json message list \<Rightarrow> (string \<rightharpoonup> string)" where
  "tool_names_of msgs = fold note_tool_use (concat (map msg_content msgs)) Map.empty"

definition turn :: "string \<Rightarrow> json list \<Rightarrow> json list" where
  "turn role parts = (if parts \<noteq> [] then [jobj [(''role'', JString role), (''parts'', JArray parts)]] else [])"

text \<open>One message: the system text it adds and the turn it becomes.\<close>

definition gemini_message :: "(string \<rightharpoonup> string) \<Rightarrow> json message \<Rightarrow> string + string list \<times> json list" where
  "gemini_message tool_names m =
     (case msg_role m of
        System \<Rightarrow> try_with (reject_image_parts (msg_content m) ''Gemini system messages'')
          (\<lambda>_. Inr (if message_text m \<noteq> [] then [message_text m] else [], []))
      | User \<Rightarrow> try_with (try_map gemini_user_part (msg_content m)) (\<lambda>ps. Inr ([], turn ''user'' (concat ps)))
      | Assistant \<Rightarrow> try_with (reject_image_parts (msg_content m) ''Gemini assistant messages'')
          (\<lambda>_. Inr ([], turn ''model'' (concat (map gemini_model_part (msg_content m)))))
      | Tool \<Rightarrow> try_with (reject_image_parts (msg_content m) ''Gemini tool messages'')
          (\<lambda>_. Inr ([], turn ''user'' (concat (map (gemini_tool_part tool_names) (msg_content m))))))"

definition downlevel_gemini_schema :: "json json_api \<Rightarrow> json \<Rightarrow> string \<Rightarrow> json \<times> schema_warning list" where
  "downlevel_gemini_schema js schema prefix =
     (case downlevel_with_warnings js schema gemini_caps of (s, ws) \<Rightarrow> (s, map (prepend_path prefix) ws))"

definition gemini_declaration :: "json json_api \<Rightarrow> json tool_spec \<Rightarrow> json \<times> schema_warning list" where
  "gemini_declaration js t =
     (let (params, ws) =
        (if tool_parameters t = JNull then ([], [])
         else case downlevel_gemini_schema js (tool_parameters t) (''/tools/'' @ tool_name t @ ''/parameters'') of
                (s, ws) \<Rightarrow> ([(''parameters'', s)], ws))
      in (jobj ([(''name'', JString (tool_name t))] @ opt_pair ''description'' JString (tool_description t) @ params), ws))"

definition gemini_format :: "json json_api \<Rightarrow> json response_format option \<Rightarrow> (string \<times> json) list \<times> schema_warning list" where
  "gemini_format js format =
     (case format of
        Some FormatJsonObject \<Rightarrow> ([(''responseMimeType'', JString ''application/json'')], [])
      | Some (FormatJsonSchema name schema strict) \<Rightarrow>
          (case downlevel_gemini_schema js schema ''/response_format/schema'' of
             (s, ws) \<Rightarrow> ([(''responseMimeType'', JString ''application/json''), (''responseSchema'', s)], ws))
      | _ \<Rightarrow> ([], []))"

definition request_to_gemini_wire_with_warnings :: "json json_api \<Rightarrow> json ai_request \<Rightarrow> string + json \<times> schema_warning list" where
  "request_to_gemini_wire_with_warnings js req =
     try_with (validate_canonical req)
       (\<lambda>_. try_with (try_map (gemini_message (tool_names_of (req_messages req))) (req_messages req))
          (\<lambda>rs.
             let system_chunks = (case req_system req of Some s \<Rightarrow> if s \<noteq> [] then [s] else [] | None \<Rightarrow> [])
                   @ concat (map fst rs);
                 decls = map (gemini_declaration js) (req_tools req);
                 (format, ws) = gemini_format js (req_response_format req);
                 generation = opt_pair ''temperature'' JNumber
                       (Option.bind (req_temperature req) (\<lambda>t. number_from_f64 (f32_as_f64 t)))
                   @ opt_pair ''maxOutputTokens'' json_u32 (req_max_output_tokens req) @ format
             in Inr (jobj
                  ([(''contents'', JArray (concat (map snd rs)))]
                   @ (if system_chunks = [] then []
                      else [(''systemInstruction'', jobj [(''parts'', JArray [jobj [(''text'', JString (join_with [CHR 0x0A] system_chunks))]])])])
                   @ (if req_tools req = [] then []
                      else [(''tools'', JArray [jobj [(''functionDeclarations'', JArray (map fst decls))]])])
                   @ (if generation = [] then [] else [(''generationConfig'', jobj generation)])),
                  concat (map snd decls) @ ws)))"

definition schema_downlevel_warnings :: "json json_api \<Rightarrow> json ai_request \<Rightarrow> schema_warning list" where
  "schema_downlevel_warnings js req =
     (case request_to_gemini_wire_with_warnings js req of Inr (_, ws) \<Rightarrow> ws | Inl _ \<Rightarrow> [])"

definition request_to_gemini_wire :: "json json_api \<Rightarrow> json ai_request \<Rightarrow> string + json" where
  "request_to_gemini_wire js req = try_with (request_to_gemini_wire_with_warnings js req) (\<lambda>(body, _). Inr body)"

section \<open>Responses\<close>

definition usage_from_gemini :: "json option \<Rightarrow> usage" where
  "usage_from_gemini meta =
     (let m = (case meta of Some (JObject x) \<Rightarrow> Some (JObject x) | _ \<Rightarrow> None)
      in default_usage\<lparr>us_input_tokens := openai_tokens m ''promptTokenCount'',
           us_output_tokens := openai_tokens m ''candidatesTokenCount'',
           us_cached_input_tokens := openai_tokens m ''cachedContentTokenCount''\<rparr>)"

definition gemini_call_id :: "u32 \<Rightarrow> string" where
  "gemini_call_id n = ''call_'' @ show_nat (unat n)"

definition call_args :: "json \<Rightarrow> json" where
  "call_args call = (case json_get call ''args'' of Some a \<Rightarrow> a | None \<Rightarrow> JNull)"

fun parse_parts :: "json list \<Rightarrow> u32 \<Rightarrow> json content_part list" where
  "parse_parts [] counter = []"
| "parse_parts (part # parts) counter =
     (case get_str part ''text'' of
        Some text \<Rightarrow> (if text \<noteq> [] then [CpText text] else []) @ parse_parts parts counter
      | None \<Rightarrow>
          (case get_object part ''functionCall'' of
             Some call \<Rightarrow> CpToolUse (gemini_call_id counter) (str_or_empty (get_str call ''name'')) (call_args call)
               # parse_parts parts (counter + 1)
           | None \<Rightarrow> parse_parts parts counter))"

definition first_candidate :: "json \<Rightarrow> json option" where
  "first_candidate body = (case get_array body ''candidates'' of Some (c # cs) \<Rightarrow> Some c | _ \<Rightarrow> None)"

definition candidate_parts :: "json \<Rightarrow> json list option" where
  "candidate_parts candidate = Option.bind (json_get candidate ''content'') (\<lambda>c. get_array c ''parts'')"

definition parse_gemini_response :: "string \<Rightarrow> json \<Rightarrow> string + json ai_response" where
  "parse_gemini_response fresh body =
     try_with (ok_or ''missing `candidates[0]`'' (first_candidate body))
       (\<lambda>candidate.
          let content = parse_parts (case candidate_parts candidate of Some ps \<Rightarrow> ps | None \<Rightarrow> []) 0
          in Inr \<lparr>resp_id = (case get_str body ''responseId'' of Some i \<Rightarrow> i | None \<Rightarrow> fresh),
               resp_model = str_or_empty (get_str body ''modelVersion''),
               resp_message = \<lparr>msg_role = Assistant, msg_content = content, msg_cache_hint = None\<rparr>,
               resp_finish_reason = finish_reason_from_gemini (get_str candidate ''finishReason'') (list_ex is_tool_use content),
               resp_usage = usage_from_gemini (json_get body ''usageMetadata'')\<rparr>)"

fun gemini_response_part :: "json content_part \<Rightarrow> json option" where
  "gemini_response_part (CpText t) = Some (jobj [(''text'', JString t)])"
| "gemini_response_part (CpToolUse i name args) = Some (function_call name args)"
| "gemini_response_part _ = None"

definition response_to_gemini :: "json ai_response \<Rightarrow> json" where
  "response_to_gemini resp = jobj
     [(''candidates'', JArray [jobj
        [(''content'', jobj [(''role'', JString ''model''),
           (''parts'', JArray (List.map_filter gemini_response_part (msg_content (resp_message resp))))]),
         (''finishReason'', JString (finish_reason_to_gemini (resp_finish_reason resp)))]]),
      (''usageMetadata'', jobj [(''promptTokenCount'', json_u64 (us_input_tokens (resp_usage resp))),
         (''candidatesTokenCount'', json_u64 (us_output_tokens (resp_usage resp)))])]"

section \<open>Streams\<close>

record gemini_decoder =
  gd_started :: bool
  gd_ended :: bool
  gd_model :: string
  gd_tool_index :: u32
  gd_stop_reason :: "finish_reason option"
  gd_usage :: usage

definition new_gemini_decoder :: "string \<Rightarrow> gemini_decoder" where
  "new_gemini_decoder model = \<lparr>gd_started = False, gd_ended = False, gd_model = model, gd_tool_index = 0,
     gd_stop_reason = None, gd_usage = default_usage\<rparr>"

fun gemini_decode_parts :: "json json_api \<Rightarrow> json list \<Rightarrow> gemini_decoder \<Rightarrow> stream_event list \<times> gemini_decoder" where
  "gemini_decode_parts js [] d = ([], d)"
| "gemini_decode_parts js (part # parts) d =
     (case get_str part ''text'' of
        Some text \<Rightarrow>
          (case gemini_decode_parts js parts d of (evs, d') \<Rightarrow> ((if text \<noteq> [] then [EvTextDelta text] else []) @ evs, d'))
      | None \<Rightarrow>
          (case get_object part ''functionCall'' of
             Some call \<Rightarrow>
               (let i = gd_tool_index d;
                    (evs, d') = gemini_decode_parts js parts (d\<lparr>gd_tool_index := i + 1, gd_stop_reason := Some FinishToolCalls\<rparr>)
                in ([EvToolCallStart \<lparr>tcs_index = i, tcs_id = gemini_call_id i, tcs_name = str_or_empty (get_str call ''name'')\<rparr>,
                     EvToolCallArgsDelta i (js_to_string js (call_args call)), EvToolCallEnd i] @ evs, d'))
           | None \<Rightarrow> gemini_decode_parts js parts d))"

definition gemini_decode :: "json json_api \<Rightarrow> gemini_decoder \<Rightarrow> json \<Rightarrow> stream_event list \<times> gemini_decoder" where
  "gemini_decode js d chunk =
     (let start = (if gd_started d then []
             else [EvMessageStart (str_or_empty (get_str chunk ''responseId''))
                (case get_str chunk ''modelVersion'' of Some m \<Rightarrow> m | None \<Rightarrow> gd_model d)]);
          d1 = d\<lparr>gd_started := True\<rparr>;
          d2 = (case json_get chunk ''usageMetadata'' of Some meta \<Rightarrow> d1\<lparr>gd_usage := usage_from_gemini (Some meta)\<rparr> | None \<Rightarrow> d1)
      in case first_candidate chunk of
           None \<Rightarrow> (start, d2)
         | Some candidate \<Rightarrow>
             let (evs, d3) = gemini_decode_parts js (case candidate_parts candidate of Some ps \<Rightarrow> ps | None \<Rightarrow> []) d2;
                 d4 = (case get_str candidate ''finishReason'' of
                     Some reason \<Rightarrow> d3\<lparr>gd_stop_reason :=
                       Some (finish_reason_from_gemini (Some reason) (gd_stop_reason d3 = Some FinishToolCalls))\<rparr>
                   | None \<Rightarrow> d3)
             in (start @ evs, d4))"

definition gemini_decoder_finish :: "gemini_decoder \<Rightarrow> stream_event list \<times> gemini_decoder" where
  "gemini_decoder_finish d =
     (if gd_ended d then ([], d)
      else (if gd_started d
            then [EvUsageDelta (gd_usage d), EvMessageEnd (case gd_stop_reason d of Some r \<Rightarrow> r | None \<Rightarrow> FinishStop)] else [],
            d\<lparr>gd_ended := True\<rparr>))"

end
