(* ===== verification/Gemini_Facts.thy ===== *)
theory Gemini_Facts
  imports Gemini
begin

text \<open>
  Streamed and collected Gemini answers agree, what the gateway prints it can read, and the
  made-up identifiers of calls are not unique in a conversation.
\<close>

section \<open>A streamed answer\<close>

definition gathered :: "json json_api \<Rightarrow> nat \<Rightarrow> json content_part list \<Rightarrow> u64 \<Rightarrow> json collected \<Rightarrow> json collected" where
  "gathered js k ps w c = c\<lparr>co_content := co_content c @ concat (map part_text ps),
     co_tool_uses := co_tool_uses c @ indexed k (map (tool_entry js) (filter is_tool_use ps)), co_assembled := w\<rparr>"

lemma collect_text:
  "collect_event js None (EvTextDelta t) c =
     Inr (c\<lparr>co_content := co_content c @ t, co_assembled := co_assembled c + word_of_nat (length t)\<rparr>)"
  by (simp add: count_bytes_uncapped)

lemma collect_whole_call:
  assumes "\<forall>k' \<in> fst ` set (co_tool_uses c). k' < k"
  shows "collect_loop js None (map Inr [EvToolCallStart \<lparr>tcs_index = k, tcs_id = i, tcs_name = n\<rparr>, EvToolCallArgsDelta k a, EvToolCallEnd k] @ items) c =
    collect_loop js None items (c\<lparr>co_tool_uses := co_tool_uses c @ [(k, i, n, a)], co_assembled := co_assembled c + word_of_nat (length a)\<rparr>)"
proof -
  have upd: "c\<lparr>co_assembled := v, co_tool_uses := m\<rparr> = c\<lparr>co_tool_uses := m, co_assembled := v\<rparr>" for v m
    by simp
  show ?thesis
    using assms by (simp add: upd count_bytes_uncapped bt_insert_last bt_replace_last bt_get_last)
qed

lemma decode_parts_collects:
  assumes "gd_tool_index d = word_of_nat k" and "\<forall>k' \<in> fst ` set (co_tool_uses c). k' < word_of_nat k"
    and "k + length parts < 2 ^ 32" and "gemini_decode_parts js parts d = (evs, d')"
  shows "\<exists>w. collect_loop js None (map Inr evs) c = Inr (gathered js k (parse_parts parts (word_of_nat k)) w c)"
  using assms
proof (induction parts arbitrary: k c d evs)
    case Nil
    then show ?case by (auto simp: gathered_def intro!: exI [of _ "co_assembled c"])
  next
    case (Cons part parts)
    show ?case
    proof (cases "get_str part ''text''")
      case (Some t)
      obtain evs1 where dec: "gemini_decode_parts js parts d = (evs1, d')" and evs: "evs = (if t \<noteq> [] then [EvTextDelta t] else []) @ evs1"
        using Cons.prems(4) Some by (auto split: prod.splits)
      let ?c = "if t = [] then c else c\<lparr>co_content := co_content c @ t, co_assembled := co_assembled c + word_of_nat (length t)\<rparr>"
      have "\<forall>k' \<in> fst ` set (co_tool_uses ?c). k' < word_of_nat k" using Cons.prems(2) by simp
      from Cons.IH [OF Cons.prems(1) this _ dec] Cons.prems(3) Some show ?thesis
        by (cases "t = []") (auto simp: evs collect_text gathered_def simp del: collect_event.simps(1))
    next
      case None
      show ?thesis
      proof (cases "get_object part ''functionCall''")
        case (Some call)
        let ?i = "word_of_nat k :: u32" and ?a = "js_to_string js (call_args call)"
        let ?d = "d\<lparr>gd_tool_index := ?i + 1, gd_stop_reason := Some FinishToolCalls\<rparr>"
        let ?t = "(gemini_call_id ?i, str_or_empty (get_str call ''name''), ?a)"
        let ?c = "c\<lparr>co_tool_uses := co_tool_uses c @ [(?i, ?t)], co_assembled := co_assembled c + word_of_nat (length ?a)\<rparr>"
        obtain evs1 where dec: "gemini_decode_parts js parts ?d = (evs1, d')"
          and evs: "evs = [EvToolCallStart \<lparr>tcs_index = ?i, tcs_id = gemini_call_id ?i, tcs_name = str_or_empty (get_str call ''name'')\<rparr>,
             EvToolCallArgsDelta ?i ?a, EvToolCallEnd ?i] @ evs1"
          using Cons.prems(1,4) None Some by (auto simp: Let_def split: prod.splits)
        have suc: "?i + 1 = word_of_nat (Suc k)" by (simp add: add.commute)
        have "?i < word_of_nat (Suc k)" using Cons.prems(3) by (intro word_of_nat_less) simp_all
        then have keys: "\<forall>k' \<in> fst ` set (co_tool_uses ?c). k' < word_of_nat (Suc k)"
          using Cons.prems(2) by (auto intro: less_trans)
        have idx: "gd_tool_index ?d = word_of_nat (Suc k)" by (simp add: suc)
        note IH = Cons.IH [OF idx keys _ dec]
        have "collect_loop js None (map Inr evs) c = collect_loop js None (map Inr evs1) ?c"
          unfolding evs map_append by (rule collect_whole_call [OF Cons.prems(2)])
        with IH Cons.prems(3) None Some show ?thesis
          by (auto simp: gathered_def add.commute [of 1])
      qed (use Cons None in auto)
    qed
  qed

lemma decode_parts_state:
  "gemini_decode_parts js parts d = (evs, d') \<Longrightarrow>
     gd_stop_reason d' = (if list_ex is_tool_use (parse_parts parts k) then Some FinishToolCalls else gd_stop_reason d)
     \<and> gd_started d' = gd_started d \<and> gd_ended d' = gd_ended d \<and> gd_usage d' = gd_usage d"
proof (induction parts arbitrary: d evs k)
  case (Cons part parts)
  show ?case
  proof (cases "get_str part ''text''")
    case (Some t)
    then obtain evs1 where "gemini_decode_parts js parts d = (evs1, d')"
      using Cons.prems by (auto split: prod.splits)
    from Cons.IH [OF this, of k] Some show ?thesis by simp
  next
    case None
    show ?thesis
    proof (cases "get_object part ''functionCall''")
      case (Some call)
      with None obtain evs1 where
        "gemini_decode_parts js parts (d\<lparr>gd_tool_index := gd_tool_index d + 1, gd_stop_reason := Some FinishToolCalls\<rparr>) = (evs1, d')"
        using Cons.prems by (auto simp: Let_def split: prod.splits)
      from Cons.IH [OF this, of "k + 1"] None Some show ?thesis by simp
    qed (use Cons None in simp)
  qed
qed simp

text \<open>What a replayed response collects to, and what one frame and the end of the stream collect to.\<close>

definition gemini_answer :: "json json_api \<Rightarrow> string \<Rightarrow> string \<Rightarrow> json content_part list \<Rightarrow> finish_reason \<Rightarrow> usage \<Rightarrow> json ai_response" where
  "gemini_answer js rid model ps r u = \<lparr>resp_id = rid, resp_model = model,
     resp_message = \<lparr>msg_role = Assistant,
       msg_content = (if concat (map part_text ps) \<noteq> [] then [CpText (concat (map part_text ps))] else [])
         @ map (tool_use_part js) (map (tool_entry js) (filter is_tool_use ps)), msg_cache_hint = None\<rparr>,
     resp_finish_reason = r, resp_usage = u\<rparr>"

definition answer_parts :: "json \<Rightarrow> json list" where
  "answer_parts body = (case Option.bind (first_candidate body) candidate_parts of Some ps \<Rightarrow> ps | None \<Rightarrow> [])"

lemma parse_parts_length: "length (filter is_tool_use (parse_parts parts k)) \<le> length parts"
proof (induction parts arbitrary: k)
  case (Cons part parts)
  show ?case using Cons [of k] Cons [of "k + 1"] by (auto split: option.split)
qed simp

lemma replayed_answer:
  assumes "length (filter is_tool_use (msg_content (resp_message r))) < 2 ^ 32"
  shows "collect_response js (map Inr (response_to_events js r)) rid model None =
    Inr (gemini_answer js rid model (msg_content (resp_message r)) (resp_finish_reason r) (resp_usage r))"
proof -
  let ?t = "message_text (resp_message r)" and ?ps = "msg_content (resp_message r)"
  let ?c = "empty_collected\<lparr>co_content := ?t, co_assembled := word_of_nat (length ?t)\<rparr> :: json collected"
  have front: "collect_loop js None (map Inr (EvMessageStart (resp_id r) (resp_model r)
      # (if ?t \<noteq> [] then [EvTextDelta ?t] else []))) empty_collected = Inr ?c"
    by (simp add: count_bytes_uncapped) (simp add: empty_collected_def)
  obtain w where "collect_loop js None (map Inr (tool_events js (word_of_nat 0) ?ps)) ?c =
      Inr (?c\<lparr>co_tool_uses := co_tool_uses ?c @ indexed 0 (map (tool_entry js) (filter is_tool_use ?ps)), co_assembled := w\<rparr>)"
    using collect_tool_events [of ?c 0 ?ps js] assms by (auto simp: empty_collected_def)
  then have tools: "collect_loop js None (map Inr (tool_events js 0 ?ps)) ?c =
      Inr (?c\<lparr>co_tool_uses := indexed 0 (map (tool_entry js) (filter is_tool_use ?ps)), co_assembled := w\<rparr>)"
    by (simp add: empty_collected_def)
  have events: "map Inr (response_to_events js r) =
      map Inr (EvMessageStart (resp_id r) (resp_model r) # (if ?t \<noteq> [] then [EvTextDelta ?t] else []))
      @ map Inr (tool_events js 0 ?ps) @ [Inr (EvUsageDelta (resp_usage r)), Inr (EvMessageEnd (resp_finish_reason r))]"
    by (simp add: response_to_events_def Let_def)
  show ?thesis
    unfolding collect_response_def events collect_loop_append front tools try_with_simps
    by (simp add: collected_parts_def map_snd_indexed empty_collected_def gemini_answer_def message_text_def)
qed

text \<open>
  C26: a Gemini answer means the same streamed and not streamed. Read as one response and
  replayed, or fed as a frame to the stream decoder which is then finished, the same body collects
  to the same text, tool calls with the same identifiers and arguments in the same order, finish
  reason and usage.
\<close>
theorem gemini_stream_agrees:
  assumes "parse_gemini_response fresh body = Inr resp"
    and "length (answer_parts body) < 2 ^ 32"
    and "gemini_decode js (new_gemini_decoder m) body = (evs, d)"
  shows "collect_response js (map Inr (evs @ fst (gemini_decoder_finish d))) rid model None =
    collect_response js (map Inr (response_to_events js resp)) rid model None"
proof -
  obtain cand where cand: "first_candidate body = Some cand"
    using assms(1) by (auto simp: parse_gemini_response_def try_with_Inr)
  let ?parts = "case candidate_parts cand of Some ps \<Rightarrow> ps | None \<Rightarrow> []"
  let ?ps = "parse_parts ?parts 0" and ?reason = "get_str cand ''finishReason''"
  have small: "length ?parts < 2 ^ 32" using assms(2) by (cases "candidate_parts cand") (simp_all add: answer_parts_def cand)
  have resp: "msg_content (resp_message resp) = ?ps" "resp_usage resp = usage_from_gemini (json_get body ''usageMetadata'')"
      "resp_finish_reason resp = finish_reason_from_gemini ?reason (list_ex is_tool_use ?ps)"
    using assms(1) by (auto simp: parse_gemini_response_def cand Let_def)
  define d2 where "d2 = (new_gemini_decoder m)\<lparr>gd_started := True, gd_usage := resp_usage resp\<rparr>"
  have d2: "(case json_get body ''usageMetadata'' of Some meta \<Rightarrow> (new_gemini_decoder m)\<lparr>gd_started := True, gd_usage := usage_from_gemini (Some meta)\<rparr>
      | None \<Rightarrow> (new_gemini_decoder m)\<lparr>gd_started := True\<rparr>) = d2"
    by (simp add: d2_def resp(2) new_gemini_decoder_def usage_from_gemini_def openai_tokens_def default_usage_def split: option.split)
  obtain evs1 d3 where dec: "gemini_decode_parts js ?parts d2 = (evs1, d3)" by fastforce
  have idx: "gd_tool_index d2 = word_of_nat 0" by (simp add: d2_def new_gemini_decoder_def)
  have keys: "\<forall>k' \<in> fst ` set (co_tool_uses (empty_collected :: json collected)). k' < word_of_nat 0" by (simp add: empty_collected_def)
  have "0 + length ?parts < 2 ^ 32" using small by simp
  from decode_parts_collects [OF idx keys this dec]
  obtain w where w: "collect_loop js None (map Inr evs1) empty_collected = Inr (gathered js 0 ?ps w empty_collected)"
    by auto
  obtain i n where evs: "evs = EvMessageStart i n # evs1"
    and d: "d = (case ?reason of Some reason \<Rightarrow> d3\<lparr>gd_stop_reason :=
        Some (finish_reason_from_gemini (Some reason) (gd_stop_reason d3 = Some FinishToolCalls))\<rparr> | None \<Rightarrow> d3)"
    using assms(3) unfolding gemini_decode_def Let_def cand option.case d2 dec
    by (auto simp: new_gemini_decoder_def)
  have stop: "gd_stop_reason d3 = (if list_ex is_tool_use ?ps then Some FinishToolCalls else None)"
      "gd_started d3" "\<not> gd_ended d3" "gd_usage d3 = resp_usage resp"
    using decode_parts_state [OF dec, of 0] by (simp_all add: d2_def new_gemini_decoder_def)
  have fin: "fst (gemini_decoder_finish d) = [EvUsageDelta (resp_usage resp), EvMessageEnd (resp_finish_reason resp)]"
    using stop by (cases ?reason) (auto simp: d gemini_decoder_finish_def resp(3) finish_reason_from_gemini_def)
  have "length (filter is_tool_use (msg_content (resp_message resp))) < 2 ^ 32"
    using parse_parts_length [of ?parts 0] small unfolding resp(1) by linarith
  note replay = replayed_answer [OF this]
  have "collect_loop js None (map Inr (evs @ fst (gemini_decoder_finish d))) empty_collected =
      Inr ((gathered js 0 ?ps w empty_collected)\<lparr>co_usage := resp_usage resp, co_finish_reason := Some (resp_finish_reason resp)\<rparr>)"
    by (simp add: evs fin collect_loop_append w)
  then have "collect_response js (map Inr (evs @ fst (gemini_decoder_finish d))) rid model None =
      Inr (gemini_answer js rid model ?ps (resp_finish_reason resp) (resp_usage resp))"
    by (simp add: collect_response_def gathered_def collected_parts_def map_snd_indexed empty_collected_def gemini_answer_def)
  then show ?thesis unfolding replay resp(1) .
qed

text \<open>Text, a call and text again.\<close>

definition gemini_body :: "json list \<Rightarrow> string \<Rightarrow> json" where
  "gemini_body parts reason = jobj [(''candidates'', JArray [jobj [(''content'', jobj [(''parts'', JArray parts)]),
     (''finishReason'', JString reason)]])]"

definition sample_gemini :: json where
  "sample_gemini = gemini_body [jobj [(''text'', JString ''a'')], function_call ''f'' JNull, jobj [(''text'', JString ''b'')]] ''STOP''"

definition gemini_json :: "json json_api" where
  "gemini_json = \<lparr>js_null = JNull, js_string = JString, js_from_str = (\<lambda>s. Some JNull), js_to_string = (\<lambda>v. ''null''),
     js_as_str = as_str, js_as_object = as_object\<rparr>"

definition sample_gemini_parts :: "json content_part list" where
  "sample_gemini_parts = [CpText ''a'', CpToolUse (gemini_call_id 0) ''f'' JNull, CpText ''b'']"

lemma get_function_call:
  "get_str (function_call n a) ''text'' = None"
  "get_object (function_call n a) ''functionCall'' = Some (jobj [(''name'', JString n), (''args'', a)])"
  by (simp_all add: function_call_def get_str_def get_object_jobj)

lemma read_part:
  "parse_parts (function_call n a # ps) k = CpToolUse (gemini_call_id k) n a # parse_parts ps (k + 1)"
  "parse_parts (jobj [(''text'', JString t)] # ps) k = (if t \<noteq> [] then [CpText t] else []) @ parse_parts ps k"
  by (simp_all add: get_function_call str_or_empty_def call_args_def
      get_str_def [of "jobj [(''text'', x)]" for x] get_str_def [of "jobj ((''name'', x) # xs)" for x xs])

lemma gemini_body_candidate:
  obtains candidate where "first_candidate (gemini_body parts reason) = Some candidate" and "candidate_parts candidate = Some parts"
    and "get_str candidate ''finishReason'' = Some reason"
  by (rule that [of "jobj [(''content'', jobj [(''parts'', JArray parts)]), (''finishReason'', JString reason)]"])
    (simp_all add: first_candidate_def gemini_body_def get_array_def candidate_parts_def get_str_def)

lemma sample_parts_read:
  "parse_parts [jobj [(''text'', JString ''a'')], function_call ''f'' JNull, jobj [(''text'', JString ''b'')]] 0 = sample_gemini_parts"
  by (simp add: read_part sample_gemini_parts_def del: parse_parts.simps(2))

theorem gemini_stream_agrees_witness:
  "\<exists>resp evs d. parse_gemini_response ''r'' sample_gemini = Inr resp
     \<and> msg_content (resp_message resp) = sample_gemini_parts \<and> resp_finish_reason resp = FinishToolCalls
     \<and> gemini_decode gemini_json (new_gemini_decoder ''m'') sample_gemini = (evs, d)
     \<and> collect_response gemini_json (map Inr (evs @ fst (gemini_decoder_finish d))) ''r'' ''m'' None =
         collect_response gemini_json (map Inr (response_to_events gemini_json resp)) ''r'' ''m'' None"
proof -
  obtain candidate parts where c: "first_candidate sample_gemini = Some candidate" "candidate_parts candidate = Some parts"
    "length parts = 3" "parse_parts parts 0 = sample_gemini_parts"
    unfolding sample_gemini_def using sample_parts_read
    by (rule_tac gemini_body_candidate [of "[jobj [(''text'', JString ''a'')], function_call ''f'' JNull, jobj [(''text'', JString ''b'')]]" "''STOP''"]) simp
  then obtain resp where resp: "parse_gemini_response ''r'' sample_gemini = Inr resp"
      "msg_content (resp_message resp) = sample_gemini_parts" "resp_finish_reason resp = FinishToolCalls"
    by (simp add: parse_gemini_response_def sample_gemini_parts_def finish_reason_from_gemini_def)
  obtain evs d where dec: "gemini_decode gemini_json (new_gemini_decoder ''m'') sample_gemini = (evs, d)" by fastforce
  have "length (answer_parts sample_gemini) < 2 ^ 32"
    using c by (simp add: answer_parts_def)
  from gemini_stream_agrees [OF resp(1) this dec, where rid = "''r''" and model = "''m''"] resp dec show ?thesis by blast
qed

section \<open>A printed answer\<close>

text \<open>Calls as they are read back: the same names and arguments, numbered from zero.\<close>

fun renumbered :: "u32 \<Rightarrow> json content_part list \<Rightarrow> json content_part list" where
  "renumbered k [] = []"
| "renumbered k (CpText t # ps) = (if t \<noteq> [] then [CpText t] else []) @ renumbered k ps"
| "renumbered k (CpToolUse i n a # ps) = CpToolUse (gemini_call_id k) n a # renumbered (k + 1) ps"
| "renumbered k (_ # ps) = renumbered k ps"

lemma response_parts_read: "parse_parts (List.map_filter gemini_response_part ps) k = renumbered k ps"
  by (induction k ps rule: renumbered.induct) (simp_all add: List.map_filter_simps read_part del: parse_parts.simps(2))

text \<open>
  A response printed in Gemini's form is read back with its texts and calls in order, its finish
  reason (an error as a stop, any call as a call for tools) and its token counts.
\<close>

lemma gemini_response_roundtrip:
  "parse_gemini_response fresh (response_to_gemini resp) = Inr
    \<lparr>resp_id = fresh, resp_model = [],
     resp_message = \<lparr>msg_role = Assistant, msg_content = renumbered 0 (msg_content (resp_message resp)), msg_cache_hint = None\<rparr>,
     resp_finish_reason = (if list_ex is_tool_use (renumbered 0 (msg_content (resp_message resp))) then FinishToolCalls
       else if resp_finish_reason resp = FinishLength \<or> resp_finish_reason resp = FinishContentFilter then resp_finish_reason resp
       else FinishStop),
     resp_usage = default_usage\<lparr>us_input_tokens := us_input_tokens (resp_usage resp),
       us_output_tokens := us_output_tokens (resp_usage resp)\<rparr>\<rparr>"
proof -
  define u where "u = jobj [(''promptTokenCount'', json_u64 (us_input_tokens (resp_usage resp))),
         (''candidatesTokenCount'', json_u64 (us_output_tokens (resp_usage resp)))]"
  define content where "content = jobj [(''role'', JString ''model''),
           (''parts'', JArray (List.map_filter gemini_response_part (msg_content (resp_message resp))))]"
  define cand where "cand = jobj [(''content'', content), (''finishReason'', JString (finish_reason_to_gemini (resp_finish_reason resp)))]"
  have body: "response_to_gemini resp = jobj [(''candidates'', JArray [cand]), (''usageMetadata'', u)]"
    by (simp add: response_to_gemini_def u_def content_def cand_def)
  have "usage_from_gemini (Some u) = default_usage\<lparr>us_input_tokens := us_input_tokens (resp_usage resp),
       us_output_tokens := us_output_tokens (resp_usage resp)\<rparr>"
    by (simp add: usage_from_gemini_def u_def openai_tokens_def get_u64_def Let_def jobj_def bt_get_collect default_usage_def)
  moreover have "candidate_parts cand = Some (List.map_filter gemini_response_part (msg_content (resp_message resp)))"
    by (simp add: candidate_parts_def cand_def content_def get_array_def)
  moreover have "get_str cand ''finishReason'' = Some (finish_reason_to_gemini (resp_finish_reason resp))"
    by (simp add: cand_def get_str_def)
  moreover have "first_candidate (response_to_gemini resp) = Some cand"
    by (simp add: first_candidate_def body get_array_def)
  moreover have "get_str (response_to_gemini resp) ''responseId'' = None" "get_str (response_to_gemini resp) ''modelVersion'' = None"
      "json_get (response_to_gemini resp) ''usageMetadata'' = Some u"
    by (simp_all add: body get_str_def)
  ultimately show ?thesis
    by (cases "resp_finish_reason resp")
      (simp_all add: parse_gemini_response_def response_parts_read finish_reason_from_gemini_def str_or_empty_def Let_def)
qed

section \<open>Identifiers that collide\<close>

text \<open>
  Every answer numbers its calls from \<open>call_0\<close>. In a conversation with two of them the later call
  takes over the identifier, and the result of the first call is sent under the name of the second
  function.
\<close>

definition two_calls :: "json message list" where
  "two_calls =
     [\<lparr>msg_role = Assistant, msg_content = [CpToolUse (gemini_call_id 0) ''read'' JNull], msg_cache_hint = None\<rparr>,
      \<lparr>msg_role = Tool, msg_content = [CpToolResult (gemini_call_id 0) ''text'' [] False], msg_cache_hint = None\<rparr>,
      \<lparr>msg_role = Assistant, msg_content = [CpToolUse (gemini_call_id 0) ''send'' JNull], msg_cache_hint = None\<rparr>]"

lemma calls_start_at_zero:
  "parse_parts [function_call n a] 0 = [CpToolUse (gemini_call_id 0) n a]"
  by (simp add: read_part del: parse_parts.simps(2))

lemma result_under_wrong_name:
  "gemini_tool_part (tool_names_of two_calls) (CpToolResult (gemini_call_id 0) ''text'' [] False) =
     [jobj [(''functionResponse'', jobj [(''name'', JString ''send''), (''response'', jobj [(''result'', JString ''text'')])])]]"
  by (simp add: tool_names_of_def two_calls_def note_tool_use_def)

end
