(* ===== verification/Responses.thy ===== *)
theory Responses
  imports Anthropic_Serving
begin

text \<open>
  The OpenAI Responses codec (\<open>sb-protocols/src/responses.rs\<close>): a client body into the canonical
  request and the canonical request into an upstream body, a response in both directions, and the
  encoder of the event stream. \<open>new_id\<close> is the argument \<open>fresh\<close>, applied to the prefix and to the
  position of the item the identifier is for. Energy figures, data URLs and image details are read
  and written as in the Chat Completions codec, whose definitions are used.
\<close>

section \<open>Content of clients\<close>

definition supported_server_tools :: "string list" where
  "supported_server_tools = [''web_search'', ''web_search_preview'', ''file_search'', ''tool_search'', ''mcp'', ''computer_use'',
     ''computer_use_preview'', ''image_generation'', ''code_interpreter'', ''shell'', ''local_shell'']"

text \<open>\<open>image_url\<close> before \<open>file_id\<close>, for content parts and tool results.\<close>

definition input_image_source :: "string \<Rightarrow> json \<Rightarrow> string + image_source" where
  "input_image_source missing part =
     (case (get_str part ''image_url'', get_str part ''file_id'') of
        (Some url, _) \<Rightarrow> Inr (case split_data_url url of Some (m, d) \<Rightarrow> InlineBase64 m d | None \<Rightarrow> RemoteUrl url)
      | (None, Some i) \<Rightarrow> Inr (ProviderFileRef (Some ''openai'') i)
      | (None, None) \<Rightarrow> Inl missing)"

definition responses_content_part :: "json \<Rightarrow> string + json content_part" where
  "responses_content_part part =
     (case get_str part ''type'' of
        None \<Rightarrow> Inl ''Responses content part missing string `type`''
      | Some t \<Rightarrow>
          if t = ''input_text'' \<or> t = ''output_text'' then
            try_with (ok_or ''Responses text content part missing string `text`'' (get_str part ''text'')) (\<lambda>s. Inr (CpText s))
          else if t = ''input_image'' then
            try_with (parse_image_detail (get_str part ''detail''))
              (\<lambda>detail. try_with (input_image_source ''Responses input_image part missing `image_url` or `file_id`'' part)
                 (\<lambda>src. Inr (CpImage src detail)))
          else Inl (''unsupported Responses content part `'' @ t @ ''`''))"

definition content_to_parts :: "json option \<Rightarrow> string + json content_part list" where
  "content_to_parts content =
     (case content of
        None \<Rightarrow> Inr []
      | Some JNull \<Rightarrow> Inr []
      | Some (JString s) \<Rightarrow> Inr [CpText s]
      | Some (JArray parts) \<Rightarrow> try_map responses_content_part parts
      | Some _ \<Rightarrow> Inl ''Responses message content must be a string, null, or array'')"

definition content_to_text :: "json option \<Rightarrow> string + string" where
  "content_to_text content = try_with (content_to_parts content) (\<lambda>ps. Inr (content_parts_to_text ps))"

definition tool_result_parts_to_text :: "tool_result_part list \<Rightarrow> string" where
  "tool_result_parts_to_text parts =
     join_with [CHR 0x0A] (List.map_filter (\<lambda>p. case p of TrText t \<Rightarrow> if t \<noteq> [] then Some t else None | _ \<Rightarrow> None) parts)"

definition tool_result_part_of :: "json \<Rightarrow> string + tool_result_part" where
  "tool_result_part_of item =
     (case get_str item ''type'' of
        None \<Rightarrow> Inl ''Responses tool result content part missing string `type`''
      | Some t \<Rightarrow>
          if t = ''input_text'' then
            try_with (ok_or ''Responses tool result input_text missing string `text`'' (get_str item ''text'')) (\<lambda>s. Inr (TrText s))
          else if t = ''input_image'' then
            try_with (parse_image_detail (get_str item ''detail''))
              (\<lambda>detail. try_with (input_image_source ''Responses tool result input_image missing `image_url` or `file_id`'' item)
                 (\<lambda>src. Inr (TrImage src detail)))
          else Inl (''unsupported Responses tool result content part `'' @ t @ ''`''))"

definition parse_tool_result_output :: "json option \<Rightarrow> string + string \<times> tool_result_part list" where
  "parse_tool_result_output output =
     (case output of
        None \<Rightarrow> Inr ([], [])
      | Some JNull \<Rightarrow> Inr ([], [])
      | Some (JString text) \<Rightarrow> Inr (text, if text = [] then [] else [TrText text])
      | Some (JArray items) \<Rightarrow> try_with (try_map tool_result_part_of items) (\<lambda>ps. Inr (tool_result_parts_to_text ps, ps))
      | Some _ \<Rightarrow> Inl ''Responses function_call_output `output` must be a string, null, or array'')"

section \<open>Requests of clients\<close>

definition call_id_or_id :: "json \<Rightarrow> string" where
  "call_id_or_id item = str_or_empty (Option.bind (or_else (json_get item ''call_id'') (json_get item ''id'')) as_str)"

definition parsed_arguments :: "json json_api \<Rightarrow> json \<Rightarrow> json" where
  "parsed_arguments js item =
     (case Option.bind (get_str item ''arguments'') (js_from_str js) of Some v \<Rightarrow> v | None \<Rightarrow> JNull)"

definition parse_input_item ::
  "json json_api \<Rightarrow> json \<Rightarrow> string option \<times> json message list \<Rightarrow> string + string option \<times> json message list" where
  "parse_input_item js item = (\<lambda>(system, msgs).
     let kind = (case get_str item ''type'' of Some t \<Rightarrow> t | None \<Rightarrow> ''message'');
         push = (\<lambda>role content. Inr (system, msgs @ [\<lparr>msg_role = role, msg_content = content, msg_cache_hint = None\<rparr>]))
     in if kind = ''message'' then
          (let role = (case get_str item ''role'' of Some r \<Rightarrow> r | None \<Rightarrow> ''user'')
           in try_with (content_to_parts (json_get item ''content''))
                (\<lambda>parts.
                   if role = ''system'' \<or> role = ''developer'' then
                     try_with (reject_image_parts parts ''Responses system/developer messages'')
                       (\<lambda>_. let text = content_parts_to_text parts
                            in Inr (if text \<noteq> []
                                 then Some (case system of Some existing \<Rightarrow> existing @ [CHR 0x0A] @ text | None \<Rightarrow> text) else system,
                               msgs))
                   else if role = ''assistant'' then
                     try_with (reject_image_parts parts ''Responses assistant messages'') (\<lambda>_. push Assistant parts)
                   else push User parts))
        else if kind = ''function_call'' then
          push Assistant [CpToolUse (call_id_or_id item) (str_or_empty (get_str item ''name'')) (parsed_arguments js item)]
        else if kind = ''function_call_output'' then
          try_with (parse_tool_result_output (json_get item ''output''))
            (\<lambda>(content, parts). push Tool [CpToolResult (str_or_empty (get_str item ''call_id'')) content parts False])
        else Inl (''unsupported Responses input item `'' @ kind @ ''`''))"

definition responses_tool ::
  "json \<Rightarrow> json tool_spec list \<times> json server_tool_spec list \<Rightarrow> string + json tool_spec list \<times> json server_tool_spec list" where
  "responses_tool tool = (\<lambda>(tools, server).
     case get_str tool ''type'' of
       None \<Rightarrow> Inl ''Responses tool missing string `type`''
     | Some kind \<Rightarrow>
         if kind = ''function'' then
           try_with (ok_or ''Responses function tool missing string `name`'' (get_str tool ''name''))
             (\<lambda>name. Inr (tools @ [\<lparr>tool_name = name, tool_description = get_str tool ''description'',
                tool_parameters = (case json_get tool ''parameters'' of Some p \<Rightarrow> p | None \<Rightarrow> JNull),
                tool_defer_loading = (case get_bool tool ''defer_loading'' of Some b \<Rightarrow> b | None \<Rightarrow> False)\<rparr>], server))
         else if kind \<in> set supported_server_tools then
           Inr (tools, server @ [\<lparr>st_protocol = OpenAiResponses, st_kind = kind, st_config = tool\<rparr>])
         else Inl (''unsupported Responses tool type `'' @ kind @ ''`''))"

definition responses_modeled_keys :: "string list" where
  "responses_modeled_keys = [''model'', ''instructions'', ''input'', ''tools'', ''stream'', ''temperature'', ''max_output_tokens'']"

definition request_from_openai_responses :: "json json_api \<Rightarrow> string \<Rightarrow> json \<Rightarrow> string + json ai_request" where
  "request_from_openai_responses js fresh body =
     try_with (ok_or ''missing or invalid `model`'' (get_str body ''model''))
       (\<lambda>model.
          let system = (case get_str body ''instructions'' of Some i \<Rightarrow> if i \<noteq> [] then Some i else None | None \<Rightarrow> None)
          in try_with (case json_get body ''input'' of
                 Some (JString text) \<Rightarrow> Inr (system, [\<lparr>msg_role = User, msg_content = [CpText text], msg_cache_hint = None\<rparr>])
               | Some (JArray items) \<Rightarrow> try_fold (parse_input_item js) items (system, [])
               | _ \<Rightarrow> Inl ''missing or invalid `input`'')
               (\<lambda>(system, msgs). try_with
                  (try_fold responses_tool (case get_array body ''tools'' of Some ts \<Rightarrow> ts | None \<Rightarrow> []) ([], []))
                  (\<lambda>(tools, server). Inr ((new_request fresh model msgs)
                     \<lparr>req_system := system, req_tools := tools, req_server_tools := server,
                      req_stream := (case get_bool body ''stream'' of Some b \<Rightarrow> b | None \<Rightarrow> False),
                      req_temperature := map_option f64_as_f32 (get_f64 body ''temperature''),
                      req_max_output_tokens := Option.bind (get_u64 body ''max_output_tokens'') u32_try_from,
                      req_passthrough := (case as_object body of
                          Some m \<Rightarrow> bt_collect (filter (\<lambda>(k, v). k \<notin> set responses_modeled_keys) m)
                        | None \<Rightarrow> [])\<rparr>))))"

section \<open>Requests to upstreams\<close>

definition image_to_responses_content :: "image_source \<Rightarrow> image_detail option \<Rightarrow> string + json" where
  "image_to_responses_content source detail =
     try_with (image_source_validate source)
       (\<lambda>_. let base = [(''type'', JString ''input_image''),
                (''detail'', JString (image_detail_as_str (case detail of Some d \<Rightarrow> d | None \<Rightarrow> DetailAuto)))]
            in case source of
                 InlineBase64 m d \<Rightarrow> Inr (jobj (base @ [(''image_url'', JString (''data:'' @ m @ '';base64,'' @ d))]))
               | RemoteUrl url \<Rightarrow> Inr (jobj (base @ [(''image_url'', JString url)]))
               | ProviderFileRef provider i \<Rightarrow>
                   (case provider of
                      Some owner \<Rightarrow>
                        if owner \<noteq> ''openai''
                        then Inl (''OpenAI Responses cannot encode provider file ref owned by `'' @ owner @ ''`'')
                        else Inr (jobj (base @ [(''file_id'', JString i)]))
                    | None \<Rightarrow> Inr (jobj (base @ [(''file_id'', JString i)]))))"

fun tool_result_value :: "tool_result_part \<Rightarrow> string + json" where
  "tool_result_value (TrText text) = Inr (jobj [(''type'', JString ''input_text''), (''text'', JString text)])"
| "tool_result_value (TrImage src d) = image_to_responses_content src d"

definition tool_result_output_to_responses :: "string \<Rightarrow> tool_result_part list \<Rightarrow> string + json" where
  "tool_result_output_to_responses content parts =
     (if parts = [] \<or> parts = [TrText content] then Inr (JString content)
      else try_with (try_map tool_result_value parts) (\<lambda>vs. Inr (JArray vs)))"

fun responses_wire_part :: "role \<Rightarrow> json content_part \<Rightarrow> string + json list" where
  "responses_wire_part role (CpText text) =
     Inr (if text \<noteq> [] then [jobj [(''type'', JString (if role = Assistant then ''output_text'' else ''input_text'')),
       (''text'', JString text)]] else [])"
| "responses_wire_part role (CpImage src d) =
     (if role \<noteq> User then Inl ''OpenAI Responses can only encode image content in user messages''
      else try_with (image_to_responses_content src d) (\<lambda>v. Inr [v]))"
| "responses_wire_part role _ = Inr []"

definition message_content_to_responses_parts :: "json message \<Rightarrow> string + json list" where
  "message_content_to_responses_parts m =
     try_with (try_map (responses_wire_part (msg_role m)) (msg_content m)) (\<lambda>vs. Inr (concat vs))"

fun wire_function_call :: "json json_api \<Rightarrow> json content_part \<Rightarrow> json option" where
  "wire_function_call js (CpToolUse i name args) = Some (jobj [(''type'', JString ''function_call''), (''call_id'', JString i),
     (''name'', JString name), (''arguments'', JString (js_to_string js args))])"
| "wire_function_call js _ = None"

fun wire_tool_output :: "json content_part \<Rightarrow> string + json list" where
  "wire_tool_output (CpToolResult i content parts err) =
     try_with (tool_result_output_to_responses content parts)
       (\<lambda>out. Inr [jobj [(''type'', JString ''function_call_output''), (''call_id'', JString i), (''output'', out)]])"
| "wire_tool_output (CpImage src d) = Inl ''OpenAI Responses cannot encode image content in tool messages''"
| "wire_tool_output _ = Inr []"

text \<open>One message: the instructions it sets and the items it becomes.\<close>

definition responses_wire_message :: "json json_api \<Rightarrow> json message \<Rightarrow> string + string list \<times> json list" where
  "responses_wire_message js m =
     (case msg_role m of
        System \<Rightarrow> try_with (reject_image_parts (msg_content m) ''Responses system messages'')
          (\<lambda>_. Inr (if message_text m \<noteq> [] then [message_text m] else [], []))
      | Tool \<Rightarrow> try_with (try_map wire_tool_output (msg_content m)) (\<lambda>vs. Inr ([], concat vs))
      | role \<Rightarrow> try_with (message_content_to_responses_parts m)
          (\<lambda>content. Inr ([], (if content \<noteq> []
             then [jobj [(''type'', JString ''message''), (''role'', JString (if role = Assistant then ''assistant'' else ''user'')),
                     (''content'', JArray content)]] else [])
             @ List.map_filter (wire_function_call js) (msg_content m))))"

definition responses_wire_tool :: "json tool_spec \<Rightarrow> json" where
  "responses_wire_tool t = jobj ([(''type'', JString ''function''), (''name'', JString (tool_name t)),
     (''description'', case tool_description t of Some d \<Rightarrow> JString d | None \<Rightarrow> JNull), (''parameters'', tool_parameters t)]
     @ (if tool_defer_loading t then [(''defer_loading'', JBool True)] else []))"

definition responses_wire_server_tool :: "bool \<Rightarrow> json server_tool_spec \<Rightarrow> string + json list" where
  "responses_wire_server_tool has_deferred_tools t =
     (if st_protocol t = OpenAiResponses then Inr [st_config t]
      else if starts_with (st_kind t) ''tool_search_tool_'' then
        Inr (if has_deferred_tools then [jobj [(''type'', JString ''tool_search'')]] else [])
      else Inl (''OpenAI Responses cannot encode '' @ server_tool_protocol_as_str (st_protocol t) @ '' server tool `'' @ st_kind t @ ''`''))"

definition request_to_openai_responses_wire :: "json json_api \<Rightarrow> json ai_request \<Rightarrow> string \<Rightarrow> bool \<Rightarrow> string + json" where
  "request_to_openai_responses_wire js req model stream =
     try_with (validate_canonical req)
       (\<lambda>_. try_with (try_map (responses_wire_message js) (req_messages req))
          (\<lambda>rs. try_with (try_map (responses_wire_server_tool (list_ex tool_defer_loading (req_tools req))) (req_server_tools req))
             (\<lambda>server.
                let instructions = (case req_system req of Some s \<Rightarrow> if s \<noteq> [] then [s] else [] | None \<Rightarrow> []) @ concat (map fst rs)
                in Inr (JObject (or_insert_all (req_passthrough req) (bt_collect
                     ([(''model'', JString model), (''stream'', JBool stream)]
                      @ map (\<lambda>s. (''instructions'', JString s)) instructions
                      @ [(''input'', JArray (concat (map snd rs)))]
                      @ (if req_tools req \<noteq> [] \<or> req_server_tools req \<noteq> []
                         then [(''tools'', JArray (map responses_wire_tool (req_tools req) @ concat server))] else [])
                      @ opt_pair ''temperature'' (\<lambda>t. json_f64 (f32_as_f64 t)) (req_temperature req)
                      @ opt_pair ''max_output_tokens'' json_u32 (req_max_output_tokens req))))))))"

section \<open>Responses of upstreams\<close>

definition output_format_to_media_type :: "string option \<Rightarrow> string" where
  "output_format_to_media_type format =
     (let f = (case format of Some x \<Rightarrow> x | None \<Rightarrow> ''png'') in if CHR ''/'' \<in> set f then f else ''image/'' @ f)"

definition reasoning_summary_text :: "json \<Rightarrow> string" where
  "reasoning_summary_text item =
     (case get_array item ''summary'' of
        Some summary \<Rightarrow> concat (List.map_filter (\<lambda>p. if get_str p ''type'' = Some ''summary_text'' then get_str p ''text'' else None) summary)
      | None \<Rightarrow> [])"

definition url_citation :: "json \<Rightarrow> json content_part option" where
  "url_citation a =
     (if get_str a ''type'' = Some ''url_citation''
      then map_option (\<lambda>url. CpCitation url (get_str a ''title'') None) (get_str a ''url'') else None)"

definition output_part :: "json \<Rightarrow> json content_part list" where
  "output_part part =
     (case get_str part ''text'' of Some t \<Rightarrow> text_parts t | None \<Rightarrow> [])
     @ (case get_array part ''annotations'' of Some as \<Rightarrow> List.map_filter url_citation as | None \<Rightarrow> [])"

definition message_output_parts :: "json \<Rightarrow> string + json content_part list" where
  "message_output_parts item =
     (case get_array item ''content'' of
        None \<Rightarrow> try_with (content_to_text (json_get item ''content'')) (\<lambda>t. Inr (text_parts t))
      | Some content \<Rightarrow> Inr (concat (map output_part content)))"

definition response_item :: "json json_api \<Rightarrow> json \<Rightarrow> string + json content_part list" where
  "response_item js item =
     (case get_str item ''type'' of
        None \<Rightarrow> Inr []
      | Some t \<Rightarrow>
          if t = ''message'' then message_output_parts item
          else if t = ''reasoning'' then
            Inr (let s = reasoning_summary_text item in if s \<noteq> [] then [CpReasoning s None] else [])
          else if t = ''function_call'' then
            Inr [CpToolUse (call_id_or_id item) (str_or_empty (get_str item ''name'')) (parsed_arguments js item)]
          else if t = ''image_generation_call'' then
            Inr (case get_str item ''result'' of
                Some d \<Rightarrow> [CpImage (InlineBase64 (output_format_to_media_type (get_str item ''output_format'')) d) None] | None \<Rightarrow> [])
          else (case strip_suffix ''_call'' t of
                  Some name \<Rightarrow> Inr [CpServerToolUse (str_or_empty (get_str item ''id'')) name
                     (case json_get item ''action'' of Some a \<Rightarrow> a | None \<Rightarrow> JNull)]
                | None \<Rightarrow> Inr []))"

definition finish_reason_from_status :: "string option \<Rightarrow> finish_reason" where
  "finish_reason_from_status status =
     (if status = Some ''incomplete'' then FinishLength else if status = Some ''failed'' then FinishError else FinishStop)"

definition get_in :: "json \<Rightarrow> string \<Rightarrow> string \<Rightarrow> json option" where
  "get_in v a b = Option.bind (json_get v a) (\<lambda>x. json_get x b)"

definition parse_responses_usage :: "json option \<Rightarrow> json option \<Rightarrow> usage" where
  "parse_responses_usage v energy =
     (let count = (\<lambda>x. case Option.bind x as_u64 of Some n \<Rightarrow> n | None \<Rightarrow> 0)
      in case v of
           None \<Rightarrow> default_usage\<lparr>us_energy := parse_energy_usage energy\<rparr>
         | Some u \<Rightarrow> \<lparr>us_input_tokens = count (json_get u ''input_tokens''), us_output_tokens = count (json_get u ''output_tokens''),
             us_cached_input_tokens = count (get_in u ''input_tokens_details'' ''cached_tokens''),
             us_reasoning_tokens = count (get_in u ''output_tokens_details'' ''reasoning_tokens''),
             us_energy = parse_energy_usage energy\<rparr>)"

definition parse_openai_responses_response :: "json json_api \<Rightarrow> json \<Rightarrow> string + json ai_response" where
  "parse_openai_responses_response js body =
     try_with (ok_or ''Responses response missing `output` array'' (get_array body ''output''))
       (\<lambda>output. try_with (try_map (response_item js) output)
          (\<lambda>pss. Inr \<lparr>resp_id = (case get_str body ''id'' of Some i \<Rightarrow> i | None \<Rightarrow> ''resp''),
             resp_model = str_or_empty (get_str body ''model''),
             resp_message = \<lparr>msg_role = Assistant, msg_content = concat pss, msg_cache_hint = None\<rparr>,
             resp_finish_reason = finish_reason_from_status (get_str body ''status''),
             resp_usage = parse_responses_usage (json_get body ''usage'')
               (or_else (json_get body ''energy'') (get_in body ''usage'' ''energy''))\<rparr>))"

end
