(* ===== verification/Responses_Serving.thy ===== *)
theory Responses_Serving
  imports Responses
begin

text \<open>
  The side of the Responses codec that serves clients: the response object and the encoder of the
  event stream (\<open>sb-protocols/src/responses.rs\<close>). A frame is its event name and its data.
\<close>

section \<open>The response object\<close>

definition responses_usage_json :: "usage \<Rightarrow> json" where
  "responses_usage_json u = jobj
     ([(''input_tokens'', json_u64 (us_input_tokens u)), (''output_tokens'', json_u64 (us_output_tokens u)),
       (''total_tokens'', json_u64 (usage_total u))] @ opt_pair ''energy'' energy_usage_json (us_energy u))"

text \<open>
  The items of the output, each waiting for its identifier: reasoning first, then the text with
  its citations, then calls, images and server tools in the order of the parts.
\<close>

fun reasoning_item :: "json content_part \<Rightarrow> (string \<times> (string \<Rightarrow> json)) option" where
  "reasoning_item (CpReasoning text sig) =
     (if text \<noteq> [] then Some (''rs'', \<lambda>i. jobj [(''type'', JString ''reasoning''), (''id'', JString i),
        (''summary'', JArray [jobj [(''type'', JString ''summary_text''), (''text'', JString text)]])]) else None)"
| "reasoning_item _ = None"

fun annotation :: "json content_part \<Rightarrow> json option" where
  "annotation (CpCitation url title snippet) = Some (jobj [(''type'', JString ''url_citation''), (''url'', JString url),
     (''title'', case title of Some t \<Rightarrow> JString t | None \<Rightarrow> JNull)])"
| "annotation _ = None"

definition message_item :: "string \<Rightarrow> string \<Rightarrow> json list \<Rightarrow> json" where
  "message_item i text annotations = jobj [(''type'', JString ''message''), (''id'', JString i), (''status'', JString ''completed''),
     (''role'', JString ''assistant''), (''content'', JArray [jobj [(''type'', JString ''output_text''), (''text'', JString text),
        (''annotations'', JArray annotations)]])]"

definition function_call_item :: "string \<Rightarrow> string \<Rightarrow> string \<Rightarrow> string \<Rightarrow> json" where
  "function_call_item i call name args = jobj [(''type'', JString ''function_call''), (''id'', JString i), (''call_id'', JString call),
     (''name'', JString name), (''arguments'', JString args), (''status'', JString ''completed'')]"

definition image_item :: "string \<Rightarrow> string \<Rightarrow> string \<Rightarrow> json" where
  "image_item i m d = jobj [(''type'', JString ''image_generation_call''), (''id'', JString i), (''status'', JString ''completed''),
     (''result'', JString d), (''output_format'', JString m)]"

fun output_item :: "json json_api \<Rightarrow> json content_part \<Rightarrow> (string \<times> (string \<Rightarrow> json)) option" where
  "output_item js (CpToolUse call name args) = Some (''fc'', \<lambda>i. function_call_item i call name (js_to_string js args))"
| "output_item js (CpImage (InlineBase64 m d) detail) = Some (''img'', \<lambda>i. image_item i m d)"
| "output_item js (CpServerToolUse i name args) = Some ([], \<lambda>_. jobj [(''type'', JString (name @ ''_call'')), (''id'', JString i),
     (''status'', JString ''completed''), (''action'', args)])"
| "output_item js _ = None"

definition response_items :: "json json_api \<Rightarrow> json message \<Rightarrow> (string \<times> (string \<Rightarrow> json)) list" where
  "response_items js m =
     List.map_filter reasoning_item (msg_content m)
     @ (if message_text m \<noteq> [] then [(''msg'', \<lambda>i. message_item i (message_text m) (List.map_filter annotation (msg_content m)))] else [])
     @ List.map_filter (output_item js) (msg_content m)"

definition with_ids :: "(string \<Rightarrow> nat \<Rightarrow> string) \<Rightarrow> (string \<times> (string \<Rightarrow> json)) list \<Rightarrow> json list" where
  "with_ids fresh items = map (\<lambda>(n, prefix, mk). mk (fresh prefix n)) (List.enumerate 0 items)"

definition response_to_openai_responses :: "json json_api \<Rightarrow> (string \<Rightarrow> nat \<Rightarrow> string) \<Rightarrow> json ai_response \<Rightarrow> json" where
  "response_to_openai_responses js fresh resp = jobj
     ([(''id'', JString (resp_id resp)), (''object'', JString ''response''), (''status'', JString ''completed''),
       (''model'', JString (resp_model resp)), (''output'', JArray (with_ids fresh (response_items js (resp_message resp)))),
       (''usage'', responses_usage_json (resp_usage resp))]
      @ opt_pair ''energy'' energy_usage_json (us_energy (resp_usage resp)))"

section \<open>The event stream\<close>

fun finish_str :: "finish_reason \<Rightarrow> string" where
  "finish_str FinishStop = ''completed''"
| "finish_str FinishLength = ''incomplete''"
| "finish_str FinishToolCalls = ''completed''"
| "finish_str FinishContentFilter = ''incomplete''"
| "finish_str FinishError = ''failed''"

record responses_encoder =
  re_response_id :: string
  re_model :: string
  re_item_id :: string
  re_output_index :: u32
  re_text_open :: bool
  re_text :: string
  re_usage :: usage
  re_status :: string
  re_tool_calls :: "(string \<times> string \<times> string) list"
  re_cur_tool :: "(string \<times> string \<times> string) option"
  re_reasoning_id :: string
  re_reasoning :: string
  re_reasoning_open :: bool
  re_reasoning_item :: "json option"

definition new_responses_encoder :: "(string \<Rightarrow> nat \<Rightarrow> string) \<Rightarrow> string \<Rightarrow> string \<Rightarrow> responses_encoder" where
  "new_responses_encoder fresh i model = \<lparr>re_response_id = i, re_model = model, re_item_id = fresh ''msg'' 0, re_output_index = 0,
     re_text_open = False, re_text = [], re_usage = default_usage, re_status = ''completed'', re_tool_calls = [],
     re_cur_tool = None, re_reasoning_id = fresh ''rs'' 0, re_reasoning = [], re_reasoning_open = False, re_reasoning_item = None\<rparr>"

text \<open>A frame: every payload names its event.\<close>

definition responses_frame :: "string \<Rightarrow> (string \<times> json) list \<Rightarrow> sse_frame" where
  "responses_frame event kvs = (event, jobj ((''type'', JString event) # kvs))"

definition item_frame :: "string \<Rightarrow> u32 \<Rightarrow> json \<Rightarrow> sse_frame" where
  "item_frame event i item = responses_frame event [(''output_index'', json_u32 i), (''item'', item)]"

definition added_done :: "u32 \<Rightarrow> json \<Rightarrow> sse_frame list" where
  "added_done i item = [item_frame ''response.output_item.added'' i item, item_frame ''response.output_item.done'' i item]"

definition close_reasoning :: "responses_encoder \<Rightarrow> responses_encoder \<times> sse_frame list" where
  "close_reasoning e =
     (if \<not> re_reasoning_open e \<or> re_reasoning_item e \<noteq> None then (e, [])
      else let item = jobj [(''type'', JString ''reasoning''), (''id'', JString (re_reasoning_id e)),
                 (''summary'', JArray [jobj [(''type'', JString ''summary_text''), (''text'', JString (re_reasoning e))]])]
           in (e\<lparr>re_reasoning_item := Some item, re_output_index := re_output_index e + 1\<rparr>,
               [responses_frame ''response.reasoning_summary_text.done''
                  [(''item_id'', JString (re_reasoning_id e)), (''output_index'', json_u32 (re_output_index e)),
                   (''summary_index'', json_u64 0), (''text'', JString (re_reasoning e))],
                item_frame ''response.output_item.done'' (re_output_index e) item]))"

text \<open>Fields of a text frame.\<close>

definition in_text :: "responses_encoder \<Rightarrow> (string \<times> json) list \<Rightarrow> (string \<times> json) list" where
  "in_text e kvs = [(''item_id'', JString (re_item_id e)), (''output_index'', json_u32 (re_output_index e)),
     (''content_index'', json_u64 0)] @ kvs"

definition text_part_json :: "string \<Rightarrow> json" where
  "text_part_json text = jobj [(''type'', JString ''output_text''), (''text'', JString text), (''annotations'', JArray [])]"

definition open_text :: "responses_encoder \<Rightarrow> responses_encoder \<times> sse_frame list" where
  "open_text e =
     (if re_text_open e then (e, [])
      else (e\<lparr>re_text_open := True\<rparr>,
        [item_frame ''response.output_item.added'' (re_output_index e) (jobj [(''type'', JString ''message''),
           (''id'', JString (re_item_id e)), (''status'', JString ''in_progress''), (''role'', JString ''assistant''),
           (''content'', JArray [])]),
         responses_frame ''response.content_part.added'' (in_text e [(''part'', text_part_json [])])]))"

definition flush_tool :: "responses_encoder \<Rightarrow> responses_encoder" where
  "flush_tool e = (case re_cur_tool e of
     Some tc \<Rightarrow> e\<lparr>re_tool_calls := re_tool_calls e @ [tc], re_cur_tool := None\<rparr> | None \<Rightarrow> e)"

fun finish_tools ::
  "(string \<Rightarrow> nat \<Rightarrow> string) \<Rightarrow> (string \<times> string \<times> string) list \<Rightarrow> u32 \<Rightarrow> sse_frame list \<times> json list \<times> u32" where
  "finish_tools fresh [] i = ([], [], i)"
| "finish_tools fresh ((call, name, args) # tcs) i =
     (let item = function_call_item (fresh ''fc'' (unat i)) call name args; (fs, items, j) = finish_tools fresh tcs (i + 1)
      in (added_done i item @ fs, item # items, j))"

definition finish_text :: "responses_encoder \<Rightarrow> responses_encoder \<times> sse_frame list \<times> json list" where
  "finish_text e =
     (if \<not> re_text_open e then (e, [], [])
      else let item = message_item (re_item_id e) (re_text e) []
           in (e\<lparr>re_output_index := re_output_index e + 1\<rparr>,
               [responses_frame ''response.output_text.done'' (in_text e [(''text'', JString (re_text e))]),
                responses_frame ''response.content_part.done'' (in_text e [(''part'', text_part_json (re_text e))]),
                item_frame ''response.output_item.done'' (re_output_index e) item], [item]))"

definition responses_finish :: "(string \<Rightarrow> nat \<Rightarrow> string) \<Rightarrow> responses_encoder \<Rightarrow> responses_encoder \<times> sse_frame list" where
  "responses_finish fresh e =
     (let (e1, fs1) = close_reasoning e;
          reasoning = (case re_reasoning_item e1 of Some v \<Rightarrow> [v] | None \<Rightarrow> []);
          (e2, fs2, message) = finish_text e1;
          e3 = flush_tool e2;
          (fs3, tools, i) = finish_tools fresh (re_tool_calls e3) (re_output_index e3);
          e4 = e3\<lparr>re_output_index := i\<rparr>;
          completed = jobj ([(''id'', JString (re_response_id e)), (''object'', JString ''response''), (''status'', JString (re_status e)),
             (''model'', JString (re_model e)), (''output'', JArray (reasoning @ message @ tools)),
             (''usage'', responses_usage_json (re_usage e))] @ opt_pair ''energy'' energy_usage_json (us_energy (re_usage e)))
      in (e4, fs1 @ fs2 @ fs3 @ [responses_frame ''response.completed'' [(''response'', completed)]]))"

fun responses_encode ::
  "(string \<Rightarrow> nat \<Rightarrow> string) \<Rightarrow> responses_encoder \<Rightarrow> stream_event \<Rightarrow> responses_encoder \<times> sse_frame list" where
  "responses_encode fresh e (EvMessageStart i m) =
     (e, [responses_frame ''response.created'' [(''response'', jobj [(''id'', JString (re_response_id e)),
        (''object'', JString ''response''), (''status'', JString ''in_progress''), (''model'', JString (re_model e)), (''output'', JArray [])])]])"
| "responses_encode fresh e (EvServerToolCall i name status) =
     (e, [responses_frame (''response.'' @ name @ ''_call.'' @ status) [(''item_id'', JString i), (''output_index'', json_u32 (re_output_index e))]])"
| "responses_encode fresh e (EvOutputImage m d) =
     (let (e1, fs1) = close_reasoning e; i = re_output_index e1
      in (e1\<lparr>re_output_index := i + 1\<rparr>, fs1 @ added_done i (image_item (fresh ''img'' (unat i)) m d)))"
| "responses_encode fresh e (EvCitation url title) =
     (e, [responses_frame ''response.output_text.annotation.added'' (in_text e [(''annotation'', jobj [(''type'', JString ''url_citation''),
        (''url'', JString url), (''title'', case title of Some t \<Rightarrow> JString t | None \<Rightarrow> JNull)])])])"
| "responses_encode fresh e (EvTextDelta text) =
     (let (e1, fs1) = close_reasoning e; (e2, fs2) = open_text e1
      in (e2\<lparr>re_text := re_text e2 @ text\<rparr>,
          fs1 @ fs2 @ [responses_frame ''response.output_text.delta'' (in_text e2 [(''delta'', JString text)])]))"
| "responses_encode fresh e (EvToolCallStart t) =
     ((flush_tool e)\<lparr>re_cur_tool := Some (tcs_id t, tcs_name t, [])\<rparr>, [])"
| "responses_encode fresh e (EvToolCallArgsDelta index json) =
     (e\<lparr>re_cur_tool := map_option (\<lambda>(i, n, args). (i, n, args @ json)) (re_cur_tool e)\<rparr>, [])"
| "responses_encode fresh e (EvToolCallEnd index) = (flush_tool e, [])"
| "responses_encode fresh e (EvUsageDelta u) = (e\<lparr>re_usage := u\<rparr>, [])"
| "responses_encode fresh e (EvMessageEnd reason) = responses_finish fresh (e\<lparr>re_status := finish_str reason\<rparr>)"
| "responses_encode fresh e (EvError message k) =
     (e\<lparr>re_status := ''failed''\<rparr>, [responses_frame ''response.failed'' [(''response'', jobj [(''id'', JString (re_response_id e)),
        (''status'', JString ''failed''), (''error'', jobj [(''message'', JString message)])])]])"
| "responses_encode fresh e (EvReasoningDelta text) =
     (let opened = (if re_reasoning_open e then []
            else [item_frame ''response.output_item.added'' (re_output_index e) (jobj [(''type'', JString ''reasoning''),
                    (''id'', JString (re_reasoning_id e)), (''summary'', JArray [])]),
                  responses_frame ''response.reasoning_summary_part.added'' [(''item_id'', JString (re_reasoning_id e)),
                    (''output_index'', json_u32 (re_output_index e)), (''summary_index'', json_u64 0),
                    (''part'', jobj [(''type'', JString ''summary_text''), (''text'', JString [])])]])
      in (e\<lparr>re_reasoning_open := True, re_reasoning := re_reasoning e @ text\<rparr>,
          opened @ [responses_frame ''response.reasoning_summary_text.delta'' [(''item_id'', JString (re_reasoning_id e)),
            (''output_index'', json_u32 (re_output_index e)), (''summary_index'', json_u64 0), (''delta'', JString text)]]))"

text \<open>The frames of a stream served to a client.\<close>

fun responses_stream :: "(string \<Rightarrow> nat \<Rightarrow> string) \<Rightarrow> responses_encoder \<Rightarrow> stream_event list \<Rightarrow> sse_frame list" where
  "responses_stream fresh e [] = []"
| "responses_stream fresh e (ev # evs) = (case responses_encode fresh e ev of (e', fs) \<Rightarrow> fs @ responses_stream fresh e' evs)"

end
