(* ===== verification/Responses_Facts.thy ===== *)
theory Responses_Facts
  imports Responses_Serving Openai_Facts
begin

text \<open>
  The stream a Responses client is served ends with an object that says what was streamed; and
  where the encoder loses or misplaces something.
\<close>

section \<open>Streams in the order of the API\<close>

text \<open>
  Reasoning before text, tool calls one after another under growing indices, no other kind of
  content and no error; an energy figure, if any, is one that JSON carries.
\<close>

definition energy_reported :: "usage \<Rightarrow> bool" where
  "energy_reported u \<longleftrightarrow> (case us_energy u of None \<Rightarrow> True | Some e \<Rightarrow> energy_carried e)"

text \<open>What the usage object of this interface has room for.\<close>

definition without_details :: "usage \<Rightarrow> usage" where
  "without_details u = u\<lparr>us_cached_input_tokens := 0, us_reasoning_tokens := 0\<rparr>"

fun orderly :: "bool \<Rightarrow> u32 option \<Rightarrow> nat \<Rightarrow> stream_event list \<Rightarrow> bool" where
  "orderly spoken cur n [] = True"
| "orderly spoken cur n (EvMessageStart i m # evs) = orderly spoken cur n evs"
| "orderly spoken cur n (EvTextDelta t # evs) = orderly True cur n evs"
| "orderly spoken cur n (EvReasoningDelta t # evs) = (\<not> spoken \<and> orderly spoken cur n evs)"
| "orderly spoken cur n (EvToolCallStart t # evs) =
     (n \<le> unat (tcs_index t) \<and> orderly spoken (Some (tcs_index t)) (Suc (unat (tcs_index t))) evs)"
| "orderly spoken cur n (EvToolCallArgsDelta k a # evs) = (cur = Some k \<and> orderly spoken cur n evs)"
| "orderly spoken cur n (EvToolCallEnd k # evs) = orderly spoken None n evs"
| "orderly spoken cur n (EvUsageDelta u # evs) = (energy_reported u \<and> orderly spoken cur n evs)"
| "orderly spoken cur n (_ # evs) = False"

text \<open>The encoder and the collector after the same events.\<close>

definition reasoning_json :: "string \<Rightarrow> string \<Rightarrow> json" where
  "reasoning_json i t = jobj [(''type'', JString ''reasoning''), (''id'', JString i),
     (''summary'', JArray [jobj [(''type'', JString ''summary_text''), (''text'', JString t)]])]"

definition open_tool :: "responses_encoder \<Rightarrow> (string \<times> string \<times> string) list" where
  "open_tool e = (case re_cur_tool e of Some t \<Rightarrow> [t] | None \<Rightarrow> [])"

definition tools_follow :: "u32 option \<Rightarrow> nat \<Rightarrow> responses_encoder \<Rightarrow> json collected \<Rightarrow> bool" where
  "tools_follow cur n e c \<longleftrightarrow> map snd (co_tool_uses c) = re_tool_calls e @ open_tool e
     \<and> (\<forall>k \<in> fst ` set (co_tool_uses c). unat k < n) \<and> bt_wf (co_tool_uses c)
     \<and> (\<forall>k. cur = Some k \<longrightarrow> (\<exists>m t. co_tool_uses c = m @ [(k, t)] \<and> re_cur_tool e = Some t))"

definition text_follows :: "bool \<Rightarrow> responses_encoder \<Rightarrow> json collected \<Rightarrow> bool" where
  "text_follows spoken e c \<longleftrightarrow> re_text e = co_content c \<and> re_reasoning e = co_reasoning c
     \<and> (re_text e \<noteq> [] \<longrightarrow> re_text_open e) \<and> (re_reasoning e \<noteq> [] \<longrightarrow> re_reasoning_open e)
     \<and> (re_reasoning_item e = None \<or> spoken \<and> re_reasoning_item e = Some (reasoning_json (re_reasoning_id e) (re_reasoning e)))
     \<and> co_images c = [] \<and> co_citations c = [] \<and> co_server_tools c = []"

definition usage_follows :: "responses_encoder \<Rightarrow> json collected \<Rightarrow> bool" where
  "usage_follows e c \<longleftrightarrow> re_usage e = co_usage c \<and> energy_reported (co_usage c)"

definition follows :: "bool \<Rightarrow> u32 option \<Rightarrow> nat \<Rightarrow> responses_encoder \<Rightarrow> json collected \<Rightarrow> bool" where
  "follows spoken cur n e c \<longleftrightarrow> text_follows spoken e c \<and> tools_follow cur n e c \<and> usage_follows e c"

lemma close_reasoning_follows:
  assumes "close_reasoning e = (e1, fs)"
  shows "text_follows spoken e c \<Longrightarrow> text_follows True e1 c" and "tools_follow cur n e1 c = tools_follow cur n e c"
    and "usage_follows e1 c = usage_follows e c" and "re_response_id e1 = re_response_id e" and "re_model e1 = re_model e"
    and "re_text e1 = re_text e" "re_text_open e1 = re_text_open e" "re_item_id e1 = re_item_id e"
    and "re_usage e1 = re_usage e" "re_status e1 = re_status e" "re_tool_calls e1 = re_tool_calls e" "re_cur_tool e1 = re_cur_tool e"
    and "re_reasoning_open e1 \<longrightarrow> re_reasoning_item e1 \<noteq> None"
  using assms
  by (auto simp: close_reasoning_def text_follows_def tools_follow_def usage_follows_def open_tool_def reasoning_json_def Let_def
      split: if_splits)

lemma open_text_follows:
  assumes "open_text e = (e1, fs)"
  shows "e1 = e\<lparr>re_text_open := True\<rparr>"
  using assms by (auto simp: open_text_def split: if_splits)

lemma tool_start_follows:
  assumes "tools_follow cur n e c" and "n \<le> unat k"
  shows "tools_follow (Some k) (Suc (unat k)) ((flush_tool e)\<lparr>re_cur_tool := Some (i, name, [])\<rparr>)
    (c\<lparr>co_tool_uses := bt_insert k (i, name, []) (co_tool_uses c)\<rparr>)"
proof -
  have less: "\<forall>k' \<in> fst ` set (co_tool_uses c). k' < k"
    using assms by (force simp: tools_follow_def word_less_nat_alt)
  have "re_tool_calls (flush_tool e) = re_tool_calls e @ open_tool e"
    by (simp add: flush_tool_def open_tool_def split: option.split)
  moreover have "bt_wf (bt_insert k (i, name, []) (co_tool_uses c))"
    using assms(1) by (simp add: tools_follow_def bt_wf_insert)
  ultimately show ?thesis
    using assms less by (force simp: tools_follow_def bt_insert_last open_tool_def)
qed

lemma tool_args_follow:
  assumes "tools_follow (Some k) n e c"
  obtains m i name args where "co_tool_uses c = m @ [(k, i, name, args)]"
    and "tools_follow (Some k) n (e\<lparr>re_cur_tool := map_option (\<lambda>(i, n, args). (i, n, args @ a)) (re_cur_tool e)\<rparr>)
      (c\<lparr>co_tool_uses := bt_insert k (i, name, args @ a) (co_tool_uses c)\<rparr>)"
    and "bt_get (co_tool_uses c) k = Some (i, name, args)"
proof -
  obtain m i name args where c: "co_tool_uses c = m @ [(k, i, name, args)]" and e: "re_cur_tool e = Some (i, name, args)"
    using assms by (force simp: tools_follow_def)
  have less: "\<forall>k' \<in> fst ` set m. k' < k"
    using assms by (auto simp: tools_follow_def c bt_wf_def sorted_wrt_append)
  have "bt_wf (m @ [(k, i, name, args @ a)])"
    using assms by (simp add: tools_follow_def c bt_wf_def)
  then show ?thesis
    using assms less by (intro that [OF c]) (auto simp: tools_follow_def c e open_tool_def bt_replace_last bt_get_last)
qed

lemma flushed_tools: "re_tool_calls (flush_tool e) = re_tool_calls e @ open_tool e"
  by (simp add: flush_tool_def open_tool_def split: option.split)

lemma flush_follows:
  "text_follows spoken (flush_tool e) c = text_follows spoken e c" "usage_follows (flush_tool e) c = usage_follows e c"
  "re_response_id (flush_tool e) = re_response_id e" "re_model (flush_tool e) = re_model e"
  by (cases "re_cur_tool e"; simp add: flush_tool_def text_follows_def usage_follows_def)+

lemma tools_only_follow:
  "text_follows spoken (e\<lparr>re_cur_tool := t\<rparr>) (c\<lparr>co_tool_uses := m\<rparr>) = text_follows spoken e c"
  "usage_follows (e\<lparr>re_cur_tool := t\<rparr>) (c\<lparr>co_tool_uses := m\<rparr>) = usage_follows e c"
  by (simp_all add: text_follows_def usage_follows_def)

lemma follows_text_only:
  "tools_follow cur n (e\<lparr>re_text_open := b, re_text := t\<rparr>) (c\<lparr>co_content := x, co_assembled := w\<rparr>) = tools_follow cur n e c"
  "tools_follow cur n (e\<lparr>re_reasoning_open := b, re_reasoning := t\<rparr>) (c\<lparr>co_reasoning := x, co_assembled := w\<rparr>) = tools_follow cur n e c"
  "usage_follows (e\<lparr>re_text_open := b, re_text := t\<rparr>) (c\<lparr>co_content := x, co_assembled := w\<rparr>) = usage_follows e c"
  "usage_follows (e\<lparr>re_reasoning_open := b, re_reasoning := t\<rparr>) (c\<lparr>co_reasoning := x, co_assembled := w\<rparr>) = usage_follows e c"
  by (simp_all add: tools_follow_def usage_follows_def open_tool_def)

lemma encode_follows:
  assumes "orderly spoken cur n (ev # evs)" and "follows spoken cur n e c" and "responses_encode fresh e ev = (e', fs)"
  obtains c' spoken' cur' n' where "collect_event js None ev c = Inr c'" and "follows spoken' cur' n' e' c'"
    and "orderly spoken' cur' n' evs" and "re_response_id e' = re_response_id e" and "re_model e' = re_model e"
proof (cases ev)
  case (EvMessageStart i m)
  then have "e' = e" using assms(3) by simp
  with assms(1,2) EvMessageStart show ?thesis by (intro that [of c spoken cur n]) simp_all
next
  case (EvTextDelta t)
  obtain e1 fs1 where cl: "close_reasoning e = (e1, fs1)" by fastforce
  obtain e2 fs2 where op: "open_text e1 = (e2, fs2)" by fastforce
  have e': "e' = e1\<lparr>re_text_open := True, re_text := re_text e1 @ t\<rparr>"
    using assms(3) EvTextDelta cl op open_text_follows [OF op] by auto
  note cf = close_reasoning_follows [OF cl]
  have e1: "text_follows True e1 c" "tools_follow cur n e1 c" "usage_follows e1 c"
    using assms(2) cf(1-3) by (auto simp: follows_def)
  let ?c = "c\<lparr>co_content := co_content c @ t, co_assembled := co_assembled c + word_of_nat (length t)\<rparr>"
  have "text_follows True e' ?c" using e1(1) unfolding e' by (auto simp: text_follows_def)
  moreover have "tools_follow cur n e' ?c" "usage_follows e' ?c" using e1(2,3) unfolding e' by (simp_all add: follows_text_only)
  moreover have "collect_event js None ev c = Inr ?c" using EvTextDelta by (simp add: count_bytes_uncapped)
  ultimately show ?thesis
    using assms(1) EvTextDelta cf(4,5) by (intro that [of ?c True cur n]) (simp_all add: follows_def e')
next
  case (EvReasoningDelta t)
  then have "e' = e\<lparr>re_reasoning_open := True, re_reasoning := re_reasoning e @ t\<rparr>" using assms(3) by (simp add: Let_def)
  note e' = this
  let ?c = "c\<lparr>co_reasoning := co_reasoning c @ t, co_assembled := co_assembled c + word_of_nat (length t)\<rparr>"
  have "text_follows spoken e' ?c" using assms(1,2) EvReasoningDelta by (auto simp: e' follows_def text_follows_def)
  moreover have "tools_follow cur n e' ?c" "usage_follows e' ?c" using assms(2) by (simp_all add: e' follows_def follows_text_only)
  moreover have "collect_event js None ev c = Inr ?c" using EvReasoningDelta by (simp add: count_bytes_uncapped)
  ultimately show ?thesis
    using assms(1) EvReasoningDelta by (intro that [of ?c spoken cur n]) (auto simp: follows_def e')
next
  case (EvToolCallStart t)
  have "re_response_id (flush_tool e) = re_response_id e" "re_model (flush_tool e) = re_model e"
    by (simp_all add: flush_tool_def split: option.split)
  moreover let ?c = "c\<lparr>co_tool_uses := bt_insert (tcs_index t) (tcs_id t, tcs_name t, []) (co_tool_uses c)\<rparr>"
  have e': "e' = (flush_tool e)\<lparr>re_cur_tool := Some (tcs_id t, tcs_name t, [])\<rparr>" using assms(3) EvToolCallStart by simp
  have "text_follows spoken e' ?c" "usage_follows e' ?c"
    using assms(2) by (simp_all add: e' follows_def tools_only_follow flush_follows)
  moreover have "tools_follow (Some (tcs_index t)) (Suc (unat (tcs_index t))) e' ?c"
    using assms(1,2) EvToolCallStart unfolding e' by (intro tool_start_follows [of cur n]) (simp_all add: follows_def)
  ultimately show ?thesis
    using assms(1) EvToolCallStart
    by (intro that [of ?c spoken "Some (tcs_index t)" "Suc (unat (tcs_index t))"]) (simp_all add: follows_def e')
next
  case (EvToolCallArgsDelta k a)
  then have cur: "cur = Some k" and tf: "tools_follow (Some k) n e c" using assms by (simp_all add: follows_def)
  obtain m i name args where
    t: "tools_follow (Some k) n (e\<lparr>re_cur_tool := map_option (\<lambda>(i, n, args). (i, n, args @ a)) (re_cur_tool e)\<rparr>)
        (c\<lparr>co_tool_uses := bt_insert k (i, name, args @ a) (co_tool_uses c)\<rparr>)"
    and get: "bt_get (co_tool_uses c) k = Some (i, name, args)"
    by (rule tool_args_follow [OF tf])
  let ?c = "c\<lparr>co_assembled := co_assembled c + word_of_nat (length a), co_tool_uses := bt_insert k (i, name, args @ a) (co_tool_uses c)\<rparr>"
  have e': "e' = e\<lparr>re_cur_tool := map_option (\<lambda>(i, n, args). (i, n, args @ a)) (re_cur_tool e)\<rparr>"
    using assms(3) EvToolCallArgsDelta by simp
  have "text_follows spoken e' ?c" "usage_follows e' ?c"
    using assms(2) by (auto simp: e' follows_def text_follows_def usage_follows_def)
  moreover have "tools_follow (Some k) n e' ?c" using t unfolding e' by (simp add: tools_follow_def)
  moreover have "collect_event js None ev c = Inr ?c" using EvToolCallArgsDelta get by (simp add: count_bytes_uncapped)
  ultimately show ?thesis
    using assms(1) EvToolCallArgsDelta cur by (intro that [of ?c spoken cur n]) (simp_all add: follows_def e')
next
  case (EvToolCallEnd k)
  then have e': "e' = flush_tool e" using assms(3) by simp
  have "re_cur_tool (flush_tool e) = None" by (simp add: flush_tool_def split: option.split)
  then have "tools_follow None n e' c"
    using assms(2) by (simp add: follows_def tools_follow_def e' flushed_tools open_tool_def)
  with assms(1,2) EvToolCallEnd show ?thesis
    by (intro that [of c spoken None n]) (simp_all add: follows_def e' flush_follows)
next
  case (EvUsageDelta u)
  have e': "e' = e\<lparr>re_usage := u\<rparr>" using assms(3) EvUsageDelta by simp
  have "text_follows spoken e' (c\<lparr>co_usage := u\<rparr>)" "tools_follow cur n e' (c\<lparr>co_usage := u\<rparr>)"
    using assms(2) by (auto simp: e' follows_def text_follows_def tools_follow_def open_tool_def)
  with assms(1) EvUsageDelta show ?thesis
    by (intro that [of "c\<lparr>co_usage := u\<rparr>" spoken cur n]) (simp_all add: follows_def usage_follows_def e')
qed (use assms in auto)

section \<open>The object at the end\<close>

text \<open>Items of the output, read back.\<close>

lemma read_reasoning: "response_item js (reasoning_json i t) = Inr (if t \<noteq> [] then [CpReasoning t None] else [])"
proof -
  define s where "s = jobj [(''type'', JString ''summary_text''), (''text'', JString t)]"
  have "reasoning_summary_text (reasoning_json i t) = t"
    by (simp add: reasoning_summary_text_def reasoning_json_def s_def [symmetric] get_array_def)
      (simp add: s_def get_str_def List.map_filter_simps)
  moreover have "get_str (reasoning_json i t) ''type'' = Some ''reasoning''"
    by (simp add: reasoning_json_def get_str_def)
  ultimately show ?thesis by (simp add: response_item_def)
qed

lemma read_message: "response_item js (message_item i t []) = Inr (text_parts t)"
proof -
  define p where "p = jobj [(''type'', JString ''output_text''), (''text'', JString t), (''annotations'', JArray [])]"
  have "message_output_parts (message_item i t []) = Inr (output_part p @ [])"
    by (simp add: message_output_parts_def message_item_def p_def [symmetric] get_array_def)
  moreover have "output_part p = text_parts t"
    by (simp add: output_part_def p_def get_str_def get_array_def List.map_filter_simps)
  moreover have "get_str (message_item i t []) ''type'' = Some ''message''"
    by (simp add: message_item_def get_str_def)
  ultimately show ?thesis by (simp add: response_item_def)
qed

lemma read_function_call:
  "response_item js (function_call_item i call name args) =
     Inr [CpToolUse call name (case js_from_str js args of Some v \<Rightarrow> v | None \<Rightarrow> JNull)]"
  by (simp add: response_item_def function_call_item_def get_str_def call_id_or_id_def str_or_empty_def parsed_arguments_def)

lemma finish_tools_items:
  "finish_tools fresh tcs i = (fs, items, j) \<Longrightarrow>
     try_map (response_item js) items =
       Inr (map (\<lambda>(call, name, args). [CpToolUse call name (case js_from_str js args of Some v \<Rightarrow> v | None \<Rightarrow> JNull)]) tcs)"
proof (induction tcs arbitrary: i fs items j)
  case (Cons tc tcs)
  then show ?case by (cases tc) (auto simp: Let_def read_function_call split: prod.splits)
qed simp

lemma responses_usage_roundtrip:
  assumes "energy_reported u"
  shows "parse_responses_usage (Some (responses_usage_json u)) (map_option energy_usage_json (us_energy u)) = without_details u"
proof -
  have "parse_energy_usage (map_option energy_usage_json (us_energy u)) = us_energy u"
    using assms energy_roundtrip by (cases "us_energy u") (auto simp: energy_reported_def parse_energy_usage_def)
  then show ?thesis
    using assms by (cases u) (simp add: parse_responses_usage_def responses_usage_json_def get_in_def without_details_def Let_def)
qed

lemma try_map_append: "try_map f (xs @ ys) = try_with (try_map f xs) (\<lambda>a. try_with (try_map f ys) (\<lambda>b. Inr (a @ b)))"
  by (induction xs) (auto simp: try_with_def split: sum.split)

definition completed_json :: "responses_encoder \<Rightarrow> json list \<Rightarrow> json" where
  "completed_json e items = jobj ([(''id'', JString (re_response_id e)), (''object'', JString ''response''), (''status'', JString (re_status e)),
     (''model'', JString (re_model e)), (''output'', JArray items), (''usage'', responses_usage_json (re_usage e))]
     @ opt_pair ''energy'' energy_usage_json (us_energy (re_usage e)))"

lemma completed_reads:
  assumes "try_map (response_item js) items = Inr pss" and "energy_reported (re_usage e)"
  shows "parse_openai_responses_response js (completed_json e items) = Inr
    \<lparr>resp_id = re_response_id e, resp_model = re_model e,
     resp_message = \<lparr>msg_role = Assistant, msg_content = concat pss, msg_cache_hint = None\<rparr>,
     resp_finish_reason = finish_reason_from_status (Some (re_status e)), resp_usage = without_details (re_usage e)\<rparr>"
proof -
  define u where "u = responses_usage_json (re_usage e)"
  have "json_get u ''energy'' = map_option energy_usage_json (us_energy (re_usage e))"
    by (simp add: u_def responses_usage_json_def)
  then have "or_else (json_get (completed_json e items) ''energy'') (get_in (completed_json e items) ''usage'' ''energy'') =
      map_option energy_usage_json (us_energy (re_usage e))"
    by (cases "us_energy (re_usage e)") (simp_all add: completed_json_def get_in_def u_def [symmetric])
  moreover have "json_get (completed_json e items) ''usage'' = Some u"
    by (simp add: completed_json_def u_def)
  moreover have "get_array (completed_json e items) ''output'' = Some items" "get_str (completed_json e items) ''id'' = Some (re_response_id e)"
      "get_str (completed_json e items) ''model'' = Some (re_model e)" "get_str (completed_json e items) ''status'' = Some (re_status e)"
    by (simp_all add: completed_json_def get_array_def get_str_def)
  ultimately show ?thesis
    using assms responses_usage_roundtrip [OF assms(2)]
    by (simp add: parse_openai_responses_response_def str_or_empty_def u_def)
qed

definition answered_tools :: "json json_api \<Rightarrow> (string \<times> string \<times> string) list \<Rightarrow> json content_part list" where
  "answered_tools js tcs = map (\<lambda>(call, name, args). CpToolUse call name (case js_from_str js args of Some v \<Rightarrow> v | None \<Rightarrow> JNull)) tcs"

lemma finish_text_follows:
  assumes "finish_text e = (e', fs, items)"
  shows "re_tool_calls e' = re_tool_calls e" "re_cur_tool e' = re_cur_tool e"
    and "(re_text e \<noteq> [] \<longrightarrow> re_text_open e) \<Longrightarrow> \<exists>pss. try_map (response_item js) items = Inr pss \<and> concat pss = text_parts (re_text e)"
  using assms by (auto simp: finish_text_def Let_def read_message text_parts_def split: if_splits)

lemma finish_frame:
  assumes "text_follows spoken e c" and "map snd (co_tool_uses c) = re_tool_calls e @ open_tool e"
  obtains e' fs items pss where "responses_finish fresh e = (e', fs @ [responses_frame ''response.completed'' [(''response'', completed_json e items)]])"
    and "try_map (response_item js) items = Inr pss"
    and "concat pss = (if co_reasoning c \<noteq> [] then [CpReasoning (co_reasoning c) None] else []) @ text_parts (co_content c)
      @ answered_tools js (map snd (co_tool_uses c))"
proof -
  obtain e1 fs1 where cl: "close_reasoning e = (e1, fs1)" by fastforce
  obtain e2 fs2 message where tx: "finish_text e1 = (e2, fs2, message)" by (metis prod_cases3)
  obtain fs3 tools j where tl: "finish_tools fresh (re_tool_calls (flush_tool e2)) (re_output_index (flush_tool e2)) = (fs3, tools, j)"
    by (metis prod_cases3)
  note cf = close_reasoning_follows [OF cl]
  have e1: "text_follows True e1 c" by (rule cf(1) [OF assms(1)])
  let ?r = "case re_reasoning_item e1 of Some v \<Rightarrow> [v] | None \<Rightarrow> []"
  have "\<exists>rs. try_map (response_item js) ?r = Inr rs \<and> concat rs = (if co_reasoning c \<noteq> [] then [CpReasoning (co_reasoning c) None] else [])"
    using e1 cf(13) by (auto simp: text_follows_def read_reasoning)
  then obtain rs where rs: "try_map (response_item js) ?r = Inr rs"
    "concat rs = (if co_reasoning c \<noteq> [] then [CpReasoning (co_reasoning c) None] else [])" by blast
  obtain ms where ms: "try_map (response_item js) message = Inr ms" "concat ms = text_parts (co_content c)"
    using finish_text_follows(3) [OF tx, of js] e1 by (auto simp: text_follows_def)
  have "re_tool_calls (flush_tool e2) = map snd (co_tool_uses c)"
    using finish_text_follows(1,2) [OF tx] cf(11,12) assms(2) by (simp add: flushed_tools open_tool_def)
  note ts = finish_tools_items [OF tl, of js, unfolded this]
  have all: "try_map (response_item js) (?r @ message @ tools) = Inr (rs @ ms @
      map (\<lambda>(call, name, args). [CpToolUse call name (case js_from_str js args of Some v \<Rightarrow> v | None \<Rightarrow> JNull)]) (map snd (co_tool_uses c)))"
    by (simp add: try_map_append rs(1) ms(1) ts)
  have concat_tools: "concat (map (\<lambda>(call, name, args). [CpToolUse call name (case js_from_str js args of Some v \<Rightarrow> v | None \<Rightarrow> JNull)]) tcs) = answered_tools js tcs" for tcs
    by (induction tcs) (auto simp: answered_tools_def)
  from all rs(2) ms(2) concat_tools [of "map snd (co_tool_uses c)"] show ?thesis
    by (intro that [of "(flush_tool e2)\<lparr>re_output_index := j\<rparr>" "fs1 @ fs2 @ fs3" "?r @ message @ tools"
          "rs @ ms @ map (\<lambda>(call, name, args). [CpToolUse call name (case js_from_str js args of Some v \<Rightarrow> v | None \<Rightarrow> JNull)]) (map snd (co_tool_uses c))"])
      (simp_all add: responses_finish_def cl tx tl Let_def completed_json_def del: map_map List.map.compositionality)
qed

lemma stream_follows:
  assumes "orderly spoken cur n evs" and "follows spoken cur n e c"
  obtains c' spoken' cur' n' e' fs where "collect_loop js None (map Inr evs) c = Inr c'" and "follows spoken' cur' n' e' c'"
    and "\<forall>ev. responses_stream fresh e (evs @ [ev]) = fs @ snd (responses_encode fresh e' ev)"
    and "re_response_id e' = re_response_id e" and "re_model e' = re_model e"
  using assms
proof (induction evs arbitrary: spoken cur n e c thesis)
  case Nil
  show ?case
    by (rule Nil.prems(1) [of c spoken cur n e "[]"]) (simp_all add: Nil.prems split: prod.split)
next
  case (Cons ev evs)
  obtain e1 fs1 where enc: "responses_encode fresh e ev = (e1, fs1)" by fastforce
  obtain c1 spoken1 cur1 n1 where step: "collect_event js None ev c = Inr c1" "follows spoken1 cur1 n1 e1 c1" "orderly spoken1 cur1 n1 evs"
    "re_response_id e1 = re_response_id e" "re_model e1 = re_model e"
    by (rule encode_follows [OF Cons.prems(2,3) enc, where js = js])
  show ?case
  proof (rule Cons.IH [OF _ step(3,2)])
    fix c' spoken' cur' n' e' fs
    assume "collect_loop js None (map Inr evs) c1 = Inr c'" and "follows spoken' cur' n' e' c'"
      and "\<forall>ev. responses_stream fresh e1 (evs @ [ev]) = fs @ snd (responses_encode fresh e' ev)"
      and "re_response_id e' = re_response_id e1" and "re_model e' = re_model e1"
    then show thesis
      using step enc by (intro Cons.prems(1) [of c' spoken' cur' n' e' "fs1 @ fs"]) simp_all
  qed
qed


definition sample_turn :: "stream_event list" where
  "sample_turn = [EvMessageStart ''x'' ''y'', EvReasoningDelta ''hm'', EvTextDelta ''a'', EvTextDelta ''b'',
     EvToolCallStart \<lparr>tcs_index = 0, tcs_id = ''t'', tcs_name = ''f''\<rparr>, EvToolCallArgsDelta 0 ''1'', EvToolCallEnd 0,
     EvUsageDelta (default_usage\<lparr>us_cached_input_tokens := 3\<rparr>)]"

definition sample_collected :: "json collected" where
  "sample_collected = empty_collected\<lparr>co_content := ''ab'', co_reasoning := ''hm'', co_tool_uses := [(0, ''t'', ''f'', ''1'')],
     co_assembled := 5, co_usage := default_usage\<lparr>us_cached_input_tokens := 3\<rparr>\<rparr>"

definition unit_json :: "json json_api" where
  "unit_json = \<lparr>js_null = JNull, js_string = JString, js_from_str = (\<lambda>s. Some JNull), js_to_string = (\<lambda>v. ''null''),
     js_as_str = as_str, js_as_object = as_object\<rparr>"


section \<open>What the encoder loses\<close>

text \<open>
  An image between two pieces of text takes the index the open message has, and the message goes
  on under another: \<open>output_index\<close> is 0 for the first delta and the image, 1 for the second delta.
\<close>

lemma image_moves_message:
  assumes "re_output_index e = 0" and "re_text_open e" and "re_reasoning_item e = None" and "\<not> re_reasoning_open e"
  shows "responses_stream fresh e [EvTextDelta a, EvOutputImage m d, EvTextDelta b] =
    [responses_frame ''response.output_text.delta'' (in_text e [(''delta'', JString a)])]
    @ added_done 0 (image_item (fresh ''img'' 0) m d)
    @ [responses_frame ''response.output_text.delta'' (in_text (e\<lparr>re_output_index := 1\<rparr>) [(''delta'', JString b)])]"
  using assms by (simp add: close_reasoning_def open_text_def in_text_def)

text \<open>Reasoning that comes back after text is streamed but missing from the final object.\<close>

lemma late_reasoning_lost:
  assumes "re_reasoning_item e = Some item" and "re_reasoning_open e"
  shows "re_reasoning_item (fst (responses_encode fresh e (EvReasoningDelta t))) = Some item"
    and "re_reasoning (fst (responses_encode fresh e (EvReasoningDelta t))) = re_reasoning e @ t"
    and "fst (close_reasoning (fst (responses_encode fresh e (EvReasoningDelta t)))) = fst (responses_encode fresh e (EvReasoningDelta t))"
  using assms by (simp_all add: close_reasoning_def)

text \<open>A collected response is always \<open>completed\<close>, also when the answer was cut off or failed.\<close>

lemma status_always_completed: "get_str (response_to_openai_responses js fresh resp) ''status'' = Some ''completed''"
  by (simp add: response_to_openai_responses_def get_str_def)

lemma stream_status: "finish_str FinishLength = ''incomplete'' \<and> finish_str FinishError = ''failed''"
  by simp

text \<open>
  An upstream's usage that follows its end of message, where Chat Completions sends it, comes too
  late: the final object has gone out with no usage.
\<close>

lemma usage_after_end_lost:
  "responses_stream fresh e [EvMessageEnd r, EvUsageDelta u] = snd (responses_finish fresh (e\<lparr>re_status := finish_str r\<rparr>))"
  by (simp split: prod.split)

text \<open>A second system prompt replaces the first one on the way to a Responses upstream.\<close>

lemma system_prompt_replaced:
  assumes "req_system req = Some a" and "a \<noteq> []" and "b \<noteq> []" and "validate_canonical req = Inr ()"
    and "req_messages req = [\<lparr>msg_role = System, msg_content = [CpText b], msg_cache_hint = None\<rparr>]"
    and "req_server_tools req = []" and "req_passthrough req = []"
  shows "\<exists>body. request_to_openai_responses_wire js req model stream = Inr body \<and> get_str body ''instructions'' = Some b"
proof -
  define tools where "tools = (if req_tools req \<noteq> [] then [(''tools'', JArray (map responses_wire_tool (req_tools req)))] else [])"
  have "request_to_openai_responses_wire js req model stream = Inr (jobj
      ([(''model'', JString model), (''stream'', JBool stream), (''instructions'', JString a), (''instructions'', JString b),
        (''input'', JArray [])] @ tools
       @ opt_pair ''temperature'' (\<lambda>t. json_f64 (f32_as_f64 t)) (req_temperature req)
       @ opt_pair ''max_output_tokens'' json_u32 (req_max_output_tokens req)))"
    using assms by (simp add: request_to_openai_responses_wire_def responses_wire_message_def reject_image_parts_def
        message_text_def or_insert_all_def jobj_def tools_def)
  moreover have "get_str (jobj
      ([(''model'', JString model), (''stream'', JBool stream), (''instructions'', JString a), (''instructions'', JString b),
        (''input'', JArray [])] @ tools
       @ opt_pair ''temperature'' (\<lambda>t. json_f64 (f32_as_f64 t)) (req_temperature req)
       @ opt_pair ''max_output_tokens'' json_u32 (req_max_output_tokens req))) ''instructions'' = Some b"
    by (simp add: get_str_def tools_def)
  ultimately show ?thesis by blast
qed

end
