(* ===== verification/Net_Guard.thy ===== *)
theory Net_Guard
  imports Json
begin

text \<open>
  The network guard (\<open>sb-net/src/lib.rs\<close>) and the checks of literal hosts it shares with the
  configuration (\<open>sb-core/src/config.rs\<close>). The URL parser of \<open>reqwest\<close> and the resolver are
  parameters; addresses and their textual form are those of the standard library.
\<close>

section \<open>Addresses\<close>

datatype ip_addr = V4 "u8 list" | V6 "u16 list"

text \<open>\<open>Ipv4Addr\<close> and \<open>Ipv6Addr\<close> are four octets and eight segments.\<close>

fun ip_wf :: "ip_addr \<Rightarrow> bool" where
  "ip_wf (V4 os) \<longleftrightarrow> length os = 4"
| "ip_wf (V6 ss) \<longleftrightarrow> length ss = 8"

definition digit_value :: "nat \<Rightarrow> char \<Rightarrow> nat option" where
  "digit_value radix c =
     (let n = (of_char c :: nat);
          d = (if 48 \<le> n \<and> n \<le> 57 then Some (n - 48)
               else if 97 \<le> n \<and> n \<le> 122 then Some (n - 87)
               else if 65 \<le> n \<and> n \<le> 90 then Some (n - 55) else None)
      in case d of Some v \<Rightarrow> if v < radix then Some v else None | None \<Rightarrow> None)"

text \<open>
  \<open>Parser::read_number\<close>: digits up to \<open>max_digits\<close>, a leading zero only if allowed, a value that
  fits the type.
\<close>

definition read_number :: "nat \<Rightarrow> nat \<Rightarrow> bool \<Rightarrow> nat \<Rightarrow> string \<Rightarrow> (nat \<times> string) option" where
  "read_number radix max_digits allow_zero_prefix limit s =
     (let ds = takeWhile (\<lambda>c. digit_value radix c \<noteq> None) s;
          value = foldl (\<lambda>v c. v * radix + the (digit_value radix c)) 0 ds
      in if ds = [] \<or> max_digits < length ds \<or> limit \<le> value
           \<or> \<not> allow_zero_prefix \<and> hd ds = CHR ''0'' \<and> 1 < length ds then None
         else Some (value, drop (length ds) s))"

definition read_given_char :: "char \<Rightarrow> string \<Rightarrow> string option" where
  "read_given_char c s = (case s of d # ds \<Rightarrow> if d = c then Some ds else None | [] \<Rightarrow> None)"

definition read_separator :: "char \<Rightarrow> nat \<Rightarrow> (string \<Rightarrow> ('a \<times> string) option) \<Rightarrow> string \<Rightarrow> ('a \<times> string) option" where
  "read_separator sep index inner s = (if 0 < index then Option.bind (read_given_char sep s) inner else inner s)"

fun read_octets :: "nat \<Rightarrow> nat \<Rightarrow> string \<Rightarrow> (u8 list \<times> string) option" where
  "read_octets i 0 s = Some ([], s)"
| "read_octets i (Suc n) s =
     Option.bind (read_separator (CHR ''.'') i (read_number 10 3 False 256) s)
       (\<lambda>(v, s1). map_option (\<lambda>(os, s2). (word_of_nat v # os, s2)) (read_octets (Suc i) n s1))"

definition read_ipv4_addr :: "string \<Rightarrow> (u8 list \<times> string) option" where
  "read_ipv4_addr s = read_octets 0 4 s"

definition pair_segments :: "u8 list \<Rightarrow> u16 list" where
  "pair_segments os =
     [word_of_nat (unat (os ! 0) * 256 + unat (os ! 1)), word_of_nat (unat (os ! 2) * 256 + unat (os ! 3))]"

text \<open>\<open>read_groups\<close>: groups of an IPv6 address, the last two possibly as an IPv4 address.\<close>

fun read_groups :: "nat \<Rightarrow> nat \<Rightarrow> string \<Rightarrow> u16 list \<times> bool \<times> string" where
  "read_groups i 0 s = ([], False, s)"
| "read_groups i (Suc n) s =
     (case (if 0 < n then read_separator (CHR '':'') i read_ipv4_addr s else None) of
        Some (os, s1) \<Rightarrow> (pair_segments os, True, s1)
      | None \<Rightarrow>
          (case read_separator (CHR '':'') i (read_number 16 4 True 65536) s of
             Some (v, s1) \<Rightarrow> (case read_groups (Suc i) n s1 of (gs, v4, s2) \<Rightarrow> (word_of_nat v # gs, v4, s2))
           | None \<Rightarrow> ([], False, s)))"

definition read_ipv6_addr :: "string \<Rightarrow> (u16 list \<times> string) option" where
  "read_ipv6_addr s =
     (let (head, head_ipv4, s1) = read_groups 0 8 s
      in if length head = 8 then Some (head, s1)
         else if head_ipv4 then None
         else Option.bind (Option.bind (read_given_char (CHR '':'') s1) (read_given_char (CHR '':'')))
           (\<lambda>s2. let (tail, v4, s3) = read_groups 0 (8 - (length head + 1)) s2
                 in Some (head @ replicate (8 - length head - length tail) 0 @ tail, s3)))"

text \<open>\<open>str::parse::<IpAddr>\<close>: all of the text, first as an IPv4, then as an IPv6 address.\<close>

definition parse_ip :: "string \<Rightarrow> ip_addr option" where
  "parse_ip s =
     (case (case read_ipv4_addr s of
              Some (os, rest) \<Rightarrow> Some (V4 os, rest)
            | None \<Rightarrow> map_option (\<lambda>(ss, rest). (V6 ss, rest)) (read_ipv6_addr s)) of
        Some (ip, rest) \<Rightarrow> if rest = [] then Some ip else None
      | None \<Rightarrow> None)"

text \<open>
  \<open>Display\<close>: dotted octets; segments in lower-case hexadecimal, the first longest run of at least
  two zero segments as \<open>::\<close>, an IPv4-mapped address with its dotted tail.
\<close>

definition hex_char :: "nat \<Rightarrow> char" where
  "hex_char d = (if d < 10 then char_of (48 + d) else char_of (87 + d))"

fun show_hex :: "nat \<Rightarrow> string" where
  "show_hex n = (if n < 16 then [hex_char n] else show_hex (n div 16) @ [hex_char (n mod 16)])"

definition show_segments :: "u16 list \<Rightarrow> string" where
  "show_segments ss = join_with '':'' (map (\<lambda>s. show_hex (unat s)) ss)"

text \<open>The run of zeros being read and the longest so far, as start and length.\<close>

fun zero_runs :: "nat \<Rightarrow> nat \<times> nat \<Rightarrow> nat \<times> nat \<Rightarrow> u16 list \<Rightarrow> nat \<times> nat" where
  "zero_runs i current longest [] = longest"
| "zero_runs i current longest (s # ss) =
     (if s = 0
      then let current' = (if snd current = 0 then i else fst current, snd current + 1)
           in zero_runs (i + 1) current' (if snd longest < snd current' then current' else longest) ss
      else zero_runs (i + 1) (0, 0) longest ss)"

fun show_ip :: "ip_addr \<Rightarrow> string" where
  "show_ip (V4 os) = join_with ''.'' (map (\<lambda>b. show_nat (unat b)) os)"
| "show_ip (V6 ss) =
     (if take 6 ss = [0, 0, 0, 0, 0, 0xffff]
      then ''::ffff:'' @ join_with ''.'' (map show_nat (concat (map (\<lambda>s. [unat s div 256, unat s mod 256]) (drop 6 ss))))
      else let (start, n) = zero_runs 0 (0, 0) (0, 0) ss
           in if 1 < n then show_segments (take start ss) @ ''::'' @ show_segments (drop (start + n) ss)
              else show_segments ss)"

section \<open>Private addresses and hosts\<close>

fun private_ip :: "ip_addr \<Rightarrow> bool" where
  "private_ip (V4 os) =
     (let a = os ! 0; b = os ! 1 in
      (a = 10 \<or> a = 172 \<and> 16 \<le> b \<and> b \<le> 31 \<or> a = 192 \<and> b = 168)
      \<or> a = 127
      \<or> a = 169 \<and> b = 254
      \<or> os = [0, 0, 0, 0]
      \<or> a = 169 \<and> b = 254)"
| "private_ip (V6 ss) =
     (let first = ss ! 0 in
      ss = [0, 0, 0, 0, 0, 0, 0, 1] \<or> ss = [0, 0, 0, 0, 0, 0, 0, 0]
      \<or> and first 0xfe00 = 0xfc00 \<or> and first 0xffc0 = 0xfe80)"

definition private_ip_reason :: "ip_addr \<Rightarrow> string option" where
  "private_ip_reason ip = (if private_ip ip then Some ''private or local IP'' else None)"

text \<open>The host by hand: after the scheme, up to the path, after the last \<open>@\<close>, before the port.\<close>

definition host_from_url :: "string \<Rightarrow> string option" where
  "host_from_url url =
     Option.bind (split_once ''://'' url)
       (\<lambda>(scheme, rest).
          let authority = takeWhile (\<lambda>c. c \<notin> set ''/?#'') rest;
              host_port = (case rsplit_once (CHR ''@'') authority of Some (_, h) \<Rightarrow> h | None \<Rightarrow> authority)
          in if starts_with host_port ''['' then
               map_option (\<lambda>(host, _). dropWhile (\<lambda>c. c = CHR ''['') host) (split_once '']'' host_port)
             else let host = before_char (CHR '':'') host_port in if host \<noteq> [] then Some host else None)"

definition private_url_reason :: "string \<Rightarrow> string option" where
  "private_url_reason url =
     Option.bind (host_from_url url)
       (\<lambda>host.
          let lower = to_ascii_lowercase host
          in if lower = ''localhost'' \<or> str_ends_with lower ''.localhost'' then Some ''localhost host''
             else (case parse_ip lower of
                     Some ip \<Rightarrow> if private_ip_reason ip \<noteq> None then Some (''private or local IP host `'' @ host @ ''`'') else None
                   | None \<Rightarrow> None))"

section \<open>The guard\<close>

datatype network_url_kind = ProviderUpstream | OauthToken | ServiceAccountToken | ProxyUrl

fun url_kind_label :: "network_url_kind \<Rightarrow> string" where
  "url_kind_label ProviderUpstream = ''provider upstream''"
| "url_kind_label OauthToken = ''OAuth token endpoint''"
| "url_kind_label ServiceAccountToken = ''service-account token endpoint''"
| "url_kind_label ProxyUrl = ''proxy''"

datatype network_guard_error = InvalidUrl string | ResolveFailed string | BlockedPrivate string

text \<open>
  What the guard asks of others: \<open>Url::parse\<close> with \<open>host_str\<close> and \<open>port_or_known_default\<close>, and the
  resolver.
\<close>

record url_api =
  ua_parse :: "string \<Rightarrow> string + string option \<times> u16 option"
  ua_lookup :: "string \<Rightarrow> u16 \<Rightarrow> string + ip_addr list"

definition guard_literal_url :: "url_api \<Rightarrow> string \<Rightarrow> network_url_kind \<Rightarrow> network_guard_error + string \<times> u16" where
  "guard_literal_url ua url kind =
     (case private_url_reason url of
        Some reason \<Rightarrow> Inl (BlockedPrivate (''blocked private-network '' @ url_kind_label kind @ '' URL `'' @ url @ ''`: '' @ reason))
      | None \<Rightarrow>
          (case ua_parse ua url of
             Inl e \<Rightarrow> Inl (InvalidUrl (''invalid '' @ url_kind_label kind @ '' URL `'' @ url @ ''`: '' @ e))
           | Inr (None, port) \<Rightarrow> Inl (InvalidUrl (url_kind_label kind @ '' URL `'' @ url @ ''` has no host''))
           | Inr (Some host, port) \<Rightarrow> Inr (host, case port of Some p \<Rightarrow> p | None \<Rightarrow> 443)))"

definition guard_url :: "url_api \<Rightarrow> string \<Rightarrow> network_url_kind \<Rightarrow> bool \<Rightarrow> network_guard_error + unit" where
  "guard_url ua url kind block_private_networks =
     (if \<not> block_private_networks then Inr ()
      else try_with (guard_literal_url ua url kind)
        (\<lambda>(host, port).
           if parse_ip host \<noteq> None then Inr ()
           else (case ua_lookup ua host port of
                   Inl e \<Rightarrow> Inl (ResolveFailed (''resolve '' @ url_kind_label kind @ '' host `'' @ host @ ''`: '' @ e))
                 | Inr resolved \<Rightarrow>
                     (case find (\<lambda>ip. private_ip_reason ip \<noteq> None) resolved of
                        Some ip \<Rightarrow> Inl (BlockedPrivate (''blocked '' @ url_kind_label kind @ '' host `'' @ host
                          @ ''` resolving to private/local IP `'' @ show_ip ip @ ''`''))
                      | None \<Rightarrow> Inr ()))))"

section \<open>What the guard keeps out\<close>

text \<open>The addresses a connection to a host goes to.\<close>

definition reached :: "url_api \<Rightarrow> string \<Rightarrow> u16 \<Rightarrow> ip_addr list" where
  "reached ua host port =
     (case parse_ip host of
        Some ip \<Rightarrow> [ip]
      | None \<Rightarrow> (case ua_lookup ua host port of Inr ips \<Rightarrow> ips | Inl _ \<Rightarrow> []))"

lemma ascii_lower_idem: "to_ascii_lowercase (to_ascii_lowercase s) = to_ascii_lowercase s"
  by (auto simp: to_ascii_lowercase_def ascii_lower_char_def Let_def)

lemma guard_passed:
  assumes "guard_url ua url kind True = Inr ()"
  obtains host port where "ua_parse ua url = Inr (Some host, port)" and "private_url_reason url = None"
    and "parse_ip host = None \<Longrightarrow> \<forall>ip \<in> set (reached ua host (case port of Some p \<Rightarrow> p | None \<Rightarrow> 443)). \<not> private_ip ip"
proof -
  from assms obtain host port where lit: "guard_literal_url ua url kind = Inr (host, port)"
    by (cases "guard_literal_url ua url kind") (auto simp: guard_url_def)
  then obtain p where p: "ua_parse ua url = Inr (Some host, p)" "private_url_reason url = None"
      "port = (case p of Some q \<Rightarrow> q | None \<Rightarrow> 443)"
    by (auto simp: guard_literal_url_def split: option.splits sum.splits)
  have "\<forall>ip \<in> set (reached ua host port). \<not> private_ip ip" if "parse_ip host = None"
    using assms that lit
    by (auto simp: guard_url_def reached_def private_ip_reason_def find_None_iff split: sum.splits option.splits if_splits)
  with p show ?thesis by (intro that) simp_all
qed

text \<open>
  With \<open>block_private_networks\<close>, a URL that passes the guard leads to no loopback, private,
  link-local or unspecified address, neither as a literal nor through the resolver, whenever the
  hand-written host extraction reads the same host as the URL parser does.
\<close>

lemma guard_blocks_private:
  assumes "guard_url ua url kind True = Inr ()" and "ua_parse ua url = Inr (Some host, port)"
    and "host_from_url url = Some h" and "to_ascii_lowercase h = host"
  shows "\<forall>ip \<in> set (reached ua host (case port of Some p \<Rightarrow> p | None \<Rightarrow> 443)). \<not> private_ip ip"
proof (cases "parse_ip host")
  case None
  from guard_passed [OF assms(1)] obtain host' port'
    where g: "ua_parse ua url = Inr (Some host', port')"
      "parse_ip host' = None \<Longrightarrow> \<forall>ip \<in> set (reached ua host' (case port' of Some p \<Rightarrow> p | None \<Rightarrow> 443)). \<not> private_ip ip"
    by metis
  from g(1) assms(2) have "host' = host" "port' = port" by simp_all
  with g(2) None show ?thesis by simp
next
  case (Some ip)
  from assms(1) have "private_url_reason url = None" by (rule guard_passed)
  then have "\<not> private_ip ip"
    using assms(3,4) Some by (auto simp: private_url_reason_def private_ip_reason_def Let_def split: if_splits)
  with Some show ?thesis by (simp add: reached_def)
qed

text \<open>
  The blocks of addresses, as the registries of special-purpose addresses list them: private use,
  loopback, link-local and the unspecified address, each with the length of its prefix.
\<close>

definition reserved_v4 :: "(nat list \<times> nat) list" where
  "reserved_v4 = [([10, 0, 0, 0], 8), ([172, 16, 0, 0], 12), ([192, 168, 0, 0], 16), ([127, 0, 0, 0], 8), ([169, 254, 0, 0], 16),
     ([0, 0, 0, 0], 32)]"

definition reserved_v6 :: "(nat list \<times> nat) list" where
  "reserved_v6 = [([0, 0, 0, 0, 0, 0, 0, 1], 128), ([0, 0, 0, 0, 0, 0, 0, 0], 128), ([0xfc00, 0, 0, 0, 0, 0, 0, 0], 7),
     ([0xfe80, 0, 0, 0, 0, 0, 0, 0], 10)]"

definition block_value :: "nat \<Rightarrow> nat list \<Rightarrow> nat" where
  "block_value base ds = foldl (\<lambda>n d. base * n + d) 0 ds"

definition in_block :: "nat \<Rightarrow> nat \<Rightarrow> nat list \<Rightarrow> nat list \<times> nat \<Rightarrow> bool" where
  "in_block width base addr blk \<longleftrightarrow>
     block_value base addr div 2 ^ (width - snd blk) = block_value base (fst blk) div 2 ^ (width - snd blk)"

fun reserved_ip :: "ip_addr \<Rightarrow> bool" where
  "reserved_ip (V4 os) \<longleftrightarrow> list_ex (in_block 32 256 (map unat os)) reserved_v4"
| "reserved_ip (V6 ss) \<longleftrightarrow> list_ex (in_block 128 65536 (map unat ss)) reserved_v6"

lemma octet_bound: "unat (b :: u8) < 256" using unsigned_less [of b, where 'a = nat] by simp
lemma segment_bound: "unat (b :: u16) < 65536" using unsigned_less [of b, where 'a = nat] by simp

lemma quad_prefix:
  assumes "c < 256" and "d < (256 :: nat)"
  shows "(16777216 * a + 65536 * b + 256 * c + d) div 65536 = 256 * a + b"
    and "(16777216 * a + 65536 * b + 256 * c + d) div 1048576 = (256 * a + b) div 16"
    and "b < 256 \<Longrightarrow> (16777216 * a + 65536 * b + 256 * c + d) div 16777216 = a"
proof -
  show one: "(16777216 * a + 65536 * b + 256 * c + d) div 65536 = 256 * a + b"
    using assms by (intro div_nat_eqI) simp_all
  have "(16777216 * a + 65536 * b + 256 * c + d) div (65536 * 16) = (256 * a + b) div 16"
    unfolding div_mult2_eq one ..
  then show "(16777216 * a + 65536 * b + 256 * c + d) div 1048576 = (256 * a + b) div 16" by simp
  show "(16777216 * a + 65536 * b + 256 * c + d) div 16777216 = a" if "b < 256"
    using assms that by (intro div_nat_eqI) simp_all
qed

lemma pair_value: "b < 256 \<Longrightarrow> d < 256 \<Longrightarrow> 256 * a + b = 256 * c + d \<longleftrightarrow> a = c \<and> b = d" for a b c d :: nat
proof
  assume b: "b < 256" and d: "d < 256" and eq: "256 * a + b = 256 * c + d"
  have "(256 * a + b) div 256 = a" "(256 * c + d) div 256 = c" using b d by simp_all
  with eq have "a = c" by simp
  with eq show "a = c \<and> b = d" by simp
qed simp

lemma pair_range:
  assumes "(256 * a + b) div 16 = 2753" and "b < 256"
  shows "a = 172 \<and> 16 \<le> b \<and> b \<le> (31 :: nat)"
proof -
  have "44048 \<le> n \<and> n < 44064" if "n div 16 = 2753" for n :: nat using that by presburger
  from this [OF assms(1)] assms(2) have range: "44048 \<le> 256 * a + b" "256 * a + b < 44064" "171 < a" "a < 173" by linarith+
  then have "a = 172" by simp
  with range show ?thesis by simp
qed

lemma reserved_v4_private:
  assumes "reserved_ip (V4 [a, b, c, d])"
  shows "private_ip (V4 [a, b, c, d])"
proof -
  note bounds = octet_bound [of b] octet_bound [of c] octet_bound [of d]
  have "unat a = 10 \<or> (256 * unat a + unat b) div 16 = 2753 \<or> 256 * unat a + unat b = 49320 \<or> unat a = 127
      \<or> 256 * unat a + unat b = 43518 \<or> unat a = 0 \<and> unat b = 0 \<and> unat c = 0 \<and> unat d = 0"
    using assms bounds by (simp add: reserved_v4_def in_block_def block_value_def quad_prefix)
  then have "unat a = 10 \<or> unat a = 172 \<and> 16 \<le> unat b \<and> unat b \<le> 31 \<or> unat a = 192 \<and> unat b = 168 \<or> unat a = 127
      \<or> unat a = 169 \<and> unat b = 254 \<or> unat a = 0 \<and> unat b = 0 \<and> unat c = 0 \<and> unat d = 0"
    using bounds(1) pair_value [of "unat b" 168 "unat a" 192] pair_value [of "unat b" 254 "unat a" 169] pair_range [of "unat a" "unat b"]
    by (elim disjE) simp_all
  then show ?thesis
    by (simp add: Let_def word_unat_eq_iff word_le_nat_alt) blast
qed

lemma and_push_bit: "and n (push_bit k m) = push_bit k (and (drop_bit k n) m)" for n :: nat
  by (rule bit_eqI) (auto simp: bit_simps)

lemma masked:
  "and x (0xfe00 :: u16) = 0xfc00 \<longleftrightarrow> unat x div 512 = 126"
  "and x (0xffc0 :: u16) = 0xfe80 \<longleftrightarrow> unat x div 64 = 1018"
proof -
  have "unat (and x (0xfe00 :: u16)) = and (unat x) (push_bit 9 (mask 7))"
    by (simp add: unsigned_and_eq push_bit_eq_mult mask_eq_exp_minus_1)
  also have "\<dots> = 512 * (unat x div 512)"
    unfolding and_push_bit using segment_bound [of x]
    by (simp add: push_bit_eq_mult drop_bit_eq_div take_bit_eq_mod less_mult_imp_div_less flip: take_bit_eq_mask)
  finally show "and x (0xfe00 :: u16) = 0xfc00 \<longleftrightarrow> unat x div 512 = 126"
    by (simp add: word_unat_eq_iff)
  have "unat (and x (0xffc0 :: u16)) = and (unat x) (push_bit 6 (mask 10))"
    by (simp add: unsigned_and_eq push_bit_eq_mult mask_eq_exp_minus_1)
  also have "\<dots> = 64 * (unat x div 64)"
    unfolding and_push_bit using segment_bound [of x]
    by (simp add: push_bit_eq_mult drop_bit_eq_div take_bit_eq_mod less_mult_imp_div_less flip: take_bit_eq_mask)
  finally show "and x (0xffc0 :: u16) = 0xfe80 \<longleftrightarrow> unat x div 64 = 1018"
    by (simp add: word_unat_eq_iff)
qed

lemma digits_step: "block_value base (ds @ [d]) = base * block_value base ds + d"
  by (simp add: block_value_def)

lemma digits_prefix:
  assumes "list_all (\<lambda>d. d < base) ds"
  shows "block_value base (xs @ ds) div base ^ length ds = block_value base xs"
  using assms
proof (induction ds rule: rev_induct)
  case (snoc d ds)
  have "block_value base ((xs @ ds) @ [d]) div base ^ Suc (length ds) = block_value base (xs @ ds) div base ^ length ds"
    unfolding digits_step power_Suc div_mult2_eq using snoc.prems by simp
  with snoc show ?case by simp
qed simp

lemma reserved_v6_private:
  assumes "reserved_ip (V6 ss)" and "length ss = 8"
  shows "private_ip (V6 ss)"
proof -
  obtain a b c d e f g h where ss: "ss = [a, b, c, d, e, f, g, h]"
    using assms(2) by (auto simp: length_Suc_conv numeral_eq_Suc)
  let ?v = "block_value 65536 (map unat ss)"
  have "?v div 65536 ^ 7 = unat a"
    using digits_prefix [of 65536 "map unat [b, c, d, e, f, g, h]" "[unat a]"] segment_bound
    by (simp add: ss block_value_def)
  then have top: "?v div 65536 ^ 7 div k = unat a div k" for k by simp
  have "?v div (65536 ^ 7 * 512) = unat a div 512" "?v div (65536 ^ 7 * 64) = unat a div 64"
    unfolding div_mult2_eq top by simp_all
  then have "?v = 1 \<or> ?v = 0 \<or> unat a div 512 = 126 \<or> unat a div 64 = 1018"
    using assms(1) by (simp add: reserved_v6_def in_block_def) (simp add: block_value_def)
  moreover have "private_ip (V6 ss)" if "?v = n" "n < 2" for n
  proof -
    from that have zero: "unat a = 0" "unat b = 0" "unat c = 0" "unat d = 0" "unat e = 0" "unat f = 0" "unat g = 0"
      by (simp_all add: ss block_value_def)
    then have "unat h = n" using that(1) by (simp add: ss block_value_def)
    with that(2) zero show ?thesis by (auto simp: ss Let_def word_unat_eq_iff less_2_cases_iff)
  qed
  ultimately show ?thesis
    by (auto simp: masked ss Let_def)
qed
lemma reserved_private: "ip_wf ip \<Longrightarrow> reserved_ip ip \<Longrightarrow> private_ip ip"
proof (cases ip)
  case (V4 os)
  moreover assume "ip_wf ip" "reserved_ip ip"
  ultimately obtain a b c d where "os = [a, b, c, d]" by (auto simp: length_Suc_conv numeral_eq_Suc)
  with V4 \<open>reserved_ip ip\<close> show ?thesis using reserved_v4_private by blast
next
  case (V6 ss)
  moreover assume "ip_wf ip" "reserved_ip ip"
  ultimately show ?thesis using reserved_v6_private [of ss] by simp
qed

text \<open>Evaluation of the parser: the counters of its loops are numerals.\<close>

lemma read_octets_numeral:
  "read_octets i (numeral k) s =
     Option.bind (read_separator (CHR ''.'') i (read_number 10 3 False 256) s)
       (\<lambda>(v, s1). map_option (\<lambda>(os, s2). (word_of_nat v # os, s2)) (read_octets (Suc i) (pred_numeral k) s1))"
  by (simp add: numeral_eq_Suc [of k])

lemma read_groups_numeral:
  "read_groups i (numeral k) s =
     (case (if 0 < pred_numeral k then read_separator (CHR '':'') i read_ipv4_addr s else None) of
        Some (os, s1) \<Rightarrow> (pair_segments os, True, s1)
      | None \<Rightarrow>
          (case read_separator (CHR '':'') i (read_number 16 4 True 65536) s of
             Some (v, s1) \<Rightarrow> (case read_groups (Suc i) (pred_numeral k) s1 of (gs, v4, s2) \<Rightarrow> (word_of_nat v # gs, v4, s2))
           | None \<Rightarrow> ([], False, s)))"
  by (simp add: numeral_eq_Suc [of k])

lemmas parse_ip_eval = parse_ip_def read_ipv4_addr_def read_ipv6_addr_def read_octets_numeral read_groups_numeral
  read_separator_def read_number_def digit_value_def read_given_char_def

lemma shown_addresses:
  "show_ip (V4 [127, 0, 0, 1]) = ''127.0.0.1''"
  "show_ip (V6 [0x2001, 0xdb8, 0, 0, 1, 0, 0, 0]) = ''2001:db8:0:0:1::''"
  by (simp_all add: show_segments_def hex_char_def show_nat.simps digit_char_def char_of_def bit_0)

lemma sample_not_ip: "parse_ip ''api.x'' = None"
  by (simp add: parse_ip_eval)

section \<open>What gets past it\<close>

text \<open>
  The two readings of a host can differ, and then an address literal is not looked at: the URL
  parser normalises every number form of an IPv4 address, the check on the text only knows the
  dotted form, and a host that is an address after parsing is let through unchecked. Of the URL
  parser this uses that it follows the WHATWG host parser on one input.
\<close>

lemma number_not_ip: "parse_ip ''2130706433'' = None"
  by (simp add: parse_ip_eval)

lemma dotted_loopback: "parse_ip ''127.0.0.1'' = Some (V4 [127, 0, 0, 1])"
  by (simp add: parse_ip_eval)

lemma loopback_number_passes:
  assumes "ua_parse ua ''http://2130706433/'' = Inr (Some ''127.0.0.1'', Some 80)"
  shows "guard_url ua ''http://2130706433/'' kind True = Inr ()"
    and "reached ua ''127.0.0.1'' 80 = [V4 [127, 0, 0, 1]]" and "private_ip (V4 [127, 0, 0, 1])"
proof -
  have host: "host_from_url ''http://2130706433/'' = Some ''2130706433''"
    by (simp add: host_from_url_def starts_with_def rsplit_once_def before_char_def)
  have lower: "to_ascii_lowercase ''2130706433'' = ''2130706433''"
    by (simp add: to_ascii_lowercase_def ascii_lower_char_def)
  show "guard_url ua ''http://2130706433/'' kind True = Inr ()"
    using assms by (simp add: guard_url_def guard_literal_url_def private_url_reason_def host lower number_not_ip
        str_ends_with_def starts_with_def dotted_loopback)
  show "reached ua ''127.0.0.1'' 80 = [V4 [127, 0, 0, 1]]" by (simp add: reached_def dotted_loopback)
  show "private_ip (V4 [127, 0, 0, 1])" by simp
qed

text \<open>
  An IPv6 address that embeds an IPv4 address is judged by its own blocks only: a name that resolves
  to the mapped loopback address passes, and a connection to that address reaches the loopback.
\<close>

lemma mapped_loopback_passes:
  assumes "ua_parse ua ''http://m.x/'' = Inr (Some ''m.x'', Some 80)"
    and "ua_lookup ua ''m.x'' 80 = Inr [V6 [0, 0, 0, 0, 0, 0xffff, 0x7f00, 1]]"
  shows "guard_url ua ''http://m.x/'' kind True = Inr ()"
proof -
  have host: "host_from_url ''http://m.x/'' = Some ''m.x''"
    by (simp add: host_from_url_def starts_with_def rsplit_once_def before_char_def)
  have lower: "to_ascii_lowercase ''m.x'' = ''m.x''"
    by (simp add: to_ascii_lowercase_def ascii_lower_char_def)
  have name: "parse_ip ''m.x'' = None" by (simp add: parse_ip_eval)
  show ?thesis
    using assms by (simp add: guard_url_def guard_literal_url_def private_url_reason_def host lower name
        str_ends_with_def starts_with_def private_ip_reason_def)
qed

end
