(* ===== verification/Egress.thy ===== *)
theory Egress
  imports Net_Guard Accounts Provider_Config
begin

text \<open>
  Outbound paths (\<open>sb-adapters/src/egress.rs\<close>) and the signers that attach credentials
  (\<open>signer.rs\<close>, \<open>sigv4.rs\<close>). Of \<open>reqwest\<close> the model has the request under construction (headers
  are appended, as \<open>RequestBuilder::header\<close> does) and the settings of a client; whether a proxy URL
  is accepted and a client can be built, the environment, SHA-256 and HMAC are parameters.
\<close>

section \<open>Requests under construction\<close>

record http_request =
  hq_verb :: string
  hq_url :: string
  hq_headers :: "(string \<times> string) list"
  hq_query :: "(string \<times> string) list"
  hq_body :: string

definition add_header :: "string \<times> string \<Rightarrow> http_request \<Rightarrow> http_request" where
  "add_header h r = r\<lparr>hq_headers := hq_headers r @ [h]\<rparr>"

record timeouts =
  to_connect_ms :: u64
  to_read_ms :: u64

definition default_timeouts :: timeouts where
  "default_timeouts = \<lparr>to_connect_ms = 10000, to_read_ms = 300000\<rparr>"

record http_client =
  hc_connect_ms :: u64
  hc_read_ms :: u64
  hc_follow_redirects :: bool
  hc_proxy :: "string option"

record client_api =
  ca_proxy :: "string \<Rightarrow> string + unit"
  ca_build :: "http_client \<Rightarrow> string + unit"

definition build_client :: "client_api \<Rightarrow> timeouts \<Rightarrow> string option \<Rightarrow> string + http_client" where
  "build_client ca t proxy =
     (let client = \<lparr>hc_connect_ms = to_connect_ms t, hc_read_ms = to_read_ms t, hc_follow_redirects = False, hc_proxy = proxy\<rparr>
      in try_with (case proxy of
             Some url \<Rightarrow> map_sum (\<lambda>e. ''invalid proxy url: '' @ e) (\<lambda>u. u) (ca_proxy ca url)
           | None \<Rightarrow> Inr ())
           (\<lambda>_. try_with (ca_build ca client) (\<lambda>_. Inr client)))"

section \<open>Outbound paths\<close>

datatype egress_kind = EgressDirect | EgressProxy "string option" "string option"

record egress_config =
  eg_id :: string
  eg_kind :: egress_kind
  eg_enabled :: bool
  eg_user_agent :: "string option"
  eg_headers :: "(string, string) btree_map"

record egress_path =
  ep_id :: string
  ep_client :: http_client
  ep_user_agent :: "string option"
  ep_headers :: "(string \<times> string) list"

definition denied_headers :: "string list" where
  "denied_headers = [''authorization'', ''proxy-authorization'', ''x-api-key'', ''x-goog-api-key'', ''api-key'', ''cookie'']"

definition is_auth_header :: "string \<Rightarrow> bool" where
  "is_auth_header name = (to_ascii_lowercase name \<in> set denied_headers)"

definition apply_identity :: "egress_path \<Rightarrow> http_request \<Rightarrow> http_request" where
  "apply_identity p r =
     (let r1 = (case ep_user_agent p of Some ua \<Rightarrow> add_header (''user-agent'', ua) r | None \<Rightarrow> r)
      in fold (\<lambda>(name, v) r. if is_auth_header name then r else add_header (name, v) r) (ep_headers p) r1)"

record egress_pool =
  pool_paths :: "string \<rightharpoonup> egress_path"
  pool_enabled :: bool

definition egress_direct :: string where
  "egress_direct = ''direct''"

text \<open>Proxy URL: the environment before the inline value.\<close>

definition resolve_url :: "(string \<Rightarrow> string option) \<Rightarrow> string option \<Rightarrow> string option \<Rightarrow> string option" where
  "resolve_url env url url_env = or_else (Option.bind url_env env) url"

definition direct_path :: "http_client \<Rightarrow> egress_path" where
  "direct_path client = \<lparr>ep_id = egress_direct, ep_client = client, ep_user_agent = None, ep_headers = []\<rparr>"

fun guard_message :: "network_guard_error \<Rightarrow> string" where
  "guard_message (InvalidUrl m) = m"
| "guard_message (ResolveFailed m) = m"
| "guard_message (BlockedPrivate m) = m"

text \<open>The proxy of one configured egress.\<close>

definition egress_proxy :: "(string \<Rightarrow> string option) \<Rightarrow> url_api \<Rightarrow> bool \<Rightarrow> egress_config \<Rightarrow> string + string option" where
  "egress_proxy env ua block_private_networks cfg =
     (case eg_kind cfg of
        EgressDirect \<Rightarrow> Inr None
      | EgressProxy url url_env \<Rightarrow>
          try_with (ok_or (''egress `'' @ eg_id cfg @ ''`: proxy needs `url` or `url_env`'') (resolve_url env url url_env))
            (\<lambda>resolved. try_with
               (if block_private_networks
                then map_sum (\<lambda>e. ''egress `'' @ eg_id cfg @ ''`: '' @ guard_message e) (\<lambda>u. u) (guard_url ua resolved ProxyUrl True)
                else Inr ())
               (\<lambda>_. Inr (Some resolved))))"

definition add_egress ::
  "(string \<Rightarrow> string option) \<Rightarrow> url_api \<Rightarrow> client_api \<Rightarrow> timeouts \<Rightarrow> bool \<Rightarrow> egress_config
     \<Rightarrow> (string \<rightharpoonup> egress_path) \<Rightarrow> string + (string \<rightharpoonup> egress_path)" where
  "add_egress env ua ca t block cfg paths =
     (if \<not> eg_enabled cfg then Inr paths
      else try_with (egress_proxy env ua block cfg)
        (\<lambda>proxy. try_with (map_sum (\<lambda>e. ''egress `'' @ eg_id cfg @ ''`: '' @ e) (\<lambda>c. c) (build_client ca t proxy))
           (\<lambda>client. Inr (paths(eg_id cfg \<mapsto> \<lparr>ep_id = eg_id cfg, ep_client = client, ep_user_agent = eg_user_agent cfg,
              ep_headers = eg_headers cfg\<rparr>)))))"

definition egress_from_config ::
  "(string \<Rightarrow> string option) \<Rightarrow> url_api \<Rightarrow> client_api \<Rightarrow> timeouts \<Rightarrow> bool \<Rightarrow> bool \<Rightarrow> egress_config list \<Rightarrow> string + egress_pool" where
  "egress_from_config env ua ca t enabled block cfgs =
     try_with (build_client ca t None)
       (\<lambda>client. try_with
          (try_fold (add_egress env ua ca t block) (if enabled then cfgs else []) [egress_direct \<mapsto> direct_path client])
          (\<lambda>paths. Inr \<lparr>pool_paths = paths, pool_enabled = enabled\<rparr>))"

definition direct_only :: "client_api \<Rightarrow> string + egress_pool" where
  "direct_only ca =
     try_with (build_client ca default_timeouts None)
       (\<lambda>client. Inr \<lparr>pool_paths = [egress_direct \<mapsto> direct_path client], pool_enabled = True\<rparr>)"

text \<open>\<open>expect\<close> on a missing direct path is \<open>None\<close>.\<close>

definition egress_path_for :: "egress_pool \<Rightarrow> string option \<Rightarrow> egress_path option" where
  "egress_path_for pool egress_id =
     or_else (if pool_enabled pool then Option.bind egress_id (pool_paths pool) else None) (pool_paths pool egress_direct)"

definition egress_effective :: "egress_pool \<Rightarrow> string option \<Rightarrow> string option" where
  "egress_effective pool egress_id = map_option ep_id (egress_path_for pool egress_id)"

section \<open>Signers\<close>

record sign_target =
  sg_verb :: string
  sg_host :: string
  sg_path :: string
  sg_query :: string
  sg_body :: string

record signed_additions =
  sa_headers :: "(string \<times> string) list"
  sa_query :: "(string \<times> string) list"

definition no_additions :: signed_additions where
  "no_additions = \<lparr>sa_headers = [], sa_query = []\<rparr>"

definition scheme_sign :: "auth_scheme \<Rightarrow> sign_target \<Rightarrow> credential_lease option \<Rightarrow> signed_additions" where
  "scheme_sign scheme target lease =
     (case lease of
        None \<Rightarrow> no_additions
      | Some l \<Rightarrow>
          if cl_auth_kind l = AkNone \<or> cl_secret l = [] then no_additions
          else (case scheme of
                  SchemeNone \<Rightarrow> no_additions
                | SchemeBearer \<Rightarrow> no_additions\<lparr>sa_headers := [(''authorization'', ''Bearer '' @ cl_secret l)]\<rparr>
                | SchemeHeader name \<Rightarrow> no_additions\<lparr>sa_headers := [(name, cl_secret l)]\<rparr>
                | SchemeQuery name \<Rightarrow> no_additions\<lparr>sa_query := [(name, cl_secret l)]\<rparr>))"

definition codex_sign :: "sign_target \<Rightarrow> credential_lease option \<Rightarrow> signed_additions" where
  "codex_sign target lease =
     (case lease of
        None \<Rightarrow> no_additions
      | Some l \<Rightarrow>
          if cl_auth_kind l \<noteq> AkBearer \<or> cl_secret l = [] then no_additions
          else no_additions\<lparr>sa_headers := [(''authorization'', ''Bearer '' @ cl_secret l)]
            @ (case cl_chatgpt_account_id l of
                 Some i \<Rightarrow> if i \<noteq> [] then [(''chatgpt-account-id'', i)] else [] | None \<Rightarrow> [])\<rparr>)"

text \<open>\<open>split_url\<close>: host, path with its slash, query without its mark.\<close>

definition split_url :: "string \<Rightarrow> string \<times> string \<times> string" where
  "split_url url =
     (let after_scheme = (case split_once ''://'' url of
            Some (_, rest) \<Rightarrow> (case split_once ''://'' rest of Some (a, _) \<Rightarrow> a | None \<Rightarrow> rest)
          | None \<Rightarrow> url);
          (authority_path, query) = (case split_once ''?'' after_scheme of Some (ap, q) \<Rightarrow> (ap, q) | None \<Rightarrow> (after_scheme, []))
      in case split_once ''/'' authority_path of
           Some (host, p) \<Rightarrow> (host, ''/'' @ p, query)
         | None \<Rightarrow> (authority_path, ''/'', query))"

section \<open>AWS signatures\<close>

record hash_api =
  ha_sha256 :: "string \<Rightarrow> string"
  ha_hmac :: "string \<Rightarrow> string \<Rightarrow> string"

definition hex_of_bytes :: "string \<Rightarrow> string" where
  "hex_of_bytes s = concat (map (\<lambda>c. let n = (of_char c :: nat) in [hex_char (n div 16), hex_char (n mod 16)]) s)"

definition sha256_hex :: "hash_api \<Rightarrow> string \<Rightarrow> string" where
  "sha256_hex ha s = hex_of_bytes (ha_sha256 ha s)"

definition line_feed :: string where
  "line_feed = [CHR 0x0A]"

definition signed_header_list :: "hash_api \<Rightarrow> sign_target \<Rightarrow> string option \<Rightarrow> string \<Rightarrow> (string \<times> string) list" where
  "signed_header_list ha t token date =
     sort_by (\<lambda>a b. cmp_ord (fst a) (fst b))
       ([(''host'', sg_host t), (''x-amz-content-sha256'', sha256_hex ha (sg_body t)), (''x-amz-date'', date)]
        @ (case token of Some tok \<Rightarrow> [(''x-amz-security-token'', tok)] | None \<Rightarrow> []))"

definition canonical_request :: "hash_api \<Rightarrow> sign_target \<Rightarrow> (string \<times> string) list \<Rightarrow> string" where
  "canonical_request ha t headers =
     sg_verb t @ line_feed @ sg_path t @ line_feed @ sg_query t @ line_feed
     @ concat (map (\<lambda>(k, v). k @ '':'' @ str_trim v @ line_feed) headers) @ line_feed
     @ join_with '';'' (map fst headers) @ line_feed @ sha256_hex ha (sg_body t)"

definition signing_key :: "hash_api \<Rightarrow> string \<Rightarrow> string \<Rightarrow> string \<Rightarrow> string \<Rightarrow> string" where
  "signing_key ha secret datestamp region service =
     ha_hmac ha (ha_hmac ha (ha_hmac ha (ha_hmac ha (''AWS4'' @ secret) datestamp) region) service) ''aws4_request''"

definition sigv4_sign ::
  "hash_api \<Rightarrow> sign_target \<Rightarrow> aws_sigv4_lease \<Rightarrow> string \<Rightarrow> string \<Rightarrow> string \<Rightarrow> (string \<times> string) list" where
  "sigv4_sign ha t creds region service date =
     (let datestamp = take 8 date;
          headers = signed_header_list ha t (aws_session_token creds) date;
          scope = datestamp @ ''/'' @ region @ ''/'' @ service @ ''/aws4_request'';
          string_to_sign = ''AWS4-HMAC-SHA256'' @ line_feed @ date @ line_feed @ scope @ line_feed
            @ sha256_hex ha (canonical_request ha t headers);
          signature = hex_of_bytes (ha_hmac ha (signing_key ha (aws_secret_access_key creds) datestamp region service) string_to_sign);
          authorization = ''AWS4-HMAC-SHA256 Credential='' @ aws_access_key_id creds @ ''/'' @ scope @ '', SignedHeaders=''
            @ join_with '';'' (map fst headers) @ '', Signature='' @ signature
      in [(''x-amz-date'', date), (''x-amz-content-sha256'', sha256_hex ha (sg_body t)), (''authorization'', authorization)]
         @ (case aws_session_token creds of Some tok \<Rightarrow> [(''x-amz-security-token'', tok)] | None \<Rightarrow> []))"

text \<open>The signer of Bedrock; \<open>date\<close> is the clock's UTC time in AWS's format.\<close>

definition sigv4_signer :: "hash_api \<Rightarrow> string \<Rightarrow> string \<Rightarrow> string \<Rightarrow> sign_target \<Rightarrow> credential_lease option \<Rightarrow> signed_additions" where
  "sigv4_signer ha region service date t lease =
     (case lease of
        None \<Rightarrow> no_additions
      | Some l \<Rightarrow>
          if cl_auth_kind l \<noteq> AkAwsSigV4 then no_additions
          else (case cl_aws_sigv4 l of
                  None \<Rightarrow> no_additions
                | Some creds \<Rightarrow> no_additions\<lparr>sa_headers := sigv4_sign ha t creds region service date\<rparr>))"

end
