(* ===== verification/Config_Validation.thy ===== *)
theory Config_Validation
  imports Profiles Plugins Auth Egress Execution_Meta
begin

text \<open>
  The semantic validation of a configuration (\<open>Config::semantic_problems\<close> and
  \<open>has_inline_secret_material\<close> of \<open>sb-core/src/config.rs\<close>): the checks every load and every publish
  runs, in the order of the code, as the list of problems it reports.
\<close>

section \<open>The configuration\<close>

record local_executor_config =
  lx_name :: string
  lx_base_url :: string
  lx_health_endpoint :: string
  lx_wake_command :: "string option"
  lx_poweroff_command :: "string option"
  lx_restart_command :: "string option"
  lx_boot_timeout_secs :: u64
  lx_wake_retry_interval_secs :: u64
  lx_idle_timeout_secs :: u64
  lx_retry_budget :: u32
  lx_health_poll_interval_ms :: u64

text \<open>The part of \<open>ServerConfig\<close> that the validation reads.\<close>

record server_config =
  sv_api_key :: "string option"
  sv_default_provider :: "string option"
  sv_default_egress :: "string option"
  sv_block_private_networks :: bool
  sv_per_provider_usd :: "(string, f64) btree_map"
  sv_execution_cache :: execution_cache_config
  sv_scorecard :: scorecard_config
  sv_quality_eval :: quality_eval_config
  sv_state_store :: "string option"

record 'w config =
  cf_server :: server_config
  cf_has_vault :: bool
  cf_providers :: "'w provider_config list"
  cf_client_profiles :: "client_profile_config list"
  cf_harnesses :: "harness_descriptor list"
  cf_combos :: "(string, combo_config) btree_map"
  cf_routes :: "route_config list"
  cf_tenants :: "tenant_config list"
  cf_api_keys :: "api_key_config list"
  cf_plugins :: "plugin_config list"
  cf_egress :: "egress_config list"
  cf_local_executors :: "local_executor_config list"

section \<open>Small tests\<close>

definition blank :: "string \<Rightarrow> bool" where
  "blank s \<longleftrightarrow> str_trim s = []"

definition non_empty :: "string option \<Rightarrow> bool" where
  "non_empty v = (case v of Some s \<Rightarrow> \<not> blank s | None \<Rightarrow> False)"

fun pointer_escapes_ok :: "string \<Rightarrow> bool" where
  "pointer_escapes_ok [] = True"
| "pointer_escapes_ok (c # cs) =
     (if c = CHR ''~''
      then (case cs of d # ds \<Rightarrow> (d = CHR ''0'' \<or> d = CHR ''1'') \<and> pointer_escapes_ok ds | [] \<Rightarrow> False)
      else pointer_escapes_ok cs)"

definition is_nonempty_json_pointer :: "string \<Rightarrow> bool" where
  "is_nonempty_json_pointer p \<longleftrightarrow> starts_with p ''/'' \<and> pointer_escapes_ok p"

fun provider_kind_has_inline_secret_material :: "'w provider_kind \<Rightarrow> bool" where
  "provider_kind_has_inline_secret_material (KindOpenaiCompatible url env key scheme wire) = non_empty key"
| "provider_kind_has_inline_secret_material (KindAnthropic url env key scheme) = non_empty key"
| "provider_kind_has_inline_secret_material (KindGemini url env key) = non_empty key"
| "provider_kind_has_inline_secret_material (KindVertex project region url env key) = non_empty key"
| "provider_kind_has_inline_secret_material (KindFal url platform env key threshold) = non_empty key"
| "provider_kind_has_inline_secret_material _ = False"

fun auth_has_inline_secret_material :: "auth_config \<Rightarrow> bool" where
  "auth_has_inline_secret_material (AuthApiKey env inline vault) = non_empty inline"
| "auth_has_inline_secret_material (AuthOauth f) = (non_empty (oa_token f) \<or> non_empty (oa_refresh f) \<or> non_empty (oa_client_secret f))"
| "auth_has_inline_secret_material (AuthAwsSigV4 f) =
     (non_empty (sv_access_key f) \<or> non_empty (sv_secret_key f) \<or> non_empty (sv_session_token f))"
| "auth_has_inline_secret_material _ = False"

definition provider_has_inline_secret_material :: "'w provider_config \<Rightarrow> bool" where
  "provider_has_inline_secret_material p \<longleftrightarrow> provider_kind_has_inline_secret_material (pc_kind p)
     \<or> list_ex (\<lambda>a. auth_has_inline_secret_material (acc_auth a)) (pc_accounts p)"

text \<open>\<open>authority.rsplit('@').nth(1).is_some()\<close>: the part before the first of \<open>/?#\<close> has an \<open>@\<close>.\<close>

definition url_has_credentials :: "string \<Rightarrow> bool" where
  "url_has_credentials url =
     (case split_once ''://'' url of
        None \<Rightarrow> False
      | Some (_, rest) \<Rightarrow> CHR ''@'' \<in> set (takeWhile (\<lambda>c. c \<notin> {CHR ''/'', CHR ''?'', CHR ''#''}) rest))"

definition egress_has_inline_secret_material :: "egress_config \<Rightarrow> bool" where
  "egress_has_inline_secret_material e =
     (case eg_kind e of EgressProxy (Some url) url_env \<Rightarrow> url_has_credentials url | _ \<Rightarrow> False)"

definition has_inline_secret_material :: "'w config \<Rightarrow> bool" where
  "has_inline_secret_material cfg \<longleftrightarrow>
     non_empty (sv_api_key (cf_server cfg)) \<or> list_ex (\<lambda>k. non_empty (ak_key k)) (cf_api_keys cfg)
     \<or> list_ex provider_has_inline_secret_material (cf_providers cfg)
     \<or> list_ex egress_has_inline_secret_material (cf_egress cfg)"

definition provider_has_account :: "'w provider_config \<Rightarrow> string \<Rightarrow> bool" where
  "provider_has_account p account_id \<longleftrightarrow>
     (if pc_accounts p = [] then account_id = ''default'' else list_ex (\<lambda>a. acc_id a = account_id) (pc_accounts p))"

definition profile_model_ref_resolves ::
  "string \<Rightarrow> string set \<Rightarrow> (string, combo_config) btree_map \<Rightarrow> string set \<Rightarrow> bool" where
  "profile_model_ref_resolves model profile_route_models combos provider_ids \<longleftrightarrow>
     model \<in> profile_route_models \<or> bt_get combos model \<noteq> None
     \<or> (case split_once ''/'' model of
          None \<Rightarrow> False
        | Some (p, m) \<Rightarrow> p \<noteq> [] \<and> m \<noteq> [] \<and> p \<in> provider_ids)"

definition named_ref :: "string \<Rightarrow> string option \<Rightarrow> (string \<times> string) list" where
  "named_ref field v = (case v of Some s \<Rightarrow> if blank s then [] else [(field, s)] | None \<Rightarrow> [])"

fun auth_vault_refs :: "auth_config \<Rightarrow> (string \<times> string) list" where
  "auth_vault_refs (AuthApiKey env inline vault) = named_ref ''vault'' vault"
| "auth_vault_refs (AuthOauth f) = named_ref ''token_vault'' (oa_token_vault f) @ named_ref ''refresh_vault'' (oa_refresh_vault f)
     @ named_ref ''client_secret_vault'' (oa_client_secret_vault f)"
| "auth_vault_refs (AuthCodexOauth f) = named_ref ''token_vault'' (no_token_vault f)"
| "auth_vault_refs (AuthClaudeCodeOauth f) = named_ref ''token_vault'' (no_token_vault f)"
| "auth_vault_refs _ = []"

definition opt_url :: "string option \<Rightarrow> (string \<times> string) list" where
  "opt_url v = (case v of Some url \<Rightarrow> [(''base_url'', url)] | None \<Rightarrow> [])"

fun provider_kind_urls :: "'w provider_kind \<Rightarrow> (string \<times> string) list" where
  "provider_kind_urls KindMock = []"
| "provider_kind_urls (KindOpenaiCompatible url env key scheme wire) = [(''base_url'', url)]"
| "provider_kind_urls (KindAnthropic url env key scheme) = [(''base_url'', url)]"
| "provider_kind_urls (KindGemini url env key) = [(''base_url'', url)]"
| "provider_kind_urls (KindComfyUi url workflows) = [(''base_url'', url)]"
| "provider_kind_urls (KindFal url platform env key threshold) = [(''base_url'', url), (''platform_base_url'', platform)]"
| "provider_kind_urls (KindVertex project region url env key) = opt_url url"
| "provider_kind_urls (KindBedrock region access secret session url) = opt_url url"
| "provider_kind_urls (KindCodexNativeRelay url) = opt_url url"
| "provider_kind_urls (KindClaudeCodeNativeRelay url) = opt_url url"

definition provider_urls :: "'w provider_config \<Rightarrow> (string \<times> string) list" where
  "provider_urls p = provider_kind_urls (pc_kind p)"

section \<open>Problems\<close>

text \<open>\<open>if c { problems.push(p) }\<close>, and the same for every item of a list with its index.\<close>

definition problem_if :: "bool \<Rightarrow> string \<Rightarrow> string list" where
  "problem_if c p = (if c then [p] else [])"

definition each_problem :: "(nat \<Rightarrow> 'a \<Rightarrow> string list) \<Rightarrow> 'a list \<Rightarrow> string list" where
  "each_problem f xs = concat (map (\<lambda>(i, x). f i x) (List.enumerate 0 xs))"

definition at_index :: "string \<Rightarrow> nat \<Rightarrow> string" where
  "at_index name i = name @ ''['' @ show_nat i @ '']''"

text \<open>
  \<open>if id.trim().is_empty() { .. } else if !seen.insert(id) { .. }\<close> for the item at index \<open>i\<close>: the
  items before it are the ones in \<open>seen\<close>. The names a section accepts are those that are not blank.
\<close>

definition repeated :: "string list \<Rightarrow> nat \<Rightarrow> bool" where
  "repeated ids i \<longleftrightarrow> ids ! i \<in> set (take i ids)"

definition name_problems :: "string \<Rightarrow> string list \<Rightarrow> nat \<Rightarrow> string \<Rightarrow> string list" where
  "name_problems path ids i field =
     (if blank (ids ! i) then [at_index path i @ ''.'' @ field @ '' is empty'']
      else problem_if (repeated ids i) (at_index path i @ ''.'' @ field @ '' duplicates `'' @ ids ! i @ ''`''))"

definition accepted_ids :: "string list \<Rightarrow> string set" where
  "accepted_ids ids = {s \<in> set ids. \<not> blank s}"

definition provider_ids :: "'w config \<Rightarrow> string set" where
  "provider_ids cfg = accepted_ids (map pc_id (cf_providers cfg))"

definition tenant_ids :: "'w config \<Rightarrow> string set" where
  "tenant_ids cfg = accepted_ids (map tc_id (cf_tenants cfg))"

definition egress_ids :: "'w config \<Rightarrow> string set" where
  "egress_ids cfg = accepted_ids (map eg_id (cf_egress cfg)) - {''direct''}"

definition unknown_egress :: "'w config \<Rightarrow> string \<Rightarrow> bool" where
  "unknown_egress cfg e \<longleftrightarrow> e \<noteq> ''direct'' \<and> e \<notin> egress_ids cfg"

section \<open>Declared names\<close>

definition provider_problems :: "'w config \<Rightarrow> string list" where
  "provider_problems cfg = (let ids = map pc_id (cf_providers cfg) in
     each_problem (\<lambda>i p. name_problems ''providers'' ids i ''id''
       @ problem_if (case pc_model_hint p of Some h \<Rightarrow> blank h | None \<Rightarrow> False) (at_index ''providers'' i @ ''.model_hint is empty''))
     (cf_providers cfg))"

definition harness_problems :: "'w config \<Rightarrow> string list" where
  "harness_problems cfg = (let names = map hd_name (cf_harnesses cfg) in
     each_problem (\<lambda>i h. let here = at_index ''harnesses'' i in name_problems ''harnesses'' names i ''name''
       @ problem_if (blank (hd_version h)) (here @ ''.version is empty'')
       @ problem_if (blank (hd_input_contract h)) (here @ ''.input_contract is empty'')
       @ problem_if (blank (hd_output_contract h)) (here @ ''.output_contract is empty'')
       @ each_problem (\<lambda>ti tool. problem_if (blank tool) (here @ ''.'' @ at_index ''required_tools'' ti @ '' is empty'')) (hd_required_tools h))
     (cf_harnesses cfg))"

definition tenant_problems :: "'w config \<Rightarrow> string list" where
  "tenant_problems cfg = (let ids = map tc_id (cf_tenants cfg) in
     each_problem (\<lambda>i t. name_problems ''tenants'' ids i ''id'') (cf_tenants cfg))"

text \<open>A reserved name is not inserted, so a second one is reserved again and no duplicate.\<close>

definition egress_problems :: "'w config \<Rightarrow> string list" where
  "egress_problems cfg = (let ids = map eg_id (cf_egress cfg) in
     each_problem (\<lambda>i e. if eg_id e = ''direct'' then [at_index ''egress'' i @ ''.id `direct` is reserved'']
       else name_problems ''egress'' ids i ''id'') (cf_egress cfg))"

definition cache_problems :: "'w config \<Rightarrow> string list" where
  "cache_problems cfg = problem_if (ecc_ttl_seconds (sv_execution_cache (cf_server cfg)) = Some 0)
     ''server.execution_cache.ttl_seconds must be positive or null''"

definition default_problems :: "'w config \<Rightarrow> string list" where
  "default_problems cfg =
     (case sv_default_provider (cf_server cfg) of
        Some p \<Rightarrow> problem_if (p \<notin> provider_ids cfg) (''server.default_provider `'' @ p @ ''` does not match a provider id'')
      | None \<Rightarrow> [])
     @ (case sv_default_egress (cf_server cfg) of
          Some e \<Rightarrow> problem_if (unknown_egress cfg e) (''server.default_egress `'' @ e @ ''` does not match an egress id'')
        | None \<Rightarrow> [])
     @ problem_if (non_empty (sv_api_key (cf_server cfg)) \<and> cf_api_keys cfg \<noteq> [])
         ''server.api_key and api_keys cannot both be configured; use api_keys for multi-tenant auth''"

section \<open>Networks and budgets\<close>

definition blocked_url :: "string \<Rightarrow> string \<Rightarrow> string list" where
  "blocked_url place url = (case private_url_reason url of
     Some reason \<Rightarrow> [place @ '' `'' @ url @ ''` is blocked: '' @ reason] | None \<Rightarrow> [])"

definition account_token_url :: "account_config \<Rightarrow> string option" where
  "account_token_url a = (case acc_auth a of AuthOauth f \<Rightarrow> oa_token_url f | _ \<Rightarrow> None)"

definition network_problems :: "'w config \<Rightarrow> string list" where
  "network_problems cfg =
     (if \<not> sv_block_private_networks (cf_server cfg) then []
      else each_problem (\<lambda>i p. let here = at_index ''providers'' i in
             concat (map (\<lambda>(field, url). blocked_url (here @ ''.'' @ field) url) (provider_urls p))
             @ each_problem (\<lambda>ai a. case account_token_url a of
                 Some url \<Rightarrow> blocked_url (here @ ''.'' @ at_index ''accounts'' ai @ ''.auth.token_url'') url | None \<Rightarrow> []) (pc_accounts p))
           (cf_providers cfg)
         @ each_problem (\<lambda>i e. case eg_kind e of EgressProxy (Some url) url_env \<Rightarrow> blocked_url (at_index ''egress'' i @ ''.url'') url | _ \<Rightarrow> [])
           (cf_egress cfg))"

definition budget_problems :: "'w config \<Rightarrow> string list" where
  "budget_problems cfg = concat (map (\<lambda>(provider_id, cap).
     problem_if (provider_id \<notin> provider_ids cfg)
       (''server.budget.per_provider_usd `'' @ provider_id @ ''` does not match a provider id'')
     @ problem_if (\<not> is_finite cap \<or> flt_less cap (FFin 0))
         (''server.budget.per_provider_usd `'' @ provider_id @ ''` must be a finite non-negative number''))
     (sv_per_provider_usd (cf_server cfg)))"

section \<open>Keys\<close>

definition blank_field :: "string \<Rightarrow> string \<Rightarrow> string option \<Rightarrow> string list" where
  "blank_field here field v = problem_if (case v of Some s \<Rightarrow> blank s | None \<Rightarrow> False) (here @ ''.'' @ field @ '' is empty'')"

definition key_sources :: "api_key_config \<Rightarrow> nat" where
  "key_sources k = length (filter (\<lambda>b. b) [non_empty (ak_key k), non_empty (ak_key_env k), non_empty (ak_key_hash k)])"

definition key_problems :: "'w config \<Rightarrow> string list" where
  "key_problems cfg =
     each_problem (\<lambda>i k. let here = at_index ''api_keys'' i in
         problem_if (key_sources k \<noteq> 1) (here @ '' must set exactly one of key, key_env, key_hash'')
         @ blank_field here ''key'' (ak_key k) @ blank_field here ''key_env'' (ak_key_env k)
         @ (case ak_key_hash k of
              Some h \<Rightarrow> problem_if (normalize_sha256_hash h = None) (here @ ''.key_hash must be sha256:<64 hex chars>'') | None \<Rightarrow> [])
         @ blank_field here ''prefix'' (ak_prefix k)
         @ (if blank (ak_tenant k) then [here @ ''.tenant is empty'']
            else problem_if (ak_tenant k \<notin> tenant_ids cfg)
              (here @ ''.tenant `'' @ ak_tenant k @ ''` does not match a tenant id'')))
       (cf_api_keys cfg)"

text \<open>\<open>filter(|v| !v.is_empty())\<close>, and whether one of the first \<open>i\<close> keys has the same value.\<close>

definition some_text :: "string option \<Rightarrow> string option" where
  "some_text v = (case v of Some s \<Rightarrow> if s = [] then None else Some s | None \<Rightarrow> None)"

definition seen_before :: "('a \<Rightarrow> string option) \<Rightarrow> 'a list \<Rightarrow> nat \<Rightarrow> bool" where
  "seen_before f xs i \<longleftrightarrow> f (xs ! i) \<noteq> None \<and> f (xs ! i) \<in> f ` set (take i xs)"

definition key_duplicates :: "'w config \<Rightarrow> string list" where
  "key_duplicates cfg =
     (let ks = cf_api_keys cfg in
      each_problem (\<lambda>i k. let here = at_index ''api_keys'' i in
          problem_if (seen_before (\<lambda>k. some_text (ak_key k)) ks i) (here @ ''.key duplicates a previous API key'')
          @ problem_if (seen_before (\<lambda>k. some_text (ak_key_env k)) ks i) (here @ ''.key_env duplicates a previous API key env reference'')
          @ problem_if (seen_before (\<lambda>k. Option.bind (ak_key_hash k) normalize_sha256_hash) ks i)
              (here @ ''.key_hash duplicates a previous API key hash''))
        ks)"

section \<open>Accounts\<close>

definition auth_problems :: "string \<Rightarrow> auth_config \<Rightarrow> string list" where
  "auth_problems here auth =
     (case auth of
        AuthJsonToken token_file pointer \<Rightarrow>
          problem_if (blank token_file) (here @ ''.auth.token_file is empty'')
          @ problem_if (\<not> is_nonempty_json_pointer pointer)
              (here @ ''.auth.access_token_pointer must be a non-empty valid JSON pointer'')
      | AuthKimiCodeOauth (Some home) \<Rightarrow> problem_if (blank home) (here @ ''.auth.home is empty'')
      | _ \<Rightarrow> [])"

definition egress_ref :: "'w config \<Rightarrow> string \<Rightarrow> string option \<Rightarrow> string list" where
  "egress_ref cfg here v = (case v of
     Some e \<Rightarrow> problem_if (unknown_egress cfg e) (here @ ''.egress `'' @ e @ ''` does not match an egress id'') | None \<Rightarrow> [])"

definition account_problems :: "'w config \<Rightarrow> string list" where
  "account_problems cfg = each_problem (\<lambda>pi p. let there = at_index ''providers'' pi; ids = map acc_id (pc_accounts p) in
     egress_ref cfg there (pc_egress p)
     @ each_problem (\<lambda>ai a. let here = there @ ''.'' @ at_index ''accounts'' ai in
         name_problems (there @ ''.accounts'') ids ai ''id''
         @ egress_ref cfg here (acc_egress a)
         @ (if cf_has_vault cfg then []
            else map (\<lambda>(field, name). here @ ''.auth.'' @ field @ '' references vault secret `'' @ name @ ''` but no `vault:` is configured'')
              (auth_vault_refs (acc_auth a)))
         @ auth_problems here (acc_auth a)) (pc_accounts p)) (cf_providers cfg)"

section \<open>Routes, profiles and combos\<close>

text \<open>The models that routes match, and the last route before \<open>i\<close> that matches the same model.\<close>

definition match_models :: "'w config \<Rightarrow> string option list" where
  "match_models cfg = map (\<lambda>r. case rt_match_model r of Some m \<Rightarrow> if blank m then None else Some m | None \<Rightarrow> None) (cf_routes cfg)"

definition profile_route_models :: "'w config \<Rightarrow> string set" where
  "profile_route_models cfg = {m. Some m \<in> set (match_models cfg)}"

definition previous_match :: "string option list \<Rightarrow> nat \<Rightarrow> nat option" where
  "previous_match ms i = (case filter (\<lambda>j. ms ! j = ms ! i) [0..<i] of [] \<Rightarrow> None | js \<Rightarrow> Some (last js))"

definition match_problems :: "'w config \<Rightarrow> string list" where
  "match_problems cfg = each_problem (\<lambda>ri r. let here = at_index ''routes'' ri @ ''.match.model'' in
     case rt_match_model r of
       None \<Rightarrow> []
     | Some model \<Rightarrow>
         if blank model then [here @ '' is empty'']
         else (case previous_match (match_models cfg) ri of
                 Some j \<Rightarrow> [here @ '' `'' @ model @ ''` conflicts with '' @ at_index ''routes'' j
                    @ ''; route order must not decide which one wins'']
               | None \<Rightarrow> [])) (cf_routes cfg)"

text \<open>A reference \<open>provider/account\<close> in a profile or a tenant.\<close>

definition account_ref_problems :: "'w config \<Rightarrow> string \<Rightarrow> string \<Rightarrow> string list" where
  "account_ref_problems cfg here account_ref =
     (case split_once ''/'' account_ref of
        None \<Rightarrow> [here @ '' `'' @ account_ref @ ''` must be `provider/account`'']
      | Some (provider_id, account_id) \<Rightarrow>
          if provider_id = [] \<or> account_id = [] then [here @ '' `'' @ account_ref @ ''` must be `provider/account`'']
          else (case find (\<lambda>p. pc_id p = provider_id) (cf_providers cfg) of
                  None \<Rightarrow> [here @ '' `'' @ account_ref @ ''` references unknown provider `'' @ provider_id @ ''`'']
                | Some p \<Rightarrow> problem_if (\<not> provider_has_account p account_id)
                    (here @ '' `'' @ account_ref @ ''` references unknown account `'' @ account_id @ ''`'')))"

text \<open>A reference \<open>provider/model\<close> in a route or a combo.\<close>

definition target_problems :: "'w config \<Rightarrow> string \<Rightarrow> string \<Rightarrow> string list" where
  "target_problems cfg here target =
     (case split_once ''/'' target of
        None \<Rightarrow> [here @ '' `'' @ target @ ''` must be `provider/model`'']
      | Some (provider, model) \<Rightarrow>
          if provider = [] \<or> model = [] then [here @ '' `'' @ target @ ''` must be `provider/model`'']
          else problem_if (provider \<notin> provider_ids cfg)
            (here @ '' `'' @ target @ ''` references unknown provider `'' @ provider @ ''`''))"

definition profile_problems :: "'w config \<Rightarrow> string list" where
  "profile_problems cfg = (let ids = map cpc_id (cf_client_profiles cfg) in
     each_problem (\<lambda>ci p. let here = at_index ''client_profiles'' ci in
       name_problems ''client_profiles'' ids ci ''id''
       @ each_problem (\<lambda>mi model. let m = here @ ''.'' @ at_index ''models'' mi in
           if blank model then [m @ '' is empty'']
           else problem_if (\<not> profile_model_ref_resolves model (profile_route_models cfg) (cf_combos cfg) (provider_ids cfg))
             (m @ '' `'' @ model @ ''` does not match a route, combo, or provider/model target'')) (cpc_models p)
       @ problem_if (cpc_mode p = CpmNativeRelay \<and> cpc_accounts p = [])
           (here @ '' `'' @ cpc_id p @ ''` uses mode native_relay but does not pin any accounts'')
       @ each_problem (\<lambda>ai a. account_ref_problems cfg (here @ ''.'' @ at_index ''accounts'' ai) a) (cpc_accounts p))
     (cf_client_profiles cfg))"

definition route_problems :: "'w config \<Rightarrow> string list" where
  "route_problems cfg = (let names = map rt_name (cf_routes cfg) in
     each_problem (\<lambda>ri r. let here = at_index ''routes'' ri in
       name_problems ''routes'' names ri ''name''
       @ problem_if (rt_targets r = []) (here @ ''.targets must not be empty'')
       @ each_problem (\<lambda>ti t. target_problems cfg (here @ ''.'' @ at_index ''targets'' ti) t) (rt_targets r))
     (cf_routes cfg))"

definition combo_problems :: "'w config \<Rightarrow> string list" where
  "combo_problems cfg = concat (map (\<lambda>(name, combo). let here = ''combos['' @ name @ '']'' in
     problem_if (blank name) ''combos contains an empty name''
     @ problem_if (CHR ''/'' \<in> set name) (here @ ''.name must not contain `/` (reserved for provider/model ids)'')
     @ problem_if (profile_from_model name \<noteq> None) (here @ '' conflicts with a built-in execution profile'')
     @ problem_if (name \<in> profile_route_models cfg - {''*''}) (here @ '' conflicts with an exact route match'')
     @ problem_if (cm_models combo = []) (here @ ''.models must not be empty'')
     @ each_problem (\<lambda>mi t. target_problems cfg (here @ ''.'' @ at_index ''models'' mi) t) (cm_models combo))
     (cf_combos cfg))"

section \<open>Tenants and plugins\<close>

definition route_names :: "'w config \<Rightarrow> string set" where
  "route_names cfg = accepted_ids (map rt_name (cf_routes cfg))"

definition tenant_route_known :: "'w config \<Rightarrow> string \<Rightarrow> bool" where
  "tenant_route_known cfg r \<longleftrightarrow> r \<in> route_names cfg \<or> bt_get (cf_combos cfg) r \<noteq> None \<or> r = ''direct''
     \<or> starts_with r ''combo/'' \<or> starts_with r ''default:''"

definition tenant_ref_problems :: "'w config \<Rightarrow> string list" where
  "tenant_ref_problems cfg = each_problem (\<lambda>ti t. let here = at_index ''tenants'' ti in
     each_problem (\<lambda>ri r. let at_r = here @ ''.'' @ at_index ''allowed_routes'' ri in
         if blank r then [at_r @ '' is empty'']
         else problem_if (\<not> tenant_route_known cfg r) (at_r @ '' `'' @ r @ ''` does not match a route/combo name'')) (tc_allowed_routes t)
     @ each_problem (\<lambda>pi p. let at_p = here @ ''.'' @ at_index ''allowed_providers'' pi in
         if blank p then [at_p @ '' is empty'']
         else problem_if (p \<notin> provider_ids cfg) (at_p @ '' `'' @ p @ ''` does not match a provider id'')) (tc_allowed_providers t)
     @ each_problem (\<lambda>ai a. account_ref_problems cfg (here @ ''.'' @ at_index ''allowed_accounts'' ai) a) (tc_allowed_accounts t))
     (cf_tenants cfg)"

definition plugin_problems :: "'w config \<Rightarrow> string list" where
  "plugin_problems cfg = each_problem (\<lambda>i plugin. let here = at_index ''plugins'' i in
     case plugin of
       PcEgressPin e models \<Rightarrow> problem_if (unknown_egress cfg e) (here @ ''.egress `'' @ e @ ''` does not match an egress id'')
     | PcWasm file mode timeout_ms fuel \<Rightarrow>
         problem_if (blank file) (here @ ''.path must not be empty'')
         @ problem_if (timeout_ms = 0) (here @ ''.timeout_ms must be greater than 0'')
         @ problem_if (fuel = 0) (here @ ''.fuel must be greater than 0'')
     | _ \<Rightarrow> []) (cf_plugins cfg)"

definition executor_problems :: "'w config \<Rightarrow> string list" where
  "executor_problems cfg = (let names = map lx_name (cf_local_executors cfg) in
     each_problem (\<lambda>i x. let here = at_index ''local_executors'' i; zero = (\<lambda>v field. problem_if (v = (0 :: u64)) (here @ ''.'' @ field @ '' must be greater than 0'')) in
       (case name_problems ''local_executors'' names i ''name'' of
          [] \<Rightarrow> problem_if (lx_name x \<notin> provider_ids cfg) (here @ ''.name `'' @ lx_name x @ ''` does not match a provider id'')
        | ps \<Rightarrow> ps)
       @ problem_if (blank (lx_base_url x)) (here @ ''.base_url is empty'')
       @ problem_if (blank (lx_health_endpoint x)) (here @ ''.health_endpoint is empty'')
       @ zero (lx_boot_timeout_secs x) ''boot_timeout_secs''
       @ zero (lx_wake_retry_interval_secs x) ''wake_retry_interval_secs''
       @ zero (lx_idle_timeout_secs x) ''idle_timeout_secs''
       @ zero (lx_health_poll_interval_ms x) ''health_poll_interval_ms'')
     (cf_local_executors cfg))"

section \<open>Scorecard and quality evaluation\<close>

definition rate_ok :: "f64 \<Rightarrow> bool" where
  "rate_ok x \<longleftrightarrow> is_finite x \<and> flt_less (FFin 0) x \<and> \<not> flt_less (FFin 1) x"

definition in_range :: "f64 \<Rightarrow> f64 \<Rightarrow> bool" where
  "in_range x hi \<longleftrightarrow> is_finite x \<and> \<not> flt_less x (FFin 0) \<and> \<not> flt_less hi x"

definition scorecard_problems :: "'w config \<Rightarrow> string list" where
  "scorecard_problems cfg =
     (let sc = sv_scorecard (cf_server cfg); demote = dem_demote_success_rate (sc_demotion sc);
          recover = dem_recover_success_rate (sc_demotion sc) in
      problem_if (win_max_samples (sc_window sc) < 1) ''server.scorecard.window.max_samples must be >= 1''
      @ problem_if (win_ttl_secs (sc_window sc) = 0) ''server.scorecard.window.ttl_secs must be > 0''
      @ problem_if (persist_flush_secs (sc_persist sc) = 0) ''server.scorecard.persist.flush_secs must be > 0''
      @ problem_if (persist_stale_hydrate_secs (sc_persist sc) = 0) ''server.scorecard.persist.stale_hydrate_secs must be > 0''
      @ problem_if (\<not> (is_finite demote \<and> is_finite recover \<and> flt_less (FFin 0) demote \<and> flt_less demote recover
            \<and> \<not> flt_less (FFin 1) recover))
          ''server.scorecard.demotion.{demote_success_rate,recover_success_rate} must be finite and satisfy 0 < demote_success_rate < recover_success_rate <= 1''
      @ problem_if (\<not> rate_ok (dem_trunc_demote_rate (sc_demotion sc)))
          ''server.scorecard.demotion.trunc_demote_rate must be finite and in (0, 1]''
      @ problem_if (dem_fast_demote_streak (sc_demotion sc) < 1) ''server.scorecard.demotion.fast_demote_streak must be >= 1''
      @ problem_if (dem_fast_recover_streak (sc_demotion sc) < 1) ''server.scorecard.demotion.fast_recover_streak must be >= 1''
      @ problem_if (\<not> is_finite (prior_cfg_weight (sc_prior sc)) \<or> flt_less (prior_cfg_weight (sc_prior sc)) (FFin 1))
          ''server.scorecard.prior.weight must be finite and >= 1''
      @ problem_if (\<not> rate_ok (prior_cfg_default_success_rate (sc_prior sc)))
          ''server.scorecard.prior.default_success_rate must be finite and in (0, 1]''
      @ problem_if (\<not> in_range (sc_score_weight sc) (FFin 1)) ''server.scorecard.score_weight must be finite and in [0, 1]'')"

definition judge_candidates :: "'w config \<Rightarrow> string \<Rightarrow> string list option" where
  "judge_candidates cfg route =
     (let matching = (\<lambda>m. find (\<lambda>r. rt_match_model r = Some m) (cf_routes cfg)) in
      or_else (map_option rt_targets (or_else (matching route) (matching ''*''))) (map_option cm_models (bt_get (cf_combos cfg) route)))"

definition body_target_problems :: "'w config \<Rightarrow> string list" where
  "body_target_problems cfg =
     (let qe = sv_quality_eval (cf_server cfg); targets = qe_body_allowed_targets qe; route = qe_judge_route qe in
      each_problem (\<lambda>i t. let here = at_index ''server.quality_eval.body_allowed_targets'' i in
          if blank t then [here @ '' must not be empty'']
          else problem_if (repeated targets i) (here @ '' duplicates `'' @ t @ ''`'')
            @ problem_if (\<not> (route = t \<and> split_once ''/'' t \<noteq> None)
                \<and> \<not> (case judge_candidates cfg route of Some cs \<Rightarrow> t \<in> set cs | None \<Rightarrow> False))
                (here @ '' `'' @ t @ ''` is not a candidate of judge_route `'' @ route @ ''`''))
        targets)"

definition quality_problems :: "'w config \<Rightarrow> string list" where
  "quality_problems cfg =
     (let qe = sv_quality_eval (cf_server cfg); q = ''server.quality_eval.'' in
      if \<not> qe_enabled qe then []
      else problem_if (qe_max_judgments_per_24h qe = 0) (q @ ''max_judgments_per_24h must be greater than 0'')
        @ problem_if (qe_max_cost_micros_per_24h qe = 0) (q @ ''max_cost_micros_per_24h must be greater than 0'')
        @ problem_if (qe_min_input_chars qe = 0 \<or> qe_max_input_bytes qe < qe_min_input_chars qe)
            (q @ ''min_input_chars must be in 1..=max_input_bytes'')
        @ problem_if (qe_min_output_chars qe = 0 \<or> qe_max_output_bytes qe < qe_min_output_chars qe)
            (q @ ''min_output_chars must be in 1..=max_output_bytes'')
        @ problem_if (qe_capture_slots qe = 0) (q @ ''capture_slots must be greater than 0'')
        @ problem_if (qe_queue_capacity qe = 0) (q @ ''queue_capacity must be greater than 0'')
        @ problem_if (qe_judge_timeout_ms qe = 0) (q @ ''judge_timeout_ms must be greater than 0'')
        @ problem_if (qe_judge_max_output_tokens qe = 0) (q @ ''judge_max_output_tokens must be greater than 0'')
        @ problem_if (qe_failure_backoff_after qe = 0) (q @ ''failure_backoff_after must be greater than 0'')
        @ problem_if (qe_failure_backoff_secs qe = 0) (q @ ''failure_backoff_secs must be greater than 0'')
        @ problem_if (\<not> rate_ok (qe_ewma_alpha qe)) (q @ ''ewma_alpha must be finite and in (0, 1]'')
        @ problem_if (qe_routing_min_samples qe = 0) (q @ ''routing_min_samples must be greater than 0'')
        @ problem_if (qe_routing_full_confidence_samples qe = 0 \<or> qe_routing_full_confidence_samples qe < qe_routing_min_samples qe)
            (q @ ''routing_full_confidence_samples must be >= routing_min_samples'')
        @ problem_if (\<not> in_range (qe_routing_weight qe) (f64_lit (10 / 100))) (q @ ''routing_weight must be finite and in [0, 0.10]'')
        @ problem_if (\<not> sc_enabled (sv_scorecard (cf_server cfg))) ''server.quality_eval requires server.scorecard.enabled: true''
        @ problem_if (sv_state_store (cf_server cfg) = None) ''server.quality_eval requires server.state_store''
        @ problem_if (blank (qe_judge_route qe)) (q @ ''judge_route must not be empty'')
        @ problem_if (qe_body_allowed_targets qe = []) (q @ ''body_allowed_targets must not be empty'')
        @ body_target_problems cfg)"

section \<open>The whole\<close>

definition semantic_problems :: "'w config \<Rightarrow> string list" where
  "semantic_problems cfg =
     provider_problems cfg @ cache_problems cfg @ harness_problems cfg @ tenant_problems cfg @ egress_problems cfg
     @ default_problems cfg @ network_problems cfg @ budget_problems cfg @ key_problems cfg @ key_duplicates cfg
     @ account_problems cfg @ match_problems cfg @ profile_problems cfg @ route_problems cfg @ combo_problems cfg
     @ tenant_ref_problems cfg @ plugin_problems cfg @ executor_problems cfg @ scorecard_problems cfg @ quality_problems cfg"

end
