(* ===== verification/Codecs.thy ===== *)
theory Codecs
  imports Gemini Responses_Serving Wire_Framing
begin

text \<open>
  The wire codecs (\<open>sb-adapters/src/codec.rs\<close>): what differs between providers at the wire, as a
  record of functions for the trait object, one value per provider, and the decoder of Responses
  streams. Fresh identifiers of parsed responses are the argument \<open>fresh\<close>.
\<close>

section \<open>The interface\<close>

record 'd wire_codec =
  wc_id :: string
  wc_url :: "string \<Rightarrow> string \<Rightarrow> bool \<Rightarrow> string"
  wc_headers :: "(string \<times> string) list"
  wc_request_body :: "json ai_request \<Rightarrow> string \<Rightarrow> bool \<Rightarrow> string + json"
  wc_request_warnings :: "json ai_request \<Rightarrow> string \<Rightarrow> string list"
  wc_upstream_stream :: "bool \<Rightarrow> bool"
  wc_parse_response :: "json \<Rightarrow> string + json ai_response"
  wc_decoder :: "string \<Rightarrow> 'd"
  wc_decode :: "'d \<Rightarrow> json \<Rightarrow> stream_event list \<times> 'd"
  wc_finish :: "'d \<Rightarrow> stream_event list \<times> 'd"
  wc_embeddings_url :: "string \<Rightarrow> string option"
  wc_models_url :: "string \<Rightarrow> string option"
  wc_parse_models :: "json \<Rightarrow> string + string list"

definition string_field_array :: "json \<Rightarrow> string \<Rightarrow> string \<Rightarrow> string + string list" where
  "string_field_array body array_key field_key =
     try_with (ok_or (''models response missing `'' @ array_key @ ''` array'') (get_array body array_key))
       (\<lambda>items. Inr (List.map_filter (\<lambda>item. get_str item field_key) items))"

text \<open>\<open>base_url.trim_end_matches('/')\<close>\<close>

definition trim_slashes :: "string \<Rightarrow> string" where
  "trim_slashes s = rev (dropWhile (\<lambda>c. c = CHR ''/'') (rev s))"

definition no_models :: "json \<Rightarrow> string + string list" where
  "no_models body = Inl ''model listing not supported by this wire format''"

section \<open>OpenAI Chat Completions\<close>

definition openai_codec :: "json json_api \<Rightarrow> string \<Rightarrow> openai_decoder wire_codec" where
  "openai_codec js fresh = \<lparr>wc_id = ''openai_compatible'',
     wc_url = (\<lambda>base model stream. trim_slashes base @ ''/chat/completions''), wc_headers = [],
     wc_request_body = request_to_openai_wire js, wc_request_warnings = (\<lambda>req model. []), wc_upstream_stream = (\<lambda>s. s),
     wc_parse_response = parse_openai_chat_response js fresh, wc_decoder = (\<lambda>model. new_openai_decoder),
     wc_decode = openai_decode, wc_finish = openai_decoder_finish,
     wc_embeddings_url = (\<lambda>base. Some (trim_slashes base @ ''/embeddings'')),
     wc_models_url = (\<lambda>base. Some (trim_slashes base @ ''/models'')), wc_parse_models = (\<lambda>body. string_field_array body ''data'' ''id'')\<rparr>"

section \<open>OpenAI Responses and the Codex relay\<close>

record responses_decoder =
  rd_model :: string
  rd_tool_indices :: "u32 set"
  rd_tool_args_streamed :: "u32 set"

definition responses_output_index :: "json \<Rightarrow> u32" where
  "responses_output_index frame = (case Option.bind (get_u64 frame ''output_index'') u32_try_from of Some i \<Rightarrow> i | None \<Rightarrow> 0)"

definition get_in_str :: "json \<Rightarrow> string \<Rightarrow> string \<Rightarrow> string option" where
  "get_in_str v a b = Option.bind (get_in v a b) as_str"

definition decode_item_added :: "responses_decoder \<Rightarrow> json \<Rightarrow> stream_event list \<times> responses_decoder" where
  "decode_item_added d frame =
     (let index = responses_output_index frame in
      if get_in_str frame ''item'' ''type'' \<noteq> Some ''function_call'' \<or> index \<in> rd_tool_indices d then ([], d)
      else let d1 = d\<lparr>rd_tool_indices := insert index (rd_tool_indices d)\<rparr>;
               start = EvToolCallStart \<lparr>tcs_index = index,
                 tcs_id = str_or_empty (Option.bind (or_else (get_in frame ''item'' ''call_id'') (get_in frame ''item'' ''id'')) as_str),
                 tcs_name = str_or_empty (get_in_str frame ''item'' ''name'')\<rparr>
           in case get_in_str frame ''item'' ''arguments'' of
                Some args \<Rightarrow> if args \<noteq> []
                  then ([start, EvToolCallArgsDelta index args], d1\<lparr>rd_tool_args_streamed := insert index (rd_tool_args_streamed d1)\<rparr>)
                  else ([start], d1)
              | None \<Rightarrow> ([start], d1))"

definition decode_arguments_done :: "responses_decoder \<Rightarrow> json \<Rightarrow> stream_event list" where
  "decode_arguments_done d frame =
     (let index = responses_output_index frame in
      if index \<notin> rd_tool_indices d then []
      else (if index \<in> rd_tool_args_streamed d then []
            else case get_str frame ''arguments'' of Some args \<Rightarrow> if args \<noteq> [] then [EvToolCallArgsDelta index args] else [] | None \<Rightarrow> [])
           @ [EvToolCallEnd index])"

definition completed_usage :: "json json_api \<Rightarrow> string \<Rightarrow> json \<Rightarrow> usage" where
  "completed_usage js model frame =
     (case get_in frame ''response'' ''usage'' of
        None \<Rightarrow> default_usage
      | Some u \<Rightarrow>
          (case parse_openai_responses_response js (jobj [(''id'', JString ''resp''), (''model'', JString model),
               (''status'', JString ''completed''), (''output'', JArray []), (''usage'', u),
               (''energy'', case or_else (get_in frame ''response'' ''energy'')
                   (Option.bind (get_in frame ''response'' ''usage'') (\<lambda>x. json_get x ''energy'')) of Some e \<Rightarrow> e | None \<Rightarrow> JNull)]) of
             Inr resp \<Rightarrow> resp_usage resp
           | Inl _ \<Rightarrow> default_usage))"

definition server_tool_event :: "string \<Rightarrow> (string \<times> string) option" where
  "server_tool_event t =
     (if starts_with t ''response.'' \<and> str_contains t ''_call.''
         \<and> (str_contains t ''web_search'' \<or> str_contains t ''code_interpreter'' \<or> str_contains t ''file_search'')
      then Option.bind (strip_prefix ''response.'' t) (split_once ''_call.'') else None)"

definition responses_decode :: "json json_api \<Rightarrow> responses_decoder \<Rightarrow> json \<Rightarrow> stream_event list \<times> responses_decoder" where
  "responses_decode js d frame =
     (case get_str frame ''type'' of
        None \<Rightarrow> ([], d)
      | Some t \<Rightarrow>
          if t = ''response.created'' then
            ([EvMessageStart (case get_in_str frame ''response'' ''id'' of Some i \<Rightarrow> i | None \<Rightarrow> ''resp'')
               (case get_in_str frame ''response'' ''model'' of Some m \<Rightarrow> m | None \<Rightarrow> rd_model d)], d)
          else if t = ''response.output_text.delta'' then
            (case get_str frame ''delta'' of Some s \<Rightarrow> [EvTextDelta s] | None \<Rightarrow> [], d)
          else if t = ''response.reasoning_summary_text.delta'' \<or> t = ''response.reasoning_text.delta'' then
            (case get_str frame ''delta'' of Some s \<Rightarrow> [EvReasoningDelta s] | None \<Rightarrow> [], d)
          else if t = ''response.output_item.added'' then decode_item_added d frame
          else if t = ''response.function_call_arguments.delta'' then
            (case get_str frame ''delta'' of
               Some s \<Rightarrow> let i = responses_output_index frame
                 in ([EvToolCallArgsDelta i s], d\<lparr>rd_tool_args_streamed := insert i (rd_tool_args_streamed d)\<rparr>)
             | None \<Rightarrow> ([], d))
          else if t = ''response.function_call_arguments.done'' then (decode_arguments_done d frame, d)
          else if t = ''response.completed'' then
            ([EvUsageDelta (completed_usage js (rd_model d) frame), EvMessageEnd FinishStop], d)
          else if t = ''response.failed'' then
            ([EvError (case Option.bind (get_in frame ''response'' ''error'') (\<lambda>e. get_str e ''message'') of
                Some m \<Rightarrow> m | None \<Rightarrow> ''Responses stream failed'') ServerError], d)
          else if t = ''response.output_text.annotation.added'' then
            (case get_in_str frame ''annotation'' ''url'' of
               Some url \<Rightarrow> [EvCitation url (get_in_str frame ''annotation'' ''title'')] | None \<Rightarrow> [], d)
          else if t = ''response.image_generation_call.completed'' then
            (case Option.bind (or_else (json_get frame ''result'') (get_in frame ''item'' ''result'')) as_str of
               Some s \<Rightarrow> [EvOutputImage (case get_str frame ''output_format'' of Some f \<Rightarrow> f | None \<Rightarrow> ''image/png'') s] | None \<Rightarrow> [], d)
          else (case server_tool_event t of
                  Some (name, status) \<Rightarrow> [EvServerToolCall
                    (str_or_empty (Option.bind (or_else (json_get frame ''item_id'') (get_in frame ''item'' ''id'')) as_str)) name status]
                | None \<Rightarrow> [], d))"

text \<open>Numbers as \<open>Value\<close> has them: \<open>as_i64\<close>, \<open>checked_add\<close>, \<open>Value::from\<close>.\<close>

fun number_as_int :: "json_number \<Rightarrow> int option" where
  "number_as_int (PosInt n) = Some (uint n)"
| "number_as_int (NegInt i) = Some i"
| "number_as_int (FloatNum q) = None"

definition number_succ :: "json_number \<Rightarrow> json_number option" where
  "number_succ n =
     (case number_as_int n of
        Some i \<Rightarrow> if i + 1 < 2 ^ 64 then Some (if 0 \<le> i + 1 then PosInt (word_of_int (i + 1)) else NegInt (i + 1)) else None
      | None \<Rightarrow> None)"

definition raise_minimum :: "(string \<times> json) list \<Rightarrow> (string \<times> json) list" where
  "raise_minimum m =
     (case bt_get m ''exclusiveMinimum'' of
        None \<Rightarrow> m
      | Some x \<Rightarrow>
          let m1 = filter (\<lambda>(k, v). k \<noteq> ''exclusiveMinimum'') m;
              minimum = (case x of
                  JNumber n \<Rightarrow> if Option.bind (bt_get m ''type'') as_str = Some ''integer'' then number_succ n else Some n
                | _ \<Rightarrow> None)
          in case minimum of
               None \<Rightarrow> m1
             | Some n \<Rightarrow>
                 (case (as_f64 (JNumber n), Option.bind (bt_get m1 ''minimum'') as_f64) of
                    (Some replacement, Some current) \<Rightarrow>
                      if flt_less current replacement then bt_insert ''minimum'' (JNumber n) m1 else m1
                  | _ \<Rightarrow> bt_insert ''minimum'' (JNumber n) m1))"

text \<open>The values of an object first, then the object itself; arrays are not entered.\<close>

fun downlevel_exclusive_minimum :: "json \<Rightarrow> json" where
  "downlevel_exclusive_minimum (JObject m) = JObject (raise_minimum (map (\<lambda>(k, v). (k, downlevel_exclusive_minimum v)) m))"
| "downlevel_exclusive_minimum v = v"

definition json_remove :: "string \<Rightarrow> (string \<times> json) list \<Rightarrow> (string \<times> json) list" where
  "json_remove k m = filter (\<lambda>(k', v). k' \<noteq> k) m"

definition codex_tool :: "json \<Rightarrow> json" where
  "codex_tool tool =
     (case tool of
        JObject m \<Rightarrow> (case bt_get m ''parameters'' of
            Some p \<Rightarrow> JObject (bt_insert ''parameters'' (downlevel_exclusive_minimum p) m) | None \<Rightarrow> tool)
      | _ \<Rightarrow> tool)"

definition codex_shape :: "json \<Rightarrow> json" where
  "codex_shape body =
     (case body of
        JObject m \<Rightarrow>
          let m1 = json_remove ''top_p'' (json_remove ''temperature'' (json_remove ''max_output_tokens''
                (bt_insert ''store'' (JBool False) m)));
              m2 = (case Option.bind (bt_get m1 ''tools'') as_array of
                  Some tools \<Rightarrow> bt_insert ''tools'' (JArray (map codex_tool tools)) m1 | None \<Rightarrow> m1)
          in JObject (if str_trim (str_or_empty (Option.bind (bt_get m2 ''instructions'') as_str)) = []
               then bt_insert ''instructions'' (JString ''You are Codex, a helpful coding assistant.'') m2 else m2)
      | _ \<Rightarrow> body)"

definition responses_codec :: "json json_api \<Rightarrow> bool \<Rightarrow> responses_decoder wire_codec" where
  "responses_codec js codex = \<lparr>wc_id = (if codex then ''codex_native_relay'' else ''openai_responses''),
     wc_url = (\<lambda>base model stream. trim_slashes base @ ''/responses''),
     wc_headers = [(''openai-beta'', ''responses=experimental''), (''x-responsesapi-include-timing-metrics'', ''true'')],
     wc_request_body = (\<lambda>req model stream. try_with (request_to_openai_responses_wire js req model (codex \<or> stream))
        (\<lambda>body. Inr (if codex then codex_shape body else body))),
     wc_request_warnings = (\<lambda>req model. []), wc_upstream_stream = (\<lambda>s. codex \<or> s),
     wc_parse_response = parse_openai_responses_response js,
     wc_decoder = (\<lambda>model. \<lparr>rd_model = model, rd_tool_indices = {}, rd_tool_args_streamed = {}\<rparr>),
     wc_decode = responses_decode js, wc_finish = (\<lambda>d. ([], d)), wc_embeddings_url = (\<lambda>base. None),
     wc_models_url = (\<lambda>base. Some (trim_slashes base @ ''/models'')), wc_parse_models = (\<lambda>body. string_field_array body ''data'' ''id'')\<rparr>"

section \<open>Anthropic, the Claude Code relay and Bedrock\<close>

definition anthropic_version :: string where
  "anthropic_version = ''2023-06-01''"

definition anthropic_codec :: "string \<Rightarrow> anthropic_decoder wire_codec" where
  "anthropic_codec fresh = \<lparr>wc_id = ''anthropic'', wc_url = (\<lambda>base model stream. trim_slashes base @ ''/v1/messages''),
     wc_headers = [(''anthropic-version'', anthropic_version)],
     wc_request_body = request_to_anthropic_wire, wc_request_warnings = (\<lambda>req model. []), wc_upstream_stream = (\<lambda>s. s),
     wc_parse_response = parse_anthropic_response fresh, wc_decoder = (\<lambda>model. new_anthropic_decoder),
     wc_decode = anthropic_decode, wc_finish = anthropic_decoder_finish, wc_embeddings_url = (\<lambda>base. None),
     wc_models_url = (\<lambda>base. Some (trim_slashes base @ ''/v1/models'')), wc_parse_models = (\<lambda>body. string_field_array body ''data'' ''id'')\<rparr>"

definition claude_code_codec :: "string \<Rightarrow> anthropic_decoder wire_codec" where
  "claude_code_codec fresh = (anthropic_codec fresh)\<lparr>wc_id := ''claude_code_native_relay'',
     wc_headers := [(''anthropic-version'', anthropic_version), (''anthropic-beta'', ''oauth-2025-04-20''), (''x-app'', ''cli''),
       (''x-anthropic-billing-header'', ''cc_version=switchback; cc_entrypoint=switchback-native-relay; cch=00000;'')]\<rparr>"

definition unreserved :: "char \<Rightarrow> bool" where
  "unreserved c \<longleftrightarrow> (let n = (of_char c :: nat) in 65 \<le> n \<and> n \<le> 90 \<or> 97 \<le> n \<and> n \<le> 122 \<or> 48 \<le> n \<and> n \<le> 57) \<or> c \<in> set ''-._~''"

definition upper_hex :: "nat \<Rightarrow> char" where
  "upper_hex d = (if d < 10 then char_of (48 + d) else char_of (55 + d))"

definition percent_encode_segment :: "string \<Rightarrow> string" where
  "percent_encode_segment s =
     concat (map (\<lambda>c. if unreserved c then [c] else let n = (of_char c :: nat) in [CHR ''%'', upper_hex (n div 16), upper_hex (n mod 16)]) s)"

definition bedrock_body :: "json \<Rightarrow> json" where
  "bedrock_body body =
     (case body of
        JObject m \<Rightarrow> JObject (bt_insert ''anthropic_version'' (JString ''bedrock-2023-05-31'')
          (json_remove ''stream'' (json_remove ''model'' m)))
      | _ \<Rightarrow> body)"

definition bedrock_codec :: "string \<Rightarrow> anthropic_decoder wire_codec" where
  "bedrock_codec fresh = (anthropic_codec fresh)\<lparr>wc_id := ''bedrock'',
     wc_url := (\<lambda>base model stream. trim_slashes base @ ''/model/'' @ percent_encode_segment model @ ''/''
        @ (if stream then ''invoke-with-response-stream'' else ''invoke'')),
     wc_headers := [],
     wc_request_body := (\<lambda>req model stream. try_with (request_to_anthropic_wire req model False) (\<lambda>body. Inr (bedrock_body body))),
     wc_models_url := (\<lambda>base. None), wc_parse_models := no_models\<rparr>"

section \<open>Gemini and Vertex\<close>

definition gemini_action :: "bool \<Rightarrow> string" where
  "gemini_action stream = (if stream then ''streamGenerateContent?alt=sse'' else ''generateContent'')"

definition gemini_lists :: "json \<Rightarrow> bool" where
  "gemini_lists item =
     (case Option.bind (or_else (json_get item ''supportedGenerationMethods'') (json_get item ''supported_actions'')) as_array of
        Some ms \<Rightarrow> list_ex (\<lambda>m. as_str m = Some ''generateContent'') ms
      | None \<Rightarrow> True)"

definition parse_gemini_models :: "json \<Rightarrow> string + string list" where
  "parse_gemini_models body =
     try_with (ok_or ''models response missing `models` array'' (get_array body ''models''))
       (\<lambda>items. Inr (map (\<lambda>i. case strip_prefix ''models/'' i of Some s \<Rightarrow> s | None \<Rightarrow> i)
          (List.map_filter (\<lambda>item. or_else (get_str item ''baseModelId'') (get_str item ''name'')) (filter gemini_lists items))))"

definition gemini_codec :: "json json_api \<Rightarrow> string \<Rightarrow> gemini_decoder wire_codec" where
  "gemini_codec js fresh = \<lparr>wc_id = ''gemini'',
     wc_url = (\<lambda>base model stream. trim_slashes base @ ''/v1beta/models/'' @ model @ '':'' @ gemini_action stream), wc_headers = [],
     wc_request_body = (\<lambda>req model stream. request_to_gemini_wire js req),
     wc_request_warnings = (\<lambda>req model. map show_warning (schema_downlevel_warnings js req)), wc_upstream_stream = (\<lambda>s. s),
     wc_parse_response = parse_gemini_response fresh, wc_decoder = new_gemini_decoder,
     wc_decode = gemini_decode js, wc_finish = gemini_decoder_finish, wc_embeddings_url = (\<lambda>base. None),
     wc_models_url = (\<lambda>base. Some (trim_slashes base @ ''/v1beta/models'')), wc_parse_models = parse_gemini_models\<rparr>"

definition vertex_codec :: "json json_api \<Rightarrow> string \<Rightarrow> string \<Rightarrow> string \<Rightarrow> gemini_decoder wire_codec" where
  "vertex_codec js fresh project region = (gemini_codec js fresh)\<lparr>wc_id := ''vertex'',
     wc_url := (\<lambda>base model stream. trim_slashes base @ ''/v1/projects/'' @ project @ ''/locations/'' @ region
        @ ''/publishers/google/models/'' @ model @ '':'' @ gemini_action stream),
     wc_models_url := (\<lambda>base. None), wc_parse_models := no_models\<rparr>"

end
