(* ===== verification/Composed.thy ===== *)
theory Composed
  imports Codecs Egress
begin

text \<open>
  The generic adapter (\<open>sb-adapters/src/composed.rs\<close>): one execute loop over a codec, a signer and
  a transport. The HTTP client is the parameter \<open>send\<close>; every call returns the requests it sent
  beside its result. A client that hangs up sees a prefix of the items of a stream.
\<close>

section \<open>Transports\<close>

record 'f transport =
  tr_stream_accept :: "string option"
  tr_framer :: 'f
  tr_push :: "'f \<Rightarrow> string \<Rightarrow> (string + json list) \<times> 'f"

definition http_transport :: "json json_api \<Rightarrow> (string \<Rightarrow> string) \<Rightarrow> string transport" where
  "http_transport js jerr = \<lparr>tr_stream_accept = None, tr_framer = [], tr_push = sse_push js jerr\<rparr>"

definition event_stream_transport ::
  "json json_api \<Rightarrow> (string \<Rightarrow> u32) \<Rightarrow> (string \<Rightarrow> string option) \<Rightarrow> string transport" where
  "event_stream_transport js crc b64 = \<lparr>tr_stream_accept = Some ''application/vnd.amazon.eventstream'', tr_framer = [],
     tr_push = event_push js crc b64\<rparr>"

section \<open>The adapter\<close>

record ('d, 'f) composed_adapter =
  ca_codec :: "'d wire_codec"
  ca_sign :: "sign_target \<Rightarrow> credential_lease option \<Rightarrow> signed_additions"
  ca_transport :: "'f transport"
  ca_base_url :: string
  ca_egress :: egress_pool
  ca_block_private_networks :: bool

record http_response =
  hs_status :: u16
  hs_chunks :: "(unit + string) list"
  hs_bytes :: "string + string"

text \<open>The world of an adapter: URLs and names, the HTTP client, JSON and its error messages.\<close>

record adapter_world =
  aw_url :: url_api
  aw_send :: "http_client \<Rightarrow> http_request \<Rightarrow> string + http_response"
  aw_json :: "json json_api"
  aw_json_error :: "string \<Rightarrow> string"

definition adapter_guard :: "url_api \<Rightarrow> bool \<Rightarrow> string \<Rightarrow> adapter_error + unit" where
  "adapter_guard ua block url =
     map_sum (\<lambda>e. case e of
          InvalidUrl m \<Rightarrow> new_adapter_error InvalidRequest m
        | ResolveFailed m \<Rightarrow> new_adapter_error Network m
        | BlockedPrivate m \<Rightarrow> new_adapter_error SafetyBlocked m)
       (\<lambda>u. u) (guard_url ua url ProviderUpstream block)"

definition classify_error :: "u16 option \<Rightarrow> error_class" where
  "classify_error status =
     (case status of
        None \<Rightarrow> Unknown
      | Some s \<Rightarrow>
          if s = 401 then Authentication
          else if s = 403 then Authorization
          else if s = 429 then RateLimited
          else if s = 400 \<or> s = 422 then InvalidRequest
          else if s = 408 \<or> s = 504 then Timeout
          else if 500 \<le> s \<and> s < 600 then ServerError
          else Unknown)"

definition stream_framing_error :: "string \<Rightarrow> adapter_error" where
  "stream_framing_error message =
     (let lower = to_ascii_lowercase message;
          k = (if str_contains lower ''throttl'' \<or> str_contains lower ''rate limit'' then RateLimited
               else if str_contains lower ''quota'' then QuotaExceeded
               else if str_contains lower ''overload'' then ProviderOverloaded
               else if str_contains lower ''timeout'' \<or> str_contains lower ''timed out'' then Timeout
               else if str_contains lower ''malformed'' \<or> str_contains lower ''bad lengths'' \<or> str_contains lower ''truncated''
                 \<or> str_contains lower ''unsupported header'' then InvalidRequest
               else StreamInterrupted)
      in new_adapter_error k message)"

text \<open>The request as it is sent: codec headers, then the identity of the path, then the signer's additions.\<close>

definition adapter_request ::
  "('d, 'f) composed_adapter \<Rightarrow> egress_path \<Rightarrow> credential_lease option \<Rightarrow> string \<Rightarrow> string \<Rightarrow> string \<Rightarrow> (string \<times> string) list \<Rightarrow> http_request" where
  "adapter_request ad epath lease verb url body first =
     (let (host, p, query) = split_url url;
          additions = ca_sign ad \<lparr>sg_verb = verb, sg_host = host, sg_path = p, sg_query = query, sg_body = body\<rparr> lease;
          r0 = \<lparr>hq_verb = verb, hq_url = url, hq_headers = first, hq_query = [], hq_body = body\<rparr>;
          r1 = apply_identity epath r0
      in r1\<lparr>hq_headers := hq_headers r1 @ sa_headers additions, hq_query := sa_query additions\<rparr>)"

definition is_success :: "u16 \<Rightarrow> bool" where
  "is_success s \<longleftrightarrow> 200 \<le> s \<and> s < 300"

definition upstream_status_error :: "u16 \<Rightarrow> adapter_error" where
  "upstream_status_error s =
     (new_adapter_error (classify_error (Some s)) (''upstream '' @ show_nat (unat s) @ '' error''))\<lparr>ae_status := Some s\<rparr>"

fun decode_all :: "('d \<Rightarrow> json \<Rightarrow> stream_event list \<times> 'd) \<Rightarrow> json list \<Rightarrow> 'd \<Rightarrow> stream_event list \<times> 'd" where
  "decode_all decode [] d = ([], d)"
| "decode_all decode (v # vs) d =
     (let (evs, d1) = decode d v; (evs', d2) = decode_all decode vs d1 in (evs @ evs', d2))"

text \<open>The task that reads the upstream: it ends at the first error, and finishes the decoder only at a clean end.\<close>

fun stream_loop ::
  "('f \<Rightarrow> string \<Rightarrow> (string + json list) \<times> 'f) \<Rightarrow> 'd wire_codec \<Rightarrow> 'f \<Rightarrow> 'd \<Rightarrow> (unit + string) list \<Rightarrow> event_stream" where
  "stream_loop push codec f d [] = map Inr (fst (wc_finish codec d))"
| "stream_loop push codec f d (Inl _ # chunks) = [Inl (new_adapter_error Network ''stream byte error'')]"
| "stream_loop push codec f d (Inr bs # chunks) =
     (case push f bs of
        (Inl e, f') \<Rightarrow> [Inl (stream_framing_error e)]
      | (Inr vs, f') \<Rightarrow>
          (let (evs, d') = decode_all (wc_decode codec) vs d in map Inr evs @ stream_loop push codec f' d' chunks))"

definition stream_headers :: "('d, 'f) composed_adapter \<Rightarrow> bool \<Rightarrow> (string \<times> string) list" where
  "stream_headers ad stream = [(''content-type'', ''application/json'')] @ wc_headers (ca_codec ad)
     @ (if stream then case tr_stream_accept (ca_transport ad) of Some a \<Rightarrow> [(''accept'', a)] | None \<Rightarrow> [] else [])"

text \<open>Send one request; a status that is no success is an error.\<close>

definition adapter_send ::
  "adapter_world \<Rightarrow> http_client \<Rightarrow> http_request \<Rightarrow> adapter_error + http_response" where
  "adapter_send w client r =
     (case aw_send w client r of
        Inl e \<Rightarrow> Inl (new_adapter_error Network e)
      | Inr resp \<Rightarrow> if is_success (hs_status resp) then Inr resp else Inl (upstream_status_error (hs_status resp)))"

definition response_json :: "adapter_world \<Rightarrow> http_response \<Rightarrow> adapter_error + json" where
  "response_json w resp =
     (case hs_bytes resp of
        Inl e \<Rightarrow> Inl (new_adapter_error Network e)
      | Inr full \<Rightarrow> (case js_from_str (aw_json w) full of
            Some v \<Rightarrow> Inr v | None \<Rightarrow> Inl (new_adapter_error InvalidRequest (aw_json_error w full))))"

definition adapter_execute ::
  "adapter_world \<Rightarrow> ('d, 'f) composed_adapter \<Rightarrow> json ai_request \<Rightarrow> string \<Rightarrow> credential_lease option \<Rightarrow> string option
     \<Rightarrow> http_request list \<times> (adapter_error + event_stream)" where
  "adapter_execute w ad req model lease egress_id =
     (let codec = ca_codec ad; stream = wc_upstream_stream codec (req_stream req); url = wc_url codec (ca_base_url ad) model stream
      in case wc_request_body codec req model (req_stream req) of
           Inl e \<Rightarrow> ([], Inl (new_adapter_error InvalidRequest e))
         | Inr body \<Rightarrow>
             (case adapter_guard (aw_url w) (ca_block_private_networks ad) url of
                Inl e \<Rightarrow> ([], Inl e)
              | Inr _ \<Rightarrow>
                  (case egress_path_for (ca_egress ad) egress_id of
                     None \<Rightarrow> ([], Inl (new_adapter_error Unknown ''direct path always present''))
                   | Some epath \<Rightarrow>
                       let r = adapter_request ad epath lease ''POST'' url (js_to_string (aw_json w) body) (stream_headers ad stream)
                       in ([r], try_with (adapter_send w (ep_client epath) r)
                            (\<lambda>resp. if stream
                               then Inr (stream_loop (tr_push (ca_transport ad)) codec (tr_framer (ca_transport ad)) (wc_decoder codec model) (hs_chunks resp))
                               else try_with (response_json w resp)
                                 (\<lambda>v. try_with (map_sum (new_adapter_error InvalidRequest) (\<lambda>x. x) (wc_parse_response codec v))
                                    (\<lambda>canonical. Inr (map Inr (response_to_events (aw_json w) canonical)))))))))"

text \<open>Embeddings and the list of models go the same way.\<close>

definition adapter_json_call ::
  "adapter_world \<Rightarrow> ('d, 'f) composed_adapter \<Rightarrow> string \<Rightarrow> string \<Rightarrow> string \<Rightarrow> (string \<times> string) list \<Rightarrow> credential_lease option \<Rightarrow> string option
     \<Rightarrow> http_request list \<times> (adapter_error + json)" where
  "adapter_json_call w ad verb url body first lease egress_id =
     (case adapter_guard (aw_url w) (ca_block_private_networks ad) url of
        Inl e \<Rightarrow> ([], Inl e)
      | Inr _ \<Rightarrow>
          (case egress_path_for (ca_egress ad) egress_id of
             None \<Rightarrow> ([], Inl (new_adapter_error Unknown ''direct path always present''))
           | Some epath \<Rightarrow>
               let r = adapter_request ad epath lease verb url body first
               in ([r], try_with (adapter_send w (ep_client epath) r)
                    (\<lambda>resp. map_sum (\<lambda>e. e\<lparr>ae_class := InvalidRequest\<rparr>) (\<lambda>v. v) (response_json w resp)))))"

definition adapter_embeddings ::
  "adapter_world \<Rightarrow> ('d, 'f) composed_adapter \<Rightarrow> json \<Rightarrow> credential_lease option \<Rightarrow> string option
     \<Rightarrow> http_request list \<times> (adapter_error + json)" where
  "adapter_embeddings w ad body lease egress_id =
     (case wc_embeddings_url (ca_codec ad) (ca_base_url ad) of
        None \<Rightarrow> ([], Inl (new_adapter_error UnsupportedCapability ''embeddings not supported by this wire format''))
      | Some url \<Rightarrow> adapter_json_call w ad ''POST'' url (js_to_string (aw_json w) body)
          ([(''content-type'', ''application/json'')] @ wc_headers (ca_codec ad)) lease egress_id)"

definition adapter_list_models ::
  "adapter_world \<Rightarrow> ('d, 'f) composed_adapter \<Rightarrow> credential_lease option \<Rightarrow> string option
     \<Rightarrow> http_request list \<times> (adapter_error + string list)" where
  "adapter_list_models w ad lease egress_id =
     (case wc_models_url (ca_codec ad) (ca_base_url ad) of
        None \<Rightarrow> ([], Inl (new_adapter_error UnsupportedCapability ''model listing not supported by this wire format''))
      | Some url \<Rightarrow>
          (case adapter_json_call w ad ''GET'' url [] (wc_headers (ca_codec ad)) lease egress_id of
             (rs, result) \<Rightarrow> (rs, try_with result
               (\<lambda>v. map_sum (new_adapter_error InvalidRequest) (\<lambda>x. x) (wc_parse_models (ca_codec ad) v)))))"

definition adapter_request_warnings :: "('d, 'f) composed_adapter \<Rightarrow> json ai_request \<Rightarrow> string \<Rightarrow> string list" where
  "adapter_request_warnings ad req model =
     map (\<lambda>warning. wc_id (ca_codec ad) @ '': '' @ warning) (wc_request_warnings (ca_codec ad) req model)"

end
