(* ===== verification/Openai_Wire.thy ===== *)
theory Openai_Wire
  imports Openai_Facts Wire_Facts
begin

text \<open>
  The codec and the framer together: the bytes the gateway writes for a Chat Completions client,
  read by a gateway behind it.
\<close>

section \<open>The bytes of a stream\<close>

fun openai_stream_bytes :: "json json_api \<Rightarrow> openai_encoder \<Rightarrow> stream_event list \<Rightarrow> string" where
  "openai_stream_bytes js e [] = openai_done"
| "openai_stream_bytes js e (ev # evs) = (case openai_encode js e ev of (e', fs) \<Rightarrow> concat fs @ openai_stream_bytes js e' evs)"

lemma stream_bytes_payloads:
  "openai_stream_bytes js e evs = concat (map (sse_data js) (openai_stream_payloads e evs)) @ openai_done"
  by (induction evs arbitrary: e) (simp_all add: openai_encode_def split: prod.split)

text \<open>No frame of the encoder looks like an upstream error.\<close>

lemma chunk_no_error: "json_get (openai_chunk e ch u) ''error'' = None"
  by (simp add: openai_chunk_def)

lemma payloads_no_error: "v \<in> set (snd (openai_payloads e ev)) \<Longrightarrow> json_get v ''error'' = None"
  by (cases ev) (auto simp: chunk_no_error Let_def split: if_splits)

lemma stream_no_error: "v \<in> set (openai_stream_payloads e evs) \<Longrightarrow> json_get v ''error'' = None"
proof (induction evs arbitrary: e)
  case (Cons ev evs)
  obtain e' vs where "openai_payloads e ev = (e', vs)" by fastforce
  with Cons payloads_no_error [of v e ev] show ?case by auto
qed simp

section \<open>Gateway behind gateway\<close>

text \<open>
  Two gateways in a row. Events that Chat Completions can express are encoded to bytes by one
  gateway; the network delivers the bytes in chunks of any size that do not cut a character; the
  other gateway's framer and decoder read them without an error, and the response it collects is the
  response the first one would have collected from the events. Of \<open>serde_json\<close> only its documented
  behaviour on the objects that were written is used.
\<close>

theorem openai_bytes_roundtrip:
  assumes "chat_events {} evs"
    and "list_all (compact js) (openai_stream_payloads (new_openai_encoder i m created) evs)"
    and "concat chunks = openai_stream_bytes js (new_openai_encoder i m created) evs"
    and "list_all clean_chunk chunks" and "length (concat chunks) \<le> max_sse_buffer_bytes"
  shows "\<exists>vs. sse_run js jerr [] chunks = (vs, None)
    \<and> collect_response js (map Inr (openai_decode_frames new_openai_decoder vs)) rid model mx =
        collect_response js (map Inr evs) rid model mx"
proof -
  let ?vs = "openai_stream_payloads (new_openai_encoder i m created) evs"
  have "list_all (\<lambda>v. compact js v \<and> json_get v ''error'' = None) ?vs"
    using assms(2) stream_no_error by (auto simp: list_all_iff)
  from sse_reads_back [OF this assms(3) [unfolded stream_bytes_payloads] assms(4,5)]
    openai_stream_roundtrip [OF assms(1)]
  show ?thesis by blast
qed

text \<open>One delta, the bytes one at a time.\<close>

definition one_chunk :: json where
  "one_chunk = openai_chunk (new_openai_encoder ''i'' ''m'' 0) (delta_choice (jobj [(''content'', JString ''hi'')]) JNull) None"

definition one_json :: "json json_api" where
  "one_json = \<lparr>js_null = JNull, js_string = JString, js_from_str = (\<lambda>_. Some one_chunk), js_to_string = (\<lambda>_. ''{}''),
     js_as_str = as_str, js_as_object = as_object\<rparr>"

definition one_stream :: "string list" where
  "one_stream = map (\<lambda>c. [c]) (''data: {}'' @ [CHR 0x0A, CHR 0x0A] @ openai_done)"

lemma one_stream_sent:
  shows "list_all (compact one_json) (openai_stream_payloads (new_openai_encoder ''i'' ''m'' 0) [EvTextDelta ''hi''])"
    and "concat one_stream = openai_stream_bytes one_json (new_openai_encoder ''i'' ''m'' 0) [EvTextDelta ''hi'']"
    and "list_all clean_chunk one_stream" and "length (concat one_stream) \<le> max_sse_buffer_bytes"
proof -
  have split: "concat (map (\<lambda>c. [c]) s) = s" for s :: string
    by (induction s) simp_all
  show "list_all (compact one_json) (openai_stream_payloads (new_openai_encoder ''i'' ''m'' 0) [EvTextDelta ''hi''])"
    by (simp add: compact_def one_json_def) (simp add: one_chunk_def)
  show "concat one_stream = openai_stream_bytes one_json (new_openai_encoder ''i'' ''m'' 0) [EvTextDelta ''hi'']"
    unfolding split stream_bytes_payloads one_stream_def by (simp add: sse_data_def one_json_def)
  show "list_all clean_chunk one_stream"
    by (simp add: one_stream_def openai_done_def clean_chunk_def utf8_head_def byte_def)
  show "length (concat one_stream) \<le> max_sse_buffer_bytes"
    unfolding split one_stream_def by (simp add: openai_done_def max_sse_buffer_bytes_def)
qed

end
