(* ===== verification/Composed_Facts.thy ===== *)
theory Composed_Facts
  imports Composed Openai_Wire
begin

text \<open>
  What the generic adapter guarantees: where requests go, which credentials they carry, how a
  stream ends, and that a gateway behind a gateway changes nothing.
\<close>

section \<open>Outbound paths\<close>

lemma identity_headers:
  "apply_identity p r = r\<lparr>hq_headers := hq_headers r
     @ (case ep_user_agent p of Some ua \<Rightarrow> [(''user-agent'', ua)] | None \<Rightarrow> []) @ filter (\<lambda>(n, v). \<not> is_auth_header n) (ep_headers p)\<rparr>"
proof -
  have "fold (\<lambda>(name, v) r. if is_auth_header name then r else add_header (name, v) r) hs r =
      r\<lparr>hq_headers := hq_headers r @ filter (\<lambda>(n, v). \<not> is_auth_header n) hs\<rparr>" for hs and r :: http_request
    by (induction hs arbitrary: r) (auto simp: add_header_def)
  then show ?thesis
    by (simp add: apply_identity_def add_header_def split: option.split)
qed

lemma add_egress_direct:
  assumes "add_egress env ua ca t block cfg paths = Inr paths'" and "eg_id cfg \<noteq> egress_direct"
  shows "paths' egress_direct = paths egress_direct"
  using assms by (auto simp: add_egress_def try_with_Inr split: if_splits)

text \<open>
  The pool of a configuration whose egresses do not take the reserved name always has the direct
  path, without a proxy and without an identity; whatever is not available falls back to it.
\<close>

lemma direct_path_kept:
  assumes "egress_from_config env ua ca t enabled block cfgs = Inr pool" and "list_all (\<lambda>c. eg_id c \<noteq> egress_direct) cfgs"
  shows "\<exists>client. pool_paths pool egress_direct = Some (direct_path client) \<and> hc_proxy client = None"
proof -
  obtain client paths where c: "build_client ca t None = Inr client"
    and f: "try_fold (add_egress env ua ca t block) (if enabled then cfgs else []) [egress_direct \<mapsto> direct_path client] = Inr paths"
    and pool: "pool = \<lparr>pool_paths = paths, pool_enabled = enabled\<rparr>"
    using assms(1) by (auto simp: egress_from_config_def try_with_Inr)
  have "hc_proxy client = None" using c by (auto simp: build_client_def Let_def try_with_Inr)
  moreover have "paths egress_direct = Some (direct_path client)"
    using f
  proof (rule try_fold_Inr_induct)
    show "[egress_direct \<mapsto> direct_path client] egress_direct = Some (direct_path client)" by simp
    show "paths' egress_direct = Some (direct_path client)"
      if "cfg \<in> set (if enabled then cfgs else [])" "paths0 egress_direct = Some (direct_path client)"
        "add_egress env ua ca t block cfg paths0 = Inr paths'" for cfg paths0 paths'
      using add_egress_direct [OF that(3)] that(1,2) assms(2) by (auto simp: list_all_iff split: if_splits)
  qed
  ultimately show ?thesis unfolding pool by (intro exI [of _ client]) simp
qed

lemma egress_falls_back:
  assumes "egress_from_config env ua ca t enabled block cfgs = Inr pool" and "list_all (\<lambda>c. eg_id c \<noteq> egress_direct) cfgs"
    and "\<not> enabled \<or> egress_id = None \<or> (\<exists>i. egress_id = Some i \<and> pool_paths pool i = None)"
  shows "egress_effective pool egress_id = Some egress_direct"
    and "\<exists>p. egress_path_for pool egress_id = Some p \<and> hc_proxy (ep_client p) = None \<and> ep_headers p = []"
proof -
  have "pool_enabled pool = enabled" using assms(1) by (auto simp: egress_from_config_def try_with_Inr)
  with direct_path_kept [OF assms(1,2)] assms(3)
  show "egress_effective pool egress_id = Some egress_direct"
    and "\<exists>p. egress_path_for pool egress_id = Some p \<and> hc_proxy (ep_client p) = None \<and> ep_headers p = []"
    by (auto simp: egress_effective_def egress_path_for_def direct_path_def)
qed

section \<open>Where requests go\<close>

lemma execute_sends:
  assumes "r \<in> set (fst (adapter_execute w ad req model lease egress_id))"
  obtains epath body first where "adapter_guard (aw_url w) (ca_block_private_networks ad) (hq_url r) = Inr ()"
    and "egress_path_for (ca_egress ad) egress_id = Some epath"
    and "r = adapter_request ad epath lease ''POST'' (hq_url r) body first" and "set first \<subseteq> set (stream_headers ad True) \<union> set (stream_headers ad False)"
proof -
  have url: "hq_url (adapter_request ad epath l v u b f) = u" for epath l v u b f
    by (simp add: adapter_request_def identity_headers Let_def split: prod.split)
  have "set (stream_headers ad b) \<subseteq> set (stream_headers ad True) \<union> set (stream_headers ad False)" for b
    by (cases b) auto
  with assms show ?thesis
    by (auto simp: adapter_execute_def Let_def url split: sum.splits option.splits intro!: that)
qed

lemma guard_passes: "adapter_guard ua block url = Inr u \<Longrightarrow> guard_url ua url ProviderUpstream block = Inr ()"
  by (cases "guard_url ua url ProviderUpstream block") (auto simp: adapter_guard_def)

text \<open>
  C5: with \<open>block_private_networks\<close> the adapter sends no request to an address of the blocks for private
  use, loopback and link-local addresses or to the unspecified address, of either family: every
  request \<open>execute\<close> puts on the wire went through the guard, and where the guard and the URL parser read
  the same host, none of the addresses the host stands for is in one of these blocks. Not covered, and
  let through: an IPv6 address that embeds such an IPv4 address (\<open>mapped_loopback_passes\<close>), a host that
  the two readings see differently (\<open>loopback_number_passes\<close>), and a name that resolves differently at
  the second lookup, since the resolver is one function here.
\<close>
theorem no_request_to_private_network:
  assumes "r \<in> set (fst (adapter_execute w ad req model lease egress_id))" and "ca_block_private_networks ad"
    and "ua_parse (aw_url w) (hq_url r) = Inr (Some host, port)" and "host_from_url (hq_url r) = Some h" and "to_ascii_lowercase h = host"
  shows "\<forall>ip \<in> set (reached (aw_url w) host (case port of Some p \<Rightarrow> p | None \<Rightarrow> 443)). ip_wf ip \<longrightarrow> \<not> reserved_ip ip"
proof -
  from assms(1) have "adapter_guard (aw_url w) (ca_block_private_networks ad) (hq_url r) = Inr ()"
    by (rule execute_sends)
  with assms(2) guard_passes have "guard_url (aw_url w) (hq_url r) ProviderUpstream True = Inr ()" by fastforce
  from guard_blocks_private [OF this assms(3-5)] show ?thesis using reserved_private by blast
qed

section \<open>Which credentials they carry\<close>

definition carried :: "string \<Rightarrow> (string \<times> string) list \<Rightarrow> (string \<times> string) list" where
  "carried name hs = filter (\<lambda>(n, v). to_ascii_lowercase n = name) hs"

lemma codec_headers_plain:
  "list_all (\<lambda>(n, v). \<not> is_auth_header n) (wc_headers (openai_codec js fresh))"
  "list_all (\<lambda>(n, v). \<not> is_auth_header n) (wc_headers (responses_codec js codex))"
  "list_all (\<lambda>(n, v). \<not> is_auth_header n) (wc_headers (anthropic_codec fresh))"
  "list_all (\<lambda>(n, v). \<not> is_auth_header n) (wc_headers (claude_code_codec fresh))"
  "list_all (\<lambda>(n, v). \<not> is_auth_header n) (wc_headers (bedrock_codec fresh))"
  "list_all (\<lambda>(n, v). \<not> is_auth_header n) (wc_headers (gemini_codec js fresh))"
  by (simp_all add: openai_codec_def responses_codec_def anthropic_codec_def claude_code_codec_def bedrock_codec_def gemini_codec_def
      is_auth_header_def denied_headers_def to_ascii_lowercase_def ascii_lower_char_def)

lemma request_auth_headers:
  assumes "list_all (\<lambda>(n, v). \<not> is_auth_header n) first" and "name \<in> set denied_headers"
  shows "carried name (hq_headers (adapter_request ad epath lease verb url body first)) =
    carried name (sa_headers (ca_sign ad \<lparr>sg_verb = verb, sg_host = fst (split_url url), sg_path = fst (snd (split_url url)),
      sg_query = snd (snd (split_url url)), sg_body = body\<rparr> lease))"
proof -
  have none: "carried name hs = []" if "list_all (\<lambda>(n, v). \<not> is_auth_header n) hs" for hs
    using that assms(2) by (auto simp: carried_def filter_empty_conv list_all_iff is_auth_header_def)
  have "carried name (filter (\<lambda>(n, v). \<not> is_auth_header n) hs) = []" for hs
    by (rule none) (auto simp: list_all_iff)
  moreover have "\<not> is_auth_header ''user-agent''"
    by (simp add: is_auth_header_def denied_headers_def to_ascii_lowercase_def ascii_lower_char_def)
  then have "carried name (case ep_user_agent epath of Some ua \<Rightarrow> [(''user-agent'', ua)] | None \<Rightarrow> []) = []"
    by (intro none) (simp split: option.split)
  ultimately show ?thesis
    using none [OF assms(1)] by (simp add: adapter_request_def identity_headers carried_def Let_def case_prod_unfold)
qed

text \<open>
  C15: an egress never sets or overrides credentials. A request of an adapter that signs with a
  bearer token carries exactly one authorization header, the token of the lease, whatever headers
  the configuration of the outbound path lists.
\<close>
theorem bearer_only_from_lease:
  assumes "r \<in> set (fst (adapter_execute w ad req model (Some lease) egress_id))"
    and "ca_sign ad = scheme_sign SchemeBearer" and "cl_auth_kind lease \<noteq> AkNone" and "cl_secret lease \<noteq> []"
    and "list_all (\<lambda>(n, v). \<not> is_auth_header n) (wc_headers (ca_codec ad))"
    and "tr_stream_accept (ca_transport ad) \<in> {None, Some ''application/vnd.amazon.eventstream''}"
  shows "carried ''authorization'' (hq_headers r) = [(''authorization'', ''Bearer '' @ cl_secret lease)]"
proof -
  obtain epath body first where r: "r = adapter_request ad epath (Some lease) ''POST'' (hq_url r) body first"
    and first: "set first \<subseteq> set (stream_headers ad True) \<union> set (stream_headers ad False)"
    using assms(1) by (rule execute_sends)
  have "list_all (\<lambda>(n, v). \<not> is_auth_header n) first"
    using first assms(5)
    by (fastforce simp: stream_headers_def list_all_iff is_auth_header_def denied_headers_def to_ascii_lowercase_def ascii_lower_char_def
        split: option.splits)
  then have "carried ''authorization'' (hq_headers r) = carried ''authorization'' (sa_headers (scheme_sign SchemeBearer
      \<lparr>sg_verb = ''POST'', sg_host = fst (split_url (hq_url r)), sg_path = fst (snd (split_url (hq_url r))),
       sg_query = snd (snd (split_url (hq_url r))), sg_body = body\<rparr> (Some lease)))"
    by (subst r, subst request_auth_headers) (simp_all add: denied_headers_def assms(2))
  then show ?thesis
    using assms(3,4)
    by (simp add: scheme_sign_def no_additions_def carried_def to_ascii_lowercase_def ascii_lower_char_def)
qed

section \<open>How a stream ends\<close>

text \<open>An error is the last item, and nothing but an error ends a stream early.\<close>

lemma stream_loop_shape:
  obtains evs where "stream_loop push codec f d chunks = map Inr evs"
  | evs e where "stream_loop push codec f d chunks = map Inr evs @ [Inl e]"
proof -
  have "(\<exists>evs. stream_loop push codec f d chunks = map Inr evs) \<or> (\<exists>evs e. stream_loop push codec f d chunks = map Inr evs @ [Inl e])"
  proof (induction push codec f d chunks rule: stream_loop.induct)
    case (1 push codec f d)
    show ?case by auto
  next
    case (2 push codec f d u chunks)
    have "stream_loop push codec f d (Inl u # chunks) = map Inr [] @ [Inl (new_adapter_error Network ''stream byte error'')]" by simp
    then show ?case by blast
  next
    case (3 push codec f d bs chunks)
    obtain res f' where push: "push f bs = (res, f')" by fastforce
    show ?case
    proof (cases res)
      case (Inl e)
      then have "stream_loop push codec f d (Inr bs # chunks) = map Inr [] @ [Inl (stream_framing_error e)]"
        by (simp add: push)
      then show ?thesis by blast
    next
      case (Inr vs)
      obtain evs d' where dec: "decode_all (wc_decode codec) vs d = (evs, d')" by fastforce
      have step: "stream_loop push codec f d (Inr bs # chunks) = map Inr evs @ stream_loop push codec f' d' chunks"
        by (simp add: push Inr dec)
      from 3 [OF push [symmetric] Inr dec [symmetric] refl] show ?thesis
        unfolding step by (metis append.assoc map_append)
    qed
  qed
  with that show ?thesis by blast
qed

lemma decode_all_openai:
  assumes "decode_all openai_decode vs d = (evs, d')"
  shows "openai_decode_frames d (vs @ vs') = evs @ openai_decode_frames d' vs'"
  using assms by (induction vs arbitrary: d evs) (auto split: prod.splits)

text \<open>Behind a framer that reads without an error, the task yields the decoder's events.\<close>

lemma stream_loop_reads:
  assumes "sse_run js jerr f chunks = (vs, None)"
  shows "stream_loop (sse_push js jerr) (openai_codec js fresh) f d (map Inr chunks) = map Inr (openai_decode_frames d vs)"
  using assms
proof (induction chunks arbitrary: f d vs)
  case Nil
  then show ?case by (simp add: openai_codec_def)
next
  case (Cons c chunks)
  from Cons.prems obtain vs1 f' vs2 where push: "sse_push js jerr f c = (Inr vs1, f')"
    and run: "sse_run js jerr f' chunks = (vs2, None)" and vs: "vs = vs1 @ vs2"
    by (auto split: prod.splits sum.splits)
  obtain evs d' where dec: "decode_all openai_decode vs1 d = (evs, d')" by fastforce
  then have "decode_all (wc_decode (openai_codec js fresh)) vs1 d = (evs, d')" by (simp add: openai_codec_def)
  with push Cons.IH [OF run, of d'] decode_all_openai [OF dec, of vs2] show ?case
    by (simp add: vs)
qed

section \<open>Gateway behind gateway\<close>

text \<open>
  C10: an adapter in front of another gateway, for the content a Chat Completions stream carries: text,
  tool calls, the finish reason and the plain token counts. The events are any sequence of these, each
  tool call opened once before its arguments, usage without cached or reasoning tokens, and no
  reasoning, images, citations, server tools or errors, which the encoder of that interface drops.
  The upstream answers a streamed request with the bytes its encoder writes for them, at most
  1 MiB in all, delivered in chunks of any size that do not cut a character. Then \<open>execute\<close> sends one
  request and yields a stream without an error, and the response collected from it is the response
  the upstream would have collected from the events: for this content framer, decoder and encoder
  compose without loss. Of \<open>serde_json\<close> only its documented behaviour on the objects that were written
  is used.
\<close>
theorem adapter_chain_faithful:
  assumes "ca_codec ad = openai_codec js fresh" and "ca_transport ad = http_transport js jerr"
    and "req_stream req" and "request_to_openai_wire js req model True = Inr body"
    and "adapter_guard (aw_url w) (ca_block_private_networks ad) (trim_slashes (ca_base_url ad) @ ''/chat/completions'') = Inr ()"
    and "egress_path_for (ca_egress ad) egress_id = Some epath"
    and "\<forall>r. \<exists>resp. aw_send w (ep_client epath) r = Inr resp \<and> is_success (hs_status resp) \<and> hs_chunks resp = map Inr chunks"
    and "concat chunks = openai_stream_bytes js (new_openai_encoder i m created) evs"
    and "chat_events {} evs" and "list_all (compact js) (openai_stream_payloads (new_openai_encoder i m created) evs)"
    and "list_all clean_chunk chunks" and "length (concat chunks) \<le> max_sse_buffer_bytes"
  shows "\<exists>r out. adapter_execute w ad req model lease egress_id = ([r], Inr (map Inr out))
    \<and> collect_response js (map Inr out) rid mo mx = collect_response js (map Inr evs) rid mo mx"
proof -
  from openai_bytes_roundtrip [OF assms(9,10,8,11,12)] obtain vs where run: "sse_run js jerr [] chunks = (vs, None)"
    and same: "collect_response js (map Inr (openai_decode_frames new_openai_decoder vs)) rid mo mx =
      collect_response js (map Inr evs) rid mo mx" by metis
  define r where "r = adapter_request ad epath lease ''POST'' (trim_slashes (ca_base_url ad) @ ''/chat/completions'')
    (js_to_string (aw_json w) body) (stream_headers ad True)"
  from assms(7) obtain resp where sent: "aw_send w (ep_client epath) r = Inr resp" "is_success (hs_status resp)"
    "hs_chunks resp = map Inr chunks" by blast
  have "adapter_execute w ad req model lease egress_id =
      ([r], Inr (stream_loop (sse_push js jerr) (openai_codec js fresh) [] new_openai_decoder (map Inr chunks)))"
    unfolding adapter_execute_def assms(1,2)
    using assms(3,4,5,6) sent
    by (simp add: openai_codec_def http_transport_def adapter_send_def r_def [symmetric])
  with stream_loop_reads [OF run] same show ?thesis by metis
qed

section \<open>A gateway at work\<close>

text \<open>
  One deployment for the theorems above: a name that resolves to a public address, an outbound path
  whose configuration tries to set credentials, and an upstream that streams one delta byte by byte.
\<close>

definition edge_url :: string where
  "edge_url = ''https://Api.x/v1/chat/completions''"

definition edge_path :: egress_path where
  "edge_path = \<lparr>ep_id = ''eu'',
     ep_client = \<lparr>hc_connect_ms = 10000, hc_read_ms = 300000, hc_follow_redirects = False, hc_proxy = Some ''http://proxy''\<rparr>,
     ep_user_agent = Some ''edge'', ep_headers = [(''Authorization'', ''Bearer other''), (''x-tag'', ''t'')]\<rparr>"

definition edge_adapter :: "(openai_decoder, string) composed_adapter" where
  "edge_adapter = \<lparr>ca_codec = openai_codec one_json ''f'', ca_sign = scheme_sign SchemeBearer,
     ca_transport = http_transport one_json (\<lambda>_. []), ca_base_url = ''https://Api.x/v1/'',
     ca_egress = \<lparr>pool_paths = [''eu'' \<mapsto> edge_path], pool_enabled = True\<rparr>, ca_block_private_networks = True\<rparr>"

definition edge_world :: adapter_world where
  "edge_world = \<lparr>aw_url = \<lparr>ua_parse = (\<lambda>_. Inr (Some ''api.x'', None)), ua_lookup = (\<lambda>_ _. Inr [V4 [8, 8, 8, 8]])\<rparr>,
     aw_send = (\<lambda>_ _. Inr \<lparr>hs_status = 200, hs_chunks = map Inr one_stream, hs_bytes = Inl []\<rparr>),
     aw_json = one_json, aw_json_error = (\<lambda>_. [])\<rparr>"

definition edge_request :: "json ai_request" where
  "edge_request = (new_request ''r'' ''chat'' [\<lparr>msg_role = User, msg_content = [CpText ''hi''], msg_cache_hint = None\<rparr>])
     \<lparr>req_stream := True\<rparr>"

lemma edge_host: "host_from_url edge_url = Some ''Api.x''" "to_ascii_lowercase ''Api.x'' = ''api.x''"
  by (simp_all add: edge_url_def host_from_url_def starts_with_def rsplit_once_def before_char_def to_ascii_lowercase_def
      ascii_lower_char_def Let_def char_of_def bit_0)

lemma edge_guard: "adapter_guard (aw_url edge_world) (ca_block_private_networks edge_adapter) edge_url = Inr ()"
  by (simp add: adapter_guard_def guard_url_def guard_literal_url_def private_url_reason_def edge_host sample_not_ip
      str_ends_with_def starts_with_def private_ip_reason_def edge_world_def edge_adapter_def)

lemma edge_target: "trim_slashes (ca_base_url edge_adapter) @ ''/chat/completions'' = edge_url"
  by (simp add: edge_adapter_def trim_slashes_def edge_url_def)

lemma edge_egress: "egress_path_for (ca_egress edge_adapter) (Some ''eu'') = Some edge_path"
  by (simp add: edge_adapter_def egress_path_for_def)

lemma edge_body: "\<exists>body. request_to_openai_wire one_json edge_request ''up'' True = Inr body"
  by (simp add: request_to_openai_wire_def edge_request_def new_request_def validate_canonical_def
      openai_wire_message_def content_parts_to_openai_message_content_def reject_image_parts_def Let_def)

lemma edge_sends:
  obtains body where "fst (adapter_execute edge_world edge_adapter edge_request ''up'' lease (Some ''eu'')) =
    [adapter_request edge_adapter edge_path lease ''POST'' edge_url body (stream_headers edge_adapter True)]"
proof -
  obtain body where "request_to_openai_wire one_json edge_request ''up'' True = Inr body" using edge_body ..
  moreover have "ca_codec edge_adapter = openai_codec one_json ''f''" "req_stream edge_request"
    by (simp_all add: edge_adapter_def edge_request_def)
  ultimately have "fst (adapter_execute edge_world edge_adapter edge_request ''up'' lease (Some ''eu'')) =
    [adapter_request edge_adapter edge_path lease ''POST'' edge_url (js_to_string (aw_json edge_world) body) (stream_headers edge_adapter True)]"
    unfolding adapter_execute_def by (simp add: openai_codec_def edge_target edge_guard edge_egress Let_def)
  then show ?thesis by (rule that)
qed

theorem no_request_to_private_network_witness:
  "\<exists>r. fst (adapter_execute edge_world edge_adapter edge_request ''up'' None (Some ''eu'')) = [r]
     \<and> (\<forall>ip \<in> set (reached (aw_url edge_world) ''api.x'' (case None of Some p \<Rightarrow> p | None \<Rightarrow> 443)). ip_wf ip \<longrightarrow> \<not> reserved_ip ip)"
proof -
  obtain body where sent: "fst (adapter_execute edge_world edge_adapter edge_request ''up'' None (Some ''eu'')) =
      [adapter_request edge_adapter edge_path None ''POST'' edge_url body (stream_headers edge_adapter True)]"
    by (rule edge_sends)
  define r where "r = adapter_request edge_adapter edge_path None ''POST'' edge_url body (stream_headers edge_adapter True)"
  have url: "hq_url r = edge_url" by (simp add: r_def adapter_request_def identity_headers Let_def split: prod.split)
  have "ua_parse (aw_url edge_world) (hq_url r) = Inr (Some ''api.x'', None)" "ca_block_private_networks edge_adapter"
    by (simp_all add: edge_world_def edge_adapter_def)
  with no_request_to_private_network [of r edge_world edge_adapter edge_request "''up''" None "Some ''eu''" "''api.x''" None "''Api.x''"]
    sent edge_host
  show ?thesis by (auto simp: url r_def [symmetric])
qed

theorem bearer_only_from_lease_witness:
  "\<exists>r. fst (adapter_execute edge_world edge_adapter edge_request ''up'' (Some (lease_bearer ''a'' ''key'')) (Some ''eu'')) = [r]
     \<and> carried ''authorization'' (hq_headers r) = [(''authorization'', ''Bearer key'')]"
proof -
  obtain body where sent: "fst (adapter_execute edge_world edge_adapter edge_request ''up'' (Some (lease_bearer ''a'' ''key'')) (Some ''eu'')) =
      [adapter_request edge_adapter edge_path (Some (lease_bearer ''a'' ''key'')) ''POST'' edge_url body (stream_headers edge_adapter True)]"
    by (rule edge_sends)
  define r where "r = adapter_request edge_adapter edge_path (Some (lease_bearer ''a'' ''key'')) ''POST'' edge_url body (stream_headers edge_adapter True)"
  have "carried ''authorization'' (hq_headers r) = [(''authorization'', ''Bearer '' @ cl_secret (lease_bearer ''a'' ''key''))]"
  proof (rule bearer_only_from_lease)
    show "r \<in> set (fst (adapter_execute edge_world edge_adapter edge_request ''up'' (Some (lease_bearer ''a'' ''key'')) (Some ''eu'')))"
      by (simp add: sent r_def)
    show "ca_sign edge_adapter = scheme_sign SchemeBearer" by (simp add: edge_adapter_def)
    show "list_all (\<lambda>(n, v). \<not> is_auth_header n) (wc_headers (ca_codec edge_adapter))"
      unfolding edge_adapter_def by (simp add: codec_headers_plain)
    show "tr_stream_accept (ca_transport edge_adapter) \<in> {None, Some ''application/vnd.amazon.eventstream''}"
      by (simp add: edge_adapter_def http_transport_def)
  qed (simp_all add: lease_bearer_def)
  with sent show ?thesis by (simp add: r_def lease_bearer_def)
qed

theorem adapter_chain_faithful_witness:
  "\<exists>r out. adapter_execute edge_world edge_adapter edge_request ''up'' None (Some ''eu'') = ([r], Inr (map Inr out))
    \<and> collect_response one_json (map Inr out) ''c'' ''m'' None = collect_response one_json (map Inr [EvTextDelta ''hi'']) ''c'' ''m'' None"
proof -
  obtain body where body: "request_to_openai_wire one_json edge_request ''up'' True = Inr body" using edge_body ..
  show ?thesis
  proof (rule adapter_chain_faithful [OF _ _ _ body _ edge_egress _ one_stream_sent(2) _ one_stream_sent(1,3,4)])
    show "adapter_guard (aw_url edge_world) (ca_block_private_networks edge_adapter)
        (trim_slashes (ca_base_url edge_adapter) @ ''/chat/completions'') = Inr ()"
      unfolding edge_target by (rule edge_guard)
    show "\<forall>r. \<exists>resp. aw_send edge_world (ep_client edge_path) r = Inr resp \<and> is_success (hs_status resp) \<and> hs_chunks resp = map Inr one_stream"
      by (simp add: edge_world_def is_success_def)
  qed (simp_all add: edge_adapter_def edge_request_def)
qed

end
