(* ===== verification/Spec2Isabelle.thy ===== *)
theory Spec2Isabelle
  imports Scorecard_Replay Stream_Facts Provider_Facts Resolver_Facts Gateway_Log Edge_Flights Entry
    Openai_Relay Event_Frames Anthropic_Facts Gemini_Facts Responses_Facts Config_Facts
begin

text \<open>
  Switchback is a gateway for language-model requests: it accepts a request in one of several
  wire formats, turns it into a canonical form, chooses an upstream target and one of the
  operator's accounts for it, falls back to others when an attempt fails, and keeps the books.
  The theories below model the decision-making core of that program, function by function, and
  prove what it promises.

  \<^bold>\<open>How a request runs, and which theory models which step.\<close>
  \<^item> \<open>Auth\<close> (\<open>sb-server/auth.rs\<close>, \<open>tenancy.rs\<close>, the API keys of \<open>config.rs\<close>) authenticates the
    client and checks its role; \<open>Entry\<close> (\<open>handlers/common.rs\<close>) turns principal, headers and body
    into the request.
  \<^item> \<open>Edge\<close> and \<open>Edge_Flights\<close> (\<open>sb-server/idempotency.rs\<close>, \<open>admission.rs\<close>, \<open>tenancy.rs\<close>,
    \<open>lease.rs\<close>, in the order of \<open>handlers/openai.rs\<close>) claim the idempotency key, wait for admission and
    take a slot of the tenant, and give everything back; \<open>Coordination\<close> (\<open>sb-store/lib.rs\<close>) is the
    tables behind them.
  \<^item> \<open>Pipeline\<close> (\<open>sb-runtime/execute.rs\<close>, \<open>usage.rs\<close>, \<open>denial.rs\<close>) is the whole execution of a
    request: budget gates, \<open>Compress\<close> (\<open>sb-compress\<close>), \<open>Plugins\<close> (\<open>sb-plugin\<close>), the client profile,
    the cache lookup of \<open>Execution_Meta\<close> (\<open>sb-core/execution.rs\<close>, \<open>sb-runtime/execution_meta.rs\<close>),
    the plan, and then the race or the loop.
  \<^item> \<open>Profiles\<close> (\<open>sb-runtime/profiles.rs\<close>) takes a model name to candidates, applies the client
    profile, the tenant's scopes and the combo rotation, and calls the router.
  \<^item> \<open>Router\<close> (\<open>sb-router/lib.rs\<close>) filters, scores and orders the candidates and explains itself.
  \<^item> \<open>Accounts\<close>, \<open>Provider_Config\<close> and \<open>Resolver\<close> (\<open>sb-credentials/account.rs\<close>,
    \<open>resolver.rs\<close>) build the account pools and select an account; \<open>Circuit_Breaker\<close> and
    \<open>Availability\<close> (\<open>breaker.rs\<close>, \<open>availability.rs\<close>) are the state that the selection reads.
  \<^item> \<open>Attempt\<close> and \<open>Execute\<close> (\<open>sb-runtime/finish_attempt.rs\<close>, \<open>helpers.rs\<close>, \<open>outcome.rs\<close>,
    \<open>execute.rs\<close>) are the two-level fallback loop over targets and accounts with
    its retries and its bookkeeping; \<open>Hedge\<close> (\<open>hedge.rs\<close>) is the race that may precede it.
  \<^item> \<open>Composed\<close> (\<open>sb-adapters/composed.rs\<close>) is the adapter that carries an attempt to its upstream:
    it asks \<open>Codecs\<close> (\<open>codec.rs\<close>) for URL, headers, body and decoder, lets \<open>Net_Guard\<close>
    (\<open>sb-net/lib.rs\<close>, the address tests of \<open>config.rs\<close>) refuse private addresses, takes the path and
    the signature from \<open>Egress\<close> (\<open>egress.rs\<close>, \<open>signer.rs\<close>, \<open>sigv4.rs\<close>) and reads the answer through
    \<open>Wire_Framing\<close> (\<open>transport.rs\<close>, \<open>event_stream.rs\<close>).
  \<^item> \<open>Openai_Chat\<close>, \<open>Anthropic_Messages\<close> with \<open>Anthropic_Serving\<close>, \<open>Responses\<close> with
    \<open>Responses_Serving\<close>, \<open>Gemini\<close> and \<open>Schema_Downlevel\<close> (\<open>sb-protocols/openai.rs\<close>, \<open>anthropic.rs\<close>,
    \<open>responses.rs\<close>, \<open>gemini.rs\<close>, \<open>schema.rs\<close>) translate between the wire formats and the canonical
    form, in both directions, as values and as streams; \<open>Json\<close> is \<open>serde_json::Value\<close>.
  \<^item> \<open>Stream_Events\<close> (\<open>collect.rs\<close>, \<open>stream.rs\<close>, \<open>sb-adapter/lib.rs\<close>) collects, replays and meters
    event streams.
  \<^item> \<open>Scorecard_Entry\<close> and \<open>Scorecard\<close> (\<open>scorecard/\<close>) are the rolling outcome statistics that
    demote failing targets, with their persistence.
  \<^item> \<open>Config_Validation\<close> (\<open>Config::semantic_problems\<close> of \<open>config.rs\<close>) is the check that every load and
    every publish of a configuration runs.
  \<^item> \<open>Registry\<close> (\<open>sb-adapters/registry.rs\<close>, \<open>latency.rs\<close>) builds the targets and the cost index from
    the configuration and attributes costs.
  \<^item> \<open>Error_Class\<close>, \<open>Canonical_IR\<close>, \<open>Exec_Target\<close>, \<open>Routing_Types\<close> and \<open>Catalog\<close> are the
    vocabulary of \<open>sb-core\<close> (\<open>error.rs\<close>, \<open>ir.rs\<close>, \<open>target.rs\<close>, \<open>routing.rs\<close>,
    \<open>catalog.rs\<close>): error classes with their fallback table, requests, messages and stream
    events, targets with capabilities and prices, routing policies and decisions.
  \<^item> \<open>Prelude\<close>, \<open>Ordered_Map\<close>, \<open>Binary_Float\<close> and \<open>Text_Lines\<close> are shared: result types, Rust
    integer operations, string and line functions, the B-tree map and binary64 arithmetic.

  \<^bold>\<open>What the lemma groups show.\<close> \<open>Gateway\<close> and this theory: from the presented key to the last
  dispatch a request stays within the policies of its tenant, under every schedule of a race, and a
  refused request leaves only its denial; \<open>Pipeline_Facts\<close> carries the proofs. \<open>Gateway_Log\<close>: how often
  and in which order a whole request dispatches, a race included, what is final for it, and that
  every attempt is finished exactly once. \<open>Circuit_Breaker\<close> and \<open>Availability\<close>: which history of
  outcomes takes a provider, an account or one model of it out of service, and for how long.
  \<open>Net_Guard\<close>: the address tests against the reserved blocks, written out. \<open>Edge_Flights\<close>:
  concurrent requests leak neither claim nor permit nor slot, keep the limits, and never evade a
  required store. \<open>Coordination\<close>: limits, single flight and final replies for any interleaving of
  gateways that share a store. \<open>Auth\<close>: the gate fails closed. \<open>Compress_Facts\<close>: compression only
  shrinks and does not change the plan. \<open>Router_Facts\<close> and \<open>Router_Plan\<close>: a plan holds exactly the
  candidates that pass the hard filters, in the order the strategy promises, with every other
  candidate explained. \<open>Provider_Facts\<close> and \<open>Resolver_Facts\<close>: pools are well formed, and a
  selection is permitted, sticky and fair. \<open>Stream_Facts\<close>: collection is faithful and a metered
  stream is reported once. \<open>Scorecard_Facts\<close> and \<open>Scorecard_Replay\<close>: the invariant of the
  scorecard, what demotes and what recovers a target, and that replay and persistence lose
  nothing. \<open>Execute_Facts\<close>: the loop stays within the scopes and the plan, is bounded, finishes
  every attempt exactly once and stops at a final outcome. \<open>Hedge\<close>: the same accounting for the
  race, under every schedule. \<open>Registry_Facts\<close> and \<open>Profiles_Facts\<close>: prices, scopes and the vision
  degradation. \<open>Composed_Facts\<close>: where requests go, which credentials they carry, and that a gateway
  behind a gateway loses nothing of a stream; it rests on \<open>Openai_Facts\<close> (responses and streams
  survive the codec), \<open>Openai_Wire\<close> and \<open>Wire_Facts\<close> (bytes cut anywhere between characters are read
  back). \<open>Openai_Relay\<close>: a relayed Chat Completions request is the request. \<open>Event_Frames\<close>: the binary
  framing. \<open>Anthropic_Facts\<close>: the served stream follows the protocol of the Messages API.
  \<open>Gemini_Facts\<close>: streamed and whole responses agree. \<open>Schema_Facts\<close>: downleveled schemas are in the
  dialect of their target. \<open>Responses_Facts\<close>: the final frame sums up the stream. \<open>Config_Facts\<close>: a
  configuration without problems starts, serves the targets it names and does not depend on the order
  of its routes. Each of these also
  states, as lemmas, the inputs on which the code falls short of that.

  \<^bold>\<open>Conventions.\<close> Integers keep their width (\<open>u32\<close>, \<open>u64\<close> are words, so they wrap or saturate
  as written); \<open>usize\<close>, which counts items in memory, is a natural number. Instants and
  durations are natural numbers of milliseconds, and every reading of the clock is a value of
  the clock parameter, so nothing assumes that two readings agree. Binary64 arithmetic rounds
  to nearest even (\<open>Binary_Float\<close>). A string is the list of its UTF-8 bytes; where a component trims
  or cuts text by characters, \<open>Text_Lines\<close> knows the encodings of white space, elsewhere case folding
  is modelled on ASCII. A hash map is a function or, where its order can be observed,
  an association list. A method that locks its state, and a transaction of the store, is one
  atomic operation; poisoned locks are not modelled. Code outside the repository is a parameter: the
  text side of the JSON library (\<open>json_api\<close>), SHA-256, the host's files and environment (\<open>host\<close>), the token services
  (\<open>live_tokens\<close>), the WebAssembly guest, the upstreams (\<open>world\<close>, \<open>gateway_world\<close>) and the faults of
  the store (\<open>edge_env\<close>). All loops are total: the account loop runs on the set of accounts not yet
  tried and the retry loop on the retries left, so no fuel is needed; the waits for admission and the
  hedge race are step relations.

  \<^bold>\<open>Not modelled.\<close> The TLS proxy, the control plane and the command line (I/O around this core);
  token refresh over the network, vault and keychain; migrations and the other tables of the SQLite
  store, the ledger's queries and the body log; running WebAssembly; the HTTP client, the resolver and
  the hash functions (parameters); the quality-evaluation worker; publishing of configuration
  revisions. The execution loop is modelled without tracing spans, and its dispatch function is a
  parameter: the adapters of \<open>Composed\<close> are one instance of it. Hedging bypasses the account
  allow-lists of the loop; the theorem about accounts is therefore about requests that are not
  hedged, and the gap itself is a theorem of \<open>Hedge\<close>. The runs of \<open>executes\<close> are runs to their
  end: what a client that hangs up leaves behind is modelled for claims, permits and slots
  (\<open>Edge_Flights\<close>), for a race (\<open>Hedge\<close>) and for a stream (\<open>Stream_Events\<close>), but a request whose
  future is dropped between two steps of the sequential loop is not.
\<close>

section \<open>Properties that span components\<close>

text \<open>
  C35: the vision degradation keeps its promise: once the images are stripped from a request whose
  plan was degraded, every target of the plan passes all the hard filters for the request that
  is actually sent, without any relaxation.
\<close>

theorem degraded_plan_serves_stripped:
  assumes "degraded (plan_decision (plan_route req rn require cs policy :: 'rc route_plan)) ''vision_in''"
    and "c \<in> set (plan_candidates (plan_route req rn require cs policy :: 'rc route_plan))"
  shows "eligible (fst (strip_image_parts marker req)) require policy False c"
  using sent_eligible [OF refl assms(2), of marker] assms(1) by simp

text \<open>
  C1: from the key to the upstream. When tenant keys are configured, whatever a client sends, in
  headers or body, each upstream dispatch of its request, hedged or not, is to a target of the plan
  that was made for the request; the client presented a configured key, and the route of the plan and
  the provider of that target are ones its tenant may use, with an account that the tenant may use
  there. Configured plugins cannot change that. (A tenant that is not configured has no restrictions.)
\<close>

theorem key_confines_dispatches:
  assumes "au_api_keys cfg \<noteq> []" and "require_auth sha env cfg verb uri h = GatePass p"
    and "req_metadata req = []" and "try_from_config feature configs = Inr (pc_plugins pc)"
    and "executes js w gw pc scope started (entered_request headers pointer p native req) ru out ru'"
    and "(t, a) \<in> new_dispatches (ru_engine ru) (ru_engine ru')"
  shows "\<exists>k \<in> set (au_api_keys cfg). (\<exists>presented. presented_key h = Some presented \<and> api_key_matches sha env k presented)
    \<and> (\<exists>pr ru1. execute_prefix w gw pc scope (entered_request headers pointer p native req) ru = (Inr pr, ru1)
         \<and> t \<in> et_id ` set (plan_candidates (pr_plan pr))
         \<and> (\<forall>c \<in> set (plan_candidates (pr_plan pr)). et_id c = t \<longrightarrow>
              (case config_tenant (pc_snapshot pc) (ak_tenant k) of
                 Some tenant \<Rightarrow> tenant_route_allowed tenant (pr_route pr) \<and> tenant_provider_allowed tenant (et_provider_id c)
                   \<and> tenant_candidate_has_account (eg_resolver (ru_engine ru)) tenant c
               | None \<Rightarrow> True)))"
proof -
  obtain k presented where k: "k \<in> set (au_api_keys cfg)" "presented_key h = Some presented" "api_key_matches sha env k presented"
    and p: "p = \<lparr>pn_tenant = Some (ak_tenant k), pn_project = ak_project k, pn_role = ak_role k\<rparr>"
    using gate_pass_key [OF assms(1,2)] by blast
  let ?req = "entered_request headers pointer p native req"
  have wf: "bt_wf (req_metadata ?req)"
    using assms(3) by (intro entered_wf) (simp add: bt_wf_def)
  have tenant: "req_tenant ?req = Some (ak_tenant k)"
    by (simp add: p entered_tenant)
  show ?thesis
    using assms(5)
  proof (cases rule: executes_dispatches)
    case (denied e)
    with assms(6) show ?thesis
      using new_dispatches_same [OF execute_prefix_cases(2)] by blast
  next
    case (planned pr ru1)
    then have t: "t \<in> et_id ` set (plan_candidates (pr_plan pr))"
      using new_dispatches_only [OF _ assms(6)] by blast
    have "tenant_of (pc_snapshot pc) (pr_request pr) = config_tenant (pc_snapshot pc) (ak_tenant k)"
      using prepared_tenant [OF planned(1) assms(4) wf] tenant by (simp add: tenant_of_def)
    with prepared_within_policy [OF planned(1)] t k planned(1) show ?thesis
      unfolding within_policy_def by (intro bexI [OF _ k(1)] conjI exI [of _ presented] exI [of _ pr] exI [of _ ru1]) auto
  qed
qed

text \<open>A request with one remote image on a route whose only target is text-only.\<close>

definition image_request :: "unit ai_request" where
  "image_request = new_request ''r2'' ''chat''
     [\<lparr>msg_role = User, msg_content = [CpImage (RemoteUrl ''u'') None], msg_cache_hint = None\<rparr>]"

lemma image_request_eligible:
  "eligible image_request default_require default_policy relax dear_target \<longleftrightarrow> relax"
  by (simp add: image_request_def eligible_def capable_def context_admitted_def lanes_admitted_def price_admitted_def
      route_needs_of_def sample_defs requires_tools_def requires_server_tools_def requires_vision_def
      all_parts_def image_count_def Let_def)

lemma image_request_relaxed: "runs_relaxed image_request default_require default_policy [dear_target]"
proof -
  have "et_id dear_target \<in> set (vision_blocked_ids (hard_filter image_request default_require
      (route_needs_of image_request default_require) default_policy False) [dear_target])"
    by (rule relaxed_eligible_vision_blocked) (simp_all add: image_request_eligible)
  moreover have "vision_degradable image_request default_require
      (route_needs_of image_request default_require) default_policy"
    by (simp add: vision_degradable_def route_needs_of_def requires_vision_def image_count_def all_parts_def
        image_request_def sample_defs)
  ultimately show ?thesis
    unfolding runs_relaxed_def strict_survivors_def by (auto simp: image_request_eligible)
qed

theorem degraded_plan_serves_stripped_witness:
  "eligible (fst (strip_image_parts ''[image]'' image_request)) default_require default_policy False dear_target"
proof -
  let ?p = "plan_route image_request ''chat'' default_require [dear_target] default_policy :: unit route_plan"
  have "degraded (plan_decision ?p) ''vision_in''" and "mset (plan_candidates ?p) = {#dear_target#}"
    by (simp_all add: plan_degraded_iff plan_candidates_mset image_request_eligible image_request_relaxed)
  then show ?thesis
    by (intro degraded_plan_serves_stripped [where 'rc = unit and rn = "''chat''" and cs = "[dear_target]"])
      (auto simp flip: set_mset_mset)
qed

theorem key_confines_dispatches_witness:
  "tenant_provider_allowed team (et_provider_id stamped_target) \<and> tenant_candidate_has_account (two_accounts FillFirst) team stamped_target"
proof -
  let ?p = "\<lparr>pn_tenant = Some ''team'', pn_project = None, pn_role = RoleClient\<rparr>"
  obtain pr ru1 out ru' where run: "execute_prefix refusing_world open_gateway lean_pipeline None team_request idle_runtime = (Inr pr, ru1)"
    "plan_candidates (pr_plan pr) = [stamped_target]"
    "executes plain_json refusing_world open_gateway lean_pipeline None 0 team_request idle_runtime out ru'"
    "(''p/m'', ''b'') \<in> new_dispatches (ru_engine idle_runtime) (ru_engine ru')"
    by (rule lean_run)
  have same: "entered_request Map.empty Map.empty ?p None team_request = team_request"
    by (simp add: entered_request_def team_request_def new_request_def attach_session_metadata_def session_id_from_headers_def
        attach_native_execution_metadata_def observed_effort_def effort_pointers_def put_meta_def map_filter_simps Let_def)
  with run have ex: "executes plain_json refusing_world open_gateway lean_pipeline None 0
      (entered_request Map.empty Map.empty ?p None team_request) idle_runtime out ru'"
    by simp
  have meta: "req_metadata team_request = []"
    by (simp add: team_request_def new_request_def)
  have plugins: "try_from_config None [PcModelBlocklist [''dear/*'']] = Inr (pc_plugins lean_pipeline)"
    by (simp add: try_from_config_def lean_pipeline_def)
  have keys: "au_api_keys team_keys \<noteq> []"
    by (simp add: team_keys_def)
  from key_confines_dispatches [OF keys team_key_passes meta plugins ex run(4)]
  obtain k pr' ru1' where "k \<in> set (au_api_keys team_keys)"
    and prefix: "execute_prefix refusing_world open_gateway lean_pipeline None
      (entered_request Map.empty Map.empty ?p None team_request) idle_runtime = (Inr pr', ru1')"
    and t: "''p/m'' \<in> et_id ` set (plan_candidates (pr_plan pr'))"
    and all: "\<forall>c \<in> set (plan_candidates (pr_plan pr')). et_id c = ''p/m'' \<longrightarrow>
      (case config_tenant (pc_snapshot lean_pipeline) (ak_tenant k) of
         Some tenant \<Rightarrow> tenant_route_allowed tenant (pr_route pr') \<and> tenant_provider_allowed tenant (et_provider_id c)
           \<and> tenant_candidate_has_account (eg_resolver (ru_engine idle_runtime)) tenant c
       | None \<Rightarrow> True)"
    by blast
  moreover have "pr' = pr" using prefix run(1) unfolding same by simp
  moreover have "config_tenant (pc_snapshot lean_pipeline) ''team'' = Some team"
    by (simp add: config_tenant_def lean_pipeline_def lean_snapshot_def small_snapshot_def team_def)
  ultimately show ?thesis
    using run(2) by (auto simp: team_keys_def client_key_def idle_runtime_def idle_engine_def)
qed

end
